(* ===== verification/Prelude.thy ===== *)
theory Prelude
  imports Main "HOL-Library.List_Lexorder" "HOL-Library.Char_ord" "HOL-Library.Multiset"
begin

text \<open>
  Shared ground of the development: the parts of JavaScript's standard library that the server
  relies on (optional values, strings, insertion-ordered maps, stable sorting), the parameters
  that stand for code outside the repository, and the collections of simplification rules the
  component theories extend.

  A JavaScript string is a \<open>string\<close>: a list of code units, restricted to the code units
  below 256. A field written \<open>x?: T\<close> is an \<open>option\<close>.
\<close>

named_theorems store_simps \<open>unfolding rules of the store's operations\<close>
named_theorems encode_simps \<open>JSON encoders of the record types\<close>

section \<open>Parameters: code that is not in the repository\<close>

text \<open>
  \<open>sha256Hex\<close> and \<open>hmacSha256Hex\<close> stand for \<open>node:crypto\<close>, \<open>localeCompare\<close> for the collation
  of the host's ICU library, \<open>dateParse\<close> for \<open>Date.parse\<close> (milliseconds, \<open>None\<close> for
  NaN; implementation-defined outside the ISO format) and \<open>isoString\<close> for \<open>Date.toISOString\<close>.
  Laws that a property needs of them are hypotheses of that property.
\<close>

record env =
  sha256Hex :: "string \<Rightarrow> string"
  hmacSha256Hex :: "string \<Rightarrow> string \<Rightarrow> string"
  localeCompare :: "string \<Rightarrow> string \<Rightarrow> int"
  dateParse :: "string \<Rightarrow> int option"
  isoString :: "int \<Rightarrow> string"

section \<open>Optional values and truthiness\<close>

definition coalesce :: "'a option \<Rightarrow> 'a \<Rightarrow> 'a" where
  \<comment> \<open>\<open>a ?? b\<close> with a present \<open>b\<close>\<close>
  "coalesce a b = (case a of None \<Rightarrow> b | Some x \<Rightarrow> x)"

definition or_else :: "'a option \<Rightarrow> 'a option \<Rightarrow> 'a option" where
  \<comment> \<open>\<open>a ?? b\<close> with an optional \<open>b\<close>\<close>
  "or_else a b = (case a of None \<Rightarrow> b | Some x \<Rightarrow> Some x)"

definition truthy :: "string option \<Rightarrow> bool" where
  \<comment> \<open>an optional string in a boolean position: undefined and the empty string are false\<close>
  "truthy s = (case s of None \<Rightarrow> False | Some x \<Rightarrow> x \<noteq> [])"

lemma coalesce_simps [simp]: "coalesce None b = b" "coalesce (Some x) b = x"
  by (simp_all add: coalesce_def)

lemma or_else_simps [simp]: "or_else None b = b" "or_else (Some x) b = Some x"
  by (simp_all add: or_else_def)

lemma truthy_simps [simp]: "\<not> truthy None" "truthy (Some x) \<longleftrightarrow> x \<noteq> []"
  by (simp_all add: truthy_def)

lemma truthyD: "truthy s \<Longrightarrow> s \<noteq> None"
  by (cases s) auto

primrec first_of :: "(bool \<times> 'a) list \<Rightarrow> 'a option" where
  \<comment> \<open>a run of \<open>if (condition) return label\<close> statements: the first label whose condition holds\<close>
  "first_of [] = None"
| "first_of (c # cs) = (if fst c then Some (snd c) else first_of cs)"

lemma first_of_None: "first_of cs = None \<longleftrightarrow> list_all (\<lambda>c. \<not> fst c) cs"
  by (induction cs) auto

lemma first_of_in: "first_of cs = Some l \<Longrightarrow> (True, l) \<in> set cs"
  by (induction cs) (auto split: if_splits)

section \<open>Strings\<close>

definition is_ws :: "char \<Rightarrow> bool" where
  "is_ws c = ((of_char c :: nat) \<in> {9, 10, 11, 12, 13, 32, 160})"

definition js_trim :: "string \<Rightarrow> string" where
  "js_trim s = rev (dropWhile is_ws (rev (dropWhile is_ws s)))"

definition lower_char :: "char \<Rightarrow> char" where
  "lower_char c =
     (let n = (of_char c :: nat)
      in if (65 \<le> n \<and> n \<le> 90) \<or> (192 \<le> n \<and> n \<le> 222 \<and> n \<noteq> 215) then char_of (n + 32) else c)"

definition toLowerCase :: "string \<Rightarrow> string" where
  "toLowerCase s = map lower_char s"

definition startsWith :: "string \<Rightarrow> string \<Rightarrow> bool" where
  "startsWith s p = (take (length p) s = p)"

definition endsWith :: "string \<Rightarrow> string \<Rightarrow> bool" where
  "endsWith s p = (length p \<le> length s \<and> drop (length s - length p) s = p)"

fun split_on :: "char \<Rightarrow> string \<Rightarrow> string list" where
  "split_on c [] = [[]]"
| "split_on c (x # xs) =
     (if x = c then [] # split_on c xs
      else (case split_on c xs of [] \<Rightarrow> [[x]] | w # ws \<Rightarrow> (x # w) # ws))"

fun join_with :: "string \<Rightarrow> string list \<Rightarrow> string" where
  "join_with sep [] = []"
| "join_with sep [x] = x"
| "join_with sep (x # y # ys) = x @ sep @ join_with sep (y # ys)"

lemma startsWith_append [simp]: "startsWith (p @ s) p"
  by (simp add: startsWith_def)

lemma startsWithD: "startsWith s p \<Longrightarrow> \<exists>r. s = p @ r"
  unfolding startsWith_def by (metis append_take_drop_id)

section \<open>Decimal numerals\<close>

definition digit_char :: "nat \<Rightarrow> char" where
  "digit_char n = char_of (48 + n)"

fun nat_digits :: "nat \<Rightarrow> string" where
  "nat_digits n =
     (if n < 10 then [digit_char n] else nat_digits (n div 10) @ [digit_char (n mod 10)])"

declare nat_digits.simps [simp del]

lemma of_char_digit_char: "n < 10 \<Longrightarrow> (of_char (digit_char n) :: nat) = 48 + n"
  by (simp add: digit_char_def)

lemma digit_char_0 [simp]: "digit_char 0 = CHR ''0''"
  by code_simp

lemma digit_char_inj: "m < 10 \<Longrightarrow> n < 10 \<Longrightarrow> digit_char m = digit_char n \<Longrightarrow> m = n"
  by (metis add_left_cancel of_char_digit_char)

lemma nat_digits_nonempty [simp]: "nat_digits n \<noteq> []"
  by (subst nat_digits.simps) simp

lemma nat_digits_inj: "nat_digits m = nat_digits n \<Longrightarrow> m = n"
proof (induction m arbitrary: n rule: nat_digits.induct)
  case (1 m)
  have m: "nat_digits m = (if m < 10 then [digit_char m]
      else nat_digits (m div 10) @ [digit_char (m mod 10)])"
    by (rule nat_digits.simps)
  have n: "nat_digits n = (if n < 10 then [digit_char n]
      else nat_digits (n div 10) @ [digit_char (n mod 10)])"
    by (rule nat_digits.simps)
  show ?case
  proof (cases "m < 10")
    case True
    with "1.prems" m n have "n < 10"
      by (auto split: if_splits simp: append_eq_Cons_conv Cons_eq_append_conv)
    with True "1.prems" m n show ?thesis by (auto dest: digit_char_inj)
  next
    case False
    with "1.prems" m n have n10: "\<not> n < 10"
      by (auto split: if_splits simp: append_eq_Cons_conv Cons_eq_append_conv)
    with False "1.prems" m n have "nat_digits (m div 10) = nat_digits (n div 10)"
      and d: "digit_char (m mod 10) = digit_char (n mod 10)" by auto
    then have "m div 10 = n div 10" using "1.IH" False by simp
    moreover have "m mod 10 = n mod 10" using d by (auto intro: digit_char_inj)
    ultimately show ?thesis by (metis div_mult_mod_eq)
  qed
qed

lemma nat_digits_chars: "c \<in> set (nat_digits n) \<Longrightarrow> \<exists>d < 10. c = digit_char d"
proof (induction n rule: nat_digits.induct)
  case (1 n)
  show ?case
  proof (cases "n < 10")
    case True
    with "1.prems" show ?thesis by (auto simp: nat_digits.simps [of n])
  next
    case False
    with "1.prems" have "c \<in> set (nat_digits (n div 10)) \<or> c = digit_char (n mod 10)"
      by (auto simp: nat_digits.simps [of n])
    moreover have "n mod 10 < 10" by simp
    ultimately show ?thesis using "1.IH" [OF False] by blast
  qed
qed

section \<open>Insertion-ordered maps\<close>

text \<open>
  A JavaScript \<open>Map\<close> (and the entries of an object) as the list of its entries in insertion
  order: \<open>set\<close> on a present key replaces the value in place, on an absent key appends.
\<close>

type_synonym ('k, 'v) jsmap = "('k \<times> 'v) list"

definition jm_get :: "('k, 'v) jsmap \<Rightarrow> 'k \<Rightarrow> 'v option" where
  "jm_get m k = map_of m k"

primrec jm_set :: "'k \<Rightarrow> 'v \<Rightarrow> ('k, 'v) jsmap \<Rightarrow> ('k, 'v) jsmap" where
  "jm_set k v [] = [(k, v)]"
| "jm_set k v (p # ps) = (if fst p = k then (k, v) # ps else p # jm_set k v ps)"

definition jm_has :: "('k, 'v) jsmap \<Rightarrow> 'k \<Rightarrow> bool" where
  "jm_has m k = (jm_get m k \<noteq> None)"

definition jm_values :: "('k, 'v) jsmap \<Rightarrow> 'v list" where
  "jm_values m = map snd m"

definition jm_delete :: "'k \<Rightarrow> ('k, 'v) jsmap \<Rightarrow> ('k, 'v) jsmap" where
  "jm_delete k m = filter (\<lambda>p. fst p \<noteq> k) m"

lemma jm_get_Nil [simp]: "jm_get [] k = None"
  by (simp add: jm_get_def)

lemma jm_get_set [simp]: "jm_get (jm_set k v m) k' = (if k' = k then Some v else jm_get m k')"
  by (induction m) (auto simp: jm_get_def)

lemma jm_get_delete [simp]: "jm_get (jm_delete k m) k' = (if k' = k then None else jm_get m k')"
  by (induction m) (auto simp: jm_get_def jm_delete_def)

lemma jm_has_set [simp]: "jm_has (jm_set k v m) k' \<longleftrightarrow> k' = k \<or> jm_has m k'"
  by (simp add: jm_has_def)

lemma jm_set_keys: "fst ` set (jm_set k v m) = insert k (fst ` set m)"
  by (induction m) auto

lemma jm_set_distinct: "distinct (map fst m) \<Longrightarrow> distinct (map fst (jm_set k v m))"
proof (induction m)
  case (Cons p m)
  then show ?case using jm_set_keys [of k v m] by (auto simp: image_iff)
qed simp

lemma jm_values_get: "distinct (map fst m) \<Longrightarrow> v \<in> set (jm_values m) \<longleftrightarrow> (\<exists>k. jm_get m k = Some v)"
  by (force simp: jm_values_def jm_get_def image_iff dest: map_of_SomeD)

lemma jm_get_in_values: "jm_get m k = Some v \<Longrightarrow> v \<in> set (jm_values m)"
  by (force simp: jm_values_def jm_get_def dest: map_of_SomeD)

lemma jm_values_set: "set (jm_values (jm_set k v m)) \<subseteq> insert v (set (jm_values m))"
  by (induction m) (auto simp: jm_values_def)

lemma jm_set_new: "\<not> jm_has m k \<Longrightarrow> jm_set k v m = m @ [(k, v)]"
  by (induction m) (auto simp: jm_has_def jm_get_def split: if_splits)

text \<open>
  The interface the store's collections rely on: a keyed collection in which a lookup returns what
  was stored last under that key. Its clients are the write-once collections of the store.
\<close>

locale keyed_collection =
  fixes get :: "'m \<Rightarrow> 'k \<Rightarrow> 'v option"
    and put :: "'k \<Rightarrow> 'v \<Rightarrow> 'm \<Rightarrow> 'm"
  assumes get_put: "get (put k v m) k' = (if k' = k then Some v else get m k')"
begin

lemma get_put_same [simp]: "get (put k v m) k = Some v"
  by (simp add: get_put)

lemma get_put_other: "k' \<noteq> k \<Longrightarrow> get (put k v m) k' = get m k'"
  by (simp add: get_put)

lemma put_fresh_keeps: "get m k = None \<Longrightarrow> get m k' = Some w \<Longrightarrow> get (put k v m) k' = Some w"
  by (auto simp: get_put)

lemma put_rel:
  assumes "get m k = Some w" and "R w v" and "\<And>x. R x x"
  shows "get m k' = Some x \<Longrightarrow> \<exists>y. get (put k v m) k' = Some y \<and> R x y"
  using assms by (auto simp: get_put)

lemma put_all:
  assumes "\<And>k' x. get m k' = Some x \<Longrightarrow> P k' x" and "P k v"
  shows "get (put k v m) k' = Some x \<Longrightarrow> P k' x"
  using assms by (auto simp: get_put split: if_splits)

end

interpretation jm: keyed_collection jm_get jm_set
  by unfold_locales simp

section \<open>Stable sorting with a comparator\<close>

text \<open>
  \<open>Array.prototype.sort\<close> with a comparator is stable; for a consistent comparator its result
  is the stable insertion sort below.
\<close>

fun js_insert :: "('a \<Rightarrow> 'a \<Rightarrow> int) \<Rightarrow> 'a \<Rightarrow> 'a list \<Rightarrow> 'a list" where
  "js_insert cmp x [] = [x]"
| "js_insert cmp x (y # ys) = (if cmp x y \<le> 0 then x # y # ys else y # js_insert cmp x ys)"

definition js_sort :: "('a \<Rightarrow> 'a \<Rightarrow> int) \<Rightarrow> 'a list \<Rightarrow> 'a list" where
  "js_sort cmp xs = foldr (js_insert cmp) xs []"

lemma js_sort_simps [simp]:
  "js_sort cmp [] = []" "js_sort cmp (x # xs) = js_insert cmp x (js_sort cmp xs)"
  by (simp_all add: js_sort_def)

lemma mset_js_insert [simp]: "mset (js_insert cmp x xs) = add_mset x (mset xs)"
  by (induction xs) auto

lemma mset_js_sort [simp]: "mset (js_sort cmp xs) = mset xs"
  by (induction xs) auto

lemma set_js_sort [simp]: "set (js_sort cmp xs) = set xs"
  by (metis mset_js_sort set_mset_mset)

lemma length_js_sort [simp]: "length (js_sort cmp xs) = length xs"
  by (metis mset_js_sort size_mset)

lemma js_sort_cong_map: "js_sort cmp (map f xs) = map f (js_sort (\<lambda>x y. cmp (f x) (f y)) xs)"
proof (induction xs)
  case (Cons x xs)
  have "js_insert cmp (f x) (map f ys) = map f (js_insert (\<lambda>x y. cmp (f x) (f y)) x ys)" for ys
    by (induction ys) auto
  with Cons show ?case by simp
qed simp

text \<open>
  The contract a comparator owes \<open>sort\<close>: it is a total preorder. Everything the store relies on
  when it keeps a list sorted follows from it.
\<close>

locale comparator =
  fixes cmp :: "'a \<Rightarrow> 'a \<Rightarrow> int"
  assumes flip: "cmp x y \<le> 0 \<longleftrightarrow> 0 \<le> cmp y x"
    and trans: "cmp x y \<le> 0 \<Longrightarrow> cmp y z \<le> 0 \<Longrightarrow> cmp x z \<le> 0"
begin

lemma total: "\<not> cmp x y \<le> 0 \<Longrightarrow> cmp y x \<le> 0"
  using flip [of y x] by simp

lemma refl: "cmp x x \<le> 0"
  using total [of x x] by blast

lemma sorted_insert:
  "sorted_wrt (\<lambda>x y. cmp x y \<le> 0) xs \<Longrightarrow> sorted_wrt (\<lambda>x y. cmp x y \<le> 0) (js_insert cmp x xs)"
proof (induction xs)
  case (Cons y ys)
  have "set (js_insert cmp x ys) = insert x (set ys)"
    by (metis mset_js_insert set_mset_add_mset_insert set_mset_mset)
  with Cons show ?case by (auto intro: trans total)
qed simp

lemma sorted_sort: "sorted_wrt (\<lambda>x y. cmp x y \<le> 0) (js_sort cmp xs)"
  by (induction xs) (auto intro: sorted_insert)

lemma sort_sorted_id: "sorted_wrt (\<lambda>x y. cmp x y \<le> 0) xs \<Longrightarrow> js_sort cmp xs = xs"
proof (induction xs)
  case (Cons x xs)
  then show ?case by (cases xs) auto
qed simp

lemma sorted_mset_unique_on:
  assumes "\<And>x y. x \<in> set us \<Longrightarrow> y \<in> set us \<Longrightarrow> cmp x y \<le> 0 \<Longrightarrow> cmp y x \<le> 0 \<Longrightarrow> x = y"
  shows "sorted_wrt (\<lambda>x y. cmp x y \<le> 0) us \<Longrightarrow> sorted_wrt (\<lambda>x y. cmp x y \<le> 0) vs
    \<Longrightarrow> mset us = mset vs \<Longrightarrow> us = vs"
  using assms
proof (induction us arbitrary: vs)
  case (Cons u us)
  then obtain v vs' where vs: "vs = v # vs'" by (cases vs) auto
  have mem: "u \<in> set vs" "v \<in> set (u # us)"
    using Cons.prems(3) vs by (metis list.set_intros(1) set_mset_mset)+
  then have "cmp u v \<le> 0" "cmp v u \<le> 0"
    using Cons.prems(1,2) vs refl by auto
  with mem(2) have "u = v" by (intro Cons.prems(4)) auto
  moreover from this have "us = vs'" using Cons vs by auto
  ultimately show ?case using vs by simp
qed simp

lemma sort_unique_on:
  assumes "\<And>x y. x \<in> set us \<Longrightarrow> y \<in> set us \<Longrightarrow> cmp x y \<le> 0 \<Longrightarrow> cmp y x \<le> 0 \<Longrightarrow> x = y"
    and "mset us = mset vs"
  shows "js_sort cmp us = js_sort cmp vs"
  by (rule sorted_mset_unique_on) (simp_all add: sorted_sort assms)

lemma comparator_vimage: "comparator (\<lambda>x y. cmp (f x) (f y))"
  by unfold_locales (rule flip, rule trans)

end

text \<open>A comparator that separates distinct elements makes the sorted list unique.\<close>

locale linear_comparator = comparator +
  assumes antisym: "cmp x y \<le> 0 \<Longrightarrow> cmp y x \<le> 0 \<Longrightarrow> x = y"
begin

lemma sort_unique: "mset xs = mset ys \<Longrightarrow> js_sort cmp xs = js_sort cmp ys"
  by (rule sort_unique_on) (auto intro: antisym)

lemma sort_by_unique:
  assumes "distinct (map f xs)" and "mset xs = mset ys"
  shows "js_sort (\<lambda>x y. cmp (f x) (f y)) xs = js_sort (\<lambda>x y. cmp (f x) (f y)) ys"
proof (rule comparator.sort_unique_on [OF comparator_vimage])
  fix x y assume "x \<in> set xs" "y \<in> set xs" "cmp (f x) (f y) \<le> 0" "cmp (f y) (f x) \<le> 0"
  with assms(1) show "x = y" by (auto simp: distinct_map dest: antisym inj_onD)
qed (rule assms(2))

end

definition codeUnitCompare :: "string \<Rightarrow> string \<Rightarrow> int" where
  \<comment> \<open>\<open>left < right ? -1 : left > right ? 1 : 0\<close>\<close>
  "codeUnitCompare l r = (if l < r then -1 else if r < l then 1 else 0)"

lemma codeUnitCompare_le: "codeUnitCompare x y \<le> 0 \<longleftrightarrow> x \<le> y"
  by (cases x y rule: linorder_cases) (auto simp: codeUnitCompare_def dest: less_asym less_imp_le)

lemma codeUnitCompare_ge: "0 \<le> codeUnitCompare x y \<longleftrightarrow> y \<le> x"
  by (cases x y rule: linorder_cases) (auto simp: codeUnitCompare_def dest: less_asym less_imp_le)

interpretation code_units: linear_comparator codeUnitCompare
  by unfold_locales (simp_all add: codeUnitCompare_le codeUnitCompare_ge)

end
