(* ===== verification/JsJson.thy ===== *)
theory JsJson
  imports Prelude
begin

text \<open>
  JSON values as the server handles them, and the two serialisations every hash rests on:
  \<open>stableStringify\<close> of \<open>security/crypto.ts\<close> (keys in locale order) and
  \<open>canonicalJsonStringify\<close> of \<open>contracts/action-request.ts\<close> (keys in code-unit order,
  unrepresentable values rejected).

  A number is the decimal that \<open>Number.prototype.toString\<close> prints for it: \<open>Dec m e\<close> is
  \<open>m * 10 ^ e\<close>, canonical when \<open>m\<close> is not divisible by ten. An object is the list of its own
  enumerable string-keyed members in \<open>Object.entries\<close> order; \<open>JUndef\<close> is \<open>undefined\<close>.
  Cyclic values, symbol keys, sparse arrays and class instances are not representable.
\<close>

section \<open>Values\<close>

datatype jsnum = Dec int int | NaN | PosInf | NegInf

datatype json =
    JUndef
  | JNull
  | JBool bool
  | JNum jsnum
  | JStr string
  | JArr "json list"
  | JObj "(string \<times> json) list"

definition jget :: "json \<Rightarrow> string \<Rightarrow> json" where
  \<comment> \<open>a member read; anything but an object has none of the members the server reads\<close>
  "jget v k = (case v of JObj kvs \<Rightarrow> (case map_of kvs k of None \<Rightarrow> JUndef | Some x \<Rightarrow> x) | _ \<Rightarrow> JUndef)"

definition isJsonObject :: "json \<Rightarrow> bool" where
  \<comment> \<open>\<open>typeof value === 'object' && value !== null && !Array.isArray(value)\<close>\<close>
  "isJsonObject v = (case v of JObj _ \<Rightarrow> True | _ \<Rightarrow> False)"

definition isObjectOrArray :: "json \<Rightarrow> bool" where
  \<comment> \<open>\<open>typeof value === 'object' && value !== null\<close>\<close>
  "isObjectOrArray v = (case v of JObj _ \<Rightarrow> True | JArr _ \<Rightarrow> True | _ \<Rightarrow> False)"

definition jstring :: "json \<Rightarrow> string option" where
  \<comment> \<open>\<open>typeof value === 'string' ? value : undefined\<close>\<close>
  "jstring v = (case v of JStr s \<Rightarrow> Some s | _ \<Rightarrow> None)"

definition jtruthy :: "json \<Rightarrow> bool" where
  "jtruthy v = (case v of JUndef \<Rightarrow> False | JNull \<Rightarrow> False | JBool b \<Rightarrow> b
     | JNum n \<Rightarrow> (case n of Dec m e \<Rightarrow> m \<noteq> 0 | NaN \<Rightarrow> False | _ \<Rightarrow> True)
     | JStr s \<Rightarrow> s \<noteq> [] | JArr _ \<Rightarrow> True | JObj _ \<Rightarrow> True)"

definition nullish :: "json \<Rightarrow> bool" where
  "nullish v = (v = JUndef \<or> v = JNull)"

definition jcoalesce :: "json \<Rightarrow> json \<Rightarrow> json" where
  \<comment> \<open>\<open>a ?? b\<close> on JSON values\<close>
  "jcoalesce a b = (if nullish a then b else a)"

definition jopt :: "('a \<Rightarrow> json) \<Rightarrow> 'a option \<Rightarrow> json" where
  \<comment> \<open>an optional member\<close>
  "jopt f x = (case x of None \<Rightarrow> JUndef | Some y \<Rightarrow> f y)"

lemma jopt_simps [simp]: "jopt f None = JUndef" "jopt f (Some x) = f x"
  by (simp_all add: jopt_def)

definition jnullable :: "string option \<Rightarrow> json" where
  "jnullable x = (case x of None \<Rightarrow> JNull | Some s \<Rightarrow> JStr s)"

lemma jnullable_simps [simp]: "jnullable None = JNull" "jnullable (Some s) = JStr s"
  by (simp_all add: jnullable_def)

lemma jnullable_inj [simp]: "jnullable x = jnullable y \<longleftrightarrow> x = y"
  by (cases x; cases y) simp_all

subsection \<open>Numbers\<close>

definition scaled :: "int \<Rightarrow> int \<Rightarrow> int \<Rightarrow> int" where
  \<comment> \<open>the mantissa of \<open>m * 10 ^ e\<close> at the smaller exponent \<open>f\<close>\<close>
  "scaled m e f = m * 10 ^ nat (e - f)"

fun num_lt :: "jsnum \<Rightarrow> jsnum \<Rightarrow> bool" where
  "num_lt (Dec m e) (Dec n f) = (scaled m e (min e f) < scaled n f (min e f))"
| "num_lt NegInf (Dec n f) = True"
| "num_lt NegInf PosInf = True"
| "num_lt (Dec m e) PosInf = True"
| "num_lt _ _ = False"

fun num_eq :: "jsnum \<Rightarrow> jsnum \<Rightarrow> bool" where
  "num_eq (Dec m e) (Dec n f) = (scaled m e (min e f) = scaled n f (min e f))"
| "num_eq PosInf PosInf = True"
| "num_eq NegInf NegInf = True"
| "num_eq _ _ = False"

definition num_le :: "jsnum \<Rightarrow> jsnum \<Rightarrow> bool" where
  "num_le a b = (num_lt a b \<or> num_eq a b)"

fun num_isFinite :: "jsnum \<Rightarrow> bool" where
  "num_isFinite (Dec m e) = True"
| "num_isFinite _ = False"

function num_of_int :: "int \<Rightarrow> jsnum" where
  "num_of_int n =
     (if n = 0 then Dec 0 0
      else if n mod 10 = 0 then
        (case num_of_int (n div 10) of Dec m e \<Rightarrow> Dec m (e + 1) | x \<Rightarrow> x)
      else Dec n 0)"
  by pat_completeness auto
termination
  by (relation "measure (\<lambda>n. nat \<bar>n\<bar>)") auto

declare num_of_int.simps [simp del]

definition jint :: "int \<Rightarrow> json" where
  "jint n = JNum (num_of_int n)"

definition number_to_string :: "int \<Rightarrow> int \<Rightarrow> string" where
  \<comment> \<open>\<open>Number::toString\<close> of the ECMAScript specification, radix ten\<close>
  "number_to_string m e =
     (if m = 0 then ''0''
      else let ds = nat_digits (nat \<bar>m\<bar>);
               k = int (length ds);
               n = k + e;
               sign = (if m < 0 then ''-'' else []);
               ex = (if n - 1 < 0 then ''-'' else ''+'') @ nat_digits (nat \<bar>n - 1\<bar>)
           in sign @
              (if k \<le> n \<and> n \<le> 21 then ds @ replicate (nat (n - k)) CHR ''0''
               else if 0 < n \<and> n \<le> 21 then take (nat n) ds @ ''.'' @ drop (nat n) ds
               else if -6 < n \<and> n \<le> 0 then ''0.'' @ replicate (nat (- n)) CHR ''0'' @ ds
               else if k = 1 then ds @ ''e'' @ ex
               else take 1 ds @ ''.'' @ drop 1 ds @ ''e'' @ ex))"

fun json_number :: "jsnum \<Rightarrow> string" where
  \<comment> \<open>\<open>JSON.stringify\<close> of a number\<close>
  "json_number (Dec m e) = number_to_string m e"
| "json_number _ = ''null''"

subsection \<open>Strings\<close>

definition hex_digit :: "nat \<Rightarrow> char" where
  "hex_digit n = (if n < 10 then char_of (48 + n) else char_of (87 + n))"

definition json_escape :: "char \<Rightarrow> string" where
  "json_escape c =
     (let n = (of_char c :: nat)
      in if n = 34 then [char_of (92::nat), char_of (34::nat)]
         else if n = 92 then [char_of (92::nat), char_of (92::nat)]
         else if n = 8 then [char_of (92::nat), CHR ''b'']
         else if n = 9 then [char_of (92::nat), CHR ''t'']
         else if n = 10 then [char_of (92::nat), CHR ''n'']
         else if n = 12 then [char_of (92::nat), CHR ''f'']
         else if n = 13 then [char_of (92::nat), CHR ''r'']
         else if n < 32 then [char_of (92::nat), CHR ''u'', CHR ''0'', CHR ''0'', hex_digit (n div 16), hex_digit (n mod 16)]
         else [c])"

definition dquote :: char where
  "dquote = char_of (34::nat)"

definition json_quote :: "string \<Rightarrow> string" where
  \<comment> \<open>\<open>JSON.stringify\<close> of a string\<close>
  "json_quote s = dquote # concat (map json_escape s) @ [dquote]"

section \<open>stableStringify and hashJson\<close>

fun stableStringify :: "env \<Rightarrow> json \<Rightarrow> string" where
  "stableStringify E JUndef = []"
| "stableStringify E JNull = ''null''"
| "stableStringify E (JBool b) = (if b then ''true'' else ''false'')"
| "stableStringify E (JNum n) = json_number n"
| "stableStringify E (JStr s) = json_quote s"
| "stableStringify E (JArr vs) = ''['' @ join_with '','' (map (stableStringify E) vs) @ '']''"
| "stableStringify E (JObj kvs) =
     (let entries = map (\<lambda>p. (fst p, stableStringify E (snd p))) (filter (\<lambda>p. snd p \<noteq> JUndef) kvs)
      in ''{'' @
         join_with '','' (map (\<lambda>p. json_quote (fst p) @ '':'' @ snd p)
           (js_sort (\<lambda>l r. localeCompare E (fst l) (fst r)) entries)) @ ''}'')"

definition hashJson :: "env \<Rightarrow> json \<Rightarrow> string" where
  "hashJson E v = sha256Hex E (stableStringify E v)"

definition hashJsonUnknown :: "env \<Rightarrow> json \<Rightarrow> string option" where
  \<comment> \<open>\<open>hashJson\<close> of a value that may be \<open>undefined\<close>: the digest then throws a TypeError (\<open>None\<close>)\<close>
  "hashJsonUnknown E v = (if v = JUndef then None else Some (hashJson E v))"

section \<open>canonicalJsonStringify and hashCanonicalJson\<close>

datatype canonicalization_error =
    NonFiniteNumberAt string
  | UndefinedValueAt string

fun sequence_results :: "('e + 'a) list \<Rightarrow> 'e + 'a list" where
  \<comment> \<open>evaluate in order, the first throw wins\<close>
  "sequence_results [] = Inr []"
| "sequence_results (r # rs) =
     (case r of Inl e \<Rightarrow> Inl e
      | Inr x \<Rightarrow> (case sequence_results rs of Inl e \<Rightarrow> Inl e | Inr xs \<Rightarrow> Inr (x # xs)))"

definition index_path :: "string \<Rightarrow> nat \<Rightarrow> string" where
  "index_path path i = path @ ''['' @ nat_digits i @ '']''"

definition member_path :: "string \<Rightarrow> string \<Rightarrow> string" where
  "member_path path k = path @ ''.'' @ k"

definition map_result :: "('a \<Rightarrow> 'b) \<Rightarrow> 'e + 'a \<Rightarrow> 'e + 'b" where
  "map_result f r = (case r of Inl e \<Rightarrow> Inl e | Inr x \<Rightarrow> Inr (f x))"

lemma json_item_size: "v \<in> set vs \<Longrightarrow> size v < Suc (size_list size vs)"
  by (induction vs) auto

lemma json_member_size: "(k, v) \<in> set kvs \<Longrightarrow> size v < Suc (size_list (size_prod (\<lambda>x. 0) size) kvs)"
  by (induction kvs) auto

function (sequential) serializeCanonicalJson :: "string \<Rightarrow> json \<Rightarrow> canonicalization_error + string" where
  "serializeCanonicalJson path JUndef = Inl (UndefinedValueAt path)"
| "serializeCanonicalJson path JNull = Inr ''null''"
| "serializeCanonicalJson path (JBool b) = Inr (if b then ''true'' else ''false'')"
| "serializeCanonicalJson path (JNum n) =
     (if num_isFinite n then Inr (json_number n) else Inl (NonFiniteNumberAt path))"
| "serializeCanonicalJson path (JStr s) = Inr (json_quote s)"
| "serializeCanonicalJson path (JArr vs) =
     map_result (\<lambda>items. ''['' @ join_with '','' items @ '']'')
       (sequence_results (map2 (\<lambda>i v. serializeCanonicalJson (index_path path i) v) [0..<length vs] vs))"
| "serializeCanonicalJson path (JObj kvs) =
     (let entries = map (\<lambda>p. (fst p, serializeCanonicalJson (member_path path (fst p)) (snd p)))
                      (filter (\<lambda>p. snd p \<noteq> JUndef) kvs)
      in map_result (\<lambda>items. ''{'' @ join_with '','' items @ ''}'')
           (sequence_results (map (\<lambda>p. map_result (\<lambda>s. json_quote (fst p) @ '':'' @ s) (snd p))
             (js_sort (\<lambda>l r. codeUnitCompare (fst l) (fst r)) entries))))"
  by pat_completeness auto
termination
  by (relation "measure (\<lambda>(path, v). size v)")
     (auto intro: json_item_size json_member_size dest: set_zip_rightD)

definition canonicalJsonStringify :: "json \<Rightarrow> canonicalization_error + string" where
  "canonicalJsonStringify v = serializeCanonicalJson ''$'' v"

definition hashCanonicalJson :: "env \<Rightarrow> json \<Rightarrow> canonicalization_error + string" where
  "hashCanonicalJson E v = map_result (sha256Hex E) (canonicalJsonStringify v)"

end
