(* ===== verification/NumberText.thy ===== *)
theory NumberText
  imports JsJson
begin

text \<open>
  The text of a number determines it. \<open>number_to_string\<close> writes a decimal \<open>m * 10 ^ e\<close> in one of five layouts; all of
  them are a sign, a whole part, an optional fraction and an optional exponent, and reading these back gives the value.
  A decimal is in normal form when its mantissa does not end in a zero, which makes \<open>m\<close> and \<open>e\<close> unique.
\<close>

section \<open>Digits\<close>

definition decimal :: "string \<Rightarrow> bool" where
  "decimal s = list_all (\<lambda>c. 48 \<le> (of_char c :: nat) \<and> (of_char c :: nat) \<le> 57) s"

lemma decimal_append [simp]: "decimal (s @ t) \<longleftrightarrow> decimal s \<and> decimal t"
  by (simp add: decimal_def)

lemma decimal_Nil [simp]: "decimal []"
  by (simp add: decimal_def)

lemma decimal_digits [simp]: "decimal (nat_digits n)"
  by (auto simp: decimal_def list_all_iff of_char_digit_char dest!: nat_digits_chars)

lemma decimal_zeros [simp]: "decimal (replicate k CHR ''0'')"
  by (simp add: decimal_def list_all_iff)

lemma decimal_take [simp]: "decimal s \<Longrightarrow> decimal (take n s)"
  and decimal_drop [simp]: "decimal s \<Longrightarrow> decimal (drop n s)"
  by (auto simp: decimal_def list_all_iff dest: in_set_takeD in_set_dropD)

lemma decimal_no: "decimal s \<Longrightarrow> (of_char c :: nat) < 48 \<or> 57 < (of_char c :: nat) \<Longrightarrow> c \<notin> set s"
  by (auto simp: decimal_def list_all_iff)

lemma span_append:
  assumes "c \<notin> set s"
  shows "takeWhile (\<lambda>d. d \<noteq> c) (s @ r) = s @ takeWhile (\<lambda>d. d \<noteq> c) r"
    and "dropWhile (\<lambda>d. d \<noteq> c) (s @ r) = dropWhile (\<lambda>d. d \<noteq> c) r"
  using assms by (induction s) auto

lemma decimal_span:
  assumes "decimal s" "c = CHR ''.'' \<or> c = CHR ''e''"
  shows "takeWhile (\<lambda>d. d \<noteq> c) (s @ r) = s @ takeWhile (\<lambda>d. d \<noteq> c) r"
    and "dropWhile (\<lambda>d. d \<noteq> c) (s @ r) = dropWhile (\<lambda>d. d \<noteq> c) r"
proof -
  have "c \<notin> set s" using assms decimal_no [of s c] by auto
  then show "takeWhile (\<lambda>d. d \<noteq> c) (s @ r) = s @ takeWhile (\<lambda>d. d \<noteq> c) r"
    and "dropWhile (\<lambda>d. d \<noteq> c) (s @ r) = dropWhile (\<lambda>d. d \<noteq> c) r" by (rule span_append)+
qed

definition digits_value :: "string \<Rightarrow> nat" where
  "digits_value s = foldl (\<lambda>n c. 10 * n + (of_char c - 48)) 0 s"

lemma foldl_digits: "foldl (\<lambda>n c. 10 * n + (of_char c - 48)) n s = n * 10 ^ length s + digits_value s"
proof (induction s arbitrary: n)
  case (Cons c s)
  have "digits_value (c # s) = (of_char c - 48) * 10 ^ length s + digits_value s"
    using Cons.IH [of "of_char c - 48"] by (simp add: digits_value_def)
  then show ?case using Cons.IH by (simp add: algebra_simps)
qed (simp add: digits_value_def)

lemma digits_value_append [simp]: "digits_value (s @ t) = digits_value s * 10 ^ length t + digits_value t"
  using foldl_digits [of "digits_value s" t] by (simp add: digits_value_def)

lemma digits_value_zeros [simp]: "digits_value (replicate k CHR ''0'') = 0"
proof (induction k)
  case (Suc k)
  then show ?case by (simp add: digits_value_def)
qed (simp add: digits_value_def)

lemma digits_value_digit: "d < 10 \<Longrightarrow> digits_value [digit_char d] = d"
  by (simp add: digits_value_def of_char_digit_char)

lemma digits_value_nat_digits [simp]: "digits_value (nat_digits n) = n"
proof (induction n rule: nat_digits.induct)
  case (1 n)
  show ?case
  proof (cases "n < 10")
    case False
    with 1 have "digits_value (nat_digits (n div 10) @ [digit_char (n mod 10)]) = n"
      by (simp add: digits_value_digit)
    then show ?thesis using False by (subst nat_digits.simps) simp
  qed (simp add: nat_digits.simps digits_value_digit)
qed

lemma digits_value_Nil [simp]: "digits_value [] = 0"
  by (simp add: digits_value_def)

lemma leading_zero [simp]: "digits_value (CHR ''0'' # s) = digits_value s" "decimal (CHR ''0'' # s) \<longleftrightarrow> decimal s"
  by (simp_all add: digits_value_def decimal_def)

section \<open>The layout of a number\<close>

definition exponent_part :: "int option \<Rightarrow> string" where
  "exponent_part x = (case x of None \<Rightarrow> []
     | Some z \<Rightarrow> CHR ''e'' # (if z < 0 then CHR ''-'' else CHR ''+'') # nat_digits (nat \<bar>z\<bar>))"

definition fraction_part :: "string \<Rightarrow> string" where
  "fraction_part f = (if f = [] then [] else CHR ''.'' # f)"

definition decimal_text :: "bool \<Rightarrow> string \<Rightarrow> string \<Rightarrow> int option \<Rightarrow> string" where
  "decimal_text neg w f x = (if neg then ''-'' else []) @ w @ fraction_part f @ exponent_part x"

definition read_exponent :: "string \<Rightarrow> int" where
  "read_exponent s = (case s of _ # sg # ds \<Rightarrow> if sg = CHR ''-'' then - int (digits_value ds) else int (digits_value ds) | _ \<Rightarrow> 0)"

definition read_mantissa :: "string \<Rightarrow> nat \<times> nat" where
  \<comment> \<open>the digits without the point, and how many of them come after it\<close>
  "read_mantissa s = (let w = takeWhile (\<lambda>c. c \<noteq> CHR ''.'') s; f = tl (dropWhile (\<lambda>c. c \<noteq> CHR ''.'') s)
     in (digits_value (w @ f), length f))"

definition read_decimal :: "string \<Rightarrow> int \<times> int" where
  "read_decimal s =
     (let neg = (hd s = CHR ''-''); body = (if neg then tl s else s);
          (m, k) = read_mantissa (takeWhile (\<lambda>c. c \<noteq> CHR ''e'') body);
          x = read_exponent (dropWhile (\<lambda>c. c \<noteq> CHR ''e'') body)
      in (if neg then - int m else int m, x - int k))"

lemma read_exponent_part [simp]: "read_exponent (exponent_part x) = (case x of None \<Rightarrow> 0 | Some z \<Rightarrow> z)"
  by (simp add: read_exponent_def exponent_part_def split: option.split)

lemma read_mantissa_text:
  assumes "decimal w" "decimal f"
  shows "read_mantissa (w @ fraction_part f) = (digits_value (w @ f), length f)"
  using decimal_span [OF assms(1), of "CHR ''.''" "fraction_part f"]
  by (simp add: read_mantissa_def Let_def fraction_part_def)

lemma mantissa_part:
  assumes "decimal w" "decimal f"
  shows "takeWhile (\<lambda>c. c \<noteq> CHR ''e'') (w @ fraction_part f @ exponent_part x) = w @ fraction_part f"
    and "dropWhile (\<lambda>c. c \<noteq> CHR ''e'') (w @ fraction_part f @ exponent_part x) = exponent_part x"
proof -
  have "takeWhile (\<lambda>c. c \<noteq> CHR ''e'') (exponent_part x) = []" "dropWhile (\<lambda>c. c \<noteq> CHR ''e'') (exponent_part x) = exponent_part x"
    by (simp_all add: exponent_part_def split: option.split)
  moreover have "takeWhile (\<lambda>c. c \<noteq> CHR ''e'') (fraction_part f @ r) = fraction_part f @ takeWhile (\<lambda>c. c \<noteq> CHR ''e'') r"
      "dropWhile (\<lambda>c. c \<noteq> CHR ''e'') (fraction_part f @ r) = dropWhile (\<lambda>c. c \<noteq> CHR ''e'') r" for r
    using decimal_span [OF assms(2), of "CHR ''e''" r] by (simp_all add: fraction_part_def)
  ultimately show "takeWhile (\<lambda>c. c \<noteq> CHR ''e'') (w @ fraction_part f @ exponent_part x) = w @ fraction_part f"
    "dropWhile (\<lambda>c. c \<noteq> CHR ''e'') (w @ fraction_part f @ exponent_part x) = exponent_part x"
    using decimal_span [OF assms(1), of "CHR ''e''"] by simp_all
qed

lemma read_decimal_text:
  assumes "decimal w" "decimal f" "w \<noteq> []"
  shows "read_decimal (decimal_text neg w f x)
    = ((if neg then - int (digits_value (w @ f)) else int (digits_value (w @ f))),
       (case x of None \<Rightarrow> 0 | Some z \<Rightarrow> z) - int (length f))"
proof -
  let ?body = "w @ fraction_part f @ exponent_part x"
  have "CHR ''-'' \<notin> set w" using assms(1) decimal_no [of w "CHR ''-''"] by auto
  with assms(3) have "hd ?body \<noteq> CHR ''-''" by (cases w) auto
  then have "(if hd (decimal_text neg w f x) = CHR ''-'' then tl (decimal_text neg w f x) else decimal_text neg w f x) = ?body"
    and "hd (decimal_text neg w f x) = CHR ''-'' \<longleftrightarrow> neg"
    by (auto simp: decimal_text_def)
  then show ?thesis
    unfolding read_decimal_def Let_def
    by (simp only: mantissa_part [OF assms(1,2)] read_mantissa_text [OF assms(1,2)] read_exponent_part split_conv)
qed

section \<open>Printed numbers\<close>

lemma number_layout:
  assumes "m \<noteq> 0"
  obtains w f x a where "number_to_string m e = decimal_text (m < 0) w f x" "decimal w" "decimal f" "w \<noteq> []"
    "digits_value (w @ f) = nat \<bar>m\<bar> * 10 ^ a" "(case x of None \<Rightarrow> 0 | Some z \<Rightarrow> z) - int (length f) = e - int a"
proof -
  define ds where "ds = nat_digits (nat \<bar>m\<bar>)"
  define n where "n = int (length ds) + e"
  have ds: "decimal ds" "ds \<noteq> []" "digits_value ds = nat \<bar>m\<bar>" by (simp_all add: ds_def)
  have layout: "number_to_string m e = (if m < 0 then ''-'' else []) @
      (if int (length ds) \<le> n \<and> n \<le> 21 then ds @ replicate (nat (n - int (length ds))) CHR ''0''
       else if 0 < n \<and> n \<le> 21 then take (nat n) ds @ ''.'' @ drop (nat n) ds
       else if -6 < n \<and> n \<le> 0 then ''0.'' @ replicate (nat (- n)) CHR ''0'' @ ds
       else if length ds = 1 then ds @ exponent_part (Some (n - 1))
       else take 1 ds @ ''.'' @ drop 1 ds @ exponent_part (Some (n - 1)))"
    using assms by (simp add: number_to_string_def Let_def ds_def n_def exponent_part_def)
  consider (whole) "int (length ds) \<le> n" "n \<le> 21" | (point) "\<not> int (length ds) \<le> n" "0 < n" "n \<le> 21"
    | (small) "\<not> int (length ds) \<le> n" "-6 < n" "n \<le> 0"
    | (digit) "\<not> (int (length ds) \<le> n \<and> n \<le> 21)" "\<not> (0 < n \<and> n \<le> 21)" "\<not> (-6 < n \<and> n \<le> 0)" "length ds = 1"
    | (scientific) "\<not> (int (length ds) \<le> n \<and> n \<le> 21)" "\<not> (0 < n \<and> n \<le> 21)" "\<not> (-6 < n \<and> n \<le> 0)" "length ds \<noteq> 1"
    by linarith
  then show ?thesis
  proof cases
    case whole
    show ?thesis
      by (rule that [of "ds @ replicate (nat e) CHR ''0''" "[]" None "nat e"])
         (use whole ds in \<open>simp_all add: layout decimal_text_def fraction_part_def exponent_part_def n_def\<close>)
  next
    case point
    have "take (nat n) ds \<noteq> []" "drop (nat n) ds \<noteq> []" using point ds(2) by auto
    then show ?thesis
      by (intro that [of "take (nat n) ds" "drop (nat n) ds" None 0])
         (use point ds in \<open>simp_all add: layout decimal_text_def fraction_part_def exponent_part_def n_def
            del: digits_value_append\<close>)
  next
    case small
    show ?thesis
      by (rule that [of "''0''" "replicate (nat (- n)) CHR ''0'' @ ds" None 0])
         (use small ds in \<open>simp_all add: layout decimal_text_def fraction_part_def exponent_part_def n_def\<close>)
  next
    case digit
    then have "number_to_string m e = (if m < 0 then ''-'' else []) @ ds @ exponent_part (Some (n - 1))"
      by (simp only: layout if_False if_True HOL.simp_thms)
    then show ?thesis
      by (intro that [of ds "[]" "Some (n - 1)" 0])
         (use digit(4) ds in \<open>simp_all add: decimal_text_def fraction_part_def n_def\<close>)
  next
    case scientific
    then have "number_to_string m e = (if m < 0 then ''-'' else []) @ take 1 ds @ ''.'' @ drop 1 ds @ exponent_part (Some (n - 1))"
      by (simp only: layout if_False HOL.simp_thms)
    moreover have "take 1 ds \<noteq> []" "drop 1 ds \<noteq> []" using scientific ds(2) by (cases ds; simp)+
    ultimately show ?thesis
      by (intro that [of "take 1 ds" "drop 1 ds" "Some (n - 1)" 0])
         (use scientific(4) ds in \<open>simp_all add: decimal_text_def fraction_part_def n_def del: digits_value_append\<close>)
  qed
qed

lemma pow10_unique:
  assumes "m * 10 ^ a = n * (10::int) ^ b" "m mod 10 \<noteq> 0" "n mod 10 \<noteq> 0"
  shows "a = b \<and> m = n"
proof -
  have le: "b \<le> a" if eq: "u * 10 ^ a = w * (10::int) ^ b" and u: "u mod 10 \<noteq> 0" for a b u w
  proof (rule ccontr)
    assume "\<not> b \<le> a"
    then have d: "0 < b - a" and "(10::int) ^ b = 10 ^ (b - a) * 10 ^ a"
      by (simp_all flip: power_add)
    with eq have "u * 10 ^ a = (w * 10 ^ (b - a)) * 10 ^ a" by (simp add: ac_simps)
    then have "u = w * 10 ^ (b - a)" by simp
    moreover have "10 dvd (10::int) ^ (b - a)" using d by (intro dvd_power) simp
    ultimately have "10 dvd u" by (metis dvd_mult)
    with u show False by (simp add: dvd_eq_mod_eq_0)
  qed
  have "a = b" using le [OF assms(1,2)] le [OF assms(1) [symmetric] assms(3)] by simp
  with assms(1) show ?thesis by simp
qed

fun plain_number :: "jsnum \<Rightarrow> bool" where
  \<comment> \<open>a finite number in normal form\<close>
  "plain_number (Dec m e) = (if m = 0 then e = 0 else m mod 10 \<noteq> 0)"
| "plain_number _ = False"

lemma zero_text: "number_to_string 0 e = decimal_text False ''0'' [] None"
  by (simp add: number_to_string_def decimal_text_def fraction_part_def exponent_part_def)

lemma read_printed:
  obtains a where "read_decimal (number_to_string m e) = (m * 10 ^ a, (if m = 0 then 0 else e) - int a)"
proof (cases "m = 0")
  case True
  then show ?thesis by (intro that [of 0]) (simp add: zero_text read_decimal_text)
next
  case False
  then obtain w f x a where *: "number_to_string m e = decimal_text (m < 0) w f x" "decimal w" "decimal f" "w \<noteq> []"
    "digits_value (w @ f) = nat \<bar>m\<bar> * 10 ^ a" "(case x of None \<Rightarrow> 0 | Some z \<Rightarrow> z) - int (length f) = e - int a"
    by (rule number_layout)
  show ?thesis
    by (rule that [of a]) (use False in \<open>simp only: *(1) read_decimal_text [OF *(2-4)] *(5,6), simp\<close>)
qed

lemma number_to_string_inj:
  assumes "number_to_string m e = number_to_string n f"
    and "m mod 10 \<noteq> 0 \<or> m = 0 \<and> e = 0" "n mod 10 \<noteq> 0 \<or> n = 0 \<and> f = 0"
  shows "m = n \<and> e = f"
proof -
  obtain a where a: "read_decimal (number_to_string m e) = (m * 10 ^ a, (if m = 0 then 0 else e) - int a)" by (rule read_printed)
  obtain b where b: "read_decimal (number_to_string n f) = (n * 10 ^ b, (if n = 0 then 0 else f) - int b)" by (rule read_printed)
  from a b assms(1) have eq: "m * 10 ^ a = n * 10 ^ b" "(if m = 0 then 0 else e) - int a = (if n = 0 then 0 else f) - int b" by auto
  show ?thesis
  proof (cases "m = 0 \<or> n = 0")
    case True
    with eq(1) have "m = 0" "n = 0" by auto
    with assms(2,3) show ?thesis by auto
  next
    case False
    with assms(2,3) have "m mod 10 \<noteq> 0" "n mod 10 \<noteq> 0" by auto
    from pow10_unique [OF eq(1) this] eq(2) False show ?thesis by auto
  qed
qed

lemma json_number_inj:
  assumes "plain_number x" "plain_number y" "json_number x = json_number y"
  shows "x = y"
  using assms by (cases x; cases y) (auto split: if_splits dest: number_to_string_inj)

section \<open>The characters of a number\<close>

definition number_char :: "char \<Rightarrow> bool" where
  "number_char c = (c \<in> set ''+-.e'' \<or> 48 \<le> (of_char c :: nat) \<and> (of_char c :: nat) \<le> 57)"

lemma decimal_number_char: "decimal s \<Longrightarrow> c \<in> set s \<Longrightarrow> number_char c"
  by (auto simp: decimal_def list_all_iff number_char_def)

lemma decimal_text_chars:
  "decimal w \<Longrightarrow> decimal f \<Longrightarrow> \<forall>c \<in> set (decimal_text neg w f x). number_char c"
  by (auto simp: decimal_text_def fraction_part_def exponent_part_def decimal_number_char [OF decimal_digits]
      intro: decimal_number_char split: option.splits if_splits) (simp_all add: number_char_def)

lemma json_number_layout:
  assumes "plain_number n"
  obtains neg w f x where "json_number n = decimal_text neg w f x" "decimal w" "decimal f" "w \<noteq> []"
proof (cases n)
  case (Dec m e)
  show ?thesis
  proof (cases "m = 0")
    case True
    then show ?thesis using Dec by (intro that [of False "''0''" "[]" None]) (simp_all add: zero_text)
  next
    case False
    then show ?thesis using Dec that by (metis number_layout json_number.simps(1))
  qed
qed (use assms in auto)

lemma json_number_chars: "plain_number n \<Longrightarrow> \<forall>c \<in> set (json_number n). number_char c"
  by (erule json_number_layout) (simp add: decimal_text_chars)

lemma json_number_head:
  assumes "plain_number n"
  shows "\<exists>c cs. json_number n = c # cs \<and> number_char c \<and> c \<noteq> CHR ''e''"
proof -
  obtain neg w f x where n: "json_number n = decimal_text neg w f x" "decimal w" "w \<noteq> []"
    using assms by (rule json_number_layout)
  then obtain d ds where w: "w = d # ds" by (cases w) auto
  with n(2) have "48 \<le> (of_char d :: nat)" "(of_char d :: nat) \<le> 57" by (simp_all add: decimal_def)
  then show ?thesis by (auto simp: n(1) w decimal_text_def number_char_def)
qed

end
