(* ===== verification/CanonicalJson.thy ===== *)
theory CanonicalJson
  imports NumberText
begin

text \<open>
  What the two serialisations determine. \<open>arrange\<close> puts the members of every object in the order of
  a comparator and drops the undefined ones; \<open>print_json\<close> writes a value as it stands. Both
  serialisations are \<open>print_json\<close> after an arrangement, and \<open>print_json\<close> is injective, so a hash
  determines its value up to member order (or exhibits a SHA-256 collision).
\<close>

section \<open>Arrangement and plain printing\<close>

abbreviation by_key :: "(string \<Rightarrow> string \<Rightarrow> int) \<Rightarrow> string \<times> 'a \<Rightarrow> string \<times> 'b \<Rightarrow> int" where
  "by_key cmp l r \<equiv> cmp (fst l) (fst r)"

fun arrange :: "(string \<Rightarrow> string \<Rightarrow> int) \<Rightarrow> json \<Rightarrow> json" where
  "arrange cmp (JArr vs) = JArr (map (arrange cmp) vs)"
| "arrange cmp (JObj kvs) =
     JObj (js_sort (by_key cmp)
       (map (\<lambda>p. (fst p, arrange cmp (snd p))) (filter (\<lambda>p. snd p \<noteq> JUndef) kvs)))"
| "arrange cmp v = v"

fun print_json :: "json \<Rightarrow> string" where
  "print_json JUndef = []"
| "print_json JNull = ''null''"
| "print_json (JBool b) = (if b then ''true'' else ''false'')"
| "print_json (JNum n) = json_number n"
| "print_json (JStr s) = json_quote s"
| "print_json (JArr vs) = ''['' @ join_with '','' (map print_json vs) @ '']''"
| "print_json (JObj kvs) =
     ''{'' @ join_with '','' (map (\<lambda>p. json_quote (fst p) @ '':'' @ print_json (snd p)) kvs) @ ''}''"

fun clean :: "json \<Rightarrow> bool" where
  \<comment> \<open>finite numbers and no \<open>undefined\<close> but as a member value\<close>
  "clean JUndef = False"
| "clean (JNum n) = num_isFinite n"
| "clean (JArr vs) = list_all clean vs"
| "clean (JObj kvs) = list_all (\<lambda>p. snd p = JUndef \<or> clean (snd p)) kvs"
| "clean v = True"

fun distinct_keys :: "json \<Rightarrow> bool" where
  "distinct_keys (JArr vs) = list_all distinct_keys vs"
| "distinct_keys (JObj kvs) = (distinct (map fst kvs) \<and> list_all (\<lambda>p. distinct_keys (snd p)) kvs)"
| "distinct_keys v = True"

abbreviation canon :: "json \<Rightarrow> json" where
  "canon \<equiv> arrange codeUnitCompare"

lemma arrange_undef [simp]: "arrange cmp v = JUndef \<longleftrightarrow> v = JUndef"
  by (cases v) auto

lemma js_sort_map_snd:
  "js_sort (by_key cmp) (map (\<lambda>p. (fst p, f (snd p))) xs)
    = map (\<lambda>p. (fst p, f (snd p))) (js_sort (by_key cmp) xs)"
  by (simp add: js_sort_cong_map)

lemma js_sort_map_kv:
  "js_sort (by_key cmp) (map (\<lambda>p. (fst p, f (fst p) (snd p))) xs)
    = map (\<lambda>p. (fst p, f (fst p) (snd p))) (js_sort (by_key cmp) xs)"
  by (simp add: js_sort_cong_map)

lemma stableStringify_print: "stableStringify E v = print_json (arrange (localeCompare E) v)"
proof (induction E v rule: stableStringify.induct)
  case (6 E vs)
  then show ?case by (auto intro!: arg_cong [where f = "join_with _"] map_cong)
next
  case (7 E kvs)
  then show ?case
    by (auto simp: js_sort_map_snd comp_def Let_def intro!: arg_cong [where f = "join_with _"] map_cong)
qed auto

lemma sequence_results_Inr: "sequence_results (map Inr xs) = Inr xs"
  by (induction xs) auto

lemma sequence_results_map_Inr:
  "(\<And>x. x \<in> set xs \<Longrightarrow> f x = Inr (g x)) \<Longrightarrow> sequence_results (map f xs) = Inr (map g xs)"
  by (induction xs) auto

lemma map2_index_const: "map2 (\<lambda>i v. f v) [0..<length vs] vs = map f vs"
  by (rule nth_equalityI) auto

lemma serialize_print: "clean v \<Longrightarrow> serializeCanonicalJson path v = Inr (print_json (canon v))"
proof (induction path v rule: serializeCanonicalJson.induct)
  case (6 path vs)
  have eq: "serializeCanonicalJson (index_path path i) x = Inr (print_json (canon x))"
    if "(i, x) \<in> set (zip [0..<length vs] vs)" for i x
    using that "6.IH" [OF that] "6.prems" set_zip_rightD [OF that] by (auto simp: list_all_iff)
  have "map2 (\<lambda>i v. serializeCanonicalJson (index_path path i) v) [0..<length vs] vs
      = map2 (\<lambda>i v. Inr (print_json (canon v))) [0..<length vs] vs"
    by (rule map_cong) (auto simp: eq)
  also have "\<dots> = map Inr (map (\<lambda>v. print_json (canon v)) vs)"
    by (simp add: map2_index_const)
  finally show ?case
    by (simp only: serializeCanonicalJson.simps sequence_results_Inr) (simp add: map_result_def comp_def)
next
  case (7 path kvs)
  let ?fs = "filter (\<lambda>p. snd p \<noteq> JUndef) kvs"
  have entries: "map (\<lambda>p. (fst p, serializeCanonicalJson (member_path path (fst p)) (snd p))) ?fs
      = map (\<lambda>p. (fst p, Inr (print_json (canon (snd p))))) ?fs"
    using 7 by (auto simp: list_all_iff)
  have items: "sequence_results (map (\<lambda>p. map_result (\<lambda>s. json_quote (fst p) @ '':'' @ s) (snd p))
        (map (\<lambda>p. (fst p, Inr (print_json (canon (snd p))))) xs))
      = (Inr (map (\<lambda>p. json_quote (fst p) @ '':'' @ print_json (canon (snd p))) xs)
          :: canonicalization_error + string list)" for xs
    by (induction xs) (auto simp: map_result_def)
  show ?case
    by (simp only: serializeCanonicalJson.simps Let_def entries js_sort_cong_map fst_conv items)
       (simp add: map_result_def js_sort_cong_map comp_def)
qed auto

lemma sequence_results_InrD: "sequence_results rs = Inr xs \<Longrightarrow> rs = map Inr xs"
  by (induction rs arbitrary: xs) (auto split: sum.splits)

lemma map_result_Inr [simp]: "map_result f r = Inr y \<longleftrightarrow> (\<exists>x. r = Inr x \<and> y = f x)"
  by (auto simp: map_result_def split: sum.splits)

lemma serialize_cleanD: "serializeCanonicalJson path v = Inr s \<Longrightarrow> clean v"
proof (induction path v arbitrary: s rule: serializeCanonicalJson.induct)
  case (6 path vs)
  then obtain xs where xs:
    "map2 (\<lambda>i v. serializeCanonicalJson (index_path path i) v) [0..<length vs] vs = map Inr xs"
    by (auto dest: sequence_results_InrD)
  have "clean v" if "v \<in> set vs" for v
  proof -
    from that obtain i where i: "i < length vs" "vs ! i = v" by (auto simp: in_set_conv_nth)
    then have "(i, v) \<in> set (zip [0..<length vs] vs)"
      by (auto simp: in_set_zip intro!: exI [of _ i])
    moreover have "serializeCanonicalJson (index_path path i) v = Inr (xs ! i)"
      using arg_cong [OF xs, of "\<lambda>l. l ! i"] arg_cong [OF xs, of length] i by simp
    ultimately show ?thesis using "6.IH" by blast
  qed
  then show ?case by (simp add: list_all_iff)
next
  case (7 path kvs)
  let ?fs = "filter (\<lambda>p. snd p \<noteq> JUndef) kvs"
  let ?g = "\<lambda>p. (fst p, serializeCanonicalJson (member_path path (fst p)) (snd p))"
  obtain xs where "map (\<lambda>p. map_result (\<lambda>s. json_quote (fst p) @ '':'' @ s) (snd p))
      (js_sort (by_key codeUnitCompare) (map ?g ?fs)) = map Inr xs"
    using "7.prems" by (auto simp: Let_def dest: sequence_results_InrD)
  then have ok: "\<exists>y. map_result (\<lambda>s. json_quote (fst p) @ '':'' @ s) (snd p)
      = (Inr y :: canonicalization_error + string)"
    if "p \<in> set (map ?g ?fs)" for p
    using that by (metis (no_types, lifting) in_set_conv_nth length_map nth_map set_js_sort)
  have "clean w" if "(k, w) \<in> set kvs" "w \<noteq> JUndef" for k w
  proof -
    have "(k, w) \<in> set ?fs" using that by simp
    moreover from this have "?g (k, w) \<in> set (map ?g ?fs)"
      unfolding set_map by (rule imageI)
    then have "\<exists>s. serializeCanonicalJson (member_path path k) w = Inr s"
      using ok [of "?g (k, w)"] by auto
    ultimately show ?thesis using "7.IH" [of "(k, w)"] by auto
  qed
  then show ?case by (simp add: list_all_iff) (metis prod.collapse)
qed (auto split: if_splits)


section \<open>Plain printing is injective\<close>

text \<open>
  Every printed value starts with a character that tells its kind, and ends before one of the
  delimiters. Numbers are finite and in normal form, as every number of the program is.
\<close>

fun plain :: "json \<Rightarrow> bool" where
  "plain JUndef = False"
| "plain (JNum n) = plain_number n"
| "plain (JArr vs) = list_all plain vs"
| "plain (JObj kvs) = list_all (\<lambda>p. snd p = JUndef \<or> plain (snd p)) kvs"
| "plain v = True"

fun tight :: "json \<Rightarrow> bool" where
  \<comment> \<open>plain, and no member is undefined: the values an arrangement produces\<close>
  "tight JUndef = False"
| "tight (JNum n) = plain_number n"
| "tight (JArr vs) = list_all tight vs"
| "tight (JObj kvs) = list_all (\<lambda>p. tight (snd p)) kvs"
| "tight v = True"

lemma plain_clean: "plain v \<Longrightarrow> clean v"
proof (induction v rule: plain.induct)
  case (2 n) then show ?case by (cases n) auto
qed (auto simp: list_all_iff)

lemma tight_arrange: "plain v \<Longrightarrow> tight (arrange cmp v)"
  by (induction v rule: plain.induct) (auto simp: list_all_iff)

definition delimited :: "string \<Rightarrow> bool" where
  "delimited r = (r = [] \<or> hd r \<in> set '',]}'')"

lemma delimited_simps [simp]:
  "delimited []" "delimited (CHR '','' # r)" "delimited (CHR '']'' # r)" "delimited (CHR ''}'' # r)"
  by (simp_all add: delimited_def)

lemma span_unique:
  "\<forall>c \<in> set a. P c \<Longrightarrow> \<forall>c \<in> set b. P c \<Longrightarrow> r = [] \<or> \<not> P (hd r) \<Longrightarrow> s = [] \<or> \<not> P (hd s)
    \<Longrightarrow> a @ r = b @ s \<Longrightarrow> a = b \<and> r = s"
proof (induction a arbitrary: b)
  case Nil
  then show ?case by (cases b) auto
next
  case (Cons c a)
  then show ?case by (cases b) auto
qed

lemma delimited_not_number: "delimited r \<Longrightarrow> r = [] \<or> \<not> number_char (hd r)"
  by (auto simp: delimited_def number_char_def)

lemma hex_digit_inj: "m < 16 \<Longrightarrow> n < 16 \<Longrightarrow> hex_digit m = hex_digit n \<Longrightarrow> m = n"
proof -
  have code: "(of_char (hex_digit k) :: nat) = (if k < 10 then 48 + k else 87 + k)" if "k < 16" for k
    using that by (simp add: hex_digit_def)
  assume "m < 16" "n < 16" "hex_digit m = hex_digit n"
  then have "(if m < 10 then 48 + m else 87 + m) = (if n < 10 then 48 + n else 87 + n)"
    using code by metis
  then show "m = n" using \<open>m < 16\<close> \<open>n < 16\<close> by (auto split: if_splits)
qed

lemma dquote_eq: "dquote = CHR 0x22"
  by code_simp+

lemma json_escape_nonempty [simp]: "json_escape c \<noteq> []"
  by (simp add: json_escape_def Let_def)

lemma json_escape_no_quote: "\<exists>d ds. json_escape c = d # ds \<and> d \<noteq> dquote"
  by (auto simp: json_escape_def Let_def dquote_def)

text \<open>Escaped characters are prefix-free, because they can be decoded.\<close>

definition hex_value :: "char \<Rightarrow> nat" where
  "hex_value c = (let n = (of_char c :: nat) in if n < 58 then n - 48 else n - 87)"

definition json_unescape :: "string \<Rightarrow> char \<times> string" where
  "json_unescape s =
     (if hd s \<noteq> CHR 0x5C then (hd s, tl s)
      else let y = hd (tl s); r = tl (tl s) in
        if y = CHR ''b'' then (char_of (8::nat), r)
        else if y = CHR ''t'' then (char_of (9::nat), r)
        else if y = CHR ''n'' then (char_of (10::nat), r)
        else if y = CHR ''f'' then (char_of (12::nat), r)
        else if y = CHR ''r'' then (char_of (13::nat), r)
        else if y = CHR ''u'' then (char_of (16 * hex_value (r ! 2) + hex_value (r ! 3)), drop 4 r)
        else (y, r))"

lemma hex_value_digit [simp]: "n < 16 \<Longrightarrow> hex_value (hex_digit n) = n"
  by (auto simp: hex_value_def hex_digit_def)

lemma of_char_eqD: "(of_char c :: nat) = n \<Longrightarrow> c = char_of n"
  by (metis char_of_char)

lemma backslash_eq: "(char_of (92::nat) :: char) = CHR 0x5C" "(char_of (34::nat) :: char) = CHR 0x22"
  by code_simp+

lemma char_not_eqI: "(of_char c :: nat) \<noteq> of_char d \<Longrightarrow> c \<noteq> d"
  by auto

lemma json_unescape_escape: "json_unescape (json_escape c @ r) = (c, r)"
proof -
  have not_bs: "c \<noteq> CHR 0x5C" if "(of_char c :: nat) \<noteq> 92"
    using that by (intro char_not_eqI) simp
  have u: "(16 * ((of_char c :: nat) div 16) + (of_char c :: nat) mod 16) = of_char c"
    by simp
  show ?thesis
    using not_bs
    by (auto simp: json_escape_def json_unescape_def Let_def backslash_eq u dest!: of_char_eqD)
qed

lemma json_escape_prefix_free: "json_escape c @ r = json_escape d @ s \<Longrightarrow> c = d \<and> r = s"
  by (metis json_unescape_escape prod.inject)

lemma json_quote_inj: "json_quote s @ x = json_quote t @ y \<Longrightarrow> s = t \<and> x = y"
proof -
  have "concat (map json_escape s) @ dquote # x = concat (map json_escape t) @ dquote # y
      \<Longrightarrow> s = t \<and> x = y"
  proof (induction s arbitrary: t)
    case Nil
    then show ?case
      using json_escape_no_quote by (cases t) (auto, metis append_Cons list.inject)
  next
    case (Cons c s)
    show ?case
    proof (cases t)
      case Nil
      with Cons.prems show ?thesis using json_escape_no_quote [of c] by auto
    next
      case (Cons d t')
      with Cons.prems have "c = d" "concat (map json_escape s) @ dquote # x
          = concat (map json_escape t') @ dquote # y"
        by (auto dest: json_escape_prefix_free)
      with Cons.IH Cons show ?thesis by blast
    qed
  qed
  then show "json_quote s @ x = json_quote t @ y \<Longrightarrow> s = t \<and> x = y"
    by (simp add: json_quote_def)
qed

lemma join_with_Cons: "join_with sep (x # xs) = x @ concat (map (\<lambda>y. sep @ y) xs)"
  by (induction xs arbitrary: x) auto

definition self_delimiting :: "('a \<Rightarrow> string) \<Rightarrow> 'a \<Rightarrow> ('a \<Rightarrow> bool) \<Rightarrow> bool" where
  "self_delimiting P x Q =
     (\<forall>y r s. Q y \<longrightarrow> delimited r \<longrightarrow> delimited s \<longrightarrow> P x @ r = P y @ s \<longrightarrow> x = y \<and> r = s)"

lemma self_delimitingD:
  "self_delimiting P x Q \<Longrightarrow> Q y \<Longrightarrow> delimited r \<Longrightarrow> delimited s \<Longrightarrow> P x @ r = P y @ s
    \<Longrightarrow> x = y \<and> r = s"
  by (auto simp: self_delimiting_def)

lemma tail_inj:
  assumes "delimited (c # r)" "delimited (c # s)" "c \<noteq> CHR '',''"
  shows "(\<And>x. x \<in> set xs \<Longrightarrow> self_delimiting P x Q) \<Longrightarrow> list_all Q ys
    \<Longrightarrow> concat (map (\<lambda>y. CHR '','' # P y) xs) @ c # r = concat (map (\<lambda>y. CHR '','' # P y) ys) @ c # s
    \<Longrightarrow> xs = ys \<and> r = s"
proof (induction xs arbitrary: ys)
  case Nil
  then show ?case using assms by (cases ys) auto
next
  case (Cons x xs)
  then obtain y ys' where ys: "ys = y # ys'" using assms(3) by (cases ys) auto
  have del: "delimited (concat (map (\<lambda>y. CHR '','' # P y) zs) @ c # q)" if "delimited (c # q)" for zs q
    using that by (cases zs) (auto simp: delimited_def)
  have "x = y \<and> concat (map (\<lambda>y. CHR '','' # P y) xs) @ c # r
      = concat (map (\<lambda>y. CHR '','' # P y) ys') @ c # s"
    using Cons.prems ys assms(1,2)
    by (intro self_delimitingD [of P x Q]) (auto intro: del)
  with Cons.IH [of ys'] Cons.prems ys show ?case by auto
qed

lemma join_inj:
  assumes "delimited (c # r)" "delimited (c # s)" "c \<noteq> CHR '',''"
    and item: "\<And>x. x \<in> set xs \<Longrightarrow> self_delimiting P x Q" and ys: "list_all Q ys"
    and head: "\<And>y z q. y \<in> set xs \<union> set ys \<Longrightarrow> P y @ z \<noteq> c # q"
    and eq: "join_with '','' (map P xs) @ c # r = join_with '','' (map P ys) @ c # s"
  shows "xs = ys \<and> r = s"
proof (cases xs)
  case Nil
  with eq head show ?thesis by (cases ys) (auto simp: join_with_Cons, metis)
next
  case xs: (Cons x xs')
  show ?thesis
  proof (cases ys)
    case Nil
    with eq head xs show ?thesis by (auto simp: join_with_Cons)
  next
    case (Cons y ys')
    have del: "delimited (concat (map (\<lambda>y. CHR '','' # P y) zs) @ c # q)" if "delimited (c # q)" for zs q
      using that by (cases zs) (auto simp: delimited_def)
    have "x = y \<and> concat (map (\<lambda>y. CHR '','' # P y) xs') @ c # r
        = concat (map (\<lambda>y. CHR '','' # P y) ys') @ c # s"
      using eq xs Cons assms(1,2) item ys
      by (intro self_delimitingD [of P x Q]) (auto simp: join_with_Cons comp_def intro: del)
    with tail_inj [OF assms(1-3), of xs' P Q ys'] item ys xs Cons show ?thesis by auto
  qed
qed

lemma print_head: "tight v \<Longrightarrow> \<exists>c cs. print_json v = c # cs \<and> c \<notin> set '',]}:''"
proof (cases v)
  case (JNum n)
  moreover assume "tight v"
  ultimately show ?thesis
    using json_number_head [of n] by (auto simp: number_char_def)
qed (auto simp: json_quote_def dquote_eq)

lemma print_nonempty_head:
  "tight v \<Longrightarrow> c \<in> set '',]}:'' \<Longrightarrow> print_json v @ z \<noteq> c # q"
  using print_head [of v] by auto

lemma number_not_head:
  "plain_number n \<Longrightarrow> \<not> number_char c \<Longrightarrow> json_number n @ r \<noteq> c # s \<and> c # s \<noteq> json_number n @ r"
  using json_number_head [of n] by auto

lemma print_json_self_delimiting: "tight v \<Longrightarrow> self_delimiting print_json v tight"
proof (induction v rule: tight.induct [case_names undef num arr obj null bool str])
  case (num n)
  show ?case unfolding self_delimiting_def
  proof (intro allI impI)
    fix y r s assume y: "tight y" and ds: "delimited r" "delimited s"
      and eq: "print_json (JNum n) @ r = print_json y @ s"
    obtain c cs where c: "json_number n = c # cs" "number_char c"
      using json_number_head [of n] num by auto
    show "JNum n = y \<and> r = s"
    proof (cases y)
      case (JNum m)
      with num y eq ds have "json_number n = json_number m \<and> r = s"
        by (intro span_unique [where P = number_char])
           (auto dest: json_number_chars delimited_not_number)
      with num y JNum show ?thesis by (auto dest: json_number_inj)
    qed (use c eq y in \<open>auto simp: number_char_def json_quote_def dquote_eq split: if_splits\<close>)
  qed
next
  case (arr vs)
  show ?case unfolding self_delimiting_def
  proof (intro allI impI)
    fix y r s assume y: "tight y" and ds: "delimited r" "delimited s"
      and eq: "print_json (JArr vs) @ r = print_json y @ s"
    show "JArr vs = y \<and> r = s"
    proof (cases y)
      case (JNum n)
      with y eq json_number_head [of n] show ?thesis by (auto simp: number_char_def)
    next
      case (JArr ws)
      have "vs = ws \<and> r = s"
      proof (rule join_inj [where c = "CHR '']''" and P = print_json and Q = tight])
        show "self_delimiting print_json x tight" if "x \<in> set vs" for x
          using arr that by (auto simp: list_all_iff)
        show "print_json x @ z \<noteq> CHR '']'' # q" if "x \<in> set vs \<union> set ws" for x z q
          using arr y JArr that by (intro print_nonempty_head) (auto simp: list_all_iff)
      qed (use y eq JArr in auto)
      with JArr show ?thesis by simp
    qed (use y eq in \<open>auto simp: json_quote_def dquote_eq split: if_splits\<close>)
  qed
next
  case (obj kvs)
  let ?P = "\<lambda>p. json_quote (fst p) @ '':'' @ print_json (snd p)"
  let ?Q = "\<lambda>p. tight (snd p)"
  have item: "self_delimiting ?P x ?Q" if "x \<in> set kvs" for x
    unfolding self_delimiting_def
  proof (intro allI impI)
    fix y r s assume Q: "?Q y" and ds: "delimited r" "delimited s" and eq: "?P x @ r = ?P y @ s"
    then have "fst x = fst y" and rest: "print_json (snd x) @ r = print_json (snd y) @ s"
      by (auto dest: json_quote_inj)
    moreover have "self_delimiting print_json (snd x) tight"
      using obj that by (auto simp: list_all_iff)
    then have "snd x = snd y \<and> r = s"
      using Q ds rest by (rule self_delimitingD)
    ultimately show "x = y \<and> r = s" by (simp add: prod_eq_iff)
  qed
  show ?case unfolding self_delimiting_def
  proof (intro allI impI)
    fix y r s assume y: "tight y" and ds: "delimited r" "delimited s"
      and eq: "print_json (JObj kvs) @ r = print_json y @ s"
    show "JObj kvs = y \<and> r = s"
    proof (cases y)
      case (JNum n)
      with y eq json_number_head [of n] show ?thesis by (auto simp: number_char_def)
    next
      case (JObj ls)
      have "kvs = ls \<and> r = s"
      proof (rule join_inj [where c = "CHR ''}''" and P = ?P and Q = ?Q])
        show "?P x @ z \<noteq> CHR ''}'' # q" for x :: "string \<times> json" and z q
          by (simp add: json_quote_def dquote_eq)
      qed (use y eq JObj item in auto)
      with JObj show ?thesis by simp
    qed (use y eq in \<open>auto simp: json_quote_def dquote_eq split: if_splits\<close>)
  qed
next
  case null
  show ?case unfolding self_delimiting_def
  proof (intro allI impI)
    fix y r s assume "tight y" "print_json JNull @ r = print_json y @ s"
    then show "JNull = y \<and> r = s"
      by (cases y) (auto simp: json_quote_def dquote_eq number_char_def number_not_head split: if_splits)
  qed
next
  case (bool b)
  show ?case unfolding self_delimiting_def
  proof (intro allI impI)
    fix y r s assume "tight y" "print_json (JBool b) @ r = print_json y @ s"
    then show "JBool b = y \<and> r = s"
      by (cases y) (auto simp: json_quote_def dquote_eq number_char_def number_not_head split: if_splits)
  qed
next
  case (str t)
  show ?case unfolding self_delimiting_def
  proof (intro allI impI)
    fix y r s assume y: "tight y" and eq: "print_json (JStr t) @ r = print_json y @ s"
    show "JStr t = y \<and> r = s"
    proof (cases y)
      case (JStr u)
      with eq show ?thesis by (auto dest: json_quote_inj)
    qed (use y eq in \<open>auto simp: json_quote_def dquote_eq number_char_def number_not_head split: if_splits\<close>)
  qed
qed auto

section \<open>What a serialisation determines\<close>

lemma print_json_inj: "tight v \<Longrightarrow> tight w \<Longrightarrow> print_json v = print_json w \<Longrightarrow> v = w"
  using self_delimitingD [OF print_json_self_delimiting, of v w "[]" "[]"] by simp

lemma distinct_map_mset: "mset xs = mset ys \<Longrightarrow> distinct (map f xs) \<longleftrightarrow> distinct (map f ys)"
  by (rule mset_eq_imp_distinct_iff) (simp add: mset_map)

lemma canon_arrange: "distinct_keys v \<Longrightarrow> canon (arrange cmp v) = canon v"
proof (induction v rule: distinct_keys.induct)
  case (2 kvs)
  let ?fs = "filter (\<lambda>p. snd p \<noteq> JUndef) kvs"
  let ?g = "\<lambda>p. (fst p, arrange cmp (snd p))"
  let ?h = "\<lambda>p. (fst p, canon (snd p))"
  have keep: "filter (\<lambda>p. snd p \<noteq> JUndef) (js_sort (by_key cmp) (map ?g ?fs)) = js_sort (by_key cmp) (map ?g ?fs)"
    by (rule filter_True) auto
  have "mset (map ?h (js_sort (by_key cmp) (map ?g ?fs))) = mset (map ?h (map ?g ?fs))"
    by (simp only: mset_map mset_js_sort)
  also have "map ?h (map ?g ?fs) = map ?h ?fs"
    using 2 by (auto simp: list_all_iff)
  finally have ms: "mset (map ?h (js_sort (by_key cmp) (map ?g ?fs))) = mset (map ?h ?fs)" .
  moreover have "distinct (map fst (map ?h ?fs))"
    using 2 by (simp add: comp_def distinct_map_filter)
  ultimately have "distinct (map fst (map ?h (js_sort (by_key cmp) (map ?g ?fs))))"
    using distinct_map_mset by blast
  from code_units.sort_by_unique [OF this ms] keep show ?case by simp
qed (auto simp: list_all_iff)

end
