(* ===== verification/JsonScan.thy ===== *)
theory JsonScan
  imports CanonicalJson
begin

text \<open>
  \<open>assertNoDuplicateJsonKeys\<close> (\<open>contracts/action-request.ts\<close>): a scanner over the text of a request body that rejects
  objects with a repeated key before the text is parsed. The scanner keeps an index into the text; here it
  keeps the rest of the text, and the index of an error is the length of what was read. Keys and paths are sequences of
  UTF-16 code units, as escapes can name any of them.
\<close>

section \<open>Errors\<close>

datatype scan_error =
    InvalidToken nat
  | ExpectedKey nat
  | DuplicateKey "nat list" "nat list" \<comment> \<open>key and path\<close>
  | ExpectedColon nat
  | ExpectedComma nat
  | UnterminatedObject "nat list"
  | UnterminatedArray "nat list"
  | InvalidString nat
  | UnterminatedString nat
  | MalformedString \<comment> \<open>the \<open>SyntaxError\<close> of \<open>JSON.parse\<close>\<close>
  | UnexpectedContent nat

definition units :: "string \<Rightarrow> nat list" where
  "units s = map of_char s"

section \<open>Strings and numbers\<close>

abbreviation backslash :: char where "backslash \<equiv> CHR 0x5C"

definition skip_ws :: "string \<Rightarrow> string" where
  \<comment> \<open>\<open>whitespace()\<close>\<close>
  "skip_ws s = dropWhile is_ws s"

definition next_is :: "char \<Rightarrow> string \<Rightarrow> bool" where
  "next_is c s = (s \<noteq> [] \<and> hd s = c)"

definition hex_code :: "char \<Rightarrow> nat option" where
  "hex_code c = (let n = (of_char c :: nat) in
     if 48 \<le> n \<and> n \<le> 57 then Some (n - 48) else if 97 \<le> n \<and> n \<le> 102 then Some (n - 87)
     else if 65 \<le> n \<and> n \<le> 70 then Some (n - 55) else None)"

definition escape_code :: "char \<Rightarrow> nat option" where
  \<comment> \<open>the escapes of one character\<close>
  "escape_code c =
     (if c = dquote \<or> c = backslash \<or> c = CHR ''/'' then Some (of_char c)
      else if c = CHR ''b'' then Some 8 else if c = CHR ''t'' then Some 9 else if c = CHR ''n'' then Some 10
      else if c = CHR ''f'' then Some 12 else if c = CHR ''r'' then Some 13 else None)"

definition hex_unit :: "string \<Rightarrow> nat option" where
  \<comment> \<open>the code unit of four hexadecimal digits\<close>
  "hex_unit ds = (case map hex_code ds of
       [Some a, Some b, Some c, Some d] \<Rightarrow> Some (a * 4096 + b * 256 + c * 16 + d)
     | _ \<Rightarrow> None)"

fun parse_units :: "string \<Rightarrow> nat list option" where
  \<comment> \<open>\<open>JSON.parse\<close> of a string literal, without its quotes\<close>
  "parse_units [] = Some []"
| "parse_units (c # cs) =
     (if c \<noteq> backslash
      then (if (of_char c :: nat) < 32 then None else map_option (\<lambda>us. of_char c # us) (parse_units cs))
      else (case cs of
          [] \<Rightarrow> None
        | d # ds \<Rightarrow>
            if d = CHR ''u''
            then (case (hex_unit (take 4 ds), parse_units (drop 4 ds)) of
                    (Some u, Some us) \<Rightarrow> Some (u # us)
                  | _ \<Rightarrow> None)
            else (case (escape_code d, parse_units ds) of
                    (Some u, Some us) \<Rightarrow> Some (u # us)
                  | _ \<Rightarrow> None)))"

fun string_body :: "nat \<Rightarrow> nat \<Rightarrow> string \<Rightarrow> scan_error + (string \<times> string)" where
  \<comment> \<open>the loop of \<open>string()\<close> after the opening quote: the raw body and what follows the closing quote; \<open>n\<close> is the length of
    the text, \<open>start\<close> the index of the opening quote\<close>
  "string_body n start [] = Inl (UnterminatedString start)"
| "string_body n start (c # cs) =
     (if c = dquote then Inr ([], cs)
      else if c = backslash
      then (case cs of
          [] \<Rightarrow> Inl (UnterminatedString start)
        | d # ds \<Rightarrow> map_result (\<lambda>(b, r). (c # d # b, r)) (string_body n start ds))
      else if (of_char c :: nat) < 32 then Inl (InvalidString (n - length (c # cs)))
      else map_result (\<lambda>(b, r). (c # b, r)) (string_body n start cs))"

definition scan_string :: "nat \<Rightarrow> string \<Rightarrow> scan_error + (nat list \<times> string)" where
  \<comment> \<open>\<open>string()\<close>, called at an opening quote\<close>
  "scan_string n s =
     (case string_body n (n - length s) (tl s) of
        Inl e \<Rightarrow> Inl e
      | Inr (b, r) \<Rightarrow> (case parse_units b of None \<Rightarrow> Inl MalformedString | Some us \<Rightarrow> Inr (us, r)))"

definition is_digit_char :: "char \<Rightarrow> bool" where
  "is_digit_char c = (let n = (of_char c :: nat) in 48 \<le> n \<and> n \<le> 57)"

definition opt_fraction :: "string \<Rightarrow> string" where
  \<comment> \<open>\<open>(?:\.\d+)?\<close>\<close>
  "opt_fraction s =
     (let ds = takeWhile is_digit_char (tl s)
      in if next_is (CHR ''.'') s \<and> ds \<noteq> [] then CHR ''.'' # ds else [])"

definition opt_exponent :: "string \<Rightarrow> string" where
  \<comment> \<open>\<open>(?:[eE][+-]?\d+)?\<close>\<close>
  "opt_exponent s =
     (if next_is (CHR ''e'') s \<or> next_is (CHR ''E'') s
      then let sign = (if next_is (CHR ''+'') (tl s) \<or> next_is (CHR ''-'') (tl s) then take 1 (tl s) else []);
               ds = takeWhile is_digit_char (drop (length sign) (tl s))
           in if ds \<noteq> [] then hd s # sign @ ds else []
      else [])"

definition number_prefix :: "string \<Rightarrow> string" where
  \<comment> \<open>the match of \<open>/^-?(?:0|[1-9]\d*)(?:\.\d+)?(?:[eE][+-]?\d+)?/u\<close>, empty if there is none\<close>
  "number_prefix s =
     (let sign = (if next_is (CHR ''-'') s then ''-'' else []);
          r = drop (length sign) s;
          whole = (if next_is (CHR ''0'') r then ''0'' else takeWhile is_digit_char r);
          r1 = drop (length whole) r;
          fraction = opt_fraction r1;
          r2 = drop (length fraction) r1
      in if whole = [] then [] else sign @ whole @ fraction @ opt_exponent r2)"

section \<open>The scanner\<close>

datatype scan_mode =
    ScanValue \<comment> \<open>\<open>value(path)\<close>\<close>
  | ScanMembers "nat list list" \<comment> \<open>the loop of \<open>object(path)\<close> with the keys seen\<close>
  | ScanItems nat \<comment> \<open>the loop of \<open>array(path)\<close> with the number of items\<close>

definition scan_token :: "nat \<Rightarrow> string \<Rightarrow> scan_error + string" where
  \<comment> \<open>the branches of \<open>value\<close> for strings, literals and numbers\<close>
  "scan_token n r =
     (if next_is dquote r then map_result snd (scan_string n r)
      else if startsWith r ''true'' then Inr (drop 4 r)
      else if startsWith r ''false'' then Inr (drop 5 r)
      else if startsWith r ''null'' then Inr (drop 4 r)
      else if number_prefix r \<noteq> [] then Inr (drop (length (number_prefix r)) r)
      else Inl (InvalidToken (n - length r)))"

definition member_units :: "nat list \<Rightarrow> nat list \<Rightarrow> nat list" where
  "member_units path key = path @ units ''.'' @ key"

definition item_units :: "nat list \<Rightarrow> nat \<Rightarrow> nat list" where
  "item_units path i = path @ units (''['' @ nat_digits i @ '']'')"

function scan :: "nat \<Rightarrow> scan_mode \<Rightarrow> nat list \<Rightarrow> string \<Rightarrow> scan_error + string" where
  \<comment> \<open>what follows the value, the object or the array\<close>
  "scan n ScanValue path s =
     (let r = skip_ws s
      in if next_is (CHR ''{'') r
         then (let r1 = skip_ws (tl r)
               in if next_is (CHR ''}'') r1 then Inr (tl r1) else scan n (ScanMembers []) path r1)
         else if next_is (CHR ''['') r
         then (let r1 = skip_ws (tl r)
               in if next_is (CHR '']'') r1 then Inr (tl r1) else scan n (ScanItems 0) path r1)
         else scan_token n r)"
| "scan n (ScanMembers keys) path s =
     (if s = [] then Inl (UnterminatedObject path)
      else
        let r = skip_ws s
        in if \<not> next_is dquote r then Inl (ExpectedKey (n - length r))
           else (case scan_string n r of
               Inl e \<Rightarrow> Inl e
             | Inr (key, r1) \<Rightarrow>
                 if key \<in> set keys then Inl (DuplicateKey key path)
                 else
                   let r2 = skip_ws r1
                   in if \<not> next_is (CHR '':'') r2 then Inl (ExpectedColon (n - length r2))
                      else (case scan n ScanValue (member_units path key) (tl r2) of
                          Inl e \<Rightarrow> Inl e
                        | Inr r3 \<Rightarrow>
                            let r4 = skip_ws r3
                            in if next_is (CHR ''}'') r4 then Inr (tl r4)
                               else if \<not> next_is (CHR '','') r4 then Inl (ExpectedComma (n - length r4))
                               else scan n (ScanMembers (key # keys)) path (tl r4))))"
| "scan n (ScanItems i) path s =
     (if s = [] then Inl (UnterminatedArray path)
      else (case scan n ScanValue (item_units path i) s of
          Inl e \<Rightarrow> Inl e
        | Inr r3 \<Rightarrow>
            let r4 = skip_ws r3
            in if next_is (CHR '']'') r4 then Inr (tl r4)
               else if \<not> next_is (CHR '','') r4 then Inl (ExpectedComma (n - length r4))
               else scan n (ScanItems (i + 1)) path (tl r4)))"
  by pat_completeness auto

text \<open>The scanner always moves forward, so that it ends.\<close>

lemma map_result_pair:
  "map_result (\<lambda>(b, r). (f b, r)) x = Inr (b', r') \<longleftrightarrow> (\<exists>b. x = Inr (b, r') \<and> b' = f b)"
  by (cases x) (auto simp: map_result_def)

lemma string_body_shorter: "string_body n start s = Inr (b, r) \<Longrightarrow> length r < length s"
proof (induction n start s arbitrary: b r rule: string_body.induct)
  case (2 n start c cs)
  show ?case
  proof (cases "c = dquote")
    case False
    show ?thesis
    proof (cases "c = backslash")
      case True
      with False "2.prems" obtain d ds b' where "cs = d # ds" "string_body n start ds = Inr (b', r)"
        by (auto simp: map_result_pair split: list.splits)
      with "2.IH"(1) [OF False True] show ?thesis by fastforce
    next
      case normal: False
      with False "2.prems" obtain b' where "\<not> (of_char c :: nat) < 32" "string_body n start cs = Inr (b', r)"
        by (auto simp: map_result_pair split: if_splits)
      with "2.IH"(2) [OF False normal] show ?thesis by fastforce
    qed
  qed (use "2.prems" in simp)
qed simp

lemma scan_string_shorter:
  assumes "scan_string n s = Inr (u, r)" "s \<noteq> []"
  shows "length r < length s"
proof -
  obtain b where "string_body n (n - length s) (tl s) = Inr (b, r)"
    using assms(1) by (auto simp: scan_string_def split: sum.splits option.splits)
  then have "length r < length (tl s)" by (rule string_body_shorter)
  then show ?thesis by simp
qed

lemma skip_ws_shorter: "length (skip_ws s) \<le> length s"
  by (simp add: skip_ws_def length_dropWhile_le)

lemma next_is_tl: "next_is c s \<Longrightarrow> length (tl s) < length s"
  by (simp add: next_is_def)

lemma startsWith_drop: "startsWith s p \<Longrightarrow> p \<noteq> [] \<Longrightarrow> length (drop (length p) s) < length s"
  by (auto dest: startsWithD)

lemma number_prefix_nonempty: "number_prefix s \<noteq> [] \<Longrightarrow> s \<noteq> []"
  by (auto simp: number_prefix_def Let_def next_is_def split: if_splits)

lemma next_is_skip_ws: "next_is c (skip_ws s) \<Longrightarrow> length (tl (skip_ws s)) < length s"
  using next_is_tl [of c "skip_ws s"] skip_ws_shorter [of s] by simp


lemma next_is_skip_ws2: "next_is c (skip_ws s) \<Longrightarrow> length (skip_ws (tl (skip_ws s))) < length s"
  using next_is_skip_ws [of c s] skip_ws_shorter [of "tl (skip_ws s)"] by simp

lemma member_start_shorter:
  assumes "s \<noteq> []" "next_is dquote (skip_ws s)" "scan_string n (skip_ws s) = Inr (key, r)" "next_is c (skip_ws r)"
  shows "length (tl (skip_ws r)) < length s"
proof -
  have "skip_ws s \<noteq> []" using assms(2) by (auto simp: next_is_def)
  from scan_string_shorter [OF assms(3) this] next_is_skip_ws [OF assms(4)] skip_ws_shorter [of s] show ?thesis by simp
qed

lemma scan_token_shorter: "scan_token n r = Inr r' \<Longrightarrow> length r' < length r"
proof -
  assume r: "scan_token n r = Inr r'"
  show "length r' < length r"
  proof (cases "next_is dquote r")
    case True
    with r show ?thesis by (auto simp: scan_token_def next_is_def dest: scan_string_shorter)
  next
    case False
    have "r \<noteq> []" using r number_prefix_nonempty by (auto simp: scan_token_def next_is_def startsWith_def split: if_splits)
    then show ?thesis
      using r False by (auto simp: scan_token_def split: if_splits)
  qed
qed

lemma scan_shorter: "scan_dom (n, m, path, s) \<Longrightarrow> scan n m path s = Inr r \<Longrightarrow> length r < length s"
proof (induction n m path s arbitrary: r rule: scan.pinduct)
  case (1 n path s)
  let ?r = "skip_ws s"
  note eq = "1.prems" [unfolded scan.psimps(1) [OF "1.hyps"] Let_def]
  show ?case
  proof (cases "next_is (CHR ''{'') ?r \<or> next_is (CHR ''['') ?r")
    case True
    then have "length (skip_ws (tl ?r)) < length s" using next_is_skip_ws skip_ws_shorter [of "tl ?r"] by fastforce
    moreover have "length r \<le> length (skip_ws (tl ?r))"
      using eq True "1.IH"(1) [OF refl _ refl] "1.IH"(2) [OF refl _ _ refl] by (fastforce split: if_splits)
    ultimately show ?thesis by simp
  next
    case False
    then show ?thesis using eq scan_token_shorter [of n ?r r] skip_ws_shorter [of s] by simp
  qed
next
  case (2 n keys path s)
  let ?r = "skip_ws s"
  note eq = "2.prems" [unfolded scan.psimps(2) [OF "2.hyps"] Let_def]
  from eq have start: "s \<noteq> []" "next_is dquote ?r" by (auto split: if_splits)
  from eq start obtain key r1 where key: "scan_string n ?r = Inr (key, r1)" by (cases "scan_string n ?r") auto
  let ?r2 = "skip_ws r1"
  from eq start key have fresh: "key \<notin> set keys" "next_is (CHR '':'') ?r2" by (auto split: if_splits)
  from eq start key fresh obtain r3 where val: "scan n ScanValue (member_units path key) (tl ?r2) = Inr r3"
    by (cases "scan n ScanValue (member_units path key) (tl ?r2)") auto
  let ?r4 = "skip_ws r3"
  have "length r3 < length (tl ?r2)"
    using "2.IH"(1) [OF start(1) refl _ key refl fresh(1) refl _ val] start fresh by simp
  moreover have "length (tl ?r2) < length s"
    using next_is_skip_ws [OF fresh(2)] scan_string_shorter [OF key] start skip_ws_shorter [of s] by (auto simp: next_is_def)
  ultimately have short: "length r3 < length s" by simp
  show ?case
  proof (cases "next_is (CHR ''}'') ?r4")
    case True
    with eq start key fresh val have "r = tl ?r4" by simp
    with next_is_skip_ws [OF True] short show ?thesis by simp
  next
    case False
    with eq start key fresh val have more: "next_is (CHR '','') ?r4" "scan n (ScanMembers (key # keys)) path (tl ?r4) = Inr r"
      by (auto split: if_splits)
    have "length r < length (tl ?r4)"
      using "2.IH"(2) [OF start(1) refl _ key refl fresh(1) refl _ val refl False _ more(2)] start fresh more by simp
    with next_is_skip_ws [OF more(1)] short show ?thesis by simp
  qed
next
  case (3 n i path s)
  note eq = "3.prems" [unfolded scan.psimps(3) [OF "3.hyps"] Let_def]
  from eq have start: "s \<noteq> []" by (auto split: if_splits)
  from eq start obtain r3 where val: "scan n ScanValue (item_units path i) s = Inr r3"
    by (cases "scan n ScanValue (item_units path i) s") auto
  let ?r4 = "skip_ws r3"
  have short: "length r3 < length s" using "3.IH"(1) [OF start val] .
  show ?case
  proof (cases "next_is (CHR '']'') ?r4")
    case True
    with eq start val have "r = tl ?r4" by simp
    with next_is_skip_ws [OF True] short show ?thesis by simp
  next
    case False
    with eq start val have more: "next_is (CHR '','') ?r4" "scan n (ScanItems (i + 1)) path (tl ?r4) = Inr r"
      by (auto split: if_splits)
    have "length r < length (tl ?r4)" using "3.IH"(2) [OF start val refl False _ more(2)] more by simp
    with next_is_skip_ws [OF more(1)] short show ?thesis by simp
  qed
qed

termination scan
proof (relation "measure (\<lambda>(n, m, path, s). 2 * length s + (case m of ScanItems _ \<Rightarrow> 1 | _ \<Rightarrow> 0))", goal_cases)
  case (2 n path s x xa)
  then show ?case using next_is_skip_ws2 [of "CHR ''{''" s] by simp
next
  case (3 n path s x xa)
  then show ?case using next_is_skip_ws2 [of "CHR ''[''" s] by simp
next
  case (4 n keys path s x b xa y xb)
  then show ?case using member_start_shorter [of s n xa y "CHR '':''"] by simp
next
  case (5 n keys path s x b xa y xb ba xc)
  then have "scan_dom (n, ScanValue, member_units path xa, tl (skip_ws y))"
    "scan n ScanValue (member_units path xa) (tl (skip_ws y)) = Inr ba" by auto
  then have "length ba < length (tl (skip_ws y))" by (rule scan_shorter)
  moreover have "length (tl (skip_ws ba)) < length ba" using 5 by (intro next_is_skip_ws) simp
  ultimately show ?case using 5 member_start_shorter [of s n xa y "CHR '':''"] by simp
next
  case (6 n i path s)
  then show ?case by simp
next
  case (7 n i path s b x)
  have "length b < length s" using 7 by (auto intro: scan_shorter)
  moreover have "length (tl (skip_ws b)) < length b" using 7 by (intro next_is_skip_ws) simp
  ultimately show ?case using 7 by simp
qed simp_all

declare scan.simps [simp del]

definition assertNoDuplicateJsonKeys :: "string \<Rightarrow> scan_error + unit" where
  "assertNoDuplicateJsonKeys text =
     (case scan (length text) ScanValue (units ''$'') text of
        Inl e \<Rightarrow> Inl e
      | Inr r \<Rightarrow> (let r1 = skip_ws r in if r1 \<noteq> [] then Inl (UnexpectedContent (length text - length r1)) else Inr ()))"

end
