(* ===== verification/JsonText.thy ===== *)
theory JsonText
  imports JsonScan
begin

text \<open>
  What \<open>assertNoDuplicateJsonKeys\<close> accepts: exactly the JSON texts (with the white space of JavaScript) in which no
  object has a key twice, where keys are compared after decoding their escapes. The grammar of JSON is given as trees of
  tokens, with the white space between them, and a printer.
\<close>

section \<open>JSON texts\<close>

datatype str_char =
    Plain char
  | Escape char
  | Unicode string \<comment> \<open>four hexadecimal digits\<close>

record number_text =
  nu_negative :: bool
  nu_whole :: string
  nu_fraction :: "string option"
  nu_exponent :: "(char \<times> string \<times> string) option" \<comment> \<open>\<open>e\<close> or \<open>E\<close>, sign, digits\<close>

datatype jtext =
    TWord string
  | TNumber number_text
  | TString "str_char list"
  | TArray string "(string \<times> jtext \<times> string) list"
    \<comment> \<open>the space in an empty array; an item is space, value, space\<close>
  | TObject string "(string \<times> str_char list \<times> string \<times> string \<times> jtext \<times> string) list"
    \<comment> \<open>a member is space, key, space, then after the colon space, value, space\<close>

definition char_text :: "str_char \<Rightarrow> string" where
  "char_text c = (case c of Plain d \<Rightarrow> [d] | Escape d \<Rightarrow> [backslash, d] | Unicode ds \<Rightarrow> backslash # CHR ''u'' # ds)"

definition char_ok :: "str_char \<Rightarrow> bool" where
  "char_ok c = (case c of
       Plain d \<Rightarrow> d \<noteq> dquote \<and> d \<noteq> backslash \<and> 32 \<le> (of_char d :: nat)
     | Escape d \<Rightarrow> escape_code d \<noteq> None
     | Unicode ds \<Rightarrow> length ds = 4 \<and> hex_unit ds \<noteq> None)"

definition char_unit :: "str_char \<Rightarrow> nat" where
  "char_unit c = (case c of Plain d \<Rightarrow> of_char d | Escape d \<Rightarrow> the (escape_code d) | Unicode ds \<Rightarrow> the (hex_unit ds))"

definition body_text :: "str_char list \<Rightarrow> string" where
  "body_text b = concat (map char_text b)"

definition string_text :: "str_char list \<Rightarrow> string" where
  "string_text b = dquote # body_text b @ [dquote]"

definition digits :: "string \<Rightarrow> bool" where
  "digits ds = (ds \<noteq> [] \<and> list_all is_digit_char ds)"

definition number_ok :: "number_text \<Rightarrow> bool" where
  "number_ok x \<longleftrightarrow> digits (nu_whole x) \<and> (hd (nu_whole x) = CHR ''0'' \<longrightarrow> tl (nu_whole x) = [])
     \<and> (case nu_fraction x of None \<Rightarrow> True | Some ds \<Rightarrow> digits ds)
     \<and> (case nu_exponent x of None \<Rightarrow> True
         | Some (c, sg, ds) \<Rightarrow> c \<in> {CHR ''e'', CHR ''E''} \<and> sg \<in> {[], ''+'', ''-''} \<and> digits ds)"

lemma number_ok_iff:
  "number_ok x \<longleftrightarrow> digits (nu_whole x) \<and> (hd (nu_whole x) = CHR ''0'' \<longrightarrow> tl (nu_whole x) = [])
     \<and> (\<forall>ds. nu_fraction x = Some ds \<longrightarrow> digits ds)
     \<and> (\<forall>c sg ds. nu_exponent x = Some (c, sg, ds) \<longrightarrow> c \<in> {CHR ''e'', CHR ''E''} \<and> sg \<in> {[], ''+'', ''-''} \<and> digits ds)"
  by (auto simp: number_ok_def split: option.splits)

definition fraction_text :: "string option \<Rightarrow> string" where
  "fraction_text f = (case f of None \<Rightarrow> [] | Some ds \<Rightarrow> CHR ''.'' # ds)"

definition exponent_text :: "(char \<times> string \<times> string) option \<Rightarrow> string" where
  "exponent_text e = (case e of None \<Rightarrow> [] | Some (c, sg, ds) \<Rightarrow> c # sg @ ds)"

definition number_text :: "number_text \<Rightarrow> string" where
  "number_text x = (if nu_negative x then ''-'' else []) @ nu_whole x @ fraction_text (nu_fraction x)
     @ exponent_text (nu_exponent x)"

definition spaces :: "string \<Rightarrow> bool" where
  "spaces w = list_all is_ws w"

definition json_word :: "string \<Rightarrow> bool" where
  "json_word w = (w \<in> {''true'', ''false'', ''null''})"

fun text_ok :: "jtext \<Rightarrow> bool" where
  "text_ok (TWord w) = json_word w"
| "text_ok (TNumber x) = number_ok x"
| "text_ok (TString b) = list_all char_ok b"
| "text_ok (TArray w xs) = (spaces w \<and> list_all (\<lambda>(w1, t, w2). spaces w1 \<and> text_ok t \<and> spaces w2) xs)"
| "text_ok (TObject w ms) = (spaces w \<and> list_all (\<lambda>(w1, k, w2, w3, t, w4).
     spaces w1 \<and> list_all char_ok k \<and> spaces w2 \<and> spaces w3 \<and> text_ok t \<and> spaces w4) ms)"

fun comma_separated :: "string list \<Rightarrow> string" where
  "comma_separated [] = []"
| "comma_separated [x] = x"
| "comma_separated (x # y # ys) = x @ '','' @ comma_separated (y # ys)"

fun json_text :: "jtext \<Rightarrow> string" where
  "json_text (TWord w) = w"
| "json_text (TNumber x) = number_text x"
| "json_text (TString b) = string_text b"
| "json_text (TArray w xs) =
     ''['' @ (if xs = [] then w else comma_separated (map (\<lambda>(w1, t, w2). w1 @ json_text t @ w2) xs)) @ '']''"
| "json_text (TObject w ms) =
     ''{'' @ (if ms = [] then w
             else comma_separated (map (\<lambda>(w1, k, w2, w3, t, w4).
                    w1 @ string_text k @ w2 @ '':'' @ w3 @ json_text t @ w4) ms)) @ ''}''"

definition key_units :: "str_char list \<Rightarrow> nat list" where
  "key_units b = map char_unit b"

definition member_key :: "string \<times> str_char list \<times> string \<times> string \<times> jtext \<times> string \<Rightarrow> nat list" where
  "member_key m = key_units (fst (snd m))"

lemma member_key_simp [simp]: "member_key (w1, k, w2, w3, t, w4) = key_units k"
  by (simp add: member_key_def)

fun unique_keys :: "jtext \<Rightarrow> bool" where
  "unique_keys (TArray w xs) = list_all (\<lambda>(w1, t, w2). unique_keys t) xs"
| "unique_keys (TObject w ms) =
     (distinct (map member_key ms) \<and> list_all (\<lambda>(w1, k, w2, w3, t, w4). unique_keys t) ms)"
| "unique_keys _ = True"

section \<open>Strings\<close>

lemma dquote_neq [simp]: "dquote \<noteq> backslash" "backslash \<noteq> dquote" "CHR ''u'' \<noteq> dquote" "dquote \<noteq> CHR ''u''"
  by (simp_all add: dquote_eq)

lemma escape_u [simp]: "escape_code (CHR ''u'') = None"
  by (simp add: escape_code_def dquote_eq)

lemma hex_code_plain: "hex_code c = Some x \<Longrightarrow> c \<noteq> dquote \<and> c \<noteq> backslash \<and> 32 \<le> (of_char c :: nat)"
  by (auto simp: hex_code_def dquote_eq Let_def split: if_splits)

lemma hex_unit_cases:
  assumes "hex_unit ds \<noteq> None"
  obtains a b c d where "ds = [a, b, c, d]" "hex_code a \<noteq> None" "hex_code b \<noteq> None" "hex_code c \<noteq> None" "hex_code d \<noteq> None"
  using assms by (auto simp: hex_unit_def split: list.splits option.splits)

lemma string_body_plain:
  "c \<noteq> dquote \<Longrightarrow> c \<noteq> backslash \<Longrightarrow> 32 \<le> (of_char c :: nat)
    \<Longrightarrow> string_body n st (c # s) = map_result (\<lambda>(b, r). (c # b, r)) (string_body n st s)"
  by simp

lemma string_body_text:
  "list_all char_ok b \<Longrightarrow> string_body n st (body_text b @ dquote # r) = Inr (body_text b, r)"
proof (induction b)
  case (Cons c b)
  then have IH: "string_body n st (body_text b @ dquote # r) = Inr (body_text b, r)" and c: "char_ok c" by simp_all
  show ?case
  proof (cases c)
    case (Plain d)
    with c IH show ?thesis by (simp add: body_text_def char_text_def char_ok_def map_result_def)
  next
    case (Escape d)
    with IH show ?thesis by (simp add: body_text_def char_text_def map_result_def)
  next
    case (Unicode ds)
    with c have "hex_unit ds \<noteq> None" by (simp add: char_ok_def)
    then obtain p q x y where "ds = [p, q, x, y]" "hex_code p \<noteq> None" "hex_code q \<noteq> None" "hex_code x \<noteq> None"
      "hex_code y \<noteq> None" by (rule hex_unit_cases)
    moreover from this(2-) have "\<forall>d \<in> {p, q, x, y}. d \<noteq> dquote \<and> d \<noteq> backslash \<and> \<not> (of_char d :: nat) < 32"
      by (auto dest: hex_code_plain)
    ultimately show ?thesis using Unicode IH by (simp add: body_text_def char_text_def map_result_def)
  qed
qed (simp add: body_text_def)

lemma parse_units_text: "list_all char_ok b \<Longrightarrow> parse_units (body_text b) = Some (key_units b)"
proof (induction b)
  case (Cons c b)
  then have IH: "parse_units (body_text b) = Some (key_units b)" and c: "char_ok c" by simp_all
  show ?case
  proof (cases c)
    case (Unicode ds)
    with c have "hex_unit ds \<noteq> None" by (simp add: char_ok_def)
    then obtain p q x y where "ds = [p, q, x, y]" by (rule hex_unit_cases)
    with c Unicode IH show ?thesis
      by (auto simp: body_text_def char_text_def key_units_def char_unit_def char_ok_def)
  qed (use c IH in \<open>auto simp: body_text_def char_text_def key_units_def char_unit_def char_ok_def\<close>)
qed (simp add: body_text_def key_units_def)

lemma scan_string_text: "list_all char_ok b \<Longrightarrow> scan_string n (string_text b @ r) = Inr (key_units b, r)"
  by (simp add: scan_string_def string_text_def string_body_text parse_units_text)

section \<open>Numbers\<close>

definition number_end :: "string \<Rightarrow> bool" where
  "number_end r \<longleftrightarrow> r = [] \<or> \<not> is_digit_char (hd r) \<and> hd r \<notin> {CHR ''.'', CHR ''e'', CHR ''E''}"

lemma digit_facts [simp]:
  "\<not> is_digit_char (CHR ''.'')" "\<not> is_digit_char (CHR ''e'')" "\<not> is_digit_char (CHR ''E'')"
  "\<not> is_digit_char (CHR ''-'')" "\<not> is_digit_char (CHR ''+'')"
  by (simp_all add: is_digit_char_def)

lemma takeWhile_digits:
  assumes "list_all is_digit_char ds" "r = [] \<or> \<not> is_digit_char (hd r)"
  shows "takeWhile is_digit_char (ds @ r) = ds"
  using assms by (cases r) (simp_all add: list_all_iff takeWhile_append2 takeWhile_tail)

lemma exponent_prefix:
  assumes "\<And>c sg ds. e = Some (c, sg, ds) \<Longrightarrow> c \<in> {CHR ''e'', CHR ''E''} \<and> sg \<in> {[], ''+'', ''-''} \<and> digits ds"
    and "number_end r"
  shows "opt_exponent (exponent_text e @ r) = exponent_text e"
proof (cases e)
  case None
  then show ?thesis using assms(2) by (auto simp: exponent_text_def opt_exponent_def next_is_def number_end_def)
next
  case (Some x)
  then obtain c sg ds where x: "e = Some (c, sg, ds)" by (cases x) auto
  with assms(1) have ok: "c \<in> {CHR ''e'', CHR ''E''}" "sg \<in> {[], ''+'', ''-''}" "digits ds" by auto
  then obtain d ds' where ds: "ds = d # ds'" "is_digit_char d" by (cases ds) (auto simp: digits_def)
  have tw: "takeWhile is_digit_char (ds @ r) = ds"
    using ok(3) assms(2) by (intro takeWhile_digits) (auto simp: digits_def number_end_def)
  have "d \<noteq> CHR ''+''" "d \<noteq> CHR ''-''" using ds(2) by auto
  moreover have "c = CHR ''e'' \<or> c = CHR ''E''" using ok(1) by auto
  moreover have "sg = [] \<or> sg = ''+'' \<or> sg = ''-''" using ok(2) by auto
  ultimately show ?thesis
    using tw ds(2) unfolding x exponent_text_def opt_exponent_def next_is_def Let_def ds(1)
    by (elim disjE) simp_all
qed

lemma fraction_prefix:
  assumes "\<And>ds. f = Some ds \<Longrightarrow> digits ds" "r = [] \<or> \<not> is_digit_char (hd r) \<and> hd r \<noteq> CHR ''.''"
  shows "opt_fraction (fraction_text f @ r) = fraction_text f"
proof (cases f)
  case None
  then show ?thesis using assms(2) by (auto simp: fraction_text_def opt_fraction_def next_is_def)
next
  case (Some ds)
  then have "digits ds" using assms(1) by simp
  moreover from this have "takeWhile is_digit_char (ds @ r) = ds"
    using assms(2) by (intro takeWhile_digits) (auto simp: digits_def)
  ultimately show ?thesis using Some by (simp add: fraction_text_def opt_fraction_def next_is_def digits_def)
qed

lemma number_prefix_text:
  assumes "number_ok x" "number_end r"
  shows "number_prefix (number_text x @ r) = number_text x"
proof -
  let ?e = "exponent_text (nu_exponent x)" and ?f = "fraction_text (nu_fraction x)" and ?w = "nu_whole x"
  have e: "opt_exponent (?e @ r) = ?e" using assms by (intro exponent_prefix) (auto simp: number_ok_iff)
  have er: "?e @ r = [] \<or> \<not> is_digit_char (hd (?e @ r)) \<and> hd (?e @ r) \<noteq> CHR ''.''"
    using assms by (cases "nu_exponent x") (auto simp: exponent_text_def number_end_def number_ok_iff)
  then have f: "opt_fraction (?f @ ?e @ r) = ?f"
    using assms by (intro fraction_prefix) (auto simp: number_ok_iff)
  have fr: "?f @ ?e @ r = [] \<or> \<not> is_digit_char (hd (?f @ ?e @ r))"
    using er by (cases "nu_fraction x") (auto simp: fraction_text_def)
  have w: "digits ?w" "hd ?w = CHR ''0'' \<longrightarrow> tl ?w = []" using assms(1) by (simp_all add: number_ok_iff)
  then have "takeWhile is_digit_char (?w @ ?f @ ?e @ r) = ?w"
    using fr by (intro takeWhile_digits) (auto simp: digits_def)
  moreover from w obtain c cs where c: "?w = c # cs" "is_digit_char c" by (cases ?w) (auto simp: digits_def)
  ultimately have whole: "(if next_is (CHR ''0'') (?w @ ?f @ ?e @ r) then ''0'' else takeWhile is_digit_char (?w @ ?f @ ?e @ r)) = ?w"
    using w(2) by (auto simp: next_is_def)
  have "c \<noteq> CHR ''-''" using c(2) by auto
  then have sign: "(if next_is (CHR ''-'') (number_text x @ r) then ''-'' else []) = (if nu_negative x then ''-'' else [])"
    using c(1) by (simp add: number_text_def next_is_def)
  have rest: "drop (length (if nu_negative x then ''-'' else [])) (number_text x @ r) = ?w @ ?f @ ?e @ r"
    by (simp add: number_text_def)
  show ?thesis
    unfolding number_prefix_def Let_def sign rest whole using c(1) e f by (simp add: number_text_def)
qed

section \<open>White space\<close>

lemma skip_spaces [simp]: "spaces w \<Longrightarrow> skip_ws (w @ s) = skip_ws s"
  by (simp add: skip_ws_def spaces_def list_all_iff dropWhile_append2)

lemma skip_visible: "s = [] \<or> \<not> is_ws (hd s) \<Longrightarrow> skip_ws s = s"
  by (cases s) (auto simp: skip_ws_def)

lemma skip_nothing: "spaces w \<Longrightarrow> skip_ws w = []"
  using skip_spaces [of w "[]"] by (simp add: skip_ws_def)

lemma ws_number_end: "spaces w \<Longrightarrow> number_end r \<Longrightarrow> number_end (w @ r)"
  by (cases w) (auto simp: number_end_def spaces_def is_ws_def is_digit_char_def)

section \<open>The first repeated key\<close>

abbreviation item_text :: "string \<times> jtext \<times> string \<Rightarrow> string" where
  "item_text \<equiv> \<lambda>(w1, t, w2). w1 @ json_text t @ w2"

abbreviation member_text :: "string \<times> str_char list \<times> string \<times> string \<times> jtext \<times> string \<Rightarrow> string" where
  "member_text \<equiv> \<lambda>(w1, k, w2, w3, t, w4). w1 @ string_text k @ w2 @ '':'' @ w3 @ json_text t @ w4"

fun clash :: "nat list \<Rightarrow> jtext \<Rightarrow> (nat list \<times> nat list) option"
  and clash_items :: "nat list \<Rightarrow> nat \<Rightarrow> (string \<times> jtext \<times> string) list \<Rightarrow> (nat list \<times> nat list) option"
  and clash_members :: "nat list \<Rightarrow> nat list list \<Rightarrow> (string \<times> str_char list \<times> string \<times> string \<times> jtext \<times> string) list
    \<Rightarrow> (nat list \<times> nat list) option" where
  "clash path (TArray w xs) = clash_items path 0 xs"
| "clash path (TObject w ms) = clash_members path [] ms"
| "clash path (TWord w) = None"
| "clash path (TNumber x) = None"
| "clash path (TString b) = None"
| "clash_items path i [] = None"
| "clash_items path i ((w1, t, w2) # xs) =
     (case clash (item_units path i) t of Some d \<Rightarrow> Some d | None \<Rightarrow> clash_items path (i + 1) xs)"
| "clash_members path keys [] = None"
| "clash_members path keys ((w1, k, w2, w3, t, w4) # ms) =
     (if key_units k \<in> set keys then Some (key_units k, path)
      else (case clash (member_units path (key_units k)) t of
          Some d \<Rightarrow> Some d
        | None \<Rightarrow> clash_members path (key_units k # keys) ms))"

definition verdict :: "(nat list \<times> nat list) option \<Rightarrow> string \<Rightarrow> scan_error + string" where
  "verdict d r = (case d of None \<Rightarrow> Inr r | Some (k, p) \<Rightarrow> Inl (DuplicateKey k p))"

lemma verdict_simps [simp]: "verdict None r = Inr r" "verdict (Some (k, p)) r = Inl (DuplicateKey k p)"
  by (simp_all add: verdict_def)

lemma clash_None_unique:
  "clash path t = None \<longleftrightarrow> unique_keys t"
  "clash_items path i xs = None \<longleftrightarrow> list_all (\<lambda>(w1, t, w2). unique_keys t) xs"
  "clash_members path keys ms = None \<longleftrightarrow>
     distinct (map member_key ms) \<and> set keys \<inter> member_key ` set ms = {}
     \<and> list_all (\<lambda>(w1, k, w2, w3, t, w4). unique_keys t) ms"
  by (induction path t and path i xs and path keys ms rule: clash_clash_items_clash_members.induct)
    (auto split: option.splits)

section \<open>Texts\<close>

definition text_head :: "char \<Rightarrow> bool" where
  "text_head c \<longleftrightarrow> \<not> is_ws c \<and> c \<notin> {CHR '','', CHR '']'', CHR ''}'', CHR '':''}"

lemma number_text_head:
  assumes "number_ok x"
  obtains c cs where "number_text x = c # cs" "is_digit_char c \<or> c = CHR ''-''"
  using assms that by (cases "nu_whole x"; cases "nu_negative x") (auto simp: number_ok_iff number_text_def digits_def)

lemma digit_head: "is_digit_char c \<or> c = CHR ''-'' \<Longrightarrow> text_head c"
  by (auto simp: is_digit_char_def text_head_def is_ws_def)

lemma token_heads [simp]:
  "text_head (CHR ''t'')" "text_head (CHR ''f'')" "text_head (CHR ''n'')" "text_head dquote"
  "text_head (CHR ''['')" "text_head (CHR ''{'')"
  by (simp_all add: text_head_def is_ws_def dquote_eq)

lemma text_starts: "text_ok t \<Longrightarrow> json_text t \<noteq> [] \<and> text_head (hd (json_text t))"
proof (cases t)
  case (TNumber x)
  assume "text_ok t"
  with TNumber have "number_ok x" by simp
  then show ?thesis by (rule number_text_head) (use TNumber digit_head in simp)
qed (auto simp: json_word_def string_text_def)

lemma json_text_head:
  assumes "text_ok t"
  obtains c cs where "json_text t = c # cs" "text_head c"
  using text_starts [OF assms] by (cases "json_text t") auto

lemma skip_text: "text_ok t \<Longrightarrow> skip_ws (json_text t @ r) = json_text t @ r"
  by (erule json_text_head) (auto intro!: skip_visible simp: text_head_def)

lemma item_head:
  assumes "spaces w1" "text_ok t"
  shows "\<exists>c cs. skip_ws (w1 @ json_text t @ w2) = c # cs \<and> text_head c"
  using assms by (auto simp: skip_text elim: json_text_head)

lemma separated_Cons: "comma_separated (x # xs) = x @ (if xs = [] then [] else '','' @ comma_separated xs)"
  by (cases xs) simp_all

section \<open>Scanning a text\<close>

lemma skip_skip [simp]: "skip_ws (skip_ws s) = skip_ws s"
  by (simp add: skip_ws_def)

lemma scan_skip_value [simp]: "scan n ScanValue path (skip_ws s) = scan n ScanValue path s"
  by (simp add: scan.simps(1))

lemma scan_skip_items:
  assumes "skip_ws s \<noteq> []"
  shows "scan n (ScanItems i) path (skip_ws s) = scan n (ScanItems i) path s"
proof -
  have "s \<noteq> []" using assms by (auto simp: skip_ws_def)
  with assms show ?thesis by (simp add: scan.simps(3) Let_def)
qed

lemma scan_skip_members:
  assumes "skip_ws s \<noteq> []"
  shows "scan n (ScanMembers k) path (skip_ws s) = scan n (ScanMembers k) path s"
proof -
  have "s \<noteq> []" using assms by (auto simp: skip_ws_def)
  with assms show ?thesis by (simp add: scan.simps(2) Let_def)
qed

lemma next_is_Cons [simp]: "next_is c (d # s) \<longleftrightarrow> d = c" "\<not> next_is c []"
  by (auto simp: next_is_def)

lemma skip_close [simp]:
  "skip_ws (CHR '']'' # r) = CHR '']'' # r" "skip_ws (CHR ''}'' # r) = CHR ''}'' # r" "skip_ws (CHR '','' # r) = CHR '','' # r"
  "skip_ws (CHR '':'' # r) = CHR '':'' # r" "skip_ws (CHR ''['' # r) = CHR ''['' # r" "skip_ws (CHR ''{'' # r) = CHR ''{'' # r"
  "skip_ws (dquote # r) = dquote # r"
  by (simp_all add: skip_ws_def is_ws_def dquote_eq)

lemma closing_ends [simp]:
  "number_end (CHR '']'' # r)" "number_end (CHR ''}'' # r)" "number_end (CHR '','' # r)"
  by (simp_all add: number_end_def is_digit_char_def)

lemma scan_word:
  assumes "json_word w" "spaces u"
  shows "scan n ScanValue path (u @ w @ r) = Inr r"
proof -
  have skip: "skip_ws (u @ w @ r) = w @ r" using skip_text [of "TWord w" r] assms by simp
  have "scan n ScanValue path (u @ w @ r) = scan_token n (w @ r)"
    using assms(1) unfolding scan.simps(1) skip Let_def json_word_def by auto
  also have "\<dots> = Inr r"
    using assms(1) unfolding json_word_def by (elim insertE) (simp_all add: scan_token_def startsWith_def dquote_eq)
  finally show ?thesis .
qed

lemma scan_number:
  assumes "number_ok x" "spaces u" "number_end r"
  shows "scan n ScanValue path (u @ number_text x @ r) = Inr r"
proof -
  obtain c cs where c: "number_text x = c # cs" "is_digit_char c \<or> c = CHR ''-''"
    using assms(1) by (rule number_text_head)
  have "skip_ws (u @ number_text x @ r) = number_text x @ r" using skip_text [of "TNumber x" r] assms by simp
  moreover have "c \<noteq> CHR ''{'' \<and> c \<noteq> CHR ''['' \<and> c \<noteq> dquote \<and> c \<noteq> CHR ''t'' \<and> c \<noteq> CHR ''f'' \<and> c \<noteq> CHR ''n''"
    using c(2) by (auto simp: is_digit_char_def dquote_eq)
  ultimately have "scan n ScanValue path (u @ number_text x @ r) =
      (if number_prefix (number_text x @ r) \<noteq> [] then Inr (drop (length (number_prefix (number_text x @ r))) (number_text x @ r))
       else Inl (InvalidToken (n - length (number_text x @ r))))"
    by (simp add: scan.simps(1) scan_token_def c startsWith_def Let_def)
  then show ?thesis unfolding number_prefix_text [OF assms(1,3)] by (simp add: c)
qed

lemma scan_string_value:
  assumes "list_all char_ok b" "spaces u"
  shows "scan n ScanValue path (u @ string_text b @ r) = Inr r"
proof -
  have "skip_ws (u @ string_text b @ r) = string_text b @ r" using skip_text [of "TString b" r] assms by simp
  moreover have "next_is dquote (string_text b @ r)" "dquote \<noteq> CHR ''{''" "dquote \<noteq> CHR ''[''"
    by (simp_all add: string_text_def dquote_eq)
  ultimately show ?thesis
    using scan_string_text [OF assms(1), of n r]
    by (simp add: scan.simps(1) scan_token_def next_is_def Let_def map_result_def)
qed

abbreviation items_ok :: "(string \<times> jtext \<times> string) list \<Rightarrow> bool" where
  "items_ok \<equiv> list_all (\<lambda>(w1, t, w2). spaces w1 \<and> text_ok t \<and> spaces w2)"

abbreviation members_ok :: "(string \<times> str_char list \<times> string \<times> string \<times> jtext \<times> string) list \<Rightarrow> bool" where
  "members_ok \<equiv> list_all (\<lambda>(w1, k, w2, w3, t, w4).
     spaces w1 \<and> list_all char_ok k \<and> spaces w2 \<and> spaces w3 \<and> text_ok t \<and> spaces w4)"

lemma text_start_append: "text_ok t \<Longrightarrow> \<exists>c cs. json_text t @ r = c # cs \<and> text_head c"
  by (erule json_text_head) simp

lemma items_start:
  assumes "xs \<noteq> []" "items_ok xs"
  shows "\<exists>c cs. skip_ws (comma_separated (map item_text xs) @ r) = c # cs \<and> text_head c"
proof -
  obtain w1 t w2 ys where xs: "xs = (w1, t, w2) # ys" using assms(1) by (cases xs) auto
  with assms(2) have ok: "spaces w1" "text_ok t" by simp_all
  let ?rest = "w2 @ (if ys = [] then [] else '','' @ comma_separated (map item_text ys)) @ r"
  have "comma_separated (map item_text xs) @ r = w1 @ json_text t @ ?rest" by (simp add: xs separated_Cons)
  then have "skip_ws (comma_separated (map item_text xs) @ r) = json_text t @ ?rest"
    using ok by (simp only: skip_spaces skip_text)
  then show ?thesis using text_start_append [OF ok(2)] by simp
qed

lemma members_start:
  "ms \<noteq> [] \<Longrightarrow> members_ok ms \<Longrightarrow> \<exists>cs. skip_ws (comma_separated (map member_text ms) @ r) = dquote # cs"
  by (cases ms) (auto simp: separated_Cons string_text_def)

lemma scan_array:
  assumes "items_ok xs" "spaces w" "spaces u"
    and "xs \<noteq> [] \<Longrightarrow> scan n (ScanItems 0) path (comma_separated (map item_text xs) @ '']'' @ r) = verdict (clash_items path 0 xs) r"
  shows "scan n ScanValue path (u @ json_text (TArray w xs) @ r) = verdict (clash path (TArray w xs)) r"
proof (cases "xs = []")
  case True
  then show ?thesis using assms(2,3) by (simp add: scan.simps(1) Let_def)
next
  case False
  let ?s = "comma_separated (map item_text xs) @ '']'' @ r"
  obtain c cs where c: "skip_ws ?s = c # cs" "text_head c" using items_start [OF False assms(1)] by blast
  have "scan n ScanValue path (u @ json_text (TArray w xs) @ r) = scan n (ScanItems 0) path (skip_ws ?s)"
    using c False assms(3) by (simp add: scan.simps(1) text_head_def Let_def)
  also have "\<dots> = scan n (ScanItems 0) path ?s" by (rule scan_skip_items) (use c in simp)
  also have "\<dots> = verdict (clash_items path 0 xs) r" by (rule assms(4) [OF False])
  finally show ?thesis by simp
qed

lemma scan_object:
  assumes "members_ok ms" "spaces w" "spaces u"
    and "ms \<noteq> [] \<Longrightarrow> scan n (ScanMembers []) path (comma_separated (map member_text ms) @ ''}'' @ r)
           = verdict (clash_members path [] ms) r"
  shows "scan n ScanValue path (u @ json_text (TObject w ms) @ r) = verdict (clash path (TObject w ms)) r"
proof (cases "ms = []")
  case True
  then show ?thesis using assms(2,3) by (simp add: scan.simps(1) Let_def)
next
  case False
  let ?s = "comma_separated (map member_text ms) @ ''}'' @ r"
  obtain cs where c: "skip_ws ?s = dquote # cs" using members_start [OF False assms(1)] by blast
  have "scan n ScanValue path (u @ json_text (TObject w ms) @ r) = scan n (ScanMembers []) path (skip_ws ?s)"
    using c False assms(3) by (simp add: scan.simps(1) dquote_eq Let_def)
  also have "\<dots> = scan n (ScanMembers []) path ?s" by (rule scan_skip_members) (use c in simp)
  also have "\<dots> = verdict (clash_members path [] ms) r" by (rule assms(4) [OF False])
  finally show ?thesis by simp
qed

lemma scan_item:
  assumes "spaces w1" "text_ok t" "spaces w2" "items_ok xs"
    and "\<And>u r. spaces u \<Longrightarrow> number_end r \<Longrightarrow> scan n ScanValue (item_units path i) (u @ json_text t @ r) = verdict (clash (item_units path i) t) r"
    and "xs \<noteq> [] \<Longrightarrow> clash (item_units path i) t = None \<Longrightarrow>
      scan n (ScanItems (i + 1)) path (comma_separated (map item_text xs) @ '']'' @ r) = verdict (clash_items path (i + 1) xs) r"
  shows "scan n (ScanItems i) path (comma_separated (map item_text ((w1, t, w2) # xs)) @ '']'' @ r)
    = verdict (clash_items path i ((w1, t, w2) # xs)) r"
proof -
  let ?rest = "(if xs = [] then [] else '','' @ comma_separated (map item_text xs)) @ '']'' @ r"
  have eq: "comma_separated (map item_text ((w1, t, w2) # xs)) @ '']'' @ r = w1 @ json_text t @ w2 @ ?rest"
    by (simp add: separated_Cons)
  have "number_end (w2 @ ?rest)" by (rule ws_number_end [OF assms(3)]) simp
  then have val: "scan n ScanValue (item_units path i) (w1 @ json_text t @ w2 @ ?rest) = verdict (clash (item_units path i) t) (w2 @ ?rest)"
    using assms(1,5) by blast
  have ne: "w1 @ json_text t @ w2 @ ?rest \<noteq> []" using text_starts [OF assms(2)] by simp
  have "scan n (ScanItems i) path (w1 @ json_text t @ w2 @ ?rest) = verdict (clash_items path i ((w1, t, w2) # xs)) r"
  proof (cases "clash (item_units path i) t")
    case None
    then show ?thesis
      using val ne assms(3,6) by (subst scan.simps(3)) (simp add: Let_def)
  next
    case (Some d)
    then show ?thesis using val ne by (cases d) (subst scan.simps(3), simp)
  qed
  then show ?thesis by (simp only: eq)
qed

lemma scan_member:
  assumes "spaces w1" "list_all char_ok k" "spaces w2" "spaces w3" "text_ok t" "spaces w4"
    and "\<And>u r. spaces u \<Longrightarrow> number_end r \<Longrightarrow> key_units k \<notin> set keys
      \<Longrightarrow> scan n ScanValue (member_units path (key_units k)) (u @ json_text t @ r) = verdict (clash (member_units path (key_units k)) t) r"
    and "ms \<noteq> [] \<Longrightarrow> key_units k \<notin> set keys \<Longrightarrow> clash (member_units path (key_units k)) t = None \<Longrightarrow>
      scan n (ScanMembers (key_units k # keys)) path (comma_separated (map member_text ms) @ ''}'' @ r)
        = verdict (clash_members path (key_units k # keys) ms) r"
  shows "scan n (ScanMembers keys) path (comma_separated (map member_text ((w1, k, w2, w3, t, w4) # ms)) @ ''}'' @ r)
    = verdict (clash_members path keys ((w1, k, w2, w3, t, w4) # ms)) r"
proof -
  let ?rest = "(if ms = [] then [] else '','' @ comma_separated (map member_text ms)) @ ''}'' @ r"
  let ?tail = "w2 @ '':'' @ w3 @ json_text t @ w4 @ ?rest"
  have eq: "comma_separated (map member_text ((w1, k, w2, w3, t, w4) # ms)) @ ''}'' @ r = w1 @ string_text k @ ?tail"
    by (simp add: separated_Cons)
  have skip: "skip_ws (w1 @ string_text k @ ?tail) = string_text k @ ?tail" "next_is dquote (string_text k @ ?tail)"
    "w1 @ string_text k @ ?tail \<noteq> []"
    using assms(1) by (simp_all add: string_text_def)
  have colon: "skip_ws ?tail = '':'' @ w3 @ json_text t @ w4 @ ?rest" using assms(3) by simp
  note start = skip scan_string_text [OF assms(2)] colon
  have "scan n (ScanMembers keys) path (w1 @ string_text k @ ?tail) = verdict (clash_members path keys ((w1, k, w2, w3, t, w4) # ms)) r"
  proof (cases "key_units k \<in> set keys")
    case True
    then show ?thesis using start(2,3) by (subst scan.simps(2)) (simp only: Let_def start(1,4), simp)
  next
    case False
    have "number_end (w4 @ ?rest)" by (rule ws_number_end [OF assms(6)]) simp
    then have val: "scan n ScanValue (member_units path (key_units k)) (w3 @ json_text t @ w4 @ ?rest)
        = verdict (clash (member_units path (key_units k)) t) (w4 @ ?rest)"
      using assms(4,7) False by blast
    show ?thesis
    proof (cases "clash (member_units path (key_units k)) t")
      case None
      with False show ?thesis
        using start(2,3,5) val assms(6,8) by (subst scan.simps(2)) (simp only: Let_def start(1,4), simp)
    next
      case (Some d)
      with False show ?thesis
        using start(2,3,5) val by (cases d) (subst scan.simps(2), simp only: Let_def start(1,4), simp)
    qed
  qed
  then show ?thesis by (simp only: eq)
qed

lemma scan_text:
  "text_ok t \<Longrightarrow> spaces u \<Longrightarrow> number_end r \<Longrightarrow> scan n ScanValue path (u @ json_text t @ r) = verdict (clash path t) r"
  "xs \<noteq> [] \<Longrightarrow> items_ok xs
    \<Longrightarrow> scan n (ScanItems i) path (comma_separated (map item_text xs) @ '']'' @ r) = verdict (clash_items path i xs) r"
  "ms \<noteq> [] \<Longrightarrow> members_ok ms
    \<Longrightarrow> scan n (ScanMembers keys) path (comma_separated (map member_text ms) @ ''}'' @ r) = verdict (clash_members path keys ms) r"
proof (induction path t and path i xs and path keys ms arbitrary: u r and r and r
    rule: clash_clash_items_clash_members.induct)
  case (1 path w xs)
  then show ?case by (intro scan_array) simp_all
next
  case (2 path w ms)
  then show ?case by (intro scan_object) simp_all
next
  case (3 path w)
  then show ?case using scan_word [of w u n path r] by simp
next
  case (4 path x)
  then show ?case using scan_number [of x u r n path] by simp
next
  case (5 path b)
  then show ?case using scan_string_value [of b u n path r] by simp
next
  case (7 path i w1 t w2 xs)
  then show ?case by (intro scan_item) simp_all
next
  case (9 path keys w1 k w2 w3 t w4 ms)
  then show ?case by (intro scan_member) simp_all
qed simp_all

section \<open>What is accepted is a JSON text\<close>

lemma string_body_split: "string_body n st s = Inr (b, r) \<Longrightarrow> s = b @ dquote # r"
proof (induction n st s arbitrary: b r rule: string_body.induct)
  case (2 n st c cs)
  show ?case
  proof (cases "c = dquote")
    case False
    show ?thesis
    proof (cases "c = backslash")
      case True
      with False "2.prems" obtain d ds b' where "cs = d # ds" "string_body n st ds = Inr (b', r)" "b = c # d # b'"
        by (auto simp: map_result_pair split: list.splits)
      with "2.IH"(1) [OF False True] show ?thesis by simp
    next
      case normal: False
      with False "2.prems" obtain b' where b': "\<not> (of_char c :: nat) < 32" "string_body n st cs = Inr (b', r)" "b = c # b'"
        by (auto simp: map_result_pair split: if_splits)
      with "2.IH"(2) [OF False normal b'(1,2)] show ?thesis by simp
    qed
  qed (use "2.prems" in simp)
qed simp

lemma hex_digits_four:
  assumes "hex_unit (take 4 ds) \<noteq> None"
  obtains a b c d ds' where "ds = a # b # c # d # ds'" "hex_code a \<noteq> None" "hex_code b \<noteq> None" "hex_code c \<noteq> None" "hex_code d \<noteq> None"
proof -
  obtain a b c d where four: "take 4 ds = [a, b, c, d]" "hex_code a \<noteq> None" "hex_code b \<noteq> None" "hex_code c \<noteq> None" "hex_code d \<noteq> None"
    using assms by (rule hex_unit_cases)
  then have "ds = a # b # c # d # drop 4 ds" using append_take_drop_id [of 4 ds] by simp
  then show thesis using four(2-5) by (rule that)
qed

lemma string_body_parsed:
  assumes "string_body n st s = Inr (raw, r)" "parse_units raw = Some us"
  shows "\<exists>b. list_all char_ok b \<and> raw = body_text b \<and> us = key_units b"
  using assms
proof (induction "length s" arbitrary: s raw us rule: less_induct)
  case less
  have s: "s = raw @ dquote # r" using less.prems(1) by (rule string_body_split)
  have cons: "char_ok x \<Longrightarrow> list_all char_ok b \<and> raw' = body_text b \<and> us' = key_units b
      \<Longrightarrow> list_all char_ok (x # b) \<and> char_text x @ raw' = body_text (x # b) \<and> char_unit x # us' = key_units (x # b)"
    for x b raw' us' by (simp add: body_text_def key_units_def)
  show ?case
  proof (cases raw)
    case Nil
    with less.prems(2) show ?thesis by (intro exI [of _ "[]"]) (simp add: body_text_def key_units_def)
  next
    case (Cons c raw')
    have c: "c \<noteq> dquote" using less.prems(1) s Cons by (auto split: if_splits)
    show ?thesis
    proof (cases "c = backslash")
      case False
      from less.prems(1) s Cons c False obtain "\<not> (of_char c :: nat) < 32" "string_body n st (raw' @ dquote # r) = Inr (raw', r)"
        by (auto simp: map_result_pair split: if_splits)
      moreover from less.prems(2) Cons False obtain us' where "parse_units raw' = Some us'" "us = of_char c # us'"
        by (auto split: if_splits)
      ultimately obtain b where "list_all char_ok b \<and> raw' = body_text b \<and> us' = key_units b" "\<not> (of_char c :: nat) < 32"
        using less.hyps [of "raw' @ dquote # r" raw' us'] s Cons by auto
      then show ?thesis
        using cons [of "Plain c" b raw' us'] Cons c False \<open>us = of_char c # us'\<close>
        by (intro exI [of _ "Plain c # b"]) (simp add: char_ok_def char_text_def char_unit_def not_less)
    next
      case True
      from less.prems(2) Cons True obtain d ds where ds: "raw' = d # ds" by (auto split: list.splits)
      from less.prems(1) s Cons c True ds have rest: "string_body n st (ds @ dquote # r) = Inr (ds, r)"
        by (auto simp: map_result_pair)
      show ?thesis
      proof (cases "d = CHR ''u''")
        case u: True
        with less.prems(2) Cons True ds obtain v us' where v: "hex_unit (take 4 ds) = Some v" "parse_units (drop 4 ds) = Some us'" "us = v # us'"
          by (auto split: option.splits)
        then have "hex_unit (take 4 ds) \<noteq> None" by simp
        then obtain p q x y ds' where four: "ds = p # q # x # y # ds'" "hex_code p \<noteq> None" "hex_code q \<noteq> None"
          "hex_code x \<noteq> None" "hex_code y \<noteq> None" by (rule hex_digits_four)
        then have "\<forall>d \<in> {p, q, x, y}. d \<noteq> dquote \<and> d \<noteq> backslash \<and> \<not> (of_char d :: nat) < 32"
          by (auto dest: hex_code_plain)
        then have "string_body n st (ds' @ dquote # r) = Inr (ds', r)"
          using rest four(1) by (auto simp: map_result_pair)
        with less.hyps [of "ds' @ dquote # r" ds' us'] v(2) s Cons ds four(1)
        obtain b where "list_all char_ok b \<and> ds' = body_text b \<and> us' = key_units b" by auto
        then show ?thesis
          using cons [of "Unicode [p, q, x, y]" b ds' us'] Cons True ds u four v(1,3)
          by (intro exI [of _ "Unicode [p, q, x, y] # b"]) (simp add: char_ok_def char_text_def char_unit_def)
      next
        case False
        with less.prems(2) Cons True ds obtain v us' where v: "escape_code d = Some v" "parse_units ds = Some us'" "us = v # us'"
          by (auto split: option.splits)
        with less.hyps [of "ds @ dquote # r" ds us'] rest s Cons ds
        obtain b where "list_all char_ok b \<and> ds = body_text b \<and> us' = key_units b" by auto
        then show ?thesis
          using cons [of "Escape d" b ds us'] Cons True ds v(1,3)
          by (intro exI [of _ "Escape d # b"]) (simp add: char_ok_def char_text_def char_unit_def)
      qed
    qed
  qed
qed

lemma scan_string_accepted:
  assumes "scan_string n s = Inr (u, r)" "next_is dquote s"
  shows "\<exists>b. list_all char_ok b \<and> s = string_text b @ r \<and> u = key_units b"
proof -
  obtain raw where raw: "string_body n (n - length s) (tl s) = Inr (raw, r)" "parse_units raw = Some u"
    using assms(1) by (auto simp: scan_string_def split: sum.splits option.splits)
  have "s = dquote # raw @ dquote # r" using string_body_split [OF raw(1)] assms(2) by (cases s) auto
  with string_body_parsed [OF raw] show ?thesis by (auto simp: string_text_def)
qed

lemma takeWhile_split: "s = takeWhile P s @ drop (length (takeWhile P s)) s"
  by (simp add: dropWhile_eq_drop [symmetric])

lemma digits_takeWhile: "takeWhile is_digit_char s \<noteq> [] \<Longrightarrow> digits (takeWhile is_digit_char s)"
  by (auto simp: digits_def list_all_iff dest: set_takeWhileD)

lemma fraction_accepted:
  obtains f where "opt_fraction s = fraction_text f" "s = fraction_text f @ drop (length (opt_fraction s)) s"
    "\<forall>ds. f = Some ds \<longrightarrow> digits ds"
proof (cases "next_is (CHR ''.'') s \<and> takeWhile is_digit_char (tl s) \<noteq> []")
  case True
  then have o: "opt_fraction s = CHR ''.'' # takeWhile is_digit_char (tl s)" by (simp add: opt_fraction_def Let_def)
  obtain s' where s': "s = CHR ''.'' # s'" using True by (cases s) auto
  show thesis
    by (rule that [of "Some (takeWhile is_digit_char s')"])
      (use o True takeWhile_split [of s' is_digit_char] digits_takeWhile in \<open>simp_all add: s' fraction_text_def\<close>)
next
  case False
  then have "opt_fraction s = []" by (auto simp: opt_fraction_def Let_def)
  then show thesis by (intro that [of None]) (simp_all add: fraction_text_def)
qed

lemma exponent_accepted:
  obtains e where "opt_exponent s = exponent_text e" "s = exponent_text e @ drop (length (opt_exponent s)) s"
    "\<forall>c sg ds. e = Some (c, sg, ds) \<longrightarrow> c \<in> {CHR ''e'', CHR ''E''} \<and> sg \<in> {[], ''+'', ''-''} \<and> digits ds"
proof (cases "opt_exponent s = []")
  case True
  then show thesis by (intro that [of None]) (simp_all add: exponent_text_def)
next
  case False
  then obtain c s' where s': "s = c # s'" "c \<in> {CHR ''e'', CHR ''E''}"
    by (cases s) (auto simp: opt_exponent_def split: if_splits)
  define sg where "sg = (if next_is (CHR ''+'') s' \<or> next_is (CHR ''-'') s' then take 1 s' else [])"
  have sg: "sg \<in> {[], ''+'', ''-''}" "s' = sg @ drop (length sg) s'"
    by (cases s'; auto simp: sg_def)+
  let ?ds = "takeWhile is_digit_char (drop (length sg) s')"
  have e: "opt_exponent s = (if ?ds \<noteq> [] then c # sg @ ?ds else [])"
    using s' by (auto simp: opt_exponent_def Let_def sg_def)
  with False have o: "opt_exponent s = c # sg @ ?ds" "?ds \<noteq> []" by (auto split: if_splits)
  have "s' = (sg @ ?ds) @ drop (length (sg @ ?ds)) s'"
    using sg(2) takeWhile_split [of "drop (length sg) s'" is_digit_char] by (simp add: add.commute)
  then show thesis
    using s' sg(1) o digits_takeWhile by (intro that [of "Some (c, sg, ?ds)"]) (simp_all add: exponent_text_def)
qed

lemma whole_accepted:
  assumes "(if next_is (CHR ''0'') s then ''0'' else takeWhile is_digit_char s) = whole" "whole \<noteq> []"
  shows "digits whole" "hd whole = CHR ''0'' \<longrightarrow> tl whole = []" "s = whole @ drop (length whole) s"
proof -
  show "s = whole @ drop (length whole) s"
  proof (cases "next_is (CHR ''0'') s")
    case True
    with assms(1) show ?thesis by (cases s) auto
  next
    case False
    with assms(1) takeWhile_split [of s is_digit_char] show ?thesis by simp
  qed
  show "digits whole"
    using assms digits_takeWhile by (auto simp: digits_def is_digit_char_def split: if_splits)
  show "hd whole = CHR ''0'' \<longrightarrow> tl whole = []"
    using assms by (cases s) (auto split: if_splits)
qed

lemma number_accepted:
  assumes "number_prefix s \<noteq> []"
  obtains x where "number_ok x" "number_prefix s = number_text x" "s = number_text x @ drop (length (number_prefix s)) s"
proof -
  define sign where "sign = (if next_is (CHR ''-'') s then ''-'' else [])"
  define r where "r = drop (length sign) s"
  define whole where "whole = (if next_is (CHR ''0'') r then ''0'' else takeWhile is_digit_char r)"
  define r1 where "r1 = drop (length whole) r"
  define r2 where "r2 = drop (length (opt_fraction r1)) r1"
  have n: "number_prefix s = (if whole = [] then [] else sign @ whole @ opt_fraction r1 @ opt_exponent r2)"
    by (simp only: number_prefix_def Let_def sign_def r_def whole_def r1_def r2_def)
  with assms have nonempty: "whole \<noteq> []" by (auto split: if_splits)
  note w = whole_accepted [OF whole_def [symmetric] nonempty, folded r1_def]
  obtain f where f: "opt_fraction r1 = fraction_text f" "r1 = fraction_text f @ r2" "\<forall>ds. f = Some ds \<longrightarrow> digits ds"
    unfolding r2_def by (rule fraction_accepted)
  obtain e where e: "opt_exponent r2 = exponent_text e" "r2 = exponent_text e @ drop (length (opt_exponent r2)) r2"
    "\<forall>c sg ds. e = Some (c, sg, ds) \<longrightarrow> c \<in> {CHR ''e'', CHR ''E''} \<and> sg \<in> {[], ''+'', ''-''} \<and> digits ds"
    by (rule exponent_accepted)
  let ?x = "\<lparr>nu_negative = next_is (CHR ''-'') s, nu_whole = whole, nu_fraction = f, nu_exponent = e\<rparr>"
  have shown: "number_prefix s = number_text ?x" using n nonempty f(1) e(1) by (simp add: number_text_def sign_def)
  have "s = sign @ r" by (cases s) (auto simp: sign_def r_def)
  then have "s = number_text ?x @ drop (length (opt_exponent r2)) r2"
    using w(3) f(2) e(2) by (simp add: number_text_def sign_def)
  then have "s = number_text ?x @ drop (length (number_prefix s)) s" using shown by (metis append_eq_conv_conj)
  moreover have "number_ok ?x" using w(1,2) f(3) e(3) by (simp add: number_ok_iff)
  ultimately show thesis using shown that by blast
qed

lemma skip_split:
  obtains w where "spaces w" "s = w @ skip_ws s"
  by (rule that [of "takeWhile is_ws s"]) (auto simp: spaces_def skip_ws_def list_all_iff dest: set_takeWhileD)

lemma next_split: "next_is c s \<Longrightarrow> s = c # tl s"
  by (cases s) auto

lemma word_accepted: "startsWith s p \<Longrightarrow> s = p @ drop (length p) s"
  by (auto dest: startsWithD)

lemma token_cases:
  assumes "scan_token n s = Inr r" "\<not> next_is dquote s"
  shows "startsWith s ''true'' \<and> r = drop 4 s \<or> startsWith s ''false'' \<and> r = drop 5 s \<or> startsWith s ''null'' \<and> r = drop 4 s
    \<or> number_prefix s \<noteq> [] \<and> r = drop (length (number_prefix s)) s"
  using assms by (simp add: scan_token_def split: if_splits)

lemma word_text_of:
  assumes "startsWith s w" "json_word w"
  shows "\<exists>t. text_ok t \<and> s = json_text t @ drop (length w) s"
  using startsWithD [OF assms(1)] assms(2) by (intro exI [of _ "TWord w"]) auto

lemma word_text:
  "startsWith s ''true'' \<Longrightarrow> \<exists>t. text_ok t \<and> s = json_text t @ drop 4 s"
  "startsWith s ''false'' \<Longrightarrow> \<exists>t. text_ok t \<and> s = json_text t @ drop 5 s"
  "startsWith s ''null'' \<Longrightarrow> \<exists>t. text_ok t \<and> s = json_text t @ drop 4 s"
  using word_text_of [of s "''true''"] word_text_of [of s "''false''"] word_text_of [of s "''null''"]
  by (simp_all add: json_word_def eval_nat_numeral)

lemma number_text_accepted:
  "number_prefix s \<noteq> [] \<Longrightarrow> \<exists>t. text_ok t \<and> s = json_text t @ drop (length (number_prefix s)) s"
  by (metis json_text.simps(2) number_accepted text_ok.simps(2))

lemma token_accepted:
  assumes "scan_token n s = Inr r"
  shows "\<exists>t. text_ok t \<and> s = json_text t @ r"
proof (cases "next_is dquote s")
  case True
  with assms obtain u where "scan_string n s = Inr (u, r)" by (auto simp: scan_token_def)
  from scan_string_accepted [OF this True] obtain b where "list_all char_ok b" "s = string_text b @ r" by blast
  then show ?thesis by (intro exI [of _ "TString b"]) simp
next
  case False
  from token_cases [OF assms False] show ?thesis
    by (elim disjE conjE) (simp_all only: word_text number_text_accepted not_False_eq_True)
qed

definition scanned :: "scan_mode \<Rightarrow> string \<Rightarrow> string \<Rightarrow> bool" where
  \<comment> \<open>what a scan in a mode has read\<close>
  "scanned m s r = (case m of
       ScanValue \<Rightarrow> \<exists>w t. spaces w \<and> text_ok t \<and> s = w @ json_text t @ r
     | ScanMembers keys \<Rightarrow> \<exists>ms. ms \<noteq> [] \<and> members_ok ms \<and> s = comma_separated (map member_text ms) @ ''}'' @ r
     | ScanItems i \<Rightarrow> \<exists>xs. xs \<noteq> [] \<and> items_ok xs \<and> s = comma_separated (map item_text xs) @ '']'' @ r)"

lemma value_accepted:
  assumes "scan n ScanValue path s = Inr r"
    and "\<And>r1. next_is (CHR ''{'') (skip_ws s) \<Longrightarrow> \<not> next_is (CHR ''}'') r1 \<Longrightarrow> r1 = skip_ws (tl (skip_ws s))
           \<Longrightarrow> scan n (ScanMembers []) path r1 = Inr r \<Longrightarrow> scanned (ScanMembers []) r1 r"
    and "\<And>r1. next_is (CHR ''['') (skip_ws s) \<Longrightarrow> \<not> next_is (CHR '']'') r1 \<Longrightarrow> r1 = skip_ws (tl (skip_ws s))
           \<Longrightarrow> scan n (ScanItems 0) path r1 = Inr r \<Longrightarrow> scanned (ScanItems 0) r1 r"
  shows "scanned ScanValue s r"
proof -
  obtain w where w: "spaces w" "s = w @ skip_ws s" by (rule skip_split)
  obtain w1 where w1: "spaces w1" "tl (skip_ws s) = w1 @ skip_ws (tl (skip_ws s))" by (rule skip_split)
  let ?r1 = "skip_ws (tl (skip_ws s))"
  have "\<exists>t. text_ok t \<and> skip_ws s = json_text t @ r"
  proof (cases "next_is (CHR ''{'') (skip_ws s)")
    case open1: True
    then have s: "skip_ws s = CHR ''{'' # w1 @ ?r1" using next_split w1(2) by metis
    show ?thesis
    proof (cases "next_is (CHR ''}'') ?r1")
      case True
      with assms(1) open1 have "r = tl ?r1" by (simp add: scan.simps(1) Let_def)
      with True have "?r1 = CHR ''}'' # r" using next_split by metis
      with s have "skip_ws s = json_text (TObject w1 []) @ r" by simp
      with w1(1) show ?thesis by (intro exI [of _ "TObject w1 []"]) simp
    next
      case False
      with assms(1) open1 have "scan n (ScanMembers []) path ?r1 = Inr r" by (simp add: scan.simps(1) Let_def)
      with assms(2) [OF open1 False refl] obtain ms where ms: "ms \<noteq> []" "members_ok ms"
        "?r1 = comma_separated (map member_text ms) @ ''}'' @ r" by (auto simp: scanned_def)
      obtain w2 k w3 w4 t w5 ms' where m: "ms = (w2, k, w3, w4, t, w5) # ms'" using ms(1) by (cases ms) auto
      let ?ms = "(w1 @ w2, k, w3, w4, t, w5) # ms'"
      have "members_ok ?ms" using ms(2) w1(1) by (simp add: m spaces_def)
      moreover have "skip_ws s = json_text (TObject [] ?ms) @ r" using s ms(3) by (simp add: m separated_Cons)
      ultimately show ?thesis by (intro exI [of _ "TObject [] ?ms"]) (simp add: spaces_def)
    qed
  next
    case no_object: False
    show ?thesis
    proof (cases "next_is (CHR ''['') (skip_ws s)")
      case open2: True
      then have s: "skip_ws s = CHR ''['' # w1 @ ?r1" using next_split w1(2) by metis
      show ?thesis
      proof (cases "next_is (CHR '']'') ?r1")
        case True
        with assms(1) open2 no_object have "r = tl ?r1" by (simp add: scan.simps(1) Let_def)
        with True have "?r1 = CHR '']'' # r" using next_split by metis
        with s have "skip_ws s = json_text (TArray w1 []) @ r" by simp
        with w1(1) show ?thesis by (intro exI [of _ "TArray w1 []"]) simp
      next
        case False
        with assms(1) open2 no_object have "scan n (ScanItems 0) path ?r1 = Inr r" by (simp add: scan.simps(1) Let_def)
        with assms(3) [OF open2 False refl] obtain xs where xs: "xs \<noteq> []" "items_ok xs"
          "?r1 = comma_separated (map item_text xs) @ '']'' @ r" by (auto simp: scanned_def)
        obtain w2 t w3 xs' where x: "xs = (w2, t, w3) # xs'" using xs(1) by (cases xs) auto
        let ?xs = "(w1 @ w2, t, w3) # xs'"
        have "items_ok ?xs" using xs(2) w1(1) by (simp add: x spaces_def)
        moreover have "skip_ws s = json_text (TArray [] ?xs) @ r" using s xs(3) by (simp add: x separated_Cons)
        ultimately show ?thesis by (intro exI [of _ "TArray [] ?xs"]) (simp add: spaces_def)
      qed
    next
      case False
      with assms(1) no_object show ?thesis by (intro token_accepted) (simp add: scan.simps(1) Let_def)
    qed
  qed
  then obtain t where t: "text_ok t" "skip_ws s = json_text t @ r" by blast
  have "s = w @ json_text t @ r" unfolding t(2) [symmetric] by (rule w(2))
  with w(1) t(1) show ?thesis by (auto simp: scanned_def)
qed

lemma next_unique: "next_is c s \<Longrightarrow> next_is d s \<longleftrightarrow> d = c"
  by (auto simp: next_is_def)

lemma scan_accepted: "scan n m path s = Inr r \<Longrightarrow> scanned m s r"
proof (induction n m path s arbitrary: r rule: scan.induct)
  case (1 n path s)
  show ?case
    by (rule value_accepted [OF "1.prems"]) (use "1.IH" in \<open>auto simp: next_unique\<close>)
next
  case (2 n keys path s)
  let ?r = "skip_ws s"
  note eq = "2.prems" [unfolded scan.simps(2) [of n keys] Let_def]
  from eq have start: "s \<noteq> []" "next_is dquote ?r" by (auto split: if_splits)
  from eq start obtain key r1 where key: "scan_string n ?r = Inr (key, r1)" by (cases "scan_string n ?r") auto
  let ?r2 = "skip_ws r1"
  from eq start key have fresh: "key \<notin> set keys" "next_is (CHR '':'') ?r2" by (auto split: if_splits)
  from eq start key fresh obtain r3 where val: "scan n ScanValue (member_units path key) (tl ?r2) = Inr r3"
    by (cases "scan n ScanValue (member_units path key) (tl ?r2)") auto
  let ?r4 = "skip_ws r3"
  have "scanned ScanValue (tl ?r2) r3"
    using "2.IH"(1) [OF start(1) refl _ key refl fresh(1) refl _ val] start fresh by simp
  then obtain w3 t where t: "spaces w3" "text_ok t" "tl ?r2 = w3 @ json_text t @ r3" by (auto simp: scanned_def)
  obtain w1 where w1: "spaces w1" "s = w1 @ ?r" by (rule skip_split)
  obtain w2 where w2: "spaces w2" "r1 = w2 @ ?r2" by (rule skip_split)
  obtain w4 where w4: "spaces w4" "r3 = w4 @ ?r4" by (rule skip_split)
  obtain b where b: "list_all char_ok b" "?r = string_text b @ r1" using scan_string_accepted [OF key start(2)] by blast
  let ?m = "(w1, b, w2, w3, t, w4)"
  have "s = w1 @ string_text b @ w2 @ '':'' @ w3 @ json_text t @ w4 @ ?r4"
    using w1(2) b(2) w2(2) next_split [OF fresh(2)] t(3) w4(2) by (metis append_Cons append_Nil)
  then have s: "s = member_text ?m @ ?r4" by simp
  show ?case
  proof (cases "next_is (CHR ''}'') ?r4")
    case True
    with eq start key fresh val have "r = tl ?r4" by simp
    with next_split [OF True] s have "s = comma_separated (map member_text [?m]) @ ''}'' @ r" by simp
    with w1(1) w2(1) w4(1) b(1) t(1,2) show ?thesis unfolding scanned_def by (auto intro!: exI [of _ "[?m]"])
  next
    case False
    with eq start key fresh val have more: "next_is (CHR '','') ?r4" "scan n (ScanMembers (key # keys)) path (tl ?r4) = Inr r"
      by (auto split: if_splits)
    have "scanned (ScanMembers (key # keys)) (tl ?r4) r"
      using "2.IH"(2) [OF start(1) refl _ key refl fresh(1) refl _ val refl False _ more(2)] start fresh more by simp
    then obtain ms where ms: "ms \<noteq> []" "members_ok ms" "tl ?r4 = comma_separated (map member_text ms) @ ''}'' @ r"
      by (auto simp: scanned_def)
    with next_split [OF more(1)] have "?r4 = '','' @ comma_separated (map member_text ms) @ ''}'' @ r" by simp
    with s ms(1) have "s = comma_separated (map member_text (?m # ms)) @ ''}'' @ r" by (simp add: separated_Cons)
    with w1(1) w2(1) w4(1) b(1) t(1,2) ms(2) show ?thesis unfolding scanned_def by (auto intro!: exI [of _ "?m # ms"])
  qed
next
  case (3 n i path s)
  note eq = "3.prems" [unfolded scan.simps(3) [of n i] Let_def]
  from eq have start: "s \<noteq> []" by (auto split: if_splits)
  from eq start obtain r3 where val: "scan n ScanValue (item_units path i) s = Inr r3"
    by (cases "scan n ScanValue (item_units path i) s") auto
  let ?r4 = "skip_ws r3"
  have "scanned ScanValue s r3" using "3.IH"(1) [OF start val] .
  then obtain w1 t where t: "spaces w1" "text_ok t" "s = w1 @ json_text t @ r3" by (auto simp: scanned_def)
  obtain w2 where w2: "spaces w2" "r3 = w2 @ ?r4" by (rule skip_split)
  let ?x = "(w1, t, w2)"
  have "s = w1 @ json_text t @ w2 @ ?r4" using t(3) w2(2) by metis
  then have s: "s = item_text ?x @ ?r4" by simp
  show ?case
  proof (cases "next_is (CHR '']'') ?r4")
    case True
    with eq start val have "r = tl ?r4" by simp
    with next_split [OF True] s have "s = comma_separated (map item_text [?x]) @ '']'' @ r" by simp
    with w2(1) t(1,2) show ?thesis unfolding scanned_def by (auto intro!: exI [of _ "[?x]"])
  next
    case False
    with eq start val have more: "next_is (CHR '','') ?r4" "scan n (ScanItems (i + 1)) path (tl ?r4) = Inr r"
      by (auto split: if_splits)
    have "scanned (ScanItems (i + 1)) (tl ?r4) r" using "3.IH"(2) [OF start val refl False _ more(2)] more by simp
    then obtain xs where xs: "xs \<noteq> []" "items_ok xs" "tl ?r4 = comma_separated (map item_text xs) @ '']'' @ r"
      by (auto simp: scanned_def)
    with next_split [OF more(1)] have "?r4 = '','' @ comma_separated (map item_text xs) @ '']'' @ r" by simp
    with s xs(1) have "s = comma_separated (map item_text (?x # xs)) @ '']'' @ r" by (simp add: separated_Cons)
    with w2(1) t(1,2) xs(2) show ?thesis unfolding scanned_def by (auto intro!: exI [of _ "?x # xs"])
  qed
qed

section \<open>Properties\<close>

lemma check_text:
  assumes "text_ok t" "spaces w" "spaces w'"
  shows "assertNoDuplicateJsonKeys (w @ json_text t @ w')
    = (case clash (units ''$'') t of None \<Rightarrow> Inr () | Some (k, p) \<Rightarrow> Inl (DuplicateKey k p))"
proof -
  have "number_end w'" using ws_number_end [OF assms(3), of "[]"] by (simp add: number_end_def)
  then have "scan n ScanValue path (w @ json_text t @ w') = verdict (clash path t) w'" for n path
    using assms(1,2) by (intro scan_text(1))
  then show ?thesis
    using skip_nothing [OF assms(3)] by (simp add: assertNoDuplicateJsonKeys_def Let_def split: option.splits)
qed

text \<open>C26: the check for repeated keys is exact: it lets a request body pass if and only if the body is a JSON text, between
  and around its tokens any white space of JavaScript, in which no object has two keys that are equal after decoding
  their escapes. The check ends on every input.\<close>

theorem duplicate_check_exact:
  "assertNoDuplicateJsonKeys s = Inr () \<longleftrightarrow>
     (\<exists>w t w'. s = w @ json_text t @ w' \<and> spaces w \<and> text_ok t \<and> unique_keys t \<and> spaces w')"
proof
  assume pass: "assertNoDuplicateJsonKeys s = Inr ()"
  then obtain w' where w': "scan (length s) ScanValue (units ''$'') s = Inr w'" "skip_ws w' = []"
    by (auto simp: assertNoDuplicateJsonKeys_def Let_def split: sum.splits if_splits)
  obtain w t where t: "spaces w" "text_ok t" "s = w @ json_text t @ w'"
    using scan_accepted [OF w'(1)] by (auto simp: scanned_def)
  have "spaces w'" using w'(2) by (simp add: skip_ws_def spaces_def list_all_iff dropWhile_eq_Nil_conv)
  moreover from this have "clash (units ''$'') t = None"
    using pass check_text [OF t(2,1)] t(3) by (auto split: option.splits)
  ultimately show "\<exists>w t w'. s = w @ json_text t @ w' \<and> spaces w \<and> text_ok t \<and> unique_keys t \<and> spaces w'"
    using t clash_None_unique(1) by blast
next
  assume "\<exists>w t w'. s = w @ json_text t @ w' \<and> spaces w \<and> text_ok t \<and> unique_keys t \<and> spaces w'"
  then obtain w t w' where t: "s = w @ json_text t @ w'" "spaces w" "text_ok t" "unique_keys t" "spaces w'" by blast
  have "clash (units ''$'') t = None" using clash_None_unique(1) t(4) by blast
  with check_text [OF t(3,2,5)] t(1) show "assertNoDuplicateJsonKeys s = Inr ()" by simp
qed

text \<open>A repeated key is reported as such: on a JSON text in which an object has a key twice, the check fails with a
  duplicate key, not with a complaint about the syntax.\<close>

lemma repeated_key_reported:
  assumes "text_ok t" and "spaces w" and "spaces w'" and "\<not> unique_keys t"
  shows "\<exists>k p. assertNoDuplicateJsonKeys (w @ json_text t @ w') = Inl (DuplicateKey k p)"
proof -
  obtain k p where "clash (units ''$'') t = Some (k, p)"
    using assms(4) clash_None_unique(1) [of "units ''$''" t] by (cases "clash (units ''$'') t") auto
  with check_text [OF assms(1-3)] show ?thesis by simp
qed

definition escaped_twice :: jtext where
  \<comment> \<open>\<open>{"a":1, "\u0061":2}\<close>\<close>
  "escaped_twice =
     (let one = (\<lambda>d. TNumber \<lparr>nu_negative = False, nu_whole = d, nu_fraction = None, nu_exponent = None\<rparr>)
      in TObject [] [([], [Plain (CHR ''a'')], [], [], one ''1'', []), ('' '', [Unicode ''0061''], [], [], one ''2'', [])])"

lemma repeated_key_reported_example:
  "\<exists>k p. assertNoDuplicateJsonKeys ('' '' @ json_text escaped_twice @ []) = Inl (DuplicateKey k p)"
  by (rule repeated_key_reported) code_simp+

end
