(* ===== verification/Policy.thy ===== *)
theory Policy
  imports JsJson
begin

text \<open>
  The policy engine: the data of \<open>policy/policy-types.ts\<close> and the evaluation of
  \<open>policy/evaluate-policy.ts\<close>. A policy is a default rule and an ordered table of tool rules;
  a tool call is matched against the exact rule, then the wildcard rules in file order, then the
  default.
\<close>

section \<open>Policy data\<close>

datatype approval_mode = Never | Required | DenyMode | AbsentMode
  \<comment> \<open>\<open>AbsentMode\<close>: the \<open>approval\<close> of an object that is not a rule (see \<open>prototype_rule\<close>)\<close>

datatype policy_decision = Allow | RequireApproval | Deny

datatype content_integrity =
    OrganizationManaged | VerifiedPublisher | AuthenticatedExternal | PublicUntrusted | UnknownIntegrity

datatype influence_source = NoSource | FromIntegrity content_integrity

definition contentIntegrityValues :: "content_integrity list" where
  "contentIntegrityValues =
     [OrganizationManaged, VerifiedPublisher, AuthenticatedExternal, PublicUntrusted, UnknownIntegrity]"

record policy_result_source =
  prs_integrity :: content_integrity
  prs_sourceId :: "string option"

datatype result_source = ResultNone | ResultFrom policy_result_source

datatype restriction = RestrictRequired | RestrictDeny
  \<comment> \<open>\<open>Exclude<ApprovalMode, 'never'>\<close>\<close>

record influence_guard =
  ig_allowFrom :: "influence_source list"
  ig_otherwise :: restriction

record rule_approvers =
  ra_groups :: "string list option"
  ra_users :: "string list option"
  ra_requiredApprovals :: "int option"
  ra_separationOfDuties :: "bool option"

record external_execution =
  ee_grantTtlSeconds :: "int option"
  ee_requireGrantConsumption :: "bool option"

record rule_redaction =
  rr_fields :: "string list option"
  rr_replacement :: "string option"

record policy_rule =
  pr_approval :: approval_mode
  pr_approvers :: "rule_approvers option"
  pr_conditions :: "(string \<times> json) list option"
  pr_externalExecution :: "external_execution option"
  pr_notifyChannels :: "string list option option"
  pr_resultSource :: "result_source option"
  pr_influence :: "influence_guard option"
  pr_redaction :: "rule_redaction option"
  pr_risk :: "string option"
  pr_reason :: "string option"

record policy_file =
  pf_version :: jsnum
  pf_default :: policy_rule
  pf_tools :: "(string \<times> policy_rule) list"

record policy_evaluation =
  pe_decision :: policy_decision
  pe_approval :: approval_mode
  pe_risk :: string
  pe_reason :: string
  pe_matchedRule :: string
  pe_rule :: policy_rule

datatype match_type = MatchDefault | MatchExact | MatchProviderFailure | MatchWildcard

record condition_evaluation =
  ce_actual :: json
  ce_expected :: json
  ce_key :: string
  ce_matched :: bool

record rule_evaluation =
  re_conditions :: "condition_evaluation list"
  re_conditionsMatched :: bool
  re_exists :: bool
  re_matchType :: match_type
  re_pattern :: string
  re_prefixMatched :: "bool option"
  re_selected :: bool

record evaluation_trace =
  et_decision :: policy_decision
  et_evaluation :: policy_evaluation
  et_fallbackPath :: "match_type list"
  et_matchType :: match_type
  et_matchedRule :: string
  et_ruleEvaluations :: "rule_evaluation list"

record policy_context =
  cx_amount :: "jsnum option"
  cx_approverGroup :: "string option"
  cx_currency :: "string option"
  cx_customerVisible :: "bool option"
  cx_input :: json
  cx_metadata :: json
  cx_operationKind :: "string option"
  cx_recipientDomain :: "string option"
  cx_risk :: "string option"

definition empty_context :: policy_context where
  \<comment> \<open>the default argument \<open>{}\<close>\<close>
  "empty_context = \<lparr>cx_amount = None, cx_approverGroup = None, cx_currency = None,
     cx_customerVisible = None, cx_input = JUndef, cx_metadata = JUndef, cx_operationKind = None,
     cx_recipientDomain = None, cx_risk = None\<rparr>"

section \<open>Reading values out of the request\<close>

subsection \<open>\<open>Number\<close> on strings\<close>

definition is_digit :: "char \<Rightarrow> bool" where
  "is_digit c = (48 \<le> (of_char c :: nat) \<and> (of_char c :: nat) \<le> 57)"

definition digits_value :: "nat \<Rightarrow> string \<Rightarrow> int" where
  "digits_value base s =
     foldl (\<lambda>acc c. acc * int base +
        (let n = (of_char c :: nat) in
         int (if n \<le> 57 then n - 48 else if n \<le> 90 then n - 55 else n - 87))) 0 s"

definition is_base_digit :: "nat \<Rightarrow> char \<Rightarrow> bool" where
  "is_base_digit base c =
     (let n = (of_char c :: nat);
          v = (if 48 \<le> n \<and> n \<le> 57 then n - 48
               else if 65 \<le> n \<and> n \<le> 70 then n - 55
               else if 97 \<le> n \<and> n \<le> 102 then n - 87 else 99)
      in v < base)"

definition make_number :: "int \<Rightarrow> int \<Rightarrow> jsnum" where
  \<comment> \<open>the number \<open>m * 10 ^ e\<close>; beyond the range of a double it is infinite, in range it is exact\<close>
  "make_number m e =
     (if num_le (Dec (2 ^ 1024 - 2 ^ 970) 0) (Dec \<bar>m\<bar> e) then (if m < 0 then NegInf else PosInf)
      else (case num_of_int m of Dec m' f \<Rightarrow> (if m' = 0 then Dec 0 0 else Dec m' (e + f)) | x \<Rightarrow> x))"

definition parse_exponent :: "string \<Rightarrow> int option" where
  "parse_exponent s =
     (case s of [] \<Rightarrow> Some 0
      | c # r \<Rightarrow>
         if c = CHR ''e'' \<or> c = CHR ''E'' then
           (let (neg, ds) = (case r of CHR ''-'' # ds \<Rightarrow> (True, ds) | CHR ''+'' # ds \<Rightarrow> (False, ds) | ds \<Rightarrow> (False, ds))
            in if ds \<noteq> [] \<and> list_all is_digit ds
               then Some (if neg then - digits_value 10 ds else digits_value 10 ds) else None)
         else None)"

definition parse_decimal :: "bool \<Rightarrow> string \<Rightarrow> jsnum" where
  "parse_decimal neg s =
     (let ip = takeWhile is_digit s;
          r = dropWhile is_digit s;
          fp = (case r of CHR ''.'' # r' \<Rightarrow> takeWhile is_digit r' | _ \<Rightarrow> []);
          rest = (case r of CHR ''.'' # r' \<Rightarrow> dropWhile is_digit r' | _ \<Rightarrow> r)
      in if ip = [] \<and> fp = [] then NaN
         else (case parse_exponent rest of None \<Rightarrow> NaN
               | Some ex \<Rightarrow>
                   let m = digits_value 10 (ip @ fp)
                   in make_number (if neg then - m else m) (ex - int (length fp))))"

definition parse_prefixed :: "nat \<Rightarrow> string \<Rightarrow> jsnum" where
  "parse_prefixed base ds =
     (if ds \<noteq> [] \<and> list_all (is_base_digit base) ds then make_number (digits_value base ds) 0 else NaN)"

definition js_Number :: "string \<Rightarrow> jsnum" where
  \<comment> \<open>\<open>Number(value)\<close> of a string (StringToNumber of the ECMAScript specification)\<close>
  "js_Number s =
     (let t = js_trim s; p = map lower_char (take 2 t) in
      if t = [] then Dec 0 0
      else if t = ''Infinity'' \<or> t = ''+Infinity'' then PosInf
      else if t = ''-Infinity'' then NegInf
      else if p = ''0x'' then parse_prefixed 16 (drop 2 t)
      else if p = ''0o'' then parse_prefixed 8 (drop 2 t)
      else if p = ''0b'' then parse_prefixed 2 (drop 2 t)
      else (case t of CHR ''-'' # r \<Rightarrow> parse_decimal True r
            | CHR ''+'' # r \<Rightarrow> parse_decimal False r
            | _ \<Rightarrow> parse_decimal False t))"

subsection \<open>Context readers\<close>

definition stringContext :: "json \<Rightarrow> string option" where
  "stringContext v = (case v of JStr s \<Rightarrow> (if js_trim s \<noteq> [] then Some (js_trim s) else None) | _ \<Rightarrow> None)"

definition numberContext :: "json \<Rightarrow> jsnum option" where
  "numberContext v =
     (case v of
        JNum n \<Rightarrow> (if num_isFinite n then Some n else None)
      | JStr s \<Rightarrow> (if js_trim s \<noteq> [] then
                   (let parsed = js_Number s in if num_isFinite parsed then Some parsed else None)
                 else None)
      | _ \<Rightarrow> None)"

definition booleanContext :: "json \<Rightarrow> bool option" where
  "booleanContext v = (case v of JBool b \<Rightarrow> Some b | _ \<Rightarrow> None)"

definition stringList :: "json \<Rightarrow> string list" where
  "stringList v =
     (case v of
        JStr s \<Rightarrow> filter (\<lambda>i. i \<noteq> []) (map js_trim (split_on CHR '','' s))
      | JArr vs \<Rightarrow> List.map_filter (\<lambda>i. case i of JStr s \<Rightarrow> (if js_trim s \<noteq> [] then Some s else None) | _ \<Rightarrow> None) vs
      | _ \<Rightarrow> [])"

definition domain_char :: "char \<Rightarrow> bool" where
  \<comment> \<open>\<open>[^>\\s,]\<close>\<close>
  "domain_char c = (c \<noteq> CHR ''>'' \<and> \<not> is_ws c \<and> c \<noteq> CHR '','')"

fun match_domain :: "string \<Rightarrow> string option" where
  \<comment> \<open>leftmost match of \<open>/@([^>\\s,]+)>?$/\<close>\<close>
  "match_domain [] = None"
| "match_domain (c # cs) =
     (if c = CHR ''@'' then
        (let d = takeWhile domain_char cs; r = dropWhile domain_char cs
         in if d \<noteq> [] \<and> (r = [] \<or> r = ''>'') then Some d else match_domain cs)
      else match_domain cs)"

definition emailDomain :: "string \<Rightarrow> string option" where
  "emailDomain v = match_domain (toLowerCase (js_trim v))"

definition recipientDomainContext :: "policy_context \<Rightarrow> string option" where
  "recipientDomainContext cx =
     (if truthy (cx_recipientDomain cx) then cx_recipientDomain cx
      else
        let recipients = stringList (jget (cx_input cx) ''to'') @ stringList (jget (cx_input cx) ''cc'')
              @ stringList (jget (cx_input cx) ''bcc'') @ stringList (jget (cx_input cx) ''recipient'')
        in if recipients = [] then None
           else (case stringContext (jget (cx_metadata cx) ''internalDomain'') of
                   None \<Rightarrow> Some ''external''
                 | Some internalDomain \<Rightarrow>
                     if list_all (\<lambda>r. emailDomain r = Some (toLowerCase internalDomain)) recipients
                     then Some ''internal'' else Some ''external''))"

section \<open>Conditions\<close>

fun matchesOne :: "json \<Rightarrow> string option \<Rightarrow> bool" where
  "matchesOne (JArr cs) actual = (truthy actual \<and> list_ex (\<lambda>c. matchesOne c actual) cs)"
| "matchesOne (JStr s) actual = (truthy actual \<and> Some s = actual)"
| "matchesOne _ actual = False"

definition matchesToolName :: "json \<Rightarrow> string option \<Rightarrow> bool" where
  "matchesToolName expected actual = matchesOne expected actual"

definition matchesBoolean :: "json \<Rightarrow> bool option \<Rightarrow> bool" where
  "matchesBoolean expected actual = (case expected of JBool b \<Rightarrow> actual = Some b | _ \<Rightarrow> False)"

definition bound_holds :: "(jsnum \<Rightarrow> bool) \<Rightarrow> jsnum option \<Rightarrow> bool" where
  "bound_holds p b = (case b of None \<Rightarrow> True | Some x \<Rightarrow> p x)"

definition matchesAmount :: "json \<Rightarrow> jsnum option \<Rightarrow> bool" where
  "matchesAmount expected actual =
     (case actual of
        None \<Rightarrow> False
      | Some a \<Rightarrow>
          if \<not> num_isFinite a then False
          else (case expected of
              JNum n \<Rightarrow> num_eq a n
            | JObj _ \<Rightarrow>
                (let gt = numberContext (jget expected ''gt'');
                     gte = numberContext (jget expected ''gte'');
                     lt = numberContext (jget expected ''lt'');
                     lte = numberContext (jget expected ''lte'');
                     eq = numberContext (jget expected ''eq'')
                 in if \<not> bound_holds (\<lambda>b. \<not> num_le a b) gt then False
                    else if \<not> bound_holds (\<lambda>b. \<not> num_lt a b) gte then False
                    else if \<not> bound_holds (\<lambda>b. \<not> num_le b a) lt then False
                    else if \<not> bound_holds (\<lambda>b. \<not> num_lt b a) lte then False
                    else if \<not> bound_holds (\<lambda>b. num_eq a b) eq then False
                    else gt \<noteq> None \<or> gte \<noteq> None \<or> lt \<noteq> None \<or> lte \<noteq> None \<or> eq \<noteq> None)
            | _ \<Rightarrow> False))"

definition matchOneWithActual :: "json \<Rightarrow> string option \<Rightarrow> json \<times> bool" where
  "matchOneWithActual expected actual = (jopt JStr actual, matchesOne expected actual)"

definition matchBooleanWithActual :: "json \<Rightarrow> bool option \<Rightarrow> json \<times> bool" where
  "matchBooleanWithActual expected actual = (jopt JBool actual, matchesBoolean expected actual)"

definition matchAmountWithActual :: "json \<Rightarrow> jsnum option \<Rightarrow> json \<times> bool" where
  "matchAmountWithActual expected actual = (jopt JNum actual, matchesAmount expected actual)"

definition matchRecipientDomainWithActual :: "json \<Rightarrow> policy_context \<Rightarrow> json \<times> bool" where
  "matchRecipientDomainWithActual expected cx =
     (let actual = recipientDomainContext cx
      in (jopt JStr actual, if truthy actual then matchesOne expected actual else False))"

definition amount_of_context :: "policy_context \<Rightarrow> json" where
  \<comment> \<open>\<open>context.amount ?? context.input?.amount ?? context.input?.amountCents\<close>\<close>
  "amount_of_context cx =
     (case cx_amount cx of Some n \<Rightarrow> JNum n
      | None \<Rightarrow> jcoalesce (jget (cx_input cx) ''amount'') (jget (cx_input cx) ''amountCents''))"

definition evaluateCondition :: "string \<Rightarrow> json \<Rightarrow> string \<Rightarrow> policy_context \<Rightarrow> json \<times> bool" where
  "evaluateCondition key expected toolName cx =
     (if key = ''actionId'' then (JStr toolName, matchesToolName expected (Some toolName))
      else if key = ''approverGroup'' then
        matchOneWithActual expected
          (or_else (cx_approverGroup cx) (stringContext (jget (cx_metadata cx) ''approverGroup'')))
      else if key = ''amount'' \<or> key = ''amountThreshold'' then
        matchAmountWithActual expected (numberContext (amount_of_context cx))
      else if key = ''currency'' then
        matchOneWithActual expected
          (or_else (cx_currency cx) (stringContext (jget (cx_input cx) ''currency'')))
      else if key = ''customerVisible'' then
        matchBooleanWithActual expected
          (or_else (cx_customerVisible cx) (booleanContext (jget (cx_metadata cx) ''customerVisible'')))
      else if key = ''operation'' \<or> key = ''operationKind'' then
        matchOneWithActual expected
          (or_else (cx_operationKind cx) (stringContext (jget (cx_metadata cx) ''operationKind'')))
      else if key = ''recipientDomain'' then matchRecipientDomainWithActual expected cx
      else if key = ''risk'' \<or> key = ''riskKind'' then
        matchOneWithActual expected
          (or_else (cx_risk cx) (stringContext (jget (cx_metadata cx) ''riskKind'')))
      else (JUndef, False))"

definition evaluateConditions ::
  "(string \<times> json) list option \<Rightarrow> string \<Rightarrow> policy_context \<Rightarrow> condition_evaluation list" where
  "evaluateConditions conditions toolName cx =
     (case conditions of None \<Rightarrow> []
      | Some cs \<Rightarrow>
          map (\<lambda>(key, expected).
                 let (actual, matched) = evaluateCondition key expected toolName cx
                 in \<lparr>ce_actual = actual, ce_expected = expected, ce_key = key, ce_matched = matched\<rparr>) cs)"

section \<open>Rule selection\<close>

definition object_prototype_members :: "string list" where
  "object_prototype_members =
     [''constructor'', ''__defineGetter__'', ''__defineSetter__'', ''hasOwnProperty'',
      ''__lookupGetter__'', ''__lookupSetter__'', ''isPrototypeOf'', ''propertyIsEnumerable'',
      ''toString'', ''valueOf'', ''__proto__'', ''toLocaleString'']"

definition prototype_rule :: policy_rule where
  \<comment> \<open>a member of \<open>Object.prototype\<close> read as a rule: every field is undefined\<close>
  "prototype_rule = \<lparr>pr_approval = AbsentMode, pr_approvers = None, pr_conditions = None,
     pr_externalExecution = None, pr_notifyChannels = None, pr_resultSource = None,
     pr_influence = None, pr_redaction = None, pr_risk = None, pr_reason = None\<rparr>"

definition findExactRule :: "policy_file \<Rightarrow> string \<Rightarrow> (string \<times> policy_rule) option" where
  \<comment> \<open>\<open>policy.tools[toolName]\<close> also finds what the object inherits\<close>
  "findExactRule policy toolName =
     (case map_of (pf_tools policy) toolName of
        Some rule \<Rightarrow> Some (toolName, rule)
      | None \<Rightarrow> if toolName \<in> set object_prototype_members then Some (toolName, prototype_rule) else None)"

definition toEvaluation :: "policy_rule \<Rightarrow> string \<Rightarrow> policy_evaluation" where
  "toEvaluation rule matchedRule =
     (if pr_approval rule = Never then
        \<lparr>pe_decision = Allow, pe_approval = pr_approval rule,
         pe_risk = coalesce (pr_risk rule) ''unknown'',
         pe_reason = coalesce (pr_reason rule) ''Policy allowed this tool.'',
         pe_matchedRule = matchedRule, pe_rule = rule\<rparr>
      else if pr_approval rule = Required then
        \<lparr>pe_decision = RequireApproval, pe_approval = pr_approval rule,
         pe_risk = coalesce (pr_risk rule) ''unknown'',
         pe_reason = coalesce (pr_reason rule) ''Policy requires approval for this tool.'',
         pe_matchedRule = matchedRule, pe_rule = rule\<rparr>
      else
        \<lparr>pe_decision = Deny, pe_approval = pr_approval rule,
         pe_risk = coalesce (pr_risk rule) ''unknown'',
         pe_reason = coalesce (pr_reason rule) ''Policy denied this tool.'',
         pe_matchedRule = matchedRule, pe_rule = rule\<rparr>)"

fun findWildcardRule ::
  "(string \<times> policy_rule) list \<Rightarrow> string \<Rightarrow> policy_context
    \<Rightarrow> rule_evaluation list \<times> (string \<times> policy_rule) option" where
  \<comment> \<open>the evaluations it pushes and the rule it returns; a returned rule's evaluation is the last pushed\<close>
  "findWildcardRule [] toolName cx = ([], None)"
| "findWildcardRule ((pattern, rule) # entries) toolName cx =
     (if \<not> endsWith pattern ''.*'' then findWildcardRule entries toolName cx
      else if \<not> startsWith toolName (butlast pattern) then findWildcardRule entries toolName cx
      else
        let conditions = evaluateConditions (pr_conditions rule) toolName cx;
            ok = list_all ce_matched conditions;
            evaluation = \<lparr>re_conditions = conditions, re_conditionsMatched = ok, re_exists = True,
              re_matchType = MatchWildcard, re_pattern = pattern, re_prefixMatched = Some True,
              re_selected = False\<rparr>
        in if ok then ([evaluation], Some (pattern, rule))
           else (let (evs, found) = findWildcardRule entries toolName cx in (evaluation # evs, found)))"

definition mark_selected :: "rule_evaluation list \<Rightarrow> rule_evaluation list" where
  \<comment> \<open>\<open>wildcardRule.evaluation.selected = true\<close> on the object that was pushed last\<close>
  "mark_selected evs = (if evs = [] then [] else butlast evs @ [(last evs)\<lparr>re_selected := True\<rparr>])"

definition trace_of :: "policy_evaluation \<Rightarrow> match_type list \<Rightarrow> match_type \<Rightarrow> rule_evaluation list \<Rightarrow> evaluation_trace" where
  "trace_of ev path mt revs =
     \<lparr>et_decision = pe_decision ev, et_evaluation = ev, et_fallbackPath = path, et_matchType = mt,
      et_matchedRule = pe_matchedRule ev, et_ruleEvaluations = revs\<rparr>"

definition default_evaluation :: rule_evaluation where
  "default_evaluation = \<lparr>re_conditions = [], re_conditionsMatched = True, re_exists = True,
     re_matchType = MatchDefault, re_pattern = ''default'', re_prefixMatched = None, re_selected = True\<rparr>"

definition exact_evaluation :: "string \<Rightarrow> policy_rule \<Rightarrow> string \<Rightarrow> policy_context \<Rightarrow> rule_evaluation" where
  "exact_evaluation pattern rule toolName cx =
     (let conditions = evaluateConditions (pr_conditions rule) toolName cx
      in \<lparr>re_conditions = conditions, re_conditionsMatched = list_all ce_matched conditions,
          re_exists = True, re_matchType = MatchExact, re_pattern = pattern, re_prefixMatched = None,
          re_selected = False\<rparr>)"

definition fallbackTrace ::
  "policy_file \<Rightarrow> string \<Rightarrow> policy_context \<Rightarrow> bool \<Rightarrow> rule_evaluation list \<Rightarrow> evaluation_trace" where
  \<comment> \<open>the wildcard and default part, after the exact rule's evaluations (if any) were pushed\<close>
  "fallbackTrace policy toolName cx exactFound revs0 =
     (case findWildcardRule (pf_tools policy) toolName cx of
        (evs, Some (pattern, rule)) \<Rightarrow>
          trace_of (toEvaluation rule pattern)
            (if exactFound then [MatchExact, MatchWildcard] else [MatchWildcard])
            MatchWildcard (revs0 @ mark_selected evs)
      | (evs, None) \<Rightarrow>
          trace_of (toEvaluation (pf_default policy) ''default'')
            ((if exactFound then [MatchExact] else []) @
             (if list_ex (\<lambda>r. re_matchType r = MatchWildcard) (revs0 @ evs @ [default_evaluation])
              then [MatchWildcard] else []) @ [MatchDefault])
            MatchDefault (revs0 @ evs @ [default_evaluation]))"

definition evaluatePolicyTrace :: "policy_file \<Rightarrow> string \<Rightarrow> policy_context \<Rightarrow> evaluation_trace" where
  "evaluatePolicyTrace policy toolName cx =
     (case findExactRule policy toolName of
        None \<Rightarrow> fallbackTrace policy toolName cx False []
      | Some (pattern, rule) \<Rightarrow>
          let ev = exact_evaluation pattern rule toolName cx
          in if re_conditionsMatched ev
             then trace_of (toEvaluation rule pattern) [MatchExact] MatchExact [ev\<lparr>re_selected := True\<rparr>]
             else fallbackTrace policy toolName cx True [ev])"

definition evaluatePolicy :: "policy_file \<Rightarrow> string \<Rightarrow> policy_context \<Rightarrow> policy_evaluation" where
  "evaluatePolicy policy toolName cx = et_evaluation (evaluatePolicyTrace policy toolName cx)"

end
