(* ===== verification/Influence.thy ===== *)
theory Influence
  imports Policy
begin

text \<open>
  The content-influence guard of \<open>policy/content-influence.ts\<close>: the decision of the policy engine
  intersected with what the matched rule allows for the content sources observed in the scope of
  the call. A scope that is not verified counts as the source \<open>unknown\<close>.
\<close>

section \<open>Evaluation\<close>

record influence_input =
  ii_observedIntegrities :: "content_integrity list option"
  ii_scopeVerified :: bool

record influence_evaluation =
  ie_baseDecision :: policy_decision
  ie_effectiveApproval :: approval_mode
  ie_effectiveDecision :: policy_decision
  ie_observedSources :: "influence_source list"
  ie_reason :: string
  ie_restrictionApplied :: bool
  ie_sourcesAllowed :: bool

definition sourceOrder :: "influence_source list" where
  "sourceOrder = NoSource # map FromIntegrity contentIntegrityValues"

definition normalizedObservedSources :: "content_integrity list \<Rightarrow> bool \<Rightarrow> influence_source list" where
  "normalizedObservedSources observedIntegrities scopeVerified =
     (if \<not> scopeVerified then [FromIntegrity UnknownIntegrity]
      else
        let unique = set (map FromIntegrity observedIntegrities);
            unique' = (if observedIntegrities = [] then insert NoSource unique else unique)
        in filter (\<lambda>source. source \<in> unique') sourceOrder)"

definition restriction_mode :: "restriction \<Rightarrow> approval_mode" where
  \<comment> \<open>\<open>Exclude<ApprovalMode, 'never'>\<close> as an \<open>ApprovalMode\<close>\<close>
  "restriction_mode r = (case r of RestrictRequired \<Rightarrow> Required | RestrictDeny \<Rightarrow> DenyMode)"

definition approvalStrictness :: "approval_mode \<Rightarrow> nat" where
  "approvalStrictness a = (if a = DenyMode then 3 else if a = Required then 2 else 1)"

definition stricterApproval :: "approval_mode \<Rightarrow> restriction \<Rightarrow> approval_mode" where
  "stricterApproval base r =
     (if approvalStrictness base < approvalStrictness (restriction_mode r) then restriction_mode r else base)"

definition decisionForApproval :: "approval_mode \<Rightarrow> policy_decision" where
  "decisionForApproval a = (if a = Never then Allow else if a = Required then RequireApproval else Deny)"

definition evaluateContentInfluence :: "policy_evaluation \<Rightarrow> influence_input \<Rightarrow> influence_evaluation" where
  "evaluateContentInfluence base input =
     (let observedSources =
            normalizedObservedSources (coalesce (ii_observedIntegrities input) []) (ii_scopeVerified input)
      in case pr_influence (pe_rule base) of
           None \<Rightarrow>
             \<lparr>ie_baseDecision = pe_decision base, ie_effectiveApproval = pe_approval base,
              ie_effectiveDecision = pe_decision base, ie_observedSources = observedSources,
              ie_reason = ''No content-influence guard is configured for the matched policy rule.'',
              ie_restrictionApplied = False, ie_sourcesAllowed = True\<rparr>
         | Some guard \<Rightarrow>
             if list_all (\<lambda>source. source \<in> set (ig_allowFrom guard)) observedSources then
               \<lparr>ie_baseDecision = pe_decision base, ie_effectiveApproval = pe_approval base,
                ie_effectiveDecision = pe_decision base, ie_observedSources = observedSources,
                ie_reason = ''Observed content sources satisfy the matched policy rule.'',
                ie_restrictionApplied = False, ie_sourcesAllowed = True\<rparr>
             else
               let effectiveApproval = stricterApproval (pe_approval base) (ig_otherwise guard)
               in \<lparr>ie_baseDecision = pe_decision base, ie_effectiveApproval = effectiveApproval,
                   ie_effectiveDecision = decisionForApproval effectiveApproval,
                   ie_observedSources = observedSources,
                   ie_reason = ''Observed content sources are outside the rule allowFrom set; policy '' @
                     (if ig_otherwise guard = RestrictDeny then ''denies execution'' else ''requires approval'') @ ''.'',
                   ie_restrictionApplied = (effectiveApproval \<noteq> pe_approval base),
                   ie_sourcesAllowed = False\<rparr>)"

definition resultSourceForPolicyRule :: "policy_rule \<Rightarrow> policy_result_source option" where
  "resultSourceForPolicyRule rule =
     (case pr_resultSource rule of
        Some ResultNone \<Rightarrow> None
      | None \<Rightarrow> Some \<lparr>prs_integrity = UnknownIntegrity, prs_sourceId = None\<rparr>
      | Some (ResultFrom s) \<Rightarrow> Some s)"

section \<open>Facts\<close>

definition strictness :: "policy_decision \<Rightarrow> nat" where
  "strictness d = (case d of Allow \<Rightarrow> 1 | RequireApproval \<Rightarrow> 2 | Deny \<Rightarrow> 3)"

lemma strictness_decisionForApproval:
  "a \<noteq> AbsentMode \<Longrightarrow> strictness (decisionForApproval a) = approvalStrictness a"
  by (cases a) (simp_all add: strictness_def decisionForApproval_def approvalStrictness_def)

lemma stricterApproval_strictness:
  "approvalStrictness (stricterApproval a r)
     = max (approvalStrictness a) (approvalStrictness (restriction_mode r))"
  by (simp add: stricterApproval_def)

lemma restriction_mode_cases: "restriction_mode r = Required \<or> restriction_mode r = DenyMode"
  by (cases r) (simp_all add: restriction_mode_def)

lemma stricterApproval_present: "a \<noteq> AbsentMode \<Longrightarrow> stricterApproval a r \<noteq> AbsentMode"
  using restriction_mode_cases [of r] by (auto simp: stricterApproval_def)

lemma decisionForApproval_eq:
  "a \<noteq> AbsentMode \<Longrightarrow> b \<noteq> AbsentMode \<Longrightarrow> decisionForApproval a = decisionForApproval b \<longleftrightarrow> a = b"
  by (cases a; cases b) (simp_all add: decisionForApproval_def)

lemma pe_decision_of_toEvaluation:
  "pe_decision (toEvaluation rule p) = decisionForApproval (pr_approval rule)"
  "pe_approval (toEvaluation rule p) = pr_approval rule" "pe_rule (toEvaluation rule p) = rule"
  by (simp_all add: toEvaluation_def decisionForApproval_def)

lemma set_sourceOrder: "set sourceOrder = UNIV"
proof -
  have "x \<in> set sourceOrder" for x
  proof (cases x)
    case (FromIntegrity i)
    then show ?thesis by (cases i) (simp_all add: sourceOrder_def contentIntegrityValues_def)
  qed (simp add: sourceOrder_def)
  then show ?thesis by blast
qed

lemma distinct_sourceOrder: "distinct sourceOrder"
  by (simp add: sourceOrder_def contentIntegrityValues_def)

lemma set_normalizedObservedSources:
  "set (normalizedObservedSources os v) =
     (if \<not> v then {FromIntegrity UnknownIntegrity}
      else if os = [] then {NoSource} else FromIntegrity ` set os)"
  by (auto simp: normalizedObservedSources_def set_sourceOrder)

lemma distinct_normalizedObservedSources: "distinct (normalizedObservedSources os v)"
  by (simp add: normalizedObservedSources_def distinct_sourceOrder Let_def)

text \<open>C17: the guard never loosens a decision: for the evaluation of any rule with an approval mode, the
  effective decision is at least as strict as the policy's, it differs only when a source outside
  \<open>allowFrom\<close> was observed, and then it is at least as strict as the guard's restriction.\<close>

theorem evaluateContentInfluence_only_tightens:
  assumes "pr_approval rule \<noteq> AbsentMode" and "base = toEvaluation rule p"
    and "out = evaluateContentInfluence base input"
  shows "strictness (pe_decision base) \<le> strictness (ie_effectiveDecision out)
    \<and> ie_restrictionApplied out = (ie_effectiveDecision out \<noteq> pe_decision base)
    \<and> (case pr_influence rule of
         None \<Rightarrow> ie_effectiveDecision out = pe_decision base
       | Some guard \<Rightarrow>
           strictness (ie_effectiveDecision out) =
             (if set (ie_observedSources out) \<subseteq> set (ig_allowFrom guard) then strictness (pe_decision base)
              else max (strictness (pe_decision base)) (approvalStrictness (restriction_mode (ig_otherwise guard)))))"
proof (cases "pr_influence rule")
  case None
  then show ?thesis
    by (simp add: assms(2,3) evaluateContentInfluence_def pe_decision_of_toEvaluation Let_def)
next
  case (Some guard)
  let ?eff = "stricterApproval (pr_approval rule) (ig_otherwise guard)"
  have eff: "?eff \<noteq> AbsentMode" using assms(1) by (rule stricterApproval_present)
  have strict: "strictness (decisionForApproval ?eff)
      = max (approvalStrictness (pr_approval rule)) (approvalStrictness (restriction_mode (ig_otherwise guard)))"
    "strictness (decisionForApproval (pr_approval rule)) = approvalStrictness (pr_approval rule)"
    using eff assms(1) by (simp_all add: strictness_decisionForApproval stricterApproval_strictness)
  have out: "out = evaluateContentInfluence (toEvaluation rule p) input" by (simp add: assms)
  show ?thesis
    using Some strict decisionForApproval_eq [OF eff assms(1)] unfolding out assms(2)
    by (auto simp: evaluateContentInfluence_def pe_decision_of_toEvaluation Let_def list_all_iff subset_eq)
qed

definition guarded_rule :: policy_rule where
  "guarded_rule = prototype_rule\<lparr>pr_approval := Never,
     pr_influence := Some \<lparr>ig_allowFrom = [NoSource], ig_otherwise = RestrictRequired\<rparr>\<rparr>"

definition guarded_input :: influence_input where
  "guarded_input = \<lparr>ii_observedIntegrities = Some [PublicUntrusted], ii_scopeVerified = True\<rparr>"

theorem evaluateContentInfluence_only_tightens_witness:
  "strictness (pe_decision (toEvaluation guarded_rule ''fs.write''))
     \<le> strictness (ie_effectiveDecision
         (evaluateContentInfluence (toEvaluation guarded_rule ''fs.write'') guarded_input))
   \<and> ie_effectiveDecision (evaluateContentInfluence (toEvaluation guarded_rule ''fs.write'') guarded_input)
       = RequireApproval"
proof -
  have "pr_approval guarded_rule \<noteq> AbsentMode" by code_simp
  from evaluateContentInfluence_only_tightens [OF this refl refl,
      of "''fs.write''" guarded_input]
  have "strictness (pe_decision (toEvaluation guarded_rule ''fs.write''))
     \<le> strictness (ie_effectiveDecision
         (evaluateContentInfluence (toEvaluation guarded_rule ''fs.write'') guarded_input))" by (rule conjunct1)
  moreover have "ie_effectiveDecision (evaluateContentInfluence (toEvaluation guarded_rule ''fs.write'') guarded_input)
       = RequireApproval" by code_simp
  ultimately show ?thesis by blast
qed

text \<open>What an unverified scope costs: whatever exposures were recorded, a call outside a verified scope
  is restricted exactly as if unknown content had been observed, and in a verified scope the guard
  sees precisely the recorded integrities, \<open>none\<close> when there are none; no source is dropped.\<close>

lemma observed_sources_exact:
  "set (ie_observedSources (evaluateContentInfluence base input)) =
     (if \<not> ii_scopeVerified input then {FromIntegrity UnknownIntegrity}
      else if coalesce (ii_observedIntegrities input) [] = [] then {NoSource}
      else FromIntegrity ` set (coalesce (ii_observedIntegrities input) []))
   \<and> distinct (ie_observedSources (evaluateContentInfluence base input))"
  by (auto simp: evaluateContentInfluence_def Let_def set_normalizedObservedSources
      distinct_normalizedObservedSources split: option.splits)

end
