(* ===== verification/Models.thy ===== *)
theory Models
  imports Influence
begin

text \<open>
  The records of \<open>models.ts\<close>, \<open>contracts/approval-authorization.ts\<close>, \<open>contracts/execution-attempt.ts\<close>,
  \<open>contracts/content-influence.ts\<close> and \<open>storage/store.ts\<close>, and their JSON values: the code
  hashes whole records, so each record that is hashed has an encoder listing its members under
  the names of the source. A field of type \<open>unknown\<close>, \<open>JsonObject\<close> or of a structure the
  modelled code only passes on is a \<open>json\<close> value, \<open>JUndef\<close> when absent; a field of type
  \<open>T | null\<close> is an option whose \<open>None\<close> is \<open>null\<close>.
\<close>

section \<open>Encoders of optional values\<close>

definition jstrings :: "string list \<Rightarrow> json" where
  "jstrings xs = JArr (map JStr xs)"

definition null_coalesce :: "json \<Rightarrow> json" where
  \<comment> \<open>\<open>value ?? null\<close>\<close>
  "null_coalesce v = (if nullish v then JNull else v)"

lemma jopt_inj:
  "(\<And>x y. f x = f y \<longleftrightarrow> x = y) \<Longrightarrow> (\<And>x. f x \<noteq> JUndef) \<Longrightarrow> jopt f a = jopt f b \<longleftrightarrow> a = b"
  by (cases a; cases b) (auto, metis)

lemma jstrings_inj [simp]: "jstrings xs = jstrings ys \<longleftrightarrow> xs = ys"
  by (simp add: jstrings_def inj_map_eq_map inj_on_def)

section \<open>Enumerations\<close>

datatype tool_call_status = Submitted | Authorized | Executed | PendingApproval | Blocked | Rejected | Failed
datatype approval_status =
    Approval_Pending | Approval_Approved | Approval_Cancelled | Approval_Expired
  | Approval_Rejected | Approval_Superseded
datatype execution_mode = ExternalGrant | LocalMock
datatype receipt_decision_kind = HumanApproval | PolicyAllow
datatype receipt_outcome_status = Outcome_Failed | Outcome_Succeeded
datatype input_decision = Edited | Original

datatype attempt_state =
    Reserved | Dispatched | Succeeded | FailedBeforeDispatch | FailedAfterDispatch
  | TimedOut | Cancelled | UnknownOutcome

datatype certainty = Known | Unknown
datatype retry_disposition = NoRetry | ExplicitNewAttemptRequired | ManualReconciliationRequired

definition integrity_name :: "content_integrity \<Rightarrow> string" where
  "integrity_name i = (case i of OrganizationManaged \<Rightarrow> ''organization_managed''
     | VerifiedPublisher \<Rightarrow> ''verified_publisher'' | AuthenticatedExternal \<Rightarrow> ''authenticated_external''
     | PublicUntrusted \<Rightarrow> ''public_untrusted'' | UnknownIntegrity \<Rightarrow> ''unknown'')"

definition source_name :: "influence_source \<Rightarrow> string" where
  "source_name s = (case s of NoSource \<Rightarrow> ''none'' | FromIntegrity i \<Rightarrow> integrity_name i)"

definition decision_name :: "policy_decision \<Rightarrow> string" where
  "decision_name d = (case d of Allow \<Rightarrow> ''allow'' | RequireApproval \<Rightarrow> ''require_approval'' | Deny \<Rightarrow> ''deny'')"

definition tool_call_status_name :: "tool_call_status \<Rightarrow> string" where
  "tool_call_status_name s = (case s of Submitted \<Rightarrow> ''submitted'' | Authorized \<Rightarrow> ''authorized''
     | Executed \<Rightarrow> ''executed'' | PendingApproval \<Rightarrow> ''pending_approval'' | Blocked \<Rightarrow> ''blocked''
     | Rejected \<Rightarrow> ''rejected'' | Failed \<Rightarrow> ''failed'')"

definition execution_mode_name :: "execution_mode \<Rightarrow> string" where
  "execution_mode_name m = (case m of ExternalGrant \<Rightarrow> ''external_grant'' | LocalMock \<Rightarrow> ''local_mock'')"

definition decision_kind_name :: "receipt_decision_kind \<Rightarrow> string" where
  "decision_kind_name k = (case k of HumanApproval \<Rightarrow> ''human_approval'' | PolicyAllow \<Rightarrow> ''policy_allow'')"

definition outcome_status_name :: "receipt_outcome_status \<Rightarrow> string" where
  "outcome_status_name s = (case s of Outcome_Failed \<Rightarrow> ''failed'' | Outcome_Succeeded \<Rightarrow> ''succeeded'')"

definition attempt_state_name :: "attempt_state \<Rightarrow> string" where
  "attempt_state_name s = (case s of Reserved \<Rightarrow> ''reserved'' | Dispatched \<Rightarrow> ''dispatched''
     | Succeeded \<Rightarrow> ''succeeded'' | FailedBeforeDispatch \<Rightarrow> ''failed_before_dispatch''
     | FailedAfterDispatch \<Rightarrow> ''failed_after_dispatch'' | TimedOut \<Rightarrow> ''timed_out''
     | Cancelled \<Rightarrow> ''cancelled'' | UnknownOutcome \<Rightarrow> ''unknown_outcome'')"

definition certainty_name :: "certainty \<Rightarrow> string" where
  "certainty_name c = (case c of Known \<Rightarrow> ''known'' | Unknown \<Rightarrow> ''unknown'')"

definition retry_name :: "retry_disposition \<Rightarrow> string" where
  "retry_name r = (case r of NoRetry \<Rightarrow> ''none'' | ExplicitNewAttemptRequired \<Rightarrow> ''explicit_new_attempt_required''
     | ManualReconciliationRequired \<Rightarrow> ''manual_reconciliation_required'')"

definition restriction_name :: "restriction \<Rightarrow> string" where
  "restriction_name r = (case r of RestrictRequired \<Rightarrow> ''required'' | RestrictDeny \<Rightarrow> ''deny'')"

lemma integrity_name_inj [simp]: "integrity_name i = integrity_name i' \<longleftrightarrow> i = i'"
  by (cases i; cases i'; simp add: integrity_name_def)

lemma decision_name_inj [simp]: "decision_name d = decision_name d' \<longleftrightarrow> d = d'"
  by (cases d; cases d'; simp add: decision_name_def)

lemma attempt_state_name_inj [simp]: "attempt_state_name s = attempt_state_name s' \<longleftrightarrow> s = s'"
  by (cases s; cases s'; simp add: attempt_state_name_def)

lemma restriction_name_inj [simp]: "restriction_name r = restriction_name r' \<longleftrightarrow> r = r'"
  by (cases r; cases r'; simp add: restriction_name_def)

lemma source_name_inj [simp]: "source_name s = source_name s' \<longleftrightarrow> s = s'"
proof (cases s; cases s')
  fix i assume "s = NoSource" "s' = FromIntegrity i"
  then show ?thesis by (cases i) (simp_all add: source_name_def integrity_name_def)
next
  fix i assume "s = FromIntegrity i" "s' = NoSource"
  then show ?thesis by (cases i) (simp_all add: source_name_def integrity_name_def)
qed (simp_all add: source_name_def)

section \<open>Identity\<close>

record auth_context =
  au_principalId :: string
  au_principalType :: string
  au_displayName :: string
  au_email :: "string option"
  au_groups :: "string list"
  au_scopes :: "string list"
  au_authProvider :: string
  au_clientId :: "string option"
  au_workspaceId :: string

definition encode_auth :: "auth_context \<Rightarrow> json" where
  "encode_auth a = JObj
     [(''principalId'', JStr (au_principalId a)), (''principalType'', JStr (au_principalType a)),
      (''displayName'', JStr (au_displayName a)), (''email'', jopt JStr (au_email a)),
      (''groups'', jstrings (au_groups a)), (''scopes'', jstrings (au_scopes a)),
      (''authProvider'', JStr (au_authProvider a)), (''clientId'', jopt JStr (au_clientId a)),
      (''workspaceId'', JStr (au_workspaceId a))]"

section \<open>Content exposure and influence evidence\<close>

record exposure =
  ex_influenceScopeId :: string
  ex_integrity :: content_integrity
  ex_observedAt :: string
  ex_policyVersionHash :: string
  ex_sourceId :: "string option"
  ex_sourceToolCallId :: string
  ex_workspaceId :: string

record list_exposures_input =
  le_influenceScopeId :: string
  le_limit :: jsnum
  le_workspaceId :: string

record list_exposures_result =
  lr_overflow :: bool
  lr_records :: "exposure list"
  lr_revision :: int \<comment> \<open>negative when the exposures could not be read\<close>

record revision_guard =
  rg_influenceScopeId :: string
  rg_revision :: int

record source_reference =
  sr_integrity :: content_integrity
  sr_sourceId :: "string option"
  sr_sourceToolCallId :: string

record influence_evidence =
  ci_baseDecision :: policy_decision
  ci_bindingHash :: string
  ci_effectiveDecision :: policy_decision
  ci_evaluatedAt :: string
  ci_exposureRevision :: jsnum
  ci_exposureSnapshotHash :: string
  ci_scopeId :: "string option"
  ci_scopeVerified :: bool
  ci_observedSources :: "influence_source list"
  ci_policyVersionHash :: string
  ci_policyVersionId :: "string option"
  ci_selectedRule :: influence_guard
  ci_sourceCount :: int
  ci_sourceCountIsLowerBound :: bool
  ci_sourceReferences :: "source_reference list"
  ci_version :: string

section \<open>Tool calls\<close>

record tool_call =
  tc_id :: string
  tc_workspaceId :: "string option"
  tc_toolName :: string
  tc_input :: json
  tc_inputHash :: "string option"
  tc_actionEnvelope :: json
  tc_actionEnvelopeHash :: "string option"
  tc_canonicalActionRequestHash :: "string option"
  tc_canonicalActionRequestVersion :: "string option"
  tc_canonicalDecisionInputHash :: "string option"
  tc_canonicalPolicyContext :: json
  tc_contentInfluence :: "influence_evidence option"
  tc_influenceScopeId :: "string option"
  tc_requestedBy :: string
  tc_requestedByAuth :: "auth_context option"
  tc_agentId :: string
  tc_reason :: string
  tc_metadata :: json
  tc_status :: tool_call_status
  tc_decision :: "policy_decision option"
  tc_authorizationDecision :: "policy_decision option"
  tc_authorizationReason :: "string option"
  tc_decisionTrace :: json
  tc_policyReason :: "string option"
  tc_policyVersionId :: "string option"
  tc_policyVersionHash :: "string option"
  tc_resultDelivery :: json
  tc_resultSource :: "result_source option"
  tc_resultWithheld :: "bool option"
  tc_risk :: "string option"
  tc_result :: json
  tc_error :: "string option"
  tc_createdAt :: string
  tc_updatedAt :: string

section \<open>Approvals\<close>

record approval_decision =
  ad_actor :: string
  ad_auth :: "auth_context option"
  ad_authorizationHash :: "string option"
  ad_authorizationNonce :: "string option"
  ad_authorizationVersion :: "string option"
  ad_approvedEnvelopeHash :: "string option"
  ad_approvedInputHash :: "string option"
  ad_decisionId :: "string option"
  ad_decidedAt :: string
  ad_editedInput :: json
  ad_inputDecision :: "input_decision option"
  ad_note :: "string option"
  ad_reviewHash :: "string option"
  ad_source :: "string option"

record authorization =
  \<comment> \<open>\<open>ApprovalAuthorizationV1\<close>, the groups of its binding flattened\<close>
  az_authorizationHash :: string
  az_originalEnvelopeHash :: string
  az_originalInputHash :: string
  az_reviewHash :: string
  az_approvalId :: string
  az_requestedBy :: string
  az_requestedByPrincipalId :: "string option"
  az_tenantId :: string
  az_toolCallId :: string
  az_decisionId :: "string option"
  az_outcome :: policy_decision
  az_decisionVersion :: "string option"
  az_digest :: "string option"
  az_evaluatorVersion :: "string option"
  az_legacyVersionHash :: string
  az_legacyVersionId :: "string option"
  az_providerId :: "string option"
  az_providerVersion :: "string option"
  az_policyVersion :: "string option"
  az_decisionInputHash :: "string option"
  az_requestHash :: "string option"
  az_requestVersion :: "string option"
  az_eligibleGroups :: "string list"
  az_eligibleUsers :: "string list option"
  az_requiredApprovals :: int
  az_separationOfDuties :: bool
  az_expiresAt :: string
  az_issuedAt :: string
  az_nonce :: string
  az_version :: string

datatype consumed_reason = ReasonApproved | ReasonCancelled | ReasonExpired | ReasonRejected | ReasonSuperseded

record approval =
  ap_id :: string
  ap_workspaceId :: "string option"
  ap_toolCallId :: string
  ap_status :: approval_status
  ap_requestedBy :: string
  ap_requestedByAuth :: "auth_context option"
  ap_authorization :: "authorization option"
  ap_authorizationConsumedAt :: "string option"
  ap_authorizationConsumedReason :: "consumed_reason option"
  ap_approvedBy :: "string option"
  ap_cancelledAt :: "string option"
  ap_cancelledBy :: "string option"
  ap_cancellationReason :: "string option"
  ap_expiredAt :: "string option"
  ap_finalizedAt :: "string option"
  ap_rejectedBy :: "string option"
  ap_note :: "string option"
  ap_rejectionReason :: "string option"
  ap_originalInput :: json
  ap_originalEnvelopeHash :: "string option"
  ap_originalInputHash :: "string option"
  ap_editedInput :: json
  ap_approvedEnvelopeHash :: "string option"
  ap_approvedInputHash :: "string option"
  ap_reviewHash :: "string option"
  ap_approverUsers :: "string list option"
  ap_approverGroups :: "string list option"
  ap_requiredApprovals :: "int option"
  ap_separationOfDuties :: "bool option"
  ap_supersededAt :: "string option"
  ap_supersededByApprovalId :: "string option"
  ap_decisions :: "approval_decision list option"
  ap_createdAt :: string
  ap_updatedAt :: string

section \<open>Grants, receipts, attempts\<close>

record grant =
  gr_id :: string
  gr_workspaceId :: string
  gr_toolCallId :: string
  gr_toolName :: string
  gr_inputHash :: string
  gr_approvedEnvelopeHash :: "string option"
  gr_approvedInputHash :: "string option"
  gr_policyVersionHash :: "string option"
  gr_receiptHash :: "string option"
  gr_receiptId :: "string option"
  gr_actor :: string
  gr_auth :: "auth_context option"
  gr_expiresAt :: string
  gr_nonce :: string
  gr_signature :: string
  gr_consumedAt :: "string option"
  gr_createdAt :: string

record receipt_outcome =
  ro_auth :: "auth_context option"
  ro_error :: "string option"
  ro_recordedAt :: string
  ro_recordedBy :: string
  ro_remediation :: json
  ro_result :: json
  ro_resultDelivery :: json
  ro_status :: receipt_outcome_status

record receipt =
  rc_approvalId :: "string option"
  rc_approvedEnvelopeHash :: string
  rc_approvedInputHash :: string
  rc_createdAt :: string
  rc_decisionActor :: string
  rc_decisionAuth :: "auth_context option"
  rc_decisionKind :: receipt_decision_kind
  rc_executionMode :: execution_mode
  rc_expiresAt :: "string option"
  rc_id :: string
  rc_issuedAt :: string
  rc_keyId :: string
  rc_operation :: json
  rc_originalEnvelopeHash :: string
  rc_originalInputHash :: string
  rc_outcome :: "receipt_outcome option"
  rc_policyDecision :: "policy_decision option"
  rc_policyReason :: "string option"
  rc_policyRisk :: "string option"
  rc_policyVersionHash :: "string option"
  rc_policyVersionId :: "string option"
  rc_protocol :: string
  rc_receiptHash :: string
  rc_reviewHash :: "string option"
  rc_signature :: string
  rc_signatureAlg :: string
  rc_source :: json
  rc_toolCallId :: string
  rc_toolName :: string
  rc_version :: string
  rc_workspaceId :: string

record attempt_binding =
  ab_actionEnvelopeHash :: "string option"
  ab_approvalAuthorizationHash :: "string option"
  ab_approvalAuthorizationNonce :: "string option"
  ab_approvalId :: "string option"
  ab_canonicalActionRequestHash :: "string option"
  ab_canonicalActionRequestVersion :: "string option"
  ab_canonicalDecisionInputHash :: "string option"
  ab_contentInfluenceBindingHash :: "string option option"
  ab_decisionId :: "string option"
  ab_decisionVersion :: "string option"
  ab_influenceScopeId :: "string option option"
  ab_policyVersionHash :: "string option"
  ab_receiptHash :: "string option"
  ab_receiptId :: "string option"
  ab_resultSourceHash :: "string option"

record attempt_outcome =
  ao_certainty :: certainty
  ao_errorClass :: "string option"
  ao_errorCode :: "string option"
  ao_errorMessage :: "string option"
  ao_remediationHash :: "string option"
  ao_recordedAt :: string
  ao_resultDeliveryHash :: "string option"
  ao_resultHash :: "string option"
  ao_retryDisposition :: retry_disposition
  ao_status :: attempt_state

record attempt =
  at_attemptNumber :: int
  at_binding :: attempt_binding
  at_completedAt :: "string option"
  at_dispatchedAt :: "string option"
  at_executionMode :: execution_mode
  at_executorId :: string
  at_grantId :: "string option"
  at_id :: string
  at_inputHash :: string
  at_outcome :: "attempt_outcome option"
  at_providerIdempotency :: string
  at_reservedAt :: string
  at_reservationOwner :: string
  at_retryPolicy :: string
  at_state :: attempt_state
  at_toolCallId :: string
  at_updatedAt :: string
  at_version :: string
  at_workspaceId :: string

record idempotency =
  id_key :: string
  id_workspaceId :: string
  id_route :: string
  id_requestHash :: string
  id_toolCallId :: string
  id_createdAt :: string

end
