(* ===== verification/HashFacts.thy ===== *)
theory HashFacts
  imports CanonicalJson
begin

text \<open>
  What equal serialisations and equal hashes say about the values behind them, and when the order in
  which an object's members were added shows in a hash.
\<close>

lemma canonicalJsonStringify_plain: "plain v \<Longrightarrow> canonicalJsonStringify v = Inr (print_json (canon v))"
  by (simp add: canonicalJsonStringify_def serialize_print plain_clean)

lemma canonicalJsonStringify_clean: "clean v \<Longrightarrow> canonicalJsonStringify v = Inr (print_json (canon v))"
  by (simp add: canonicalJsonStringify_def serialize_print)

lemma canonical_equal_iff:
  "plain v \<Longrightarrow> plain w \<Longrightarrow> canonicalJsonStringify v = canonicalJsonStringify w \<longleftrightarrow> canon v = canon w"
  using print_json_inj [OF tight_arrange tight_arrange] by (auto simp: canonicalJsonStringify_plain)

lemma stable_equal_canon:
  assumes "plain v" "plain w" "distinct_keys v" "distinct_keys w"
    and "stableStringify E v = stableStringify E w"
  shows "canon v = canon w"
proof -
  from assms have "arrange (localeCompare E) v = arrange (localeCompare E) w"
    by (simp add: stableStringify_print print_json_inj tight_arrange)
  then show ?thesis using canon_arrange assms(3,4) by metis
qed

lemma hashCanonicalJson_Inr:
  "hashCanonicalJson E v = Inr h \<longleftrightarrow> (\<exists>s. canonicalJsonStringify v = Inr s \<and> h = sha256Hex E s)"
  by (auto simp: hashCanonicalJson_def)

lemma hashCanonicalJson_plain: "plain v \<Longrightarrow> hashCanonicalJson E v = Inr (sha256Hex E (print_json (canon v)))"
  by (simp add: hashCanonicalJson_def canonicalJsonStringify_plain map_result_def)

lemma hashCanonicalJson_equal_canon:
  assumes "plain v" "plain w" "hashCanonicalJson E v = hashCanonicalJson E w"
    and "inj_on (sha256Hex E) {print_json (canon v), print_json (canon w)}"
  shows "canon v = canon w"
proof -
  have "sha256Hex E (print_json (canon v)) = sha256Hex E (print_json (canon w))"
    using assms(1-3) by (simp add: hashCanonicalJson_plain)
  then have "print_json (canon v) = print_json (canon w)"
    using assms(4) by (simp only: inj_on_def) blast
  then show ?thesis using print_json_inj tight_arrange assms(1,2) by blast
qed

lemma serialize_member_order:
  assumes "mset kvs = mset kvs'" "distinct (map fst kvs)"
  shows "serializeCanonicalJson path (JObj kvs) = serializeCanonicalJson path (JObj kvs')"
proof -
  let ?entries = "\<lambda>kvs. map (\<lambda>p. (fst p, serializeCanonicalJson (member_path path (fst p)) (snd p)))
                      (filter (\<lambda>p. snd p \<noteq> JUndef) kvs)"
  have "distinct (map fst (?entries kvs))"
    using assms(2) by (simp add: comp_def distinct_map_filter)
  moreover have "mset (?entries kvs) = mset (?entries kvs')" using assms(1) by simp
  ultimately have "js_sort (by_key codeUnitCompare) (?entries kvs) = js_sort (by_key codeUnitCompare) (?entries kvs')"
    by (rule code_units.sort_by_unique)
  then show ?thesis by simp
qed

section \<open>Reading members out of an arranged object\<close>

lemma map_of_js_sort: "distinct (map fst xs) \<Longrightarrow> map_of (js_sort cmp xs) = map_of xs"
proof -
  assume d: "distinct (map fst xs)"
  then have "distinct (map fst (js_sort cmp xs))"
    using distinct_map_mset [OF mset_js_sort] by blast
  with d show ?thesis by (simp add: map_of_inject_set)
qed

lemma map_of_filter_undef:
  "distinct (map fst xs) \<Longrightarrow>
    (case map_of (filter (\<lambda>p. snd p \<noteq> JUndef) xs) k of None \<Rightarrow> JUndef | Some x \<Rightarrow> x)
      = (case map_of xs k of None \<Rightarrow> JUndef | Some x \<Rightarrow> x)"
proof (induction xs)
  case (Cons p xs)
  moreover have "map_of (filter (\<lambda>p. snd p \<noteq> JUndef) xs) (fst p) = None"
    using Cons.prems by (auto simp: map_of_eq_None_iff)
  moreover have "map_of xs (fst p) = None" using Cons.prems by (simp add: map_of_eq_None_iff)
  ultimately show ?case by (cases p) auto
qed simp

lemma jget_canon:
  assumes "distinct (map fst kvs)"
  shows "jget (canon (JObj kvs)) k = canon (jget (JObj kvs) k)"
proof -
  let ?fs = "filter (\<lambda>p. snd p \<noteq> JUndef) kvs"
  have d: "distinct (map fst (map (\<lambda>p. (fst p, canon (snd p))) ?fs))"
    using assms by (simp add: comp_def distinct_map_filter)
  have "jget (canon (JObj kvs)) k
      = (case map_of (map (\<lambda>(k, v). (k, canon v)) ?fs) k of None \<Rightarrow> JUndef | Some x \<Rightarrow> x)"
    using map_of_js_sort [OF d] by (simp add: jget_def case_prod_unfold)
  also have "\<dots> = canon (case map_of ?fs k of None \<Rightarrow> JUndef | Some x \<Rightarrow> x)"
    by (simp add: map_of_map split: option.split)
  also have "\<dots> = canon (jget (JObj kvs) k)"
    using map_of_filter_undef [OF assms] by (simp add: jget_def)
  finally show ?thesis .
qed

lemma arrange_obj:
  "arrange cmp (JObj kvs) = JObj (js_sort (by_key cmp)
     (filter (\<lambda>p. snd p \<noteq> JUndef) (zip (map fst kvs) (map (arrange cmp \<circ> snd) kvs))))"
proof -
  have "filter (\<lambda>p. snd p \<noteq> JUndef) (map (\<lambda>p. (fst p, arrange cmp (snd p))) kvs)
      = map (\<lambda>p. (fst p, arrange cmp (snd p))) (filter (\<lambda>p. snd p \<noteq> JUndef) kvs)"
    by (simp add: filter_map comp_def)
  moreover have "zip (map fst kvs) (map (arrange cmp \<circ> snd) kvs) = map (\<lambda>p. (fst p, arrange cmp (snd p))) kvs"
    by (induction kvs) simp_all
  ultimately show ?thesis by simp
qed

text \<open>Objects with the same keys have the same arrangement exactly when their members have.\<close>

lemma canon_obj_iff:
  assumes "map fst kvs = map fst kvs'" and "distinct (map fst kvs)"
  shows "canon (JObj kvs) = canon (JObj kvs') \<longleftrightarrow> map (canon \<circ> snd) kvs = map (canon \<circ> snd) kvs'"
proof
  assume eq: "canon (JObj kvs) = canon (JObj kvs')"
  have d': "distinct (map fst kvs')" using assms by simp
  show "map (canon \<circ> snd) kvs = map (canon \<circ> snd) kvs'"
  proof (rule nth_equalityI)
    show len: "length (map (canon \<circ> snd) kvs) = length (map (canon \<circ> snd) kvs')"
      using assms(1) by (metis length_map)
    fix i assume i: "i < length (map (canon \<circ> snd) kvs)"
    have val: "jget (JObj xs) (fst (xs ! j)) = snd (xs ! j)" if "distinct (map fst xs)" "j < length xs" for xs j
    proof -
      have "map_of xs (fst (xs ! j)) = Some (snd (xs ! j))"
        using that by (intro map_of_is_SomeI) (auto simp del: map_of_eq_Some_iff)
      then show ?thesis by (simp add: jget_def)
    qed
    have key: "fst (kvs ! i) = fst (kvs' ! i)"
      using assms(1) i len by (metis length_map nth_map)
    have "canon (jget (JObj kvs) (fst (kvs ! i))) = canon (jget (JObj kvs') (fst (kvs ! i)))"
      using jget_canon [OF assms(2)] jget_canon [OF d'] eq by metis
    then show "map (canon \<circ> snd) kvs ! i = map (canon \<circ> snd) kvs' ! i"
      using val [OF assms(2), of i] val [OF d', of i] i len key by simp
  qed
qed (simp only: arrange_obj assms(1))

lemma canon_eq_leaf [simp]:
  "canon v = JStr s \<longleftrightarrow> v = JStr s" "canon v = JNum n \<longleftrightarrow> v = JNum n"
  "canon v = JBool b \<longleftrightarrow> v = JBool b" "canon v = JNull \<longleftrightarrow> v = JNull"
  by (cases v; simp)+

lemma canon_JStr_list [simp]: "canon (JArr (map (JStr \<circ> f) xs)) = JArr (map (JStr \<circ> f) xs)"
  by simp

lemma scaled_num_of_int: "num_of_int n = Dec m e \<Longrightarrow> 0 \<le> e \<and> n = m * 10 ^ nat e"
proof (induction n arbitrary: m e rule: num_of_int.induct)
  case (1 n)
  show ?case
  proof (cases "n \<noteq> 0 \<and> n mod 10 = 0")
    case True
    with "1.prems" obtain f where rest: "num_of_int (n div 10) = Dec m f" "e = f + 1"
      by (subst (asm) num_of_int.simps) (auto split: jsnum.splits)
    with "1.IH" True have "0 \<le> f" "n div 10 = m * 10 ^ nat f" by auto
    moreover from True have "n = n div 10 * 10" by presburger
    ultimately show ?thesis using rest by (simp add: nat_add_distrib)
  next
    case False
    with "1.prems" show ?thesis by (auto simp: num_of_int.simps [of n] split: if_splits)
  qed
qed

lemma num_of_int_Dec: "\<exists>m e. num_of_int n = Dec m e \<and> 0 \<le> e \<and> (n < 0 \<longleftrightarrow> m < 0)"
proof (induction n rule: num_of_int.induct)
  case (1 n)
  show ?case
  proof (cases "n \<noteq> 0 \<and> n mod 10 = 0")
    case True
    with 1 obtain m e where "num_of_int (n div 10) = Dec m e" "0 \<le> e" "n div 10 < 0 \<longleftrightarrow> m < 0" by blast
    with True show ?thesis by (subst num_of_int.simps) auto
  qed (auto simp: num_of_int.simps [of n])
qed

lemma num_of_int_normal: "num_of_int n = Dec m e \<Longrightarrow> (m = 0 \<longrightarrow> e = 0) \<and> (m \<noteq> 0 \<longrightarrow> m mod 10 \<noteq> 0)"
proof (induction n arbitrary: m e rule: num_of_int.induct)
  case (1 n)
  show ?case
  proof (cases "n \<noteq> 0 \<and> n mod 10 = 0")
    case True
    with "1.prems" obtain f where rest: "num_of_int (n div 10) = Dec m f" "e = f + 1"
      by (subst (asm) num_of_int.simps) (auto split: jsnum.splits)
    moreover from True have "n div 10 \<noteq> 0" by presburger
    with rest scaled_num_of_int [of "n div 10" m f] have "m \<noteq> 0" by auto
    ultimately show ?thesis using "1.IH" True by auto
  next
    case False
    with "1.prems" show ?thesis by (auto simp: num_of_int.simps [of n] split: if_splits)
  qed
qed

lemma plain_jint [simp]: "plain (jint n)"
  using num_of_int_Dec [of n] num_of_int_normal [of n] by (auto simp: jint_def)

lemma num_of_int_inj [simp]: "num_of_int m = num_of_int n \<longleftrightarrow> m = n"
  using num_of_int_Dec [of m] scaled_num_of_int [of m] scaled_num_of_int [of n] by metis

lemma jint_inj [simp]: "jint m = jint n \<longleftrightarrow> m = n"
  by (simp add: jint_def)

lemma canon_jopt_JStr [simp]: "canon (jopt JStr x) = jopt JStr x"
  by (cases x) simp_all

lemma canon_jnullable [simp]: "canon (jnullable x) = jnullable x"
  by (cases x) simp_all

lemma canon_jint [simp]: "canon (jint n) = jint n"
  by (simp add: jint_def)

lemma jopt_JStr_inj [simp]: "jopt JStr x = jopt JStr y \<longleftrightarrow> x = y"
  by (cases x; cases y) simp_all

declare arrange.simps(2) [simp del]

section \<open>Properties\<close>

text \<open>Two representable values have the same canonical JSON text exactly when they are the same
  value up to the order of object members (and members that are undefined).\<close>

lemma canonicalJson_determines_value:
  assumes "plain v" and "plain w"
  shows "canonicalJsonStringify v = canonicalJsonStringify w \<longleftrightarrow> canon v = canon w"
  using assms by (rule canonical_equal_iff)

definition sample_object :: json where
  "sample_object = JObj [(''to'', JArr [JStr ''a@b.c'']), (''amount'', JNum (Dec 25 1)), (''note'', JUndef)]"

definition sample_permuted :: json where
  "sample_permuted = JObj [(''amount'', JNum (Dec 25 1)), (''to'', JArr [JStr ''a@b.c''])]"

lemma canonicalJson_determines_value_example:
  "canonicalJsonStringify sample_object = canonicalJsonStringify sample_permuted"
proof -
  have "plain sample_object" "plain sample_permuted" "canon sample_object = canon sample_permuted"
    by code_simp+
  then show ?thesis using canonicalJson_determines_value [of sample_object sample_permuted] by blast
qed


definition text_env :: env where
  \<comment> \<open>an instance of the parameters: digests are the text itself, collation is by code units\<close>
  "text_env = \<lparr>sha256Hex = (\<lambda>s. s), hmacSha256Hex = (\<lambda>k s. k @ '':'' @ s),
     localeCompare = codeUnitCompare, dateParse = (\<lambda>s. Some (int (length s))),
     isoString = (\<lambda>n. nat_digits (nat n))\<rparr>"


section \<open>The order of members can show in a stable hash\<close>

text \<open>
  \<open>stableStringify\<close> orders members by collation. When the collation identifies two distinct keys
  (\<open>localeCompare\<close> returns 0 for canonically equivalent strings and for strings that differ in
  ignorable characters), the stable sort keeps them in the order in which they were added.
\<close>

definition collating_env :: env where
  \<comment> \<open>a collation that ignores the soft hyphen\<close>
  "collating_env = text_env\<lparr>localeCompare := (\<lambda>l r. codeUnitCompare
     (filter (\<lambda>c. c \<noteq> CHR 0xAD) l) (filter (\<lambda>c. c \<noteq> CHR 0xAD) r))\<rparr>"

lemma collating_env_consistent: "comparator (localeCompare collating_env)"
  unfolding collating_env_def using code_units.comparator_vimage by simp

lemma stable_hash_depends_on_order:
  "hashJson collating_env (JObj [(''ab'', JNum (Dec 1 0)), ([CHR ''a'', CHR 0xAD, CHR ''b''], JNum (Dec 2 0))])
   \<noteq> hashJson collating_env (JObj [([CHR ''a'', CHR 0xAD, CHR ''b''], JNum (Dec 2 0)), (''ab'', JNum (Dec 1 0))])"
  by code_simp

text \<open>With a collation that separates all keys the order does not show.\<close>

lemma arrange_member_order:
  assumes "linear_comparator cmp" "mset kvs = mset kvs'" "distinct (map fst kvs)"
  shows "arrange cmp (JObj kvs) = arrange cmp (JObj kvs')"
proof -
  let ?es = "\<lambda>kvs. map (\<lambda>p. (fst p, arrange cmp (snd p))) (filter (\<lambda>p. snd p \<noteq> JUndef) kvs)"
  have "distinct (map fst (?es kvs))" using assms(3) by (simp add: comp_def distinct_map_filter)
  moreover have "mset (?es kvs) = mset (?es kvs')" using assms(2) by simp
  ultimately have "js_sort (by_key cmp) (?es kvs) = js_sort (by_key cmp) (?es kvs')"
    by (rule linear_comparator.sort_by_unique [OF assms(1)])
  then show ?thesis by (simp add: arrange.simps(2))
qed

lemma hashJson_member_order:
  assumes "linear_comparator (localeCompare E)" "mset kvs = mset kvs'" "distinct (map fst kvs)"
  shows "hashJson E (JObj kvs) = hashJson E (JObj kvs')"
  by (simp only: hashJson_def stableStringify_print arrange_member_order [OF assms])

text \<open>Values outside the plain ones are conflated: \<open>undefined\<close> in an array is no text at all, and a number
  that is not finite is printed as \<open>null\<close>.\<close>

lemma stable_hash_conflates:
  "hashJson E (JArr [JUndef]) = hashJson E (JArr [])"
  "hashJson E (JObj [(k, JNum NaN)]) = hashJson E (JObj [(k, JNull)])"
  by (simp_all add: hashJson_def)

end
