(* ===== verification/ActionRequest.thy ===== *)
theory ActionRequest
  imports Models HashFacts
begin

text \<open>
  \<open>normalizeActionRequest\<close> (\<open>contracts/action-request.ts\<close>): a submitted tool call becomes a canonical action request, in
  which every field carries where its value comes from and how far it is trusted, and two digests, one of
  everything and one of what the decision depends on.
\<close>

section \<open>Sourced fields\<close>

datatype trust = Asserted | Derived | ExternallyVerified | Trusted

record field_provenance =
  pv_source :: string
  pv_trust :: trust

record 'a sourced_field =
  sf_present :: bool
  sf_provenance :: field_provenance
  sf_value :: "'a option"

definition sourced :: "'a \<Rightarrow> trust \<Rightarrow> string \<Rightarrow> 'a sourced_field" where
  "sourced v t s = \<lparr>sf_present = True, sf_provenance = \<lparr>pv_source = s, pv_trust = t\<rparr>, sf_value = Some v\<rparr>"

definition absent :: "trust \<Rightarrow> string \<Rightarrow> 'a sourced_field" where
  "absent t s = \<lparr>sf_present = False, sf_provenance = \<lparr>pv_source = s, pv_trust = t\<rparr>, sf_value = None\<rparr>"

definition trust_name :: "trust \<Rightarrow> string" where
  "trust_name t = (case t of Asserted \<Rightarrow> ''asserted'' | Derived \<Rightarrow> ''derived''
     | ExternallyVerified \<Rightarrow> ''externally_verified'' | Trusted \<Rightarrow> ''trusted'')"

definition encode_sourced :: "('a \<Rightarrow> json) \<Rightarrow> 'a sourced_field \<Rightarrow> json" where
  "encode_sourced f x = JObj
     [(''present'', JBool (sf_present x)),
      (''provenance'', JObj [(''source'', JStr (pv_source (sf_provenance x))),
                             (''trust'', JStr (trust_name (pv_trust (sf_provenance x))))]),
      (''value'', jopt f (sf_value x))]"

section \<open>The records\<close>

record action_hints =
  \<comment> \<open>\<open>SubmitActionEnvelopeHints\<close>; the objects are JSON\<close>
  ah_context :: json
  ah_executionMode :: "execution_mode option"
  ah_operation :: json
  ah_protocol :: "string option"
  ah_resources :: "json list option"
  ah_source :: json

record submit_request =
  sr_toolName :: string
  sr_input :: json
  sr_requestedBy :: string
  sr_agentId :: string
  sr_reason :: string
  sr_action :: "action_hints option"
  sr_metadata :: json \<comment> \<open>\<open>JUndef\<close> if there is none\<close>

record action_actor =
  ac_authProvider :: "string option"
  ac_displayName :: "string option"
  ac_email :: "string option"
  ac_id :: string
  ac_type :: string

record action_agent =
  ag_id :: string
  ag_name :: "string option"
  ag_verification :: string

datatype deployment = Local_Environment | Self_Hosted

record mcp_agent =
  ma_id :: string
  ma_name :: "string option"
  ma_source :: string
  ma_trust :: trust \<comment> \<open>\<open>derived\<close> or \<open>externally_verified\<close>\<close>

record mcp_session =
  ms_runId :: "string option"
  ms_sessionId :: "string option"
  ms_source :: string
  ms_trust :: trust

record mcp_ingress =
  mi_adapterId :: string
  mi_adapterSource :: string
  mi_adapterTrust :: trust
  mi_agent :: mcp_agent
  mi_idempotencySource :: string
  mi_idempotencyTrust :: trust
  mi_session :: "mcp_session option"

datatype ingress = HttpIngress deployment | McpIngress deployment mcp_ingress

definition ingress_environment :: "ingress \<Rightarrow> deployment" where
  "ingress_environment i = (case i of HttpIngress d \<Rightarrow> d | McpIngress d _ \<Rightarrow> d)"

record canonical_policy =
  cp_amount :: "jsnum sourced_field"
  cp_approverGroup :: "string sourced_field"
  cp_currency :: "string sourced_field"
  cp_customerVisible :: "bool sourced_field"
  cp_operationKind :: "string sourced_field"
  cp_recipientDomain :: "string sourced_field"
  cp_risk :: "string sourced_field"

record canonical_request =
  \<comment> \<open>\<open>CanonicalActionRequest\<close> without \<open>integrity\<close>\<close>
  cr_actor :: "action_actor sourced_field"
  cr_agent :: "action_agent sourced_field"
  cr_arguments :: "json sourced_field"
  cr_action :: "json sourced_field"
  cr_metadata :: "json sourced_field"
  cr_policy :: canonical_policy
  cr_rationale :: "string sourced_field"
  cr_credentialReference :: "string sourced_field"
  cr_environment :: "deployment sourced_field"
  cr_executionMode :: "execution_mode sourced_field"
  cr_idempotencyKey :: "string sourced_field"
  cr_operation :: "(string option \<times> string) sourced_field" \<comment> \<open>kind and name\<close>
  cr_receivedAt :: "string sourced_field"
  cr_requestId :: "string sourced_field"
  cr_resources :: "json list sourced_field"
  cr_session :: "(string option \<times> string option) sourced_field" \<comment> \<open>run and session\<close>
  cr_source :: "(string option \<times> string) sourced_field" \<comment> \<open>adapter and type\<close>
  cr_sourceProtocol :: "string sourced_field"
  cr_tenant :: "string sourced_field"
  cr_tool :: "string sourced_field"

record trusted_policy =
  tp_customerVisible :: bool
  tp_operationKind :: string
  tp_risk :: string
  tp_source :: string

record normalize_input =
  ni_auth :: "auth_context option"
  ni_idempotencyKey :: "string option"
  ni_ingress :: ingress
  ni_receivedAt :: string
  ni_request :: submit_request
  ni_requestId :: string
  ni_trustedCredentialReference :: "(string \<times> string) option" \<comment> \<open>source and value\<close>
  ni_trustedExecutionMode :: "(string \<times> execution_mode) option"
  ni_trustedOperation :: "(string \<times> (string \<times> string)) option" \<comment> \<open>source, kind and name\<close>
  ni_trustedPolicy :: "trusted_policy option"
  ni_trustedResources :: "(string \<times> json list) option"
  ni_workspaceId :: string

record request_integrity =
  in_decisionInputHash :: string
  in_requestHash :: string

datatype normalize_error = TenantMismatch | NotCanonical canonicalization_error

section \<open>Fields\<close>

definition optionalString :: "json \<Rightarrow> string option" where
  "optionalString v = (case v of JStr s \<Rightarrow> if js_trim s \<noteq> [] then Some (js_trim s) else None | _ \<Rightarrow> None)"

definition finiteNumber :: "json \<Rightarrow> jsnum option" where
  "finiteNumber v = (case v of JNum n \<Rightarrow> if num_isFinite n then Some n else None | _ \<Rightarrow> None)"

definition hasRecipient :: "json \<Rightarrow> bool" where
  "hasRecipient v = (case v of
       JStr s \<Rightarrow> js_trim s \<noteq> []
     | JArr vs \<Rightarrow> list_ex (\<lambda>x. case x of JStr s \<Rightarrow> js_trim s \<noteq> [] | _ \<Rightarrow> False) vs
     | _ \<Rightarrow> False)"

definition derivedRecipientDomain :: "json \<Rightarrow> string option" where
  "derivedRecipientDomain input =
     (if list_ex hasRecipient [jget input ''to'', jget input ''cc'', jget input ''bcc'', jget input ''recipient'']
      then Some ''external'' else None)"

definition executionModeFromMetadata :: "json \<Rightarrow> execution_mode" where
  "executionModeFromMetadata metadata =
     (let m = jget metadata ''actionproxyExecution''; nested = jget metadata ''actionproxy''
      in if m \<noteq> JUndef then (if m = JStr ''external'' then ExternalGrant else LocalMock)
         else if isJsonObject nested \<and> jget nested ''executionMode'' \<noteq> JUndef
         then (if jget nested ''executionMode'' = JStr ''external'' then ExternalGrant else LocalMock)
         else LocalMock)"

definition externallyVerifiedAuth :: "auth_context option \<Rightarrow> bool" where
  "externallyVerifiedAuth auth = (case auth of None \<Rightarrow> False
     | Some a \<Rightarrow> au_authProvider a \<noteq> ''none'' \<and> au_authProvider a \<noteq> ''tunnel_single_user'')"

definition tunnel_auth :: "auth_context option \<Rightarrow> bool" where
  \<comment> \<open>\<open>auth?.authProvider === 'tunnel_single_user'\<close>\<close>
  "tunnel_auth auth = (map_option au_authProvider auth = Some ''tunnel_single_user'')"

definition auth_trust :: "auth_context option \<Rightarrow> trust" where
  "auth_trust auth = (if externallyVerifiedAuth auth then ExternallyVerified else Trusted)"

definition actorField :: "submit_request \<Rightarrow> auth_context option \<Rightarrow> action_actor sourced_field" where
  "actorField request auth =
     (case auth of
        Some a \<Rightarrow> sourced
          \<lparr>ac_authProvider = Some (au_authProvider a), ac_displayName = Some (au_displayName a), ac_email = au_email a,
           ac_id = au_principalId a, ac_type = au_principalType a\<rparr> (auth_trust auth)
          (if externallyVerifiedAuth auth then ''auth.principal''
           else if tunnel_auth auth then ''server.tunnel-single-user.principal'' else ''server.local-auth.principal'')
      | None \<Rightarrow> sourced
          \<lparr>ac_authProvider = None, ac_displayName = None, ac_email = None, ac_id = sr_requestedBy request, ac_type = ''local''\<rparr>
          Asserted ''body.requestedBy'')"

definition sessionField :: "json \<Rightarrow> (string option \<times> string option) sourced_field" where
  "sessionField metadata =
     (let runId = optionalString (jget metadata ''runId''); sessionId = optionalString (jget metadata ''sessionId'')
      in if runId = None \<and> sessionId = None then absent Asserted ''body.metadata.runId|sessionId''
         else sourced (runId, sessionId) Asserted ''body.metadata.runId|sessionId'')"

definition or_absent :: "'a option \<Rightarrow> trust \<Rightarrow> string \<Rightarrow> 'a sourced_field" where
  \<comment> \<open>\<open>x === undefined ? absent(t, s) : sourced(x, t, s)\<close>\<close>
  "or_absent x t s = (case x of None \<Rightarrow> absent t s | Some v \<Rightarrow> sourced v t s)"

definition deriveCanonicalPolicyContext :: "json \<Rightarrow> auth_context option \<Rightarrow> canonical_policy" where
  "deriveCanonicalPolicyContext input auth =
     \<lparr>cp_amount = or_absent (or_else (finiteNumber (jget input ''amount'')) (finiteNumber (jget input ''amountCents'')))
        Derived ''arguments.amount|amountCents'',
      cp_approverGroup = absent (auth_trust auth)
        (if externallyVerifiedAuth auth then ''auth.groups.no-single-group-selected''
         else if tunnel_auth auth then ''server.tunnel-single-user.no-approver-group''
         else ''server.no-verified-approver-group''),
      cp_currency = or_absent (optionalString (jget input ''currency'')) Derived ''arguments.currency'',
      cp_customerVisible = absent Trusted ''server.customer-visibility.not-resolved'',
      cp_operationKind = absent Derived ''normalizer.operation-kind.unmapped'',
      cp_recipientDomain = or_absent (derivedRecipientDomain input) Derived ''arguments.recipients'',
      cp_risk = absent Trusted ''policy.rule.risk''\<rparr>"

section \<open>The canonical request\<close>

definition hint_mode :: "submit_request \<Rightarrow> execution_mode option" where
  \<comment> \<open>\<open>request.action?.executionMode\<close>\<close>
  "hint_mode request = Option.bind (sr_action request) ah_executionMode"

definition request_metadata :: "submit_request \<Rightarrow> json" where
  "request_metadata request = jcoalesce (sr_metadata request) (JObj [])"

definition agent_field :: "ingress \<Rightarrow> submit_request \<Rightarrow> action_agent sourced_field" where
  "agent_field g request = (case g of
       McpIngress _ m \<Rightarrow> sourced
         \<lparr>ag_id = ma_id (mi_agent m), ag_name = ma_name (mi_agent m),
          ag_verification = (if ma_trust (mi_agent m) = ExternallyVerified then ''externally_verified'' else ''asserted'')\<rparr>
         (ma_trust (mi_agent m)) (ma_source (mi_agent m))
     | HttpIngress _ \<Rightarrow> sourced
         \<lparr>ag_id = sr_agentId request, ag_name = optionalString (jget (request_metadata request) ''agentName''),
          ag_verification = ''asserted''\<rparr>
         Asserted ''body.agentId'')"

definition policy_fields :: "normalize_input \<Rightarrow> canonical_policy" where
  "policy_fields i =
     (let derived = deriveCanonicalPolicyContext (sr_input (ni_request i)) (ni_auth i)
      in case ni_trustedPolicy i of
           None \<Rightarrow> derived
         | Some p \<Rightarrow> derived\<lparr>cp_customerVisible := sourced (tp_customerVisible p) Trusted (tp_source p),
             cp_operationKind := sourced (tp_operationKind p) Trusted (tp_source p),
             cp_risk := sourced (tp_risk p) Trusted (tp_source p)\<rparr>)"

definition request_resources :: "submit_request \<Rightarrow> json list" where
  \<comment> \<open>\<open>request.action?.resources\<close>, empty if there are none\<close>
  "request_resources request = coalesce (Option.bind (sr_action request) ah_resources) []"

definition canonical_base :: "normalize_input \<Rightarrow> canonical_request" where
  "canonical_base i =
     (let request = ni_request i; metadata = request_metadata request; auth = ni_auth i; g = ni_ingress i;
          idempotencyTrust = (case g of McpIngress _ m \<Rightarrow> mi_idempotencyTrust m | _ \<Rightarrow> Asserted);
          idempotencySource = (case g of McpIngress _ m \<Rightarrow> mi_idempotencySource m | _ \<Rightarrow> ''header.idempotency-key'')
      in \<lparr>cr_actor = actorField request auth,
          cr_agent = agent_field g request,
          cr_arguments = sourced (sr_input request) Asserted ''body.input'',
          cr_action = sourced (jcoalesce (case sr_action request of None \<Rightarrow> JUndef | Some a \<Rightarrow> ah_context a) (JObj []))
            Asserted ''body.action.context'',
          cr_metadata = sourced metadata Asserted ''body.metadata'',
          cr_policy = policy_fields i,
          cr_rationale = sourced (sr_reason request) Asserted ''body.reason'',
          cr_credentialReference = (case ni_trustedCredentialReference i of
               Some (src, v) \<Rightarrow> sourced v Trusted src
             | None \<Rightarrow> absent Trusted ''server.credential-resolver.not-resolved''),
          cr_environment = sourced (ingress_environment g) Trusted ''server.deployment.mode'',
          cr_executionMode = (case ni_trustedExecutionMode i of
               Some (src, v) \<Rightarrow> sourced v Trusted src
             | None \<Rightarrow> sourced (coalesce (hint_mode request) (executionModeFromMetadata metadata)) Asserted
                 (if hint_mode request \<noteq> None then ''body.action.executionMode'' else ''body.metadata.executionMode'')),
          cr_idempotencyKey = (if truthy (ni_idempotencyKey i)
             then sourced (the (ni_idempotencyKey i)) idempotencyTrust idempotencySource
             else absent idempotencyTrust idempotencySource),
          cr_operation = (case ni_trustedOperation i of
               Some (src, (kind, name)) \<Rightarrow> sourced (Some kind, name) Trusted src
             | None \<Rightarrow> sourced (None, sr_toolName request) Derived ''normalizer.tool-name-to-operation''),
          cr_receivedAt = sourced (ni_receivedAt i) Derived ''server.clock'',
          cr_requestId = sourced (ni_requestId i) Derived ''server.request-id'',
          cr_resources = (case ni_trustedResources i of
               Some (src, v) \<Rightarrow> sourced v Derived src
             | None \<Rightarrow> if request_resources request \<noteq> [] then sourced (request_resources request) Asserted ''body.action.resources''
                       else absent Asserted ''body.action.resources''),
          cr_session = (case (case g of McpIngress _ m \<Rightarrow> mi_session m | _ \<Rightarrow> None) of
               Some x \<Rightarrow> sourced (ms_runId x, ms_sessionId x) (ms_trust x) (ms_source x)
             | None \<Rightarrow> sessionField metadata),
          cr_source = (case g of
               McpIngress _ m \<Rightarrow> sourced (Some (mi_adapterId m), ''mcp'') (mi_adapterTrust m) (mi_adapterSource m)
             | HttpIngress _ \<Rightarrow> sourced (None, ''http'') Derived ''http.route-adapter''),
          cr_sourceProtocol = (case g of
               McpIngress _ m \<Rightarrow> sourced ''mcp'' Derived ''mcp.transport-adapter''
             | HttpIngress _ \<Rightarrow> sourced ''actionproxy_http'' Derived ''http.route-adapter''),
          cr_tenant = sourced (ni_workspaceId i) (auth_trust auth)
            (if externallyVerifiedAuth auth then ''auth.workspaceId''
             else if tunnel_auth auth then ''server.tunnel-single-user.workspaceId'' else ''server.workspaceId''),
          cr_tool = sourced (sr_toolName request) Asserted ''body.toolName''\<rparr>)"

section \<open>The digests\<close>

definition CANONICAL_ACTION_REQUEST_VERSION :: string where
  "CANONICAL_ACTION_REQUEST_VERSION = ''actionproxy.action-request.v1''"

definition encode_actor :: "action_actor \<Rightarrow> json" where
  "encode_actor a = JObj
     [(''authProvider'', jopt JStr (ac_authProvider a)), (''displayName'', jopt JStr (ac_displayName a)),
      (''email'', jopt JStr (ac_email a)), (''id'', JStr (ac_id a)), (''type'', JStr (ac_type a))]"

definition encode_agent :: "action_agent \<Rightarrow> json" where
  "encode_agent a = JObj [(''id'', JStr (ag_id a)), (''name'', jopt JStr (ag_name a)),
     (''verification'', JStr (ag_verification a))]"

definition encode_policy :: "canonical_policy \<Rightarrow> json" where
  "encode_policy p = JObj
     [(''amount'', encode_sourced JNum (cp_amount p)), (''approverGroup'', encode_sourced JStr (cp_approverGroup p)),
      (''currency'', encode_sourced JStr (cp_currency p)), (''customerVisible'', encode_sourced JBool (cp_customerVisible p)),
      (''operationKind'', encode_sourced JStr (cp_operationKind p)),
      (''recipientDomain'', encode_sourced JStr (cp_recipientDomain p)), (''risk'', encode_sourced JStr (cp_risk p))]"

definition environment_name :: "deployment \<Rightarrow> string" where
  "environment_name d = (case d of Local_Environment \<Rightarrow> ''local'' | Self_Hosted \<Rightarrow> ''self_hosted'')"

definition encode_operation :: "string option \<times> string \<Rightarrow> json" where
  "encode_operation x = JObj [(''kind'', jopt JStr (fst x)), (''name'', JStr (snd x))]"

definition encode_source :: "string option \<times> string \<Rightarrow> json" where
  "encode_source x = JObj [(''adapterId'', jopt JStr (fst x)), (''type'', JStr (snd x))]"

definition encode_session :: "string option \<times> string option \<Rightarrow> json" where
  "encode_session x = JObj [(''runId'', jopt JStr (fst x)), (''sessionId'', jopt JStr (snd x))]"

abbreviation encode_name :: "string \<Rightarrow> string \<Rightarrow> json" where
  "encode_name k \<equiv> \<lambda>v. JObj [(k, JStr v)]"

definition decisionInputMaterial :: "canonical_request \<Rightarrow> json" where
  "decisionInputMaterial r = JObj
     [(''actor'', encode_sourced encode_actor (cr_actor r)), (''agent'', encode_sourced encode_agent (cr_agent r)),
      (''arguments'', encode_sourced id (cr_arguments r)), (''context'', JObj [(''policy'', encode_policy (cr_policy r))]),
      (''credentialReference'', encode_sourced JStr (cr_credentialReference r)),
      (''environment'', encode_sourced (JStr \<circ> environment_name) (cr_environment r)),
      (''executionMode'', encode_sourced (JStr \<circ> execution_mode_name) (cr_executionMode r)),
      (''operation'', encode_sourced encode_operation (cr_operation r)),
      (''resources'', encode_sourced JArr (cr_resources r)), (''source'', encode_sourced encode_source (cr_source r)),
      (''sourceProtocol'', encode_sourced JStr (cr_sourceProtocol r)),
      (''tenant'', encode_sourced (encode_name ''id'') (cr_tenant r)),
      (''tool'', encode_sourced (encode_name ''name'') (cr_tool r)),
      (''version'', JStr CANONICAL_ACTION_REQUEST_VERSION)]"

definition encode_request :: "canonical_request \<Rightarrow> json" where
  \<comment> \<open>\<open>base\<close>\<close>
  "encode_request r = JObj
     [(''actor'', encode_sourced encode_actor (cr_actor r)), (''agent'', encode_sourced encode_agent (cr_agent r)),
      (''arguments'', encode_sourced id (cr_arguments r)),
      (''context'', JObj [(''action'', encode_sourced id (cr_action r)), (''metadata'', encode_sourced id (cr_metadata r)),
         (''policy'', encode_policy (cr_policy r)), (''rationale'', encode_sourced JStr (cr_rationale r))]),
      (''credentialReference'', encode_sourced JStr (cr_credentialReference r)),
      (''environment'', encode_sourced (JStr \<circ> environment_name) (cr_environment r)),
      (''executionMode'', encode_sourced (JStr \<circ> execution_mode_name) (cr_executionMode r)),
      (''idempotencyKey'', encode_sourced JStr (cr_idempotencyKey r)),
      (''operation'', encode_sourced encode_operation (cr_operation r)),
      (''receivedAt'', encode_sourced JStr (cr_receivedAt r)), (''requestId'', encode_sourced JStr (cr_requestId r)),
      (''resources'', encode_sourced JArr (cr_resources r)), (''session'', encode_sourced encode_session (cr_session r)),
      (''source'', encode_sourced encode_source (cr_source r)),
      (''sourceProtocol'', encode_sourced JStr (cr_sourceProtocol r)),
      (''tenant'', encode_sourced (encode_name ''id'') (cr_tenant r)),
      (''tool'', encode_sourced (encode_name ''name'') (cr_tool r)),
      (''version'', JStr CANONICAL_ACTION_REQUEST_VERSION)]"

definition canonicalActionRequestEvidence :: "canonical_request \<Rightarrow> json" where
  "canonicalActionRequestEvidence r = JObj
     [(''actor'', encode_sourced encode_actor (cr_actor r)), (''agent'', encode_sourced encode_agent (cr_agent r)),
      (''environment'', encode_sourced (JStr \<circ> environment_name) (cr_environment r)),
      (''session'', encode_sourced encode_session (cr_session r)), (''source'', encode_sourced encode_source (cr_source r)),
      (''sourceProtocol'', encode_sourced JStr (cr_sourceProtocol r)),
      (''tenant'', encode_sourced (encode_name ''id'') (cr_tenant r)),
      (''version'', JStr CANONICAL_ACTION_REQUEST_VERSION)]"

definition sourced_json :: "json sourced_field \<Rightarrow> json" where
  \<comment> \<open>the member \<open>value\<close>\<close>
  "sourced_json x = (case sf_value x of None \<Rightarrow> JUndef | Some v \<Rightarrow> v)"

definition normalizeActionRequest ::
  "env \<Rightarrow> normalize_input \<Rightarrow> normalize_error + (canonical_request \<times> request_integrity)" where
  "normalizeActionRequest E i =
     (if (case ni_auth i of None \<Rightarrow> False | Some a \<Rightarrow> au_workspaceId a \<noteq> ni_workspaceId i) then Inl TenantMismatch
      else
        let base = canonical_base i;
            checked = [sourced_json (cr_arguments base), sourced_json (cr_action base), sourced_json (cr_metadata base)]
              @ (if sf_present (cr_resources base) then [JArr (coalesce (sf_value (cr_resources base)) [])] else [])
        in case sequence_results (map canonicalJsonStringify checked) of
             Inl e \<Rightarrow> Inl (NotCanonical e)
           | Inr _ \<Rightarrow>
               (case (hashCanonicalJson E (decisionInputMaterial base), hashCanonicalJson E (encode_request base)) of
                  (Inl e, _) \<Rightarrow> Inl (NotCanonical e)
                | (Inr d, Inl e) \<Rightarrow> Inl (NotCanonical e)
                | (Inr d, Inr h) \<Rightarrow> Inr (base, \<lparr>in_decisionInputHash = d, in_requestHash = h\<rparr>)))"

end
