(* ===== verification/ActionRequestFacts.thy ===== *)
theory ActionRequestFacts
  imports ActionRequest
begin

text \<open>
  What normalization promises: the two digests determine the request as far as they cover it, no value of the request
  body is ever marked trusted, and the only failures are a workspace of somebody else and values that are not JSON.
\<close>

section \<open>Encodings that lose nothing\<close>

definition faithful :: "('a \<Rightarrow> json) \<Rightarrow> bool" where
  "faithful f \<longleftrightarrow> (\<forall>a b. canon (f a) = canon (f b) \<longleftrightarrow> a = b) \<and> (\<forall>a. f a \<noteq> JUndef \<and> plain (f a))"

lemma faithfulI:
  "(\<And>a b. canon (f a) = canon (f b) \<Longrightarrow> a = b) \<Longrightarrow> (\<And>a. f a \<noteq> JUndef) \<Longrightarrow> (\<And>a. plain (f a)) \<Longrightarrow> faithful f"
  unfolding faithful_def by blast

lemma trust_name_inj [simp]: "trust_name t = trust_name u \<longleftrightarrow> t = u"
  by (cases t; cases u) (simp_all add: trust_name_def)

lemma environment_name_inj [simp]: "environment_name d = environment_name e \<longleftrightarrow> d = e"
  by (cases d; cases e) (simp_all add: environment_name_def)

lemma request_mode_inj [simp]: "execution_mode_name m = execution_mode_name m' \<longleftrightarrow> m = m'"
  by (cases m; cases m') (simp_all add: execution_mode_name_def)

lemma jopt_more [simp]: "jopt JStr x = JUndef \<or> plain (jopt JStr x)"
  by (cases x) simp_all

named_theorems faithful_encodings

lemma faithful_strings [faithful_encodings]:
  "faithful JStr" "faithful JBool" "faithful (JStr \<circ> environment_name)" "faithful (JStr \<circ> execution_mode_name)"
  by (auto simp: faithful_def)

lemma faithful_name [faithful_encodings]: "faithful (encode_name k)"
  by (rule faithfulI) (simp_all add: canon_obj_iff)

lemma faithful_actor [faithful_encodings]: "faithful encode_actor"
proof (rule faithfulI)
  fix a b assume "canon (encode_actor a) = canon (encode_actor b)"
  then show "a = b" by (intro action_actor.equality) (simp_all add: encode_actor_def canon_obj_iff)
qed (simp_all add: encode_actor_def)

lemma faithful_agent [faithful_encodings]: "faithful encode_agent"
proof (rule faithfulI)
  fix a b assume "canon (encode_agent a) = canon (encode_agent b)"
  then show "a = b" by (intro action_agent.equality) (simp_all add: encode_agent_def canon_obj_iff)
qed (simp_all add: encode_agent_def)

lemma faithful_pairs [faithful_encodings]: "faithful encode_operation" "faithful encode_source" "faithful encode_session"
  by (rule faithfulI; simp add: encode_operation_def encode_source_def encode_session_def canon_obj_iff prod_eq_iff)+

lemma encode_sourced_iff:
  "canon (encode_sourced f x) = canon (encode_sourced g y) \<longleftrightarrow>
     sf_present x = sf_present y \<and> sf_provenance x = sf_provenance y
     \<and> canon (jopt f (sf_value x)) = canon (jopt g (sf_value y))"
  by (auto simp: encode_sourced_def canon_obj_iff intro: field_provenance.equality)

lemma faithful_value:
  "faithful f \<Longrightarrow> canon (jopt f x) = canon (jopt f y) \<longleftrightarrow> x = y"
  by (cases x; cases y) (auto simp: faithful_def dest: sym)

lemma encode_faithful:
  "faithful f \<Longrightarrow> canon (encode_sourced f x) = canon (encode_sourced f y) \<longleftrightarrow> x = y"
  by (auto simp: encode_sourced_iff faithful_value intro: sourced_field.equality)

lemma encode_sourced_defined [simp]: "encode_sourced f x \<noteq> JUndef"
  by (simp add: encode_sourced_def)

lemma plain_sourced:
  "plain (encode_sourced f x) \<longleftrightarrow> (\<forall>v. sf_value x = Some v \<longrightarrow> f v = JUndef \<or> plain (f v))"
  by (cases "sf_value x") (auto simp: encode_sourced_def)

lemma plain_faithful: "faithful f \<Longrightarrow> plain (encode_sourced f x)"
  by (auto simp: plain_sourced faithful_def)

lemma number_field:
  "canon (encode_sourced JNum x) = canon (encode_sourced JNum y) \<longleftrightarrow> x = y"
proof -
  have "canon (jopt JNum u) = canon (jopt JNum v) \<longleftrightarrow> u = v" for u v by (cases u; cases v) auto
  then show ?thesis by (auto simp: encode_sourced_iff intro: sourced_field.equality)
qed

lemma policy_iff: "canon (encode_policy p) = canon (encode_policy q) \<longleftrightarrow> p = q"
  by (auto simp: encode_policy_def canon_obj_iff number_field encode_faithful faithful_strings simp del: arrange.simps
      intro: canonical_policy.equality)

lemma plain_policy:
  "plain (encode_policy p) \<longleftrightarrow> (\<forall>n. sf_value (cp_amount p) = Some n \<longrightarrow> plain_number n)"
  by (auto simp: encode_policy_def plain_faithful faithful_strings plain_sourced)

section \<open>What the digests cover\<close>

definition same_json_field :: "('a \<Rightarrow> json) \<Rightarrow> 'a sourced_field \<Rightarrow> 'a sourced_field \<Rightarrow> bool" where
  \<comment> \<open>the same field, up to the order of members in its value\<close>
  "same_json_field f x y \<longleftrightarrow> sf_present x = sf_present y \<and> sf_provenance x = sf_provenance y
     \<and> canon (jopt f (sf_value x)) = canon (jopt f (sf_value y))"

definition same_decision_input :: "canonical_request \<Rightarrow> canonical_request \<Rightarrow> bool" where
  "same_decision_input r q \<longleftrightarrow>
     cr_actor r = cr_actor q \<and> cr_agent r = cr_agent q \<and> same_json_field id (cr_arguments r) (cr_arguments q)
     \<and> cr_policy r = cr_policy q \<and> cr_credentialReference r = cr_credentialReference q
     \<and> cr_environment r = cr_environment q \<and> cr_executionMode r = cr_executionMode q
     \<and> cr_operation r = cr_operation q \<and> same_json_field JArr (cr_resources r) (cr_resources q)
     \<and> cr_source r = cr_source q \<and> cr_sourceProtocol r = cr_sourceProtocol q
     \<and> cr_tenant r = cr_tenant q \<and> cr_tool r = cr_tool q"

definition same_request :: "canonical_request \<Rightarrow> canonical_request \<Rightarrow> bool" where
  "same_request r q \<longleftrightarrow> same_decision_input r q
     \<and> same_json_field id (cr_action r) (cr_action q) \<and> same_json_field id (cr_metadata r) (cr_metadata q)
     \<and> cr_rationale r = cr_rationale q \<and> cr_idempotencyKey r = cr_idempotencyKey q
     \<and> cr_receivedAt r = cr_receivedAt q \<and> cr_requestId r = cr_requestId q \<and> cr_session r = cr_session q"

lemma decision_material_iff:
  "canon (decisionInputMaterial r) = canon (decisionInputMaterial q) \<longleftrightarrow> same_decision_input r q"
proof -
  have "canon (JObj [(''policy'', encode_policy p)]) = canon (JObj [(''policy'', encode_policy p')]) \<longleftrightarrow> p = p'" for p p'
    by (simp add: canon_obj_iff policy_iff del: arrange.simps)
  then show ?thesis
    unfolding decisionInputMaterial_def same_decision_input_def same_json_field_def
    by (simp add: canon_obj_iff encode_faithful faithful_encodings encode_sourced_iff [of id _ id]
        encode_sourced_iff [of JArr _ JArr] del: arrange.simps)
qed

lemma request_iff: "canon (encode_request r) = canon (encode_request q) \<longleftrightarrow> same_request r q"
  unfolding encode_request_def same_request_def same_decision_input_def same_json_field_def
  by (simp add: canon_obj_iff encode_faithful faithful_encodings policy_iff encode_sourced_iff [of id _ id]
      encode_sourced_iff [of JArr _ JArr] del: arrange.simps) blast

definition plain_request :: "normalize_input \<Rightarrow> bool" where
  \<comment> \<open>what the caller hands over is JSON, as a parsed body is\<close>
  "plain_request i \<longleftrightarrow> plain (sr_input (ni_request i)) \<and> plain (request_metadata (ni_request i))
     \<and> plain (sourced_json (cr_action (canonical_base i)))
     \<and> list_all plain (coalesce (sf_value (cr_resources (canonical_base i))) [])"

lemma plain_member: "plain v \<Longrightarrow> jget v k = JNum n \<Longrightarrow> plain_number n"
  by (cases v) (auto simp: jget_def list_all_iff split: option.splits dest!: map_of_SomeD)

lemma plain_amount:
  "plain (sr_input (ni_request i)) \<Longrightarrow> sf_value (cp_amount (cr_policy (canonical_base i))) = Some n \<Longrightarrow> plain_number n"
  by (auto simp: canonical_base_def Let_def policy_fields_def deriveCanonicalPolicyContext_def or_absent_def sourced_def
      absent_def or_else_def finiteNumber_def split: option.splits json.splits if_splits intro: plain_member)


lemma canonical_base_values:
  "sf_value (cr_arguments (canonical_base i)) = Some (sr_input (ni_request i))"
  "sf_value (cr_metadata (canonical_base i)) = Some (request_metadata (ni_request i))"
  "\<exists>v. sf_value (cr_action (canonical_base i)) = Some v"
  "sf_present (cr_resources (canonical_base i)) \<longleftrightarrow> sf_value (cr_resources (canonical_base i)) \<noteq> None"
  by (simp_all add: canonical_base_def Let_def sourced_def absent_def split: option.split prod.split)

lemma plain_materials:
  assumes "plain_request i"
  shows "plain (decisionInputMaterial (canonical_base i))" "plain (encode_request (canonical_base i))"
proof -
  let ?r = "canonical_base i"
  obtain a where a: "sf_value (cr_action ?r) = Some a" using canonical_base_values(3) by blast
  have "plain (sr_input (ni_request i))" using assms by (simp add: plain_request_def)
  then have policy: "plain (encode_policy (cr_policy ?r))"
    using plain_amount by (simp add: plain_policy)
  have json: "plain (encode_sourced id (cr_arguments ?r))" "plain (encode_sourced id (cr_metadata ?r))"
    "plain (encode_sourced id (cr_action ?r))"
    using assms by (simp_all add: plain_sourced canonical_base_values plain_request_def sourced_json_def a)
  have resources: "plain (encode_sourced JArr (cr_resources ?r))"
    using assms by (auto simp: plain_sourced plain_request_def coalesce_def)
  show "plain (decisionInputMaterial ?r)" "plain (encode_request ?r)"
    using policy json resources
    by (simp_all add: decisionInputMaterial_def encode_request_def plain_faithful faithful_encodings)
qed

lemma sequence_results_Inl: "(\<exists>e. sequence_results rs = Inl e) \<longleftrightarrow> (\<exists>r \<in> set rs. \<exists>e. r = Inl e)"
  by (induction rs) (auto split: sum.splits)

lemma canonical_text_iff: "(\<exists>s. canonicalJsonStringify v = Inr s) \<longleftrightarrow> clean v"
  using canonicalJsonStringify_clean serialize_cleanD by (auto simp: canonicalJsonStringify_def)

lemma normalize_Inr:
  assumes "normalizeActionRequest E i = Inr (r, h)"
  shows "r = canonical_base i"
    "hashCanonicalJson E (decisionInputMaterial r) = Inr (in_decisionInputHash h)"
    "hashCanonicalJson E (encode_request r) = Inr (in_requestHash h)"
  using assms by (auto simp: normalizeActionRequest_def Let_def split: if_splits sum.splits)

lemma digest_iff:
  assumes "plain v" "plain w" "hashCanonicalJson E v = Inr s" "hashCanonicalJson E w = Inr t"
    and "inj_on (sha256Hex E) {print_json (canon v), print_json (canon w)}"
  shows "s = t \<longleftrightarrow> canon v = canon w"
proof
  assume "s = t"
  then show "canon v = canon w" using hashCanonicalJson_equal_canon assms by metis
next
  assume "canon v = canon w"
  then show "s = t" using assms(1-4) by (simp add: hashCanonicalJson_plain)
qed

section \<open>Failures\<close>

definition asserted_json :: "canonical_request \<Rightarrow> json list" where
  \<comment> \<open>the values of the body that are hashed as they are\<close>
  "asserted_json r = [sourced_json (cr_arguments r), sourced_json (cr_action r), sourced_json (cr_metadata r),
     JArr (coalesce (sf_value (cr_resources r)) [])]"

lemma clean_sourced:
  "clean (encode_sourced f x) \<longleftrightarrow> (\<forall>v. sf_value x = Some v \<longrightarrow> f v = JUndef \<or> clean (f v))"
  by (cases "sf_value x") (auto simp: encode_sourced_def)

lemma clean_faithful: "faithful f \<Longrightarrow> clean (encode_sourced f x)"
  using plain_faithful plain_clean by blast

lemma clean_policy: "clean (encode_policy (cr_policy (canonical_base i)))"
proof -
  have "num_isFinite n" if "sf_value (cp_amount (cr_policy (canonical_base i))) = Some n" for n
    using that by (auto simp: canonical_base_def Let_def policy_fields_def deriveCanonicalPolicyContext_def or_absent_def
        sourced_def absent_def or_else_def finiteNumber_def split: option.splits json.splits if_splits)
  then show ?thesis
    by (simp add: encode_policy_def clean_faithful faithful_strings clean_sourced)
qed

lemma clean_materials:
  assumes "list_all clean (asserted_json (canonical_base i))"
  shows "clean (decisionInputMaterial (canonical_base i))" "clean (encode_request (canonical_base i))"
proof -
  let ?r = "canonical_base i"
  obtain a where a: "sf_value (cr_action ?r) = Some a" using canonical_base_values(3) by blast
  have json: "clean (encode_sourced id (cr_arguments ?r))" "clean (encode_sourced id (cr_metadata ?r))"
    "clean (encode_sourced id (cr_action ?r))" "clean (encode_sourced JArr (cr_resources ?r))"
    using assms by (auto simp: clean_sourced canonical_base_values asserted_json_def sourced_json_def a coalesce_def)
  show "clean (decisionInputMaterial ?r)" "clean (encode_request ?r)"
    using clean_policy json by (simp_all add: decisionInputMaterial_def encode_request_def clean_faithful faithful_encodings)
qed

lemma hash_clean: "clean v \<Longrightarrow> \<exists>h. hashCanonicalJson E v = Inr h"
  using canonical_text_iff by (auto simp: hashCanonicalJson_Inr)

definition foreign_workspace :: "normalize_input \<Rightarrow> bool" where
  "foreign_workspace i = (case ni_auth i of None \<Rightarrow> False | Some a \<Rightarrow> au_workspaceId a \<noteq> ni_workspaceId i)"

lemma checked_values:
  "(\<exists>e. sequence_results (map canonicalJsonStringify
        ([sourced_json (cr_arguments r), sourced_json (cr_action r), sourced_json (cr_metadata r)]
          @ (if sf_present (cr_resources r) then [JArr (coalesce (sf_value (cr_resources r)) [])] else []))) = Inl e)
     \<longleftrightarrow> \<not> list_all clean (asserted_json r)" if "sf_present (cr_resources r) \<longleftrightarrow> sf_value (cr_resources r) \<noteq> None"
proof -
  have "(\<exists>e. canonicalJsonStringify v = Inl e) \<longleftrightarrow> \<not> clean v" for v
    using canonical_text_iff [of v] by (cases "canonicalJsonStringify v") auto
  with that show ?thesis
    by (cases "sf_present (cr_resources r)")
      (auto simp: sequence_results_Inl asserted_json_def coalesce_def simp del: sequence_results.simps)
qed

lemma normalize_succeeds:
  assumes "\<not> foreign_workspace i" "list_all clean (asserted_json (canonical_base i))"
  shows "\<exists>h. normalizeActionRequest E i = Inr (canonical_base i, h)"
proof -
  obtain d h where "hashCanonicalJson E (decisionInputMaterial (canonical_base i)) = Inr d"
      "hashCanonicalJson E (encode_request (canonical_base i)) = Inr h"
    using clean_materials [OF assms(2)] hash_clean by meson
  with assms show ?thesis
    using checked_values [OF canonical_base_values(4) [of i]]
    by (auto simp: normalizeActionRequest_def Let_def foreign_workspace_def split: option.splits sum.splits)
qed

text \<open>C25: normalization rejects a request in two cases only: the authenticated principal belongs to another workspace, or
  something the body asserts (the arguments, the action context, the metadata, the resources) is not JSON: it holds an
  \<open>undefined\<close> item or a number that is not finite. No field the server fills in can make it fail.\<close>

theorem normalization_fails_exactly:
  "(normalizeActionRequest E i = Inl TenantMismatch \<longleftrightarrow> foreign_workspace i)
   \<and> ((\<exists>e. normalizeActionRequest E i = Inl (NotCanonical e))
        \<longleftrightarrow> \<not> foreign_workspace i \<and> \<not> list_all clean (asserted_json (canonical_base i)))"
proof (cases "list_all clean (asserted_json (canonical_base i))")
  case True
  then have "\<exists>h. normalizeActionRequest E i = Inr (canonical_base i, h)" if "\<not> foreign_workspace i"
    using normalize_succeeds that by blast
  with True show ?thesis
    by (cases "foreign_workspace i") (auto simp: normalizeActionRequest_def foreign_workspace_def split: option.splits)
next
  case False
  then obtain e where "sequence_results (map canonicalJsonStringify
        ([sourced_json (cr_arguments (canonical_base i)), sourced_json (cr_action (canonical_base i)),
          sourced_json (cr_metadata (canonical_base i))]
          @ (if sf_present (cr_resources (canonical_base i))
             then [JArr (coalesce (sf_value (cr_resources (canonical_base i))) [])] else []))) = Inl e"
    using checked_values [OF canonical_base_values(4) [of i]] by blast
  with False show ?thesis
    by (auto simp: normalizeActionRequest_def Let_def foreign_workspace_def split: option.splits)
qed

section \<open>Trust\<close>

definition erase :: "('a \<Rightarrow> json) \<Rightarrow> 'a sourced_field \<Rightarrow> json" where
  \<comment> \<open>a field if it is marked trusted or externally verified, and nothing otherwise\<close>
  "erase f x = (if pv_trust (sf_provenance x) \<in> {ExternallyVerified, Trusted} then encode_sourced f x else JUndef)"

definition trusted_view :: "canonical_request \<Rightarrow> json list" where
  "trusted_view r =
     [erase encode_actor (cr_actor r), erase encode_agent (cr_agent r), erase id (cr_arguments r), erase id (cr_action r),
      erase id (cr_metadata r), erase JNum (cp_amount (cr_policy r)), erase JStr (cp_approverGroup (cr_policy r)),
      erase JStr (cp_currency (cr_policy r)), erase JBool (cp_customerVisible (cr_policy r)),
      erase JStr (cp_operationKind (cr_policy r)), erase JStr (cp_recipientDomain (cr_policy r)),
      erase JStr (cp_risk (cr_policy r)), erase JStr (cr_rationale r), erase JStr (cr_credentialReference r),
      erase (JStr \<circ> environment_name) (cr_environment r), erase (JStr \<circ> execution_mode_name) (cr_executionMode r),
      erase JStr (cr_idempotencyKey r), erase encode_operation (cr_operation r), erase JStr (cr_receivedAt r),
      erase JStr (cr_requestId r), erase JArr (cr_resources r), erase encode_session (cr_session r),
      erase encode_source (cr_source r), erase JStr (cr_sourceProtocol r), erase (encode_name ''id'') (cr_tenant r),
      erase (encode_name ''name'') (cr_tool r)]"

lemma erase_cases [simp]:
  "erase f (sourced v t s) = (if t \<in> {ExternallyVerified, Trusted} then encode_sourced f (sourced v t s) else JUndef)"
  "erase f (absent t s) = (if t \<in> {ExternallyVerified, Trusted} then encode_sourced f (absent t s) else JUndef)"
  "erase f (or_absent x t s) = (if t \<in> {ExternallyVerified, Trusted} then encode_sourced f (or_absent x t s) else JUndef)"
  by (auto simp: erase_def sourced_def absent_def or_absent_def split: option.split)

lemma erase_asserted:
  "erase encode_agent (agent_field g q) = erase encode_agent (agent_field g q')"
  "erase encode_actor (actorField q auth) = erase encode_actor (actorField q' auth)"
  "erase encode_session (sessionField m) = JUndef"
  by (simp_all add: agent_field_def actorField_def sessionField_def Let_def split: ingress.split option.split)

lemma erase_base:
  fixes i q defines "j \<equiv> i\<lparr>ni_request := q\<rparr>"
  shows "erase encode_actor (cr_actor (canonical_base j)) = erase encode_actor (cr_actor (canonical_base i))"
    "erase encode_agent (cr_agent (canonical_base j)) = erase encode_agent (cr_agent (canonical_base i))"
    "erase id (cr_arguments (canonical_base j)) = JUndef" "erase id (cr_arguments (canonical_base i)) = JUndef"
    "erase id (cr_action (canonical_base j)) = JUndef" "erase id (cr_action (canonical_base i)) = JUndef"
    "erase id (cr_metadata (canonical_base j)) = JUndef" "erase id (cr_metadata (canonical_base i)) = JUndef"
    "erase JStr (cr_rationale (canonical_base j)) = JUndef" "erase JStr (cr_rationale (canonical_base i)) = JUndef"
    "erase (encode_name ''name'') (cr_tool (canonical_base j)) = JUndef"
    "erase (encode_name ''name'') (cr_tool (canonical_base i)) = JUndef"
    "cr_credentialReference (canonical_base j) = cr_credentialReference (canonical_base i)"
    "cr_environment (canonical_base j) = cr_environment (canonical_base i)"
    "erase (JStr \<circ> execution_mode_name) (cr_executionMode (canonical_base j))
       = erase (JStr \<circ> execution_mode_name) (cr_executionMode (canonical_base i))"
    "cr_idempotencyKey (canonical_base j) = cr_idempotencyKey (canonical_base i)"
    "erase encode_operation (cr_operation (canonical_base j)) = erase encode_operation (cr_operation (canonical_base i))"
    "cr_receivedAt (canonical_base j) = cr_receivedAt (canonical_base i)"
    "cr_requestId (canonical_base j) = cr_requestId (canonical_base i)"
    "erase JArr (cr_resources (canonical_base j)) = JUndef" "erase JArr (cr_resources (canonical_base i)) = JUndef"
    "erase encode_session (cr_session (canonical_base j)) = erase encode_session (cr_session (canonical_base i))"
    "cr_source (canonical_base j) = cr_source (canonical_base i)"
    "cr_sourceProtocol (canonical_base j) = cr_sourceProtocol (canonical_base i)"
    "cr_tenant (canonical_base j) = cr_tenant (canonical_base i)"
  unfolding j_def
  by (simp_all add: canonical_base_def Let_def erase_asserted split: option.split prod.split ingress.split)

lemma erase_policy:
  fixes i q defines "p \<equiv> policy_fields (i\<lparr>ni_request := q\<rparr>)"
  shows "erase JNum (cp_amount p) = JUndef" "erase JStr (cp_currency p) = JUndef" "erase JStr (cp_recipientDomain p) = JUndef"
    "erase JNum (cp_amount (policy_fields i)) = JUndef" "erase JStr (cp_currency (policy_fields i)) = JUndef"
    "erase JStr (cp_recipientDomain (policy_fields i)) = JUndef"
    "cp_approverGroup p = cp_approverGroup (policy_fields i)" "cp_customerVisible p = cp_customerVisible (policy_fields i)"
    "cp_operationKind p = cp_operationKind (policy_fields i)" "cp_risk p = cp_risk (policy_fields i)"
  unfolding p_def
  by (simp_all add: policy_fields_def deriveCanonicalPolicyContext_def Let_def split: option.split)

lemma trusted_view_base: "trusted_view (canonical_base (i\<lparr>ni_request := q\<rparr>)) = trusted_view (canonical_base i)"
proof -
  have "cr_policy (canonical_base i) = policy_fields i" for i by (simp add: canonical_base_def Let_def)
  then show ?thesis by (simp add: trusted_view_def erase_base erase_policy)
qed

text \<open>C24: a client cannot raise the trust of what it sends: whatever two request bodies the same caller submits over the same
  connection, the two canonical requests agree on every field that is marked trusted or externally verified, in its value
  as well as its mark. So no such field, the risk, the customer visibility, the approver group, the workspace and the
  credential among them, takes its value from the body.\<close>

theorem trusted_fields_ignore_body:
  assumes "normalizeActionRequest E i = Inr (r, h)"
    and "normalizeActionRequest E (i\<lparr>ni_request := q\<rparr>) = Inr (r', h')"
  shows "trusted_view r = trusted_view r'"
  using normalize_Inr(1) [OF assms(1)] normalize_Inr(1) [OF assms(2)] trusted_view_base by simp

section \<open>An instance\<close>

definition sample_request :: "json \<Rightarrow> string \<Rightarrow> submit_request" where
  "sample_request input reason = \<lparr>sr_toolName = ''payments.refund'', sr_input = input, sr_requestedBy = ''bob'',
     sr_agentId = ''agent'', sr_reason = reason, sr_action = None, sr_metadata = JUndef\<rparr>"

definition sample_input :: "submit_request \<Rightarrow> normalize_input" where
  "sample_input q = \<lparr>ni_auth = Some \<lparr>au_principalId = ''alice'', au_principalType = ''user'', au_displayName = ''Alice'',
       au_email = None, au_groups = [''ops''], au_scopes = [], au_authProvider = ''oauth'', au_clientId = None,
       au_workspaceId = ''acme''\<rparr>,
     ni_idempotencyKey = None, ni_ingress = HttpIngress Self_Hosted, ni_receivedAt = ''now'', ni_request = q,
     ni_requestId = ''r1'', ni_trustedCredentialReference = None, ni_trustedExecutionMode = None,
     ni_trustedOperation = None, ni_trustedPolicy = None, ni_trustedResources = None, ni_workspaceId = ''acme''\<rparr>"

definition first_refund :: normalize_input where
  "first_refund = sample_input (sample_request (JObj [(''amount'', JNum (Dec 25 1)), (''to'', JStr ''a@b.c'')]) ''late'')"

definition second_refund :: normalize_input where
  \<comment> \<open>the same refund, its members in another order, for another reason\<close>
  "second_refund = sample_input (sample_request (JObj [(''to'', JStr ''a@b.c''), (''amount'', JNum (Dec 25 1))]) ''damaged'')"

lemma sample_refunds:
  "\<not> foreign_workspace first_refund" "list_all clean (asserted_json (canonical_base first_refund))"
  "\<not> foreign_workspace second_refund" "list_all clean (asserted_json (canonical_base second_refund))"
  "plain_request first_refund" "plain_request second_refund"
  "same_decision_input (canonical_base first_refund) (canonical_base second_refund)"
  "\<not> same_request (canonical_base first_refund) (canonical_base second_refund)"
  by code_simp+

text \<open>C23: the digests of a request mean what they cover: two normalized requests have the same decision input hash exactly
  when everything the decision depends on is the same (actor, agent, arguments and resources up to member order, policy
  context, mode, operation, source, workspace and tool, each with its provenance), whatever their rationale, metadata,
  request id, time and idempotency key; and the same request hash exactly when these are the same as well. Only a
  collision of the digest can make it differ.\<close>

theorem request_digests_commit:
  assumes "normalizeActionRequest E i = Inr (r, h)" and "normalizeActionRequest E i' = Inr (r', h')"
    and "plain_request i" and "plain_request i'"
    and "inj_on (sha256Hex E) {print_json (canon (decisionInputMaterial r)), print_json (canon (decisionInputMaterial r'))}"
    and "inj_on (sha256Hex E) {print_json (canon (encode_request r)), print_json (canon (encode_request r'))}"
  shows "(in_decisionInputHash h = in_decisionInputHash h' \<longleftrightarrow> same_decision_input r r')
    \<and> (in_requestHash h = in_requestHash h' \<longleftrightarrow> same_request r r')"
proof -
  note n = normalize_Inr [OF assms(1)] and n' = normalize_Inr [OF assms(2)]
  have p: "plain (decisionInputMaterial r)" "plain (encode_request r)" "plain (decisionInputMaterial r')" "plain (encode_request r')"
    using plain_materials [OF assms(3)] plain_materials [OF assms(4)] n(1) n'(1) by simp_all
  show ?thesis
    using digest_iff [OF p(1,3) n(2) n'(2) assms(5)] digest_iff [OF p(2,4) n(3) n'(3) assms(6)]
    by (simp only: decision_material_iff request_iff)
qed

theorem request_digests_commit_witness:
  "\<exists>h h'. normalizeActionRequest text_env first_refund = Inr (canonical_base first_refund, h)
     \<and> normalizeActionRequest text_env second_refund = Inr (canonical_base second_refund, h')
     \<and> in_decisionInputHash h = in_decisionInputHash h' \<and> in_requestHash h \<noteq> in_requestHash h'"
proof -
  obtain h h' where n: "normalizeActionRequest text_env first_refund = Inr (canonical_base first_refund, h)"
      "normalizeActionRequest text_env second_refund = Inr (canonical_base second_refund, h')"
    using normalize_succeeds sample_refunds(1-4) by meson
  have "inj_on (sha256Hex text_env) S" for S by (simp add: text_env_def)
  from request_digests_commit [OF n sample_refunds(5,6) this this] n sample_refunds(7,8) show ?thesis by blast
qed

theorem trusted_fields_ignore_body_witness:
  "trusted_view (canonical_base first_refund) = trusted_view (canonical_base second_refund)"
proof -
  let ?q = "ni_request second_refund"
  have same: "first_refund\<lparr>ni_request := ?q\<rparr> = second_refund"
    by (simp add: first_refund_def second_refund_def sample_input_def)
  obtain h h' where "normalizeActionRequest text_env first_refund = Inr (canonical_base first_refund, h)"
      "normalizeActionRequest text_env second_refund = Inr (canonical_base second_refund, h')"
    using normalize_succeeds sample_refunds(1-4) by meson
  then show ?thesis using trusted_fields_ignore_body [of text_env first_refund _ h ?q _ h'] unfolding same by blast
qed

end
