(* ===== verification/PolicyFacts.thy ===== *)
theory PolicyFacts
  imports Policy
begin

text \<open>
  Correctness of the policy engine: the evaluation selects the first applicable rule of an explicit
  candidate list, its trace names exactly that rule, and conditions fail closed.
\<close>

section \<open>Reference selection\<close>

definition conditionsHold :: "policy_rule \<Rightarrow> string \<Rightarrow> policy_context \<Rightarrow> bool" where
  "conditionsHold rule toolName cx = list_all ce_matched (evaluateConditions (pr_conditions rule) toolName cx)"

definition wildcardMatches :: "string \<Rightarrow> string \<Rightarrow> bool" where
  "wildcardMatches pattern toolName = (endsWith pattern ''.*'' \<and> startsWith toolName (butlast pattern))"

definition ruleCandidates :: "policy_file \<Rightarrow> string \<Rightarrow> (string \<times> policy_rule) list" where
  \<comment> \<open>the exact rule, then the matching wildcard rules in file order\<close>
  "ruleCandidates policy toolName =
     (case findExactRule policy toolName of None \<Rightarrow> [] | Some pr \<Rightarrow> [pr]) @
     filter (\<lambda>(pattern, _). wildcardMatches pattern toolName) (pf_tools policy)"

definition selectRule :: "policy_file \<Rightarrow> string \<Rightarrow> policy_context \<Rightarrow> string \<times> policy_rule" where
  "selectRule policy toolName cx =
     (case List.find (\<lambda>(_, rule). conditionsHold rule toolName cx) (ruleCandidates policy toolName) of
        Some pr \<Rightarrow> pr | None \<Rightarrow> (''default'', pf_default policy))"

definition known_condition_keys :: "string list" where
  "known_condition_keys = [''actionId'', ''approverGroup'', ''amount'', ''amountThreshold'', ''currency'',
     ''customerVisible'', ''operation'', ''operationKind'', ''recipientDomain'', ''risk'', ''riskKind'']"

lemma findWildcardRule_find:
  "snd (findWildcardRule es toolName cx)
    = List.find (\<lambda>(_, rule). conditionsHold rule toolName cx)
        (filter (\<lambda>(pattern, _). wildcardMatches pattern toolName) es)"
  by (induction es toolName cx rule: findWildcardRule.induct)
     (auto simp: wildcardMatches_def conditionsHold_def Let_def split: prod.splits)

abbreviation rejected :: "rule_evaluation list \<Rightarrow> bool" where
  "rejected \<equiv> list_all (\<lambda>e. \<not> re_conditionsMatched e \<and> \<not> re_selected e)"

definition wildcard_evaluation :: "string \<Rightarrow> policy_rule \<Rightarrow> string \<Rightarrow> policy_context \<Rightarrow> rule_evaluation" where
  "wildcard_evaluation pattern rule toolName cx =
     \<lparr>re_conditions = evaluateConditions (pr_conditions rule) toolName cx,
      re_conditionsMatched = conditionsHold rule toolName cx, re_exists = True,
      re_matchType = MatchWildcard, re_pattern = pattern, re_prefixMatched = Some True,
      re_selected = False\<rparr>"

lemma wildcard_evaluation_fields [simp]:
  "re_conditionsMatched (wildcard_evaluation p r tn cx) = conditionsHold r tn cx"
  "re_pattern (wildcard_evaluation p r tn cx) = p"
  "re_selected (wildcard_evaluation p r tn cx) = False"
  by (simp_all add: wildcard_evaluation_def)

lemma findWildcardRule_skip:
  "\<not> wildcardMatches pattern toolName
    \<Longrightarrow> findWildcardRule ((pattern, rule) # es) toolName cx = findWildcardRule es toolName cx"
  by (auto simp: wildcardMatches_def)

lemma findWildcardRule_hit:
  "wildcardMatches pattern toolName \<Longrightarrow> conditionsHold rule toolName cx
    \<Longrightarrow> findWildcardRule ((pattern, rule) # es) toolName cx
         = ([wildcard_evaluation pattern rule toolName cx], Some (pattern, rule))"
  by (simp add: wildcardMatches_def wildcard_evaluation_def conditionsHold_def Let_def)

lemma findWildcardRule_miss:
  "wildcardMatches pattern toolName \<Longrightarrow> \<not> conditionsHold rule toolName cx
    \<Longrightarrow> findWildcardRule es toolName cx = (evs, found)
    \<Longrightarrow> findWildcardRule ((pattern, rule) # es) toolName cx
         = (wildcard_evaluation pattern rule toolName cx # evs, found)"
  by (simp add: wildcardMatches_def wildcard_evaluation_def conditionsHold_def Let_def)

declare findWildcardRule.simps(2) [simp del]

lemma findWildcardRule_found:
  "findWildcardRule es toolName cx = (evs, Some (p, r))
    \<Longrightarrow> \<exists>pre ev. evs = pre @ [ev] \<and> re_pattern ev = p \<and> re_conditionsMatched ev \<and> rejected pre"
proof (induction es arbitrary: evs)
  case (Cons e es)
  obtain pattern rule where e: "e = (pattern, rule)" by (cases e)
  obtain evs' found where rest: "findWildcardRule es toolName cx = (evs', found)" by fastforce
  consider "\<not> wildcardMatches pattern toolName"
    | "wildcardMatches pattern toolName" "conditionsHold rule toolName cx"
    | "wildcardMatches pattern toolName" "\<not> conditionsHold rule toolName cx" by blast
  then show ?case
  proof cases
    case 1
    with Cons e show ?thesis by (simp add: findWildcardRule_skip)
  next
    case 2
    with Cons.prems e show ?thesis
      by (auto simp: findWildcardRule_hit intro!: exI [of _ "[]"])
  next
    case 3
    with Cons.prems e rest have evs: "evs = wildcard_evaluation pattern rule toolName cx # evs'"
      and "found = Some (p, r)" by (simp_all add: findWildcardRule_miss)
    with Cons.IH rest obtain pre ev where "evs' = pre @ [ev]" "re_pattern ev = p"
        "re_conditionsMatched ev" "rejected pre" by blast
    with 3 evs show ?thesis
      by (intro exI [of _ "wildcard_evaluation pattern rule toolName cx # pre"] exI [of _ ev]) simp
  qed
qed simp

lemma findWildcardRule_none:
  "findWildcardRule es toolName cx = (evs, None) \<Longrightarrow> rejected evs"
proof (induction es arbitrary: evs)
  case (Cons e es)
  obtain pattern rule where e: "e = (pattern, rule)" by (cases e)
  obtain evs' found where rest: "findWildcardRule es toolName cx = (evs', found)" by fastforce
  consider "\<not> wildcardMatches pattern toolName"
    | "wildcardMatches pattern toolName" "conditionsHold rule toolName cx"
    | "wildcardMatches pattern toolName" "\<not> conditionsHold rule toolName cx" by blast
  then show ?case
  proof cases
    case 3
    with Cons rest e show ?thesis by (auto simp: findWildcardRule_miss)
  qed (use Cons e in \<open>simp_all add: findWildcardRule_skip findWildcardRule_hit\<close>)
qed simp

lemmas trace_simps =
  evaluatePolicyTrace_def fallbackTrace_def trace_of_def exact_evaluation_def Let_def

definition selects_last :: "evaluation_trace \<Rightarrow> bool" where
  "selects_last t =
     (\<exists>pre ev. et_ruleEvaluations t = pre @ [ev] \<and> re_selected ev \<and> re_conditionsMatched ev
        \<and> re_pattern ev = et_matchedRule t \<and> et_decision t = pe_decision (et_evaluation t)
        \<and> rejected pre)"

lemma matchedRule_toEvaluation [simp]: "pe_matchedRule (toEvaluation r p) = p"
  by (simp add: toEvaluation_def)

lemma selects_last_trace_of:
  assumes "rejected pre" "re_selected ev" "re_conditionsMatched ev" "re_pattern ev = p"
  shows "selects_last (trace_of (toEvaluation r p) path mt (pre @ [ev]))"
  unfolding selects_last_def
  by (intro exI [of _ pre] exI [of _ ev]) (use assms in \<open>simp add: trace_of_def\<close>)

lemma selects_last_fallback:
  assumes "rejected revs0"
  shows "selects_last (fallbackTrace policy toolName cx b revs0)"
proof (cases "findWildcardRule (pf_tools policy) toolName cx")
  case (Pair evs found)
  show ?thesis
  proof (cases found)
    case None
    with Pair have "rejected evs" by (auto dest: findWildcardRule_none)
    with assms have "rejected (revs0 @ evs)" by simp
    from selects_last_trace_of [OF this, of default_evaluation] None Pair show ?thesis
      by (simp add: fallbackTrace_def default_evaluation_def)
  next
    case (Some pr)
    obtain p r where pr: "pr = (p, r)" by (cases pr)
    with Some Pair obtain pre ev where evs: "evs = pre @ [ev]" "re_pattern ev = p"
        "re_conditionsMatched ev" "rejected pre"
      by (auto dest: findWildcardRule_found)
    with assms have "rejected (revs0 @ pre)" by simp
    from selects_last_trace_of [OF this, of "ev\<lparr>re_selected := True\<rparr>" p] evs Some Pair pr
    show ?thesis by (simp add: fallbackTrace_def mark_selected_def)
  qed
qed

lemma evaluatePolicy_selectRule:
  "evaluatePolicy policy toolName cx
    = (case selectRule policy toolName cx of (pattern, rule) \<Rightarrow> toEvaluation rule pattern)"
proof (cases "findExactRule policy toolName")
  case None
  then show ?thesis
    using findWildcardRule_find [of "pf_tools policy" toolName cx]
    by (auto simp: evaluatePolicy_def trace_simps selectRule_def ruleCandidates_def
        split: prod.splits option.splits)
next
  case (Some pr)
  then show ?thesis
    using findWildcardRule_find [of "pf_tools policy" toolName cx]
    by (auto simp: evaluatePolicy_def trace_simps selectRule_def ruleCandidates_def conditionsHold_def
        split: prod.splits option.splits)
qed

text \<open>The evaluation is the evaluation of the first rule, among the exact rule and then the
  matching wildcard rules in file order, whose conditions all hold; the default rule otherwise.\<close>

lemma evaluatePolicy_selects_first:
  "evaluatePolicy policy toolName cx
    = (case selectRule policy toolName cx of (pattern, rule) \<Rightarrow> toEvaluation rule pattern)"
  by (rule evaluatePolicy_selectRule)

text \<open>In every trace exactly the last rule evaluation is selected; its conditions matched, it is
  the matched rule, and every evaluation before it failed its conditions.\<close>

lemma evaluatePolicyTrace_selects_last:
  "\<exists>pre ev. et_ruleEvaluations (evaluatePolicyTrace policy toolName cx) = pre @ [ev]
     \<and> re_selected ev \<and> re_conditionsMatched ev
     \<and> re_pattern ev = et_matchedRule (evaluatePolicyTrace policy toolName cx)
     \<and> et_decision (evaluatePolicyTrace policy toolName cx)
         = pe_decision (et_evaluation (evaluatePolicyTrace policy toolName cx))
     \<and> list_all (\<lambda>e. \<not> re_conditionsMatched e \<and> \<not> re_selected e) pre"
proof -
  have "selects_last (evaluatePolicyTrace policy toolName cx)"
  proof (cases "findExactRule policy toolName")
    case None
    then show ?thesis by (simp add: evaluatePolicyTrace_def selects_last_fallback)
  next
    case (Some pr)
    obtain p r where pr: "pr = (p, r)" by (cases pr)
    let ?ev = "exact_evaluation p r toolName cx"
    have ev: "re_pattern ?ev = p" "\<not> re_selected ?ev" by (simp_all add: exact_evaluation_def Let_def)
    show ?thesis
      using Some pr ev selects_last_trace_of [of "[]" "?ev\<lparr>re_selected := True\<rparr>" p r]
      by (auto simp: evaluatePolicyTrace_def Let_def selects_last_fallback)
  qed
  then show ?thesis by (simp add: selects_last_def)
qed

section \<open>Conditions fail closed\<close>

lemma evaluateCondition_unknown:
  "key \<notin> set known_condition_keys \<Longrightarrow> evaluateCondition key expected toolName cx = (JUndef, False)"
  by (simp add: evaluateCondition_def known_condition_keys_def)

lemma conditionsHold_iff:
  "conditionsHold rule toolName cx \<longleftrightarrow>
     (\<forall>(key, expected) \<in> set (coalesce (pr_conditions rule) []).
        snd (evaluateCondition key expected toolName cx))"
  by (cases "pr_conditions rule")
     (simp_all add: conditionsHold_def evaluateConditions_def list_all_iff case_prod_unfold Let_def)

lemma selectRule_cases:
  "fst (selectRule policy toolName cx) = ''default'' \<or> conditionsHold (snd (selectRule policy toolName cx)) toolName cx"
  by (auto simp: selectRule_def find_Some_iff split: option.split)

lemma pe_rule_toEvaluation [simp]: "pe_rule (toEvaluation r p) = r"
  by (simp add: toEvaluation_def)

lemma pe_decision_toEvaluation: "pe_decision (toEvaluation r p) = Allow \<longleftrightarrow> pr_approval r = Never"
  by (simp add: toEvaluation_def)

text \<open>C16: a rule takes effect only when each of its conditions is a known one and holds: a matched rule
  other than the default carries no condition key the engine does not know, and no false condition.\<close>

theorem evaluatePolicy_conditions_fail_closed:
  assumes "pe_matchedRule (evaluatePolicy policy toolName cx) \<noteq> ''default''"
    and "pr_conditions (pe_rule (evaluatePolicy policy toolName cx)) = Some cs"
    and "(key, expected) \<in> set cs"
  shows "key \<in> set known_condition_keys \<and> snd (evaluateCondition key expected toolName cx)"
proof -
  obtain p r where pr: "selectRule policy toolName cx = (p, r)" by fastforce
  with assms(1,2) have "p \<noteq> ''default''" and cs: "pr_conditions r = Some cs"
    by (simp_all add: evaluatePolicy_selectRule)
  with pr have "conditionsHold r toolName cx"
    using selectRule_cases [of policy toolName cx] by simp
  with cs assms(3) have holds: "snd (evaluateCondition key expected toolName cx)"
    by (force simp: conditionsHold_iff)
  moreover from holds have "key \<in> set known_condition_keys"
    by (rule contrapos_pp) (simp add: evaluateCondition_unknown)
  ultimately show ?thesis by blast
qed

definition plain_rule :: "approval_mode \<Rightarrow> policy_rule" where
  "plain_rule mode = prototype_rule\<lparr>pr_approval := mode\<rparr>"

definition example_rule :: policy_rule where
  "example_rule = (plain_rule Required)\<lparr>pr_conditions := Some [(''operation'', JStr ''refund'')]\<rparr>"

definition example_policy :: policy_file where
  "example_policy = \<lparr>pf_version = Dec 1 0, pf_default = plain_rule Never,
     pf_tools = [(''payments.*'', example_rule)]\<rparr>"

definition example_context :: policy_context where
  "example_context = empty_context\<lparr>cx_operationKind := Some ''refund''\<rparr>"

theorem evaluatePolicy_conditions_fail_closed_witness:
  "''operation'' \<in> set known_condition_keys
     \<and> snd (evaluateCondition ''operation'' (JStr ''refund'') ''payments.refund'' example_context)"
  by (rule evaluatePolicy_conditions_fail_closed
        [of example_policy "''payments.refund''" example_context "[(''operation'', JStr ''refund'')]"])
     code_simp+

section \<open>Two surprises\<close>

text \<open>
  A tool named after a member of \<open>Object.prototype\<close> is denied whatever the policy file says of its
  default and its wildcards, unless the file has a rule of exactly that name.
\<close>

lemma prototype_member_denied:
  assumes "toolName \<in> set object_prototype_members" and "map_of (pf_tools policy) toolName = None"
  shows "pe_decision (evaluatePolicy policy toolName cx) = Deny"
proof -
  have "conditionsHold prototype_rule toolName cx"
    by (simp add: conditionsHold_iff prototype_rule_def)
  with assms have "selectRule policy toolName cx = (toolName, prototype_rule)"
    by (simp add: selectRule_def ruleCandidates_def findExactRule_def)
  then show ?thesis by (simp add: evaluatePolicy_selectRule toEvaluation_def prototype_rule_def)
qed

text \<open>
  The items of a recipient array are not split at commas: one array item that lists an outside
  address before an inside one is classified by its last address, the same text as a plain
  string is not.
\<close>

definition mail_context :: "json \<Rightarrow> policy_context" where
  "mail_context recipients = empty_context\<lparr>cx_input := JObj [(''to'', recipients)],
     cx_metadata := JObj [(''internalDomain'', JStr ''corp.com'')]\<rparr>"

lemma recipient_array_item_not_split:
  "recipientDomainContext (mail_context (JArr [JStr ''a@evil.com, b@corp.com''])) = Some ''internal''"
  by code_simp

lemma recipient_string_split:
  "recipientDomainContext (mail_context (JStr ''a@evil.com, b@corp.com'')) = Some ''external''"
  by code_simp

end
