(* ===== verification/Encoders.thy ===== *)
theory Encoders
  imports Models
begin

text \<open>
  The JSON values of the records that the store and the contracts hash, member by member, and the
  sub-records they hash with some members removed.
\<close>

definition encode_result_source :: "result_source \<Rightarrow> json" where
  "encode_result_source r = (case r of
       ResultNone \<Rightarrow> JStr ''none''
     | ResultFrom s \<Rightarrow> JObj [(''integrity'', JStr (integrity_name (prs_integrity s))),
                            (''sourceId'', jopt JStr (prs_sourceId s))])"

definition encode_reference :: "source_reference \<Rightarrow> json" where
  "encode_reference r = JObj
     [(''integrity'', JStr (integrity_name (sr_integrity r))), (''sourceId'', jopt JStr (sr_sourceId r)),
      (''sourceToolCallId'', JStr (sr_sourceToolCallId r))]"

definition influence_core_members :: "influence_evidence \<Rightarrow> (string \<times> json) list" where
  "influence_core_members e =
     [(''baseDecision'', JStr (decision_name (ci_baseDecision e))),
      (''effectiveDecision'', JStr (decision_name (ci_effectiveDecision e))),
      (''exposureRevision'', JNum (ci_exposureRevision e)),
      (''exposureSnapshotHash'', JStr (ci_exposureSnapshotHash e)),
      (''influenceScope'', JObj [(''id'', jopt JStr (ci_scopeId e)), (''verified'', JBool (ci_scopeVerified e))]),
      (''observedSources'', JArr (map (JStr \<circ> source_name) (ci_observedSources e))),
      (''policy'', JObj [(''versionHash'', JStr (ci_policyVersionHash e)),
                         (''versionId'', jopt JStr (ci_policyVersionId e))]),
      (''selectedRule'', JObj
         [(''allowFrom'', JArr (map (JStr \<circ> source_name) (ig_allowFrom (ci_selectedRule e)))),
          (''otherwise'', JStr (restriction_name (ig_otherwise (ci_selectedRule e))))]),
      (''sourceCount'', jint (ci_sourceCount e)),
      (''sourceCountIsLowerBound'', JBool (ci_sourceCountIsLowerBound e)),
      (''sourceReferences'', JArr (map encode_reference (ci_sourceReferences e))),
      (''version'', JStr (ci_version e))]"

definition encode_influence :: "influence_evidence \<Rightarrow> json" where
  "encode_influence e = JObj (influence_core_members e @
     [(''bindingHash'', JStr (ci_bindingHash e)), (''evaluatedAt'', JStr (ci_evaluatedAt e))])"

definition tool_call_members :: "tool_call \<Rightarrow> (string \<times> json) list" where
  "tool_call_members t =
     [(''id'', JStr (tc_id t)), (''workspaceId'', jopt JStr (tc_workspaceId t)),
      (''toolName'', JStr (tc_toolName t)), (''input'', tc_input t),
      (''inputHash'', jopt JStr (tc_inputHash t)), (''actionEnvelope'', tc_actionEnvelope t),
      (''actionEnvelopeHash'', jopt JStr (tc_actionEnvelopeHash t)),
      (''canonicalActionRequestHash'', jopt JStr (tc_canonicalActionRequestHash t)),
      (''canonicalActionRequestVersion'', jopt JStr (tc_canonicalActionRequestVersion t)),
      (''canonicalDecisionInputHash'', jopt JStr (tc_canonicalDecisionInputHash t)),
      (''canonicalPolicyContext'', tc_canonicalPolicyContext t),
      (''contentInfluence'', jopt encode_influence (tc_contentInfluence t)),
      (''influenceScopeId'', jopt JStr (tc_influenceScopeId t)),
      (''requestedBy'', JStr (tc_requestedBy t)),
      (''requestedByAuth'', jopt encode_auth (tc_requestedByAuth t)),
      (''agentId'', JStr (tc_agentId t)), (''reason'', JStr (tc_reason t)), (''metadata'', tc_metadata t),
      (''status'', JStr (tool_call_status_name (tc_status t))),
      (''decision'', jopt (JStr \<circ> decision_name) (tc_decision t)),
      (''authorizationDecision'', jopt (JStr \<circ> decision_name) (tc_authorizationDecision t)),
      (''authorizationReason'', jopt JStr (tc_authorizationReason t)),
      (''decisionTrace'', tc_decisionTrace t), (''policyReason'', jopt JStr (tc_policyReason t)),
      (''policyVersionId'', jopt JStr (tc_policyVersionId t)),
      (''policyVersionHash'', jopt JStr (tc_policyVersionHash t)),
      (''resultDelivery'', tc_resultDelivery t),
      (''resultSource'', jopt encode_result_source (tc_resultSource t)),
      (''resultWithheld'', jopt JBool (tc_resultWithheld t)), (''risk'', jopt JStr (tc_risk t)),
      (''result'', tc_result t), (''error'', jopt JStr (tc_error t)),
      (''createdAt'', JStr (tc_createdAt t)), (''updatedAt'', JStr (tc_updatedAt t))]"

definition encode_tool_call :: "tool_call \<Rightarrow> json" where
  "encode_tool_call t = JObj (tool_call_members t)"

definition without :: "string list \<Rightarrow> (string \<times> json) list \<Rightarrow> json" where
  \<comment> \<open>the rest of an object after destructuring the named members away\<close>
  "without names members = JObj (filter (\<lambda>p. fst p \<notin> set names) members)"

definition encode_grant :: "grant \<Rightarrow> json" where
  "encode_grant g = JObj
     [(''id'', JStr (gr_id g)), (''workspaceId'', JStr (gr_workspaceId g)),
      (''toolCallId'', JStr (gr_toolCallId g)), (''toolName'', JStr (gr_toolName g)),
      (''inputHash'', JStr (gr_inputHash g)), (''approvedEnvelopeHash'', jopt JStr (gr_approvedEnvelopeHash g)),
      (''approvedInputHash'', jopt JStr (gr_approvedInputHash g)),
      (''policyVersionHash'', jopt JStr (gr_policyVersionHash g)),
      (''receiptHash'', jopt JStr (gr_receiptHash g)), (''receiptId'', jopt JStr (gr_receiptId g)),
      (''actor'', JStr (gr_actor g)), (''auth'', jopt encode_auth (gr_auth g)),
      (''expiresAt'', JStr (gr_expiresAt g)), (''nonce'', JStr (gr_nonce g)),
      (''signature'', JStr (gr_signature g)), (''consumedAt'', jopt JStr (gr_consumedAt g)),
      (''createdAt'', JStr (gr_createdAt g))]"

definition encode_receipt_outcome :: "receipt_outcome \<Rightarrow> json" where
  "encode_receipt_outcome r = JObj
     [(''auth'', jopt encode_auth (ro_auth r)), (''error'', jopt JStr (ro_error r)),
      (''recordedAt'', JStr (ro_recordedAt r)), (''recordedBy'', JStr (ro_recordedBy r)),
      (''remediation'', ro_remediation r), (''result'', ro_result r),
      (''resultDelivery'', ro_resultDelivery r), (''status'', JStr (outcome_status_name (ro_status r)))]"

definition receipt_members :: "receipt \<Rightarrow> (string \<times> json) list" where
  "receipt_members r =
     [(''approvalId'', jopt JStr (rc_approvalId r)), (''approvedEnvelopeHash'', JStr (rc_approvedEnvelopeHash r)),
      (''approvedInputHash'', JStr (rc_approvedInputHash r)), (''createdAt'', JStr (rc_createdAt r)),
      (''decisionActor'', JStr (rc_decisionActor r)), (''decisionAuth'', jopt encode_auth (rc_decisionAuth r)),
      (''decisionKind'', JStr (decision_kind_name (rc_decisionKind r))),
      (''executionMode'', JStr (execution_mode_name (rc_executionMode r))),
      (''expiresAt'', jopt JStr (rc_expiresAt r)), (''id'', JStr (rc_id r)), (''issuedAt'', JStr (rc_issuedAt r)),
      (''keyId'', JStr (rc_keyId r)), (''operation'', rc_operation r),
      (''originalEnvelopeHash'', JStr (rc_originalEnvelopeHash r)),
      (''originalInputHash'', JStr (rc_originalInputHash r)),
      (''outcome'', jopt encode_receipt_outcome (rc_outcome r)),
      (''policyDecision'', jopt (JStr \<circ> decision_name) (rc_policyDecision r)),
      (''policyReason'', jopt JStr (rc_policyReason r)), (''policyRisk'', jopt JStr (rc_policyRisk r)),
      (''policyVersionHash'', jopt JStr (rc_policyVersionHash r)),
      (''policyVersionId'', jopt JStr (rc_policyVersionId r)), (''protocol'', JStr (rc_protocol r)),
      (''receiptHash'', JStr (rc_receiptHash r)), (''reviewHash'', jopt JStr (rc_reviewHash r)),
      (''signature'', JStr (rc_signature r)), (''signatureAlg'', JStr (rc_signatureAlg r)),
      (''source'', rc_source r), (''toolCallId'', JStr (rc_toolCallId r)), (''toolName'', JStr (rc_toolName r)),
      (''version'', JStr (rc_version r)), (''workspaceId'', JStr (rc_workspaceId r))]"

definition encode_receipt :: "receipt \<Rightarrow> json" where
  "encode_receipt r = JObj (receipt_members r)"

definition encode_binding :: "attempt_binding \<Rightarrow> json" where
  "encode_binding b = JObj
     [(''actionEnvelopeHash'', jnullable (ab_actionEnvelopeHash b)),
      (''approvalAuthorizationHash'', jnullable (ab_approvalAuthorizationHash b)),
      (''approvalAuthorizationNonce'', jnullable (ab_approvalAuthorizationNonce b)),
      (''approvalId'', jnullable (ab_approvalId b)),
      (''canonicalActionRequestHash'', jnullable (ab_canonicalActionRequestHash b)),
      (''canonicalActionRequestVersion'', jnullable (ab_canonicalActionRequestVersion b)),
      (''canonicalDecisionInputHash'', jnullable (ab_canonicalDecisionInputHash b)),
      (''contentInfluenceBindingHash'', jopt jnullable (ab_contentInfluenceBindingHash b)),
      (''decisionId'', jnullable (ab_decisionId b)), (''decisionVersion'', jnullable (ab_decisionVersion b)),
      (''influenceScopeId'', jopt jnullable (ab_influenceScopeId b)),
      (''policyVersionHash'', jnullable (ab_policyVersionHash b)),
      (''receiptHash'', jnullable (ab_receiptHash b)), (''receiptId'', jnullable (ab_receiptId b)),
      (''resultSourceHash'', jopt JStr (ab_resultSourceHash b))]"

definition encode_attempt_outcome :: "attempt_outcome \<Rightarrow> json" where
  "encode_attempt_outcome a = JObj
     [(''certainty'', JStr (certainty_name (ao_certainty a))), (''errorClass'', jnullable (ao_errorClass a)),
      (''errorCode'', jnullable (ao_errorCode a)), (''errorMessage'', jnullable (ao_errorMessage a)),
      (''remediationHash'', jnullable (ao_remediationHash a)), (''recordedAt'', JStr (ao_recordedAt a)),
      (''resultDeliveryHash'', jnullable (ao_resultDeliveryHash a)), (''resultHash'', jnullable (ao_resultHash a)),
      (''retryDisposition'', JStr (retry_name (ao_retryDisposition a))),
      (''status'', JStr (attempt_state_name (ao_status a)))]"

definition encode_attempt :: "attempt \<Rightarrow> json" where
  "encode_attempt a = JObj
     [(''attemptNumber'', jint (at_attemptNumber a)), (''binding'', encode_binding (at_binding a)),
      (''completedAt'', jopt JStr (at_completedAt a)), (''dispatchedAt'', jopt JStr (at_dispatchedAt a)),
      (''executionMode'', JStr (execution_mode_name (at_executionMode a))), (''executorId'', JStr (at_executorId a)),
      (''grantId'', jopt JStr (at_grantId a)), (''id'', JStr (at_id a)), (''inputHash'', JStr (at_inputHash a)),
      (''outcome'', jopt encode_attempt_outcome (at_outcome a)),
      (''providerIdempotency'', JStr (at_providerIdempotency a)), (''reservedAt'', JStr (at_reservedAt a)),
      (''reservationOwner'', JStr (at_reservationOwner a)), (''retryPolicy'', JStr (at_retryPolicy a)),
      (''state'', JStr (attempt_state_name (at_state a))), (''toolCallId'', JStr (at_toolCallId a)),
      (''updatedAt'', JStr (at_updatedAt a)), (''version'', JStr (at_version a)),
      (''workspaceId'', JStr (at_workspaceId a))]"

lemmas encoder_defs [encode_simps] =
  encode_auth_def encode_result_source_def encode_reference_def influence_core_members_def
  encode_influence_def tool_call_members_def encode_tool_call_def without_def encode_grant_def
  encode_receipt_outcome_def receipt_members_def encode_receipt_def encode_binding_def
  encode_attempt_outcome_def encode_attempt_def

end
