(* ===== verification/InfluenceEvidence.thy ===== *)
theory InfluenceEvidence
  imports Encoders HashFacts
begin

text \<open>
  \<open>contracts/content-influence.ts\<close>: the evidence record a decision carries about the content that
  influenced it, its binding hash, and the revision guard the stores check before they dispatch.
\<close>

section \<open>Building the evidence\<close>

definition CONTENT_INFLUENCE_EVIDENCE_VERSION :: string where
  "CONTENT_INFLUENCE_EVIDENCE_VERSION = ''actionproxy.content-influence.v1''"

definition MAX_INFLUENCE_SOURCE_REFERENCES :: nat where
  "MAX_INFLUENCE_SOURCE_REFERENCES = 32"

record build_influence_input =
  bi_evaluatedAt :: string
  bi_evaluation :: influence_evaluation
  bi_exposureLookup :: "list_exposures_result option"
  bi_influenceScopeId :: "string option"
  bi_policyVersionHash :: string
  bi_policyVersionId :: "string option"
  bi_selectedRule :: influence_guard

definition or_compare :: "int \<Rightarrow> int \<Rightarrow> int" where
  \<comment> \<open>\<open>left || right\<close> on comparison results\<close>
  "or_compare a b = (if a \<noteq> 0 then a else b)"

definition sortedRecords :: "env \<Rightarrow> exposure list \<Rightarrow> exposure list" where
  "sortedRecords E records =
     js_sort (\<lambda>l r. or_compare (localeCompare E (ex_sourceToolCallId l) (ex_sourceToolCallId r))
                              (localeCompare E (ex_observedAt l) (ex_observedAt r))) records"

definition contentInfluenceBindingCore :: "influence_evidence \<Rightarrow> json" where
  "contentInfluenceBindingCore e = JObj (influence_core_members e)"

definition snapshot_record :: "exposure \<Rightarrow> json" where
  "snapshot_record r = JObj
     [(''integrity'', JStr (integrity_name (ex_integrity r))), (''observedAt'', JStr (ex_observedAt r)),
      (''policyVersionHash'', JStr (ex_policyVersionHash r)), (''sourceId'', jnullable (ex_sourceId r)),
      (''sourceToolCallId'', JStr (ex_sourceToolCallId r))]"

definition snapshotMaterial :: "build_influence_input \<Rightarrow> exposure list \<Rightarrow> json" where
  "snapshotMaterial i records = JObj
     [(''exposureRevision'', jint (case bi_exposureLookup i of None \<Rightarrow> 0 | Some l \<Rightarrow> lr_revision l)),
      (''influenceScopeId'', jnullable (bi_influenceScopeId i)),
      (''overflow'', JBool (case bi_exposureLookup i of None \<Rightarrow> False | Some l \<Rightarrow> lr_overflow l)),
      (''records'', JArr (map snapshot_record records)),
      (''verified'', JBool (truthy (bi_influenceScopeId i))),
      (''version'', JStr ''actionproxy.content-exposure-snapshot.v1'')]"

definition influence_core :: "build_influence_input \<Rightarrow> exposure list \<Rightarrow> string \<Rightarrow> influence_evidence" where
  \<comment> \<open>the evidence with the members of \<open>core\<close> filled in and no binding hash yet\<close>
  "influence_core i records snapshotHash =
     \<lparr>ci_baseDecision = ie_baseDecision (bi_evaluation i), ci_bindingHash = [],
      ci_effectiveDecision = ie_effectiveDecision (bi_evaluation i),
      ci_evaluatedAt = bi_evaluatedAt i,
      ci_exposureRevision = num_of_int (case bi_exposureLookup i of None \<Rightarrow> 0 | Some l \<Rightarrow> lr_revision l),
      ci_exposureSnapshotHash = snapshotHash,
      ci_scopeId = bi_influenceScopeId i, ci_scopeVerified = truthy (bi_influenceScopeId i),
      ci_observedSources = ie_observedSources (bi_evaluation i),
      ci_policyVersionHash = bi_policyVersionHash i, ci_policyVersionId = bi_policyVersionId i,
      ci_selectedRule = bi_selectedRule i,
      ci_sourceCount = int (length records),
      ci_sourceCountIsLowerBound = (case bi_exposureLookup i of None \<Rightarrow> False | Some l \<Rightarrow> lr_overflow l),
      ci_sourceReferences = map (\<lambda>r. \<lparr>sr_integrity = ex_integrity r, sr_sourceId = ex_sourceId r,
          sr_sourceToolCallId = ex_sourceToolCallId r\<rparr>) (take MAX_INFLUENCE_SOURCE_REFERENCES records),
      ci_version = CONTENT_INFLUENCE_EVIDENCE_VERSION\<rparr>"

definition buildContentInfluenceEvidence ::
  "env \<Rightarrow> build_influence_input \<Rightarrow> canonicalization_error + influence_evidence" where
  "buildContentInfluenceEvidence E i =
     (let records = sortedRecords E (case bi_exposureLookup i of None \<Rightarrow> [] | Some l \<Rightarrow> lr_records l)
      in case hashCanonicalJson E (snapshotMaterial i records) of
           Inl e \<Rightarrow> Inl e
         | Inr snapshotHash \<Rightarrow>
             let core = influence_core i records snapshotHash
             in map_result (\<lambda>h. core\<lparr>ci_bindingHash := h\<rparr>)
                  (hashCanonicalJson E (contentInfluenceBindingCore core)))"

section \<open>Validation\<close>

definition num_isInteger :: "jsnum \<Rightarrow> bool" where
  "num_isInteger n = (case n of Dec m e \<Rightarrow> 0 \<le> e \<or> m mod 10 ^ nat (- e) = 0 | _ \<Rightarrow> False)"

definition lower_hex :: "char \<Rightarrow> bool" where
  "lower_hex c = (let n = (of_char c :: nat) in (97 \<le> n \<and> n \<le> 102) \<or> (48 \<le> n \<and> n \<le> 57))"

definition is_influence_scope_id :: "string \<Rightarrow> bool" where
  \<comment> \<open>\<open>/^influence_[a-f0-9]{64}$/u\<close>\<close>
  "is_influence_scope_id s =
     (startsWith s ''influence_'' \<and> length s = 74 \<and> list_all lower_hex (drop 10 s))"

definition validContentInfluenceBindingHash :: "env \<Rightarrow> influence_evidence option \<Rightarrow> string option" where
  "validContentInfluenceBindingHash E evidence =
     (case evidence of
        None \<Rightarrow> None
      | Some e \<Rightarrow>
          if ci_version e \<noteq> CONTENT_INFLUENCE_EVIDENCE_VERSION
             \<or> \<not> num_isInteger (ci_exposureRevision e)
             \<or> num_lt (ci_exposureRevision e) (Dec 0 0)
             \<or> ci_scopeVerified e \<noteq> truthy (ci_scopeId e)
             \<or> (ci_scopeId e \<noteq> None \<and> \<not> is_influence_scope_id (the (ci_scopeId e)))
          then None
          else (case hashCanonicalJson E (contentInfluenceBindingCore e) of
                  Inl _ \<Rightarrow> None
                | Inr computed \<Rightarrow> if computed = ci_bindingHash e then Some computed else None))"

definition sameContentInfluenceBinding :: "env \<Rightarrow> influence_evidence option \<Rightarrow> influence_evidence \<Rightarrow> bool" where
  "sameContentInfluenceBinding E left right =
     (left \<noteq> None \<and> validContentInfluenceBindingHash E left \<noteq> None
      \<and> validContentInfluenceBindingHash E (Some right) \<noteq> None
      \<and> ci_bindingHash (the left) = ci_bindingHash right)"

definition validatedContentExposureRevisionGuard ::
  "env \<Rightarrow> influence_evidence option \<Rightarrow> string option \<Rightarrow> (string \<times> jsnum) option" where
  "validatedContentExposureRevisionGuard E evidence authoritativeInfluenceScopeId =
     (case evidence of
        None \<Rightarrow> None
      | Some e \<Rightarrow>
          if \<not> truthy authoritativeInfluenceScopeId
             \<or> validContentInfluenceBindingHash E evidence = None
             \<or> \<not> ci_scopeVerified e
             \<or> ci_scopeId e \<noteq> authoritativeInfluenceScopeId
             \<or> \<not> num_isInteger (ci_exposureRevision e)
             \<or> num_lt (ci_exposureRevision e) (Dec 0 0)
          then None
          else Some (the authoritativeInfluenceScopeId, ci_exposureRevision e))"

section \<open>Facts\<close>

lemma jint_clean [simp]: "clean (jint n)" "jint n \<noteq> JUndef"
  using num_of_int_Dec [of n] by (auto simp: jint_def)

lemma jnullable_clean [simp]: "clean (jnullable x)" "jnullable x \<noteq> JUndef"
  by (cases x; simp)+

lemma jopt_JStr_clean [simp]: "jopt JStr x = JUndef \<or> clean (jopt JStr x)"
  by (cases x) simp_all

lemma num_of_int_sign:
  "num_isInteger (num_of_int n)" "num_lt (num_of_int n) (Dec 0 0) \<longleftrightarrow> n < 0"
proof -
  obtain m e where "num_of_int n = Dec m e" "0 \<le> e" "n < 0 \<longleftrightarrow> m < 0"
    using num_of_int_Dec [of n] by blast
  then show "num_isInteger (num_of_int n)" "num_lt (num_of_int n) (Dec 0 0) \<longleftrightarrow> n < 0"
    by (simp_all add: num_isInteger_def scaled_def min_def mult_less_0_iff)
qed

lemma clean_snapshot: "clean (snapshotMaterial i records)"
  by (simp add: snapshotMaterial_def snapshot_record_def list_all_iff)

lemma clean_core:
  "num_isFinite (ci_exposureRevision e) \<Longrightarrow> clean (contentInfluenceBindingCore e)"
  by (simp add: contentInfluenceBindingCore_def influence_core_members_def encode_reference_def list_all_iff
      split: option.splits)

lemma hash_of_clean: "clean v \<Longrightarrow> hashCanonicalJson E v = Inr (sha256Hex E (print_json (canon v)))"
  by (simp add: hashCanonicalJson_def canonicalJsonStringify_clean map_result_def)

lemma core_binding_hash [simp]:
  "contentInfluenceBindingCore (e\<lparr>ci_bindingHash := h\<rparr>) = contentInfluenceBindingCore e"
  by (simp add: contentInfluenceBindingCore_def influence_core_members_def)

lemma core_finite [simp]: "num_isFinite (ci_exposureRevision (influence_core i records h))"
proof -
  have "num_isFinite (num_of_int n)" for n using num_of_int_Dec [of n] by auto
  then show ?thesis by (simp add: influence_core_def)
qed

definition exposure_records :: "env \<Rightarrow> build_influence_input \<Rightarrow> exposure list" where
  "exposure_records E i = sortedRecords E (case bi_exposureLookup i of None \<Rightarrow> [] | Some l \<Rightarrow> lr_records l)"

definition built_core :: "env \<Rightarrow> build_influence_input \<Rightarrow> influence_evidence" where
  "built_core E i = influence_core i (exposure_records E i)
     (sha256Hex E (print_json (canon (snapshotMaterial i (exposure_records E i)))))"

lemma build_eq:
  "buildContentInfluenceEvidence E i =
     Inr ((built_core E i)\<lparr>ci_bindingHash :=
       sha256Hex E (print_json (canon (contentInfluenceBindingCore (built_core E i))))\<rparr>)"
  unfolding buildContentInfluenceEvidence_def Let_def exposure_records_def [symmetric]
    hash_of_clean [OF clean_snapshot] sum.case built_core_def [symmetric]
  by (simp add: hash_of_clean [OF clean_core] built_core_def map_result_def)

lemma source_names_inj [simp]:
  "map (JStr \<circ> source_name) xs = map (JStr \<circ> source_name) ys \<longleftrightarrow> xs = ys"
  by (rule inj_map_eq_map) (simp add: inj_def)

lemma canon_source_names [simp]: "canon \<circ> (JStr \<circ> source_name) = JStr \<circ> source_name"
  by auto

lemma core_fields_eq:
  assumes "canon (contentInfluenceBindingCore l) = canon (contentInfluenceBindingCore r)"
  shows "ci_effectiveDecision l = ci_effectiveDecision r" "ci_exposureRevision l = ci_exposureRevision r"
    "ci_exposureSnapshotHash l = ci_exposureSnapshotHash r" "ci_scopeId l = ci_scopeId r"
    "ci_observedSources l = ci_observedSources r" "ci_policyVersionHash l = ci_policyVersionHash r"
    "ig_allowFrom (ci_selectedRule l) = ig_allowFrom (ci_selectedRule r)"
    "ig_otherwise (ci_selectedRule l) = ig_otherwise (ci_selectedRule r)"
  using assms unfolding contentInfluenceBindingCore_def influence_core_members_def
  by (simp_all add: canon_obj_iff)

lemma validContentInfluence_Some:
  "validContentInfluenceBindingHash E (Some e) = Some h \<Longrightarrow>
     hashCanonicalJson E (contentInfluenceBindingCore e) = Inr h \<and> h = ci_bindingHash e"
  by (auto simp: validContentInfluenceBindingHash_def split: if_splits sum.splits)

section \<open>Properties\<close>

text \<open>C21: building the evidence never throws, whatever exposures, scope and rule it is built from, and its own
  validator accepts it exactly when the exposures could be read: evidence of a failed read is never valid.\<close>

theorem built_evidence_validates:
  assumes "\<And>s. bi_influenceScopeId i = Some s \<Longrightarrow> is_influence_scope_id s"
  shows "\<exists>e. buildContentInfluenceEvidence E i = Inr e
    \<and> validContentInfluenceBindingHash E (Some e) =
        (if \<exists>l. bi_exposureLookup i = Some l \<and> lr_revision l < 0 then None else Some (ci_bindingHash e))"
proof -
  let ?core = "built_core E i"
  have core: "ci_version ?core = CONTENT_INFLUENCE_EVIDENCE_VERSION" "num_isInteger (ci_exposureRevision ?core)"
    "num_lt (ci_exposureRevision ?core) (Dec 0 0) \<longleftrightarrow> (\<exists>l. bi_exposureLookup i = Some l \<and> lr_revision l < 0)"
    "ci_scopeVerified ?core = truthy (ci_scopeId ?core)"
    "ci_scopeId ?core = bi_influenceScopeId i" "num_isFinite (ci_exposureRevision ?core)"
    using num_of_int_sign [of 0] num_of_int_sign
    by (simp_all add: built_core_def, simp_all add: influence_core_def split: option.split)
  have "\<not> (\<exists>y. bi_influenceScopeId i = Some y) \<or> is_influence_scope_id (the (bi_influenceScopeId i))"
    using assms by (cases "bi_influenceScopeId i") auto
  then show ?thesis
    by (auto simp: build_eq validContentInfluenceBindingHash_def core hash_of_clean [OF clean_core])
qed

definition sample_influence_input :: build_influence_input where
  "sample_influence_input = \<lparr>bi_evaluatedAt = ''2026-01-01T00:00:00.000Z'',
     bi_evaluation = evaluateContentInfluence (toEvaluation guarded_rule ''fs.write'') guarded_input,
     bi_exposureLookup = Some \<lparr>lr_overflow = False, lr_records = [\<lparr>ex_influenceScopeId = ''s'',
        ex_integrity = PublicUntrusted, ex_observedAt = ''2026-01-01T00:00:00.000Z'',
        ex_policyVersionHash = ''p'', ex_sourceId = None, ex_sourceToolCallId = ''tc_1'',
        ex_workspaceId = ''default''\<rparr>], lr_revision = 1\<rparr>,
     bi_influenceScopeId = Some (''influence_'' @ replicate 64 CHR ''a''),
     bi_policyVersionHash = ''p'', bi_policyVersionId = None,
     bi_selectedRule = \<lparr>ig_allowFrom = [NoSource], ig_otherwise = RestrictRequired\<rparr>\<rparr>"

theorem built_evidence_validates_witness:
  "\<exists>e. buildContentInfluenceEvidence text_env sample_influence_input = Inr e
    \<and> validContentInfluenceBindingHash text_env (Some e) = Some (ci_bindingHash e)"
proof -
  have "is_influence_scope_id s" if "bi_influenceScopeId sample_influence_input = Some s" for s
  proof -
    from that have s: "s = ''influence_'' @ replicate 64 CHR ''a''" by (simp add: sample_influence_input_def)
    show "is_influence_scope_id s" unfolding s by code_simp
  qed
  note valid = built_evidence_validates [where i = sample_influence_input and E = text_env, OF this]
  have read: "\<not> (\<exists>l. bi_exposureLookup sample_influence_input = Some l \<and> lr_revision l < 0)"
    by (simp add: sample_influence_input_def)
  show ?thesis using valid unfolding if_not_P [OF read] .
qed

text \<open>Two pieces of evidence that \<open>sameContentInfluenceBinding\<close> accepts as one agree on the decision,
  the scope, the exposure revision and snapshot, the sources and the rule, unless their texts are a
  collision of the digest.\<close>

lemma same_binding_same_influence:
  assumes "sameContentInfluenceBinding E (Some l) r"
    and "plain (contentInfluenceBindingCore l)" "plain (contentInfluenceBindingCore r)"
    and "inj_on (sha256Hex E) {print_json (canon (contentInfluenceBindingCore l)),
                               print_json (canon (contentInfluenceBindingCore r))}"
  shows "ci_effectiveDecision l = ci_effectiveDecision r \<and> ci_exposureRevision l = ci_exposureRevision r
    \<and> ci_exposureSnapshotHash l = ci_exposureSnapshotHash r \<and> ci_scopeId l = ci_scopeId r
    \<and> ci_observedSources l = ci_observedSources r \<and> ci_policyVersionHash l = ci_policyVersionHash r
    \<and> ig_allowFrom (ci_selectedRule l) = ig_allowFrom (ci_selectedRule r)
    \<and> ig_otherwise (ci_selectedRule l) = ig_otherwise (ci_selectedRule r)"
proof -
  obtain h h' where "validContentInfluenceBindingHash E (Some l) = Some h"
      "validContentInfluenceBindingHash E (Some r) = Some h'" "ci_bindingHash l = ci_bindingHash r"
    using assms(1) by (auto simp: sameContentInfluenceBinding_def)
  then have "hashCanonicalJson E (contentInfluenceBindingCore l) = hashCanonicalJson E (contentInfluenceBindingCore r)"
    by (auto dest!: validContentInfluence_Some)
  from core_fields_eq [OF hashCanonicalJson_equal_canon [OF assms(2,3) this assms(4)]]
  show ?thesis by blast
qed

definition sample_core :: influence_evidence where
  "sample_core = \<lparr>ci_baseDecision = Allow, ci_bindingHash = [], ci_effectiveDecision = RequireApproval,
     ci_evaluatedAt = ''2026-01-01T00:00:00.000Z'', ci_exposureRevision = Dec 1 0,
     ci_exposureSnapshotHash = ''snapshot'', ci_scopeId = None, ci_scopeVerified = False,
     ci_observedSources = [FromIntegrity UnknownIntegrity], ci_policyVersionHash = ''p'',
     ci_policyVersionId = None,
     ci_selectedRule = \<lparr>ig_allowFrom = [NoSource], ig_otherwise = RestrictRequired\<rparr>,
     ci_sourceCount = 0, ci_sourceCountIsLowerBound = False, ci_sourceReferences = [],
     ci_version = CONTENT_INFLUENCE_EVIDENCE_VERSION\<rparr>"

definition sample_evidence :: influence_evidence where
  "sample_evidence = sample_core\<lparr>ci_bindingHash := print_json (canon (contentInfluenceBindingCore sample_core))\<rparr>"

lemma sample_evidence_core [simp]:
  "contentInfluenceBindingCore sample_evidence = contentInfluenceBindingCore sample_core"
  "contentInfluenceBindingCore (sample_evidence\<lparr>ci_evaluatedAt := t\<rparr>) = contentInfluenceBindingCore sample_core"
  by (simp_all add: sample_evidence_def contentInfluenceBindingCore_def influence_core_members_def)

lemma same_binding_same_influence_example:
  "ci_scopeId sample_evidence = ci_scopeId (sample_evidence\<lparr>ci_evaluatedAt := ''later''\<rparr>)"
proof -
  have plain: "plain (contentInfluenceBindingCore sample_core)" by code_simp
  have sha: "sha256Hex text_env s = s" for s by (simp add: text_env_def)
  have "num_isInteger (ci_exposureRevision sample_core)" "\<not> num_lt (ci_exposureRevision sample_core) (Dec 0 0)"
    by code_simp+
  then have same: "sameContentInfluenceBinding text_env (Some sample_evidence) (sample_evidence\<lparr>ci_evaluatedAt := ''later''\<rparr>)"
    by (simp add: sameContentInfluenceBinding_def validContentInfluenceBindingHash_def
        hash_of_clean [OF plain_clean [OF plain]] sha)
      (simp add: sample_evidence_def sample_core_def)
  with plain show ?thesis
    by (intro same_binding_same_influence [of text_env, THEN conjunct2, THEN conjunct2, THEN conjunct2, THEN conjunct1])
       (simp_all add: inj_on_def)
qed

end
