(* ===== verification/ApprovalAuth.thy ===== *)
theory ApprovalAuth
  imports InfluenceEvidence
begin

text \<open>
  \<open>contracts/approval-authorization.ts\<close>: the authorization an approval is issued with. It binds the
  action, the approval, the decision, the policy, the request and the approver requirements under
  one canonical hash; every decision on the approval is checked against it.
\<close>

section \<open>The authorization as a JSON value\<close>

definition APPROVAL_AUTHORIZATION_VERSION :: string where
  "APPROVAL_AUTHORIZATION_VERSION = ''actionproxy.approval-authorization.v1''"

definition action_json :: "authorization \<Rightarrow> json" where
  "action_json a = JObj
     [(''originalEnvelopeHash'', JStr (az_originalEnvelopeHash a)),
      (''originalInputHash'', JStr (az_originalInputHash a)), (''reviewHash'', JStr (az_reviewHash a))]"

definition approval_json :: "authorization \<Rightarrow> json" where
  "approval_json a = JObj
     [(''approvalId'', JStr (az_approvalId a)), (''requestedBy'', JStr (az_requestedBy a)),
      (''requestedByPrincipalId'', jnullable (az_requestedByPrincipalId a)),
      (''tenantId'', JStr (az_tenantId a)), (''toolCallId'', JStr (az_toolCallId a))]"

definition decision_json :: "authorization \<Rightarrow> json" where
  "decision_json a = JObj
     [(''decisionId'', jnullable (az_decisionId a)), (''outcome'', JStr (decision_name (az_outcome a))),
      (''version'', jnullable (az_decisionVersion a))]"

definition policy_json :: "authorization \<Rightarrow> json" where
  "policy_json a = JObj
     [(''digest'', jnullable (az_digest a)), (''evaluatorVersion'', jnullable (az_evaluatorVersion a)),
      (''legacyVersionHash'', JStr (az_legacyVersionHash a)),
      (''legacyVersionId'', jnullable (az_legacyVersionId a)), (''providerId'', jnullable (az_providerId a)),
      (''providerVersion'', jnullable (az_providerVersion a)), (''version'', jnullable (az_policyVersion a))]"

definition request_json :: "authorization \<Rightarrow> json" where
  "request_json a = JObj
     [(''decisionInputHash'', jnullable (az_decisionInputHash a)),
      (''requestHash'', jnullable (az_requestHash a)), (''version'', jnullable (az_requestVersion a))]"

definition nullable_strings :: "string list option \<Rightarrow> json" where
  "nullable_strings us = (case us of None \<Rightarrow> JNull | Some us \<Rightarrow> jstrings us)"

definition requirements_json :: "authorization \<Rightarrow> json" where
  "requirements_json a = JObj
     [(''eligibleGroups'', jstrings (az_eligibleGroups a)),
      (''eligibleUsers'', nullable_strings (az_eligibleUsers a)),
      (''requiredApprovals'', jint (az_requiredApprovals a)),
      (''separationOfDuties'', JBool (az_separationOfDuties a))]"

definition authorization_members :: "authorization \<Rightarrow> (string \<times> json) list" where
  \<comment> \<open>\<open>authorizationWithoutHash\<close>\<close>
  "authorization_members a =
     [(''binding'', JObj
        [(''action'', action_json a), (''approval'', approval_json a), (''decision'', decision_json a),
         (''policy'', policy_json a), (''request'', request_json a), (''requirements'', requirements_json a)]),
      (''expiresAt'', JStr (az_expiresAt a)), (''issuedAt'', JStr (az_issuedAt a)),
      (''nonce'', JStr (az_nonce a)), (''version'', JStr (az_version a))]"

definition encode_authorization :: "authorization \<Rightarrow> json" where
  "encode_authorization a =
     JObj (authorization_members a @ [(''authorizationHash'', JStr (az_authorizationHash a))])"

section \<open>Building\<close>

record decision_identity =
  di_decisionId :: string
  di_decisionInputHash :: string
  di_evaluatorVersion :: "string option"
  di_digest :: "string option"
  di_providerId :: string
  di_providerVersion :: "string option"
  di_policyVersion :: "string option"
  di_version :: string

definition isNonEmptyString :: "json \<Rightarrow> bool" where
  "isNonEmptyString v = (case v of JStr s \<Rightarrow> s \<noteq> [] | _ \<Rightarrow> False)"

definition decisionIdentity :: "tool_call \<Rightarrow> decision_identity option" where
  "decisionIdentity t =
     (let candidate = jget (tc_decisionTrace t) ''decisionV1'';
          policy = jget candidate ''policy'';
          provider = jget policy ''provider''
      in if \<not> isJsonObject candidate \<or> jget candidate ''version'' \<noteq> JStr ''actionproxy.decision.v1'' then None
         else if \<not> isNonEmptyString (jget candidate ''decisionId'')
                 \<or> \<not> isNonEmptyString (jget candidate ''decisionInputHash'') then None
         else if \<not> isJsonObject policy \<or> \<not> isJsonObject provider then None
         else if \<not> isNonEmptyString (jget provider ''id'') then None
         else Some \<lparr>di_decisionId = the (jstring (jget candidate ''decisionId'')),
                    di_decisionInputHash = the (jstring (jget candidate ''decisionInputHash'')),
                    di_evaluatorVersion = jstring (jget candidate ''evaluatorVersion''),
                    di_digest = jstring (jget policy ''digest''),
                    di_providerId = the (jstring (jget provider ''id'')),
                    di_providerVersion = jstring (jget provider ''version''),
                    di_policyVersion = jstring (jget policy ''version''),
                    di_version = ''actionproxy.decision.v1''\<rparr>)"

definition sortedUnique :: "string list \<Rightarrow> string list" where
  "sortedUnique values = js_sort codeUnitCompare (remdups values)"

record build_authorization_input =
  ba_approvalId :: string
  ba_approverGroups :: "string list option"
  ba_approverUsers :: "string list option"
  ba_expiresAt :: string
  ba_issuedAt :: string
  ba_nonce :: "string option"
  ba_originalEnvelopeHash :: string
  ba_originalInputHash :: string
  ba_requestedBy :: string
  ba_requestedByPrincipalId :: "string option"
  ba_requiredApprovals :: "int option"
  ba_reviewHash :: string
  ba_separationOfDuties :: "bool option"
  ba_toolCall :: tool_call

datatype authorization_error =
    PolicyVersionHashMissing
  | NotIsoTimestamp string
  | ExpiryNotAfterIssuance
  | NotCanonical canonicalization_error

definition authorization_without_hash :: "string \<Rightarrow> build_authorization_input \<Rightarrow> authorization" where
  \<comment> \<open>\<open>freshNonce\<close> is the \<open>randomToken(32)\<close> drawn when the input has no nonce\<close>
  "authorization_without_hash freshNonce i =
     (let t = ba_toolCall i; decision = decisionIdentity t
      in \<lparr>az_authorizationHash = [], az_originalEnvelopeHash = ba_originalEnvelopeHash i,
          az_originalInputHash = ba_originalInputHash i, az_reviewHash = ba_reviewHash i,
          az_approvalId = ba_approvalId i, az_requestedBy = ba_requestedBy i,
          az_requestedByPrincipalId = ba_requestedByPrincipalId i,
          az_tenantId = coalesce (tc_workspaceId t) ''default'', az_toolCallId = tc_id t,
          az_decisionId = map_option di_decisionId decision,
          az_outcome = coalesce (tc_decision t) RequireApproval,
          az_decisionVersion = map_option di_version decision,
          az_digest = Option.bind decision di_digest,
          az_evaluatorVersion = Option.bind decision di_evaluatorVersion,
          az_legacyVersionHash = the (tc_policyVersionHash t),
          az_legacyVersionId = tc_policyVersionId t,
          az_providerId = map_option di_providerId decision,
          az_providerVersion = Option.bind decision di_providerVersion,
          az_policyVersion = Option.bind decision di_policyVersion,
          az_decisionInputHash = or_else (tc_canonicalDecisionInputHash t) (map_option di_decisionInputHash decision),
          az_requestHash = tc_canonicalActionRequestHash t,
          az_requestVersion = tc_canonicalActionRequestVersion t,
          az_eligibleGroups = sortedUnique (coalesce (ba_approverGroups i) []),
          az_eligibleUsers = map_option sortedUnique (ba_approverUsers i),
          az_requiredApprovals = max 1 (coalesce (ba_requiredApprovals i) 1),
          az_separationOfDuties = coalesce (ba_separationOfDuties i) False,
          az_expiresAt = ba_expiresAt i, az_issuedAt = ba_issuedAt i,
          az_nonce = coalesce (ba_nonce i) freshNonce,
          az_version = APPROVAL_AUTHORIZATION_VERSION\<rparr>)"

definition buildApprovalAuthorization ::
  "env \<Rightarrow> string \<Rightarrow> build_authorization_input \<Rightarrow> authorization_error + authorization" where
  "buildApprovalAuthorization E freshNonce i =
     (if \<not> truthy (tc_policyVersionHash (ba_toolCall i)) then Inl PolicyVersionHashMissing
      else if dateParse E (ba_issuedAt i) = None then Inl (NotIsoTimestamp ''issuedAt'')
      else if dateParse E (ba_expiresAt i) = None then Inl (NotIsoTimestamp ''expiresAt'')
      else if the (dateParse E (ba_expiresAt i)) \<le> the (dateParse E (ba_issuedAt i))
           then Inl ExpiryNotAfterIssuance
      else let a = authorization_without_hash freshNonce i
           in case hashCanonicalJson E (JObj (authorization_members a)) of
                Inl e \<Rightarrow> Inl (NotCanonical e)
              | Inr h \<Rightarrow> Inr (a\<lparr>az_authorizationHash := h\<rparr>))"

section \<open>Validation\<close>

definition isNullableString :: "json \<Rightarrow> bool" where
  "isNullableString v = (case v of JNull \<Rightarrow> True | JStr _ \<Rightarrow> True | _ \<Rightarrow> False)"

definition isPolicyDecision :: "json \<Rightarrow> bool" where
  "isPolicyDecision v = (v \<in> {JStr ''allow'', JStr ''deny'', JStr ''require_approval''})"

definition isStringArray :: "json \<Rightarrow> bool" where
  "isStringArray v = (case v of JArr vs \<Rightarrow> list_all (\<lambda>i. jstring i \<noteq> None) vs | _ \<Rightarrow> False)"

definition finite_date :: "env \<Rightarrow> json \<Rightarrow> bool" where
  \<comment> \<open>\<open>Number.isFinite(Date.parse(value))\<close>\<close>
  "finite_date E v = (case v of JStr s \<Rightarrow> dateParse E s \<noteq> None | _ \<Rightarrow> False)"

definition json_integer_ge1 :: "json \<Rightarrow> bool" where
  "json_integer_ge1 v = (case v of JNum n \<Rightarrow> num_isInteger n \<and> \<not> num_lt n (Dec 1 0) | _ \<Rightarrow> False)"

definition remove_member :: "string \<Rightarrow> json \<Rightarrow> json" where
  "remove_member k v = (case v of JObj kvs \<Rightarrow> without [k] kvs | _ \<Rightarrow> v)"

definition isValidApprovalAuthorization :: "env \<Rightarrow> json \<Rightarrow> bool" where
  "isValidApprovalAuthorization E v =
     (if \<not> isJsonObject v then False
      else if jget v ''version'' \<noteq> JStr APPROVAL_AUTHORIZATION_VERSION
        \<or> \<not> isNonEmptyString (jget v ''authorizationHash'')
        \<or> \<not> isNonEmptyString (jget v ''nonce'')
        \<or> \<not> isNonEmptyString (jget v ''issuedAt'')
        \<or> \<not> isNonEmptyString (jget v ''expiresAt'')
        \<or> \<not> isJsonObject (jget v ''binding'') then False
      else if \<not> finite_date E (jget v ''issuedAt'') \<or> \<not> finite_date E (jget v ''expiresAt'') then False
      else
        let binding = jget v ''binding''; action = jget binding ''action'';
            approval = jget binding ''approval''; decision = jget binding ''decision'';
            policy = jget binding ''policy''; request = jget binding ''request'';
            requirements = jget binding ''requirements''
        in if \<not> isJsonObject action \<or> \<not> isJsonObject approval \<or> \<not> isJsonObject decision
             \<or> \<not> isJsonObject policy \<or> \<not> isJsonObject request \<or> \<not> isJsonObject requirements then False
           else if \<not> isNonEmptyString (jget action ''originalEnvelopeHash'')
             \<or> \<not> isNonEmptyString (jget action ''originalInputHash'')
             \<or> \<not> isNonEmptyString (jget action ''reviewHash'')
             \<or> \<not> isNonEmptyString (jget approval ''approvalId'')
             \<or> \<not> isNonEmptyString (jget approval ''requestedBy'')
             \<or> \<not> isNonEmptyString (jget approval ''tenantId'')
             \<or> \<not> isNonEmptyString (jget approval ''toolCallId'')
             \<or> \<not> isPolicyDecision (jget decision ''outcome'')
             \<or> \<not> isNonEmptyString (jget policy ''legacyVersionHash'')
             \<or> \<not> isNullableString (jget decision ''decisionId'')
             \<or> \<not> isNullableString (jget decision ''version'')
             \<or> \<not> isNullableString (jget policy ''digest'')
             \<or> \<not> isNullableString (jget policy ''evaluatorVersion'')
             \<or> \<not> isNullableString (jget policy ''legacyVersionId'')
             \<or> \<not> isNullableString (jget policy ''providerId'')
             \<or> \<not> isNullableString (jget policy ''providerVersion'')
             \<or> \<not> isNullableString (jget policy ''version'')
             \<or> \<not> isNullableString (jget request ''decisionInputHash'')
             \<or> \<not> isNullableString (jget request ''requestHash'')
             \<or> \<not> isNullableString (jget request ''version'')
             \<or> \<not> isNullableString (jget approval ''requestedByPrincipalId'')
             \<or> \<not> isStringArray (jget requirements ''eligibleGroups'')
             \<or> \<not> (jget requirements ''eligibleUsers'' = JNull \<or> isStringArray (jget requirements ''eligibleUsers''))
             \<or> \<not> json_integer_ge1 (jget requirements ''requiredApprovals'')
             \<or> (case jget requirements ''separationOfDuties'' of JBool _ \<Rightarrow> False | _ \<Rightarrow> True) then False
           else (case hashCanonicalJson E (remove_member ''authorizationHash'' v) of
                   Inl _ \<Rightarrow> False
                 | Inr h \<Rightarrow> jget v ''authorizationHash'' = JStr h))"

definition sameArray :: "string list \<Rightarrow> string list \<Rightarrow> bool" where
  "sameArray left right = (length left = length right \<and> list_all (\<lambda>(l, r). l = r) (zip left right))"

definition sameNullableArray :: "string list option \<Rightarrow> string list option \<Rightarrow> bool" where
  "sameNullableArray left right =
     (case (left, right) of (Some l, Some r) \<Rightarrow> sameArray l r | _ \<Rightarrow> left = None \<and> right = None)"

definition approvalAuthorizationMismatch ::
  "env \<Rightarrow> authorization \<Rightarrow> approval \<Rightarrow> tool_call \<Rightarrow> string option" where
  "approvalAuthorizationMismatch E a ap t =
     (let decision = decisionIdentity t;
          users = map_option sortedUnique (ap_approverUsers ap);
          groups = sortedUnique (coalesce (ap_approverGroups ap) [])
      in first_of
       [(\<not> isValidApprovalAuthorization E (encode_authorization a), ''authorization_hash_mismatch''),
        (az_approvalId a \<noteq> ap_id ap, ''approval_id_mismatch''),
        (az_toolCallId a \<noteq> ap_toolCallId ap \<or> az_toolCallId a \<noteq> tc_id t, ''tool_call_id_mismatch''),
        (az_tenantId a \<noteq> coalesce (ap_workspaceId ap) ''default'', ''approval_tenant_mismatch''),
        (az_tenantId a \<noteq> coalesce (tc_workspaceId t) ''default'', ''tool_call_tenant_mismatch''),
        (az_requestedBy a \<noteq> ap_requestedBy ap, ''requester_mismatch''),
        (az_requestedBy a \<noteq> tc_requestedBy t, ''tool_call_requester_mismatch''),
        (az_requestedByPrincipalId a \<noteq> map_option au_principalId (ap_requestedByAuth ap), ''requester_principal_mismatch''),
        (Some (az_originalInputHash a) \<noteq> ap_originalInputHash ap, ''original_input_hash_mismatch''),
        (Some (az_originalInputHash a) \<noteq> tc_inputHash t, ''tool_call_input_hash_mismatch''),
        (Some (az_originalEnvelopeHash a) \<noteq> ap_originalEnvelopeHash ap, ''original_envelope_hash_mismatch''),
        (Some (az_originalEnvelopeHash a) \<noteq> tc_actionEnvelopeHash t, ''tool_call_envelope_hash_mismatch''),
        (Some (az_reviewHash a) \<noteq> ap_reviewHash ap, ''review_hash_mismatch''),
        (az_requestHash a \<noteq> tc_canonicalActionRequestHash t, ''request_hash_mismatch''),
        (az_requestVersion a \<noteq> tc_canonicalActionRequestVersion t, ''request_version_mismatch''),
        (az_decisionInputHash a \<noteq> or_else (tc_canonicalDecisionInputHash t) (map_option di_decisionInputHash decision),
         ''decision_input_hash_mismatch''),
        (az_decisionVersion a \<noteq> map_option di_version decision, ''decision_version_mismatch''),
        (az_decisionId a \<noteq> map_option di_decisionId decision, ''decision_id_mismatch''),
        (Some (az_outcome a) \<noteq> tc_decision t, ''decision_outcome_mismatch''),
        (Some (az_legacyVersionHash a) \<noteq> tc_policyVersionHash t, ''policy_hash_mismatch''),
        (az_legacyVersionId a \<noteq> tc_policyVersionId t, ''policy_version_id_mismatch''),
        (az_digest a \<noteq> Option.bind decision di_digest, ''policy_digest_mismatch''),
        (az_policyVersion a \<noteq> Option.bind decision di_policyVersion, ''policy_version_mismatch''),
        (az_providerId a \<noteq> map_option di_providerId decision, ''policy_provider_mismatch''),
        (az_providerVersion a \<noteq> Option.bind decision di_providerVersion, ''policy_provider_version_mismatch''),
        (az_evaluatorVersion a \<noteq> Option.bind decision di_evaluatorVersion, ''evaluator_version_mismatch''),
        (\<not> sameArray (az_eligibleGroups a) groups, ''eligible_groups_mismatch''),
        (\<not> sameNullableArray (az_eligibleUsers a) users, ''eligible_users_mismatch''),
        (az_requiredApprovals a \<noteq> max 1 (coalesce (ap_requiredApprovals ap) 1), ''quorum_mismatch''),
        (az_separationOfDuties a \<noteq> coalesce (ap_separationOfDuties ap) False, ''separation_of_duties_mismatch''),
        (tc_status t \<noteq> PendingApproval, ''tool_call_status_mismatch'')])"

definition approvalAuthorizationExpired :: "env \<Rightarrow> authorization \<Rightarrow> int \<Rightarrow> bool" where
  \<comment> \<open>comparing with NaN is false\<close>
  "approvalAuthorizationExpired E a now =
     (case dateParse E (az_expiresAt a) of None \<Rightarrow> False | Some x \<Rightarrow> x \<le> now)"

end
