(* ===== verification/Attempts.thy ===== *)
theory Attempts
  imports ApprovalAuth
begin

text \<open>
  \<open>contracts/execution-attempt.ts\<close>: how an execution attempt is built from the tool call, the approval
  and the receipt it executes, and how the outcome of an attempt is recorded.
\<close>

definition EXECUTION_ATTEMPT_VERSION :: string where
  "EXECUTION_ATTEMPT_VERSION = ''actionproxy.execution-attempt.v1''"

record build_attempt_input =
  bt_approval :: "approval option"
  bt_executionMode :: execution_mode
  bt_id :: "string option"
  bt_inputHash :: string
  bt_now :: string
  bt_receipt :: "receipt option"
  bt_reservationOwner :: "string option"
  bt_toolCall :: tool_call

definition decisionIdentity_attempt :: "tool_call \<Rightarrow> string option \<times> string option" where
  \<comment> \<open>\<open>decisionId\<close> and \<open>version\<close>, \<open>None\<close> for null\<close>
  "decisionIdentity_attempt t =
     (let decision = jget (tc_decisionTrace t) ''decisionV1''
      in if \<not> isJsonObject decision then (None, None)
         else (jstring (jget decision ''decisionId''), jstring (jget decision ''version'')))"

definition result_source_json :: "tool_call \<Rightarrow> json" where
  \<comment> \<open>\<open>toolCall.resultSource ?? null\<close>\<close>
  "result_source_json t = (case tc_resultSource t of None \<Rightarrow> JNull | Some r \<Rightarrow> encode_result_source r)"

definition influence_binding_of :: "env \<Rightarrow> tool_call \<Rightarrow> string option" where
  "influence_binding_of E t =
     or_else (validContentInfluenceBindingHash E (tc_contentInfluence t))
             (if tc_contentInfluence t \<noteq> None then Some ''invalid'' else None)"

definition buildExecutionAttempt :: "env \<Rightarrow> string \<Rightarrow> string \<Rightarrow> build_attempt_input \<Rightarrow> attempt" where
  \<comment> \<open>\<open>freshId\<close> and \<open>freshOwner\<close> are the identifiers made from \<open>randomUUID()\<close>\<close>
  "buildExecutionAttempt E freshId freshOwner i =
     (let t = bt_toolCall i; decision = decisionIdentity_attempt t;
          authorization = Option.bind (bt_approval i) ap_authorization
      in \<lparr>at_attemptNumber = 1,
          at_binding =
            \<lparr>ab_actionEnvelopeHash = tc_actionEnvelopeHash t,
             ab_approvalAuthorizationHash = map_option az_authorizationHash authorization,
             ab_approvalAuthorizationNonce = map_option az_nonce authorization,
             ab_approvalId = or_else (map_option ap_id (bt_approval i)) (Option.bind (bt_receipt i) rc_approvalId),
             ab_canonicalActionRequestHash = tc_canonicalActionRequestHash t,
             ab_canonicalActionRequestVersion = tc_canonicalActionRequestVersion t,
             ab_canonicalDecisionInputHash = tc_canonicalDecisionInputHash t,
             ab_contentInfluenceBindingHash = Some (influence_binding_of E t),
             ab_decisionId = fst decision, ab_decisionVersion = snd decision,
             ab_influenceScopeId = Some (tc_influenceScopeId t),
             ab_policyVersionHash = tc_policyVersionHash t,
             ab_receiptHash = map_option rc_receiptHash (bt_receipt i),
             ab_receiptId = map_option rc_id (bt_receipt i),
             ab_resultSourceHash = Some (hashJson E (result_source_json t))\<rparr>,
          at_completedAt = None, at_dispatchedAt = None,
          at_executionMode = bt_executionMode i,
          at_executorId = (if bt_executionMode i = ExternalGrant then ''actionproxy.external-runner''
                           else ''actionproxy.local-tool-registry''),
          at_grantId = None, at_id = coalesce (bt_id i) freshId, at_inputHash = bt_inputHash i,
          at_outcome = None, at_providerIdempotency = ''none'', at_reservedAt = bt_now i,
          at_reservationOwner = coalesce (bt_reservationOwner i) freshOwner,
          at_retryPolicy = ''never_automatic'', at_state = Reserved, at_toolCallId = tc_id t,
          at_updatedAt = bt_now i, at_version = EXECUTION_ATTEMPT_VERSION,
          at_workspaceId = coalesce (tc_workspaceId t) ''default''\<rparr>)"

record attempt_outcome_input =
  oi_errorClass :: "string option"
  oi_errorCode :: "string option"
  oi_errorMessage :: "string option"
  oi_remediation :: json
  oi_recordedAt :: string
  oi_result :: json
  oi_resultDelivery :: json

definition hashOptional :: "env \<Rightarrow> json \<Rightarrow> string option" where
  \<comment> \<open>\<open>value === undefined ? null : hashJson(value)\<close>\<close>
  "hashOptional E v = (if v = JUndef then None else Some (hashJson E v))"

definition executionAttemptOutcome :: "env \<Rightarrow> attempt_state \<Rightarrow> attempt_outcome_input \<Rightarrow> attempt_outcome" where
  "executionAttemptOutcome E status i =
     (let uncertain = (status = TimedOut \<or> status = UnknownOutcome)
      in \<lparr>ao_certainty = (if uncertain then Unknown else Known),
          ao_errorClass = oi_errorClass i, ao_errorCode = oi_errorCode i, ao_errorMessage = oi_errorMessage i,
          ao_remediationHash = hashOptional E (oi_remediation i), ao_recordedAt = oi_recordedAt i,
          ao_resultDeliveryHash = hashOptional E (oi_resultDelivery i),
          ao_resultHash = hashOptional E (oi_result i),
          ao_retryDisposition = (if uncertain then ManualReconciliationRequired
             else if status = FailedBeforeDispatch then ExplicitNewAttemptRequired else NoRetry),
          ao_status = status\<rparr>)"

definition isExecutionAttemptTerminal :: "attempt_state \<Rightarrow> bool" where
  "isExecutionAttemptTerminal s = (s \<noteq> Reserved \<and> s \<noteq> Dispatched)"

lemma isExecutionAttemptTerminal_simps [simp]:
  "\<not> isExecutionAttemptTerminal Reserved" "\<not> isExecutionAttemptTerminal Dispatched"
  "isExecutionAttemptTerminal Succeeded" "isExecutionAttemptTerminal FailedBeforeDispatch"
  "isExecutionAttemptTerminal FailedAfterDispatch" "isExecutionAttemptTerminal TimedOut"
  "isExecutionAttemptTerminal Cancelled" "isExecutionAttemptTerminal UnknownOutcome"
  by (simp_all add: isExecutionAttemptTerminal_def)

end
