(* ===== verification/Directory.thy ===== *)
theory Directory
  imports Models
begin

text \<open>
  The directory records of \<open>models.ts\<close> (deliveries, approvers, workspaces, service accounts, API keys,
  observed tools) and the approver identity constraint of \<open>storage/approver-principal-constraint.ts\<close>.
\<close>

record delivery =
  dl_id :: string
  dl_workspaceId :: "string option"
  dl_approvalId :: string
  dl_toolCallId :: string
  dl_channelId :: string
  dl_provider :: string
  dl_status :: string
  dl_messageId :: "string option"
  dl_destination :: "string option"
  dl_error :: "string option"
  dl_recipientEmail :: "string option"
  dl_recipientSlackUserId :: "string option"
  dl_recipientTelegramChatId :: "string option"
  dl_recipientTelegramUserId :: "string option"
  dl_recipientUserId :: "string option"
  dl_data :: json
  dl_createdAt :: string
  dl_updatedAt :: string

record approver_user =
  us_id :: string
  us_workspaceId :: string
  us_displayName :: string
  us_email :: "string option"
  us_principalId :: "string option"
  us_slackUserId :: "string option"
  us_telegramChatId :: "string option"
  us_telegramUsername :: "string option"
  us_telegramUserId :: "string option"
  us_groups :: "string list"
  us_defaultApprover :: bool
  us_enabled :: bool
  us_createdAt :: string
  us_updatedAt :: string

record approver_group =
  gp_id :: string
  gp_workspaceId :: string
  gp_displayName :: string
  gp_description :: "string option"
  gp_enabled :: bool
  gp_createdAt :: string
  gp_updatedAt :: string

record service_account =
  sa_id :: string
  sa_workspaceId :: string
  sa_name :: string
  sa_description :: "string option"
  sa_groups :: "string list"
  sa_scopes :: "string list"
  sa_createdAt :: string
  sa_updatedAt :: string
  sa_revokedAt :: "string option"

record api_key =
  ak_id :: string
  ak_workspaceId :: string
  ak_serviceAccountId :: string
  ak_keyPrefix :: string
  ak_keyHash :: string
  ak_scopes :: "string list"
  ak_createdAt :: string
  ak_lastUsedAt :: "string option"
  ak_revokedAt :: "string option"

record workspace =
  ws_id :: string
  ws_name :: string
  ws_createdAt :: string

record workspace_user =
  wu_id :: string
  wu_workspaceId :: string
  wu_principalId :: string
  wu_displayName :: string
  wu_email :: "string option"
  wu_createdAt :: string
  wu_updatedAt :: string

record observed_tool =
  ot_id :: string
  ot_workspaceId :: string
  ot_toolName :: string
  ot_sources :: "string list"
  ot_sourceIds :: json
  ot_firstSeenAt :: string
  ot_lastSeenAt :: string
  ot_callCount :: int
  ot_schemaChange :: json
  ot_schemaHash :: "string option"
  ot_coverage :: json
  ot_status :: string
  ot_suggestion :: json
  ot_createdAt :: string
  ot_updatedAt :: string

section \<open>Approver identities\<close>

definition approverEffectiveIdentity :: "approver_user \<Rightarrow> string" where
  "approverEffectiveIdentity u =
     (case us_principalId u of None \<Rightarrow> us_id u | Some p \<Rightarrow> if p = [] then us_id u else p)"

datatype approver_conflict = ApproverPrincipalConflict

definition assertApproverPrincipalAvailable ::
  "approver_user list \<Rightarrow> approver_user \<Rightarrow> approver_conflict + unit" where
  "assertApproverPrincipalAvailable users r =
     (if list_ex (\<lambda>existing. us_workspaceId existing = us_workspaceId r \<and> us_id existing \<noteq> us_id r
           \<and> approverEffectiveIdentity existing = approverEffectiveIdentity r) users
      then Inl ApproverPrincipalConflict else Inr ())"

end
