(* ===== verification/StoreState.thy ===== *)
theory StoreState
  imports Attempts Directory
begin

text \<open>
  The state of \<open>MemoryStore\<close> (\<open>storage/memory-store.ts\<close>) and its plain collections: what is written,
  read and listed without further conditions, the idempotent creation of tool calls, and the
  per-scope index of content exposures. Each operation is one uninterrupted step: the bodies of
  the class never await.
\<close>

section \<open>State\<close>

record exposure_scope =
  sc_orderedPrefix :: "exposure list"
  sc_records :: "(string, exposure) jsmap"
  sc_revision :: nat

record store =
  st_toolCalls :: "(string, tool_call) jsmap"
  st_contentExposureScopes :: "(string, exposure_scope) jsmap"
  st_approvals :: "(string, approval) jsmap"
  st_approvalDeliveries :: "(string, delivery) jsmap"
  st_approverUsers :: "(string, approver_user) jsmap"
  st_approverGroups :: "(string, approver_group) jsmap"
  st_workspaces :: "(string, workspace) jsmap"
  st_workspaceUsers :: "(string, workspace_user) jsmap"
  st_serviceAccounts :: "(string, service_account) jsmap"
  st_apiKeys :: "(string, api_key) jsmap"
  st_executionGrants :: "(string, grant) jsmap"
  st_executionAttempts :: "(string, attempt) jsmap"
  st_executionAttemptByToolCall :: "(string, string) jsmap"
  st_actionReceipts :: "(string, receipt) jsmap"
  st_idempotency :: "(string, idempotency) jsmap"
  st_observedTools :: "(string, observed_tool) jsmap"

definition empty_store :: store where
  "empty_store = \<lparr>st_toolCalls = [], st_contentExposureScopes = [], st_approvals = [],
     st_approvalDeliveries = [], st_approverUsers = [], st_approverGroups = [], st_workspaces = [],
     st_workspaceUsers = [], st_serviceAccounts = [], st_apiKeys = [], st_executionGrants = [],
     st_executionAttempts = [], st_executionAttemptByToolCall = [], st_actionReceipts = [],
     st_idempotency = [], st_observedTools = []\<rparr>"

section \<open>Keys\<close>

definition json_string_array :: "string list \<Rightarrow> string" where
  \<comment> \<open>\<open>JSON.stringify([...])\<close> of strings\<close>
  "json_string_array xs = ''['' @ join_with '','' (map json_quote xs) @ '']''"

definition idempotencyKey :: "string \<Rightarrow> string \<Rightarrow> string \<Rightarrow> string" where
  "idempotencyKey workspaceId route key = json_string_array [workspaceId, route, key]"

definition executionAttemptToolCallKey :: "string \<Rightarrow> string \<Rightarrow> string" where
  "executionAttemptToolCallKey workspaceId toolCallId = json_string_array [workspaceId, toolCallId]"

definition contentExposureScopeKey :: "string \<Rightarrow> string \<Rightarrow> string" where
  "contentExposureScopeKey workspaceId influenceScopeId = json_string_array [workspaceId, influenceScopeId]"

definition workspaceKey :: "string \<Rightarrow> string \<Rightarrow> string" where
  "workspaceKey workspaceId i = workspaceId @ '':'' @ i"

definition default_ws :: "string option \<Rightarrow> string" where
  \<comment> \<open>\<open>workspaceId ?? 'default'\<close>\<close>
  "default_ws w = coalesce w ''default''"

section \<open>Reading lists\<close>

definition js_take :: "int \<Rightarrow> 'a list \<Rightarrow> 'a list" where
  \<comment> \<open>\<open>xs.slice(0, n)\<close>\<close>
  "js_take n xs = (if 0 \<le> n then take (nat n) xs else take (length xs - nat (- n)) xs)"

definition newest_first :: "env \<Rightarrow> ('a \<Rightarrow> string) \<Rightarrow> 'a list \<Rightarrow> 'a list" where
  "newest_first E created xs = js_sort (\<lambda>l r. localeCompare E (created r) (created l)) xs"

definition by_display_name :: "env \<Rightarrow> ('a \<Rightarrow> string) \<Rightarrow> 'a list \<Rightarrow> 'a list" where
  "by_display_name E name xs = js_sort (\<lambda>l r. localeCompare E (name l) (name r)) xs"

definition unless_given :: "string option \<Rightarrow> bool \<Rightarrow> bool" where
  \<comment> \<open>\<open>!filter || condition\<close>\<close>
  "unless_given f c = (\<not> truthy f \<or> c)"

section \<open>Tool calls\<close>

definition createToolCall :: "tool_call \<Rightarrow> store \<Rightarrow> store" where
  "createToolCall r s = s\<lparr>st_toolCalls := jm_set (tc_id r) r (st_toolCalls s)\<rparr>"

definition updateToolCall :: "tool_call \<Rightarrow> store \<Rightarrow> store" where
  "updateToolCall r s = s\<lparr>st_toolCalls := jm_set (tc_id r) r (st_toolCalls s)\<rparr>"

definition getToolCall :: "store \<Rightarrow> string \<Rightarrow> tool_call option" where
  "getToolCall s i = jm_get (st_toolCalls s) i"

datatype store_error =
    IdempotencyCandidateMismatch
  | IdempotencyDanglingToolCall string
  | ToolCallExistsWithoutReservation string
  | IntegrityCheckFailed "string list"
  | DigestTypeError
  | ApproverConflict

datatype idempotent_outcome = Id_Conflict | Id_Created | Id_Replay

record idempotent_result =
  ir_idempotency :: idempotency
  ir_outcome :: idempotent_outcome
  ir_toolCall :: tool_call

definition assertIdempotencyCandidate :: "idempotency \<Rightarrow> tool_call \<Rightarrow> store_error + unit" where
  "assertIdempotencyCandidate i t =
     (if id_toolCallId i \<noteq> tc_id t \<or> id_workspaceId i \<noteq> default_ws (tc_workspaceId t)
      then Inl IdempotencyCandidateMismatch else Inr ())"

definition createToolCallIdempotentlyAtomically ::
  "idempotency \<Rightarrow> tool_call \<Rightarrow> store \<Rightarrow> (store_error + idempotent_result) \<times> store" where
  "createToolCallIdempotentlyAtomically i t s =
     (case assertIdempotencyCandidate i t of
        Inl e \<Rightarrow> (Inl e, s)
      | Inr _ \<Rightarrow>
          let key = idempotencyKey (id_workspaceId i) (id_route i) (id_key i)
          in case jm_get (st_idempotency s) key of
               Some current \<Rightarrow>
                 (case jm_get (st_toolCalls s) (id_toolCallId current) of
                    None \<Rightarrow> (Inl (IdempotencyDanglingToolCall (id_toolCallId current)), s)
                  | Some toolCall \<Rightarrow>
                      (Inr \<lparr>ir_idempotency = current,
                            ir_outcome = (if id_requestHash current = id_requestHash i then Id_Replay else Id_Conflict),
                            ir_toolCall = toolCall\<rparr>, s))
             | None \<Rightarrow>
                 if jm_has (st_toolCalls s) (tc_id t)
                 then (Inl (ToolCallExistsWithoutReservation (tc_id t)), s)
                 else (Inr \<lparr>ir_idempotency = i, ir_outcome = Id_Created, ir_toolCall = t\<rparr>,
                       s\<lparr>st_toolCalls := jm_set (tc_id t) t (st_toolCalls s),
                         st_idempotency := jm_set key i (st_idempotency s)\<rparr>))"

definition toolCallForensicSessionValue :: "tool_call \<Rightarrow> string \<Rightarrow> string option" where
  "toolCallForensicSessionValue t field =
     (let evidence = jget (tc_decisionTrace t) ''canonicalRequestEvidence'';
          session = (if isJsonObject evidence then jget evidence ''session'' else JUndef);
          value = (if isJsonObject session then jget session ''value'' else JUndef);
          canonicalValue = (if isJsonObject value then jget value field else JUndef)
      in if canonicalValue \<noteq> JUndef then jstring canonicalValue
         else jstring (jget (tc_metadata t) field))"

record list_tool_calls_filters =
  lf_decision :: "policy_decision option"
  lf_limit :: "int option"
  lf_runId :: "string option"
  lf_sessionId :: "string option"
  lf_status :: "tool_call_status option"
  lf_toolName :: "string option"
  lf_workspaceId :: "string option"

definition listToolCalls :: "env \<Rightarrow> list_tool_calls_filters \<Rightarrow> store \<Rightarrow> tool_call list" where
  "listToolCalls E f s =
     js_take (coalesce (lf_limit f) 100) (newest_first E tc_createdAt
       (filter (\<lambda>t. unless_given (lf_toolName f) (Some (tc_toolName t) = lf_toolName f))
       (filter (\<lambda>t. lf_decision f = None \<or> tc_decision t = lf_decision f)
       (filter (\<lambda>t. lf_status f = None \<or> Some (tc_status t) = lf_status f)
       (filter (\<lambda>t. unless_given (lf_runId f) (toolCallForensicSessionValue t ''runId'' = lf_runId f))
       (filter (\<lambda>t. unless_given (lf_sessionId f) (toolCallForensicSessionValue t ''sessionId'' = lf_sessionId f))
       (filter (\<lambda>t. unless_given (lf_workspaceId f) (tc_workspaceId t = lf_workspaceId f))
         (jm_values (st_toolCalls s)))))))))"

section \<open>Content exposures\<close>

definition MAX_MEMORY_EXPOSURE_PREFIX :: nat where
  "MAX_MEMORY_EXPOSURE_PREFIX = 1001"

definition compareContentExposure :: "env \<Rightarrow> exposure \<Rightarrow> exposure \<Rightarrow> int" where
  "compareContentExposure E l r =
     or_compare (localeCompare E (ex_observedAt l) (ex_observedAt r))
                (localeCompare E (ex_sourceToolCallId l) (ex_sourceToolCallId r))"

definition sameContentExposureEvidence :: "exposure \<Rightarrow> exposure \<Rightarrow> bool" where
  "sameContentExposureEvidence l r =
     (ex_integrity l = ex_integrity r \<and> ex_sourceId l = ex_sourceId r
      \<and> ex_policyVersionHash l = ex_policyVersionHash r)"

function bisect :: "env \<Rightarrow> exposure list \<Rightarrow> exposure \<Rightarrow> nat \<Rightarrow> nat \<Rightarrow> nat" where
  \<comment> \<open>the loop of \<open>insertIntoBoundedExposurePrefix\<close>\<close>
  "bisect E prefix r low high =
     (if low < high then
        let middle = (low + high) div 2
        in if compareContentExposure E (prefix ! middle) r \<le> 0 then bisect E prefix r (middle + 1) high
           else bisect E prefix r low middle
      else low)"
  by pat_completeness auto
termination
  by (relation "measure (\<lambda>(E, prefix, r, low, high). high - low)") auto

declare bisect.simps [simp del]

definition insertIntoBoundedExposurePrefix :: "env \<Rightarrow> exposure list \<Rightarrow> exposure \<Rightarrow> exposure list" where
  "insertIntoBoundedExposurePrefix E prefix r =
     (let low = bisect E prefix r 0 (length prefix)
      in if MAX_MEMORY_EXPOSURE_PREFIX \<le> low then prefix
         else let spliced = take low prefix @ r # drop low prefix
              in if MAX_MEMORY_EXPOSURE_PREFIX < length spliced then butlast spliced else spliced)"

datatype exposure_outcome = Ex_Conflict | Ex_Created | Ex_Replay

definition empty_scope :: exposure_scope where
  "empty_scope = \<lparr>sc_orderedPrefix = [], sc_records = [], sc_revision = 0\<rparr>"

definition recordContentExposure :: "env \<Rightarrow> exposure \<Rightarrow> store \<Rightarrow> exposure_outcome \<times> store" where
  "recordContentExposure E r s =
     (let scopeKey = contentExposureScopeKey (ex_workspaceId r) (ex_influenceScopeId r);
          scope = coalesce (jm_get (st_contentExposureScopes s) scopeKey) empty_scope
      in case jm_get (sc_records scope) (ex_sourceToolCallId r) of
           Some current \<Rightarrow> (if sameContentExposureEvidence current r then Ex_Replay else Ex_Conflict, s)
         | None \<Rightarrow>
             (Ex_Created, s\<lparr>st_contentExposureScopes := jm_set scopeKey
                \<lparr>sc_orderedPrefix = insertIntoBoundedExposurePrefix E (sc_orderedPrefix scope) r,
                 sc_records = jm_set (ex_sourceToolCallId r) r (sc_records scope),
                 sc_revision = sc_revision scope + 1\<rparr> (st_contentExposureScopes s)\<rparr>))"

definition num_trunc :: "jsnum \<Rightarrow> int" where
  \<comment> \<open>\<open>Math.trunc\<close> of a finite number\<close>
  "num_trunc n = (case n of
       Dec m e \<Rightarrow> if 0 \<le> e then m * 10 ^ nat e else sgn m * (\<bar>m\<bar> div 10 ^ nat (- e))
     | _ \<Rightarrow> 0)"

definition contentExposureLimit :: "jsnum \<Rightarrow> nat" where
  "contentExposureLimit limit =
     (if num_isFinite limit then nat (min 1000 (max 1 (num_trunc limit))) else 100)"

definition listContentExposures :: "list_exposures_input \<Rightarrow> store \<Rightarrow> list_exposures_result" where
  "listContentExposures i s =
     (let limit = contentExposureLimit (le_limit i);
          scope = jm_get (st_contentExposureScopes s)
                    (contentExposureScopeKey (le_workspaceId i) (le_influenceScopeId i));
          candidates = (case scope of None \<Rightarrow> [] | Some sc \<Rightarrow> take (limit + 1) (sc_orderedPrefix sc));
          revision = (case scope of None \<Rightarrow> 0 | Some sc \<Rightarrow> sc_revision sc)
      in \<lparr>lr_overflow = limit < revision, lr_records = take limit candidates, lr_revision = int revision\<rparr>)"

definition contentExposureRevisionMatches :: "store \<Rightarrow> string \<Rightarrow> revision_guard option \<Rightarrow> bool" where
  "contentExposureRevisionMatches s workspaceId expected =
     (case expected of
        None \<Rightarrow> True
      | Some g \<Rightarrow>
          int (case jm_get (st_contentExposureScopes s) (contentExposureScopeKey workspaceId (rg_influenceScopeId g)) of
                 None \<Rightarrow> 0 | Some sc \<Rightarrow> sc_revision sc) = rg_revision g)"

section \<open>Approvals, grants, receipts, attempts: plain access\<close>

definition createApproval :: "approval \<Rightarrow> store \<Rightarrow> store" where
  "createApproval r s = s\<lparr>st_approvals := jm_set (ap_id r) r (st_approvals s)\<rparr>"

definition updateApproval :: "approval \<Rightarrow> store \<Rightarrow> store" where
  "updateApproval r s = s\<lparr>st_approvals := jm_set (ap_id r) r (st_approvals s)\<rparr>"

definition getApproval :: "store \<Rightarrow> string \<Rightarrow> approval option" where
  "getApproval s i = jm_get (st_approvals s) i"

definition getApprovalByToolCallId :: "store \<Rightarrow> string \<Rightarrow> approval option" where
  "getApprovalByToolCallId s i = List.find (\<lambda>a. ap_toolCallId a = i) (jm_values (st_approvals s))"

definition listPendingApprovals :: "store \<Rightarrow> approval list" where
  "listPendingApprovals s = filter (\<lambda>a. ap_status a = Approval_Pending) (jm_values (st_approvals s))"

definition createExecutionGrant :: "grant \<Rightarrow> store \<Rightarrow> store" where
  "createExecutionGrant r s = s\<lparr>st_executionGrants := jm_set (gr_id r) r (st_executionGrants s)\<rparr>"

definition updateExecutionGrant :: "grant \<Rightarrow> store \<Rightarrow> store" where
  "updateExecutionGrant r s = s\<lparr>st_executionGrants := jm_set (gr_id r) r (st_executionGrants s)\<rparr>"

definition getExecutionGrant :: "store \<Rightarrow> string \<Rightarrow> grant option" where
  "getExecutionGrant s i = jm_get (st_executionGrants s) i"

definition listExecutionGrants :: "env \<Rightarrow> int option \<Rightarrow> string option \<Rightarrow> store \<Rightarrow> grant list" where
  "listExecutionGrants E limit workspaceId s =
     js_take (coalesce limit 100) (newest_first E gr_createdAt
       (filter (\<lambda>g. unless_given workspaceId (Some (gr_workspaceId g) = workspaceId))
         (jm_values (st_executionGrants s))))"

definition consumeExecutionGrantAtomically :: "string \<Rightarrow> string \<Rightarrow> store \<Rightarrow> grant option \<times> store" where
  "consumeExecutionGrantAtomically i consumedAt s =
     (case jm_get (st_executionGrants s) i of
        None \<Rightarrow> (None, s)
      | Some current \<Rightarrow>
          if truthy (gr_consumedAt current) then (None, s)
          else let consumed = current\<lparr>gr_consumedAt := Some consumedAt\<rparr>
               in (Some consumed, s\<lparr>st_executionGrants := jm_set i consumed (st_executionGrants s)\<rparr>))"

definition createActionReceipt :: "receipt \<Rightarrow> store \<Rightarrow> store" where
  "createActionReceipt r s = s\<lparr>st_actionReceipts := jm_set (rc_id r) r (st_actionReceipts s)\<rparr>"

definition updateActionReceipt :: "receipt \<Rightarrow> store \<Rightarrow> store" where
  "updateActionReceipt r s = s\<lparr>st_actionReceipts := jm_set (rc_id r) r (st_actionReceipts s)\<rparr>"

definition getActionReceipt :: "store \<Rightarrow> string \<Rightarrow> receipt option" where
  "getActionReceipt s i = jm_get (st_actionReceipts s) i"

definition getActionReceiptByToolCallId :: "store \<Rightarrow> string \<Rightarrow> receipt option" where
  "getActionReceiptByToolCallId s i =
     List.find (\<lambda>r. rc_toolCallId r = i) (jm_values (st_actionReceipts s))"

datatype receipt_outcome_result = Ro_Existing | Ro_NotFound | Ro_Recorded

definition recordActionReceiptOutcomeAtomically ::
  "string \<Rightarrow> receipt_outcome \<Rightarrow> store \<Rightarrow> (receipt_outcome_result \<times> receipt option) \<times> store" where
  "recordActionReceiptOutcomeAtomically receiptId outcome s =
     (case jm_get (st_actionReceipts s) receiptId of
        None \<Rightarrow> ((Ro_NotFound, None), s)
      | Some current \<Rightarrow>
          if rc_outcome current \<noteq> None then ((Ro_Existing, Some current), s)
          else let r = current\<lparr>rc_outcome := Some outcome\<rparr>
               in ((Ro_Recorded, Some r), s\<lparr>st_actionReceipts := jm_set (rc_id r) r (st_actionReceipts s)\<rparr>))"

definition createIdempotencyRecord :: "idempotency \<Rightarrow> store \<Rightarrow> store" where
  "createIdempotencyRecord r s =
     s\<lparr>st_idempotency := jm_set (idempotencyKey (id_workspaceId r) (id_route r) (id_key r)) r (st_idempotency s)\<rparr>"

definition getIdempotencyRecord :: "store \<Rightarrow> string \<Rightarrow> string \<Rightarrow> string \<Rightarrow> idempotency option" where
  "getIdempotencyRecord s workspaceId route key = jm_get (st_idempotency s) (idempotencyKey workspaceId route key)"

end
