(* ===== verification/StoreExposure.thy ===== *)
theory StoreExposure
  imports StoreState
begin

text \<open>
  The bounded, ordered index of content exposures: what \<open>recordContentExposure\<close> maintains by binary
  search in a prefix of 1001 records is what sorting all recorded exposures would give, so that
  \<open>listContentExposures\<close> answers as if nothing had been dropped.
\<close>

section \<open>Sorting and insertion at the end of a run\<close>

context comparator
begin

definition insert_after :: "'a \<Rightarrow> 'a list \<Rightarrow> 'a list" where
  "insert_after r ys = takeWhile (\<lambda>y. cmp y r \<le> 0) ys @ r # dropWhile (\<lambda>y. cmp y r \<le> 0) ys"

lemma insert_after_simps [simp]:
  "insert_after r [] = [r]"
  "insert_after r (y # ys) = (if cmp y r \<le> 0 then y # insert_after r ys else r # y # ys)"
  by (simp_all add: insert_after_def)

lemma insert_insert_after: "js_insert cmp x (insert_after r ys) = insert_after r (js_insert cmp x ys)"
proof (induction ys)
  case Nil
  then show ?case by simp
next
  case (Cons y ys)
  consider "cmp x y \<le> 0" "cmp y r \<le> 0" | "cmp x y \<le> 0" "\<not> cmp y r \<le> 0"
    | "\<not> cmp x y \<le> 0" "cmp y r \<le> 0" | "\<not> cmp x y \<le> 0" "\<not> cmp y r \<le> 0" by blast
  then show ?case
  proof cases
    case 1 then show ?thesis using trans [of x y r] by simp
  next
    case 2 then show ?thesis by simp
  next
    case 3 then show ?thesis using Cons by simp
  next
    case 4
    then have "cmp y x \<le> 0" "cmp r y \<le> 0" by (auto intro: total)
    then have "\<not> cmp x r \<le> 0" using 4 trans [of x r y] by blast
    with 4 show ?thesis by simp
  qed
qed

lemma sort_append: "js_sort cmp (xs @ [r]) = insert_after r (js_sort cmp xs)"
  by (induction xs) (simp_all add: insert_insert_after)

lemma takeWhile_length_sorted:
  assumes "sorted_wrt (\<lambda>x y. cmp x y \<le> 0) ys"
  shows "i < length ys \<Longrightarrow> cmp (ys ! i) r \<le> 0 \<longleftrightarrow> i < length (takeWhile (\<lambda>y. cmp y r \<le> 0) ys)"
  using assms
proof (induction ys arbitrary: i)
  case (Cons y ys)
  show ?case
  proof (cases "cmp y r \<le> 0")
    case True
    with Cons show ?thesis by (cases i) auto
  next
    case False
    have "\<not> cmp ((y # ys) ! i) r \<le> 0"
    proof (cases i)
      case (Suc j)
      with Cons.prems have "cmp y (ys ! j) \<le> 0" by auto
      with False Suc show ?thesis using trans [of y "ys ! j" r] by auto
    qed (use False in simp)
    with False show ?thesis by simp
  qed
qed simp

lemma take_insert_after:
  "take k (insert_after r ys) =
     (let low = length (takeWhile (\<lambda>y. cmp y r \<le> 0) (take k ys))
      in if k \<le> low then take k ys else take k (take low (take k ys) @ r # drop low (take k ys)))"
proof (induction ys arbitrary: k)
  case Nil
  then show ?case by (cases k) simp_all
next
  case (Cons y ys)
  show ?case
  proof (cases k)
    case (Suc j)
    show ?thesis
    proof (cases "cmp y r \<le> 0")
      case True
      with Suc Cons.IH [of j] show ?thesis by (simp add: Let_def)
    next
      case False
      with Suc show ?thesis by (cases j) simp_all
    qed
  qed simp
qed

end

lemma or_compare_comparator:
  assumes "comparator f" and "comparator g"
  shows "comparator (\<lambda>x y. or_compare (f x y) (g x y))"
proof
  fix x y z
  have zero: "f x y = 0 \<longleftrightarrow> f y x = 0" for x y
    using comparator.flip [OF assms(1), of x y] comparator.flip [OF assms(1), of y x] by linarith
  show "or_compare (f x y) (g x y) \<le> 0 \<longleftrightarrow> 0 \<le> or_compare (f y x) (g y x)"
    using comparator.flip [OF assms(1), of x y] comparator.flip [OF assms(2), of x y] zero [of x y]
    by (auto simp: or_compare_def)
  assume "or_compare (f x y) (g x y) \<le> 0" "or_compare (f y z) (g y z) \<le> 0"
  moreover have "f x z = 0 \<Longrightarrow> f x y \<le> 0 \<Longrightarrow> f y z \<le> 0 \<Longrightarrow> f x y = 0 \<and> f y z = 0"
    using zero comparator.trans [OF assms(1)] comparator.flip [OF assms(1)] by (smt (verit, best))
  ultimately show "or_compare (f x z) (g x z) \<le> 0"
    using comparator.trans [OF assms(1), of x y z] comparator.trans [OF assms(2), of x y z]
    by (auto simp: or_compare_def split: if_splits)
qed

section \<open>The bounded prefix\<close>

lemma exposure_comparator:
  "comparator (localeCompare E) \<Longrightarrow> comparator (compareContentExposure E)"
  unfolding compareContentExposure_def
  by (rule or_compare_comparator) (rule comparator.comparator_vimage, assumption)+

definition at_or_before :: "env \<Rightarrow> exposure \<Rightarrow> exposure list \<Rightarrow> nat" where
  \<comment> \<open>how many records of a sorted list are not after \<open>r\<close>\<close>
  "at_or_before E r ys = length (takeWhile (\<lambda>y. compareContentExposure E y r \<le> 0) ys)"

lemma bisect_correct:
  "comparator (compareContentExposure E)
    \<Longrightarrow> sorted_wrt (\<lambda>x y. compareContentExposure E x y \<le> 0) prefix
    \<Longrightarrow> low \<le> at_or_before E r prefix \<Longrightarrow> at_or_before E r prefix \<le> high \<Longrightarrow> high \<le> length prefix
    \<Longrightarrow> bisect E prefix r low high = at_or_before E r prefix"
proof (induction E prefix r low high rule: bisect.induct)
  case (1 E prefix r low high)
  show ?case
  proof (cases "low < high")
    case True
    let ?middle = "(low + high) div 2"
    have middle: "low \<le> ?middle" "?middle < high" using True by auto
    have iff: "compareContentExposure E (prefix ! ?middle) r \<le> 0 \<longleftrightarrow> ?middle < at_or_before E r prefix"
      unfolding at_or_before_def
      by (rule comparator.takeWhile_length_sorted [OF "1.prems"(1,2)]) (use "1.prems"(5) middle in simp)
    show ?thesis
    proof (cases "compareContentExposure E (prefix ! ?middle) r \<le> 0")
      case left: True
      with iff True "1.IH"(1) [OF True refl left] "1.prems" show ?thesis
        by (subst bisect.simps) (simp add: Let_def)
    next
      case right: False
      with iff True "1.IH"(2) [OF True refl right] "1.prems" middle show ?thesis
        by (subst bisect.simps) (simp add: Let_def)
    qed
  next
    case False
    with "1.prems" show ?thesis by (subst bisect.simps) simp
  qed
qed

lemma pop_take: "length xs = Suc m \<Longrightarrow> m \<le> k \<Longrightarrow> (if k < length xs then butlast xs else xs) = take k xs"
  by (auto simp: butlast_conv_take intro: arg_cong [where f = "\<lambda>i. take i xs"])

lemma insert_prefix:
  assumes "comparator (compareContentExposure E)"
    and "sorted_wrt (\<lambda>x y. compareContentExposure E x y \<le> 0) ys"
  shows "insertIntoBoundedExposurePrefix E (take MAX_MEMORY_EXPOSURE_PREFIX ys) r
    = take MAX_MEMORY_EXPOSURE_PREFIX (comparator.insert_after (compareContentExposure E) r ys)"
proof -
  let ?k = MAX_MEMORY_EXPOSURE_PREFIX and ?p = "take MAX_MEMORY_EXPOSURE_PREFIX ys"
  let ?low = "at_or_before E r ?p" and ?spliced = "\<lambda>n. take n ?p @ r # drop n ?p"
  have "sorted_wrt (\<lambda>x y. compareContentExposure E x y \<le> 0) ?p" using assms(2) by (rule sorted_wrt_take)
  moreover have len: "?low \<le> length ?p" unfolding at_or_before_def by (rule length_takeWhile_le)
  ultimately have low: "bisect E ?p r 0 (length ?p) = ?low"
    by (intro bisect_correct [OF assms(1)]) simp_all
  have pop: "(if ?k < length (?spliced ?low) then butlast (?spliced ?low) else ?spliced ?low) = take ?k (?spliced ?low)"
    by (rule pop_take [of _ "length ?p"]) (use len in simp_all)
  show ?thesis
    unfolding insertIntoBoundedExposurePrefix_def Let_def low pop
      comparator.take_insert_after [OF assms(1), of ?k r ys] at_or_before_def [symmetric] by (rule HOL.refl)
qed

section \<open>The index invariant\<close>

definition scope_sorted :: "env \<Rightarrow> exposure_scope \<Rightarrow> exposure list" where
  \<comment> \<open>all recorded exposures of the scope, in the order of the listing\<close>
  "scope_sorted E sc = js_sort (compareContentExposure E) (jm_values (sc_records sc))"

definition scope_ok :: "env \<Rightarrow> exposure_scope \<Rightarrow> bool" where
  "scope_ok E sc \<longleftrightarrow> sc_orderedPrefix sc = take MAX_MEMORY_EXPOSURE_PREFIX (scope_sorted E sc)
     \<and> sc_revision sc = length (sc_records sc)"

definition scopes_ok :: "env \<Rightarrow> store \<Rightarrow> bool" where
  "scopes_ok E s = (\<forall>k sc. jm_get (st_contentExposureScopes s) k = Some sc \<longrightarrow> scope_ok E sc)"

lemma scope_ok_empty: "scope_ok E empty_scope"
  by (simp add: scope_ok_def empty_scope_def scope_sorted_def jm_values_def)

lemma scope_ok_record:
  assumes "comparator (localeCompare E)" and "scope_ok E sc" and "jm_get (sc_records sc) k = None"
  shows "scope_ok E \<lparr>sc_orderedPrefix = insertIntoBoundedExposurePrefix E (sc_orderedPrefix sc) r,
    sc_records = jm_set k r (sc_records sc), sc_revision = sc_revision sc + 1\<rparr>"
proof -
  note cmp = exposure_comparator [OF assms(1)]
  have new: "jm_set k r (sc_records sc) = sc_records sc @ [(k, r)]"
    using assms(3) by (simp add: jm_set_new jm_has_def)
  have "js_sort (compareContentExposure E) (jm_values (sc_records sc) @ [r])
      = comparator.insert_after (compareContentExposure E) r (scope_sorted E sc)"
    by (simp add: scope_sorted_def comparator.sort_append [OF cmp])
  moreover have "insertIntoBoundedExposurePrefix E (sc_orderedPrefix sc) r
      = take MAX_MEMORY_EXPOSURE_PREFIX (comparator.insert_after (compareContentExposure E) r (scope_sorted E sc))"
    using assms(2) insert_prefix [OF cmp, of "scope_sorted E sc" r] comparator.sorted_sort [OF cmp]
    by (simp add: scope_ok_def scope_sorted_def)
  ultimately show ?thesis
    using assms(2) by (simp add: scope_ok_def scope_sorted_def new jm_values_def)
qed

lemma record_scopes_ok:
  assumes "comparator (localeCompare E)" and "scopes_ok E s" and "recordContentExposure E r s = (out, s')"
  shows "scopes_ok E s'"
proof -
  let ?key = "contentExposureScopeKey (ex_workspaceId r) (ex_influenceScopeId r)"
  let ?sc = "coalesce (jm_get (st_contentExposureScopes s) ?key) empty_scope"
  have ok: "scope_ok E ?sc"
    using assms(2) scope_ok_empty by (cases "jm_get (st_contentExposureScopes s) ?key") (auto simp: scopes_ok_def)
  show ?thesis
  proof (cases "jm_get (sc_records ?sc) (ex_sourceToolCallId r)")
    case None
    with assms(2,3) scope_ok_record [OF assms(1) ok None, of r] show ?thesis
      by (auto simp: recordContentExposure_def Let_def scopes_ok_def split: if_splits)
  next
    case (Some x)
    with assms(2,3) show ?thesis by (auto simp: recordContentExposure_def Let_def)
  qed
qed

definition recorded :: "store \<Rightarrow> string \<Rightarrow> string \<Rightarrow> (string, exposure) jsmap" where
  \<comment> \<open>every exposure recorded for a scope, by source tool call\<close>
  "recorded s workspaceId influenceScopeId =
     sc_records (coalesce (jm_get (st_contentExposureScopes s)
       (contentExposureScopeKey workspaceId influenceScopeId)) empty_scope)"

lemma contentExposureLimit_range: "1 \<le> contentExposureLimit n \<and> contentExposureLimit n \<le> 1000"
  by (auto simp: contentExposureLimit_def nat_le_iff le_nat_iff)

lemma list_spec:
  assumes "scopes_ok E s"
  shows "listContentExposures i s =
    (let all_records = recorded s (le_workspaceId i) (le_influenceScopeId i);
         limit = contentExposureLimit (le_limit i)
     in \<lparr>lr_overflow = limit < length all_records,
         lr_records = take limit (js_sort (compareContentExposure E) (jm_values all_records)),
         lr_revision = int (length all_records)\<rparr>)"
proof (cases "jm_get (st_contentExposureScopes s) (contentExposureScopeKey (le_workspaceId i) (le_influenceScopeId i))")
  case None
  then show ?thesis by (simp add: listContentExposures_def recorded_def Let_def empty_scope_def jm_values_def)
next
  case (Some sc)
  with assms have "scope_ok E sc" by (auto simp: scopes_ok_def)
  with Some contentExposureLimit_range [of "le_limit i"] show ?thesis
    by (simp add: listContentExposures_def recorded_def Let_def scope_ok_def scope_sorted_def
        MAX_MEMORY_EXPOSURE_PREFIX_def min_def)
qed

lemma json_string_array_inj: "json_string_array xs = json_string_array ys \<Longrightarrow> length xs = length ys \<Longrightarrow> xs = ys"
proof -
  assume eq: "json_string_array xs = json_string_array ys" and len: "length xs = length ys"
  have "join_with '','' (map json_quote xs) @ '']'' = join_with '','' (map json_quote ys) @ '']''"
    using eq by (simp add: json_string_array_def)
  with len show "xs = ys"
  proof (induction xs ys rule: list_induct2)
    case (Cons x xs y ys)
    then show ?case
      using json_quote_inj [of x "[]" y "[]"] by (cases xs; cases ys) (auto dest: json_quote_inj)
  qed simp
qed

lemma key_inj [simp]:
  "executionAttemptToolCallKey w t = executionAttemptToolCallKey w' t' \<longleftrightarrow> w = w' \<and> t = t'"
  "contentExposureScopeKey w t = contentExposureScopeKey w' t' \<longleftrightarrow> w = w' \<and> t = t'"
  "idempotencyKey w r k = idempotencyKey w' r' k' \<longleftrightarrow> w = w' \<and> r = r' \<and> k = k'"
  by (auto simp: executionAttemptToolCallKey_def contentExposureScopeKey_def idempotencyKey_def
      dest: json_string_array_inj)

section \<open>Properties\<close>

lemma scopes_ok_empty: "scopes_ok E empty_store"
  by (simp add: scopes_ok_def empty_store_def)

lemma record_frame:
  assumes "recordContentExposure E r s = (out, s')"
  shows "recorded s' w i =
    (if out = Ex_Created \<and> w = ex_workspaceId r \<and> i = ex_influenceScopeId r
     then recorded s w i @ [(ex_sourceToolCallId r, r)] else recorded s w i)"
    "out = Ex_Created \<longleftrightarrow> jm_get (recorded s (ex_workspaceId r) (ex_influenceScopeId r)) (ex_sourceToolCallId r) = None"
    "out \<noteq> Ex_Created \<longrightarrow> s' = s"
proof -
  let ?key = "contentExposureScopeKey (ex_workspaceId r) (ex_influenceScopeId r)"
  let ?recs = "sc_records (coalesce (jm_get (st_contentExposureScopes s) ?key) empty_scope)"
  have all: "(recorded s' w i =
      (if out = Ex_Created \<and> w = ex_workspaceId r \<and> i = ex_influenceScopeId r
       then recorded s w i @ [(ex_sourceToolCallId r, r)] else recorded s w i))
    \<and> (out = Ex_Created \<longleftrightarrow> jm_get ?recs (ex_sourceToolCallId r) = None) \<and> (out \<noteq> Ex_Created \<longrightarrow> s' = s)"
  proof (cases "jm_get ?recs (ex_sourceToolCallId r)")
    case None
    with assms show ?thesis
      by (auto simp: recordContentExposure_def Let_def recorded_def jm_set_new jm_has_def)
  next
    case (Some x)
    with assms show ?thesis by (auto simp: recordContentExposure_def Let_def split: if_splits)
  qed
  then show "recorded s' w i =
    (if out = Ex_Created \<and> w = ex_workspaceId r \<and> i = ex_influenceScopeId r
     then recorded s w i @ [(ex_sourceToolCallId r, r)] else recorded s w i)"
    "out = Ex_Created \<longleftrightarrow> jm_get (recorded s (ex_workspaceId r) (ex_influenceScopeId r)) (ex_sourceToolCallId r) = None"
    "out \<noteq> Ex_Created \<longrightarrow> s' = s" by (simp_all add: recorded_def)
qed

fun record_all :: "env \<Rightarrow> exposure list \<Rightarrow> store \<Rightarrow> store" where
  \<comment> \<open>a run of \<open>recordContentExposure\<close> calls\<close>
  "record_all E [] s = s"
| "record_all E (r # rs) s = record_all E rs (snd (recordContentExposure E r s))"

lemma record_all_ok:
  "comparator (localeCompare E) \<Longrightarrow> scopes_ok E s \<Longrightarrow> scopes_ok E (record_all E rs s)"
  by (induction rs arbitrary: s) (auto intro: record_scopes_ok surjective_pairing)

text \<open>C18: however many exposures were recorded, and in whatever order, the listing of a scope is the first
  records of all recorded ones sorted by time and source; its overflow flag says exactly whether
  some were left out and its revision counts every recorded exposure. The bounded index loses nothing
  that a listing can show.\<close>

theorem listContentExposures_complete:
  assumes "comparator (localeCompare E)"
  shows "listContentExposures i (record_all E rs empty_store) =
    (let all_records = recorded (record_all E rs empty_store) (le_workspaceId i) (le_influenceScopeId i);
         limit = contentExposureLimit (le_limit i)
     in \<lparr>lr_overflow = limit < length all_records,
         lr_records = take limit (js_sort (compareContentExposure E) (jm_values all_records)),
         lr_revision = int (length all_records)\<rparr>)"
  by (rule list_spec) (rule record_all_ok [OF assms scopes_ok_empty])

definition sample_exposure :: "string \<Rightarrow> string \<Rightarrow> exposure" where
  "sample_exposure call at = \<lparr>ex_influenceScopeId = ''scope'', ex_integrity = PublicUntrusted,
     ex_observedAt = at, ex_policyVersionHash = ''p'', ex_sourceId = None, ex_sourceToolCallId = call,
     ex_workspaceId = ''default''\<rparr>"

definition sample_exposures :: "exposure list" where
  "sample_exposures = [sample_exposure ''b'' ''2'', sample_exposure ''a'' ''1'', sample_exposure ''b'' ''3'']"

theorem listContentExposures_complete_witness:
  "lr_revision (listContentExposures \<lparr>le_influenceScopeId = ''scope'', le_limit = Dec 1 0, le_workspaceId = ''default''\<rparr>
     (record_all text_env sample_exposures empty_store)) = 2"
proof -
  have "comparator (localeCompare text_env)"
    by (simp add: text_env_def code_units.comparator_axioms)
  moreover have "length (recorded (record_all text_env sample_exposures empty_store) ''default'' ''scope'') = 2"
    by code_simp
  ultimately show ?thesis
    using listContentExposures_complete [of text_env "\<lparr>le_influenceScopeId = ''scope'', le_limit = Dec 1 0,
        le_workspaceId = ''default''\<rparr>" sample_exposures] by (simp add: Let_def)
qed

end
