(* ===== verification/ApprovalAuthFacts.thy ===== *)
theory ApprovalAuthFacts
  imports ApprovalAuth
begin

text \<open>
  What an approval authorization guarantees: building gives an authorization that validates and
  that matches the records it was built from, and its hash determines everything it binds.
\<close>

section \<open>Sorted lists of identities\<close>

lemma set_sortedUnique [simp]: "set (sortedUnique xs) = set xs"
  by (simp add: sortedUnique_def)

lemma distinct_sortedUnique: "distinct (sortedUnique xs)"
proof -
  have "distinct (map (\<lambda>x. x) (js_sort codeUnitCompare (remdups xs)))"
    using distinct_map_mset [of "js_sort codeUnitCompare (remdups xs)" "remdups xs" "\<lambda>x. x"] by simp
  then show ?thesis by (simp add: sortedUnique_def)
qed

lemma sortedUnique_cong: "set xs = set ys \<Longrightarrow> sortedUnique xs = sortedUnique ys"
  unfolding sortedUnique_def
  by (rule code_units.sort_unique) (simp add: set_eq_iff_mset_remdups_eq)

lemma sameArray_eq [simp]: "sameArray l r \<longleftrightarrow> l = r"
proof (induction l arbitrary: r)
  case (Cons x xs)
  then show ?case by (cases r) (auto simp: sameArray_def)
qed (auto simp: sameArray_def)

lemma sameNullableArray_eq [simp]: "sameNullableArray l r \<longleftrightarrow> l = r"
  by (cases l; cases r) (simp_all add: sameNullableArray_def)

section \<open>Validity of an encoded authorization\<close>

lemma jget_Nil [simp]: "jget (JObj []) k = JUndef"
  by (simp add: jget_def)

lemma jget_Cons [simp]: "jget (JObj ((k, v) # kvs)) k' = (if k = k' then v else jget (JObj kvs) k')"
  by (simp add: jget_def)

lemma isPolicyDecision_name [simp]: "isPolicyDecision (JStr (decision_name d))"
  by (cases d) (simp_all add: isPolicyDecision_def decision_name_def)

lemma isNullableString_jnullable [simp]: "isNullableString (jnullable x)"
  by (cases x) (simp_all add: isNullableString_def)

lemma json_kind_simps [simp]:
  "isJsonObject (JObj kvs)" "isNonEmptyString (JStr s) \<longleftrightarrow> s \<noteq> []" "isStringArray (jstrings xs)"
  "finite_date E (JStr s) \<longleftrightarrow> dateParse E s \<noteq> None"
  by (simp_all add: isJsonObject_def isNonEmptyString_def isStringArray_def jstrings_def list_all_iff
      jstring_def finite_date_def)

lemma num_of_int_ge1: "num_isInteger (num_of_int n)" "num_lt (num_of_int n) (Dec 1 0) \<longleftrightarrow> n < 1"
proof -
  obtain m e where me: "num_of_int n = Dec m e" "0 \<le> e" "n = m * 10 ^ nat e"
    using num_of_int_Dec [of n] scaled_num_of_int [of n] by metis
  then show "num_isInteger (num_of_int n)" "num_lt (num_of_int n) (Dec 1 0) \<longleftrightarrow> n < 1"
    by (simp_all add: num_isInteger_def scaled_def min_def)
qed

lemma json_integer_jint [simp]: "json_integer_ge1 (jint n) \<longleftrightarrow> 1 \<le> n"
  by (auto simp: json_integer_ge1_def jint_def num_of_int_ge1)

lemma jstrings_simps [simp]: "clean (jstrings xs)" "plain (jstrings xs)" "distinct_keys (jstrings xs)"
    "canon (jstrings xs) = jstrings xs" "jstrings xs \<noteq> JUndef" "jstrings xs \<noteq> JNull"
  by (simp_all add: jstrings_def list_all_iff comp_def)

lemma nullable_strings_simps [simp]:
  "nullable_strings us = JNull \<or> isStringArray (nullable_strings us)" "clean (nullable_strings us)"
  "plain (nullable_strings us)" "distinct_keys (nullable_strings us)"
  "canon (nullable_strings us) = nullable_strings us"
  by (cases us; simp add: nullable_strings_def)+

lemma nullable_strings_inj [simp]: "nullable_strings us = nullable_strings vs \<longleftrightarrow> us = vs"
  by (cases us; cases vs) (simp_all add: nullable_strings_def jstrings_simps(6) [symmetric])

lemma jnullable_more [simp]: "plain (jnullable x)" "distinct_keys (jnullable x)"
  by (cases x; simp)+

lemmas group_defs = action_json_def approval_json_def decision_json_def policy_json_def
  request_json_def requirements_json_def

lemma clean_members: "clean (JObj (authorization_members a))"
  by (simp add: authorization_members_def group_defs)

lemma remove_hash: "remove_member ''authorizationHash'' (encode_authorization a) = JObj (authorization_members a)"
  by (simp add: remove_member_def encode_authorization_def without_def authorization_members_def)

lemma encode_get:
  "jget (encode_authorization a) ''version'' = JStr (az_version a)"
  "jget (encode_authorization a) ''authorizationHash'' = JStr (az_authorizationHash a)"
  "jget (encode_authorization a) ''nonce'' = JStr (az_nonce a)"
  "jget (encode_authorization a) ''issuedAt'' = JStr (az_issuedAt a)"
  "jget (encode_authorization a) ''expiresAt'' = JStr (az_expiresAt a)"
  "jget (encode_authorization a) ''binding'' = JObj
     [(''action'', action_json a), (''approval'', approval_json a), (''decision'', decision_json a),
      (''policy'', policy_json a), (''request'', request_json a), (''requirements'', requirements_json a)]"
  "isJsonObject (encode_authorization a)"
  by (simp_all add: encode_authorization_def authorization_members_def)

lemma groups_valid:
  "isJsonObject (action_json a)" "isJsonObject (approval_json a)" "isJsonObject (decision_json a)"
  "isJsonObject (policy_json a)" "isJsonObject (request_json a)" "isJsonObject (requirements_json a)"
  "isNonEmptyString (jget (action_json a) ''originalEnvelopeHash'') \<longleftrightarrow> az_originalEnvelopeHash a \<noteq> []"
  "isNonEmptyString (jget (action_json a) ''originalInputHash'') \<longleftrightarrow> az_originalInputHash a \<noteq> []"
  "isNonEmptyString (jget (action_json a) ''reviewHash'') \<longleftrightarrow> az_reviewHash a \<noteq> []"
  "isNonEmptyString (jget (approval_json a) ''approvalId'') \<longleftrightarrow> az_approvalId a \<noteq> []"
  "isNonEmptyString (jget (approval_json a) ''requestedBy'') \<longleftrightarrow> az_requestedBy a \<noteq> []"
  "isNonEmptyString (jget (approval_json a) ''tenantId'') \<longleftrightarrow> az_tenantId a \<noteq> []"
  "isNonEmptyString (jget (approval_json a) ''toolCallId'') \<longleftrightarrow> az_toolCallId a \<noteq> []"
  "isNonEmptyString (jget (policy_json a) ''legacyVersionHash'') \<longleftrightarrow> az_legacyVersionHash a \<noteq> []"
  "isPolicyDecision (jget (decision_json a) ''outcome'')"
  by (simp_all add: group_defs)

lemma groups_nullable:
  "isNullableString (jget (decision_json a) ''decisionId'')" "isNullableString (jget (decision_json a) ''version'')"
  "isNullableString (jget (policy_json a) ''digest'')" "isNullableString (jget (policy_json a) ''evaluatorVersion'')"
  "isNullableString (jget (policy_json a) ''legacyVersionId'')" "isNullableString (jget (policy_json a) ''providerId'')"
  "isNullableString (jget (policy_json a) ''providerVersion'')" "isNullableString (jget (policy_json a) ''version'')"
  "isNullableString (jget (request_json a) ''decisionInputHash'')"
  "isNullableString (jget (request_json a) ''requestHash'')" "isNullableString (jget (request_json a) ''version'')"
  "isNullableString (jget (approval_json a) ''requestedByPrincipalId'')"
  by (simp_all add: group_defs)

lemma groups_requirements:
  "isStringArray (jget (requirements_json a) ''eligibleGroups'')"
  "jget (requirements_json a) ''eligibleUsers'' = JNull \<or> isStringArray (jget (requirements_json a) ''eligibleUsers'')"
  "json_integer_ge1 (jget (requirements_json a) ''requiredApprovals'') \<longleftrightarrow> 1 \<le> az_requiredApprovals a"
  "jget (requirements_json a) ''separationOfDuties'' = JBool (az_separationOfDuties a)"
  by (simp_all add: group_defs)

definition well_formed_authorization :: "env \<Rightarrow> authorization \<Rightarrow> bool" where
  "well_formed_authorization E a \<longleftrightarrow>
     az_version a = APPROVAL_AUTHORIZATION_VERSION \<and> az_nonce a \<noteq> []
     \<and> az_issuedAt a \<noteq> [] \<and> az_expiresAt a \<noteq> []
     \<and> dateParse E (az_issuedAt a) \<noteq> None \<and> dateParse E (az_expiresAt a) \<noteq> None
     \<and> az_originalEnvelopeHash a \<noteq> [] \<and> az_originalInputHash a \<noteq> [] \<and> az_reviewHash a \<noteq> []
     \<and> az_approvalId a \<noteq> [] \<and> az_requestedBy a \<noteq> [] \<and> az_tenantId a \<noteq> [] \<and> az_toolCallId a \<noteq> []
     \<and> az_legacyVersionHash a \<noteq> [] \<and> 1 \<le> az_requiredApprovals a"

lemma isValid_iff:
  "isValidApprovalAuthorization E (encode_authorization a) \<longleftrightarrow>
     well_formed_authorization E a \<and> az_authorizationHash a \<noteq> []
     \<and> hashCanonicalJson E (JObj (authorization_members a)) = Inr (az_authorizationHash a)"
  unfolding isValidApprovalAuthorization_def well_formed_authorization_def encode_get remove_hash Let_def
  by (auto simp: encode_get groups_valid groups_nullable groups_requirements hash_of_clean [OF clean_members]
      simp del: nullable_strings_simps)

lemma isValidD:
  assumes "isValidApprovalAuthorization E (encode_authorization a)"
  shows "well_formed_authorization E a" "az_authorizationHash a \<noteq> []"
    "hashCanonicalJson E (JObj (authorization_members a)) = Inr (az_authorizationHash a)"
  using assms by (simp_all add: isValid_iff)

lemma members_without_hash [simp]:
  "authorization_members (a\<lparr>az_authorizationHash := h\<rparr>) = authorization_members a"
  by (simp add: authorization_members_def group_defs)

lemma members_determine:
  assumes "canon (JObj (authorization_members a)) = canon (JObj (authorization_members b))"
    and "az_authorizationHash a = az_authorizationHash b"
  shows "a = b"
  by (rule authorization.equality) (use assms in \<open>simp_all add: authorization_members_def group_defs canon_obj_iff\<close>)

lemma plain_members: "plain (JObj (authorization_members a))"
  by (simp add: authorization_members_def group_defs)

lemma same_hash_same_authorization:
  assumes "isValidApprovalAuthorization E (encode_authorization a)"
    and "isValidApprovalAuthorization E (encode_authorization b)"
    and "az_authorizationHash a = az_authorizationHash b"
    and "inj_on (sha256Hex E) {print_json (canon (JObj (authorization_members a))),
                               print_json (canon (JObj (authorization_members b)))}"
  shows "a = b"
proof (rule members_determine)
  have "hashCanonicalJson E (JObj (authorization_members a)) = hashCanonicalJson E (JObj (authorization_members b))"
    using isValidD(3) [OF assms(1)] isValidD(3) [OF assms(2)] assms(3) by simp
  then show "canon (JObj (authorization_members a)) = canon (JObj (authorization_members b))"
    using assms(4) by (rule hashCanonicalJson_equal_canon [OF plain_members plain_members])
qed (rule assms(3))

section \<open>Building\<close>

lemma build_Inr:
  "buildApprovalAuthorization E n i = Inr a \<longleftrightarrow>
     truthy (tc_policyVersionHash (ba_toolCall i)) \<and> dateParse E (ba_issuedAt i) \<noteq> None
     \<and> dateParse E (ba_expiresAt i) \<noteq> None
     \<and> the (dateParse E (ba_issuedAt i)) < the (dateParse E (ba_expiresAt i))
     \<and> a = (authorization_without_hash n i)\<lparr>az_authorizationHash :=
          sha256Hex E (print_json (canon (JObj (authorization_members (authorization_without_hash n i)))))\<rparr>"
  by (auto simp: buildApprovalAuthorization_def Let_def hash_of_clean [OF clean_members])

definition named_input :: "build_authorization_input \<Rightarrow> bool" where
  \<comment> \<open>no identifier or hash of the input is the empty string\<close>
  "named_input i \<longleftrightarrow> ba_issuedAt i \<noteq> [] \<and> ba_expiresAt i \<noteq> [] \<and> ba_originalEnvelopeHash i \<noteq> []
     \<and> ba_originalInputHash i \<noteq> [] \<and> ba_reviewHash i \<noteq> [] \<and> ba_approvalId i \<noteq> [] \<and> ba_requestedBy i \<noteq> []
     \<and> tc_id (ba_toolCall i) \<noteq> [] \<and> tc_workspaceId (ba_toolCall i) \<noteq> Some [] \<and> ba_nonce i \<noteq> Some []"

lemma built_fields:
  assumes "buildApprovalAuthorization E n i = Inr a"
  shows "az_version a = APPROVAL_AUTHORIZATION_VERSION" "az_nonce a = coalesce (ba_nonce i) n"
    "az_issuedAt a = ba_issuedAt i" "az_expiresAt a = ba_expiresAt i"
    "az_originalEnvelopeHash a = ba_originalEnvelopeHash i" "az_originalInputHash a = ba_originalInputHash i"
    "az_reviewHash a = ba_reviewHash i" "az_approvalId a = ba_approvalId i" "az_requestedBy a = ba_requestedBy i"
    "az_requestedByPrincipalId a = ba_requestedByPrincipalId i"
    "az_tenantId a = coalesce (tc_workspaceId (ba_toolCall i)) ''default''" "az_toolCallId a = tc_id (ba_toolCall i)"
    "az_outcome a = coalesce (tc_decision (ba_toolCall i)) RequireApproval"
    "az_legacyVersionHash a = the (tc_policyVersionHash (ba_toolCall i))"
    "az_legacyVersionId a = tc_policyVersionId (ba_toolCall i)"
    "az_requestHash a = tc_canonicalActionRequestHash (ba_toolCall i)"
    "az_requestVersion a = tc_canonicalActionRequestVersion (ba_toolCall i)"
    "az_eligibleGroups a = sortedUnique (coalesce (ba_approverGroups i) [])"
    "az_eligibleUsers a = map_option sortedUnique (ba_approverUsers i)"
    "az_requiredApprovals a = max 1 (coalesce (ba_requiredApprovals i) 1)"
    "az_separationOfDuties a = coalesce (ba_separationOfDuties i) False"
    "az_decisionInputHash a = or_else (tc_canonicalDecisionInputHash (ba_toolCall i))
       (map_option di_decisionInputHash (decisionIdentity (ba_toolCall i)))"
    "az_decisionId a = map_option di_decisionId (decisionIdentity (ba_toolCall i))"
    "az_decisionVersion a = map_option di_version (decisionIdentity (ba_toolCall i))"
    "az_digest a = Option.bind (decisionIdentity (ba_toolCall i)) di_digest"
    "az_evaluatorVersion a = Option.bind (decisionIdentity (ba_toolCall i)) di_evaluatorVersion"
    "az_providerId a = map_option di_providerId (decisionIdentity (ba_toolCall i))"
    "az_providerVersion a = Option.bind (decisionIdentity (ba_toolCall i)) di_providerVersion"
    "az_policyVersion a = Option.bind (decisionIdentity (ba_toolCall i)) di_policyVersion"
  using assms by (simp_all add: build_Inr authorization_without_hash_def Let_def)

lemma built_well_formed:
  assumes "buildApprovalAuthorization E n i = Inr a" "named_input i" "n \<noteq> []"
  shows "well_formed_authorization E a"
proof -
  note fields = built_fields [OF assms(1)]
  have "coalesce x y \<noteq> []" if "x \<noteq> Some []" "y \<noteq> []" for x and y :: string
    using that by (cases x) auto
  then show ?thesis unfolding well_formed_authorization_def fields
    using assms by (cases "tc_policyVersionHash (ba_toolCall i)") (auto simp: build_Inr named_input_def)
qed

lemma built_valid:
  assumes "buildApprovalAuthorization E n i = Inr a" "named_input i" "n \<noteq> []" "\<And>s. sha256Hex E s \<noteq> []"
  shows "isValidApprovalAuthorization E (encode_authorization a)"
  using assms built_well_formed [OF assms(1-3)]
  by (auto simp: isValid_iff build_Inr hash_of_clean [OF clean_members])

definition issued_with :: "build_authorization_input \<Rightarrow> approval \<Rightarrow> bool" where
  \<comment> \<open>the approval record the server creates next to the authorization\<close>
  "issued_with i ap \<longleftrightarrow> ap_id ap = ba_approvalId i \<and> ap_toolCallId ap = tc_id (ba_toolCall i)
     \<and> ap_workspaceId ap = tc_workspaceId (ba_toolCall i) \<and> ap_requestedBy ap = ba_requestedBy i
     \<and> map_option au_principalId (ap_requestedByAuth ap) = ba_requestedByPrincipalId i
     \<and> ap_originalInputHash ap = Some (ba_originalInputHash i)
     \<and> ap_originalEnvelopeHash ap = Some (ba_originalEnvelopeHash i) \<and> ap_reviewHash ap = Some (ba_reviewHash i)
     \<and> ap_approverUsers ap = ba_approverUsers i \<and> ap_approverGroups ap = ba_approverGroups i
     \<and> ap_requiredApprovals ap = ba_requiredApprovals i \<and> ap_separationOfDuties ap = ba_separationOfDuties i"

definition submitted_as :: "build_authorization_input \<Rightarrow> bool" where
  \<comment> \<open>the stored tool call agrees with the input and waits for approval\<close>
  "submitted_as i \<longleftrightarrow> (let t = ba_toolCall i in tc_status t = PendingApproval \<and> tc_requestedBy t = ba_requestedBy i
     \<and> tc_inputHash t = Some (ba_originalInputHash i) \<and> tc_actionEnvelopeHash t = Some (ba_originalEnvelopeHash i)
     \<and> tc_decision t \<noteq> None)"

lemma built_matches:
  assumes "buildApprovalAuthorization E n i = Inr a"
    and "named_input i" "n \<noteq> []" "\<And>s. sha256Hex E s \<noteq> []"
    and "issued_with i ap" "submitted_as i"
  shows "isValidApprovalAuthorization E (encode_authorization a)
    \<and> approvalAuthorizationMismatch E a ap (ba_toolCall i) = None
    \<and> (approvalAuthorizationExpired E a now \<longleftrightarrow> the (dateParse E (ba_expiresAt i)) \<le> now)"
proof -
  have valid: "isValidApprovalAuthorization E (encode_authorization a)"
    using assms(1-4) by (rule built_valid)
  note fields = built_fields [OF assms(1)]
  have policy: "Some (the (tc_policyVersionHash (ba_toolCall i))) = tc_policyVersionHash (ba_toolCall i)"
    using assms(1) by (auto simp: build_Inr dest: truthyD)
  have decision: "Some (coalesce (tc_decision (ba_toolCall i)) RequireApproval) = tc_decision (ba_toolCall i)"
    using assms(6) by (auto simp: submitted_as_def Let_def)
  have "approvalAuthorizationMismatch E a ap (ba_toolCall i) = None"
    unfolding approvalAuthorizationMismatch_def Let_def first_of_None fields policy decision
    using assms(5,6) valid
    by (simp add: issued_with_def submitted_as_def Let_def fields)
  moreover have "dateParse E (ba_expiresAt i) \<noteq> None" using assms(1) by (simp add: build_Inr)
  ultimately show ?thesis using valid
    by (auto simp: approvalAuthorizationExpired_def fields)
qed

text \<open>C19: an authorization the server builds for a pending tool call validates, matches the approval and
  the tool call it was built for, and expires exactly at its expiry.\<close>

theorem built_authorization_matches:
  assumes "buildApprovalAuthorization E n i = Inr a"
    and "named_input i" "n \<noteq> []" "\<And>s. sha256Hex E s \<noteq> []"
    and "issued_with i ap" "submitted_as i"
  shows "isValidApprovalAuthorization E (encode_authorization a)
    \<and> approvalAuthorizationMismatch E a ap (ba_toolCall i) = None
    \<and> (approvalAuthorizationExpired E a now \<longleftrightarrow> the (dateParse E (ba_expiresAt i)) \<le> now)"
  using assms by (rule built_matches)

definition sample_tool_call :: tool_call where
  "sample_tool_call = \<lparr>tc_id = ''tc_1'', tc_workspaceId = None, tc_toolName = ''mail.send'',
     tc_input = JObj [], tc_inputHash = Some ''#{}'', tc_actionEnvelope = JUndef,
     tc_actionEnvelopeHash = Some ''envelope'', tc_canonicalActionRequestHash = None,
     tc_canonicalActionRequestVersion = None, tc_canonicalDecisionInputHash = None,
     tc_canonicalPolicyContext = JUndef, tc_contentInfluence = None, tc_influenceScopeId = None,
     tc_requestedBy = ''agent'', tc_requestedByAuth = None, tc_agentId = ''agent'', tc_reason = ''r'',
     tc_metadata = JObj [], tc_status = PendingApproval, tc_decision = Some RequireApproval,
     tc_authorizationDecision = None, tc_authorizationReason = None, tc_decisionTrace = JUndef,
     tc_policyReason = None, tc_policyVersionId = None, tc_policyVersionHash = Some ''policy'',
     tc_resultDelivery = JUndef, tc_resultSource = None, tc_resultWithheld = None, tc_risk = None,
     tc_result = JUndef, tc_error = None, tc_createdAt = ''t'', tc_updatedAt = ''t''\<rparr>"

definition sample_authorization_input :: build_authorization_input where
  "sample_authorization_input = \<lparr>ba_approvalId = ''appr_1'', ba_approverGroups = Some [''ops'', ''ops''],
     ba_approverUsers = None, ba_expiresAt = ''later'', ba_issuedAt = ''now'', ba_nonce = None,
     ba_originalEnvelopeHash = ''envelope'', ba_originalInputHash = ''#{}'', ba_requestedBy = ''agent'',
     ba_requestedByPrincipalId = None, ba_requiredApprovals = Some 2, ba_reviewHash = ''review'',
     ba_separationOfDuties = None, ba_toolCall = sample_tool_call\<rparr>"

definition sample_approval :: approval where
  "sample_approval = \<lparr>ap_id = ''appr_1'', ap_workspaceId = None, ap_toolCallId = ''tc_1'',
     ap_status = Approval_Pending, ap_requestedBy = ''agent'', ap_requestedByAuth = None,
     ap_authorization = None, ap_authorizationConsumedAt = None, ap_authorizationConsumedReason = None,
     ap_approvedBy = None, ap_cancelledAt = None, ap_cancelledBy = None, ap_cancellationReason = None,
     ap_expiredAt = None, ap_finalizedAt = None, ap_rejectedBy = None, ap_note = None,
     ap_rejectionReason = None, ap_originalInput = JObj [], ap_originalEnvelopeHash = Some ''envelope'',
     ap_originalInputHash = Some ''#{}'', ap_editedInput = JUndef, ap_approvedEnvelopeHash = None,
     ap_approvedInputHash = None, ap_reviewHash = Some ''review'', ap_approverUsers = None,
     ap_approverGroups = Some [''ops'', ''ops''], ap_requiredApprovals = Some 2,
     ap_separationOfDuties = None, ap_supersededAt = None, ap_supersededByApprovalId = None,
     ap_decisions = None, ap_createdAt = ''t'', ap_updatedAt = ''t''\<rparr>"

definition tagging_env :: env where
  \<comment> \<open>an instance whose digests are not empty\<close>
  "tagging_env = text_env\<lparr>sha256Hex := (\<lambda>s. CHR ''#'' # s)\<rparr>"

theorem built_authorization_matches_witness:
  "\<exists>a. buildApprovalAuthorization tagging_env ''nonce'' sample_authorization_input = Inr a
    \<and> approvalAuthorizationMismatch tagging_env a sample_approval sample_tool_call = None"
proof -
  have "truthy (tc_policyVersionHash (ba_toolCall sample_authorization_input))"
    "dateParse tagging_env (ba_issuedAt sample_authorization_input) = Some 3"
    "dateParse tagging_env (ba_expiresAt sample_authorization_input) = Some 5"
    "ba_toolCall sample_authorization_input = sample_tool_call"
    by code_simp+
  then obtain a where a: "buildApprovalAuthorization tagging_env ''nonce'' sample_authorization_input = Inr a"
    by (simp add: build_Inr)
  have "named_input sample_authorization_input" "issued_with sample_authorization_input sample_approval"
    "submitted_as sample_authorization_input" by code_simp+
  moreover have "sha256Hex tagging_env s \<noteq> []" for s by (simp add: tagging_env_def)
  ultimately have "approvalAuthorizationMismatch tagging_env a sample_approval
      (ba_toolCall sample_authorization_input) = None"
    using built_authorization_matches [OF a] by simp
  with a show ?thesis by (auto simp: sample_authorization_input_def)
qed

text \<open>C20: an authorization hash commits to the whole authorization: two valid authorizations with the same
  hash are equal in every binding, requirement and date, unless their texts collide.\<close>

theorem authorization_hash_commits:
  assumes "isValidApprovalAuthorization E (encode_authorization a)"
    and "isValidApprovalAuthorization E (encode_authorization b)"
    and "az_authorizationHash a = az_authorizationHash b"
    and "inj_on (sha256Hex E) {print_json (canon (JObj (authorization_members a))),
                               print_json (canon (JObj (authorization_members b)))}"
  shows "a = b"
  using assms by (rule same_hash_same_authorization)

definition hashed :: "authorization \<Rightarrow> authorization" where
  "hashed a = a\<lparr>az_authorizationHash := CHR ''#'' # print_json (canon (JObj (authorization_members a)))\<rparr>"

definition sample_authorization :: authorization where
  "sample_authorization = hashed (authorization_without_hash ''nonce'' sample_authorization_input)"

lemma sample_built:
  assumes "truthy (tc_policyVersionHash (ba_toolCall i))" "dateParse tagging_env (ba_issuedAt i) = Some 3"
    "dateParse tagging_env (ba_expiresAt i) = Some 5"
  shows "buildApprovalAuthorization tagging_env ''nonce'' i = Inr (hashed (authorization_without_hash ''nonce'' i))"
  using assms by (simp add: build_Inr hashed_def tagging_env_def)

lemma sample_authorization_valid:
  assumes "i \<in> {sample_authorization_input, sample_authorization_input\<lparr>ba_approverGroups := Some [''ops'']\<rparr>}"
  shows "isValidApprovalAuthorization tagging_env (encode_authorization (hashed (authorization_without_hash ''nonce'' i)))"
proof (rule built_valid [OF sample_built])
  show "truthy (tc_policyVersionHash (ba_toolCall i))" "dateParse tagging_env (ba_issuedAt i) = Some 3"
    "dateParse tagging_env (ba_expiresAt i) = Some 5" "named_input i"
    using assms
    by (auto simp: sample_authorization_input_def sample_tool_call_def tagging_env_def text_env_def named_input_def)
qed (simp_all add: tagging_env_def)

theorem authorization_hash_commits_witness:
  "sample_authorization = hashed (authorization_without_hash ''nonce''
     (sample_authorization_input\<lparr>ba_approverGroups := Some [''ops'']\<rparr>))"
proof -
  let ?b = "authorization_without_hash ''nonce'' (sample_authorization_input\<lparr>ba_approverGroups := Some [''ops'']\<rparr>)"
  have same: "authorization_without_hash ''nonce'' sample_authorization_input = ?b" by code_simp
  have valid: "isValidApprovalAuthorization tagging_env (encode_authorization (hashed ?b))"
    by (rule sample_authorization_valid) simp
  have valid': "isValidApprovalAuthorization tagging_env (encode_authorization sample_authorization)"
    unfolding sample_authorization_def by (rule sample_authorization_valid) simp
  show ?thesis
    by (rule authorization_hash_commits [OF valid' valid])
       (use same in \<open>simp_all add: sample_authorization_def\<close>)
qed

end
