(* ===== verification/StoreApprovals.thy ===== *)
theory StoreApprovals
  imports StoreExposure ApprovalAuthFacts
begin

text \<open>
  The approval operations of \<open>MemoryStore\<close>: recording a decision under a quorum, rejecting, cancelling
  and expiring an approval. \<open>now\<close> is the clock reading (\<open>new Date()\<close>) of the call.
\<close>

section \<open>Authorizations\<close>

definition authorizationIdentityIsUsable :: "env \<Rightarrow> json \<Rightarrow> bool" where
  "authorizationIdentityIsUsable E v =
     (let binding = jget v ''binding''; action = jget binding ''action'';
          approval = jget binding ''approval''; policy = jget binding ''policy'';
          requirements = jget binding ''requirements''
      in isValidApprovalAuthorization E v
         \<and> jstring (jget action ''originalEnvelopeHash'') \<noteq> None
         \<and> jstring (jget action ''originalInputHash'') \<noteq> None
         \<and> jstring (jget action ''reviewHash'') \<noteq> None
         \<and> jstring (jget approval ''approvalId'') \<noteq> None
         \<and> jstring (jget approval ''tenantId'') \<noteq> None
         \<and> jstring (jget approval ''toolCallId'') \<noteq> None
         \<and> jstring (jget policy ''legacyVersionHash'') \<noteq> None
         \<and> (case jget requirements ''eligibleGroups'' of JArr _ \<Rightarrow> True | _ \<Rightarrow> False)
         \<and> (case jget requirements ''requiredApprovals'' of JNum n \<Rightarrow> num_isInteger n | _ \<Rightarrow> False))"

definition sameAuthorization :: "env \<Rightarrow> authorization option \<Rightarrow> authorization \<Rightarrow> bool" where
  \<comment> \<open>\<open>print_json\<close> is \<open>JSON.stringify\<close>: the members in the order in which the object was built\<close>
  "sameAuthorization E stored supplied =
     (case stored of
        None \<Rightarrow> False
      | Some a \<Rightarrow>
          authorizationIdentityIsUsable E (encode_authorization a)
          \<and> authorizationIdentityIsUsable E (encode_authorization supplied)
          \<and> az_authorizationHash a = az_authorizationHash supplied
          \<and> az_nonce a = az_nonce supplied
          \<and> print_json (encode_authorization a) = print_json (encode_authorization supplied))"

record authorization_guard =
  gd_activePolicyVersionHash :: string
  gd_authorization :: "authorization"
  gd_originalInput :: json

definition decision_matches :: "approval_decision \<Rightarrow> authorization \<Rightarrow> bool" where
  \<comment> \<open>the comparisons \<open>decisionMatchesAuthorization\<close> and \<open>priorDecisionsMatchAuthorization\<close> share\<close>
  "decision_matches d a =
     (ad_authorizationVersion d = Some (az_version a) \<and> ad_authorizationHash d = Some (az_authorizationHash a)
      \<and> ad_authorizationNonce d = Some (az_nonce a) \<and> ad_decisionId d = az_decisionId a
      \<and> ad_reviewHash d = Some (az_reviewHash a))"

definition priorDecisionsMatchAuthorization ::
  "approval_decision list option \<Rightarrow> authorization \<Rightarrow> string option \<Rightarrow> string option \<Rightarrow> bool" where
  "priorDecisionsMatchAuthorization decisions a approvedInputHash approvedEnvelopeHash =
     list_all (\<lambda>d. decision_matches d a
         \<and> (approvedInputHash = None \<or> ad_approvedInputHash d = approvedInputHash)
         \<and> (approvedEnvelopeHash = None \<or> ad_approvedEnvelopeHash d = approvedEnvelopeHash))
       (coalesce decisions [])"

datatype authorization_failure = AuthorizationMismatch | AuthorizationReplayed

definition approvalAuthorizationFailure ::
  "env \<Rightarrow> store \<Rightarrow> approval \<Rightarrow> authorization_guard \<Rightarrow> authorization_failure option" where
  "approvalAuthorizationFailure E s approval g =
     (if truthy (ap_authorizationConsumedAt approval) then Some AuthorizationReplayed
      else if \<not> sameAuthorization E (ap_authorization approval) (gd_authorization g) then Some AuthorizationMismatch
      else (case jm_get (st_toolCalls s) (ap_toolCallId approval) of
              None \<Rightarrow> Some AuthorizationMismatch
            | Some toolCall \<Rightarrow> first_of
               [(Some (gd_activePolicyVersionHash g) \<noteq> tc_policyVersionHash toolCall, AuthorizationMismatch),
                (gd_activePolicyVersionHash g \<noteq> az_legacyVersionHash (gd_authorization g), AuthorizationMismatch),
                (hashJson E (gd_originalInput g) \<noteq> az_originalInputHash (gd_authorization g), AuthorizationMismatch),
                (hashJson E (gd_originalInput g) \<noteq> hashJson E (ap_originalInput approval), AuthorizationMismatch),
                (approvalAuthorizationMismatch E (gd_authorization g) approval toolCall \<noteq> None, AuthorizationMismatch),
                (\<not> priorDecisionsMatchAuthorization (ap_decisions approval) (gd_authorization g) None None,
                 AuthorizationMismatch)]))"

definition hasApprovalDecision :: "approval_decision list option \<Rightarrow> approval_decision \<Rightarrow> bool" where
  "hasApprovalDecision decisions candidate =
     list_ex (\<lambda>d. ad_actor d = ad_actor candidate
         \<or> (ad_auth candidate \<noteq> None
            \<and> map_option au_principalId (ad_auth d) = map_option au_principalId (ad_auth candidate)))
       (coalesce decisions [])"

definition expireApproval :: "approval \<Rightarrow> string \<Rightarrow> approval" where
  "expireApproval a expiredAt =
     a\<lparr>ap_authorizationConsumedAt := Some expiredAt, ap_authorizationConsumedReason := Some ReasonExpired,
       ap_expiredAt := Some expiredAt, ap_finalizedAt := Some expiredAt, ap_status := Approval_Expired,
       ap_updatedAt := expiredAt\<rparr>"

definition put_approval :: "approval \<Rightarrow> store \<Rightarrow> store" where
  \<comment> \<open>\<open>this.approvals.set(approval.id, approval)\<close>\<close>
  "put_approval a s = s\<lparr>st_approvals := jm_set (ap_id a) a (st_approvals s)\<rparr>"

datatype approval_outcome =
    Ap_AlreadyFinal | Ap_AuthorizationMismatch | Ap_ContentInfluenceMismatch | Ap_Duplicate | Ap_Expired
  | Ap_Finalized | Ap_NotFound | Ap_Recorded | Ap_Replayed | Ap_Rejected | Ap_Cancelled

record approval_result =
  ar_approval :: "approval option"
  ar_outcome :: approval_outcome

definition approval_result :: "approval \<Rightarrow> approval_outcome \<Rightarrow> approval_result" where
  "approval_result a out = \<lparr>ar_approval = Some a, ar_outcome = out\<rparr>"

definition failure_outcome :: "authorization_failure \<Rightarrow> approval_outcome" where
  "failure_outcome f = (case f of AuthorizationMismatch \<Rightarrow> Ap_AuthorizationMismatch
     | AuthorizationReplayed \<Rightarrow> Ap_Replayed)"

section \<open>Recording a decision\<close>

record approval_decision_input =
  dn_approvalId :: string
  dn_authorization :: authorization_guard
  dn_approvedEnvelopeHash :: string
  dn_approvedInputHash :: string
  dn_decision :: approval_decision
  dn_editedInput :: json
  dn_note :: "string option"
  dn_reviewHash :: string
  dn_updatedAt :: string
  dn_contentExposureRevision :: "revision_guard option"

definition decisionMatchesAuthorization :: "approval_decision_input \<Rightarrow> authorization \<Rightarrow> bool" where
  "decisionMatchesAuthorization i a =
     (let d = dn_decision i in
      if az_requiredApprovals a > 1
         \<and> (dn_editedInput i \<noteq> JUndef \<or> ad_editedInput d \<noteq> JUndef \<or> ad_inputDecision d \<noteq> Some Original)
      then False
      else decision_matches d a \<and> dn_reviewHash i = az_reviewHash a
         \<and> ad_approvedInputHash d = Some (dn_approvedInputHash i)
         \<and> ad_approvedEnvelopeHash d = Some (dn_approvedEnvelopeHash i))"

definition decided_approval :: "approval \<Rightarrow> approval_decision_input \<Rightarrow> approval" where
  \<comment> \<open>the approval \<open>recordApprovalDecisionAtomically\<close> stores\<close>
  "decided_approval current i =
     (let decisions = coalesce (ap_decisions current) [] @ [dn_decision i];
          finalized = (int (length decisions) \<ge> max 1 (coalesce (ap_requiredApprovals current) 1))
      in current\<lparr>
          ap_approvedBy := (if finalized then Some (ad_actor (dn_decision i)) else ap_approvedBy current),
          ap_approvedEnvelopeHash := (if finalized then Some (dn_approvedEnvelopeHash i) else ap_approvedEnvelopeHash current),
          ap_approvedInputHash := (if finalized then Some (dn_approvedInputHash i) else ap_approvedInputHash current),
          ap_decisions := Some decisions,
          ap_editedInput := jcoalesce (dn_editedInput i) (ap_editedInput current),
          ap_note := dn_note i,
          ap_reviewHash := Some (dn_reviewHash i),
          ap_status := (if finalized then Approval_Approved else Approval_Pending),
          ap_updatedAt := dn_updatedAt i,
          ap_authorizationConsumedAt := (if finalized then Some (dn_updatedAt i) else ap_authorizationConsumedAt current),
          ap_authorizationConsumedReason := (if finalized then Some ReasonApproved else ap_authorizationConsumedReason current),
          ap_finalizedAt := (if finalized then Some (dn_updatedAt i) else ap_finalizedAt current)\<rparr>)"

definition recordApprovalDecisionAtomically ::
  "env \<Rightarrow> int \<Rightarrow> approval_decision_input \<Rightarrow> store \<Rightarrow> approval_result \<times> store" where
  "recordApprovalDecisionAtomically E now i s =
     (case jm_get (st_approvals s) (dn_approvalId i) of
        None \<Rightarrow> (\<lparr>ar_approval = None, ar_outcome = Ap_NotFound\<rparr>, s)
      | Some current \<Rightarrow>
          if truthy (ap_authorizationConsumedAt current)
             \<and> sameAuthorization E (ap_authorization current) (gd_authorization (dn_authorization i))
          then (approval_result current Ap_Replayed, s)
          else if ap_status current \<noteq> Approval_Pending then (approval_result current Ap_AlreadyFinal, s)
          else if \<not> contentExposureRevisionMatches s (default_ws (ap_workspaceId current)) (dn_contentExposureRevision i)
          then (approval_result current Ap_ContentInfluenceMismatch, s)
          else (case approvalAuthorizationFailure E s current (dn_authorization i) of
              Some f \<Rightarrow> (approval_result current (failure_outcome f), s)
            | None \<Rightarrow>
                let authorization = the (ap_authorization current) in
                if approvalAuthorizationExpired E authorization now then
                  let expired = expireApproval current (az_expiresAt authorization)
                  in (approval_result expired Ap_Expired, put_approval expired s)
                else if \<not> decisionMatchesAuthorization i authorization
                then (approval_result current Ap_AuthorizationMismatch, s)
                else if \<not> priorDecisionsMatchAuthorization (ap_decisions current) authorization
                          (Some (dn_approvedInputHash i)) (Some (dn_approvedEnvelopeHash i))
                then (approval_result current Ap_AuthorizationMismatch, s)
                else if hasApprovalDecision (ap_decisions current) (dn_decision i)
                then (approval_result current Ap_Duplicate, s)
                else let approval = decided_approval current i
                     in (approval_result approval
                           (if ap_status approval = Approval_Approved then Ap_Finalized else Ap_Recorded),
                         put_approval approval s)))"

section \<open>Rejecting, cancelling, expiring\<close>

definition check_final_authorization ::
  "env \<Rightarrow> int \<Rightarrow> store \<Rightarrow> approval \<Rightarrow> authorization_guard option \<Rightarrow> (approval_result \<times> store) option" where
  \<comment> \<open>the authorization checks that rejecting and cancelling share; \<open>None\<close> when the caller goes on\<close>
  "check_final_authorization E now s current g =
     (case ap_authorization current of
        None \<Rightarrow> None
      | Some authorization \<Rightarrow>
          (case g of
             None \<Rightarrow> Some (approval_result current Ap_AuthorizationMismatch, s)
           | Some guard \<Rightarrow>
               (case approvalAuthorizationFailure E s current guard of
                  Some f \<Rightarrow> Some (approval_result current (failure_outcome f), s)
                | None \<Rightarrow>
                    if approvalAuthorizationExpired E authorization now then
                      let expired = expireApproval current (az_expiresAt authorization)
                      in Some (approval_result expired Ap_Expired, put_approval expired s)
                    else None)))"

definition finalize_approval ::
  "env \<Rightarrow> int \<Rightarrow> string \<Rightarrow> authorization_guard option \<Rightarrow> (approval \<Rightarrow> approval) \<Rightarrow> approval_outcome
    \<Rightarrow> store \<Rightarrow> approval_result \<times> store" where
  \<comment> \<open>the common body of rejecting and cancelling, up to the record that is stored\<close>
  "finalize_approval E now approvalId g final out s =
     (case jm_get (st_approvals s) approvalId of
        None \<Rightarrow> (\<lparr>ar_approval = None, ar_outcome = Ap_NotFound\<rparr>, s)
      | Some current \<Rightarrow>
          if g \<noteq> None \<and> truthy (ap_authorizationConsumedAt current)
             \<and> sameAuthorization E (ap_authorization current) (gd_authorization (the g))
          then (approval_result current Ap_Replayed, s)
          else if ap_status current \<noteq> Approval_Pending then (approval_result current Ap_AlreadyFinal, s)
          else (case check_final_authorization E now s current g of
                  Some r \<Rightarrow> r
                | None \<Rightarrow> (approval_result (final current) out, put_approval (final current) s)))"

definition rejected_approval :: "string option \<Rightarrow> string \<Rightarrow> string \<Rightarrow> approval \<Rightarrow> approval" where
  "rejected_approval reason rejectedBy updatedAt current =
     current\<lparr>
       ap_authorizationConsumedAt := (if ap_authorization current \<noteq> None then Some updatedAt else None),
       ap_authorizationConsumedReason := (if ap_authorization current \<noteq> None then Some ReasonRejected else None),
       ap_finalizedAt := Some updatedAt, ap_rejectedBy := Some rejectedBy, ap_rejectionReason := reason,
       ap_status := Approval_Rejected, ap_updatedAt := updatedAt\<rparr>"

definition rejectApprovalAtomically ::
  "env \<Rightarrow> int \<Rightarrow> string \<Rightarrow> authorization_guard option \<Rightarrow> string option \<Rightarrow> string \<Rightarrow> string
    \<Rightarrow> store \<Rightarrow> approval_result \<times> store" where
  "rejectApprovalAtomically E now approvalId g reason rejectedBy updatedAt s =
     finalize_approval E now approvalId g (rejected_approval reason rejectedBy updatedAt) Ap_Rejected s"

definition cancelled_approval :: "string option \<Rightarrow> string \<Rightarrow> string \<Rightarrow> approval \<Rightarrow> approval" where
  "cancelled_approval reason cancelledBy updatedAt current =
     current\<lparr>
       ap_authorizationConsumedAt := (if ap_authorization current \<noteq> None then Some updatedAt else None),
       ap_authorizationConsumedReason := (if ap_authorization current \<noteq> None then Some ReasonCancelled else None),
       ap_cancelledAt := Some updatedAt, ap_cancelledBy := Some cancelledBy, ap_cancellationReason := reason,
       ap_finalizedAt := Some updatedAt, ap_status := Approval_Cancelled, ap_updatedAt := updatedAt\<rparr>"

definition cancelApprovalAtomically ::
  "env \<Rightarrow> int \<Rightarrow> string \<Rightarrow> authorization_guard option \<Rightarrow> string option \<Rightarrow> string \<Rightarrow> string
    \<Rightarrow> store \<Rightarrow> approval_result \<times> store" where
  "cancelApprovalAtomically E now approvalId g reason cancelledBy updatedAt s =
     finalize_approval E now approvalId g (cancelled_approval reason cancelledBy updatedAt) Ap_Cancelled s"

definition expireApprovalAtomically ::
  "env \<Rightarrow> int \<Rightarrow> string \<Rightarrow> authorization \<Rightarrow> string \<Rightarrow> store \<Rightarrow> approval_result \<times> store" where
  "expireApprovalAtomically E now approvalId a expiredAt s =
     (case jm_get (st_approvals s) approvalId of
        None \<Rightarrow> (\<lparr>ar_approval = None, ar_outcome = Ap_NotFound\<rparr>, s)
      | Some current \<Rightarrow>
          if ap_status current \<noteq> Approval_Pending then (approval_result current Ap_AlreadyFinal, s)
          else if \<not> sameAuthorization E (ap_authorization current) a
          then (approval_result current Ap_AuthorizationMismatch, s)
          else if \<not> approvalAuthorizationExpired E (the (ap_authorization current)) now
          then (approval_result current Ap_AuthorizationMismatch, s)
          else let expired = expireApproval current expiredAt
               in (approval_result expired Ap_Expired, put_approval expired s))"

end
