(* ===== verification/StoreAttempts.thy ===== *)
theory StoreAttempts
  imports StoreApprovals
begin

text \<open>
  The execution attempt operations of \<open>MemoryStore\<close>: reserving the one attempt of a tool call, binding a
  grant to it, dispatching it together with the consumption of the grant, and its transitions.
\<close>

section \<open>Reserving\<close>

definition executionAttemptGovernanceBindingMatches :: "env \<Rightarrow> attempt \<Rightarrow> tool_call \<Rightarrow> bool" where
  "executionAttemptGovernanceBindingMatches E r t =
     (ab_contentInfluenceBindingHash (at_binding r) = Some (influence_binding_of E t)
      \<and> ab_influenceScopeId (at_binding r) = Some (tc_influenceScopeId t)
      \<and> ab_resultSourceHash (at_binding r) = Some (hashJson E (result_source_json t)))"

definition same_present :: "string option \<Rightarrow> string option \<Rightarrow> bool" where
  \<comment> \<open>\<open>===\<close> between \<open>string | undefined\<close> and \<open>string | null\<close>\<close>
  "same_present a b = (a \<noteq> None \<and> a = b)"

definition attempt_shape_ok :: "attempt \<Rightarrow> bool" where
  \<comment> \<open>the first condition of \<open>executionAttemptBindingMatches\<close>\<close>
  "attempt_shape_ok r =
     (at_version r = ''actionproxy.execution-attempt.v1'' \<and> at_attemptNumber r = 1 \<and> at_state r = Reserved
      \<and> at_outcome r = None \<and> at_dispatchedAt r = None \<and> at_completedAt r = None \<and> at_grantId r = None
      \<and> at_id r \<noteq> [] \<and> at_reservationOwner r \<noteq> [] \<and> at_providerIdempotency r = ''none''
      \<and> at_retryPolicy r = ''never_automatic''
      \<and> \<not> (at_executionMode r = LocalMock \<and> at_executorId r \<noteq> ''actionproxy.local-tool-registry'')
      \<and> \<not> (at_executionMode r = ExternalGrant \<and> at_executorId r \<noteq> ''actionproxy.external-runner''))"

definition attempt_request_ok :: "env \<Rightarrow> attempt \<Rightarrow> tool_call \<Rightarrow> bool" where
  \<comment> \<open>the second condition\<close>
  "attempt_request_ok E r t =
     (let b = at_binding r; decision = decisionIdentity_attempt t
      in ab_canonicalActionRequestHash b = tc_canonicalActionRequestHash t
         \<and> ab_canonicalActionRequestVersion b = tc_canonicalActionRequestVersion t
         \<and> ab_canonicalDecisionInputHash b = tc_canonicalDecisionInputHash t
         \<and> ab_decisionId b = fst decision \<and> ab_decisionVersion b = snd decision
         \<and> ab_policyVersionHash b = tc_policyVersionHash t
         \<and> executionAttemptGovernanceBindingMatches E r t)"

definition attempt_approval_ok :: "env \<Rightarrow> int \<Rightarrow> attempt \<Rightarrow> approval option \<Rightarrow> authorization option \<Rightarrow> bool" where
  \<comment> \<open>the conditions on the approval\<close>
  "attempt_approval_ok E now r ap authorization =
     (let b = at_binding r in
      if ab_approvalId b \<noteq> None then
        (case (ap, authorization) of
           (Some a, Some supplied) \<Rightarrow>
             ap_status a = Approval_Approved \<and> ap_authorizationConsumedReason a = Some ReasonApproved
             \<and> truthy (ap_authorizationConsumedAt a)
             \<and> (case ap_authorization a of
                  None \<Rightarrow> False
                | Some z \<Rightarrow>
                    isValidApprovalAuthorization E (encode_authorization z)
                    \<and> isValidApprovalAuthorization E (encode_authorization supplied)
                    \<and> \<not> approvalAuthorizationExpired E z now \<and> \<not> approvalAuthorizationExpired E supplied now
                    \<and> az_authorizationHash z = az_authorizationHash supplied
                    \<and> ap_toolCallId a = at_toolCallId r
                    \<and> default_ws (ap_workspaceId a) = at_workspaceId r
                    \<and> ap_approvedInputHash a = Some (at_inputHash r)
                    \<and> same_present (ap_approvedEnvelopeHash a) (ab_actionEnvelopeHash b)
                    \<and> ab_approvalAuthorizationHash b = Some (az_authorizationHash z)
                    \<and> ab_approvalAuthorizationNonce b = Some (az_nonce z))
         | _ \<Rightarrow> False)
      else ab_approvalAuthorizationHash b = None \<and> ab_approvalAuthorizationNonce b = None)"

definition attempt_receipt_ok :: "attempt \<Rightarrow> tool_call \<Rightarrow> (string, receipt) jsmap \<Rightarrow> bool" where
  \<comment> \<open>the conditions on the receipt\<close>
  "attempt_receipt_ok r t receipts =
     (let b = at_binding r in
      case ab_receiptId b of
        Some receiptId \<Rightarrow>
          (case jm_get receipts receiptId of
             None \<Rightarrow> False
           | Some receipt \<Rightarrow>
               rc_toolCallId receipt = at_toolCallId r \<and> rc_workspaceId receipt = at_workspaceId r
               \<and> Some (rc_receiptHash receipt) = ab_receiptHash b
               \<and> Some (rc_approvedEnvelopeHash receipt) = ab_actionEnvelopeHash b
               \<and> rc_approvedInputHash receipt = at_inputHash r
               \<and> rc_approvalId receipt = ab_approvalId b)
      | None \<Rightarrow>
          ab_receiptHash b = None \<and> ab_actionEnvelopeHash b = tc_actionEnvelopeHash t
          \<and> Some (at_inputHash r) = tc_inputHash t)"

definition executionAttemptBindingMatches ::
  "env \<Rightarrow> int \<Rightarrow> attempt \<Rightarrow> tool_call \<Rightarrow> (string, approval) jsmap \<Rightarrow> (string, receipt) jsmap
    \<Rightarrow> authorization option \<Rightarrow> bool" where
  "executionAttemptBindingMatches E now r t approvals receipts authorization =
     (if \<not> attempt_shape_ok r then False
      else if \<not> attempt_request_ok E r t then False
      else
        let approval = (if truthy (ab_approvalId (at_binding r))
              then jm_get approvals (the (ab_approvalId (at_binding r)))
              else List.find (\<lambda>a. ap_toolCallId a = at_toolCallId r \<and> ap_status a = Approval_Approved)
                     (jm_values approvals))
        in if \<not> attempt_approval_ok E now r approval authorization then False
           else attempt_receipt_ok r t receipts)"

datatype reservation_outcome = Rs_BindingMismatch | Rs_Existing | Rs_NotFound | Rs_Reserved

record reservation_result =
  rr_attempt :: "attempt option"
  rr_outcome :: reservation_outcome

definition reserveExecutionAttemptAtomically ::
  "env \<Rightarrow> int \<Rightarrow> attempt \<Rightarrow> authorization option \<Rightarrow> store \<Rightarrow> reservation_result \<times> store" where
  "reserveExecutionAttemptAtomically E now r authorization s =
     (case jm_get (st_toolCalls s) (at_toolCallId r) of
        None \<Rightarrow> (\<lparr>rr_attempt = None, rr_outcome = Rs_NotFound\<rparr>, s)
      | Some t \<Rightarrow>
          if default_ws (tc_workspaceId t) \<noteq> at_workspaceId r
          then (\<lparr>rr_attempt = None, rr_outcome = Rs_NotFound\<rparr>, s)
          else if \<not> executionAttemptBindingMatches E now r t (st_approvals s) (st_actionReceipts s) authorization
          then (\<lparr>rr_attempt = None, rr_outcome = Rs_BindingMismatch\<rparr>, s)
          else
            let toolCallKey = executionAttemptToolCallKey (at_workspaceId r) (at_toolCallId r);
                existingId = jm_get (st_executionAttemptByToolCall s) toolCallKey
            in if truthy existingId
               then (\<lparr>rr_attempt = jm_get (st_executionAttempts s) (the existingId), rr_outcome = Rs_Existing\<rparr>, s)
               else if jm_has (st_executionAttempts s) (at_id r)
               then (\<lparr>rr_attempt = jm_get (st_executionAttempts s) (at_id r), rr_outcome = Rs_BindingMismatch\<rparr>, s)
               else (\<lparr>rr_attempt = Some r, rr_outcome = Rs_Reserved\<rparr>,
                     s\<lparr>st_executionAttempts := jm_set (at_id r) r (st_executionAttempts s),
                       st_executionAttemptByToolCall :=
                         jm_set toolCallKey (at_id r) (st_executionAttemptByToolCall s)\<rparr>))"

definition getExecutionAttempt :: "store \<Rightarrow> string \<Rightarrow> attempt option" where
  "getExecutionAttempt s i = jm_get (st_executionAttempts s) i"

definition getExecutionAttemptByToolCallId :: "store \<Rightarrow> string \<Rightarrow> string \<Rightarrow> attempt option" where
  "getExecutionAttemptByToolCallId s workspaceId toolCallId =
     (let i = jm_get (st_executionAttemptByToolCall s) (executionAttemptToolCallKey workspaceId toolCallId)
      in if truthy i then jm_get (st_executionAttempts s) (the i) else None)"

definition listExecutionAttempts ::
  "env \<Rightarrow> string \<Rightarrow> attempt_state option \<Rightarrow> string option \<Rightarrow> store \<Rightarrow> attempt list" where
  "listExecutionAttempts E workspaceId state toolCallId s =
     newest_first E at_reservedAt
       (filter (\<lambda>a. unless_given toolCallId (Some (at_toolCallId a) = toolCallId))
       (filter (\<lambda>a. state = None \<or> Some (at_state a) = state)
       (filter (\<lambda>a. at_workspaceId a = workspaceId) (jm_values (st_executionAttempts s)))))"

section \<open>Transitions\<close>

record transition_input =
  ti_attemptId :: string
  ti_expectedState :: attempt_state
  ti_nextState :: attempt_state
  ti_outcome :: "attempt_outcome option"
  ti_reservationOwner :: string
  ti_transitionedAt :: string
  ti_workspaceId :: string
  ti_contentExposureRevision :: "revision_guard option"

definition executionAttemptTransitionIsValid :: "transition_input \<Rightarrow> bool" where
  "executionAttemptTransitionIsValid i =
     (if ti_expectedState i = Reserved then
        (if ti_nextState i = Dispatched then ti_outcome i = None
         else ti_nextState i = FailedBeforeDispatch \<and> map_option ao_status (ti_outcome i) = Some (ti_nextState i))
      else ti_nextState i \<noteq> Reserved \<and> ti_nextState i \<noteq> Dispatched \<and> ti_nextState i \<noteq> FailedBeforeDispatch
           \<and> map_option ao_status (ti_outcome i) = Some (ti_nextState i))"

definition executionAttemptIsTerminal :: "attempt_state \<Rightarrow> bool" where
  "executionAttemptIsTerminal state = (state \<noteq> Reserved \<and> state \<noteq> Dispatched)"

definition executionAttemptTransitionIsReplay :: "env \<Rightarrow> attempt \<Rightarrow> transition_input \<Rightarrow> bool" where
  "executionAttemptTransitionIsReplay E current i =
     (if at_state current \<noteq> ti_nextState i then False
      else if at_state current = Dispatched
      then ti_outcome i = None \<and> at_dispatchedAt current = Some (ti_transitionedAt i)
      else if \<not> executionAttemptIsTerminal (at_state current) then False
      else at_completedAt current = Some (ti_transitionedAt i)
           \<and> (case (at_outcome current, ti_outcome i) of
                (Some a, Some b) \<Rightarrow>
                  hashJson E (encode_attempt_outcome a) = hashJson E (encode_attempt_outcome b)
              | _ \<Rightarrow> False))"

definition transitionedExecutionAttempt :: "attempt \<Rightarrow> transition_input \<Rightarrow> attempt" where
  "transitionedExecutionAttempt current i =
     (if ti_nextState i = Dispatched
      then current\<lparr>at_dispatchedAt := Some (ti_transitionedAt i), at_state := Dispatched,
                   at_updatedAt := ti_transitionedAt i\<rparr>
      else current\<lparr>at_completedAt := Some (ti_transitionedAt i), at_outcome := ti_outcome i,
                   at_state := ti_nextState i, at_updatedAt := ti_transitionedAt i\<rparr>)"

datatype transition_outcome =
    Tr_AlreadyTerminal | Tr_ContentInfluenceMismatch | Tr_NotFound | Tr_OwnerMismatch | Tr_Replay
  | Tr_StateMismatch | Tr_Transitioned

definition put_attempt :: "attempt \<Rightarrow> store \<Rightarrow> store" where
  \<comment> \<open>\<open>this.executionAttempts.set(updated.id, updated)\<close>\<close>
  "put_attempt a s = s\<lparr>st_executionAttempts := jm_set (at_id a) a (st_executionAttempts s)\<rparr>"

definition transitionExecutionAttemptAtomically ::
  "env \<Rightarrow> transition_input \<Rightarrow> store \<Rightarrow> (transition_outcome \<times> attempt option) \<times> store" where
  "transitionExecutionAttemptAtomically E i s =
     (case jm_get (st_executionAttempts s) (ti_attemptId i) of
        None \<Rightarrow> ((Tr_NotFound, None), s)
      | Some current \<Rightarrow>
          if at_workspaceId current \<noteq> ti_workspaceId i then ((Tr_NotFound, None), s)
          else if at_reservationOwner current \<noteq> ti_reservationOwner i then ((Tr_OwnerMismatch, Some current), s)
          else if executionAttemptTransitionIsReplay E current i then ((Tr_Replay, Some current), s)
          else if executionAttemptIsTerminal (at_state current) then ((Tr_AlreadyTerminal, Some current), s)
          else if \<not> contentExposureRevisionMatches s (ti_workspaceId i) (ti_contentExposureRevision i)
          then ((Tr_ContentInfluenceMismatch, Some current), s)
          else if at_state current \<noteq> ti_expectedState i \<or> \<not> executionAttemptTransitionIsValid i
          then ((Tr_StateMismatch, Some current), s)
          else let updated = transitionedExecutionAttempt current i
               in ((Tr_Transitioned, Some updated), put_attempt updated s))"

section \<open>Grants\<close>

record grant_binding_input =
  gi_attemptId :: string
  gi_grantId :: string
  gi_reservationOwner :: string
  gi_updatedAt :: string
  gi_workspaceId :: string

datatype grant_binding_outcome = Gb_AlreadyBound | Gb_Bound | Gb_NotFound | Gb_OwnerMismatch | Gb_StateMismatch

definition bindExecutionAttemptGrantAtomically ::
  "grant_binding_input \<Rightarrow> store \<Rightarrow> (grant_binding_outcome \<times> attempt option) \<times> store" where
  "bindExecutionAttemptGrantAtomically i s =
     (case jm_get (st_executionAttempts s) (gi_attemptId i) of
        None \<Rightarrow> ((Gb_NotFound, None), s)
      | Some current \<Rightarrow>
          if at_workspaceId current \<noteq> gi_workspaceId i then ((Gb_NotFound, None), s)
          else if at_reservationOwner current \<noteq> gi_reservationOwner i then ((Gb_OwnerMismatch, Some current), s)
          else if at_state current \<noteq> Reserved then ((Gb_StateMismatch, Some current), s)
          else if truthy (at_grantId current) then ((Gb_AlreadyBound, Some current), s)
          else let updated = current\<lparr>at_grantId := Some (gi_grantId i), at_updatedAt := gi_updatedAt i\<rparr>
               in ((Gb_Bound, Some updated), put_attempt updated s))"

record dispatch_input =
  dp_attemptId :: string
  dp_dispatchedAt :: string
  dp_grantId :: string
  dp_reservationOwner :: string
  dp_toolCallId :: string
  dp_workspaceId :: string
  dp_contentExposureRevision :: "revision_guard option"

datatype dispatch_outcome =
    Dp_AttemptNotFound | Dp_AttemptStateMismatch | Dp_BindingMismatch | Dp_ContentInfluenceMismatch
  | Dp_Dispatched | Dp_GrantAlreadyConsumed | Dp_GrantNotFound

record dispatch_result =
  dr_attempt :: "attempt option"
  dr_grant :: "grant option"
  dr_outcome :: dispatch_outcome

definition consumeExecutionGrantAndDispatchAttemptAtomically ::
  "dispatch_input \<Rightarrow> store \<Rightarrow> dispatch_result \<times> store" where
  "consumeExecutionGrantAndDispatchAttemptAtomically i s =
     (case jm_get (st_executionAttempts s) (dp_attemptId i) of
        None \<Rightarrow> (\<lparr>dr_attempt = None, dr_grant = None, dr_outcome = Dp_AttemptNotFound\<rparr>, s)
      | Some attempt \<Rightarrow>
          if at_workspaceId attempt \<noteq> dp_workspaceId i
          then (\<lparr>dr_attempt = None, dr_grant = None, dr_outcome = Dp_AttemptNotFound\<rparr>, s)
          else (case jm_get (st_executionGrants s) (dp_grantId i) of
             None \<Rightarrow> (\<lparr>dr_attempt = Some attempt, dr_grant = None, dr_outcome = Dp_GrantNotFound\<rparr>, s)
           | Some g \<Rightarrow>
             let result = (\<lambda>out. (\<lparr>dr_attempt = Some attempt, dr_grant = Some g, dr_outcome = out\<rparr>, s)) in
             if gr_workspaceId g \<noteq> dp_workspaceId i
             then (\<lparr>dr_attempt = Some attempt, dr_grant = None, dr_outcome = Dp_GrantNotFound\<rparr>, s)
             else if truthy (gr_consumedAt g) then result Dp_GrantAlreadyConsumed
             else if at_state attempt \<noteq> Reserved then result Dp_AttemptStateMismatch
             else if at_reservationOwner attempt \<noteq> dp_reservationOwner i
                  \<or> at_grantId attempt \<noteq> Some (dp_grantId i)
                  \<or> at_toolCallId attempt \<noteq> dp_toolCallId i
                  \<or> gr_toolCallId g \<noteq> dp_toolCallId i
             then result Dp_BindingMismatch
             else if \<not> contentExposureRevisionMatches s (dp_workspaceId i) (dp_contentExposureRevision i)
             then result Dp_ContentInfluenceMismatch
             else
               let consumedGrant = g\<lparr>gr_consumedAt := Some (dp_dispatchedAt i)\<rparr>;
                   dispatchedAttempt = attempt\<lparr>at_dispatchedAt := Some (dp_dispatchedAt i),
                     at_state := Dispatched, at_updatedAt := dp_dispatchedAt i\<rparr>
               in (\<lparr>dr_attempt = Some dispatchedAttempt, dr_grant = Some consumedGrant, dr_outcome = Dp_Dispatched\<rparr>,
                   put_attempt dispatchedAttempt
                     (s\<lparr>st_executionGrants := jm_set (gr_id consumedGrant) consumedGrant (st_executionGrants s)\<rparr>))))"

end
