(* ===== verification/StoreAttemptFacts.thy ===== *)
theory StoreAttemptFacts
  imports StoreAttempts
begin

text \<open>
  Correctness of the execution attempt operations: one attempt per tool call, the state machine of an
  attempt, monotone progress, and what reserving and dispatching guarantee.
\<close>

section \<open>Attempts\<close>

definition attempt_ok :: "attempt \<Rightarrow> bool" where
  \<comment> \<open>the recorded dates and outcome fit the state\<close>
  "attempt_ok a \<longleftrightarrow>
     (case at_state a of
        Reserved \<Rightarrow> at_dispatchedAt a = None \<and> at_completedAt a = None \<and> at_outcome a = None
      | Dispatched \<Rightarrow> at_dispatchedAt a \<noteq> None \<and> at_completedAt a = None \<and> at_outcome a = None
      | FailedBeforeDispatch \<Rightarrow> at_dispatchedAt a = None \<and> at_completedAt a \<noteq> None
          \<and> map_option ao_status (at_outcome a) = Some FailedBeforeDispatch
      | st \<Rightarrow> at_dispatchedAt a \<noteq> None \<and> at_completedAt a \<noteq> None
          \<and> map_option ao_status (at_outcome a) = Some st)"

definition attempt_key :: "attempt \<Rightarrow> string" where
  "attempt_key a = executionAttemptToolCallKey (at_workspaceId a) (at_toolCallId a)"

definition attempts_ok :: "store \<Rightarrow> bool" where
  "attempts_ok s \<longleftrightarrow>
     (\<forall>k a. jm_get (st_executionAttempts s) k = Some a \<longrightarrow>
        at_id a = k \<and> k \<noteq> [] \<and> attempt_ok a \<and> jm_get (st_executionAttemptByToolCall s) (attempt_key a) = Some k)
     \<and> (\<forall>key k. jm_get (st_executionAttemptByToolCall s) key = Some k \<longrightarrow>
          (\<exists>a. jm_get (st_executionAttempts s) k = Some a \<and> attempt_key a = key))"

definition attempt_advances :: "attempt \<Rightarrow> attempt \<Rightarrow> bool" where
  \<comment> \<open>what an attempt may become: its identity and binding stay, a dispatch is not undone or repeated, a
     terminal attempt is final\<close>
  "attempt_advances a b \<longleftrightarrow>
     at_id b = at_id a \<and> at_workspaceId b = at_workspaceId a \<and> at_toolCallId b = at_toolCallId a
     \<and> at_binding b = at_binding a \<and> at_inputHash b = at_inputHash a
     \<and> at_executionMode b = at_executionMode a \<and> at_reservationOwner b = at_reservationOwner a
     \<and> (at_dispatchedAt a \<noteq> None \<longrightarrow> at_dispatchedAt b = at_dispatchedAt a)
     \<and> (truthy (at_grantId a) \<longrightarrow> at_grantId b = at_grantId a)
     \<and> (at_state a = Dispatched \<longrightarrow> at_state b \<noteq> Reserved \<and> at_state b \<noteq> FailedBeforeDispatch)
     \<and> (isExecutionAttemptTerminal (at_state a) \<longrightarrow> b = a)"

lemma attempt_advances_refl [simp]: "attempt_advances a a"
  by (simp add: attempt_advances_def)

lemma attempt_advances_trans:
  assumes "attempt_advances a b" "attempt_advances b c"
  shows "attempt_advances a c"
proof -
  have "at_state c \<noteq> Reserved \<and> at_state c \<noteq> FailedBeforeDispatch" if "at_state a = Dispatched"
  proof (cases "at_state b = Dispatched")
    case False
    with that assms have "isExecutionAttemptTerminal (at_state b)"
      by (auto simp: attempt_advances_def isExecutionAttemptTerminal_def)
    with that assms show ?thesis by (auto simp: attempt_advances_def)
  qed (use assms(2) in \<open>simp add: attempt_advances_def\<close>)
  with assms show ?thesis by (auto simp: attempt_advances_def)
qed

definition attempts_advance :: "store \<Rightarrow> store \<Rightarrow> bool" where
  "attempts_advance s s' = (\<forall>k a. jm_get (st_executionAttempts s) k = Some a \<longrightarrow>
     (\<exists>b. jm_get (st_executionAttempts s') k = Some b \<and> attempt_advances a b))"

lemma attempts_advance_refl [simp]: "attempts_advance s s"
  by (simp add: attempts_advance_def)

lemma attempts_advance_trans: "attempts_advance s t \<Longrightarrow> attempts_advance t u \<Longrightarrow> attempts_advance s u"
  unfolding attempts_advance_def by (meson attempt_advances_trans)

lemma attempts_okD:
  "attempts_ok s \<Longrightarrow> jm_get (st_executionAttempts s) k = Some a
    \<Longrightarrow> at_id a = k \<and> k \<noteq> [] \<and> attempt_ok a \<and> jm_get (st_executionAttemptByToolCall s) (attempt_key a) = Some k"
  by (simp add: attempts_ok_def)

lemma attempts_ok_index:
  "attempts_ok s \<Longrightarrow> jm_get (st_executionAttemptByToolCall s) key = Some k
    \<Longrightarrow> \<exists>a. jm_get (st_executionAttempts s) k = Some a \<and> attempt_key a = key"
  by (simp add: attempts_ok_def)

lemma attempts_okI:
  assumes "\<And>k a. jm_get (st_executionAttempts s) k = Some a \<Longrightarrow>
      at_id a = k \<and> k \<noteq> [] \<and> attempt_ok a \<and> jm_get (st_executionAttemptByToolCall s) (attempt_key a) = Some k"
    and "\<And>key k. jm_get (st_executionAttemptByToolCall s) key = Some k
      \<Longrightarrow> \<exists>a. jm_get (st_executionAttempts s) k = Some a \<and> attempt_key a = key"
  shows "attempts_ok s"
  using assms by (auto simp: attempts_ok_def)

text \<open>Replacing an attempt by one it may advance to.\<close>

lemma attempt_key_advances: "attempt_advances a b \<Longrightarrow> attempt_key b = attempt_key a"
  by (simp add: attempt_advances_def attempt_key_def)

lemma put_attempt_ok:
  assumes "attempts_ok s" "jm_get (st_executionAttempts s) k = Some a" "attempt_advances a b" "attempt_ok b"
  shows "attempts_ok (put_attempt b s)"
proof -
  have k: "at_id b = k" "attempt_key b = attempt_key a"
    using attempts_okD [OF assms(1,2)] attempt_key_advances [OF assms(3)] assms(3) by (simp_all add: attempt_advances_def)
  have get: "jm_get (st_executionAttempts (put_attempt b s)) k' =
      (if k' = k then Some b else jm_get (st_executionAttempts s) k')" for k'
    by (simp add: put_attempt_def k)
  have index: "st_executionAttemptByToolCall (put_attempt b s) = st_executionAttemptByToolCall s"
    by (simp add: put_attempt_def)
  show ?thesis
  proof (rule attempts_okI)
    fix k' c assume "jm_get (st_executionAttempts (put_attempt b s)) k' = Some c"
    then show "at_id c = k' \<and> k' \<noteq> [] \<and> attempt_ok c
        \<and> jm_get (st_executionAttemptByToolCall (put_attempt b s)) (attempt_key c) = Some k'"
      using attempts_okD [OF assms(1,2)] attempts_okD [OF assms(1), of k' c] assms(4) k
      by (auto simp: get index split: if_splits)
  next
    fix key k' assume "jm_get (st_executionAttemptByToolCall (put_attempt b s)) key = Some k'"
    then obtain c where "jm_get (st_executionAttempts s) k' = Some c" "attempt_key c = key"
      using attempts_ok_index [OF assms(1)] by (auto simp: index)
    then show "\<exists>a. jm_get (st_executionAttempts (put_attempt b s)) k' = Some a \<and> attempt_key a = key"
      using assms(2) k by (auto simp: get)
  qed
qed

lemma put_attempt_advances:
  assumes "attempts_ok s" "jm_get (st_executionAttempts s) k = Some a" "attempt_advances a b"
  shows "attempts_advance s (put_attempt b s)"
proof -
  have "at_id b = k" using attempts_okD [OF assms(1,2)] assms(3) by (simp add: attempt_advances_def)
  then show ?thesis
    unfolding attempts_advance_def put_attempt_def
    using jm.put_rel [OF assms(2), of attempt_advances b] assms(3) by simp
qed

section \<open>Reserving\<close>

lemma reserve_cases:
  assumes "reserveExecutionAttemptAtomically E now r z s = (res, s')"
  obtains (kept) "s' = s" "rr_outcome res \<noteq> Rs_Reserved"
  | (reserved) t where "jm_get (st_toolCalls s) (at_toolCallId r) = Some t"
      "default_ws (tc_workspaceId t) = at_workspaceId r"
      "executionAttemptBindingMatches E now r t (st_approvals s) (st_actionReceipts s) z"
      "\<not> truthy (jm_get (st_executionAttemptByToolCall s) (attempt_key r))"
      "jm_get (st_executionAttempts s) (at_id r) = None"
      "res = \<lparr>rr_attempt = Some r, rr_outcome = Rs_Reserved\<rparr>"
      "s' = s\<lparr>st_executionAttempts := jm_set (at_id r) r (st_executionAttempts s),
              st_executionAttemptByToolCall := jm_set (attempt_key r) (at_id r) (st_executionAttemptByToolCall s)\<rparr>"
proof (cases "jm_get (st_toolCalls s) (at_toolCallId r)")
  case None
  with assms kept show thesis by (auto simp: reserveExecutionAttemptAtomically_def)
next
  case (Some t)
  show thesis
  proof (cases "default_ws (tc_workspaceId t) = at_workspaceId r
      \<and> executionAttemptBindingMatches E now r t (st_approvals s) (st_actionReceipts s) z
      \<and> \<not> truthy (jm_get (st_executionAttemptByToolCall s) (attempt_key r))
      \<and> jm_get (st_executionAttempts s) (at_id r) = None")
    case True
    with Some assms reserved [of t] show thesis
      by (auto simp: reserveExecutionAttemptAtomically_def attempt_key_def jm_has_def Let_def)
  next
    case False
    with Some assms kept show thesis
      by (auto simp: reserveExecutionAttemptAtomically_def attempt_key_def jm_has_def Let_def split: if_splits)
  qed
qed

lemma binding_shape: "executionAttemptBindingMatches E now r t aps rcs z \<Longrightarrow> attempt_shape_ok r"
  by (simp add: executionAttemptBindingMatches_def split: if_splits)

lemma shape_attempt_ok: "attempt_shape_ok r \<Longrightarrow> attempt_ok r \<and> at_id r \<noteq> []"
  by (simp add: attempt_shape_ok_def attempt_ok_def)

lemma index_free:
  assumes "attempts_ok s" "\<not> truthy (jm_get (st_executionAttemptByToolCall s) key)"
  shows "jm_get (st_executionAttemptByToolCall s) key = None"
proof (cases "jm_get (st_executionAttemptByToolCall s) key")
  case (Some k)
  with attempts_ok_index [OF assms(1)] obtain a where "jm_get (st_executionAttempts s) k = Some a" by blast
  with assms Some show ?thesis by (auto dest: attempts_okD)
qed

lemma add_attempt_ok:
  assumes "attempts_ok s" "attempt_ok r" "at_id r \<noteq> []"
    and "jm_get (st_executionAttemptByToolCall s) (attempt_key r) = None"
    and "jm_get (st_executionAttempts s) (at_id r) = None"
    and "st_executionAttempts s' = jm_set (at_id r) r (st_executionAttempts s)"
    and "st_executionAttemptByToolCall s' = jm_set (attempt_key r) (at_id r) (st_executionAttemptByToolCall s)"
  shows "attempts_ok s'" "attempts_advance s s'"
proof -
  show "attempts_ok s'"
  proof (rule attempts_okI)
    fix k a assume a: "jm_get (st_executionAttempts s') k = Some a"
    show "at_id a = k \<and> k \<noteq> [] \<and> attempt_ok a \<and> jm_get (st_executionAttemptByToolCall s') (attempt_key a) = Some k"
    proof (cases "k = at_id r")
      case False
      with a assms(6) have "jm_get (st_executionAttempts s) k = Some a" by simp
      with attempts_okD [OF assms(1) this] assms(4,7) show ?thesis by auto
    qed (use a assms(2,3,6,7) in auto)
  next
    fix key k assume "jm_get (st_executionAttemptByToolCall s') key = Some k"
    with attempts_ok_index [OF assms(1), of key k] assms(5-7)
    show "\<exists>a. jm_get (st_executionAttempts s') k = Some a \<and> attempt_key a = key"
      by (cases "key = attempt_key r") auto
  qed
  show "attempts_advance s s'"
    using assms(5,6) by (auto simp: attempts_advance_def)
qed

lemma reserve_ok:
  assumes "attempts_ok s" and "reserveExecutionAttemptAtomically E now r z s = (res, s')"
  shows "attempts_ok s' \<and> attempts_advance s s'"
  using assms(2)
proof (cases rule: reserve_cases)
  case (reserved t)
  note shape = shape_attempt_ok [OF binding_shape [OF reserved(3)]]
  have "attempts_ok s'" "attempts_advance s s'"
    by (rule add_attempt_ok [OF assms(1) _ _ index_free [OF assms(1) reserved(4)] reserved(5)];
        use shape reserved(7) in simp)+
  then show ?thesis ..
qed (use assms(1) in simp)

section \<open>Transitions\<close>

lemma transition_cases:
  assumes "transitionExecutionAttemptAtomically E i s = (res, s')"
  obtains (kept) "s' = s" "fst res \<noteq> Tr_Transitioned"
  | (moved) current where "jm_get (st_executionAttempts s) (ti_attemptId i) = Some current"
      "at_workspaceId current = ti_workspaceId i" "at_reservationOwner current = ti_reservationOwner i"
      "\<not> executionAttemptIsTerminal (at_state current)"
      "contentExposureRevisionMatches s (ti_workspaceId i) (ti_contentExposureRevision i)"
      "at_state current = ti_expectedState i" "executionAttemptTransitionIsValid i"
      "res = (Tr_Transitioned, Some (transitionedExecutionAttempt current i))"
      "s' = put_attempt (transitionedExecutionAttempt current i) s"
proof (cases "jm_get (st_executionAttempts s) (ti_attemptId i)")
  case None
  with assms kept show thesis by (auto simp: transitionExecutionAttemptAtomically_def)
next
  case (Some current)
  show thesis
  proof (cases "at_workspaceId current = ti_workspaceId i \<and> at_reservationOwner current = ti_reservationOwner i
      \<and> \<not> executionAttemptTransitionIsReplay E current i \<and> \<not> executionAttemptIsTerminal (at_state current)
      \<and> contentExposureRevisionMatches s (ti_workspaceId i) (ti_contentExposureRevision i)
      \<and> at_state current = ti_expectedState i \<and> executionAttemptTransitionIsValid i")
    case True
    with Some assms moved show thesis by (auto simp: transitionExecutionAttemptAtomically_def Let_def)
  next
    case False
    with Some assms kept show thesis
      by (auto simp: transitionExecutionAttemptAtomically_def Let_def split: if_splits)
  qed
qed

lemma transitioned_ok:
  assumes "attempt_ok a" "\<not> executionAttemptIsTerminal (at_state a)" "at_state a = ti_expectedState i"
    and "executionAttemptTransitionIsValid i"
  shows "attempt_ok (transitionedExecutionAttempt a i) \<and> attempt_advances a (transitionedExecutionAttempt a i)"
proof (cases "at_state a")
  case Reserved
  with assms show ?thesis
    by (auto simp: transitionedExecutionAttempt_def executionAttemptTransitionIsValid_def attempt_ok_def
        attempt_advances_def split: if_splits)
next
  case Dispatched
  with assms show ?thesis
    by (cases "ti_nextState i")
       (auto simp: transitionedExecutionAttempt_def executionAttemptTransitionIsValid_def attempt_ok_def
        attempt_advances_def)
qed (use assms(2) in \<open>simp_all add: executionAttemptIsTerminal_def\<close>)

lemma transition_ok:
  assumes "attempts_ok s" and "transitionExecutionAttemptAtomically E i s = (res, s')"
  shows "attempts_ok s' \<and> attempts_advance s s'"
  using assms(2)
proof (cases rule: transition_cases)
  case (moved current)
  have "attempt_ok current" using assms(1) moved(1) by (auto dest: attempts_okD)
  from transitioned_ok [OF this moved(4,6,7)] show ?thesis
    using assms(1) moved(1,9) by (auto intro: put_attempt_ok put_attempt_advances)
qed (use assms(1) in simp)

section \<open>Binding a grant\<close>

lemma bind_cases:
  assumes "bindExecutionAttemptGrantAtomically i s = (res, s')"
  obtains (kept) "s' = s"
  | (bound) current where "jm_get (st_executionAttempts s) (gi_attemptId i) = Some current"
      "at_state current = Reserved" "\<not> truthy (at_grantId current)"
      "s' = put_attempt (current\<lparr>at_grantId := Some (gi_grantId i), at_updatedAt := gi_updatedAt i\<rparr>) s"
  using assms that
  by (auto simp: bindExecutionAttemptGrantAtomically_def Let_def split: option.splits if_splits)

lemma bind_ok:
  assumes "attempts_ok s" and "bindExecutionAttemptGrantAtomically i s = (res, s')"
  shows "attempts_ok s' \<and> attempts_advance s s'"
  using assms(2)
proof (cases rule: bind_cases)
  case (bound current)
  let ?b = "current\<lparr>at_grantId := Some (gi_grantId i), at_updatedAt := gi_updatedAt i\<rparr>"
  have "attempt_ok current" using assms(1) bound(1) by (auto dest: attempts_okD)
  then have "attempt_ok ?b" "attempt_advances current ?b"
    using bound(2,3) by (simp_all add: attempt_ok_def attempt_advances_def)
  then show ?thesis using assms(1) bound(1,4) by (auto intro: put_attempt_ok put_attempt_advances)
qed (use assms(1) in simp)

section \<open>Dispatching\<close>

definition dispatched_attempt :: "attempt \<Rightarrow> string \<Rightarrow> attempt" where
  "dispatched_attempt a t = a\<lparr>at_dispatchedAt := Some t, at_state := Dispatched, at_updatedAt := t\<rparr>"

definition put_grant :: "grant \<Rightarrow> store \<Rightarrow> store" where
  "put_grant g s = s\<lparr>st_executionGrants := jm_set (gr_id g) g (st_executionGrants s)\<rparr>"

definition dispatchable :: "dispatch_input \<Rightarrow> store \<Rightarrow> attempt \<Rightarrow> grant \<Rightarrow> bool" where
  "dispatchable i s a g \<longleftrightarrow>
     jm_get (st_executionAttempts s) (dp_attemptId i) = Some a \<and> at_workspaceId a = dp_workspaceId i
     \<and> jm_get (st_executionGrants s) (dp_grantId i) = Some g \<and> gr_workspaceId g = dp_workspaceId i
     \<and> \<not> truthy (gr_consumedAt g) \<and> at_state a = Reserved
     \<and> at_reservationOwner a = dp_reservationOwner i \<and> at_grantId a = Some (dp_grantId i)
     \<and> at_toolCallId a = dp_toolCallId i \<and> gr_toolCallId g = dp_toolCallId i
     \<and> contentExposureRevisionMatches s (dp_workspaceId i) (dp_contentExposureRevision i)"

lemma dispatch_cases:
  assumes "consumeExecutionGrantAndDispatchAttemptAtomically i s = (res, s')"
  obtains (kept) "s' = s" "dr_outcome res \<noteq> Dp_Dispatched"
  | (dispatched) a g where "dispatchable i s a g"
      "res = \<lparr>dr_attempt = Some (dispatched_attempt a (dp_dispatchedAt i)),
              dr_grant = Some (g\<lparr>gr_consumedAt := Some (dp_dispatchedAt i)\<rparr>), dr_outcome = Dp_Dispatched\<rparr>"
      "s' = put_attempt (dispatched_attempt a (dp_dispatchedAt i))
              (put_grant (g\<lparr>gr_consumedAt := Some (dp_dispatchedAt i)\<rparr>) s)"
proof (cases "\<exists>a g. dispatchable i s a g")
  case True
  then obtain a g where d: "dispatchable i s a g" by blast
  with assms have "res = \<lparr>dr_attempt = Some (dispatched_attempt a (dp_dispatchedAt i)),
              dr_grant = Some (g\<lparr>gr_consumedAt := Some (dp_dispatchedAt i)\<rparr>), dr_outcome = Dp_Dispatched\<rparr>"
      "s' = put_attempt (dispatched_attempt a (dp_dispatchedAt i))
              (put_grant (g\<lparr>gr_consumedAt := Some (dp_dispatchedAt i)\<rparr>) s)"
    by (auto simp: consumeExecutionGrantAndDispatchAttemptAtomically_def dispatchable_def Let_def
        dispatched_attempt_def put_grant_def)
  with d dispatched show thesis by blast
next
  case False
  have "s' = s \<and> dr_outcome res \<noteq> Dp_Dispatched"
  proof (cases "jm_get (st_executionAttempts s) (dp_attemptId i)")
    case None
    with assms show ?thesis by (auto simp: consumeExecutionGrantAndDispatchAttemptAtomically_def)
  next
    case a: (Some a)
    show ?thesis
    proof (cases "jm_get (st_executionGrants s) (dp_grantId i)")
      case None
      with a assms show ?thesis
        by (auto simp: consumeExecutionGrantAndDispatchAttemptAtomically_def split: if_splits)
    next
      case (Some g)
      with a False have "\<not> dispatchable i s a g" by blast
      with a Some assms show ?thesis
        unfolding consumeExecutionGrantAndDispatchAttemptAtomically_def dispatchable_def Let_def
        by (auto split: if_splits)
    qed
  qed
  with kept show thesis by blast
qed

lemma dispatched_ok:
  "attempt_ok a \<Longrightarrow> at_state a = Reserved \<Longrightarrow>
     attempt_ok (dispatched_attempt a t) \<and> attempt_advances a (dispatched_attempt a t)"
  by (simp add: attempt_ok_def attempt_advances_def dispatched_attempt_def)

lemma attempts_put_grant [simp]:
  "attempts_ok (put_grant g s) = attempts_ok s" "st_executionAttempts (put_grant g s) = st_executionAttempts s"
  by (simp_all add: attempts_ok_def put_grant_def)

lemma dispatch_ok:
  assumes "attempts_ok s" and "consumeExecutionGrantAndDispatchAttemptAtomically i s = (res, s')"
  shows "attempts_ok s' \<and> attempts_advance s s'"
  using assms(2)
proof (cases rule: dispatch_cases)
  case (dispatched a g)
  let ?b = "dispatched_attempt a (dp_dispatchedAt i)" and ?t = "put_grant (g\<lparr>gr_consumedAt := Some (dp_dispatchedAt i)\<rparr>) s"
  have a: "jm_get (st_executionAttempts s) (dp_attemptId i) = Some a" "at_state a = Reserved"
    using dispatched(1) by (simp_all add: dispatchable_def)
  then have b: "attempt_ok ?b" "attempt_advances a ?b"
    using assms(1) dispatched_ok by (auto dest: attempts_okD)
  have "attempts_ok ?t" "jm_get (st_executionAttempts ?t) (dp_attemptId i) = Some a" using assms(1) a by simp_all
  with b have "attempts_ok s'" "attempts_advance ?t s'"
    unfolding dispatched(3) by (blast intro: put_attempt_ok put_attempt_advances)+
  then show ?thesis by (simp add: attempts_advance_def)
qed (use assms(1) in simp)

end
