(* ===== verification/StorePublication.thy ===== *)
theory StorePublication
  imports StoreAttempts
begin

text \<open>
  The three multi-record writes of \<open>MemoryStore\<close> and the integrity checks they share with the other
  stores: publishing an approved external authorization
  (\<open>storage/approved-external-authorization-atomicity.ts\<close>), adopting the outcome of a finished
  external execution into the receipt and the tool call
  (\<open>storage/external-outcome-adoption-atomicity.ts\<close>), and recording such an outcome on a dispatched
  attempt (\<open>storage/external-outcome-recording-atomicity.ts\<close>).
\<close>

section \<open>Shared checks\<close>

definition mismatch_labels :: "(bool \<times> string) list \<Rightarrow> string list" where
  \<comment> \<open>the labels of the conditions that hold, in order\<close>
  "mismatch_labels cs = map snd (filter fst cs)"

definition sameHash :: "env \<Rightarrow> json \<Rightarrow> json \<Rightarrow> bool" where
  "sameHash E v w = (hashJson E v = hashJson E w)"

definition sameHashUnknown :: "env \<Rightarrow> json \<Rightarrow> json \<Rightarrow> store_error + bool" where
  \<comment> \<open>hashing \<open>undefined\<close> throws a TypeError\<close>
  "sameHashUnknown E v w =
     (case (hashJsonUnknown E v, hashJsonUnknown E w) of
        (Some a, Some b) \<Rightarrow> Inr (a = b) | _ \<Rightarrow> Inl DigestTypeError)"

definition externalExecutionOutcome :: "json \<Rightarrow> json" where
  "externalExecutionOutcome result = (if isObjectOrArray result then jget result ''externalExecutionOutcome'' else JUndef)"

definition toolCallImmutableOutcomeSemantics :: "tool_call \<Rightarrow> json" where
  "toolCallImmutableOutcomeSemantics t =
     without [''error'', ''result'', ''resultDelivery'', ''resultWithheld'', ''status'', ''updatedAt'']
       (tool_call_members t)"

definition receiptWithoutOutcome :: "receipt \<Rightarrow> json" where
  "receiptWithoutOutcome r = without [''outcome''] (receipt_members r)"

definition receipt_outcome_json :: "receipt \<Rightarrow> json" where
  \<comment> \<open>\<open>receipt.outcome ?? null\<close>\<close>
  "receipt_outcome_json r = (case rc_outcome r of None \<Rightarrow> JNull | Some x \<Rightarrow> encode_receipt_outcome x)"

section \<open>Publishing an approved external authorization\<close>

record publication_input =
  pu_approvalId :: string
  pu_attempt :: attempt
  pu_grant :: grant
  pu_receipt :: receipt
  pu_toolCall :: tool_call

definition publication_mismatches :: "env \<Rightarrow> publication_input \<Rightarrow> string list" where
  "publication_mismatches E i =
     (let attempt = pu_attempt i; g = pu_grant i; receipt = pu_receipt i; t = pu_toolCall i;
          b = at_binding attempt;
          workspaceId = default_ws (tc_workspaceId t);
          result = tc_result t; resultGrant = jget result ''grant''; resultReceipt = jget result ''receipt''
      in mismatch_labels
       [(pu_approvalId i = [], ''approval_id''),
        (tc_status t \<noteq> Authorized, ''tool_call_status''),
        (tc_decision t \<noteq> Some RequireApproval, ''policy_decision''),
        (jget (tc_actionEnvelope t) ''executionMode'' \<noteq> JStr ''external_grant'', ''action_execution_mode''),
        (\<not> truthy (tc_inputHash t) \<or> Some (hashJson E (tc_input t)) \<noteq> tc_inputHash t, ''tool_call_input_hash''),
        (rc_decisionKind receipt \<noteq> HumanApproval, ''receipt_decision_kind''),
        (rc_executionMode receipt \<noteq> ExternalGrant, ''receipt_execution_mode''),
        (rc_outcome receipt \<noteq> None, ''receipt_outcome''),
        (rc_approvalId receipt \<noteq> Some (pu_approvalId i), ''receipt_approval''),
        (rc_workspaceId receipt \<noteq> workspaceId, ''receipt_workspace''),
        (rc_toolCallId receipt \<noteq> tc_id t, ''receipt_tool_call''),
        (rc_toolName receipt \<noteq> tc_toolName t, ''receipt_tool_name''),
        (Some (rc_approvedInputHash receipt) \<noteq> tc_inputHash t, ''receipt_input_hash''),
        (Some (rc_approvedEnvelopeHash receipt) \<noteq> tc_actionEnvelopeHash t, ''receipt_envelope_hash''),
        (gr_workspaceId g \<noteq> workspaceId, ''grant_workspace''),
        (gr_toolCallId g \<noteq> tc_id t, ''grant_tool_call''),
        (gr_toolName g \<noteq> tc_toolName t, ''grant_tool_name''),
        (Some (gr_inputHash g) \<noteq> tc_inputHash t, ''grant_input_hash''),
        (gr_approvedInputHash g \<noteq> Some (rc_approvedInputHash receipt), ''grant_approved_input_hash''),
        (gr_approvedEnvelopeHash g \<noteq> Some (rc_approvedEnvelopeHash receipt), ''grant_approved_envelope_hash''),
        (gr_policyVersionHash g \<noteq> rc_policyVersionHash receipt, ''grant_policy_version''),
        (gr_receiptId g \<noteq> Some (rc_id receipt), ''grant_receipt_id''),
        (gr_receiptHash g \<noteq> Some (rc_receiptHash receipt), ''grant_receipt_hash''),
        (gr_consumedAt g \<noteq> None, ''grant_consumed''),
        (at_version attempt \<noteq> ''actionproxy.execution-attempt.v1'', ''attempt_version''),
        (at_attemptNumber attempt \<noteq> 1, ''attempt_number''),
        (at_state attempt \<noteq> Reserved, ''attempt_state''),
        (at_executionMode attempt \<noteq> ExternalGrant, ''attempt_execution_mode''),
        (at_executorId attempt \<noteq> ''actionproxy.external-runner'', ''attempt_executor''),
        (at_providerIdempotency attempt \<noteq> ''none'', ''provider_idempotency''),
        (at_retryPolicy attempt \<noteq> ''never_automatic'', ''retry_policy''),
        (at_outcome attempt \<noteq> None \<or> at_dispatchedAt attempt \<noteq> None \<or> at_completedAt attempt \<noteq> None, ''attempt_outcome''),
        (at_workspaceId attempt \<noteq> workspaceId, ''attempt_workspace''),
        (at_toolCallId attempt \<noteq> tc_id t, ''attempt_tool_call''),
        (Some (at_inputHash attempt) \<noteq> tc_inputHash t, ''attempt_input_hash''),
        (at_grantId attempt \<noteq> Some (gr_id g), ''attempt_grant''),
        (ab_approvalId b \<noteq> Some (pu_approvalId i), ''attempt_approval''),
        (ab_receiptId b \<noteq> Some (rc_id receipt), ''attempt_receipt_id''),
        (ab_receiptHash b \<noteq> Some (rc_receiptHash receipt), ''attempt_receipt_hash''),
        (ab_actionEnvelopeHash b \<noteq> tc_actionEnvelopeHash t, ''attempt_envelope_hash''),
        (ab_canonicalActionRequestHash b \<noteq> tc_canonicalActionRequestHash t, ''attempt_canonical_request_hash''),
        (ab_canonicalActionRequestVersion b \<noteq> tc_canonicalActionRequestVersion t, ''attempt_canonical_request_version''),
        (ab_canonicalDecisionInputHash b \<noteq> tc_canonicalDecisionInputHash t, ''attempt_decision_input_hash''),
        (ab_policyVersionHash b \<noteq> tc_policyVersionHash t, ''attempt_policy_version''),
        (jget result ''externalExecution'' \<noteq> JBool True, ''tool_call_result_mode''),
        (jget resultGrant ''id'' \<noteq> JStr (gr_id g), ''tool_call_result_grant''),
        (jget resultReceipt ''id'' \<noteq> JStr (rc_id receipt)
           \<or> jget resultReceipt ''receiptHash'' \<noteq> JStr (rc_receiptHash receipt), ''tool_call_result_receipt'')])"

definition assertApprovedExternalAuthorizationPublicationCandidate ::
  "env \<Rightarrow> publication_input \<Rightarrow> store_error + unit" where
  "assertApprovedExternalAuthorizationPublicationCandidate E i =
     (if publication_mismatches E i \<noteq> [] then Inl (IntegrityCheckFailed (publication_mismatches E i)) else Inr ())"

definition toolCallImmutablePublicationSemantics :: "tool_call \<Rightarrow> json" where
  "toolCallImmutablePublicationSemantics t =
     without [''actionEnvelope'', ''actionEnvelopeHash'', ''error'', ''input'', ''inputHash'', ''result'',
              ''status'', ''updatedAt''] (tool_call_members t)"

definition approvedExternalAuthorizationMatchesCurrent ::
  "env \<Rightarrow> publication_input \<Rightarrow> approval \<Rightarrow> tool_call \<Rightarrow> bool" where
  "approvedExternalAuthorizationMatchesCurrent E i ap currentToolCall =
     (let attempt = pu_attempt i; receipt = pu_receipt i; t = pu_toolCall i;
          workspaceId = default_ws (tc_workspaceId t);
          decision = jget (tc_decisionTrace t) ''decisionV1''
      in ap_id ap = pu_approvalId i
         \<and> default_ws (ap_workspaceId ap) = workspaceId
         \<and> ap_toolCallId ap = tc_id t
         \<and> ap_status ap = Approval_Approved
         \<and> ap_authorizationConsumedReason ap = Some ReasonApproved
         \<and> ap_authorizationConsumedAt ap \<noteq> None
         \<and> (case ap_authorization ap of
              None \<Rightarrow> False
            | Some z \<Rightarrow>
                ap_approvedInputHash ap = Some (rc_approvedInputHash receipt)
                \<and> ap_approvedEnvelopeHash ap = Some (rc_approvedEnvelopeHash receipt)
                \<and> ap_originalInputHash ap = Some (rc_originalInputHash receipt)
                \<and> ap_originalEnvelopeHash ap = Some (rc_originalEnvelopeHash receipt)
                \<and> ap_reviewHash ap = rc_reviewHash receipt
                \<and> ab_approvalAuthorizationHash (at_binding attempt) = Some (az_authorizationHash z)
                \<and> ab_approvalAuthorizationNonce (at_binding attempt) = Some (az_nonce z)
                \<and> ab_decisionId (at_binding attempt) = jstring (jget decision ''decisionId'')
                \<and> ab_decisionVersion (at_binding attempt) = jstring (jget decision ''version'')
                \<and> tc_id currentToolCall = tc_id t
                \<and> default_ws (tc_workspaceId currentToolCall) = workspaceId
                \<and> tc_status currentToolCall = PendingApproval
                \<and> tc_toolName currentToolCall = tc_toolName t
                \<and> tc_decision currentToolCall = tc_decision t
                \<and> tc_policyVersionHash currentToolCall = tc_policyVersionHash t
                \<and> sameHash E (toolCallImmutablePublicationSemantics currentToolCall)
                             (toolCallImmutablePublicationSemantics t)))"

definition sameApprovedExternalAuthorizationPublication ::
  "env \<Rightarrow> publication_input \<Rightarrow> attempt option \<Rightarrow> grant option \<Rightarrow> receipt option \<Rightarrow> tool_call option \<Rightarrow> bool" where
  "sameApprovedExternalAuthorizationPublication E i attempt g receipt t =
     (case (attempt, g, receipt, t) of
        (Some a, Some g', Some r, Some t') \<Rightarrow>
          sameHash E (encode_attempt a) (encode_attempt (pu_attempt i))
          \<and> sameHash E (encode_grant g') (encode_grant (pu_grant i))
          \<and> sameHash E (encode_receipt r) (encode_receipt (pu_receipt i))
          \<and> sameHash E (encode_tool_call t') (encode_tool_call (pu_toolCall i))
      | _ \<Rightarrow> False)"

datatype publication_outcome =
    Pb_BindingMismatch | Pb_Conflict | Pb_Created | Pb_NotFound | Pb_Replay | Pb_StateMismatch

record publication_result =
  pr_result_approval :: "approval option"
  pr_result_attempt :: "attempt option"
  pr_result_grant :: "grant option"
  pr_result_outcome :: publication_outcome
  pr_result_receipt :: "receipt option"
  pr_result_toolCall :: "tool_call option"

definition publishApprovedExternalAuthorizationAtomically ::
  "env \<Rightarrow> publication_input \<Rightarrow> store \<Rightarrow> (store_error + publication_result) \<times> store" where
  "publishApprovedExternalAuthorizationAtomically E i s =
     (case assertApprovedExternalAuthorizationPublicationCandidate E i of
        Inl e \<Rightarrow> (Inl e, s)
      | Inr _ \<Rightarrow>
          let workspaceId = default_ws (tc_workspaceId (pu_toolCall i));
              approval = jm_get (st_approvals s) (pu_approvalId i);
              toolCall = jm_get (st_toolCalls s) (tc_id (pu_toolCall i));
              result = (\<lambda>a g out r. (Inr \<lparr>pr_result_approval = approval, pr_result_attempt = a,
                pr_result_grant = g, pr_result_outcome = out, pr_result_receipt = r,
                pr_result_toolCall = toolCall\<rparr>, s))
          in case (approval, toolCall) of
               (Some ap, Some t) \<Rightarrow>
                 if default_ws (tc_workspaceId t) \<noteq> workspaceId then result None None Pb_NotFound None
                 else
                   let attemptId = jm_get (st_executionAttemptByToolCall s) (executionAttemptToolCallKey workspaceId (tc_id t));
                       attempt = (if truthy attemptId then jm_get (st_executionAttempts s) (the attemptId) else None);
                       receipt = List.find (\<lambda>c. rc_workspaceId c = workspaceId \<and> rc_toolCallId c = tc_id t)
                                   (jm_values (st_actionReceipts s));
                       g = List.find (\<lambda>c. gr_workspaceId c = workspaceId \<and> gr_toolCallId c = tc_id t)
                                   (jm_values (st_executionGrants s))
                   in if attempt \<noteq> None \<or> receipt \<noteq> None \<or> g \<noteq> None \<or> tc_status t = Authorized then
                        (if sameApprovedExternalAuthorizationPublication E i attempt g receipt (Some t)
                         then result attempt g Pb_Replay receipt else result attempt g Pb_Conflict receipt)
                      else if ap_status ap \<noteq> Approval_Approved \<or> tc_status t \<noteq> PendingApproval
                      then result None None Pb_StateMismatch None
                      else if \<not> approvedExternalAuthorizationMatchesCurrent E i ap t
                      then result None None Pb_BindingMismatch None
                      else if jm_has (st_executionAttempts s) (at_id (pu_attempt i))
                           \<or> jm_has (st_executionGrants s) (gr_id (pu_grant i))
                           \<or> jm_has (st_actionReceipts s) (rc_id (pu_receipt i))
                      then result None None Pb_Conflict None
                      else (Inr \<lparr>pr_result_approval = Some ap, pr_result_attempt = Some (pu_attempt i),
                              pr_result_grant = Some (pu_grant i), pr_result_outcome = Pb_Created,
                              pr_result_receipt = Some (pu_receipt i), pr_result_toolCall = Some (pu_toolCall i)\<rparr>,
                            s\<lparr>st_actionReceipts := jm_set (rc_id (pu_receipt i)) (pu_receipt i) (st_actionReceipts s),
                              st_executionGrants := jm_set (gr_id (pu_grant i)) (pu_grant i) (st_executionGrants s),
                              st_executionAttempts := jm_set (at_id (pu_attempt i)) (pu_attempt i) (st_executionAttempts s),
                              st_executionAttemptByToolCall :=
                                jm_set (executionAttemptToolCallKey workspaceId (tc_id t)) (at_id (pu_attempt i))
                                  (st_executionAttemptByToolCall s),
                              st_toolCalls := jm_set (tc_id (pu_toolCall i)) (pu_toolCall i) (st_toolCalls s)\<rparr>)
             | _ \<Rightarrow> result None None Pb_NotFound None)"

end
