(* ===== verification/StoreOutcome.thy ===== *)
theory StoreOutcome
  imports StorePublication
begin

text \<open>
  Adopting and recording the known outcome of an external execution
  (\<open>storage/external-outcome-adoption-atomicity.ts\<close>, \<open>storage/external-outcome-recording-atomicity.ts\<close> and
  their operations in \<open>MemoryStore\<close>).
\<close>

section \<open>Adopting an outcome\<close>

record adoption_input =
  an_attemptId :: string
  an_receipt :: receipt
  an_toolCall :: tool_call
  an_workspaceId :: string

definition assertKnownExternalExecutionOutcomeAdoptionCandidate :: "adoption_input \<Rightarrow> store_error + unit" where
  "assertKnownExternalExecutionOutcomeAdoptionCandidate i =
     (let mismatches = mismatch_labels
        [(an_attemptId i = [], ''attempt_id''),
         (rc_outcome (an_receipt i) = None, ''receipt_outcome''),
         (rc_workspaceId (an_receipt i) \<noteq> an_workspaceId i, ''receipt_workspace''),
         (rc_toolCallId (an_receipt i) \<noteq> tc_id (an_toolCall i), ''receipt_tool_call''),
         (default_ws (tc_workspaceId (an_toolCall i)) \<noteq> an_workspaceId i, ''tool_call_workspace''),
         (tc_status (an_toolCall i) \<noteq> Executed \<and> tc_status (an_toolCall i) \<noteq> Failed, ''tool_call_status'')]
      in if mismatches \<noteq> [] then Inl (IntegrityCheckFailed mismatches) else Inr ())"

datatype adoption_state = Adoptable | ReconciliationRequired | StateMismatch

definition externalOutcomeAdoptionState :: "attempt \<Rightarrow> adoption_state" where
  "externalOutcomeAdoptionState a =
     (if at_state a \<in> {Dispatched, TimedOut, UnknownOutcome} then ReconciliationRequired
      else if at_state a = Reserved then StateMismatch
      else (case at_outcome a of
              None \<Rightarrow> StateMismatch
            | Some oc \<Rightarrow> if ao_certainty oc = Known \<and> ao_status oc = at_state a then Adoptable else StateMismatch))"

definition knownExternalOutcomeMatchesCurrent ::
  "env \<Rightarrow> adoption_input \<Rightarrow> attempt \<Rightarrow> grant \<Rightarrow> receipt \<Rightarrow> tool_call \<Rightarrow> store_error + bool" where
  "knownExternalOutcomeMatchesCurrent E i attempt g receipt t =
     (let candidateOutcome = the (rc_outcome (an_receipt i));
          succeeded = (at_state attempt = Succeeded);
          b = at_binding attempt
      in case at_outcome attempt of
           None \<Rightarrow> Inr False
         | Some outcome \<Rightarrow>
             if externalOutcomeAdoptionState attempt \<noteq> Adoptable then Inr False
             else if \<not> (at_id attempt = an_attemptId i
               \<and> at_workspaceId attempt = an_workspaceId i
               \<and> at_toolCallId attempt = tc_id (an_toolCall i)
               \<and> at_executionMode attempt = ExternalGrant
               \<and> at_executorId attempt = ''actionproxy.external-runner''
               \<and> at_grantId attempt = Some (gr_id g)
               \<and> gr_workspaceId g = an_workspaceId i
               \<and> gr_toolCallId g = tc_id (an_toolCall i)
               \<and> gr_consumedAt g \<noteq> None
               \<and> gr_inputHash g = at_inputHash attempt
               \<and> gr_receiptId g = Some (rc_id receipt)
               \<and> gr_receiptHash g = Some (rc_receiptHash receipt)
               \<and> ab_receiptId b = Some (rc_id receipt)
               \<and> ab_receiptHash b = Some (rc_receiptHash receipt)
               \<and> ab_actionEnvelopeHash b = gr_approvedEnvelopeHash g
               \<and> rc_id receipt = rc_id (an_receipt i)
               \<and> rc_toolCallId receipt = tc_id (an_toolCall i)
               \<and> rc_workspaceId receipt = an_workspaceId i
               \<and> sameHash E (receiptWithoutOutcome receipt) (receiptWithoutOutcome (an_receipt i))
               \<and> default_ws (tc_workspaceId t) = an_workspaceId i
               \<and> tc_id t = tc_id (an_toolCall i)
               \<and> tc_status t = Authorized
               \<and> tc_inputHash t = Some (at_inputHash attempt)
               \<and> same_present (tc_actionEnvelopeHash t) (ab_actionEnvelopeHash b)
               \<and> sameHash E (toolCallImmutableOutcomeSemantics t) (toolCallImmutableOutcomeSemantics (an_toolCall i))
               \<and> ro_recordedAt candidateOutcome = ao_recordedAt outcome
               \<and> ro_status candidateOutcome = (if succeeded then Outcome_Succeeded else Outcome_Failed)
               \<and> ao_resultDeliveryHash outcome = hashOptional E (ro_resultDelivery candidateOutcome)
               \<and> ao_remediationHash outcome = hashOptional E (if succeeded then ro_remediation candidateOutcome else JUndef)
               \<and> (\<not> succeeded \<or> ao_resultHash outcome = hashOptional E (ro_result candidateOutcome))
               \<and> (succeeded \<or> ro_error candidateOutcome = ao_errorMessage outcome)
               \<and> tc_status (an_toolCall i) = (if succeeded then Executed else Failed)
               \<and> tc_error (an_toolCall i) = (if succeeded then tc_error t else ro_error candidateOutcome)
               \<and> sameHash E (null_coalesce (tc_resultDelivery (an_toolCall i)))
                            (null_coalesce (ro_resultDelivery candidateOutcome)))
             then Inr False
             else if succeeded
             then sameHashUnknown E (externalExecutionOutcome (tc_result (an_toolCall i))) (ro_result candidateOutcome)
             else Inr (sameHash E (null_coalesce (tc_result (an_toolCall i))) (null_coalesce (tc_result t))))"

definition withheld_compatible :: "bool option \<Rightarrow> bool option \<Rightarrow> bool" where
  \<comment> \<open>stored and candidate \<open>resultWithheld\<close>\<close>
  "withheld_compatible stored candidate =
     (stored = candidate \<or> (candidate = Some True \<and> stored = Some False))"

definition sameKnownExternalOutcomeProjection :: "env \<Rightarrow> adoption_input \<Rightarrow> receipt \<Rightarrow> tool_call \<Rightarrow> bool" where
  "sameKnownExternalOutcomeProjection E i receipt t =
     (sameHash E (receipt_outcome_json receipt) (receipt_outcome_json (an_receipt i))
      \<and> tc_status t = tc_status (an_toolCall i)
      \<and> tc_error t = tc_error (an_toolCall i)
      \<and> sameHash E (null_coalesce (tc_result t)) (null_coalesce (tc_result (an_toolCall i)))
      \<and> sameHash E (null_coalesce (tc_resultDelivery t)) (null_coalesce (tc_resultDelivery (an_toolCall i)))
      \<and> withheld_compatible (tc_resultWithheld t) (tc_resultWithheld (an_toolCall i)))"

definition outcomeProjectionCanBeAdopted :: "env \<Rightarrow> adoption_input \<Rightarrow> receipt \<Rightarrow> tool_call \<Rightarrow> bool" where
  "outcomeProjectionCanBeAdopted E i receipt t =
     ((rc_outcome receipt = None
       \<or> sameHash E (receipt_outcome_json receipt) (receipt_outcome_json (an_receipt i)))
      \<and> (tc_status t = Authorized
         \<or> sameKnownExternalOutcomeProjection E i (if rc_outcome receipt \<noteq> None then receipt else an_receipt i) t))"

datatype outcome_write =
    Ow_Adopted | Ow_Recorded | Ow_BindingMismatch | Ow_Conflict | Ow_NotFound | Ow_OwnerMismatch
  | Ow_ReconciliationRequired | Ow_Replay | Ow_StateMismatch

record outcome_result =
  or_attempt :: "attempt option"
  or_grant :: "grant option"
  or_outcome :: outcome_write
  or_receipt :: "receipt option"
  or_toolCall :: "tool_call option"

definition adoptKnownExternalExecutionOutcomeAtomically ::
  "env \<Rightarrow> adoption_input \<Rightarrow> store \<Rightarrow> (store_error + outcome_result) \<times> store" where
  "adoptKnownExternalExecutionOutcomeAtomically E i s =
     (case assertKnownExternalExecutionOutcomeAdoptionCandidate i of
        Inl e \<Rightarrow> (Inl e, s)
      | Inr _ \<Rightarrow>
          let attempt = jm_get (st_executionAttempts s) (an_attemptId i);
              toolCall = jm_get (st_toolCalls s) (tc_id (an_toolCall i));
              receipt = jm_get (st_actionReceipts s) (rc_id (an_receipt i));
              g = (case attempt of None \<Rightarrow> None | Some a \<Rightarrow>
                     if truthy (at_grantId a) then jm_get (st_executionGrants s) (the (at_grantId a)) else None);
              result = (\<lambda>out. (Inr \<lparr>or_attempt = attempt, or_grant = g, or_outcome = out,
                                  or_receipt = receipt, or_toolCall = toolCall\<rparr>, s))
          in case (attempt, toolCall, receipt, g) of
               (Some a, Some t, Some r, Some gr) \<Rightarrow>
                 if externalOutcomeAdoptionState a = ReconciliationRequired then result Ow_ReconciliationRequired
                 else if externalOutcomeAdoptionState a = StateMismatch then result Ow_StateMismatch
                 else if sameKnownExternalOutcomeProjection E i r t then result Ow_Replay
                 else (case knownExternalOutcomeMatchesCurrent E i a gr r t of
                     Inl e \<Rightarrow> (Inl e, s)
                   | Inr False \<Rightarrow> result Ow_BindingMismatch
                   | Inr True \<Rightarrow>
                       if \<not> outcomeProjectionCanBeAdopted E i r t then result Ow_Conflict
                       else
                         let adoptedReceipt = (if rc_outcome r \<noteq> None then r else an_receipt i);
                             adoptedToolCall = (if tc_status t = Authorized then an_toolCall i else t)
                         in (Inr \<lparr>or_attempt = Some a, or_grant = Some gr, or_outcome = Ow_Adopted,
                                  or_receipt = Some adoptedReceipt, or_toolCall = Some adoptedToolCall\<rparr>,
                             s\<lparr>st_actionReceipts := jm_set (rc_id adoptedReceipt) adoptedReceipt (st_actionReceipts s),
                               st_toolCalls := jm_set (tc_id adoptedToolCall) adoptedToolCall (st_toolCalls s)\<rparr>))
             | _ \<Rightarrow> result Ow_NotFound)"

section \<open>Recording an outcome\<close>

record recording_input =
  rn_attemptId :: string
  rn_attemptOutcome :: attempt_outcome
  rn_receiptOutcome :: receipt_outcome
  rn_reservationOwner :: string
  rn_toolCall :: tool_call
  rn_workspaceId :: string

definition assertKnownExternalExecutionOutcomeRecordingCandidate :: "env \<Rightarrow> recording_input \<Rightarrow> store_error + unit" where
  "assertKnownExternalExecutionOutcomeRecordingCandidate E i =
     (let oc = rn_attemptOutcome i; r = rn_receiptOutcome i; t = rn_toolCall i;
          succeeded = (ao_status oc = Succeeded);
          failed = (ao_status oc = FailedAfterDispatch);
          prepared = jget (tc_actionEnvelope t) ''preparedAction'';
          resultMatches = (if succeeded
            then sameHashUnknown E (externalExecutionOutcome (tc_result t)) (ro_result r) else Inr True)
      in case resultMatches of
           Inl e \<Rightarrow> Inl e
         | Inr same \<Rightarrow>
             let mismatches = mismatch_labels
               [(rn_attemptId i = [], ''attempt_id''),
                (rn_reservationOwner i = [], ''reservation_owner''),
                (ao_certainty oc \<noteq> Known, ''attempt_certainty''),
                (\<not> succeeded \<and> \<not> failed, ''attempt_status''),
                (ao_retryDisposition oc \<noteq> NoRetry, ''retry_disposition''),
                (ro_status r \<noteq> (if succeeded then Outcome_Succeeded else Outcome_Failed), ''receipt_status''),
                (ro_recordedAt r \<noteq> ao_recordedAt oc, ''receipt_recorded_at''),
                (tc_status t \<noteq> (if succeeded then Executed else Failed), ''tool_call_status''),
                (tc_updatedAt t \<noteq> ao_recordedAt oc, ''tool_call_updated_at''),
                (default_ws (tc_workspaceId t) \<noteq> rn_workspaceId i, ''tool_call_workspace''),
                (\<not> truthy (tc_inputHash t) \<or> Some (hashJson E (tc_input t)) \<noteq> tc_inputHash t, ''tool_call_input_hash''),
                (\<not> jtruthy (jget prepared ''intentId'') \<or> \<not> jtruthy (jget prepared ''intentHash''), ''prepared_action''),
                (ao_resultDeliveryHash oc \<noteq> hashOptional E (ro_resultDelivery r), ''result_delivery_hash''),
                (ao_remediationHash oc \<noteq> hashOptional E (ro_remediation r), ''remediation_hash''),
                (ao_resultHash oc \<noteq> hashOptional E (ro_result r), ''result_hash''),
                (ao_errorMessage oc \<noteq> ro_error r, ''error_message''),
                (succeeded \<and> ro_error r \<noteq> None, ''success_error''),
                (failed \<and> ro_result r \<noteq> JUndef, ''failure_result''),
                (failed \<and> ro_remediation r \<noteq> JUndef, ''failure_remediation''),
                (tc_error t \<noteq> (if succeeded then None else ro_error r), ''tool_call_error''),
                (\<not> sameHash E (null_coalesce (tc_resultDelivery t)) (null_coalesce (ro_resultDelivery r)),
                 ''tool_call_result_delivery''),
                (succeeded \<and> \<not> same, ''tool_call_result'')]
             in if mismatches \<noteq> [] then Inl (IntegrityCheckFailed mismatches) else Inr ())"

definition knownExternalOutcomeRecordingBindingsMatch ::
  "env \<Rightarrow> recording_input \<Rightarrow> attempt \<Rightarrow> grant \<Rightarrow> receipt \<Rightarrow> tool_call \<Rightarrow> bool" where
  "knownExternalOutcomeRecordingBindingsMatch E i attempt g receipt t =
     (let b = at_binding attempt;
          prepared = jget (tc_actionEnvelope t) ''preparedAction'';
          candidatePrepared = jget (tc_actionEnvelope (rn_toolCall i)) ''preparedAction''
      in at_id attempt = rn_attemptId i
         \<and> at_workspaceId attempt = rn_workspaceId i
         \<and> at_toolCallId attempt = tc_id (rn_toolCall i)
         \<and> at_reservationOwner attempt = rn_reservationOwner i
         \<and> at_executionMode attempt = ExternalGrant
         \<and> at_executorId attempt = ''actionproxy.external-runner''
         \<and> at_providerIdempotency attempt = ''none''
         \<and> at_retryPolicy attempt = ''never_automatic''
         \<and> at_grantId attempt = Some (gr_id g)
         \<and> gr_workspaceId g = rn_workspaceId i
         \<and> gr_toolCallId g = tc_id (rn_toolCall i)
         \<and> gr_toolName g = tc_toolName (rn_toolCall i)
         \<and> gr_consumedAt g \<noteq> None
         \<and> gr_inputHash g = at_inputHash attempt
         \<and> gr_approvedInputHash g = Some (rc_approvedInputHash receipt)
         \<and> gr_approvedEnvelopeHash g = Some (rc_approvedEnvelopeHash receipt)
         \<and> gr_receiptId g = Some (rc_id receipt)
         \<and> gr_receiptHash g = Some (rc_receiptHash receipt)
         \<and> ab_receiptId b = Some (rc_id receipt)
         \<and> ab_receiptHash b = Some (rc_receiptHash receipt)
         \<and> ab_actionEnvelopeHash b = gr_approvedEnvelopeHash g
         \<and> rc_workspaceId receipt = rn_workspaceId i
         \<and> rc_toolCallId receipt = tc_id (rn_toolCall i)
         \<and> rc_toolName receipt = tc_toolName (rn_toolCall i)
         \<and> rc_executionMode receipt = ExternalGrant
         \<and> rc_approvedInputHash receipt = at_inputHash attempt
         \<and> Some (rc_approvedEnvelopeHash receipt) = ab_actionEnvelopeHash b
         \<and> default_ws (tc_workspaceId t) = rn_workspaceId i
         \<and> tc_id t = tc_id (rn_toolCall i)
         \<and> tc_toolName t = tc_toolName (rn_toolCall i)
         \<and> tc_inputHash t = Some (at_inputHash attempt)
         \<and> same_present (tc_actionEnvelopeHash t) (ab_actionEnvelopeHash b)
         \<and> prepared \<noteq> JUndef \<and> candidatePrepared \<noteq> JUndef
         \<and> sameHash E prepared candidatePrepared
         \<and> sameHash E (toolCallImmutableOutcomeSemantics t) (toolCallImmutableOutcomeSemantics (rn_toolCall i)))"

definition knownExternalOutcomeRecordingMatchesCurrent ::
  "env \<Rightarrow> recording_input \<Rightarrow> attempt \<Rightarrow> grant \<Rightarrow> receipt \<Rightarrow> tool_call \<Rightarrow> bool" where
  "knownExternalOutcomeRecordingMatchesCurrent E i attempt g receipt t =
     (knownExternalOutcomeRecordingBindingsMatch E i attempt g receipt t
      \<and> tc_status t = Authorized \<and> rc_outcome receipt = None)"

definition sameTerminalToolCallProjection :: "env \<Rightarrow> tool_call \<Rightarrow> tool_call \<Rightarrow> bool" where
  "sameTerminalToolCallProjection E left right =
     (tc_status right = tc_status left \<and> tc_error right = tc_error left
      \<and> sameHash E (null_coalesce (tc_result right)) (null_coalesce (tc_result left))
      \<and> sameHash E (null_coalesce (tc_resultDelivery right)) (null_coalesce (tc_resultDelivery left))
      \<and> withheld_compatible (tc_resultWithheld right) (tc_resultWithheld left))"

definition attempt_outcome_json :: "attempt \<Rightarrow> json" where
  \<comment> \<open>\<open>attempt.outcome ?? null\<close>\<close>
  "attempt_outcome_json a = (case at_outcome a of None \<Rightarrow> JNull | Some oc \<Rightarrow> encode_attempt_outcome oc)"

definition sameRecordedKnownExternalOutcomeProjection ::
  "env \<Rightarrow> recording_input \<Rightarrow> attempt \<Rightarrow> receipt \<Rightarrow> tool_call \<Rightarrow> bool" where
  "sameRecordedKnownExternalOutcomeProjection E i attempt receipt t =
     (at_state attempt = ao_status (rn_attemptOutcome i)
      \<and> sameHash E (attempt_outcome_json attempt) (encode_attempt_outcome (rn_attemptOutcome i))
      \<and> sameHash E (receipt_outcome_json receipt) (encode_receipt_outcome (rn_receiptOutcome i))
      \<and> sameTerminalToolCallProjection E (rn_toolCall i) t)"

definition knownExternalOutcomeRecordingConflictDisposition :: "attempt \<Rightarrow> outcome_write" where
  "knownExternalOutcomeRecordingConflictDisposition a =
     (if at_state a \<in> {Dispatched, TimedOut, UnknownOutcome} then Ow_ReconciliationRequired
      else if at_state a \<in> {Reserved, Cancelled, FailedBeforeDispatch} then Ow_StateMismatch
      else Ow_Conflict)"

definition completed_attempt :: "attempt \<Rightarrow> attempt_outcome \<Rightarrow> attempt" where
  "completed_attempt a oc = a\<lparr>at_completedAt := Some (ao_recordedAt oc), at_outcome := Some oc,
     at_state := ao_status oc, at_updatedAt := ao_recordedAt oc\<rparr>"

definition recordKnownExternalExecutionOutcomeAtomically ::
  "env \<Rightarrow> recording_input \<Rightarrow> store \<Rightarrow> (store_error + outcome_result) \<times> store" where
  "recordKnownExternalExecutionOutcomeAtomically E i s =
     (case assertKnownExternalExecutionOutcomeRecordingCandidate E i of
        Inl e \<Rightarrow> (Inl e, s)
      | Inr _ \<Rightarrow>
          (case jm_get (st_executionAttempts s) (rn_attemptId i) of
             None \<Rightarrow> (Inr \<lparr>or_attempt = None, or_grant = None, or_outcome = Ow_NotFound, or_receipt = None,
                         or_toolCall = None\<rparr>, s)
           | Some a \<Rightarrow>
             if at_workspaceId a \<noteq> rn_workspaceId i
             then (Inr \<lparr>or_attempt = None, or_grant = None, or_outcome = Ow_NotFound, or_receipt = None,
                       or_toolCall = None\<rparr>, s)
             else
               let toolCall = jm_get (st_toolCalls s) (at_toolCallId a);
                   receipt = (if truthy (ab_receiptId (at_binding a))
                              then jm_get (st_actionReceipts s) (the (ab_receiptId (at_binding a))) else None);
                   g = (if truthy (at_grantId a) then jm_get (st_executionGrants s) (the (at_grantId a)) else None);
                   result = (\<lambda>out. (Inr \<lparr>or_attempt = Some a, or_grant = g, or_outcome = out,
                                       or_receipt = receipt, or_toolCall = toolCall\<rparr>, s))
               in case (toolCall, receipt, g) of
                    (Some t, Some r, Some gr) \<Rightarrow>
                      if at_reservationOwner a \<noteq> rn_reservationOwner i then result Ow_OwnerMismatch
                      else if \<not> knownExternalOutcomeRecordingBindingsMatch E i a gr r t then result Ow_BindingMismatch
                      else if sameRecordedKnownExternalOutcomeProjection E i a r t then result Ow_Replay
                      else if \<not> knownExternalOutcomeRecordingMatchesCurrent E i a gr r t
                      then result (knownExternalOutcomeRecordingConflictDisposition a)
                      else if at_state a \<noteq> Dispatched
                      then result (knownExternalOutcomeRecordingConflictDisposition a)
                      else
                        let completedAttempt = completed_attempt a (rn_attemptOutcome i);
                            completedReceipt = r\<lparr>rc_outcome := Some (rn_receiptOutcome i)\<rparr>
                        in (Inr \<lparr>or_attempt = Some completedAttempt, or_grant = Some gr, or_outcome = Ow_Recorded,
                                 or_receipt = Some completedReceipt, or_toolCall = Some (rn_toolCall i)\<rparr>,
                            s\<lparr>st_executionAttempts := jm_set (at_id completedAttempt) completedAttempt (st_executionAttempts s),
                              st_actionReceipts := jm_set (rc_id completedReceipt) completedReceipt (st_actionReceipts s),
                              st_toolCalls := jm_set (tc_id (rn_toolCall i)) (rn_toolCall i) (st_toolCalls s)\<rparr>)
                  | _ \<Rightarrow> result Ow_NotFound))"

end
