(* ===== verification/StoreWriteFacts.thy ===== *)
theory StoreWriteFacts
  imports StoreAttemptFacts StoreOutcome
begin

text \<open>
  Correctness of the multi-record writes: they write all of their records or none, a repeated write
  is a replay, and they keep the attempt invariants.
\<close>

section \<open>Publication\<close>

definition published :: "publication_input \<Rightarrow> store \<Rightarrow> store" where
  "published i s = s\<lparr>st_actionReceipts := jm_set (rc_id (pu_receipt i)) (pu_receipt i) (st_actionReceipts s),
     st_executionGrants := jm_set (gr_id (pu_grant i)) (pu_grant i) (st_executionGrants s),
     st_executionAttempts := jm_set (at_id (pu_attempt i)) (pu_attempt i) (st_executionAttempts s),
     st_executionAttemptByToolCall := jm_set (attempt_key (pu_attempt i)) (at_id (pu_attempt i)) (st_executionAttemptByToolCall s),
     st_toolCalls := jm_set (tc_id (pu_toolCall i)) (pu_toolCall i) (st_toolCalls s)\<rparr>"

definition attempt_of_call :: "store \<Rightarrow> string \<Rightarrow> string \<Rightarrow> attempt option" where
  "attempt_of_call s w t =
     (let i = jm_get (st_executionAttemptByToolCall s) (executionAttemptToolCallKey w t)
      in if truthy i then jm_get (st_executionAttempts s) (the i) else None)"

definition receipt_of_call :: "store \<Rightarrow> string \<Rightarrow> string \<Rightarrow> receipt option" where
  "receipt_of_call s w t = List.find (\<lambda>c. rc_workspaceId c = w \<and> rc_toolCallId c = t) (jm_values (st_actionReceipts s))"

definition grant_of_call :: "store \<Rightarrow> string \<Rightarrow> string \<Rightarrow> grant option" where
  "grant_of_call s w t = List.find (\<lambda>c. gr_workspaceId c = w \<and> gr_toolCallId c = t) (jm_values (st_executionGrants s))"

lemma mismatch_labels_Nil: "mismatch_labels cs = [] \<longleftrightarrow> list_all (\<lambda>c. \<not> fst c) cs"
  by (auto simp: mismatch_labels_def list_all_iff filter_empty_conv)

lemma candidate_ok:
  assumes "assertApprovedExternalAuthorizationPublicationCandidate E i = Inr x"
  shows "tc_status (pu_toolCall i) = Authorized" "pu_approvalId i \<noteq> []"
    "at_workspaceId (pu_attempt i) = default_ws (tc_workspaceId (pu_toolCall i))"
    "at_toolCallId (pu_attempt i) = tc_id (pu_toolCall i)"
    "at_state (pu_attempt i) = Reserved" "at_outcome (pu_attempt i) = None"
    "at_dispatchedAt (pu_attempt i) = None" "at_completedAt (pu_attempt i) = None"
    "at_grantId (pu_attempt i) = Some (gr_id (pu_grant i))" "gr_consumedAt (pu_grant i) = None"
    "rc_workspaceId (pu_receipt i) = default_ws (tc_workspaceId (pu_toolCall i))"
    "rc_toolCallId (pu_receipt i) = tc_id (pu_toolCall i)"
    "gr_workspaceId (pu_grant i) = default_ws (tc_workspaceId (pu_toolCall i))"
    "gr_toolCallId (pu_grant i) = tc_id (pu_toolCall i)"
    "tc_inputHash (pu_toolCall i) = Some (hashJson E (tc_input (pu_toolCall i)))"
    "at_inputHash (pu_attempt i) = hashJson E (tc_input (pu_toolCall i))"
    "gr_inputHash (pu_grant i) = hashJson E (tc_input (pu_toolCall i))"
    "rc_approvedInputHash (pu_receipt i) = hashJson E (tc_input (pu_toolCall i))"
    "ab_approvalId (at_binding (pu_attempt i)) = Some (pu_approvalId i)"
    "tc_decision (pu_toolCall i) = Some RequireApproval"
proof -
  have "publication_mismatches E i = []"
    using assms by (simp add: assertApprovedExternalAuthorizationPublicationCandidate_def split: if_splits)
  note checks = this [unfolded publication_mismatches_def Let_def mismatch_labels_Nil list.pred_inject fst_conv
      not_not de_Morgan_disj]
  show "tc_status (pu_toolCall i) = Authorized" "pu_approvalId i \<noteq> []"
    "at_workspaceId (pu_attempt i) = default_ws (tc_workspaceId (pu_toolCall i))"
    "at_toolCallId (pu_attempt i) = tc_id (pu_toolCall i)"
    "at_state (pu_attempt i) = Reserved" "at_outcome (pu_attempt i) = None"
    "at_dispatchedAt (pu_attempt i) = None" "at_completedAt (pu_attempt i) = None"
    "at_grantId (pu_attempt i) = Some (gr_id (pu_grant i))" "gr_consumedAt (pu_grant i) = None"
    "rc_workspaceId (pu_receipt i) = default_ws (tc_workspaceId (pu_toolCall i))"
    "rc_toolCallId (pu_receipt i) = tc_id (pu_toolCall i)"
    "gr_workspaceId (pu_grant i) = default_ws (tc_workspaceId (pu_toolCall i))"
    "gr_toolCallId (pu_grant i) = tc_id (pu_toolCall i)"
    "ab_approvalId (at_binding (pu_attempt i)) = Some (pu_approvalId i)"
    "tc_decision (pu_toolCall i) = Some RequireApproval"
    by (insert checks, (elim conjE, assumption)+)
  have hash: "Some (hashJson E (tc_input (pu_toolCall i))) = tc_inputHash (pu_toolCall i)"
    "Some (at_inputHash (pu_attempt i)) = tc_inputHash (pu_toolCall i)"
    "Some (gr_inputHash (pu_grant i)) = tc_inputHash (pu_toolCall i)"
    "Some (rc_approvedInputHash (pu_receipt i)) = tc_inputHash (pu_toolCall i)"
    by (insert checks, (elim conjE, assumption)+)
  show "tc_inputHash (pu_toolCall i) = Some (hashJson E (tc_input (pu_toolCall i)))"
    "at_inputHash (pu_attempt i) = hashJson E (tc_input (pu_toolCall i))"
    "gr_inputHash (pu_grant i) = hashJson E (tc_input (pu_toolCall i))"
    "rc_approvedInputHash (pu_receipt i) = hashJson E (tc_input (pu_toolCall i))"
    using hash(2-4) by (simp_all flip: hash(1))
qed

definition publishable :: "env \<Rightarrow> publication_input \<Rightarrow> store \<Rightarrow> approval \<Rightarrow> tool_call \<Rightarrow> bool" where
  "publishable E i s ap t \<longleftrightarrow>
     (let w = default_ws (tc_workspaceId (pu_toolCall i))
      in jm_get (st_approvals s) (pu_approvalId i) = Some ap
         \<and> jm_get (st_toolCalls s) (tc_id (pu_toolCall i)) = Some t
         \<and> default_ws (tc_workspaceId t) = w
         \<and> attempt_of_call s w (tc_id t) = None \<and> receipt_of_call s w (tc_id t) = None
         \<and> grant_of_call s w (tc_id t) = None \<and> tc_status t \<noteq> Authorized
         \<and> ap_status ap = Approval_Approved \<and> tc_status t = PendingApproval
         \<and> approvedExternalAuthorizationMatchesCurrent E i ap t
         \<and> \<not> jm_has (st_executionAttempts s) (at_id (pu_attempt i))
         \<and> \<not> jm_has (st_executionGrants s) (gr_id (pu_grant i))
         \<and> \<not> jm_has (st_actionReceipts s) (rc_id (pu_receipt i)))"

lemma matches_current_id: "approvedExternalAuthorizationMatchesCurrent E i ap t \<Longrightarrow> tc_id t = tc_id (pu_toolCall i)"
  by (auto simp: approvedExternalAuthorizationMatchesCurrent_def Let_def split: option.splits)

lemma publish_unfold:
  "publishApprovedExternalAuthorizationAtomically E i s =
     (case assertApprovedExternalAuthorizationPublicationCandidate E i of
        Inl e \<Rightarrow> (Inl e, s)
      | Inr _ \<Rightarrow>
          let w = default_ws (tc_workspaceId (pu_toolCall i));
              approval = jm_get (st_approvals s) (pu_approvalId i);
              toolCall = jm_get (st_toolCalls s) (tc_id (pu_toolCall i));
              result = (\<lambda>a g out r. (Inr \<lparr>pr_result_approval = approval, pr_result_attempt = a,
                pr_result_grant = g, pr_result_outcome = out, pr_result_receipt = r,
                pr_result_toolCall = toolCall\<rparr>, s))
          in case (approval, toolCall) of
               (Some ap, Some t) \<Rightarrow>
                 if default_ws (tc_workspaceId t) \<noteq> w then result None None Pb_NotFound None
                 else if attempt_of_call s w (tc_id t) \<noteq> None \<or> receipt_of_call s w (tc_id t) \<noteq> None
                      \<or> grant_of_call s w (tc_id t) \<noteq> None \<or> tc_status t = Authorized then
                   (if sameApprovedExternalAuthorizationPublication E i (attempt_of_call s w (tc_id t))
                         (grant_of_call s w (tc_id t)) (receipt_of_call s w (tc_id t)) (Some t)
                    then result (attempt_of_call s w (tc_id t)) (grant_of_call s w (tc_id t)) Pb_Replay (receipt_of_call s w (tc_id t))
                    else result (attempt_of_call s w (tc_id t)) (grant_of_call s w (tc_id t)) Pb_Conflict (receipt_of_call s w (tc_id t)))
                 else if ap_status ap \<noteq> Approval_Approved \<or> tc_status t \<noteq> PendingApproval
                 then result None None Pb_StateMismatch None
                 else if \<not> approvedExternalAuthorizationMatchesCurrent E i ap t
                 then result None None Pb_BindingMismatch None
                 else if jm_has (st_executionAttempts s) (at_id (pu_attempt i))
                      \<or> jm_has (st_executionGrants s) (gr_id (pu_grant i))
                      \<or> jm_has (st_actionReceipts s) (rc_id (pu_receipt i))
                 then result None None Pb_Conflict None
                 else (Inr \<lparr>pr_result_approval = Some ap, pr_result_attempt = Some (pu_attempt i),
                         pr_result_grant = Some (pu_grant i), pr_result_outcome = Pb_Created,
                         pr_result_receipt = Some (pu_receipt i), pr_result_toolCall = Some (pu_toolCall i)\<rparr>,
                       published i s)
             | _ \<Rightarrow> result None None Pb_NotFound None)"
proof (cases "assertApprovedExternalAuthorizationPublicationCandidate E i")
  case (Inr x)
  then have key: "attempt_key (pu_attempt i) = executionAttemptToolCallKey (default_ws (tc_workspaceId (pu_toolCall i)))
      (tc_id (pu_toolCall i))" by (simp add: attempt_key_def candidate_ok)
  show ?thesis
    unfolding publishApprovedExternalAuthorizationAtomically_def Let_def published_def
      attempt_of_call_def [unfolded Let_def, symmetric] receipt_of_call_def [symmetric] grant_of_call_def [symmetric] key
    by (auto simp: Inr matches_current_id split: option.split)
qed (simp add: publishApprovedExternalAuthorizationAtomically_def)

lemma publish_cases:
  assumes "publishApprovedExternalAuthorizationAtomically E i s = (res, s')"
  obtains (kept) "s' = s" "\<And>r. res = Inr r \<Longrightarrow> pr_result_outcome r \<noteq> Pb_Created"
  | (created) ap t r where "publishable E i s ap t" "s' = published i s" "res = Inr r"
      "pr_result_outcome r = Pb_Created" "assertApprovedExternalAuthorizationPublicationCandidate E i = Inr ()"
proof (cases "assertApprovedExternalAuthorizationPublicationCandidate E i")
  case (Inl e)
  with assms kept show thesis by (auto simp: publish_unfold)
next
  case (Inr x)
  show thesis
  proof (cases "\<exists>ap t. publishable E i s ap t")
    case True
    then obtain ap t where p: "publishable E i s ap t" by blast
    with assms Inr show thesis
      by (intro created [OF p, of "projr res"]) (auto simp: publish_unfold publishable_def Let_def)
  next
    case False
    have "s' = s \<and> (\<forall>r. res = Inr r \<longrightarrow> pr_result_outcome r \<noteq> Pb_Created)"
    proof (cases "jm_get (st_approvals s) (pu_approvalId i)")
      case None
      with assms Inr show ?thesis by (auto simp: publish_unfold Let_def)
    next
      case ap: (Some ap)
      show ?thesis
      proof (cases "jm_get (st_toolCalls s) (tc_id (pu_toolCall i))")
        case None
        with assms Inr ap show ?thesis by (auto simp: publish_unfold Let_def)
      next
        case (Some t)
        with ap False have "\<not> publishable E i s ap t" by blast
        with assms Inr ap Some show ?thesis
          unfolding publish_unfold publishable_def Let_def by (auto split: if_splits)
      qed
    qed
    with kept show thesis by blast
  qed
qed

lemma find_append: "List.find P xs = None \<Longrightarrow> List.find P (xs @ ys) = List.find P ys"
  by (induction xs) (auto split: if_splits)

lemma published_reads:
  assumes "publishable E i s ap t" "assertApprovedExternalAuthorizationPublicationCandidate E i = Inr ()"
    and "at_id (pu_attempt i) \<noteq> []"
  shows "attempt_of_call (published i s) (default_ws (tc_workspaceId (pu_toolCall i))) (tc_id (pu_toolCall i)) = Some (pu_attempt i)"
    "receipt_of_call (published i s) (default_ws (tc_workspaceId (pu_toolCall i))) (tc_id (pu_toolCall i)) = Some (pu_receipt i)"
    "grant_of_call (published i s) (default_ws (tc_workspaceId (pu_toolCall i))) (tc_id (pu_toolCall i)) = Some (pu_grant i)"
    "jm_get (st_toolCalls (published i s)) (tc_id (pu_toolCall i)) = Some (pu_toolCall i)"
    "jm_get (st_approvals (published i s)) (pu_approvalId i) = Some ap"
proof -
  let ?w = "default_ws (tc_workspaceId (pu_toolCall i))"
  note c = candidate_ok [OF assms(2)]
  have id: "tc_id t = tc_id (pu_toolCall i)"
    using assms(1) by (auto simp: publishable_def Let_def intro: matches_current_id)
  show "attempt_of_call (published i s) ?w (tc_id (pu_toolCall i)) = Some (pu_attempt i)"
    using assms(3) c(3,4) by (simp add: attempt_of_call_def published_def attempt_key_def)
  have "jm_set (rc_id (pu_receipt i)) (pu_receipt i) (st_actionReceipts s)
      = st_actionReceipts s @ [(rc_id (pu_receipt i), pu_receipt i)]"
    "jm_set (gr_id (pu_grant i)) (pu_grant i) (st_executionGrants s)
      = st_executionGrants s @ [(gr_id (pu_grant i), pu_grant i)]"
    using assms(1) by (simp_all add: publishable_def Let_def jm_set_new)
  with assms(1) id c(11-14)
  show "receipt_of_call (published i s) ?w (tc_id (pu_toolCall i)) = Some (pu_receipt i)"
    "grant_of_call (published i s) ?w (tc_id (pu_toolCall i)) = Some (pu_grant i)"
    by (simp_all add: receipt_of_call_def grant_of_call_def published_def publishable_def Let_def
        jm_values_def find_append)
  show "jm_get (st_toolCalls (published i s)) (tc_id (pu_toolCall i)) = Some (pu_toolCall i)"
    "jm_get (st_approvals (published i s)) (pu_approvalId i) = Some ap"
    using assms(1) by (simp_all add: published_def publishable_def Let_def)
qed

lemma publish_replay:
  assumes "publishApprovedExternalAuthorizationAtomically E i s = (Inr r, s')"
    and "pr_result_outcome r = Pb_Created" "at_id (pu_attempt i) \<noteq> []"
  shows "\<exists>r'. publishApprovedExternalAuthorizationAtomically E i s' = (Inr r', s') \<and> pr_result_outcome r' = Pb_Replay"
  using assms(1)
proof (cases rule: publish_cases)
  case (created ap t r0)
  note reads = published_reads [OF created(1,5) assms(3)]
  show ?thesis
    unfolding created(2) publish_unfold
    by (simp add: created(5) reads Let_def sameApprovedExternalAuthorizationPublication_def sameHash_def)
qed (use assms(2) in simp)

lemma index_none:
  assumes "attempts_ok s" "attempt_of_call s w t = None"
  shows "jm_get (st_executionAttemptByToolCall s) (executionAttemptToolCallKey w t) = None"
proof (cases "jm_get (st_executionAttemptByToolCall s) (executionAttemptToolCallKey w t)")
  case (Some k)
  with attempts_ok_index [OF assms(1)] obtain a where a: "jm_get (st_executionAttempts s) k = Some a" by blast
  with attempts_okD [OF assms(1)] have "k \<noteq> []" by blast
  with a Some assms(2) show ?thesis by (simp add: attempt_of_call_def)
qed

lemma publish_ok:
  assumes "attempts_ok s" and "publishApprovedExternalAuthorizationAtomically E i s = (res, s')"
    and "at_id (pu_attempt i) \<noteq> []"
  shows "attempts_ok s' \<and> attempts_advance s s'"
  using assms(2)
proof (cases rule: publish_cases)
  case (created ap t r)
  note c = candidate_ok [OF created(5)]
  have id: "tc_id t = tc_id (pu_toolCall i)"
    using created(1) by (auto simp: publishable_def Let_def intro: matches_current_id)
  have key: "attempt_key (pu_attempt i) = executionAttemptToolCallKey (default_ws (tc_workspaceId (pu_toolCall i))) (tc_id t)"
    by (simp add: attempt_key_def c id)
  have none: "jm_get (st_executionAttemptByToolCall s) (attempt_key (pu_attempt i)) = None"
    unfolding key using created(1) by (intro index_none [OF assms(1)]) (simp add: publishable_def Let_def)
  have ok: "attempt_ok (pu_attempt i)" by (simp add: attempt_ok_def c)
  have fresh: "jm_get (st_executionAttempts s) (at_id (pu_attempt i)) = None"
    using created(1) by (simp add: publishable_def Let_def jm_has_def)
  show ?thesis
    using add_attempt_ok [OF assms(1) ok assms(3) none fresh, of s'] by (simp add: created(2) published_def)
qed (use assms(1) in simp)

section \<open>Adoption\<close>

lemma adopt_cases:
  assumes "adoptKnownExternalExecutionOutcomeAtomically E i s = (res, s')"
  obtains (kept) "s' = s"
  | (adopted) a g r t where "jm_get (st_executionAttempts s) (an_attemptId i) = Some a"
      "jm_get (st_toolCalls s) (tc_id (an_toolCall i)) = Some t" "jm_get (st_actionReceipts s) (rc_id (an_receipt i)) = Some r"
      "externalOutcomeAdoptionState a = Adoptable" "knownExternalOutcomeMatchesCurrent E i a g r t = Inr True"
      "outcomeProjectionCanBeAdopted E i r t"
      "s' = s\<lparr>st_actionReceipts := jm_set (rc_id (if rc_outcome r \<noteq> None then r else an_receipt i))
                 (if rc_outcome r \<noteq> None then r else an_receipt i) (st_actionReceipts s),
              st_toolCalls := jm_set (tc_id (if tc_status t = Authorized then an_toolCall i else t))
                 (if tc_status t = Authorized then an_toolCall i else t) (st_toolCalls s)\<rparr>"
proof (cases "s' = s")
  case False
  with assms have asrt: "assertKnownExternalExecutionOutcomeAdoptionCandidate i = Inr ()"
    by (cases "assertKnownExternalExecutionOutcomeAdoptionCandidate i")
       (auto simp: adoptKnownExternalExecutionOutcomeAtomically_def)
  obtain a where a: "jm_get (st_executionAttempts s) (an_attemptId i) = Some a"
    using assms False by (cases "jm_get (st_executionAttempts s) (an_attemptId i)")
      (auto simp: adoptKnownExternalExecutionOutcomeAtomically_def asrt Let_def)
  obtain t where t: "jm_get (st_toolCalls s) (tc_id (an_toolCall i)) = Some t"
    using assms False a by (cases "jm_get (st_toolCalls s) (tc_id (an_toolCall i))")
      (auto simp: adoptKnownExternalExecutionOutcomeAtomically_def asrt Let_def)
  obtain r where r: "jm_get (st_actionReceipts s) (rc_id (an_receipt i)) = Some r"
    using assms False a t by (cases "jm_get (st_actionReceipts s) (rc_id (an_receipt i))")
      (auto simp: adoptKnownExternalExecutionOutcomeAtomically_def asrt Let_def)
  let ?g = "if truthy (at_grantId a) then jm_get (st_executionGrants s) (the (at_grantId a)) else None"
  obtain g where g: "?g = Some g"
    using assms False a t r by (cases ?g) (auto simp: adoptKnownExternalExecutionOutcomeAtomically_def asrt Let_def)
  have st: "externalOutcomeAdoptionState a = Adoptable"
    using assms False a t r g unfolding adoptKnownExternalExecutionOutcomeAtomically_def Let_def
    by (cases "externalOutcomeAdoptionState a") (simp_all add: asrt)
  show thesis
    using assms False a t r g st adopted [OF a t r st] unfolding adoptKnownExternalExecutionOutcomeAtomically_def Let_def
    by (auto simp: asrt split: if_splits sum.splits bool.splits)
qed (rule kept)

text \<open>
  Matching the current records requires an authorized tool call, so an adoption always replaces the stored
  tool call: the other arm of \<open>outcomeProjectionCanBeAdopted\<close> and of the stored tool call is never reached.
\<close>

lemma adopted_authorized:
  assumes "knownExternalOutcomeMatchesCurrent E i a g r t = Inr True"
  shows "tc_status t = Authorized" "tc_id t = tc_id (an_toolCall i)" "rc_id r = rc_id (an_receipt i)"
    "gr_consumedAt g \<noteq> None" "at_outcome a \<noteq> None"
  using assms
  by (auto simp: knownExternalOutcomeMatchesCurrent_def Let_def split: option.splits if_splits)

lemma adopt_frame:
  assumes "adoptKnownExternalExecutionOutcomeAtomically E i s = (res, s')"
  shows "st_approvals s' = st_approvals s" "st_executionGrants s' = st_executionGrants s"
    "st_executionAttempts s' = st_executionAttempts s"
    "st_executionAttemptByToolCall s' = st_executionAttemptByToolCall s"
    "st_contentExposureScopes s' = st_contentExposureScopes s" "st_approverUsers s' = st_approverUsers s"
    "st_idempotency s' = st_idempotency s"
  using assms by (cases rule: adopt_cases; simp)+

section \<open>Recording\<close>

lemma recording_candidate:
  assumes "assertKnownExternalExecutionOutcomeRecordingCandidate E i = Inr x"
  shows "ao_status (rn_attemptOutcome i) = Succeeded \<or> ao_status (rn_attemptOutcome i) = FailedAfterDispatch"
    "ro_status (rn_receiptOutcome i) =
       (if ao_status (rn_attemptOutcome i) = Succeeded then Outcome_Succeeded else Outcome_Failed)"
    "tc_status (rn_toolCall i) = (if ao_status (rn_attemptOutcome i) = Succeeded then Executed else Failed)"
    "tc_inputHash (rn_toolCall i) = Some (hashJson E (tc_input (rn_toolCall i)))"
    "ao_resultHash (rn_attemptOutcome i) = hashOptional E (ro_result (rn_receiptOutcome i))"
  using assms
  by (auto simp: assertKnownExternalExecutionOutcomeRecordingCandidate_def Let_def mismatch_labels_Nil
      split: sum.splits if_splits)

definition recorded_outcome :: "recording_input \<Rightarrow> attempt \<Rightarrow> receipt \<Rightarrow> store \<Rightarrow> store" where
  "recorded_outcome i a r s =
     s\<lparr>st_executionAttempts := jm_set (at_id a) (completed_attempt a (rn_attemptOutcome i)) (st_executionAttempts s),
       st_actionReceipts := jm_set (rc_id r) (r\<lparr>rc_outcome := Some (rn_receiptOutcome i)\<rparr>) (st_actionReceipts s),
       st_toolCalls := jm_set (tc_id (rn_toolCall i)) (rn_toolCall i) (st_toolCalls s)\<rparr>"

definition recordable_outcome :: "env \<Rightarrow> recording_input \<Rightarrow> store \<Rightarrow> attempt \<Rightarrow> grant \<Rightarrow> receipt \<Rightarrow> tool_call \<Rightarrow> bool" where
  \<comment> \<open>the conditions under which an outcome is stored\<close>
  "recordable_outcome E i s a g r t \<longleftrightarrow>
     assertKnownExternalExecutionOutcomeRecordingCandidate E i = Inr ()
     \<and> jm_get (st_executionAttempts s) (rn_attemptId i) = Some a
     \<and> jm_get (st_toolCalls s) (at_toolCallId a) = Some t
     \<and> (\<exists>k. ab_receiptId (at_binding a) = Some k \<and> jm_get (st_actionReceipts s) k = Some r)
     \<and> (\<exists>k. at_grantId a = Some k \<and> jm_get (st_executionGrants s) k = Some g)
     \<and> at_reservationOwner a = rn_reservationOwner i
     \<and> knownExternalOutcomeRecordingMatchesCurrent E i a g r t \<and> at_state a = Dispatched"

lemma some_lookup: "(if truthy k then jm_get m (the k) else None) = Some v \<Longrightarrow> \<exists>i. k = Some i \<and> jm_get m i = Some v"
  by (cases k) (auto split: if_splits)

lemma record_outcome_cases:
  assumes "recordKnownExternalExecutionOutcomeAtomically E i s = (res, s')"
  obtains (kept) "s' = s" "\<And>r. res = Inr r \<Longrightarrow> or_outcome r \<noteq> Ow_Recorded"
  | (stored) a g r t where "recordable_outcome E i s a g r t" "s' = recorded_outcome i a r s"
proof (cases "s' = s \<and> (\<forall>r. res = Inr r \<longrightarrow> or_outcome r \<noteq> Ow_Recorded)")
  case False
  with assms have asrt: "assertKnownExternalExecutionOutcomeRecordingCandidate E i = Inr ()"
    by (cases "assertKnownExternalExecutionOutcomeRecordingCandidate E i")
       (auto simp: recordKnownExternalExecutionOutcomeAtomically_def)
  note unfold = recordKnownExternalExecutionOutcomeAtomically_def Let_def
  obtain a where a: "jm_get (st_executionAttempts s) (rn_attemptId i) = Some a" "at_workspaceId a = rn_workspaceId i"
    using assms False by (cases "jm_get (st_executionAttempts s) (rn_attemptId i)")
      (auto simp: unfold asrt split: if_splits)
  obtain t where t: "jm_get (st_toolCalls s) (at_toolCallId a) = Some t"
    using assms False a by (cases "jm_get (st_toolCalls s) (at_toolCallId a)") (auto simp: unfold asrt)
  let ?r = "if truthy (ab_receiptId (at_binding a)) then jm_get (st_actionReceipts s) (the (ab_receiptId (at_binding a))) else None"
  obtain r where r: "?r = Some r"
    using assms False a t by (cases ?r) (auto simp: unfold asrt)
  let ?g = "if truthy (at_grantId a) then jm_get (st_executionGrants s) (the (at_grantId a)) else None"
  obtain g where g: "?g = Some g"
    using assms False a t r by (cases ?g) (auto simp: unfold asrt)
  have "knownExternalOutcomeRecordingMatchesCurrent E i a g r t \<and> at_reservationOwner a = rn_reservationOwner i
      \<and> at_state a = Dispatched \<and> s' = recorded_outcome i a r s"
    using assms False unfolding recordKnownExternalExecutionOutcomeAtomically_def Let_def asrt
    by (auto simp: a t r g knownExternalOutcomeRecordingConflictDisposition_def recorded_outcome_def
        completed_attempt_def split: if_splits)
  with a t some_lookup [OF r] some_lookup [OF g] asrt stored show thesis
    by (auto simp: recordable_outcome_def)
qed (use kept in blast)

lemma completed_ok:
  assumes "attempt_ok a" "at_state a = Dispatched" "ao_status oc = Succeeded \<or> ao_status oc = FailedAfterDispatch"
  shows "attempt_ok (completed_attempt a oc) \<and> attempt_advances a (completed_attempt a oc)"
  using assms by (auto simp: attempt_ok_def attempt_advances_def completed_attempt_def)

lemma record_outcome_ok:
  assumes "attempts_ok s" and "recordKnownExternalExecutionOutcomeAtomically E i s = (res, s')"
  shows "attempts_ok s' \<and> attempts_advance s s'"
  using assms(2)
proof (cases rule: record_outcome_cases)
  case (stored a g r t)
  let ?b = "completed_attempt a (rn_attemptOutcome i)"
  from stored(1) have a: "jm_get (st_executionAttempts s) (rn_attemptId i) = Some a" "at_state a = Dispatched"
    and c: "assertKnownExternalExecutionOutcomeRecordingCandidate E i = Inr ()"
    by (simp_all add: recordable_outcome_def)
  have "attempt_ok ?b \<and> attempt_advances a ?b"
    by (rule completed_ok [OF _ a(2) recording_candidate(1) [OF c]]) (use assms(1) a(1) in \<open>auto dest: attempts_okD\<close>)
  then have "attempts_ok (put_attempt ?b s)" "attempts_advance s (put_attempt ?b s)"
    using assms(1) a(1) by (blast intro: put_attempt_ok put_attempt_advances)+
  moreover have "st_executionAttempts s' = st_executionAttempts (put_attempt ?b s)"
    "st_executionAttemptByToolCall s' = st_executionAttemptByToolCall (put_attempt ?b s)"
    by (simp_all add: stored(2) recorded_outcome_def put_attempt_def completed_attempt_def)
  ultimately show ?thesis by (simp add: attempts_ok_def attempts_advance_def)
qed (use assms(1) in simp)

end
