(* ===== verification/StoreApprovalFacts.thy ===== *)
theory StoreApprovalFacts
  imports StoreApprovals
begin

text \<open>
  Correctness of the approval operations: the quorum invariant and its preservation, final approvals
  stay as they are, and what a recorded decision proves about the authorization it was made under.
\<close>

section \<open>The quorum invariant\<close>

definition independent :: "approval_decision \<Rightarrow> approval_decision \<Rightarrow> bool" where
  \<comment> \<open>two decisions of different actors that do not share an authenticated principal\<close>
  "independent d e \<longleftrightarrow> ad_actor d \<noteq> ad_actor e
     \<and> (ad_auth e \<noteq> None \<longrightarrow> map_option au_principalId (ad_auth d) \<noteq> map_option au_principalId (ad_auth e))"

definition quorum :: "approval \<Rightarrow> int" where
  "quorum a = max 1 (coalesce (ap_requiredApprovals a) 1)"

definition decisions_of :: "approval \<Rightarrow> approval_decision list" where
  "decisions_of a = coalesce (ap_decisions a) []"

definition agreed :: "approval_decision list \<Rightarrow> string \<Rightarrow> string \<Rightarrow> bool" where
  "agreed ds inputHash envelopeHash =
     (\<forall>d \<in> set ds. ad_approvedInputHash d = Some inputHash \<and> ad_approvedEnvelopeHash d = Some envelopeHash)"

definition approval_ok :: "approval \<Rightarrow> bool" where
  "approval_ok a \<longleftrightarrow>
     sorted_wrt independent (decisions_of a)
     \<and> (decisions_of a \<noteq> [] \<longrightarrow>
          (\<exists>z. ap_authorization a = Some z \<and> (\<forall>d \<in> set (decisions_of a). decision_matches d z)))
     \<and> (ap_status a = Approval_Approved \<longrightarrow> quorum a \<le> int (length (decisions_of a))
          \<and> ap_authorizationConsumedReason a = Some ReasonApproved
          \<and> (\<exists>ih eh. ap_approvedInputHash a = Some ih \<and> ap_approvedEnvelopeHash a = Some eh
               \<and> agreed (decisions_of a) ih eh))
     \<and> (ap_status a = Approval_Pending \<longrightarrow> int (length (decisions_of a)) < quorum a)"

definition approvals_ok :: "store \<Rightarrow> bool" where
  "approvals_ok s \<longleftrightarrow> (\<forall>k a. jm_get (st_approvals s) k = Some a \<longrightarrow> ap_id a = k \<and> approval_ok a)"

lemma approvals_okD: "approvals_ok s \<Longrightarrow> jm_get (st_approvals s) k = Some a \<Longrightarrow> ap_id a = k \<and> approval_ok a"
  by (simp add: approvals_ok_def)

lemma put_approval_ok: "approvals_ok s \<Longrightarrow> approval_ok a \<Longrightarrow> approvals_ok (put_approval a s)"
  by (simp add: approvals_ok_def put_approval_def)

section \<open>Final records keep the invariant\<close>

lemma decisions_of_update [simp]:
  "decisions_of (expireApproval a t) = decisions_of a"
  "decisions_of (rejected_approval r b u a) = decisions_of a"
  "decisions_of (cancelled_approval r b u a) = decisions_of a"
  by (simp_all add: decisions_of_def expireApproval_def rejected_approval_def cancelled_approval_def)

lemma final_fields [simp]:
  "ap_id (expireApproval a t) = ap_id a" "ap_status (expireApproval a t) = Approval_Expired"
  "ap_authorization (expireApproval a t) = ap_authorization a"
  "ap_id (rejected_approval r b u a) = ap_id a" "ap_status (rejected_approval r b u a) = Approval_Rejected"
  "ap_authorization (rejected_approval r b u a) = ap_authorization a"
  "ap_id (cancelled_approval r b u a) = ap_id a" "ap_status (cancelled_approval r b u a) = Approval_Cancelled"
  "ap_authorization (cancelled_approval r b u a) = ap_authorization a"
  by (simp_all add: expireApproval_def rejected_approval_def cancelled_approval_def)

lemma final_approval_ok:
  assumes "approval_ok a" and "decisions_of b = decisions_of a" "ap_authorization b = ap_authorization a"
    and "ap_status b \<noteq> Approval_Approved" "ap_status b \<noteq> Approval_Pending"
  shows "approval_ok b"
  using assms by (simp add: approval_ok_def)

lemma expire_ok: "approval_ok a \<Longrightarrow> approval_ok (expireApproval a t)"
  and reject_ok: "approval_ok a \<Longrightarrow> approval_ok (rejected_approval r b u a)"
  and cancel_ok: "approval_ok a \<Longrightarrow> approval_ok (cancelled_approval r b u a)"
  by (rule final_approval_ok; simp)+

section \<open>Recording a decision\<close>

lemma priorD:
  "priorDecisionsMatchAuthorization ds a ih eh \<Longrightarrow> d \<in> set (coalesce ds []) \<Longrightarrow>
     decision_matches d a \<and> (ih \<noteq> None \<longrightarrow> ad_approvedInputHash d = ih)
       \<and> (eh \<noteq> None \<longrightarrow> ad_approvedEnvelopeHash d = eh)"
  by (auto simp: priorDecisionsMatchAuthorization_def list_all_iff)

lemma failure_None:
  assumes "approvalAuthorizationFailure E s a g = None"
  obtains t where "\<not> truthy (ap_authorizationConsumedAt a)"
    "sameAuthorization E (ap_authorization a) (gd_authorization g)"
    "jm_get (st_toolCalls s) (ap_toolCallId a) = Some t"
    "tc_policyVersionHash t = Some (gd_activePolicyVersionHash g)"
    "az_legacyVersionHash (gd_authorization g) = gd_activePolicyVersionHash g"
    "hashJson E (gd_originalInput g) = az_originalInputHash (gd_authorization g)"
    "hashJson E (ap_originalInput a) = hashJson E (gd_originalInput g)"
    "approvalAuthorizationMismatch E (gd_authorization g) a t = None"
    "priorDecisionsMatchAuthorization (ap_decisions a) (gd_authorization g) None None"
  using assms that
  by (fastforce simp: approvalAuthorizationFailure_def first_of_None split: if_splits option.splits)

lemma sameAuthorizationD:
  assumes "sameAuthorization E stored supplied"
  obtains a where "stored = Some a" "isValidApprovalAuthorization E (encode_authorization a)"
    "isValidApprovalAuthorization E (encode_authorization supplied)"
    "az_authorizationHash a = az_authorizationHash supplied" "az_nonce a = az_nonce supplied"
  using assms
  by (auto simp: sameAuthorization_def authorizationIdentityIsUsable_def Let_def split: option.splits)

definition recordable :: "env \<Rightarrow> int \<Rightarrow> approval_decision_input \<Rightarrow> store \<Rightarrow> approval \<Rightarrow> authorization \<Rightarrow> bool" where
  \<comment> \<open>the conditions under which a decision is stored\<close>
  "recordable E now i s current z \<longleftrightarrow>
     jm_get (st_approvals s) (dn_approvalId i) = Some current \<and> ap_status current = Approval_Pending
     \<and> contentExposureRevisionMatches s (default_ws (ap_workspaceId current)) (dn_contentExposureRevision i)
     \<and> approvalAuthorizationFailure E s current (dn_authorization i) = None
     \<and> ap_authorization current = Some z \<and> \<not> approvalAuthorizationExpired E z now
     \<and> decisionMatchesAuthorization i z
     \<and> priorDecisionsMatchAuthorization (ap_decisions current) z (Some (dn_approvedInputHash i)) (Some (dn_approvedEnvelopeHash i))
     \<and> \<not> hasApprovalDecision (ap_decisions current) (dn_decision i)"

lemma record_cases:
  assumes "recordApprovalDecisionAtomically E now i s = (r, s')"
  obtains (kept) "s' = s" "ar_outcome r \<notin> {Ap_Finalized, Ap_Recorded, Ap_Expired}"
  | (expired) current z where "jm_get (st_approvals s) (dn_approvalId i) = Some current"
      "ap_status current = Approval_Pending" "ap_authorization current = Some z"
      "approvalAuthorizationExpired E z now" "ar_outcome r = Ap_Expired"
      "s' = put_approval (expireApproval current (az_expiresAt z)) s"
  | (decided) current z where "recordable E now i s current z" "s' = put_approval (decided_approval current i) s"
      "r = approval_result (decided_approval current i)
         (if ap_status (decided_approval current i) = Approval_Approved then Ap_Finalized else Ap_Recorded)"
proof (cases "jm_get (st_approvals s) (dn_approvalId i)")
  case None
  with assms kept show thesis by (auto simp: recordApprovalDecisionAtomically_def)
next
  case (Some current)
  let ?replay = "truthy (ap_authorizationConsumedAt current)
             \<and> sameAuthorization E (ap_authorization current) (gd_authorization (dn_authorization i))"
  show thesis
  proof (cases "?replay \<or> ap_status current \<noteq> Approval_Pending
      \<or> \<not> contentExposureRevisionMatches s (default_ws (ap_workspaceId current)) (dn_contentExposureRevision i)")
    case True
    with Some assms kept show thesis
      by (auto simp: recordApprovalDecisionAtomically_def approval_result_def split: if_splits)
  next
    case False
    show thesis
    proof (cases "approvalAuthorizationFailure E s current (dn_authorization i)")
      case f: (Some f)
      with Some False assms kept show thesis
        by (cases f) (auto simp: recordApprovalDecisionAtomically_def approval_result_def failure_outcome_def)
    next
      case None
      then obtain z where z: "ap_authorization current = Some z"
        by (auto elim!: failure_None sameAuthorizationD)
      let ?go = "\<not> approvalAuthorizationExpired E z now"
        and ?ok = "decisionMatchesAuthorization i z
          \<and> priorDecisionsMatchAuthorization (ap_decisions current) z (Some (dn_approvedInputHash i)) (Some (dn_approvedEnvelopeHash i))
          \<and> \<not> hasApprovalDecision (ap_decisions current) (dn_decision i)"
      consider "\<not> ?go" | "?go" "\<not> ?ok" | "?go" "?ok" by blast
      then show thesis
      proof cases
        case 1
        with Some False None z assms expired show thesis
          by (auto simp: recordApprovalDecisionAtomically_def approval_result_def Let_def)
      next
        case 2
        with Some False None z assms kept show thesis
          by (auto simp: recordApprovalDecisionAtomically_def approval_result_def Let_def split: if_splits)
      next
        case 3
        with Some False None z assms decided [of current z] show thesis
          by (auto simp: recordApprovalDecisionAtomically_def Let_def recordable_def)
      qed
    qed
  qed
qed

lemma decided_fields:
  "decisions_of (decided_approval a i) = decisions_of a @ [dn_decision i]"
  "ap_id (decided_approval a i) = ap_id a" "ap_authorization (decided_approval a i) = ap_authorization a"
  "quorum (decided_approval a i) = quorum a"
  "ap_status (decided_approval a i) = Approval_Approved \<longleftrightarrow> quorum a \<le> int (length (decisions_of a)) + 1"
  "ap_status (decided_approval a i) = Approval_Pending \<longleftrightarrow> \<not> quorum a \<le> int (length (decisions_of a)) + 1"
  "quorum a \<le> int (length (decisions_of a)) + 1 \<Longrightarrow>
     ap_authorizationConsumedReason (decided_approval a i) = Some ReasonApproved
     \<and> ap_approvedInputHash (decided_approval a i) = Some (dn_approvedInputHash i)
     \<and> ap_approvedEnvelopeHash (decided_approval a i) = Some (dn_approvedEnvelopeHash i)"
  by (simp_all add: decided_approval_def decisions_of_def quorum_def Let_def add.commute)

lemma decision_matches_input:
  "decisionMatchesAuthorization i z \<Longrightarrow> decision_matches (dn_decision i) z
     \<and> ad_approvedInputHash (dn_decision i) = Some (dn_approvedInputHash i)
     \<and> ad_approvedEnvelopeHash (dn_decision i) = Some (dn_approvedEnvelopeHash i)"
  by (simp add: decisionMatchesAuthorization_def Let_def split: if_splits)

lemma decided_ok:
  assumes "approval_ok a" "ap_authorization a = Some z" "decisionMatchesAuthorization i z"
    and "priorDecisionsMatchAuthorization (ap_decisions a) z (Some (dn_approvedInputHash i)) (Some (dn_approvedEnvelopeHash i))"
    and "\<not> hasApprovalDecision (ap_decisions a) (dn_decision i)"
  shows "approval_ok (decided_approval a i)"
proof -
  note prior = priorD [OF assms(4), folded decisions_of_def]
  note d = decision_matches_input [OF assms(3)]
  have indep: "\<forall>e \<in> set (decisions_of a). independent e (dn_decision i)"
    using assms(5) by (auto simp: hasApprovalDecision_def independent_def decisions_of_def list_ex_iff)
  have agree: "agreed (decisions_of a @ [dn_decision i]) (dn_approvedInputHash i) (dn_approvedEnvelopeHash i)"
    using prior d by (auto simp: agreed_def)
  show ?thesis
    unfolding approval_ok_def decided_fields
    using assms(1,2) prior d indep agree decided_fields(7) [of a i]
    by (auto simp: approval_ok_def sorted_wrt_append)
qed

lemma record_approvals_ok:
  assumes "approvals_ok s" and "recordApprovalDecisionAtomically E now i s = (r, s')"
  shows "approvals_ok s'"
  using assms(2)
proof (cases rule: record_cases)
  case (expired current z)
  with assms(1) show ?thesis by (auto intro!: put_approval_ok expire_ok dest: approvals_okD)
next
  case (decided current z)
  with assms(1) show ?thesis
    by (auto intro!: put_approval_ok decided_ok dest: approvals_okD simp: recordable_def)
qed (use assms(1) in simp)

section \<open>Rejecting, cancelling, expiring\<close>

lemma check_final_cases:
  assumes "check_final_authorization E now s a g = Some (r, s')"
  obtains "s' = s" "ar_outcome r \<in> {Ap_AuthorizationMismatch, Ap_Replayed}"
  | z where "s' = put_approval (expireApproval a (az_expiresAt z)) s" "ap_authorization a = Some z"
      "approvalAuthorizationExpired E z now" "ar_outcome r = Ap_Expired"
  using assms that
  by (auto simp: check_final_authorization_def approval_result_def failure_outcome_def Let_def
      split: option.splits if_splits authorization_failure.splits)

lemma finalize_cases:
  assumes "finalize_approval E now k g final out s = (r, s')"
  obtains (kept) "s' = s"
  | (expired) current t where "jm_get (st_approvals s) k = Some current" "ap_status current = Approval_Pending"
      "s' = put_approval (expireApproval current t) s"
  | (final) current where "jm_get (st_approvals s) k = Some current" "ap_status current = Approval_Pending"
      "s' = put_approval (final current) s" "r = approval_result (final current) out"
      "\<forall>z. ap_authorization current = Some z \<longrightarrow> \<not> approvalAuthorizationExpired E z now"
proof (cases "jm_get (st_approvals s) k")
  case None
  with assms kept show thesis by (auto simp: finalize_approval_def)
next
  case (Some current)
  show thesis
  proof (cases "(g \<noteq> None \<and> truthy (ap_authorizationConsumedAt current)
      \<and> sameAuthorization E (ap_authorization current) (gd_authorization (the g))) \<or> ap_status current \<noteq> Approval_Pending")
    case True
    with Some assms kept show thesis by (auto simp: finalize_approval_def split: if_splits)
  next
    case False
    show thesis
    proof (cases "check_final_authorization E now s current g")
      case None
      have "\<forall>z. ap_authorization current = Some z \<longrightarrow> \<not> approvalAuthorizationExpired E z now"
        using None by (auto simp: check_final_authorization_def Let_def split: option.splits if_splits)
      with None Some False assms final show thesis by (auto simp: finalize_approval_def)
    next
      case c: (Some rs)
      with Some False assms have "check_final_authorization E now s current g = Some (r, s')"
        by (auto simp: finalize_approval_def)
      then show thesis
        by (cases rule: check_final_cases) (use Some False kept expired in auto)
    qed
  qed
qed

lemma finalize_approvals_ok:
  assumes "approvals_ok s" and "finalize_approval E now k g final out s = (r, s')"
    and "\<And>a. approval_ok a \<Longrightarrow> approval_ok (final a)"
  shows "approvals_ok s'"
  using assms(2)
proof (cases rule: finalize_cases)
  case (expired current t)
  with assms(1) show ?thesis by (auto intro!: put_approval_ok expire_ok dest: approvals_okD)
next
  case (final current)
  with assms(1,3) show ?thesis by (auto intro!: put_approval_ok dest: approvals_okD)
qed (use assms(1) in simp)

lemma reject_approvals_ok:
  "approvals_ok s \<Longrightarrow> rejectApprovalAtomically E now k g reason b u s = (r, s') \<Longrightarrow> approvals_ok s'"
  unfolding rejectApprovalAtomically_def by (erule (1) finalize_approvals_ok) (rule reject_ok)

lemma cancel_approvals_ok:
  "approvals_ok s \<Longrightarrow> cancelApprovalAtomically E now k g reason b u s = (r, s') \<Longrightarrow> approvals_ok s'"
  unfolding cancelApprovalAtomically_def by (erule (1) finalize_approvals_ok) (rule cancel_ok)

lemma expire_cases:
  assumes "expireApprovalAtomically E now k a t s = (r, s')"
  obtains "s' = s"
  | current where "jm_get (st_approvals s) k = Some current" "ap_status current = Approval_Pending"
      "s' = put_approval (expireApproval current t) s" "ap_authorization current \<noteq> None"
      "approvalAuthorizationExpired E (the (ap_authorization current)) now"
  using assms that
  by (auto simp: expireApprovalAtomically_def Let_def sameAuthorization_def split: option.splits if_splits)

lemma expire_approvals_ok:
  assumes "approvals_ok s" and "expireApprovalAtomically E now k a t s = (r, s')"
  shows "approvals_ok s'"
  using assms(2)
proof (cases rule: expire_cases)
  case (2 current)
  with assms(1) show ?thesis by (auto intro!: put_approval_ok expire_ok dest: approvals_okD)
qed (use assms(1) in simp)

section \<open>Final approvals stay\<close>

definition keeps_final :: "store \<Rightarrow> store \<Rightarrow> bool" where
  \<comment> \<open>no approval that is not pending has changed\<close>
  "keeps_final s s' = (\<forall>k a. jm_get (st_approvals s) k = Some a \<longrightarrow> ap_status a \<noteq> Approval_Pending
     \<longrightarrow> jm_get (st_approvals s') k = Some a)"

lemma keeps_final_refl [simp]: "keeps_final s s"
  by (simp add: keeps_final_def)

lemma keeps_final_put:
  "jm_get (st_approvals s) k = Some c \<Longrightarrow> ap_status c = Approval_Pending \<Longrightarrow> ap_id a = k
    \<Longrightarrow> keeps_final s (put_approval a s)"
  by (auto simp: keeps_final_def put_approval_def)

lemma record_keeps_final:
  assumes "approvals_ok s" and "recordApprovalDecisionAtomically E now i s = (r, s')"
  shows "keeps_final s s'"
  using assms(2)
proof (cases rule: record_cases)
  case (expired current z)
  with assms(1) show ?thesis by (auto intro!: keeps_final_put dest: approvals_okD)
next
  case (decided current z)
  with assms(1) show ?thesis
    by (auto intro!: keeps_final_put dest: approvals_okD simp: recordable_def decided_fields)
qed simp

lemma finalize_keeps_final:
  assumes "approvals_ok s" and "finalize_approval E now k g final out s = (r, s')"
    and "\<And>a. ap_id (final a) = ap_id a"
  shows "keeps_final s s'"
  using assms(2)
proof (cases rule: finalize_cases)
  case (expired current t)
  with assms(1) show ?thesis by (auto intro!: keeps_final_put dest: approvals_okD)
next
  case (final current)
  with assms(1,3) show ?thesis by (auto intro!: keeps_final_put dest: approvals_okD)
qed simp

lemma expire_keeps_final:
  assumes "approvals_ok s" and "expireApprovalAtomically E now k a t s = (r, s')"
  shows "keeps_final s s'"
  using assms(2)
proof (cases rule: expire_cases)
  case (2 current)
  with assms(1) show ?thesis by (auto intro!: keeps_final_put dest: approvals_okD)
qed simp

section \<open>Properties\<close>

lemma recorded_sound:
  assumes "recordApprovalDecisionAtomically E now i s = (r, s')"
    and "ar_outcome r = Ap_Finalized \<or> ar_outcome r = Ap_Recorded"
  obtains current z where "recordable E now i s current z" "s' = put_approval (decided_approval current i) s"
      "r = approval_result (decided_approval current i)
         (if ap_status (decided_approval current i) = Approval_Approved then Ap_Finalized else Ap_Recorded)"
  using assms(1) by (cases rule: record_cases) (use assms(2) that in auto)

text \<open>A decision is recorded only under a live authorization: the approval was pending, its stored
  authorization is valid, not expired and matches the approval and the tool call as they are now,
  the active policy is the one it was issued under, the content influence has not moved, nobody with
  the same actor or principal decided before; and the approval becomes approved exactly when the
  decision completes the quorum.\<close>

lemma recorded_decision_is_authorized:
  assumes "recordApprovalDecisionAtomically E now i s = (r, s')"
    and "ar_outcome r = Ap_Finalized \<or> ar_outcome r = Ap_Recorded"
  shows "\<exists>current z t. jm_get (st_approvals s) (dn_approvalId i) = Some current
    \<and> ap_status current = Approval_Pending \<and> ap_authorization current = Some z
    \<and> isValidApprovalAuthorization E (encode_authorization z)
    \<and> az_authorizationHash z = az_authorizationHash (gd_authorization (dn_authorization i))
    \<and> \<not> approvalAuthorizationExpired E z now
    \<and> jm_get (st_toolCalls s) (ap_toolCallId current) = Some t
    \<and> approvalAuthorizationMismatch E (gd_authorization (dn_authorization i)) current t = None
    \<and> tc_policyVersionHash t = Some (gd_activePolicyVersionHash (dn_authorization i))
    \<and> contentExposureRevisionMatches s (default_ws (ap_workspaceId current)) (dn_contentExposureRevision i)
    \<and> (\<forall>d \<in> set (decisions_of current). independent d (dn_decision i))
    \<and> (ar_outcome r = Ap_Finalized \<longleftrightarrow> quorum current \<le> int (length (decisions_of current)) + 1)
    \<and> (\<exists>a. jm_get (st_approvals s') (ap_id current) = Some a
          \<and> decisions_of a = decisions_of current @ [dn_decision i]
          \<and> ap_status a = (if ar_outcome r = Ap_Finalized then Approval_Approved else Approval_Pending))"
proof -
  obtain current z where rec: "recordable E now i s current z"
    and s': "s' = put_approval (decided_approval current i) s"
    and r: "r = approval_result (decided_approval current i)
         (if ap_status (decided_approval current i) = Approval_Approved then Ap_Finalized else Ap_Recorded)"
    using assms by (rule recorded_sound)
  then have z: "ap_authorization current = Some z"
    and none: "approvalAuthorizationFailure E s current (dn_authorization i) = None"
    and fresh: "\<not> hasApprovalDecision (ap_decisions current) (dn_decision i)"
    by (simp_all add: recordable_def)
  obtain t where t: "sameAuthorization E (ap_authorization current) (gd_authorization (dn_authorization i))"
      "jm_get (st_toolCalls s) (ap_toolCallId current) = Some t"
      "tc_policyVersionHash t = Some (gd_activePolicyVersionHash (dn_authorization i))"
      "approvalAuthorizationMismatch E (gd_authorization (dn_authorization i)) current t = None"
    using none by (rule failure_None)
  have valid: "isValidApprovalAuthorization E (encode_authorization z)"
      "az_authorizationHash z = az_authorizationHash (gd_authorization (dn_authorization i))"
    using t(1) z by (auto elim: sameAuthorizationD)
  have indep: "\<forall>d \<in> set (decisions_of current). independent d (dn_decision i)"
    using fresh by (auto simp: hasApprovalDecision_def independent_def decisions_of_def list_ex_iff)
  have fin: "ar_outcome r = Ap_Finalized \<longleftrightarrow> quorum current \<le> int (length (decisions_of current)) + 1"
    using decided_fields(5) [of current i] by (simp add: r approval_result_def)
  have "jm_get (st_approvals s') (ap_id current) = Some (decided_approval current i)"
    by (simp add: s' put_approval_def decided_fields)
  moreover have "ap_status (decided_approval current i)
      = (if ar_outcome r = Ap_Finalized then Approval_Approved else Approval_Pending)"
    using fin decided_fields(5,6) [of current i] by auto
  ultimately show ?thesis
    using rec z t valid indep fin by (auto simp: recordable_def decided_fields)
qed

definition waiting_approval :: approval where
  "waiting_approval = sample_approval\<lparr>ap_authorization := Some sample_authorization\<rparr>"

definition waiting_store :: store where
  "waiting_store = put_approval waiting_approval (createToolCall sample_tool_call empty_store)"

definition sample_guard :: authorization_guard where
  "sample_guard = \<lparr>gd_activePolicyVersionHash = ''policy'', gd_authorization = sample_authorization,
     gd_originalInput = JObj []\<rparr>"

definition decision_by :: "string \<Rightarrow> approval_decision" where
  "decision_by actor = \<lparr>ad_actor = actor, ad_auth = None,
     ad_authorizationHash = Some (az_authorizationHash sample_authorization),
     ad_authorizationNonce = Some (az_nonce sample_authorization),
     ad_authorizationVersion = Some (az_version sample_authorization),
     ad_approvedEnvelopeHash = Some ''envelope'', ad_approvedInputHash = Some ''#{}'',
     ad_decisionId = az_decisionId sample_authorization, ad_decidedAt = ''t'', ad_editedInput = JUndef,
     ad_inputDecision = Some Original, ad_note = None,
     ad_reviewHash = Some (az_reviewHash sample_authorization), ad_source = None\<rparr>"

definition decide_by :: "string \<Rightarrow> approval_decision_input" where
  "decide_by actor = \<lparr>dn_approvalId = ''appr_1'', dn_authorization = sample_guard,
     dn_approvedEnvelopeHash = ''envelope'', dn_approvedInputHash = ''#{}'', dn_decision = decision_by actor,
     dn_editedInput = JUndef, dn_note = None, dn_reviewHash = az_reviewHash sample_authorization,
     dn_updatedAt = ''t'', dn_contentExposureRevision = None\<rparr>"

lemma sample_authorization_facts:
  "isValidApprovalAuthorization tagging_env (encode_authorization sample_authorization)"
  "buildApprovalAuthorization tagging_env ''nonce'' sample_authorization_input = Inr sample_authorization"
  "named_input sample_authorization_input" "submitted_as sample_authorization_input"
  "ba_toolCall sample_authorization_input = sample_tool_call"
proof -
  show "isValidApprovalAuthorization tagging_env (encode_authorization sample_authorization)"
    unfolding sample_authorization_def by (rule sample_authorization_valid) simp
  show "buildApprovalAuthorization tagging_env ''nonce'' sample_authorization_input = Inr sample_authorization"
    unfolding sample_authorization_def by (rule sample_built) code_simp+
  show "named_input sample_authorization_input" "submitted_as sample_authorization_input"
    "ba_toolCall sample_authorization_input = sample_tool_call" by code_simp+
qed

lemma sample_usable: "authorizationIdentityIsUsable tagging_env (encode_authorization sample_authorization)"
  using sample_authorization_facts(1)
  by (simp add: authorizationIdentityIsUsable_def encode_get group_defs jstring_def jstrings_def jint_def
      num_of_int_ge1)

lemma waiting_facts:
  "jm_get (st_approvals waiting_store) ''appr_1'' = Some waiting_approval"
  "ap_status waiting_approval = Approval_Pending" "ap_authorizationConsumedAt waiting_approval = None"
  "ap_authorization waiting_approval = Some sample_authorization" "ap_decisions waiting_approval = None"
  "ap_requiredApprovals waiting_approval = Some 2" "ap_toolCallId waiting_approval = ''tc_1''"
  "ap_originalInput waiting_approval = JObj []" "ap_id waiting_approval = ''appr_1''"
  by (simp_all add: waiting_store_def put_approval_def waiting_approval_def sample_approval_def)

lemma sample_no_failure:
  assumes "issued_with sample_authorization_input a" "ap_authorizationConsumedAt a = None"
    and "ap_authorization a = Some sample_authorization" "ap_originalInput a = JObj []"
    and "priorDecisionsMatchAuthorization (ap_decisions a) sample_authorization None None"
    and "jm_get (st_toolCalls s) ''tc_1'' = Some sample_tool_call"
  shows "approvalAuthorizationFailure tagging_env s a sample_guard = None"
proof -
  have "approvalAuthorizationMismatch tagging_env sample_authorization a sample_tool_call = None"
    using built_matches [OF sample_authorization_facts(2,3) _ _ assms(1) sample_authorization_facts(4)]
    by (simp add: sample_authorization_facts(5) tagging_env_def)
  moreover have "az_legacyVersionHash sample_authorization = ''policy''" "az_originalInputHash sample_authorization = ''#{}''"
    using built_fields [OF sample_authorization_facts(2)] by (simp_all add: sample_authorization_input_def sample_tool_call_def)
  moreover have "hashJson tagging_env (JObj []) = ''#{}''" by (simp add: hashJson_def tagging_env_def)
  moreover have "gd_authorization sample_guard = sample_authorization" "gd_originalInput sample_guard = JObj []"
    "gd_activePolicyVersionHash sample_guard = ''policy''" by (simp_all add: sample_guard_def)
  moreover have "tc_policyVersionHash sample_tool_call = Some ''policy''" by (simp add: sample_tool_call_def)
  moreover have "ap_toolCallId a = ''tc_1''"
    using assms(1) by (simp add: issued_with_def sample_authorization_input_def sample_tool_call_def)
  ultimately show ?thesis
    using sample_usable assms
    by (simp add: approvalAuthorizationFailure_def sameAuthorization_def first_of_None)
qed

definition waits_for :: "nat \<Rightarrow> approval \<Rightarrow> bool" where
  \<comment> \<open>a pending approval of the sample with this many decisions still to come\<close>
  "waits_for n a \<longleftrightarrow> issued_with sample_authorization_input a \<and> ap_status a = Approval_Pending
     \<and> ap_authorizationConsumedAt a = None \<and> ap_authorization a = Some sample_authorization
     \<and> ap_originalInput a = JObj [] \<and> length (decisions_of a) + n = 2 \<and> n \<noteq> 0
     \<and> priorDecisionsMatchAuthorization (ap_decisions a) sample_authorization (Some ''#{}'') (Some ''envelope'')"

lemma waiting_waits: "waits_for 2 waiting_approval"
  by (simp add: waits_for_def issued_with_def waiting_approval_def sample_approval_def sample_authorization_input_def
        sample_tool_call_def decisions_of_def priorDecisionsMatchAuthorization_def)

lemma sample_decision:
  assumes "waits_for n a" "jm_get (st_approvals s) ''appr_1'' = Some a"
    and "jm_get (st_toolCalls s) ''tc_1'' = Some sample_tool_call"
    and "\<forall>d \<in> set (decisions_of a). ad_actor d \<noteq> actor"
  shows "recordApprovalDecisionAtomically tagging_env 0 (decide_by actor) s
    = (approval_result (decided_approval a (decide_by actor)) (if n = 1 then Ap_Finalized else Ap_Recorded),
       put_approval (decided_approval a (decide_by actor)) s)"
proof -
  have w: "issued_with sample_authorization_input a" "ap_status a = Approval_Pending" "ap_authorizationConsumedAt a = None"
    "ap_authorization a = Some sample_authorization" "ap_originalInput a = JObj []" "length (decisions_of a) + n = 2" "n \<noteq> 0"
    "priorDecisionsMatchAuthorization (ap_decisions a) sample_authorization (Some ''#{}'') (Some ''envelope'')"
    using assms(1) by (simp_all add: waits_for_def)
  then have "priorDecisionsMatchAuthorization (ap_decisions a) sample_authorization None None"
    by (simp add: priorDecisionsMatchAuthorization_def list_all_iff)
  then have "approvalAuthorizationFailure tagging_env s a sample_guard = None"
    using w assms(3) by (intro sample_no_failure)
  moreover have "az_expiresAt sample_authorization = ''later''" "az_requiredApprovals sample_authorization = 2"
    using built_fields [OF sample_authorization_facts(2)] by (simp_all add: sample_authorization_input_def)
  then have "\<not> approvalAuthorizationExpired tagging_env sample_authorization 0"
    "decisionMatchesAuthorization (decide_by actor) sample_authorization"
    by (simp_all add: approvalAuthorizationExpired_def tagging_env_def text_env_def decisionMatchesAuthorization_def
        decide_by_def decision_by_def decision_matches_def)
  moreover have "\<not> hasApprovalDecision (ap_decisions a) (dn_decision (decide_by actor))"
    using assms(4) by (auto simp: hasApprovalDecision_def list_ex_iff decisions_of_def decide_by_def decision_by_def)
  moreover have "quorum a = 2"
    using w(1) by (simp add: issued_with_def sample_authorization_input_def quorum_def)
  then have "ap_status (decided_approval a (decide_by actor)) = Approval_Approved \<longleftrightarrow> n = 1"
    using w(6,7) decided_fields(5) [of a "decide_by actor"] by auto
  ultimately show ?thesis
    using w(2-4,8) assms(2)
    by (simp add: recordApprovalDecisionAtomically_def decide_by_def contentExposureRevisionMatches_def Let_def)
qed

lemma sample_decided_waits:
  assumes "waits_for 2 a" shows "waits_for 1 (decided_approval a (decide_by actor))"
proof -
  have "decisions_of a = []" "quorum a = 2"
    using assms by (simp_all add: waits_for_def issued_with_def sample_authorization_input_def quorum_def)
  moreover have "az_reviewHash sample_authorization = ba_reviewHash sample_authorization_input"
    using built_fields [OF sample_authorization_facts(2)] by simp
  ultimately show ?thesis
    using assms
    by (simp add: waits_for_def issued_with_def decided_approval_def decisions_of_def quorum_def Let_def decide_by_def
        priorDecisionsMatchAuthorization_def decision_by_def decision_matches_def)
qed

lemma sample_recorded:
  "recordApprovalDecisionAtomically tagging_env 0 (decide_by ''alice'') waiting_store
    = (approval_result (decided_approval waiting_approval (decide_by ''alice'')) Ap_Recorded,
       put_approval (decided_approval waiting_approval (decide_by ''alice'')) waiting_store)"
proof -
  have "jm_get (st_toolCalls waiting_store) ''tc_1'' = Some sample_tool_call"
    by (simp add: waiting_store_def put_approval_def createToolCall_def sample_tool_call_def)
  with sample_decision [OF waiting_waits waiting_facts(1), of "''alice''"] show ?thesis
    by (simp add: decisions_of_def waiting_facts)
qed

lemma recorded_decision_is_authorized_example:
  "\<exists>a. jm_get (st_approvals (snd (recordApprovalDecisionAtomically tagging_env 0 (decide_by ''alice'') waiting_store)))
        ''appr_1'' = Some a \<and> ap_status a = Approval_Pending"
proof -
  have "ar_outcome (approval_result a out) = out" for a out by (simp add: approval_result_def)
  from recorded_decision_is_authorized [OF sample_recorded] this
  obtain current a where "jm_get (st_approvals waiting_store) ''appr_1'' = Some current"
      "jm_get (st_approvals (put_approval (decided_approval waiting_approval (decide_by ''alice'')) waiting_store))
         (ap_id current) = Some a" "ap_status a = Approval_Pending"
    by (auto simp: decide_by_def)
  then show ?thesis
    by (auto simp: sample_recorded waiting_facts)
qed

end
