(* ===== verification/StoreDirectory.thy ===== *)
theory StoreDirectory
  imports StoreState
begin

text \<open>
  The directory collections of \<open>MemoryStore\<close>: deliveries, approver users and groups, workspaces and
  their users, service accounts, API keys and observed tools; and the identity constraint that
  \<open>upsertApproverUser\<close> maintains.
\<close>

section \<open>Operations\<close>

definition createApprovalDelivery :: "delivery \<Rightarrow> store \<Rightarrow> store" where
  "createApprovalDelivery r s = s\<lparr>st_approvalDeliveries := jm_set (dl_id r) r (st_approvalDeliveries s)\<rparr>"

definition updateApprovalDelivery :: "delivery \<Rightarrow> store \<Rightarrow> store" where
  "updateApprovalDelivery r s = s\<lparr>st_approvalDeliveries := jm_set (dl_id r) r (st_approvalDeliveries s)\<rparr>"

definition listApprovalDeliveries :: "env \<Rightarrow> string \<Rightarrow> store \<Rightarrow> delivery list" where
  "listApprovalDeliveries E approvalId s =
     newest_first E dl_createdAt
       (filter (\<lambda>d. dl_approvalId d = approvalId) (jm_values (st_approvalDeliveries s)))"

definition upsertApproverUser :: "approver_user \<Rightarrow> store \<Rightarrow> (approver_conflict + approver_user) \<times> store" where
  "upsertApproverUser r s =
     (case assertApproverPrincipalAvailable (jm_values (st_approverUsers s)) r of
        Inl e \<Rightarrow> (Inl e, s)
      | Inr _ \<Rightarrow> (Inr r, s\<lparr>st_approverUsers :=
                    jm_set (workspaceKey (us_workspaceId r) (us_id r)) r (st_approverUsers s)\<rparr>))"

definition getApproverUser :: "store \<Rightarrow> string \<Rightarrow> string \<Rightarrow> approver_user option" where
  "getApproverUser s workspaceId i = jm_get (st_approverUsers s) (workspaceKey workspaceId i)"

definition listApproverUsers :: "env \<Rightarrow> string \<Rightarrow> store \<Rightarrow> approver_user list" where
  "listApproverUsers E workspaceId s =
     by_display_name E us_displayName
       (filter (\<lambda>u. us_workspaceId u = workspaceId) (jm_values (st_approverUsers s)))"

definition deleteApproverUser :: "string \<Rightarrow> string \<Rightarrow> store \<Rightarrow> bool \<times> store" where
  "deleteApproverUser workspaceId i s =
     (let key = workspaceKey workspaceId i
      in (jm_has (st_approverUsers s) key, s\<lparr>st_approverUsers := jm_delete key (st_approverUsers s)\<rparr>))"

definition upsertApproverGroup :: "approver_group \<Rightarrow> store \<Rightarrow> store" where
  "upsertApproverGroup r s =
     s\<lparr>st_approverGroups := jm_set (workspaceKey (gp_workspaceId r) (gp_id r)) r (st_approverGroups s)\<rparr>"

definition getApproverGroup :: "store \<Rightarrow> string \<Rightarrow> string \<Rightarrow> approver_group option" where
  "getApproverGroup s workspaceId i = jm_get (st_approverGroups s) (workspaceKey workspaceId i)"

definition listApproverGroups :: "env \<Rightarrow> string \<Rightarrow> store \<Rightarrow> approver_group list" where
  "listApproverGroups E workspaceId s =
     by_display_name E gp_displayName
       (filter (\<lambda>g. gp_workspaceId g = workspaceId) (jm_values (st_approverGroups s)))"

definition deleteApproverGroup :: "string \<Rightarrow> string \<Rightarrow> store \<Rightarrow> bool \<times> store" where
  "deleteApproverGroup workspaceId i s =
     (let key = workspaceKey workspaceId i
      in (jm_has (st_approverGroups s) key, s\<lparr>st_approverGroups := jm_delete key (st_approverGroups s)\<rparr>))"

definition createWorkspace :: "workspace \<Rightarrow> store \<Rightarrow> store" where
  "createWorkspace r s = s\<lparr>st_workspaces := jm_set (ws_id r) r (st_workspaces s)\<rparr>"

definition getWorkspace :: "store \<Rightarrow> string \<Rightarrow> workspace option" where
  "getWorkspace s i = jm_get (st_workspaces s) i"

definition upsertWorkspaceUser :: "workspace_user \<Rightarrow> store \<Rightarrow> store" where
  "upsertWorkspaceUser r s =
     s\<lparr>st_workspaceUsers := jm_set (workspaceKey (wu_workspaceId r) (wu_id r)) r (st_workspaceUsers s)\<rparr>"

definition getWorkspaceUser :: "store \<Rightarrow> string \<Rightarrow> string \<Rightarrow> workspace_user option" where
  "getWorkspaceUser s workspaceId i = jm_get (st_workspaceUsers s) (workspaceKey workspaceId i)"

definition getWorkspaceUserByPrincipal :: "store \<Rightarrow> string \<Rightarrow> string \<Rightarrow> workspace_user option" where
  "getWorkspaceUserByPrincipal s workspaceId principalId =
     List.find (\<lambda>u. wu_workspaceId u = workspaceId \<and> wu_principalId u = principalId) (jm_values (st_workspaceUsers s))"

definition listWorkspaceUsers :: "env \<Rightarrow> string \<Rightarrow> store \<Rightarrow> workspace_user list" where
  "listWorkspaceUsers E workspaceId s =
     by_display_name E wu_displayName
       (filter (\<lambda>u. wu_workspaceId u = workspaceId) (jm_values (st_workspaceUsers s)))"

definition createServiceAccount :: "service_account \<Rightarrow> store \<Rightarrow> store" where
  "createServiceAccount r s = s\<lparr>st_serviceAccounts := jm_set (sa_id r) r (st_serviceAccounts s)\<rparr>"

definition getServiceAccount :: "store \<Rightarrow> string \<Rightarrow> service_account option" where
  "getServiceAccount s i = jm_get (st_serviceAccounts s) i"

definition listServiceAccounts :: "env \<Rightarrow> string \<Rightarrow> store \<Rightarrow> service_account list" where
  "listServiceAccounts E workspaceId s =
     newest_first E sa_createdAt
       (filter (\<lambda>a. sa_workspaceId a = workspaceId) (jm_values (st_serviceAccounts s)))"

definition createApiKey :: "api_key \<Rightarrow> store \<Rightarrow> store" where
  "createApiKey r s = s\<lparr>st_apiKeys := jm_set (ak_keyPrefix r) r (st_apiKeys s)\<rparr>"

definition getApiKeyByPrefix :: "store \<Rightarrow> string \<Rightarrow> api_key option" where
  "getApiKeyByPrefix s keyPrefix = jm_get (st_apiKeys s) keyPrefix"

definition updateApiKey :: "api_key \<Rightarrow> store \<Rightarrow> store" where
  "updateApiKey r s = s\<lparr>st_apiKeys := jm_set (ak_keyPrefix r) r (st_apiKeys s)\<rparr>"

definition upsertObservedTool :: "observed_tool \<Rightarrow> store \<Rightarrow> store" where
  "upsertObservedTool r s = s\<lparr>st_observedTools := jm_set (ot_id r) r (st_observedTools s)\<rparr>"

definition getObservedTool :: "store \<Rightarrow> string \<Rightarrow> observed_tool option" where
  "getObservedTool s i = jm_get (st_observedTools s) i"

definition getObservedToolByName :: "store \<Rightarrow> string \<Rightarrow> string \<Rightarrow> observed_tool option" where
  "getObservedToolByName s workspaceId toolName =
     List.find (\<lambda>r. ot_workspaceId r = workspaceId \<and> ot_toolName r = toolName) (jm_values (st_observedTools s))"

definition listObservedTools :: "env \<Rightarrow> string \<Rightarrow> store \<Rightarrow> observed_tool list" where
  "listObservedTools E workspaceId s =
     newest_first E ot_lastSeenAt
       (filter (\<lambda>r. ot_workspaceId r = workspaceId) (jm_values (st_observedTools s)))"

section \<open>One approver per identity\<close>

definition identities_unique :: "store \<Rightarrow> bool" where
  \<comment> \<open>two stored users of a workspace with the same effective identity have the same id\<close>
  "identities_unique s =
     (\<forall>u \<in> set (jm_values (st_approverUsers s)). \<forall>v \<in> set (jm_values (st_approverUsers s)).
        us_workspaceId u = us_workspaceId v \<longrightarrow> approverEffectiveIdentity u = approverEffectiveIdentity v
          \<longrightarrow> us_id u = us_id v)"

lemma jm_values_delete: "set (jm_values (jm_delete k m)) \<subseteq> set (jm_values m)"
  by (auto simp: jm_values_def jm_delete_def)

definition same_identity :: "approver_user \<Rightarrow> approver_user \<Rightarrow> bool" where
  "same_identity u v = (us_workspaceId u = us_workspaceId v \<and> approverEffectiveIdentity u = approverEffectiveIdentity v)"

lemma identities_unique_iff:
  "identities_unique s \<longleftrightarrow> (\<forall>u \<in> set (jm_values (st_approverUsers s)). \<forall>v \<in> set (jm_values (st_approverUsers s)).
     same_identity u v \<longrightarrow> us_id u = us_id v)"
  unfolding identities_unique_def same_identity_def by blast

lemma assert_available:
  "assertApproverPrincipalAvailable users r = Inr x \<longleftrightarrow> (\<forall>u \<in> set users. same_identity u r \<longrightarrow> us_id u = us_id r)"
  by (auto simp: assertApproverPrincipalAvailable_def same_identity_def list_ex_iff)

lemma upsert_cases:
  assumes "upsertApproverUser r s = (res, s')"
  obtains "res = Inl ApproverPrincipalConflict" "s' = s"
  | "res = Inr r" "s' = s\<lparr>st_approverUsers :=
        jm_set (workspaceKey (us_workspaceId r) (us_id r)) r (st_approverUsers s)\<rparr>"
    "\<forall>u \<in> set (jm_values (st_approverUsers s)). same_identity u r \<longrightarrow> us_id u = us_id r"
proof (cases "assertApproverPrincipalAvailable (jm_values (st_approverUsers s)) r")
  case (Inl e)
  with assms that(1) show thesis by (cases e) (simp add: upsertApproverUser_def)
next
  case (Inr x)
  with assms that(2) assert_available [of "jm_values (st_approverUsers s)" r x] show thesis
    by (simp add: upsertApproverUser_def)
qed

lemma unique_insert:
  assumes "\<forall>u \<in> A. \<forall>v \<in> A. same_identity u v \<longrightarrow> us_id u = us_id v"
    and "\<forall>u \<in> A. same_identity u r \<longrightarrow> us_id u = us_id r" and "B \<subseteq> insert r A"
  shows "\<forall>u \<in> B. \<forall>v \<in> B. same_identity u v \<longrightarrow> us_id u = us_id v"
proof (intro ballI impI)
  fix u v assume "u \<in> B" "v \<in> B" and same: "same_identity u v"
  with assms(3) have "u \<in> insert r A" "v \<in> insert r A" by blast+
  moreover have "same_identity v u" using same by (simp add: same_identity_def)
  ultimately show "us_id u = us_id v" using assms(1,2) same by (metis insertE)
qed

lemma upsert_identities_unique:
  assumes "identities_unique s" and "upsertApproverUser r s = (res, s')"
  shows "identities_unique s'"
  using assms(2)
proof (cases rule: upsert_cases)
  case 2
  with assms(1) show ?thesis
    using unique_insert [OF _ 2(3) jm_values_set] by (simp add: identities_unique_iff)
qed (use assms(1) in simp)

text \<open>C27: the approver directory never holds two users of one workspace with the same authorization
  identity: registering a user keeps that, and a refused registration changes nothing.\<close>

theorem upsertApproverUser_identities:
  assumes "identities_unique s" and "upsertApproverUser r s = (res, s')"
  shows "identities_unique s' \<and> (\<forall>e. res = Inl e \<longrightarrow> s' = s)
    \<and> (\<forall>u. res = Inr u \<longrightarrow> getApproverUser s' (us_workspaceId r) (us_id r) = Some r)"
proof -
  have "identities_unique s'" using assms by (rule upsert_identities_unique)
  with assms(2) show ?thesis
    by (cases rule: upsert_cases) (simp_all add: getApproverUser_def)
qed

definition sample_user :: "string \<Rightarrow> string option \<Rightarrow> approver_user" where
  "sample_user i p = \<lparr>us_id = i, us_workspaceId = ''default'', us_displayName = i, us_email = None,
     us_principalId = p, us_slackUserId = None, us_telegramChatId = None, us_telegramUsername = None,
     us_telegramUserId = None, us_groups = [], us_defaultApprover = False, us_enabled = True,
     us_createdAt = ''t'', us_updatedAt = ''t''\<rparr>"

definition one_user_store :: store where
  "one_user_store = snd (upsertApproverUser (sample_user ''alice'' None) empty_store)"

theorem upsertApproverUser_identities_witness:
  "upsertApproverUser (sample_user ''bob'' (Some ''alice'')) one_user_store
     = (Inl ApproverPrincipalConflict, one_user_store)
   \<and> identities_unique (snd (upsertApproverUser (sample_user ''bob'' (Some ''alice'')) one_user_store))"
proof -
  have store: "upsertApproverUser (sample_user ''bob'' (Some ''alice'')) one_user_store
      = (Inl ApproverPrincipalConflict, one_user_store)" by code_simp
  have "identities_unique one_user_store"
    by (simp add: identities_unique_def one_user_store_def upsertApproverUser_def empty_store_def
        jm_values_def assertApproverPrincipalAvailable_def)
  from upsertApproverUser_identities [OF this store] store show ?thesis by simp
qed

text \<open>
  The workspace and the id of a directory record share one string key. The key is not injective, so
  two records of different workspaces can replace each other when an identifier contains a colon.
\<close>

lemma workspaceKey_ambiguous: "workspaceKey ''a:b'' ''c'' = workspaceKey ''a'' ''b:c''"
  by (simp add: workspaceKey_def)

lemma approver_of_other_workspace:
  "getApproverGroup (upsertApproverGroup g s) ''a'' ''b:c'' = Some g"
  if "gp_workspaceId g = ''a:b''" "gp_id g = ''c''"
  using that by (simp add: getApproverGroup_def upsertApproverGroup_def workspaceKey_def)

end
