(* ===== verification/StoreFrames.thy ===== *)
theory StoreFrames
  imports StoreWriteFacts StoreApprovalFacts StoreDirectory
begin

text \<open>
  What each store operation leaves alone. The facts are collected in \<open>kept\<close>: an operation that ran
  determines the collections of the new store that equal those of the old one.
\<close>

named_theorems kept \<open>collections an operation does not write\<close>

lemma plain_kept [simp]:
  "st_approvals (createToolCall t s) = st_approvals s"
  "st_executionGrants (createToolCall t s) = st_executionGrants s"
  "st_executionAttempts (createToolCall t s) = st_executionAttempts s"
  "st_executionAttemptByToolCall (createToolCall t s) = st_executionAttemptByToolCall s"
  "st_contentExposureScopes (createToolCall t s) = st_contentExposureScopes s"
  "st_approverUsers (createToolCall t s) = st_approverUsers s"
  "st_idempotency (createToolCall t s) = st_idempotency s"
  "st_toolCalls (createApproval a s) = st_toolCalls s"
  "st_executionGrants (createApproval a s) = st_executionGrants s"
  "st_executionAttempts (createApproval a s) = st_executionAttempts s"
  "st_executionAttemptByToolCall (createApproval a s) = st_executionAttemptByToolCall s"
  "st_contentExposureScopes (createApproval a s) = st_contentExposureScopes s"
  "st_approverUsers (createApproval a s) = st_approverUsers s"
  "st_idempotency (createApproval a s) = st_idempotency s"
  "st_toolCalls (createExecutionGrant g s) = st_toolCalls s"
  "st_approvals (createExecutionGrant g s) = st_approvals s"
  "st_executionAttempts (createExecutionGrant g s) = st_executionAttempts s"
  "st_executionAttemptByToolCall (createExecutionGrant g s) = st_executionAttemptByToolCall s"
  "st_contentExposureScopes (createExecutionGrant g s) = st_contentExposureScopes s"
  "st_approverUsers (createExecutionGrant g s) = st_approverUsers s"
  "st_idempotency (createExecutionGrant g s) = st_idempotency s"
  by (simp_all add: createToolCall_def createApproval_def createExecutionGrant_def)

lemma update_is_create [simp]: "updateToolCall t s = createToolCall t s"
  "updateActionReceipt r s = createActionReceipt r s"
  by (simp_all add: updateToolCall_def createToolCall_def updateActionReceipt_def createActionReceipt_def)

lemma receipt_kept [simp]:
  "st_toolCalls (createActionReceipt r s) = st_toolCalls s"
  "st_approvals (createActionReceipt r s) = st_approvals s"
  "st_executionGrants (createActionReceipt r s) = st_executionGrants s"
  "st_executionAttempts (createActionReceipt r s) = st_executionAttempts s"
  "st_executionAttemptByToolCall (createActionReceipt r s) = st_executionAttemptByToolCall s"
  "st_contentExposureScopes (createActionReceipt r s) = st_contentExposureScopes s"
  "st_approverUsers (createActionReceipt r s) = st_approverUsers s"
  "st_idempotency (createActionReceipt r s) = st_idempotency s"
  by (simp_all add: createActionReceipt_def)

lemma put_approval_kept [simp]:
  "st_toolCalls (put_approval a s) = st_toolCalls s"
  "st_executionGrants (put_approval a s) = st_executionGrants s"
  "st_executionAttempts (put_approval a s) = st_executionAttempts s"
  "st_executionAttemptByToolCall (put_approval a s) = st_executionAttemptByToolCall s"
  "st_contentExposureScopes (put_approval a s) = st_contentExposureScopes s"
  "st_approverUsers (put_approval a s) = st_approverUsers s"
  "st_idempotency (put_approval a s) = st_idempotency s"
  by (simp_all add: put_approval_def)

lemma put_attempt_kept [simp]:
  "st_toolCalls (put_attempt a s) = st_toolCalls s" "st_approvals (put_attempt a s) = st_approvals s"
  "st_executionGrants (put_attempt a s) = st_executionGrants s"
  "st_executionAttemptByToolCall (put_attempt a s) = st_executionAttemptByToolCall s"
  "st_contentExposureScopes (put_attempt a s) = st_contentExposureScopes s"
  "st_approverUsers (put_attempt a s) = st_approverUsers s"
  "st_idempotency (put_attempt a s) = st_idempotency s"
  by (simp_all add: put_attempt_def)

lemma put_grant_kept [simp]:
  "st_toolCalls (put_grant g s) = st_toolCalls s" "st_approvals (put_grant g s) = st_approvals s"
  "st_executionAttemptByToolCall (put_grant g s) = st_executionAttemptByToolCall s"
  "st_contentExposureScopes (put_grant g s) = st_contentExposureScopes s"
  "st_approverUsers (put_grant g s) = st_approverUsers s"
  "st_idempotency (put_grant g s) = st_idempotency s"
  by (simp_all add: put_grant_def)

section \<open>Tool calls, exposures, users\<close>

lemma idempotent_cases:
  assumes "createToolCallIdempotentlyAtomically i t s = (res, s')"
  obtains (kept) "s' = s" "\<And>r. res = Inr r \<Longrightarrow> ir_outcome r \<noteq> Id_Created"
  | (created) "id_toolCallId i = tc_id t"
      "jm_get (st_idempotency s) (idempotencyKey (id_workspaceId i) (id_route i) (id_key i)) = None"
      "jm_get (st_toolCalls s) (tc_id t) = None"
      "res = Inr \<lparr>ir_idempotency = i, ir_outcome = Id_Created, ir_toolCall = t\<rparr>"
      "s' = s\<lparr>st_toolCalls := jm_set (tc_id t) t (st_toolCalls s),
              st_idempotency := jm_set (idempotencyKey (id_workspaceId i) (id_route i) (id_key i)) i (st_idempotency s)\<rparr>"
proof (cases "assertIdempotencyCandidate i t")
  case (Inl e)
  with assms kept show thesis by (auto simp: createToolCallIdempotentlyAtomically_def)
next
  case (Inr x)
  let ?key = "idempotencyKey (id_workspaceId i) (id_route i) (id_key i)"
  have id: "id_toolCallId i = tc_id t" using Inr by (simp add: assertIdempotencyCandidate_def split: if_splits)
  show thesis
  proof (cases "jm_get (st_idempotency s) ?key")
    case None
    show thesis
    proof (cases "jm_get (st_toolCalls s) (tc_id t)")
      case n: None
      from assms created [OF id None n] show thesis
        by (simp add: createToolCallIdempotentlyAtomically_def Inr None jm_has_def n Let_def)
    next
      case (Some u)
      with assms kept show thesis
        by (auto simp: createToolCallIdempotentlyAtomically_def Inr None jm_has_def Let_def)
    qed
  next
    case (Some c)
    with assms kept show thesis
      by (cases "jm_get (st_toolCalls s) (id_toolCallId c)")
        (auto simp: createToolCallIdempotentlyAtomically_def Inr Let_def)
  qed
qed

lemma idempotent_kept [kept]:
  assumes "createToolCallIdempotentlyAtomically i t s = (res, s')"
  shows "st_approvals s' = st_approvals s \<and> st_executionGrants s' = st_executionGrants s
    \<and> st_executionAttempts s' = st_executionAttempts s
    \<and> st_executionAttemptByToolCall s' = st_executionAttemptByToolCall s
    \<and> st_contentExposureScopes s' = st_contentExposureScopes s \<and> st_approverUsers s' = st_approverUsers s"
  using assms by (cases rule: idempotent_cases) auto

lemma exposure_kept [kept]:
  assumes "recordContentExposure E r s = (out, s')"
  shows "st_approvals s' = st_approvals s \<and> st_executionGrants s' = st_executionGrants s
    \<and> st_executionAttempts s' = st_executionAttempts s
    \<and> st_executionAttemptByToolCall s' = st_executionAttemptByToolCall s
    \<and> st_approverUsers s' = st_approverUsers s \<and> st_toolCalls s' = st_toolCalls s
    \<and> st_idempotency s' = st_idempotency s"
  using assms by (auto simp: recordContentExposure_def Let_def split: option.splits)

lemma upsert_kept [kept]:
  assumes "upsertApproverUser u s = (res, s')"
  shows "st_approvals s' = st_approvals s \<and> st_executionGrants s' = st_executionGrants s
    \<and> st_executionAttempts s' = st_executionAttempts s
    \<and> st_executionAttemptByToolCall s' = st_executionAttemptByToolCall s
    \<and> st_contentExposureScopes s' = st_contentExposureScopes s \<and> st_toolCalls s' = st_toolCalls s
    \<and> st_idempotency s' = st_idempotency s"
  using assms by (cases rule: upsert_cases) auto

section \<open>Approvals\<close>

lemma decision_kept [kept]:
  assumes "recordApprovalDecisionAtomically E now i s = (r, s')"
  shows "st_executionGrants s' = st_executionGrants s \<and> st_executionAttempts s' = st_executionAttempts s
    \<and> st_executionAttemptByToolCall s' = st_executionAttemptByToolCall s
    \<and> st_contentExposureScopes s' = st_contentExposureScopes s \<and> st_approverUsers s' = st_approverUsers s
    \<and> st_toolCalls s' = st_toolCalls s \<and> st_idempotency s' = st_idempotency s"
  using assms by (cases rule: record_cases) auto

lemma finalize_kept:
  assumes "finalize_approval E now k g final out s = (r, s')"
  shows "st_executionGrants s' = st_executionGrants s \<and> st_executionAttempts s' = st_executionAttempts s
    \<and> st_executionAttemptByToolCall s' = st_executionAttemptByToolCall s
    \<and> st_contentExposureScopes s' = st_contentExposureScopes s \<and> st_approverUsers s' = st_approverUsers s
    \<and> st_toolCalls s' = st_toolCalls s \<and> st_idempotency s' = st_idempotency s"
  using assms by (cases rule: finalize_cases) auto

lemmas reject_kept [kept] = finalize_kept [where final = "rejected_approval x y z" and out = Ap_Rejected for x y z,
    folded rejectApprovalAtomically_def]
lemmas cancel_kept [kept] = finalize_kept [where final = "cancelled_approval x y z" and out = Ap_Cancelled for x y z,
    folded cancelApprovalAtomically_def]

lemma expire_kept [kept]:
  assumes "expireApprovalAtomically E now k a t s = (r, s')"
  shows "st_executionGrants s' = st_executionGrants s \<and> st_executionAttempts s' = st_executionAttempts s
    \<and> st_executionAttemptByToolCall s' = st_executionAttemptByToolCall s
    \<and> st_contentExposureScopes s' = st_contentExposureScopes s \<and> st_approverUsers s' = st_approverUsers s
    \<and> st_toolCalls s' = st_toolCalls s \<and> st_idempotency s' = st_idempotency s"
  using assms by (cases rule: expire_cases) auto

section \<open>Grants and receipts\<close>

lemma consume_cases:
  assumes "consumeExecutionGrantAtomically k t s = (res, s')"
  obtains (kept) "s' = s"
  | (consumed) g where "jm_get (st_executionGrants s) k = Some g" "\<not> truthy (gr_consumedAt g)"
      "res = Some (g\<lparr>gr_consumedAt := Some t\<rparr>)"
      "s' = s\<lparr>st_executionGrants := jm_set k (g\<lparr>gr_consumedAt := Some t\<rparr>) (st_executionGrants s)\<rparr>"
proof (cases "jm_get (st_executionGrants s) k")
  case None
  with assms kept show thesis by (simp add: consumeExecutionGrantAtomically_def)
next
  case (Some g)
  with assms kept consumed [OF Some] show thesis
    by (cases "truthy (gr_consumedAt g)") (simp_all add: consumeExecutionGrantAtomically_def Let_def)
qed

lemma consume_kept [kept]:
  assumes "consumeExecutionGrantAtomically k t s = (res, s')"
  shows "st_approvals s' = st_approvals s \<and> st_executionAttempts s' = st_executionAttempts s
    \<and> st_executionAttemptByToolCall s' = st_executionAttemptByToolCall s
    \<and> st_contentExposureScopes s' = st_contentExposureScopes s \<and> st_approverUsers s' = st_approverUsers s
    \<and> st_toolCalls s' = st_toolCalls s \<and> st_idempotency s' = st_idempotency s"
  using assms by (cases rule: consume_cases) auto

lemma receipt_outcome_kept [kept]:
  assumes "recordActionReceiptOutcomeAtomically k out s = (res, s')"
  shows "st_approvals s' = st_approvals s \<and> st_executionGrants s' = st_executionGrants s
    \<and> st_executionAttempts s' = st_executionAttempts s
    \<and> st_executionAttemptByToolCall s' = st_executionAttemptByToolCall s
    \<and> st_contentExposureScopes s' = st_contentExposureScopes s \<and> st_approverUsers s' = st_approverUsers s
    \<and> st_toolCalls s' = st_toolCalls s \<and> st_idempotency s' = st_idempotency s"
  using assms by (auto simp: recordActionReceiptOutcomeAtomically_def Let_def split: option.splits if_splits)

section \<open>Attempts\<close>

lemma reserve_kept [kept]:
  assumes "reserveExecutionAttemptAtomically E now r z s = (res, s')"
  shows "st_approvals s' = st_approvals s \<and> st_executionGrants s' = st_executionGrants s
    \<and> st_contentExposureScopes s' = st_contentExposureScopes s \<and> st_approverUsers s' = st_approverUsers s
    \<and> st_toolCalls s' = st_toolCalls s \<and> st_idempotency s' = st_idempotency s"
  using assms by (cases rule: reserve_cases) auto

lemma transition_kept [kept]:
  assumes "transitionExecutionAttemptAtomically E i s = (res, s')"
  shows "st_approvals s' = st_approvals s \<and> st_executionGrants s' = st_executionGrants s
    \<and> st_contentExposureScopes s' = st_contentExposureScopes s \<and> st_approverUsers s' = st_approverUsers s
    \<and> st_toolCalls s' = st_toolCalls s \<and> st_idempotency s' = st_idempotency s"
  using assms by (cases rule: transition_cases) auto

lemma bind_kept [kept]:
  assumes "bindExecutionAttemptGrantAtomically i s = (res, s')"
  shows "st_approvals s' = st_approvals s \<and> st_executionGrants s' = st_executionGrants s
    \<and> st_contentExposureScopes s' = st_contentExposureScopes s \<and> st_approverUsers s' = st_approverUsers s
    \<and> st_toolCalls s' = st_toolCalls s \<and> st_idempotency s' = st_idempotency s"
  using assms by (cases rule: bind_cases) auto

lemma dispatch_kept [kept]:
  assumes "consumeExecutionGrantAndDispatchAttemptAtomically i s = (res, s')"
  shows "st_approvals s' = st_approvals s \<and> st_contentExposureScopes s' = st_contentExposureScopes s
    \<and> st_approverUsers s' = st_approverUsers s \<and> st_toolCalls s' = st_toolCalls s
    \<and> st_idempotency s' = st_idempotency s"
  using assms by (cases rule: dispatch_cases) auto

section \<open>Multi-record writes\<close>

lemma publish_kept [kept]:
  assumes "publishApprovedExternalAuthorizationAtomically E i s = (res, s')"
  shows "st_approvals s' = st_approvals s \<and> st_contentExposureScopes s' = st_contentExposureScopes s
    \<and> st_approverUsers s' = st_approverUsers s \<and> st_idempotency s' = st_idempotency s"
  using assms by (cases rule: publish_cases) (auto simp: published_def)

lemma adopt_kept [kept]:
  assumes "adoptKnownExternalExecutionOutcomeAtomically E i s = (res, s')"
  shows "st_approvals s' = st_approvals s \<and> st_executionGrants s' = st_executionGrants s
    \<and> st_executionAttempts s' = st_executionAttempts s
    \<and> st_executionAttemptByToolCall s' = st_executionAttemptByToolCall s
    \<and> st_contentExposureScopes s' = st_contentExposureScopes s \<and> st_approverUsers s' = st_approverUsers s
    \<and> st_idempotency s' = st_idempotency s"
  using adopt_frame [OF assms] by blast

lemma record_outcome_kept [kept]:
  assumes "recordKnownExternalExecutionOutcomeAtomically E i s = (res, s')"
  shows "st_approvals s' = st_approvals s \<and> st_executionGrants s' = st_executionGrants s
    \<and> st_contentExposureScopes s' = st_contentExposureScopes s \<and> st_approverUsers s' = st_approverUsers s
    \<and> st_idempotency s' = st_idempotency s"
  using assms by (cases rule: record_outcome_cases) (auto simp: recorded_outcome_def)

end
