(* ===== verification/Transitions.thy ===== *)
theory Transitions
  imports Main
begin

text \<open>
  The two contracts the step relations of this development meet: an invariant that every step keeps, and
  a preorder (progress) along which every step moves.
\<close>

locale invariant_system =
  fixes step :: "'s \<Rightarrow> 's \<Rightarrow> bool" and init :: 's and good :: "'s \<Rightarrow> bool"
  assumes init_good: "good init"
    and step_good: "good s \<Longrightarrow> step s s' \<Longrightarrow> good s'"
begin

lemma steps_good: "step\<^sup>*\<^sup>* s s' \<Longrightarrow> good s \<Longrightarrow> good s'"
  by (induction rule: rtranclp_induct) (auto intro: step_good)

lemma reachable_good: "step\<^sup>*\<^sup>* init s \<Longrightarrow> good s"
  by (rule steps_good [OF _ init_good])

end

locale progress_system = invariant_system +
  fixes rel :: "'s \<Rightarrow> 's \<Rightarrow> bool"
  assumes rel_refl: "rel s s"
    and rel_trans: "rel s t \<Longrightarrow> rel t u \<Longrightarrow> rel s u"
    and step_rel: "good s \<Longrightarrow> step s s' \<Longrightarrow> rel s s'"
begin

lemma steps_rel: "step\<^sup>*\<^sup>* s s' \<Longrightarrow> good s \<Longrightarrow> rel s s'"
proof (induction rule: rtranclp_induct)
  case (step t u)
  with steps_good [OF step.hyps(1)] show ?case by (blast intro: rel_trans step_rel)
qed (rule rel_refl)

lemma reachable_steps_rel: "step\<^sup>*\<^sup>* init s \<Longrightarrow> step\<^sup>*\<^sup>* s s' \<Longrightarrow> rel s s'"
  by (blast intro: steps_rel reachable_good)

lemma steps_chain:
  assumes "step\<^sup>*\<^sup>* init s" "step\<^sup>*\<^sup>* s s'" "step s' t" "step\<^sup>*\<^sup>* t u"
  shows "rel s s'" "rel s' t" "rel t u" "good s'" "good t" "good u"
proof -
  have s': "step\<^sup>*\<^sup>* init s'" and t: "step\<^sup>*\<^sup>* init t" using assms by (auto intro: rtranclp_trans)
  with assms show "rel s s'" "rel t u" by (blast intro: reachable_steps_rel)+
  show "good s'" by (rule reachable_good [OF s'])
  with assms(3) show "rel s' t" by (blast intro: step_rel)
  show "good t" by (rule reachable_good [OF t])
  with assms(4) show "good u" by (blast intro: steps_good)
qed

end

end
