(* ===== verification/StoreMachine.thy ===== *)
theory StoreMachine
  imports StoreFrames Transitions
begin

text \<open>
  The store as a machine: \<open>store_step\<close> has one rule for every store operation the services call, with
  what the callers guarantee as its premises, so that statements about \<open>store_step\<^sup>*\<^sup>*\<close> cover
  every interleaving of the requests and workers that share a store. The invariant of the reachable
  stores and the order in which they evolve are shown here; the properties are in \<open>StoreHistory\<close>.
\<close>

section \<open>Steps\<close>

inductive store_step :: "env \<Rightarrow> store \<Rightarrow> store \<Rightarrow> bool" for E :: env where
  tool_call_created: "store_step E s (createToolCall t s)"
| tool_call_updated: "store_step E s (updateToolCall t s)"
| tool_call_idempotent: "createToolCallIdempotentlyAtomically i t s = (res, s') \<Longrightarrow> store_step E s s'"
| exposure_recorded: "recordContentExposure E x s = (out, s') \<Longrightarrow> store_step E s s'"
| approver_upserted: "upsertApproverUser u s = (ures, s') \<Longrightarrow> store_step E s s'"
| approval_created: "jm_get (st_approvals s) (ap_id a) = None \<Longrightarrow> ap_status a = Approval_Pending
    \<Longrightarrow> decisions_of a = [] \<Longrightarrow> store_step E s (createApproval a s)"
| approval_decided: "recordApprovalDecisionAtomically E now d s = (ares, s') \<Longrightarrow> store_step E s s'"
| approval_rejected: "rejectApprovalAtomically E now k g reason by at s = (ares, s') \<Longrightarrow> store_step E s s'"
| approval_cancelled: "cancelApprovalAtomically E now k g reason by at s = (ares, s') \<Longrightarrow> store_step E s s'"
| approval_expired: "expireApprovalAtomically E now k z at s = (ares, s') \<Longrightarrow> store_step E s s'"
| grant_created: "jm_get (st_executionGrants s) (gr_id h) = None \<Longrightarrow> gr_consumedAt h = None
    \<Longrightarrow> store_step E s (createExecutionGrant h s)"
| grant_consumed: "consumeExecutionGrantAtomically k at s = (gres, s') \<Longrightarrow> store_step E s s'"
| receipt_created: "store_step E s (createActionReceipt r s)"
| receipt_updated: "store_step E s (updateActionReceipt r s)"
| receipt_outcome: "recordActionReceiptOutcomeAtomically k ro s = (rres, s') \<Longrightarrow> store_step E s s'"
| attempt_reserved: "reserveExecutionAttemptAtomically E now a' az s = (vres, s') \<Longrightarrow> store_step E s s'"
| attempt_transitioned: "transitionExecutionAttemptAtomically E ti s = (tres, s') \<Longrightarrow> store_step E s s'"
| grant_bound: "bindExecutionAttemptGrantAtomically gi s = (bres, s') \<Longrightarrow> store_step E s s'"
| attempt_dispatched: "consumeExecutionGrantAndDispatchAttemptAtomically di s = (dres, s') \<Longrightarrow> store_step E s s'"
| authorization_published: "publishApprovedExternalAuthorizationAtomically E pu s = (pres, s')
    \<Longrightarrow> at_id (pu_attempt pu) \<noteq> [] \<Longrightarrow> store_step E s s'"
| outcome_adopted: "adoptKnownExternalExecutionOutcomeAtomically E an s = (ores, s') \<Longrightarrow> store_step E s s'"
| outcome_recorded: "recordKnownExternalExecutionOutcomeAtomically E rn s = (ores, s') \<Longrightarrow> store_step E s s'"

section \<open>Approvals\<close>

lemma approvals_ok_cong: "st_approvals s' = st_approvals s \<Longrightarrow> approvals_ok s' = approvals_ok s"
  by (simp add: approvals_ok_def)

lemma keeps_final_cong: "st_approvals s' = st_approvals s \<Longrightarrow> keeps_final s s'"
  by (simp add: keeps_final_def)

lemma fresh_approval_ok: "ap_status a = Approval_Pending \<Longrightarrow> decisions_of a = [] \<Longrightarrow> approval_ok a"
  by (simp add: approval_ok_def quorum_def)

lemma create_approval_ok:
  assumes "approvals_ok s" "jm_get (st_approvals s) (ap_id a) = None" "approval_ok a"
  shows "approvals_ok (createApproval a s) \<and> keeps_final s (createApproval a s)"
proof -
  have eq: "createApproval a s = put_approval a s" by (simp add: createApproval_def put_approval_def)
  have "keeps_final s (put_approval a s)"
    using assms(2) by (simp add: keeps_final_def put_approval_def)
  with put_approval_ok [OF assms(1,3)] show ?thesis unfolding eq by blast
qed

lemma reject_keeps_final:
  "approvals_ok s \<Longrightarrow> rejectApprovalAtomically E now k g reason b u s = (r, s') \<Longrightarrow> keeps_final s s'"
  unfolding rejectApprovalAtomically_def by (erule (1) finalize_keeps_final) simp

lemma cancel_keeps_final:
  "approvals_ok s \<Longrightarrow> cancelApprovalAtomically E now k g reason b u s = (r, s') \<Longrightarrow> keeps_final s s'"
  unfolding cancelApprovalAtomically_def by (erule (1) finalize_keeps_final) simp

lemma step_approvals:
  assumes "store_step E s s'" "approvals_ok s"
  shows "approvals_ok s' \<and> keeps_final s s'"
proof -
  have same: "st_approvals s' = st_approvals s \<Longrightarrow> ?thesis"
    using assms(2) approvals_ok_cong [of s' s] keeps_final_cong [of s' s] by blast
  show ?thesis
    using assms(1)
  proof cases
    case (approval_created a)
    show ?thesis unfolding approval_created(1)
      by (rule create_approval_ok [OF assms(2) approval_created(2) fresh_approval_ok [OF approval_created(3,4)]])
  next
    case approval_decided
    from record_approvals_ok [OF assms(2) this] record_keeps_final [OF assms(2) this] show ?thesis ..
  next
    case approval_rejected
    from reject_approvals_ok [OF assms(2) this] reject_keeps_final [OF assms(2) this] show ?thesis ..
  next
    case approval_cancelled
    from cancel_approvals_ok [OF assms(2) this] cancel_keeps_final [OF assms(2) this] show ?thesis ..
  next
    case approval_expired
    from expire_approvals_ok [OF assms(2) this] expire_keeps_final [OF assms(2) this] show ?thesis ..
  qed (rule same; (drule kept)?; simp)+
qed

section \<open>Attempts\<close>

lemma attempts_cong:
  assumes "st_executionAttempts s' = st_executionAttempts s"
    "st_executionAttemptByToolCall s' = st_executionAttemptByToolCall s"
  shows "attempts_ok s' = attempts_ok s" "attempts_advance s s'"
  using assms by (simp_all add: attempts_ok_def attempts_advance_def)

lemma step_attempts:
  assumes "store_step E s s'" "attempts_ok s"
  shows "attempts_ok s' \<and> attempts_advance s s'"
proof -
  have same: "st_executionAttempts s' = st_executionAttempts s
      \<Longrightarrow> st_executionAttemptByToolCall s' = st_executionAttemptByToolCall s \<Longrightarrow> ?thesis"
    using assms(2) attempts_cong [of s' s] by blast
  show ?thesis
    using assms(1)
  proof cases
    case attempt_reserved
    then show ?thesis by (rule reserve_ok [OF assms(2)])
  next
    case attempt_transitioned
    then show ?thesis by (rule transition_ok [OF assms(2)])
  next
    case grant_bound
    then show ?thesis by (rule bind_ok [OF assms(2)])
  next
    case attempt_dispatched
    then show ?thesis by (rule dispatch_ok [OF assms(2)])
  next
    case authorization_published
    then show ?thesis by (rule publish_ok [OF assms(2)])
  next
    case outcome_recorded
    then show ?thesis by (rule record_outcome_ok [OF assms(2)])
  qed (rule same; (drule kept)?; simp)+
qed

text \<open>An attempt that names an approval carries what that approval approved.\<close>

definition backed_by :: "attempt \<Rightarrow> approval \<Rightarrow> bool" where
  "backed_by a ap \<longleftrightarrow> ap_status ap = Approval_Approved \<and> ap_toolCallId ap = at_toolCallId a
     \<and> default_ws (ap_workspaceId ap) = at_workspaceId a \<and> ap_approvedInputHash ap = Some (at_inputHash a)"

definition backed :: "store \<Rightarrow> attempt \<Rightarrow> bool" where
  "backed s a = (\<forall>k. ab_approvalId (at_binding a) = Some k \<and> k \<noteq> [] \<longrightarrow>
     (\<exists>ap. jm_get (st_approvals s) k = Some ap \<and> backed_by a ap))"

definition attempts_backed :: "store \<Rightarrow> bool" where
  "attempts_backed s = (\<forall>k a. jm_get (st_executionAttempts s) k = Some a \<longrightarrow> backed s a)"

definition attempts_from :: "store \<Rightarrow> store \<Rightarrow> bool" where
  \<comment> \<open>every attempt of the new store is an advanced old one or backed when it was added\<close>
  "attempts_from s s' = (\<forall>k b. jm_get (st_executionAttempts s') k = Some b \<longrightarrow>
     (\<exists>a. jm_get (st_executionAttempts s) k = Some a \<and> attempt_advances a b) \<or> backed s b)"

lemma attempts_from_same: "st_executionAttempts s' = st_executionAttempts s \<Longrightarrow> attempts_from s s'"
  unfolding attempts_from_def using attempt_advances_refl by metis

lemma attempts_from_put:
  assumes "jm_get (st_executionAttempts s) k = Some a" "attempt_advances a b" "at_id b = k"
    and "st_executionAttempts s' = jm_set (at_id b) b (st_executionAttempts s)"
  shows "attempts_from s s'"
  using assms attempt_advances_refl by (auto simp: attempts_from_def)

lemma attempts_from_add:
  assumes "backed s b" "st_executionAttempts s' = jm_set (at_id b) b (st_executionAttempts s)"
  shows "attempts_from s s'"
  using assms attempt_advances_refl by (auto simp: attempts_from_def)

lemma backed_keeps:
  assumes "backed s a" "keeps_final s s'" "attempt_advances a b"
  shows "backed s' b"
  using assms by (fastforce simp: backed_def backed_by_def keeps_final_def attempt_advances_def)

lemma attempts_backed_from:
  assumes "attempts_backed s" "attempts_from s s'" "keeps_final s s'"
  shows "attempts_backed s'"
  using assms backed_keeps attempt_advances_refl unfolding attempts_backed_def attempts_from_def by metis

lemma reserve_backed:
  assumes "executionAttemptBindingMatches E now r t (st_approvals s) (st_actionReceipts s) z"
  shows "backed s r"
  unfolding backed_def
proof (intro allI impI)
  fix k assume k: "ab_approvalId (at_binding r) = Some k \<and> k \<noteq> []"
  with assms have "attempt_approval_ok E now r (jm_get (st_approvals s) k) z"
    by (simp add: executionAttemptBindingMatches_def Let_def split: if_splits)
  with k show "\<exists>ap. jm_get (st_approvals s) k = Some ap \<and> backed_by r ap"
    by (auto simp: attempt_approval_ok_def Let_def backed_by_def split: option.splits)
qed

lemma publish_backed:
  assumes "publishable E i s ap t" "assertApprovedExternalAuthorizationPublicationCandidate E i = Inr ()"
  shows "backed s (pu_attempt i)"
proof -
  note c = candidate_ok [OF assms(2)]
  have "jm_get (st_approvals s) (pu_approvalId i) = Some ap" "approvedExternalAuthorizationMatchesCurrent E i ap t"
    using assms(1) by (simp_all add: publishable_def Let_def)
  then have "backed_by (pu_attempt i) ap"
    by (auto simp: approvedExternalAuthorizationMatchesCurrent_def Let_def backed_by_def c split: option.splits)
  with \<open>jm_get (st_approvals s) (pu_approvalId i) = Some ap\<close> show ?thesis by (simp add: backed_def c)
qed

lemma step_attempts_from:
  assumes "store_step E s s'" "attempts_ok s"
  shows "attempts_from s s'"
  using assms(1)
proof cases
  case (attempt_reserved now a' az res)
  from attempt_reserved show ?thesis
  proof (cases rule: reserve_cases)
    case (reserved t)
    show ?thesis by (rule attempts_from_add [OF reserve_backed [OF reserved(3)]]) (simp add: reserved(7))
  qed (simp add: attempts_from_same)
next
  case (attempt_transitioned ti res)
  from attempt_transitioned show ?thesis
  proof (cases rule: transition_cases)
    case (moved a)
    have ok: "at_id a = ti_attemptId ti" "attempt_ok a"
      using attempts_okD [OF assms(2) moved(1)] by simp_all
    have "attempt_advances a (transitionedExecutionAttempt a ti)"
      using transitioned_ok [OF ok(2) moved(4,6,7)] by blast
    then show ?thesis
      by (rule attempts_from_put [OF moved(1)])
        (simp_all add: moved(9) put_attempt_def transitionedExecutionAttempt_def ok)
  qed (simp add: attempts_from_same)
next
  case (grant_bound gi res)
  from grant_bound show ?thesis
  proof (cases rule: bind_cases)
    case (bound a)
    let ?b = "a\<lparr>at_grantId := Some (gi_grantId gi), at_updatedAt := gi_updatedAt gi\<rparr>"
    have "attempt_advances a ?b" using bound(2,3) by (simp add: attempt_advances_def isExecutionAttemptTerminal_def)
    then show ?thesis
      by (rule attempts_from_put [OF bound(1)]) (use attempts_okD [OF assms(2) bound(1)] in \<open>simp_all add: bound(4) put_attempt_def\<close>)
  qed (simp add: attempts_from_same)
next
  case (attempt_dispatched di res)
  from attempt_dispatched show ?thesis
  proof (cases rule: dispatch_cases)
    case (dispatched a g)
    have a: "jm_get (st_executionAttempts s) (dp_attemptId di) = Some a" "at_state a = Reserved"
      using dispatched(1) by (simp_all add: dispatchable_def)
    have "attempt_advances a (dispatched_attempt a (dp_dispatchedAt di))"
      using dispatched_ok a attempts_okD [OF assms(2) a(1)] by blast
    then show ?thesis
      by (rule attempts_from_put [OF a(1)])
        (use attempts_okD [OF assms(2) a(1)] in \<open>simp_all add: dispatched(3) put_attempt_def dispatched_attempt_def\<close>)
  qed (simp add: attempts_from_same)
next
  case (authorization_published pu res)
  from authorization_published(1) show ?thesis
  proof (cases rule: publish_cases)
    case (created ap t r)
    show ?thesis
      by (rule attempts_from_add [OF publish_backed [OF created(1,5)]]) (simp add: created(2) published_def)
  qed (simp add: attempts_from_same)
next
  case (outcome_recorded rn res)
  from outcome_recorded show ?thesis
  proof (cases rule: record_outcome_cases)
    case (stored a g r t)
    have a: "jm_get (st_executionAttempts s) (rn_attemptId rn) = Some a" "at_state a = Dispatched"
      "assertKnownExternalExecutionOutcomeRecordingCandidate E rn = Inr ()"
      using stored(1) by (simp_all add: recordable_outcome_def)
    have "attempt_advances a (completed_attempt a (rn_attemptOutcome rn))"
      using completed_ok [OF _ a(2) recording_candidate(1) [OF a(3)]] attempts_okD [OF assms(2) a(1)] by blast
    then show ?thesis
      by (rule attempts_from_put [OF a(1)])
        (use attempts_okD [OF assms(2) a(1)] in \<open>simp_all add: stored(2) recorded_outcome_def completed_attempt_def\<close>)
  qed (simp add: attempts_from_same)
qed (rule attempts_from_same; (drule kept)?; simp)+

section \<open>Grants\<close>

definition grants_keyed :: "store \<Rightarrow> bool" where
  "grants_keyed s = (\<forall>k g. jm_get (st_executionGrants s) k = Some g \<longrightarrow> gr_id g = k)"

definition grant_advances :: "grant \<Rightarrow> grant \<Rightarrow> bool" where
  \<comment> \<open>a grant only ever changes by being consumed, once\<close>
  "grant_advances g h \<longleftrightarrow> h = g \<or> (\<not> truthy (gr_consumedAt g) \<and> h = g\<lparr>gr_consumedAt := gr_consumedAt h\<rparr>)"

definition grants_advance :: "store \<Rightarrow> store \<Rightarrow> bool" where
  "grants_advance s s' = (\<forall>k g. jm_get (st_executionGrants s) k = Some g \<longrightarrow>
     (\<exists>h. jm_get (st_executionGrants s') k = Some h \<and> grant_advances g h))"

lemma grant_advances_refl [simp]: "grant_advances g g"
  by (simp add: grant_advances_def)

lemma grant_advances_trans: "grant_advances g h \<Longrightarrow> grant_advances h i \<Longrightarrow> grant_advances g i"
  by (cases g; cases h; cases i) (auto simp: grant_advances_def)

lemma grants_advance_refl [simp]: "grants_advance s s"
  by (simp add: grants_advance_def)

lemma grants_advance_trans: "grants_advance s t \<Longrightarrow> grants_advance t u \<Longrightarrow> grants_advance s u"
  unfolding grants_advance_def by (meson grant_advances_trans)

lemma grants_same:
  assumes "st_executionGrants s' = st_executionGrants s" "grants_keyed s"
  shows "grants_keyed s' \<and> grants_advance s s'"
  using assms by (simp add: grants_keyed_def grants_advance_def)

lemma grants_new:
  assumes "st_executionGrants s' = jm_set (gr_id g) g (st_executionGrants s)" "grants_keyed s"
    and "jm_get (st_executionGrants s) (gr_id g) = None"
  shows "grants_keyed s' \<and> grants_advance s s'"
  using assms by (simp add: grants_keyed_def grants_advance_def)

lemma grants_put:
  assumes "st_executionGrants s' = jm_set k (g\<lparr>gr_consumedAt := t\<rparr>) (st_executionGrants s)" "grants_keyed s"
    and "jm_get (st_executionGrants s) k = Some g" "\<not> truthy (gr_consumedAt g)"
  shows "grants_keyed s' \<and> grants_advance s s'"
proof -
  have "grant_advances g (g\<lparr>gr_consumedAt := t\<rparr>)" using assms(4) by (simp add: grant_advances_def)
  then show ?thesis
    using assms(1-3) by (auto simp: grants_keyed_def grants_advance_def)
qed

lemma step_grants:
  assumes "store_step E s s'" "grants_keyed s"
  shows "grants_keyed s' \<and> grants_advance s s'"
  using assms(1)
proof cases
  case (grant_created g)
  show ?thesis
    by (rule grants_new [OF _ assms(2), of s' g]) (use grant_created in \<open>simp_all add: createExecutionGrant_def\<close>)
next
  case (grant_consumed k at res)
  from grant_consumed show ?thesis
  proof (cases rule: consume_cases)
    case (consumed g)
    show ?thesis by (rule grants_put [OF _ assms(2) consumed(1,2)]) (simp add: consumed(4))
  qed (use assms(2) in simp)
next
  case (attempt_dispatched di res)
  from attempt_dispatched show ?thesis
  proof (cases rule: dispatch_cases)
    case (dispatched a g)
    have g: "jm_get (st_executionGrants s) (dp_grantId di) = Some g" "\<not> truthy (gr_consumedAt g)"
      using dispatched(1) by (simp_all add: dispatchable_def)
    with assms(2) have "gr_id g = dp_grantId di" by (simp add: grants_keyed_def)
    then show ?thesis
      by (intro grants_put [OF _ assms(2) g]) (simp add: dispatched(3) put_grant_def)
  qed (use assms(2) in simp)
next
  case (authorization_published pu res)
  from authorization_published(1) show ?thesis
  proof (cases rule: publish_cases)
    case (created ap t r)
    show ?thesis
      by (rule grants_new [OF _ assms(2), of s' "pu_grant pu"])
        (use created(1) in \<open>simp_all add: created(2) published_def publishable_def Let_def jm_has_def\<close>)
  qed (use assms(2) in simp)
qed (rule grants_same [OF _ assms(2)]; (drule kept)?; simp)+

section \<open>Content exposures\<close>

definition revision_of :: "store \<Rightarrow> string \<Rightarrow> string \<Rightarrow> nat" where
  "revision_of s w i = (case jm_get (st_contentExposureScopes s) (contentExposureScopeKey w i) of
     None \<Rightarrow> 0 | Some sc \<Rightarrow> sc_revision sc)"

definition revisions_grow :: "store \<Rightarrow> store \<Rightarrow> bool" where
  "revisions_grow s s' = (\<forall>w i. revision_of s w i \<le> revision_of s' w i)"

lemma record_revision:
  assumes "recordContentExposure E r s = (out, s')"
  shows "revision_of s' w i = (if out = Ex_Created \<and> w = ex_workspaceId r \<and> i = ex_influenceScopeId r
     then revision_of s w i + 1 else revision_of s w i)"
  using assms
  by (cases "jm_get (st_contentExposureScopes s) (contentExposureScopeKey (ex_workspaceId r) (ex_influenceScopeId r))")
    (auto simp: recordContentExposure_def revision_of_def empty_scope_def Let_def split: option.splits if_splits)

lemma revisions_same: "st_contentExposureScopes s' = st_contentExposureScopes s \<Longrightarrow> revisions_grow s s'"
  by (simp add: revisions_grow_def revision_of_def)

lemma step_revisions:
  assumes "store_step E s s'"
  shows "revisions_grow s s'"
  using assms
proof cases
  case (exposure_recorded r out)
  from record_revision [OF this] show ?thesis by (simp add: revisions_grow_def)
qed (rule revisions_same; (drule kept)?; simp)+

lemma step_scopes:
  assumes "store_step E s s'" "comparator (localeCompare E)" "scopes_ok E s"
  shows "scopes_ok E s'"
proof -
  have same: "st_contentExposureScopes s' = st_contentExposureScopes s \<Longrightarrow> scopes_ok E s'"
    using assms(3) by (simp add: scopes_ok_def)
  show ?thesis
    using assms(1)
  proof cases
    case (exposure_recorded r out)
    show ?thesis by (rule record_scopes_ok [OF assms(2,3) exposure_recorded])
  qed (rule same; (drule kept)?; simp)+
qed

section \<open>Users and idempotency records\<close>

lemma step_identities:
  assumes "store_step E s s'" "identities_unique s"
  shows "identities_unique s'"
proof -
  have same: "st_approverUsers s' = st_approverUsers s \<Longrightarrow> identities_unique s'"
    using assms(2) unfolding identities_unique_def by (simp only:)
  show ?thesis
    using assms(1)
  proof cases
    case (approver_upserted u res)
    show ?thesis by (rule upsert_identities_unique [OF assms(2) approver_upserted])
  qed (rule same; (drule kept)?; simp)+
qed

definition idempotency_ok :: "store \<Rightarrow> bool" where
  "idempotency_ok s = (\<forall>k i. jm_get (st_idempotency s) k = Some i \<longrightarrow>
     k = idempotencyKey (id_workspaceId i) (id_route i) (id_key i) \<and> jm_get (st_toolCalls s) (id_toolCallId i) \<noteq> None)"

definition entries_stay :: "store \<Rightarrow> store \<Rightarrow> bool" where
  \<comment> \<open>an idempotency record never changes and no tool call disappears\<close>
  "entries_stay s s' \<longleftrightarrow> (\<forall>k i. jm_get (st_idempotency s) k = Some i \<longrightarrow> jm_get (st_idempotency s') k = Some i)
     \<and> (\<forall>k. jm_get (st_toolCalls s) k \<noteq> None \<longrightarrow> jm_get (st_toolCalls s') k \<noteq> None)"

lemma entries_same:
  assumes "st_idempotency s' = st_idempotency s" "idempotency_ok s"
    and "\<forall>k. jm_get (st_toolCalls s) k \<noteq> None \<longrightarrow> jm_get (st_toolCalls s') k \<noteq> None"
  shows "idempotency_ok s' \<and> entries_stay s s'"
  using assms by (auto simp: idempotency_ok_def entries_stay_def)

lemma step_entries:
  assumes "store_step E s s'" "idempotency_ok s"
  shows "idempotency_ok s' \<and> entries_stay s s'"
  using assms(1)
proof cases
  case (tool_call_idempotent i t res)
  then show ?thesis
  proof (cases rule: idempotent_cases)
    case created
    show ?thesis
      unfolding idempotency_ok_def entries_stay_def created(5)
      using assms(2) created(1,2) by (simp add: idempotency_ok_def)
  qed (use assms(2) in \<open>simp add: entries_stay_def\<close>)
next
  case (authorization_published pu res)
  from authorization_published(1) have "st_idempotency s' = st_idempotency s" by (auto dest: kept)
  with authorization_published(1) show ?thesis
    by (intro entries_same [OF _ assms(2)]) (auto elim!: publish_cases simp: published_def)
next
  case (outcome_adopted an res)
  from outcome_adopted have "st_idempotency s' = st_idempotency s" by (auto dest: kept)
  with outcome_adopted show ?thesis
    by (intro entries_same [OF _ assms(2)]) (auto elim!: adopt_cases)
next
  case (outcome_recorded rn res)
  from outcome_recorded have "st_idempotency s' = st_idempotency s" by (auto dest: kept)
  with outcome_recorded show ?thesis
    by (intro entries_same [OF _ assms(2)]) (auto elim!: record_outcome_cases simp: recorded_outcome_def)
next
  case (tool_call_created t)
  then show ?thesis by (intro entries_same [OF _ assms(2)]) (auto simp: createToolCall_def)
next
  case (tool_call_updated t)
  then show ?thesis by (intro entries_same [OF _ assms(2)]) (auto simp: createToolCall_def)
qed (rule entries_same [OF _ assms(2)]; (drule kept)?; simp)+

section \<open>The invariant and the order of the machine\<close>

definition store_good :: "env \<Rightarrow> store \<Rightarrow> bool" where
  "store_good E s \<longleftrightarrow> approvals_ok s \<and> attempts_ok s \<and> attempts_backed s \<and> grants_keyed s \<and> idempotency_ok s
     \<and> identities_unique s \<and> (comparator (localeCompare E) \<longrightarrow> scopes_ok E s)"

definition store_progress :: "store \<Rightarrow> store \<Rightarrow> bool" where
  "store_progress s s' \<longleftrightarrow> attempts_advance s s' \<and> keeps_final s s' \<and> grants_advance s s'
     \<and> revisions_grow s s' \<and> entries_stay s s'"

lemma empty_store_good: "store_good E empty_store"
  by (simp add: store_good_def approvals_ok_def attempts_ok_def attempts_backed_def grants_keyed_def
      idempotency_ok_def identities_unique_def scopes_ok_def empty_store_def jm_values_def)

lemma step_store_good:
  assumes "store_good E s" "store_step E s s'"
  shows "store_good E s'" "store_progress s s'"
proof -
  from assms(1) have g: "approvals_ok s" "attempts_ok s" "attempts_backed s" "grants_keyed s" "idempotency_ok s"
    "identities_unique s" by (simp_all add: store_good_def)
  note steps = step_approvals [OF assms(2) g(1)] step_attempts [OF assms(2) g(2)] step_grants [OF assms(2) g(4)]
    step_entries [OF assms(2) g(5)] step_identities [OF assms(2) g(6)] step_revisions [OF assms(2)]
  have "attempts_backed s'"
    by (rule attempts_backed_from [OF g(3) step_attempts_from [OF assms(2) g(2)]]) (use steps(1) in blast)
  moreover have "comparator (localeCompare E) \<longrightarrow> scopes_ok E s'"
    using assms(1) step_scopes [OF assms(2)] by (simp add: store_good_def)
  ultimately show "store_good E s'" using steps by (simp add: store_good_def)
  show "store_progress s s'" using steps by (simp add: store_progress_def)
qed

lemma store_progress_refl: "store_progress s s"
  by (simp add: store_progress_def revisions_grow_def entries_stay_def)

lemma store_progress_trans: "store_progress s t \<Longrightarrow> store_progress t u \<Longrightarrow> store_progress s u"
  unfolding store_progress_def
  by (intro conjI)
    (blast intro: attempts_advance_trans, simp add: keeps_final_def, blast intro: grants_advance_trans,
     (meson order_trans revisions_grow_def), simp add: entries_stay_def)

interpretation machine: progress_system "store_step E" empty_store "store_good E" store_progress for E
  by unfold_locales
    (rule empty_store_good, erule (1) step_store_good, rule store_progress_refl, erule (1) store_progress_trans,
     erule (1) step_store_good)

end
