(* ===== verification/StoreHistory.thy ===== *)
theory StoreHistory
  imports StoreMachine
begin

text \<open>
  What holds of every history of a store: the properties of the machine of \<open>StoreMachine\<close>, over all
  sequences of operations, and a concrete history (two decisions, a reservation, a grant and a
  dispatch) at which each of them is applied.
\<close>

section \<open>Reserving a built attempt\<close>

definition executable_approval :: "env \<Rightarrow> int \<Rightarrow> approval \<Rightarrow> tool_call \<Rightarrow> string \<Rightarrow> bool" where
  \<comment> \<open>the approval lets the tool call run with the input of this hash\<close>
  "executable_approval E now ap t inputHash \<longleftrightarrow>
     ap_id ap \<noteq> [] \<and> ap_status ap = Approval_Approved \<and> ap_authorizationConsumedReason ap = Some ReasonApproved
     \<and> truthy (ap_authorizationConsumedAt ap)
     \<and> (\<exists>z. ap_authorization ap = Some z \<and> isValidApprovalAuthorization E (encode_authorization z)
          \<and> \<not> approvalAuthorizationExpired E z now)
     \<and> ap_toolCallId ap = tc_id t \<and> default_ws (ap_workspaceId ap) = default_ws (tc_workspaceId t)
     \<and> ap_approvedInputHash ap = Some inputHash
     \<and> same_present (ap_approvedEnvelopeHash ap) (tc_actionEnvelopeHash t)"

definition direct_attempt :: "approval \<Rightarrow> tool_call \<Rightarrow> string \<Rightarrow> build_attempt_input" where
  \<comment> \<open>the input for an execution that has an approval and no receipt yet\<close>
  "direct_attempt ap t now = \<lparr>bt_approval = Some ap, bt_executionMode = LocalMock, bt_id = None,
     bt_inputHash = coalesce (tc_inputHash t) [], bt_now = now, bt_receipt = None, bt_reservationOwner = None,
     bt_toolCall = t\<rparr>"

lemma built_binding:
  assumes "executable_approval E now ap t h" "tc_inputHash t = Some h" "freshId \<noteq> []" "freshOwner \<noteq> []"
    and "jm_get aps (ap_id ap) = Some ap"
  shows "executionAttemptBindingMatches E now (buildExecutionAttempt E freshId freshOwner (direct_attempt ap t at))
    t aps rcs (ap_authorization ap)"
proof -
  let ?r = "buildExecutionAttempt E freshId freshOwner (direct_attempt ap t at)"
  from assms(1) obtain z where z: "ap_authorization ap = Some z" by (auto simp: executable_approval_def)
  note defs = buildExecutionAttempt_def direct_attempt_def Let_def
  have "attempt_shape_ok ?r" using assms(3,4) by (simp add: defs attempt_shape_ok_def EXECUTION_ATTEMPT_VERSION_def)
  moreover have "attempt_request_ok E ?r t"
    by (simp add: defs attempt_request_ok_def executionAttemptGovernanceBindingMatches_def)
  moreover have "ab_approvalId (at_binding ?r) = Some (ap_id ap)" by (simp add: defs)
  moreover have "attempt_approval_ok E now ?r (Some ap) (Some z)"
    using assms(1,2) z by (auto simp: defs attempt_approval_ok_def executable_approval_def default_ws_def)
  moreover have "attempt_receipt_ok ?r t rcs" using assms(2) by (simp add: defs attempt_receipt_ok_def)
  moreover have "ap_id ap \<noteq> []" using assms(1) by (simp add: executable_approval_def)
  ultimately show ?thesis using assms(5) z by (simp add: executionAttemptBindingMatches_def Let_def)
qed

lemma built_reserves:
  assumes "executable_approval E now ap t h" "tc_inputHash t = Some h" "freshId \<noteq> []" "freshOwner \<noteq> []"
    and "jm_get (st_approvals s) (ap_id ap) = Some ap" "jm_get (st_toolCalls s) (tc_id t) = Some t"
    and "getExecutionAttemptByToolCallId s (default_ws (tc_workspaceId t)) (tc_id t) = None"
    and "attempts_ok s" "getExecutionAttempt s freshId = None"
    and "r = buildExecutionAttempt E freshId freshOwner (direct_attempt ap t at)"
  shows "reserveExecutionAttemptAtomically E now r (ap_authorization ap) s
    = (\<lparr>rr_attempt = Some r, rr_outcome = Rs_Reserved\<rparr>,
       s\<lparr>st_executionAttempts := jm_set freshId r (st_executionAttempts s),
         st_executionAttemptByToolCall := jm_set (attempt_key r) freshId (st_executionAttemptByToolCall s)\<rparr>)"
proof -
  note binding = built_binding [OF assms(1-5), of at "st_actionReceipts s", folded assms(10)]
  have fields: "at_toolCallId r = tc_id t" "at_workspaceId r = default_ws (tc_workspaceId t)" "at_id r = freshId"
    by (simp_all add: assms(10) buildExecutionAttempt_def direct_attempt_def default_ws_def Let_def)
  have "attempt_of_call s (default_ws (tc_workspaceId t)) (tc_id t) = None"
    using assms(7) by (simp add: attempt_of_call_def getExecutionAttemptByToolCallId_def)
  from index_none [OF assms(8) this] binding assms(6,9) show ?thesis
    by (simp add: reserveExecutionAttemptAtomically_def fields getExecutionAttempt_def jm_has_def attempt_key_def Let_def)
qed

section \<open>A history\<close>

abbreviation reachable :: "env \<Rightarrow> store \<Rightarrow> bool" where
  "reachable E s \<equiv> (store_step E)\<^sup>*\<^sup>* empty_store s"

abbreviation "steps E \<equiv> (store_step E)\<^sup>*\<^sup>*"

definition once_decided :: approval where
  "once_decided = decided_approval waiting_approval (decide_by ''alice'')"

definition twice_decided :: approval where
  "twice_decided = decided_approval once_decided (decide_by ''bob'')"

definition approved_store :: store where
  "approved_store = put_approval twice_decided (put_approval once_decided waiting_store)"

lemma waiting_reachable: "reachable E waiting_store"
proof -
  have "waiting_store = createApproval waiting_approval (createToolCall sample_tool_call empty_store)"
    by (simp add: waiting_store_def createApproval_def put_approval_def)
  moreover have "store_step E (createToolCall sample_tool_call empty_store)
      (createApproval waiting_approval (createToolCall sample_tool_call empty_store))"
    by (rule approval_created) (simp_all add: empty_store_def waiting_approval_def sample_approval_def decisions_of_def)
  ultimately show ?thesis
    by (metis rtranclp.rtrancl_refl rtranclp.rtrancl_into_rtrancl tool_call_created)
qed

lemma waiting_tool_call: "jm_get (st_toolCalls waiting_store) ''tc_1'' = Some sample_tool_call"
  by (simp add: waiting_store_def put_approval_def createToolCall_def sample_tool_call_def)

lemma once_waits: "waits_for 1 once_decided"
  unfolding once_decided_def by (rule sample_decided_waits [OF waiting_waits])

lemma sample_ids: "ap_id once_decided = ''appr_1''" "ap_id twice_decided = ''appr_1''"
  by (simp_all add: once_decided_def twice_decided_def decided_fields waiting_facts)

lemma once_actors: "\<forall>d \<in> set (decisions_of once_decided). ad_actor d = ''alice''"
proof -
  have "decisions_of waiting_approval = []" by (simp add: decisions_of_def waiting_facts)
  then show ?thesis by (simp add: once_decided_def decided_fields decide_by_def decision_by_def)
qed

lemma second_decision:
  "recordApprovalDecisionAtomically tagging_env 0 (decide_by ''bob'') (put_approval once_decided waiting_store)
    = (approval_result twice_decided Ap_Finalized, approved_store)"
proof -
  have "jm_get (st_approvals (put_approval once_decided waiting_store)) ''appr_1'' = Some once_decided"
    by (simp add: put_approval_def sample_ids)
  moreover have "jm_get (st_toolCalls (put_approval once_decided waiting_store)) ''tc_1'' = Some sample_tool_call"
    by (simp add: waiting_tool_call)
  moreover have "\<forall>d \<in> set (decisions_of once_decided). ad_actor d \<noteq> ''bob''" using once_actors by simp
  ultimately show ?thesis
    using sample_decision [OF once_waits, of "put_approval once_decided waiting_store" "''bob''"]
    by (simp add: twice_decided_def approved_store_def)
qed

lemma approved_reachable: "reachable tagging_env approved_store"
proof -
  have "store_step tagging_env waiting_store (put_approval once_decided waiting_store)"
    using sample_recorded unfolding once_decided_def by (rule approval_decided)
  moreover have "store_step tagging_env (put_approval once_decided waiting_store) approved_store"
    using second_decision by (rule approval_decided)
  ultimately show ?thesis using waiting_reachable by (meson rtranclp.rtrancl_into_rtrancl)
qed

lemma approved_facts:
  "jm_get (st_approvals approved_store) ''appr_1'' = Some twice_decided" "ap_status twice_decided = Approval_Approved"
  "jm_get (st_toolCalls approved_store) ''tc_1'' = Some sample_tool_call"
  "ap_authorization twice_decided = Some sample_authorization" "st_executionAttempts approved_store = []"
  "st_executionAttemptByToolCall approved_store = []" "st_executionGrants approved_store = []"
  "st_contentExposureScopes approved_store = []"
proof -
  show "ap_status twice_decided = Approval_Approved"
    using once_waits decided_fields(5) [of once_decided "decide_by ''bob''"]
    by (simp add: twice_decided_def waits_for_def issued_with_def quorum_def sample_authorization_input_def)
qed (simp_all add: approved_store_def put_approval_def sample_ids waiting_tool_call twice_decided_def once_decided_def
      decided_fields waiting_facts waiting_store_def createToolCall_def empty_store_def sample_tool_call_def jm_get_def)

lemma twice_executable: "executable_approval tagging_env 0 twice_decided sample_tool_call ''#{}''"
proof -
  have "quorum once_decided \<le> int (length (decisions_of once_decided)) + 1"
    using once_waits by (simp add: waits_for_def issued_with_def quorum_def sample_authorization_input_def)
  note final = decided_fields(7) [OF this, of "decide_by ''bob''", folded twice_decided_def]
  have "dn_approvedInputHash (decide_by ''bob'') = ''#{}''" "dn_approvedEnvelopeHash (decide_by ''bob'') = ''envelope''"
    by (simp_all add: decide_by_def)
  note final = final [unfolded this]
  have exp: "\<not> approvalAuthorizationExpired tagging_env sample_authorization 0"
    using built_fields [OF sample_authorization_facts(2)]
    by (simp add: sample_authorization_input_def approvalAuthorizationExpired_def tagging_env_def text_env_def)
  have "truthy (ap_authorizationConsumedAt twice_decided)"
    using \<open>quorum once_decided \<le> _\<close>
    by (simp add: twice_decided_def decided_approval_def quorum_def decisions_of_def Let_def decide_by_def add.commute)
  moreover have "ap_toolCallId twice_decided = ''tc_1''" "ap_workspaceId twice_decided = None"
    by (simp_all add: twice_decided_def once_decided_def decided_approval_def waiting_approval_def sample_approval_def Let_def)
  ultimately show ?thesis
    using final exp sample_authorization_facts(1) approved_facts(2,4)
    by (simp add: executable_approval_def sample_ids sample_tool_call_def same_present_def)
qed

definition sample_attempt :: attempt where
  "sample_attempt = buildExecutionAttempt tagging_env ''exec_1'' ''owner'' (direct_attempt twice_decided sample_tool_call ''t'')"

definition reserved_store :: store where
  "reserved_store = snd (reserveExecutionAttemptAtomically tagging_env 0 sample_attempt (Some sample_authorization) approved_store)"

lemma sample_attempt_fields:
  "at_id sample_attempt = ''exec_1''" "at_toolCallId sample_attempt = ''tc_1''" "at_workspaceId sample_attempt = ''default''"
  "at_reservationOwner sample_attempt = ''owner''" "at_state sample_attempt = Reserved" "at_grantId sample_attempt = None"
  "ab_approvalId (at_binding sample_attempt) = Some ''appr_1''" "at_inputHash sample_attempt = ''#{}''"
  by (simp_all add: sample_attempt_def buildExecutionAttempt_def direct_attempt_def Let_def sample_tool_call_def sample_ids)

lemma sample_reserved:
  "reserveExecutionAttemptAtomically tagging_env 0 sample_attempt (Some sample_authorization) approved_store
    = (\<lparr>rr_attempt = Some sample_attempt, rr_outcome = Rs_Reserved\<rparr>, reserved_store)"
  "st_executionAttempts reserved_store = [(''exec_1'', sample_attempt)]"
  "st_executionGrants reserved_store = []" "st_contentExposureScopes reserved_store = []"
proof -
  have t: "tc_id sample_tool_call = ''tc_1''" "tc_inputHash sample_tool_call = Some ''#{}''"
    by (simp_all add: sample_tool_call_def)
  have res: "reserveExecutionAttemptAtomically tagging_env 0 sample_attempt (Some sample_authorization) approved_store
    = (\<lparr>rr_attempt = Some sample_attempt, rr_outcome = Rs_Reserved\<rparr>,
       approved_store\<lparr>st_executionAttempts := [(''exec_1'', sample_attempt)],
         st_executionAttemptByToolCall := [(attempt_key sample_attempt, ''exec_1'')]\<rparr>)"
    using built_reserves [OF twice_executable t(2), of "''exec_1''" "''owner''" approved_store sample_attempt "''t''"]
    by (simp add: approved_facts sample_ids t sample_attempt_def getExecutionAttemptByToolCallId_def
        getExecutionAttempt_def attempts_ok_def)
  then show "reserveExecutionAttemptAtomically tagging_env 0 sample_attempt (Some sample_authorization) approved_store
    = (\<lparr>rr_attempt = Some sample_attempt, rr_outcome = Rs_Reserved\<rparr>, reserved_store)"
    by (simp add: reserved_store_def)
  show "st_executionAttempts reserved_store = [(''exec_1'', sample_attempt)]"
    "st_executionGrants reserved_store = []" "st_contentExposureScopes reserved_store = []"
    by (simp_all add: reserved_store_def res approved_facts)
qed

lemma reserved_reachable: "reachable tagging_env reserved_store"
  using approved_reachable attempt_reserved [OF sample_reserved(1)] by (rule rtranclp.rtrancl_into_rtrancl)

definition sample_grant :: grant where
  "sample_grant = \<lparr>gr_id = ''grant_1'', gr_workspaceId = ''default'', gr_toolCallId = ''tc_1'',
     gr_toolName = ''mail.send'', gr_inputHash = ''#{}'', gr_approvedEnvelopeHash = None, gr_approvedInputHash = None,
     gr_policyVersionHash = None, gr_receiptHash = None, gr_receiptId = None, gr_actor = ''runner'', gr_auth = None,
     gr_expiresAt = ''later'', gr_nonce = ''n'', gr_signature = ''s'', gr_consumedAt = None, gr_createdAt = ''t''\<rparr>"

definition sample_binding :: grant_binding_input where
  "sample_binding = \<lparr>gi_attemptId = ''exec_1'', gi_grantId = ''grant_1'', gi_reservationOwner = ''owner'',
     gi_updatedAt = ''t'', gi_workspaceId = ''default''\<rparr>"

definition sample_dispatch :: "revision_guard option \<Rightarrow> dispatch_input" where
  "sample_dispatch g = \<lparr>dp_attemptId = ''exec_1'', dp_dispatchedAt = ''t'', dp_grantId = ''grant_1'',
     dp_reservationOwner = ''owner'', dp_toolCallId = ''tc_1'', dp_workspaceId = ''default'',
     dp_contentExposureRevision = g\<rparr>"

definition granted_store :: store where
  "granted_store = snd (bindExecutionAttemptGrantAtomically sample_binding (createExecutionGrant sample_grant reserved_store))"

definition dispatched_store :: store where
  "dispatched_store = snd (consumeExecutionGrantAndDispatchAttemptAtomically (sample_dispatch None) granted_store)"

definition granted_attempt :: attempt where
  "granted_attempt = sample_attempt\<lparr>at_grantId := Some ''grant_1'', at_updatedAt := ''t''\<rparr>"

lemma granted_facts:
  "granted_store = put_attempt granted_attempt (createExecutionGrant sample_grant reserved_store)"
  "jm_get (st_executionAttempts granted_store) ''exec_1'' = Some granted_attempt"
  "jm_get (st_executionGrants granted_store) ''grant_1'' = Some sample_grant"
  "st_contentExposureScopes granted_store = []"
proof -
  show eq: "granted_store = put_attempt granted_attempt (createExecutionGrant sample_grant reserved_store)"
    by (simp add: granted_store_def bindExecutionAttemptGrantAtomically_def sample_binding_def sample_reserved
        sample_attempt_fields granted_attempt_def Let_def jm_get_def)
  show "jm_get (st_executionAttempts granted_store) ''exec_1'' = Some granted_attempt"
    "jm_get (st_executionGrants granted_store) ''grant_1'' = Some sample_grant"
    "st_contentExposureScopes granted_store = []"
    by (simp_all add: eq put_attempt_def granted_attempt_def sample_attempt_fields createExecutionGrant_def
        sample_grant_def sample_reserved jm_get_def)
qed

lemma granted_fields:
  "at_id granted_attempt = ''exec_1''" "at_toolCallId granted_attempt = ''tc_1''"
  "at_workspaceId granted_attempt = ''default''" "at_reservationOwner granted_attempt = ''owner''"
  "at_state granted_attempt = Reserved" "at_grantId granted_attempt = Some ''grant_1''"
  "gr_id sample_grant = ''grant_1''" "gr_workspaceId sample_grant = ''default''" "gr_toolCallId sample_grant = ''tc_1''"
  "gr_consumedAt sample_grant = None"
  by (simp_all add: granted_attempt_def sample_attempt_fields sample_grant_def)

lemma granted_steps: "steps tagging_env reserved_store granted_store"
proof -
  have "store_step tagging_env reserved_store (createExecutionGrant sample_grant reserved_store)"
    by (rule grant_created) (simp_all add: sample_reserved sample_grant_def jm_get_def)
  moreover have "store_step tagging_env (createExecutionGrant sample_grant reserved_store) granted_store"
    unfolding granted_store_def
    by (rule grant_bound [OF surjective_pairing])
  ultimately show ?thesis by (rule converse_rtranclp_into_rtranclp [OF _ r_into_rtranclp])
qed

lemma granted_reachable: "reachable tagging_env granted_store"
  using reserved_reachable granted_steps by (rule rtranclp_trans)

lemma sample_dispatched:
  "consumeExecutionGrantAndDispatchAttemptAtomically (sample_dispatch None) granted_store
    = (\<lparr>dr_attempt = Some (dispatched_attempt granted_attempt ''t''),
        dr_grant = Some (sample_grant\<lparr>gr_consumedAt := Some ''t''\<rparr>), dr_outcome = Dp_Dispatched\<rparr>, dispatched_store)"
proof -
  have d: "dispatchable (sample_dispatch None) granted_store granted_attempt sample_grant"
    by (simp add: dispatchable_def granted_facts(2-4) granted_fields sample_dispatch_def contentExposureRevisionMatches_def)
  then have "fst (consumeExecutionGrantAndDispatchAttemptAtomically (sample_dispatch None) granted_store)
    = \<lparr>dr_attempt = Some (dispatched_attempt granted_attempt ''t''),
        dr_grant = Some (sample_grant\<lparr>gr_consumedAt := Some ''t''\<rparr>), dr_outcome = Dp_Dispatched\<rparr>"
    by (simp add: consumeExecutionGrantAndDispatchAttemptAtomically_def dispatchable_def
        dispatched_attempt_def sample_dispatch_def Let_def)
  then show ?thesis by (simp add: dispatched_store_def prod_eq_iff)
qed

lemma dispatched_reachable: "reachable tagging_env dispatched_store"
  using granted_reachable attempt_dispatched [OF sample_dispatched] by (rule rtranclp.rtrancl_into_rtrancl)

section \<open>Approvals\<close>

lemma independent_distinct: "sorted_wrt independent ds \<Longrightarrow> distinct (map ad_actor ds)"
  by (induction ds) (auto simp: independent_def)

lemma independent_principals:
  "sorted_wrt independent ds \<Longrightarrow> distinct (map (\<lambda>d. au_principalId (the (ad_auth d))) (filter (\<lambda>d. ad_auth d \<noteq> None) ds))"
  by (induction ds) (fastforce simp: independent_def)+

lemma reachable_store_good: "reachable E s \<Longrightarrow> store_good E s"
  by (rule machine.reachable_good)

text \<open>C3: in every reachable store an approved approval carries a full quorum of decisions, by different actors and
  different authenticated principals, all made under the one authorization the approval was issued
  with and all for the same input and the same action envelope, which are the ones it approves.\<close>

theorem approved_means_quorum:
  assumes "reachable E s" and "getApproval s k = Some a" and "ap_status a = Approval_Approved"
  shows "quorum a \<le> int (length (decisions_of a))
    \<and> distinct (map ad_actor (decisions_of a))
    \<and> distinct (map (\<lambda>d. au_principalId (the (ad_auth d))) (filter (\<lambda>d. ad_auth d \<noteq> None) (decisions_of a)))
    \<and> (\<exists>z ih eh. ap_authorization a = Some z \<and> ap_approvedInputHash a = Some ih \<and> ap_approvedEnvelopeHash a = Some eh
        \<and> (\<forall>d \<in> set (decisions_of a). ad_authorizationHash d = Some (az_authorizationHash z)
             \<and> ad_authorizationNonce d = Some (az_nonce z) \<and> ad_reviewHash d = Some (az_reviewHash z)
             \<and> ad_approvedInputHash d = Some ih \<and> ad_approvedEnvelopeHash d = Some eh))"
proof -
  have "approvals_ok s" using reachable_store_good [OF assms(1)] by (simp add: store_good_def)
  then have ok: "approval_ok a" using assms(2) by (simp add: getApproval_def approvals_ok_def)
  then have ne: "decisions_of a \<noteq> []" using assms(3) by (auto simp: approval_ok_def quorum_def)
  with ok obtain z where z: "ap_authorization a = Some z" "\<forall>d \<in> set (decisions_of a). decision_matches d z"
    by (auto simp: approval_ok_def)
  from ok assms(3) obtain ih eh where "ap_approvedInputHash a = Some ih" "ap_approvedEnvelopeHash a = Some eh"
    "agreed (decisions_of a) ih eh" by (auto simp: approval_ok_def)
  with z have "\<exists>z ih eh. ap_authorization a = Some z \<and> ap_approvedInputHash a = Some ih \<and> ap_approvedEnvelopeHash a = Some eh
        \<and> (\<forall>d \<in> set (decisions_of a). ad_authorizationHash d = Some (az_authorizationHash z)
             \<and> ad_authorizationNonce d = Some (az_nonce z) \<and> ad_reviewHash d = Some (az_reviewHash z)
             \<and> ad_approvedInputHash d = Some ih \<and> ad_approvedEnvelopeHash d = Some eh)"
    by (intro exI [of _ z] exI [of _ ih] exI [of _ eh]) (simp add: agreed_def decision_matches_def)
  moreover have "sorted_wrt independent (decisions_of a)" "quorum a \<le> int (length (decisions_of a))"
    using ok assms(3) by (simp_all add: approval_ok_def)
  ultimately show ?thesis using independent_distinct independent_principals by blast
qed

theorem approved_means_quorum_witness:
  "getApproval approved_store ''appr_1'' = Some twice_decided \<and> 2 \<le> length (decisions_of twice_decided)"
proof -
  have a: "getApproval approved_store ''appr_1'' = Some twice_decided" by (simp add: getApproval_def approved_facts)
  have "quorum once_decided = 2"
    using once_waits by (simp add: waits_for_def issued_with_def quorum_def sample_authorization_input_def)
  then have "quorum twice_decided = 2" by (simp add: twice_decided_def decided_fields)
  with approved_means_quorum [OF approved_reachable a approved_facts(2)] a show ?thesis by simp
qed

text \<open>C15: a final approval is final: once it is approved, rejected, cancelled or expired, no sequence of
  operations changes any part of it.\<close>

theorem final_approval_never_changes:
  assumes "reachable E s" and "steps E s s'" and "getApproval s k = Some a" and "ap_status a \<noteq> Approval_Pending"
  shows "getApproval s' k = Some a"
  using machine.reachable_steps_rel [OF assms(1,2)] assms(3,4)
  by (simp add: store_progress_def keeps_final_def getApproval_def)

theorem final_approval_never_changes_witness:
  "getApproval dispatched_store ''appr_1'' = Some twice_decided"
proof -
  have "steps tagging_env approved_store dispatched_store"
    by (rule converse_rtranclp_into_rtranclp [OF attempt_reserved [OF sample_reserved(1)]
          rtranclp.rtrancl_into_rtrancl [OF granted_steps attempt_dispatched [OF sample_dispatched]]])
  with final_approval_never_changes [OF approved_reachable, of dispatched_store "''appr_1''" twice_decided]
  show ?thesis by (simp add: getApproval_def approved_facts)
qed

section \<open>Attempts\<close>

text \<open>C4: no tool call is attempted twice: two execution attempts of a reachable store that are for the same tool
  call of the same workspace are one attempt, and looking the tool call up finds it.\<close>

theorem one_attempt_per_tool_call:
  assumes "reachable E s" and "getExecutionAttempt s k = Some a" and "getExecutionAttempt s l = Some b"
    and "at_workspaceId a = at_workspaceId b" "at_toolCallId a = at_toolCallId b"
  shows "k = l \<and> a = b \<and> at_id a = k
    \<and> getExecutionAttemptByToolCallId s (at_workspaceId a) (at_toolCallId a) = Some a"
proof -
  have "attempts_ok s" using reachable_store_good [OF assms(1)] by (simp add: store_good_def)
  from attempts_okD [OF this, of k a] attempts_okD [OF this, of l b] assms(2-5) show ?thesis
    by (auto simp: getExecutionAttempt_def attempt_key_def getExecutionAttemptByToolCallId_def Let_def)
qed

theorem one_attempt_per_tool_call_witness:
  "getExecutionAttemptByToolCallId granted_store ''default'' ''tc_1'' = Some granted_attempt"
proof -
  have "getExecutionAttempt granted_store ''exec_1'' = Some granted_attempt"
    by (simp add: getExecutionAttempt_def granted_facts(2))
  from one_attempt_per_tool_call [OF granted_reachable this this] show ?thesis by (simp add: granted_fields)
qed

text \<open>C5: an attempt only moves forward: whatever happens after, it is still there, for the same tool call with
  the same input and binding, a recorded dispatch keeps its time and is never taken back to reserved, a bound
  grant stays, and a terminal attempt does not change at all.\<close>

theorem attempt_only_advances:
  assumes "reachable E s" and "steps E s s'" and "getExecutionAttempt s k = Some a"
  shows "\<exists>b. getExecutionAttempt s' k = Some b
    \<and> at_toolCallId b = at_toolCallId a \<and> at_inputHash b = at_inputHash a \<and> at_binding b = at_binding a
    \<and> (at_dispatchedAt a \<noteq> None \<longrightarrow> at_dispatchedAt b = at_dispatchedAt a)
    \<and> (at_state a = Dispatched \<longrightarrow> at_state b \<noteq> Reserved \<and> at_state b \<noteq> FailedBeforeDispatch)
    \<and> (truthy (at_grantId a) \<longrightarrow> at_grantId b = at_grantId a)
    \<and> (isExecutionAttemptTerminal (at_state a) \<longrightarrow> b = a)"
  using machine.reachable_steps_rel [OF assms(1,2)] assms(3)
  unfolding store_progress_def attempts_advance_def attempt_advances_def getExecutionAttempt_def by blast

theorem attempt_only_advances_witness:
  "\<exists>b. getExecutionAttempt dispatched_store ''exec_1'' = Some b \<and> at_binding b = at_binding granted_attempt"
proof -
  have "steps tagging_env granted_store dispatched_store"
    using attempt_dispatched [OF sample_dispatched] by blast
  from attempt_only_advances [OF granted_reachable this, of "''exec_1''" granted_attempt] show ?thesis
    by (auto simp: getExecutionAttempt_def granted_facts(2))
qed

lemma attempt_quorum:
  assumes "reachable E s" and "jm_get (st_executionAttempts s) k = Some a"
    and "ab_approvalId (at_binding a) = Some i" "i \<noteq> []"
  obtains ap where "getApproval s i = Some ap" "ap_status ap = Approval_Approved"
    "ap_toolCallId ap = at_toolCallId a" "default_ws (ap_workspaceId ap) = at_workspaceId a"
    "quorum ap \<le> int (length (decisions_of ap))" "distinct (map ad_actor (decisions_of ap))"
    "\<forall>d \<in> set (decisions_of ap). ad_approvedInputHash d = Some (at_inputHash a)"
proof -
  have good: "attempts_backed s" "approvals_ok s"
    using reachable_store_good [OF assms(1)] by (simp_all add: store_good_def)
  obtain ap where ap: "jm_get (st_approvals s) i = Some ap" "backed_by a ap"
    using good(1) assms(2-4) unfolding attempts_backed_def backed_def by blast
  have "approval_ok ap" using good(2) ap(1) by (simp add: approvals_ok_def)
  with ap show ?thesis
    by (intro that [of ap]) (auto simp: getApproval_def backed_by_def approval_ok_def agreed_def intro: independent_distinct)
qed

text \<open>C2: nothing executes under an approval that was not given: in every reachable store an attempt that names an
  approval has that approval, approved, for the same tool call and workspace, by a full quorum of decisions each
  of which approved exactly the input (by hash) the attempt carries.\<close>

theorem attempt_has_quorum:
  assumes "reachable E s" and "getExecutionAttempt s k = Some a"
    and "ab_approvalId (at_binding a) = Some i" "i \<noteq> []"
  shows "\<exists>ap. getApproval s i = Some ap \<and> ap_status ap = Approval_Approved
    \<and> ap_toolCallId ap = at_toolCallId a \<and> default_ws (ap_workspaceId ap) = at_workspaceId a
    \<and> quorum ap \<le> int (length (decisions_of ap)) \<and> distinct (map ad_actor (decisions_of ap))
    \<and> (\<forall>d \<in> set (decisions_of ap). ad_approvedInputHash d = Some (at_inputHash a))"
proof -
  obtain ap where "getApproval s i = Some ap" "ap_status ap = Approval_Approved"
    "ap_toolCallId ap = at_toolCallId a" "default_ws (ap_workspaceId ap) = at_workspaceId a"
    "quorum ap \<le> int (length (decisions_of ap))" "distinct (map ad_actor (decisions_of ap))"
    "\<forall>d \<in> set (decisions_of ap). ad_approvedInputHash d = Some (at_inputHash a)"
    by (rule attempt_quorum [OF assms(1) assms(2) [unfolded getExecutionAttempt_def] assms(3,4)])
  then show ?thesis by blast
qed

theorem attempt_has_quorum_witness:
  "\<exists>ap. getApproval granted_store ''appr_1'' = Some ap \<and> ap_status ap = Approval_Approved
    \<and> (\<forall>d \<in> set (decisions_of ap). ad_approvedInputHash d = Some ''#{}'')"
proof -
  have a: "getExecutionAttempt granted_store ''exec_1'' = Some granted_attempt"
    "ab_approvalId (at_binding granted_attempt) = Some ''appr_1''" "at_inputHash granted_attempt = ''#{}''"
    by (simp_all add: getExecutionAttempt_def granted_facts(2) granted_attempt_def sample_attempt_fields)
  from attempt_has_quorum [OF granted_reachable a(1,2)] show ?thesis by (auto simp: a(3))
qed

text \<open>An attempt the server builds for a stored tool call and its valid approval, with the approved input, is
  accepted by the store: it is reserved under its id and found under its tool call, unless the tool call has
  an attempt already.\<close>

lemma built_attempt_is_reserved:
  assumes "reachable E s" and "executable_approval E now ap t h" "tc_inputHash t = Some h"
    and "getApproval s (ap_id ap) = Some ap" "getToolCall s (tc_id t) = Some t"
    and "getExecutionAttemptByToolCallId s (default_ws (tc_workspaceId t)) (tc_id t) = None"
    and "freshId \<noteq> []" "freshOwner \<noteq> []" "getExecutionAttempt s freshId = None"
    and "r = buildExecutionAttempt E freshId freshOwner (direct_attempt ap t at)"
    and "reserveExecutionAttemptAtomically E now r (ap_authorization ap) s = (res, s')"
  shows "rr_outcome res = Rs_Reserved \<and> getExecutionAttempt s' freshId = Some r
    \<and> getExecutionAttemptByToolCallId s' (default_ws (tc_workspaceId t)) (tc_id t) = Some r"
proof -
  have "attempts_ok s" using reachable_store_good [OF assms(1)] by (simp add: store_good_def)
  from built_reserves [OF assms(2,3,7,8) assms(4) [unfolded getApproval_def] assms(5) [unfolded getToolCall_def]
      assms(6) this assms(9,10)] assms(7,11)
  show ?thesis
    by (auto simp: getExecutionAttempt_def getExecutionAttemptByToolCallId_def attempt_key_def assms(10)
        buildExecutionAttempt_def direct_attempt_def default_ws_def Let_def)
qed

lemma built_attempt_is_reserved_example:
  "getExecutionAttemptByToolCallId reserved_store ''default'' ''tc_1'' = Some sample_attempt"
proof -
  have t: "tc_id sample_tool_call = ''tc_1''" "tc_inputHash sample_tool_call = Some ''#{}''"
    "default_ws (tc_workspaceId sample_tool_call) = ''default''"
    by (simp_all add: sample_tool_call_def default_ws_def)
  note run = sample_reserved(1) [folded approved_facts(4)]
  from built_attempt_is_reserved [OF approved_reachable twice_executable t(2) _ _ _ _ _ _ sample_attempt_def run]
  show ?thesis
    by (simp add: getApproval_def getToolCall_def approved_facts sample_ids t getExecutionAttemptByToolCallId_def
        getExecutionAttempt_def)
qed

end
