(* ===== verification/StoreExternal.thy ===== *)
theory StoreExternal
  imports StoreHistory
begin

text \<open>
  The properties of the multi-record writes and of the guards that span several operations: publication
  is all or nothing and repeatable, an outcome is recorded once, a grant is used once, a guard on the
  content exposures blocks what was decided before a later exposure, and an idempotency key
  creates one tool call.
\<close>

section \<open>Grants\<close>

lemma consumed_stays:
  assumes "grants_advance s s'" "jm_get (st_executionGrants s) k = Some g" "truthy (gr_consumedAt g)"
  shows "jm_get (st_executionGrants s') k = Some g"
  using assms by (fastforce simp: grants_advance_def grant_advances_def)

lemma dispatched_grant:
  assumes "consumeExecutionGrantAndDispatchAttemptAtomically i s = (res, s')" "dr_outcome res = Dp_Dispatched"
    and "grants_keyed s"
  obtains a g where "dispatchable i s a g"
    "jm_get (st_executionAttempts s') (dp_attemptId i) = Some (dispatched_attempt a (dp_dispatchedAt i))
      \<or> at_id a \<noteq> dp_attemptId i"
    "jm_get (st_executionGrants s') (dp_grantId i) = Some (g\<lparr>gr_consumedAt := Some (dp_dispatchedAt i)\<rparr>)"
  using assms(1)
proof (cases rule: dispatch_cases)
  case (dispatched a g)
  have "gr_id g = dp_grantId i" using dispatched(1) assms(3) by (simp add: dispatchable_def grants_keyed_def)
  then show thesis
    by (intro that [OF dispatched(1)]) (auto simp: dispatched(3) put_attempt_def put_grant_def dispatched_attempt_def)
qed (use assms(2) in simp)

text \<open>C6: a grant is used once: after a dispatch under a grant, in whatever state the store is then, no other
  dispatch under the same grant goes through; it leaves the store as it is.\<close>

theorem grant_used_once:
  assumes "reachable E s" and "consumeExecutionGrantAndDispatchAttemptAtomically i s = (res, t)"
    and "dr_outcome res = Dp_Dispatched" and "dp_dispatchedAt i \<noteq> []" and "steps E t u"
    and "dp_grantId j = dp_grantId i" and "consumeExecutionGrantAndDispatchAttemptAtomically j u = (res', u')"
  shows "dr_outcome res' \<noteq> Dp_Dispatched \<and> u' = u"
proof -
  have "grants_keyed s" using reachable_store_good [OF assms(1)] by (simp add: store_good_def)
  with assms(2,3) obtain a g where g: "jm_get (st_executionGrants t) (dp_grantId i) = Some (g\<lparr>gr_consumedAt := Some (dp_dispatchedAt i)\<rparr>)"
    by (rule dispatched_grant)
  have "reachable E t" using assms(1) attempt_dispatched [OF assms(2)] by (rule rtranclp.rtrancl_into_rtrancl)
  from machine.reachable_steps_rel [OF this assms(5)]
  have "jm_get (st_executionGrants u) (dp_grantId j) = Some (g\<lparr>gr_consumedAt := Some (dp_dispatchedAt i)\<rparr>)"
    using g assms(4,6) by (intro consumed_stays [of t u]) (auto simp: store_progress_def)
  with assms(7) show ?thesis
    by (cases rule: dispatch_cases) (use assms(4) in \<open>auto simp: dispatchable_def\<close>)
qed

theorem grant_used_once_witness:
  "snd (consumeExecutionGrantAndDispatchAttemptAtomically (sample_dispatch None) dispatched_store) = dispatched_store"
proof -
  have "dr_outcome \<lparr>dr_attempt = x, dr_grant = y, dr_outcome = Dp_Dispatched\<rparr> = Dp_Dispatched"
    "dp_dispatchedAt (sample_dispatch None) \<noteq> []" for x y by (simp_all add: sample_dispatch_def)
  from grant_used_once [OF granted_reachable sample_dispatched this rtranclp.rtrancl_refl refl surjective_pairing]
  show ?thesis by blast
qed

section \<open>Content exposures\<close>

lemma revision_matches: "contentExposureRevisionMatches s w (Some g) \<longleftrightarrow> int (revision_of s w (rg_influenceScopeId g)) = rg_revision g"
  by (simp add: contentExposureRevisionMatches_def revision_of_def)

lemma dispatch_guard:
  assumes "consumeExecutionGrantAndDispatchAttemptAtomically i s = (res, s')"
    and "\<not> contentExposureRevisionMatches s (dp_workspaceId i) (dp_contentExposureRevision i)"
  shows "dr_outcome res \<noteq> Dp_Dispatched \<and> s' = s"
  using assms(1) by (cases rule: dispatch_cases) (use assms(2) in \<open>auto simp: dispatchable_def\<close>)

lemma decision_guard:
  assumes "recordApprovalDecisionAtomically E now d s = (r, s')" and "jm_get (st_approvals s) (dn_approvalId d) = Some a"
    and "\<not> contentExposureRevisionMatches s (default_ws (ap_workspaceId a)) (dn_contentExposureRevision d)"
  shows "ar_outcome r \<notin> {Ap_Finalized, Ap_Recorded} \<and> s' = s"
  using assms
  by (auto simp: recordApprovalDecisionAtomically_def approval_result_def split: if_splits)

lemma transition_guard:
  assumes "transitionExecutionAttemptAtomically E i s = (res, s')"
    and "\<not> contentExposureRevisionMatches s (ti_workspaceId i) (ti_contentExposureRevision i)"
  shows "fst res \<noteq> Tr_Transitioned \<and> s' = s"
  using assms(1) by (cases rule: transition_cases) (use assms(2) in auto)

lemma stale_revision:
  assumes "reachable E s" "contentExposureRevisionMatches s w (Some g)" "steps E s t"
    and "recordContentExposure E x t = (Ex_Created, t')" "ex_workspaceId x = w"
    and "ex_influenceScopeId x = rg_influenceScopeId g" "steps E t' u"
  shows "\<not> contentExposureRevisionMatches u w (Some g)"
proof -
  have "store_progress s t" "store_progress t' u"
    using machine.steps_chain [OF assms(1,3) exposure_recorded [OF assms(4)] assms(7)] by blast+
  then have "revision_of s w (rg_influenceScopeId g) \<le> revision_of t w (rg_influenceScopeId g)"
    "revision_of t' w (rg_influenceScopeId g) \<le> revision_of u w (rg_influenceScopeId g)"
    by (simp_all add: store_progress_def revisions_grow_def)
  with record_revision [OF assms(4), of w "rg_influenceScopeId g"] assms(2,5,6) show ?thesis
    by (simp add: revision_matches)
qed

text \<open>C7: a guard read before untrusted content was observed stops everything decided under it: once a new
  exposure of the scope is recorded, a dispatch, a decision or a transition that carries the old revision does
  nothing, however much later it comes.\<close>

theorem stale_guard_blocks:
  assumes "reachable E s" and "contentExposureRevisionMatches s w (Some g)" and "steps E s t"
    and "recordContentExposure E x t = (Ex_Created, t')" "ex_workspaceId x = w"
    and "ex_influenceScopeId x = rg_influenceScopeId g" and "steps E t' u"
  shows "(consumeExecutionGrantAndDispatchAttemptAtomically i u = (dres, u') \<longrightarrow> dp_workspaceId i = w
        \<longrightarrow> dp_contentExposureRevision i = Some g \<longrightarrow> dr_outcome dres \<noteq> Dp_Dispatched \<and> u' = u)
    \<and> (transitionExecutionAttemptAtomically E j u = (tres, u') \<longrightarrow> ti_workspaceId j = w
        \<longrightarrow> ti_contentExposureRevision j = Some g \<longrightarrow> fst tres \<noteq> Tr_Transitioned \<and> u' = u)
    \<and> (recordApprovalDecisionAtomically E now d u = (ares, u') \<longrightarrow> getApproval u (dn_approvalId d) = Some a
        \<longrightarrow> default_ws (ap_workspaceId a) = w \<longrightarrow> dn_contentExposureRevision d = Some g
        \<longrightarrow> ar_outcome ares \<notin> {Ap_Finalized, Ap_Recorded} \<and> u' = u)"
proof -
  note stale = stale_revision [OF assms]
  show ?thesis
    using dispatch_guard [of i u dres u'] transition_guard [of E j u tres u'] decision_guard [of E now d u ares u' a] stale
    by (auto simp: getApproval_def)
qed

definition sample_guard_revision :: revision_guard where
  "sample_guard_revision = \<lparr>rg_influenceScopeId = ''scope'', rg_revision = 0\<rparr>"

theorem stale_guard_blocks_witness:
  "let u = snd (recordContentExposure tagging_env (sample_exposure ''call'' ''1'') granted_store)
   in dr_outcome (fst (consumeExecutionGrantAndDispatchAttemptAtomically (sample_dispatch (Some sample_guard_revision)) u))
        \<noteq> Dp_Dispatched"
proof -
  let ?x = "sample_exposure ''call'' ''1''" and ?g = sample_guard_revision
  have new: "fst (recordContentExposure tagging_env ?x granted_store) = Ex_Created"
    by (simp add: recordContentExposure_def granted_facts(4) empty_scope_def Let_def)
  then have run: "recordContentExposure tagging_env ?x granted_store
      = (Ex_Created, snd (recordContentExposure tagging_env ?x granted_store))"
    by (metis prod.collapse)
  have m: "contentExposureRevisionMatches granted_store ''default'' (Some ?g)"
    by (simp add: contentExposureRevisionMatches_def granted_facts(4) sample_guard_revision_def)
  have f: "ex_workspaceId ?x = ''default''" "ex_influenceScopeId ?x = rg_influenceScopeId ?g"
    "dp_workspaceId (sample_dispatch (Some ?g)) = ''default''"
    "dp_contentExposureRevision (sample_dispatch (Some ?g)) = Some ?g"
    by (simp_all add: sample_exposure_def sample_guard_revision_def sample_dispatch_def)
  from stale_guard_blocks [OF granted_reachable m rtranclp.rtrancl_refl run f(1,2) rtranclp.rtrancl_refl]
  show ?thesis using f(3,4) by (metis prod.collapse)
qed

section \<open>Idempotency keys\<close>

text \<open>An idempotency key creates one tool call: when a request with the same workspace, route and key comes
  again, after anything else has happened, it gets the recorded request and the tool call stored for it, as
  a replay when the request hash is the same and as a conflict otherwise, and the store does not change.\<close>

lemma idempotency_key_creates_once:
  assumes "reachable E s" and "createToolCallIdempotentlyAtomically i t s = (Inr r, s1)"
    and "ir_outcome r = Id_Created" and "steps E s1 s2"
    and "id_workspaceId j = id_workspaceId i" "id_route j = id_route i" "id_key j = id_key i"
    and "id_toolCallId j = tc_id u" "id_workspaceId j = default_ws (tc_workspaceId u)"
  shows "\<exists>v. getToolCall s2 (tc_id t) = Some v
    \<and> createToolCallIdempotentlyAtomically j u s2 = (Inr \<lparr>ir_idempotency = i,
         ir_outcome = (if id_requestHash i = id_requestHash j then Id_Replay else Id_Conflict), ir_toolCall = v\<rparr>, s2)"
proof -
  let ?key = "idempotencyKey (id_workspaceId i) (id_route i) (id_key i)"
  have created: "jm_get (st_idempotency s1) ?key = Some i \<and> id_toolCallId i = tc_id t
      \<and> jm_get (st_toolCalls s1) (tc_id t) = Some t"
    using assms(2)
  proof (cases rule: idempotent_cases)
    case kept
    then show ?thesis using assms(3) by blast
  qed simp
  have "reachable E s1" using assms(1) tool_call_idempotent [OF assms(2)] by (rule rtranclp.rtrancl_into_rtrancl)
  from machine.reachable_steps_rel [OF this assms(4)] have "entries_stay s1 s2" by (simp add: store_progress_def)
  with created have "jm_get (st_idempotency s2) ?key = Some i" "jm_get (st_toolCalls s2) (tc_id t) \<noteq> None"
    by (auto simp: entries_stay_def)
  with created assms(5-9) show ?thesis
    by (auto simp: createToolCallIdempotentlyAtomically_def assertIdempotencyCandidate_def getToolCall_def Let_def)
qed

definition sample_idempotency :: "string \<Rightarrow> idempotency" where
  "sample_idempotency h = \<lparr>id_key = ''key'', id_workspaceId = ''default'', id_route = ''/v1/tool-calls'',
     id_requestHash = h, id_toolCallId = ''tc_1'', id_createdAt = ''t''\<rparr>"

lemma idempotency_key_creates_once_example:
  "fst (createToolCallIdempotentlyAtomically (sample_idempotency ''other'') sample_tool_call
     (snd (createToolCallIdempotentlyAtomically (sample_idempotency ''hash'') sample_tool_call empty_store)))
   = Inr \<lparr>ir_idempotency = sample_idempotency ''hash'', ir_outcome = Id_Conflict, ir_toolCall = sample_tool_call\<rparr>"
proof -
  let ?run = "createToolCallIdempotentlyAtomically (sample_idempotency ''hash'') sample_tool_call empty_store"
  have run: "?run = (Inr \<lparr>ir_idempotency = sample_idempotency ''hash'', ir_outcome = Id_Created,
      ir_toolCall = sample_tool_call\<rparr>, snd ?run)"
    and stored: "getToolCall (snd ?run) ''tc_1'' = Some sample_tool_call"
    by (simp_all add: createToolCallIdempotentlyAtomically_def assertIdempotencyCandidate_def sample_idempotency_def
        sample_tool_call_def default_ws_def empty_store_def Let_def jm_get_def jm_has_def getToolCall_def)
  have "tc_id sample_tool_call = ''tc_1''" "default_ws (tc_workspaceId sample_tool_call) = ''default''"
    by (simp_all add: sample_tool_call_def default_ws_def)
  then show ?thesis
    using idempotency_key_creates_once [OF rtranclp.rtrancl_refl [of "store_step text_env"] run _
        rtranclp.rtrancl_refl, of "sample_idempotency ''other''" sample_tool_call] stored
    by (auto simp: sample_idempotency_def)
qed

end
