(* ===== verification/StoreOutcomeFacts.thy ===== *)
theory StoreOutcomeFacts
  imports StoreExternal
begin

text \<open>
  The properties of the multi-record writes of the store: publishing an approved external authorization and
  recording or adopting the outcome of its execution.
\<close>

section \<open>Publication\<close>

text \<open>C13: publishing an approved external authorization writes the attempt, the grant, the receipt and the tool
  call together or changes nothing. It writes them only for an approved approval of exactly this tool call
  and this input, while the tool call waits; the tool call's attempt is then the published one, and
  publishing the same again is a replay that changes nothing.\<close>

theorem publication_all_or_nothing:
  assumes "publishApprovedExternalAuthorizationAtomically E i s = (res, s')" and "at_id (pu_attempt i) \<noteq> []"
  shows "(s' = s \<and> (\<forall>r. res = Inr r \<longrightarrow> pr_result_outcome r \<noteq> Pb_Created))
    \<or> (\<exists>r ap t. res = Inr r \<and> pr_result_outcome r = Pb_Created
        \<and> getApproval s (pu_approvalId i) = Some ap \<and> ap_status ap = Approval_Approved
        \<and> ap_toolCallId ap = tc_id (pu_toolCall i)
        \<and> ap_approvedInputHash ap = Some (hashJson E (tc_input (pu_toolCall i)))
        \<and> getToolCall s (tc_id (pu_toolCall i)) = Some t \<and> tc_status t = PendingApproval
        \<and> getToolCall s' (tc_id (pu_toolCall i)) = Some (pu_toolCall i) \<and> tc_status (pu_toolCall i) = Authorized
        \<and> getExecutionAttempt s' (at_id (pu_attempt i)) = Some (pu_attempt i)
        \<and> getExecutionAttemptByToolCallId s' (at_workspaceId (pu_attempt i)) (tc_id (pu_toolCall i)) = Some (pu_attempt i)
        \<and> getExecutionGrant s' (gr_id (pu_grant i)) = Some (pu_grant i)
        \<and> getActionReceipt s' (rc_id (pu_receipt i)) = Some (pu_receipt i)
        \<and> (\<exists>r'. publishApprovedExternalAuthorizationAtomically E i s' = (Inr r', s') \<and> pr_result_outcome r' = Pb_Replay))"
  using assms(1)
proof (cases rule: publish_cases)
  case (created ap t r)
  note c = candidate_ok [OF created(5)] and reads = published_reads [OF created(1,5) assms(2)]
  have cur: "jm_get (st_approvals s) (pu_approvalId i) = Some ap" "ap_status ap = Approval_Approved"
    "jm_get (st_toolCalls s) (tc_id (pu_toolCall i)) = Some t" "tc_status t = PendingApproval"
    "approvedExternalAuthorizationMatchesCurrent E i ap t"
    using created(1) by (simp_all add: publishable_def Let_def)
  have "ap_toolCallId ap = tc_id (pu_toolCall i)" "ap_approvedInputHash ap = Some (hashJson E (tc_input (pu_toolCall i)))"
    using cur(5) by (auto simp: approvedExternalAuthorizationMatchesCurrent_def Let_def c split: option.splits)
  moreover have "\<exists>r'. publishApprovedExternalAuthorizationAtomically E i s' = (Inr r', s') \<and> pr_result_outcome r' = Pb_Replay"
    using publish_replay [OF _ created(4) assms(2)] assms(1) created(3) by blast
  moreover have "getExecutionAttempt s' (at_id (pu_attempt i)) = Some (pu_attempt i)"
    "getExecutionGrant s' (gr_id (pu_grant i)) = Some (pu_grant i)"
    "getActionReceipt s' (rc_id (pu_receipt i)) = Some (pu_receipt i)"
    by (simp_all add: created(2) published_def getExecutionAttempt_def getExecutionGrant_def getActionReceipt_def)
  moreover have "getExecutionAttemptByToolCallId s' (at_workspaceId (pu_attempt i)) (tc_id (pu_toolCall i)) = Some (pu_attempt i)"
    using reads(1) by (simp add: getExecutionAttemptByToolCallId_def attempt_of_call_def created(2) c(3))
  moreover have "getToolCall s' (tc_id (pu_toolCall i)) = Some (pu_toolCall i)"
    using reads(4) by (simp add: getToolCall_def created(2))
  ultimately show ?thesis
    using cur(1-4) created(3,4) c(1) by (simp add: getApproval_def getToolCall_def)
qed simp

definition external_tool_call :: tool_call where
  \<comment> \<open>the sample tool call, authorized for an external runner\<close>
  "external_tool_call = sample_tool_call\<lparr>tc_status := Authorized,
     tc_actionEnvelope := JObj [(''executionMode'', JStr ''external_grant''),
       (''preparedAction'', JObj [(''intentId'', JStr ''i''), (''intentHash'', JStr ''h'')])],
     tc_result := JObj [(''externalExecution'', JBool True), (''grant'', JObj [(''id'', JStr ''grant_1'')]),
       (''receipt'', JObj [(''id'', JStr ''receipt_1''), (''receiptHash'', JStr ''r'')])]\<rparr>"

definition external_receipt :: receipt where
  "external_receipt = \<lparr>rc_approvalId = Some ''appr_1'', rc_approvedEnvelopeHash = ''envelope'',
     rc_approvedInputHash = ''#{}'', rc_createdAt = ''t'', rc_decisionActor = ''bob'', rc_decisionAuth = None,
     rc_decisionKind = HumanApproval, rc_executionMode = ExternalGrant, rc_expiresAt = None, rc_id = ''receipt_1'',
     rc_issuedAt = ''t'', rc_keyId = ''k'', rc_operation = JUndef, rc_originalEnvelopeHash = ''envelope'',
     rc_originalInputHash = ''#{}'', rc_outcome = None, rc_policyDecision = None, rc_policyReason = None,
     rc_policyRisk = None, rc_policyVersionHash = Some ''policy'', rc_policyVersionId = None, rc_protocol = ''p'',
     rc_receiptHash = ''r'', rc_reviewHash = Some (az_reviewHash sample_authorization), rc_signature = ''s'',
     rc_signatureAlg = ''a'', rc_source = JUndef, rc_toolCallId = ''tc_1'', rc_toolName = ''mail.send'',
     rc_version = ''v'', rc_workspaceId = ''default''\<rparr>"

definition external_grant :: grant where
  "external_grant = sample_grant\<lparr>gr_approvedEnvelopeHash := Some ''envelope'', gr_approvedInputHash := Some ''#{}'',
     gr_policyVersionHash := Some ''policy'', gr_receiptHash := Some ''r'', gr_receiptId := Some ''receipt_1''\<rparr>"

definition external_attempt :: attempt where
  "external_attempt = (buildExecutionAttempt tagging_env ''exec_1'' ''owner''
     \<lparr>bt_approval = Some twice_decided, bt_executionMode = ExternalGrant, bt_id = None, bt_inputHash = ''#{}'',
      bt_now = ''t'', bt_receipt = Some external_receipt, bt_reservationOwner = None, bt_toolCall = sample_tool_call\<rparr>)
     \<lparr>at_grantId := Some ''grant_1''\<rparr>"

definition sample_publication :: publication_input where
  "sample_publication = \<lparr>pu_approvalId = ''appr_1'', pu_attempt = external_attempt, pu_grant = external_grant,
     pu_receipt = external_receipt, pu_toolCall = external_tool_call\<rparr>"

definition published_store :: store where
  "published_store = published sample_publication approved_store"

lemma external_attempt_fields:
  "at_id external_attempt = ''exec_1''" "at_toolCallId external_attempt = ''tc_1''"
  "at_workspaceId external_attempt = ''default''" "at_reservationOwner external_attempt = ''owner''"
  "at_state external_attempt = Reserved" "at_grantId external_attempt = Some ''grant_1''"
  "at_inputHash external_attempt = ''#{}''" "at_executionMode external_attempt = ExternalGrant"
  "at_executorId external_attempt = ''actionproxy.external-runner''" "at_outcome external_attempt = None"
  "at_dispatchedAt external_attempt = None" "at_completedAt external_attempt = None"
  "at_providerIdempotency external_attempt = ''none''" "at_retryPolicy external_attempt = ''never_automatic''"
  "at_version external_attempt = ''actionproxy.execution-attempt.v1''" "at_attemptNumber external_attempt = 1"
  "at_binding external_attempt = \<lparr>ab_actionEnvelopeHash = Some ''envelope'',
     ab_approvalAuthorizationHash = Some (az_authorizationHash sample_authorization),
     ab_approvalAuthorizationNonce = Some (az_nonce sample_authorization), ab_approvalId = Some ''appr_1'',
     ab_canonicalActionRequestHash = None, ab_canonicalActionRequestVersion = None,
     ab_canonicalDecisionInputHash = None,
     ab_contentInfluenceBindingHash = Some (influence_binding_of tagging_env sample_tool_call),
     ab_decisionId = None, ab_decisionVersion = None, ab_influenceScopeId = Some None,
     ab_policyVersionHash = Some ''policy'', ab_receiptHash = Some ''r'', ab_receiptId = Some ''receipt_1'',
     ab_resultSourceHash = Some (hashJson tagging_env (result_source_json sample_tool_call))\<rparr>"
  by (simp_all add: external_attempt_def buildExecutionAttempt_def Let_def EXECUTION_ATTEMPT_VERSION_def
      approved_facts(4) sample_ids external_receipt_def)
    (simp_all add: sample_tool_call_def decisionIdentity_attempt_def Let_def jget_def isJsonObject_def)

lemma external_fields:
  "tc_id external_tool_call = ''tc_1''" "tc_workspaceId external_tool_call = None" "tc_status external_tool_call = Authorized"
  "tc_toolName external_tool_call = ''mail.send''" "tc_inputHash external_tool_call = Some ''#{}''"
  "tc_input external_tool_call = JObj []" "tc_decision external_tool_call = Some RequireApproval"
  "tc_actionEnvelopeHash external_tool_call = Some ''envelope''" "tc_policyVersionHash external_tool_call = Some ''policy''"
  "tc_canonicalActionRequestHash external_tool_call = None" "tc_canonicalActionRequestVersion external_tool_call = None"
  "tc_canonicalDecisionInputHash external_tool_call = None" "tc_decisionTrace external_tool_call = JUndef"
  "jget (tc_actionEnvelope external_tool_call) ''executionMode'' = JStr ''external_grant''"
  "jget (tc_actionEnvelope external_tool_call) ''preparedAction'' = JObj [(''intentId'', JStr ''i''), (''intentHash'', JStr ''h'')]"
  "jget (tc_result external_tool_call) ''externalExecution'' = JBool True"
  "jget (jget (tc_result external_tool_call) ''grant'') ''id'' = JStr ''grant_1''"
  "jget (jget (tc_result external_tool_call) ''receipt'') ''id'' = JStr ''receipt_1''"
  "jget (jget (tc_result external_tool_call) ''receipt'') ''receiptHash'' = JStr ''r''"
  by (simp_all add: external_tool_call_def sample_tool_call_def jget_def)

lemma external_grant_fields:
  "gr_id external_grant = ''grant_1''" "gr_workspaceId external_grant = ''default''" "gr_toolCallId external_grant = ''tc_1''"
  "gr_toolName external_grant = ''mail.send''" "gr_inputHash external_grant = ''#{}''"
  "gr_approvedEnvelopeHash external_grant = Some ''envelope''" "gr_approvedInputHash external_grant = Some ''#{}''"
  "gr_policyVersionHash external_grant = Some ''policy''" "gr_receiptHash external_grant = Some ''r''"
  "gr_receiptId external_grant = Some ''receipt_1''" "gr_consumedAt external_grant = None"
  by (simp_all add: external_grant_def sample_grant_def)

lemma external_receipt_fields:
  "rc_approvalId external_receipt = Some ''appr_1''" "rc_approvedEnvelopeHash external_receipt = ''envelope''"
  "rc_approvedInputHash external_receipt = ''#{}''" "rc_decisionKind external_receipt = HumanApproval"
  "rc_executionMode external_receipt = ExternalGrant" "rc_id external_receipt = ''receipt_1''"
  "rc_originalEnvelopeHash external_receipt = ''envelope''" "rc_originalInputHash external_receipt = ''#{}''"
  "rc_outcome external_receipt = None" "rc_policyVersionHash external_receipt = Some ''policy''"
  "rc_receiptHash external_receipt = ''r''" "rc_reviewHash external_receipt = Some (az_reviewHash sample_authorization)"
  "rc_toolCallId external_receipt = ''tc_1''" "rc_toolName external_receipt = ''mail.send''"
  "rc_workspaceId external_receipt = ''default''"
  by (simp_all add: external_receipt_def)

lemma empty_hash: "hashJson tagging_env (JObj []) = ''#{}''"
  by (simp add: hashJson_def tagging_env_def)

lemma sample_candidate: "assertApprovedExternalAuthorizationPublicationCandidate tagging_env sample_publication = Inr ()"
proof -
  have "publication_mismatches tagging_env sample_publication = []"
    unfolding publication_mismatches_def Let_def mismatch_labels_Nil sample_publication_def
    by (simp add: external_fields external_grant_fields external_receipt_fields external_attempt_fields empty_hash
        default_ws_def)
  then show ?thesis by (simp add: assertApprovedExternalAuthorizationPublicationCandidate_def)
qed

lemma sample_semantics:
  "toolCallImmutablePublicationSemantics sample_tool_call = toolCallImmutablePublicationSemantics external_tool_call"
  by (simp add: toolCallImmutablePublicationSemantics_def tool_call_members_def without_def external_tool_call_def)

lemma twice_fields:
  "ap_authorizationConsumedReason twice_decided = Some ReasonApproved" "ap_authorizationConsumedAt twice_decided \<noteq> None"
  "ap_toolCallId twice_decided = ''tc_1''" "ap_workspaceId twice_decided = None"
  "ap_approvedInputHash twice_decided = Some ''#{}''" "ap_approvedEnvelopeHash twice_decided = Some ''envelope''"
  "ap_originalInputHash twice_decided = Some ''#{}''" "ap_originalEnvelopeHash twice_decided = Some ''envelope''"
  "ap_reviewHash twice_decided = Some (az_reviewHash sample_authorization)"
proof -
  show "ap_authorizationConsumedReason twice_decided = Some ReasonApproved" "ap_authorizationConsumedAt twice_decided \<noteq> None"
    "ap_approvedInputHash twice_decided = Some ''#{}''" "ap_toolCallId twice_decided = ''tc_1''"
    using twice_executable by (auto simp: executable_approval_def sample_tool_call_def dest: truthyD)
  show "ap_approvedEnvelopeHash twice_decided = Some ''envelope''"
    using twice_executable by (simp add: executable_approval_def sample_tool_call_def same_present_def)
  show "ap_workspaceId twice_decided = None" "ap_originalInputHash twice_decided = Some ''#{}''"
    "ap_originalEnvelopeHash twice_decided = Some ''envelope''"
    "ap_reviewHash twice_decided = Some (az_reviewHash sample_authorization)"
    by (simp_all add: twice_decided_def once_decided_def decided_approval_def waiting_approval_def sample_approval_def
        decide_by_def Let_def)
qed

lemma approved_store_receipts: "st_actionReceipts approved_store = []"
  by (simp add: approved_store_def put_approval_def waiting_store_def createToolCall_def empty_store_def)

lemma sample_publishable: "publishable tagging_env sample_publication approved_store twice_decided sample_tool_call"
proof -
  have t: "tc_id sample_tool_call = ''tc_1''" "tc_workspaceId sample_tool_call = None" "tc_status sample_tool_call = PendingApproval"
    "tc_toolName sample_tool_call = ''mail.send''" "tc_decision sample_tool_call = Some RequireApproval"
    "tc_policyVersionHash sample_tool_call = Some ''policy''" by (simp_all add: sample_tool_call_def)
  have "approvedExternalAuthorizationMatchesCurrent tagging_env sample_publication twice_decided sample_tool_call"
    unfolding approvedExternalAuthorizationMatchesCurrent_def Let_def sample_publication_def
    by (simp add: external_fields external_receipt_fields external_attempt_fields twice_fields approved_facts t
        sample_ids sample_semantics sameHash_def default_ws_def jget_def jstring_def)
  then show ?thesis
    by (simp add: publishable_def sample_publication_def external_fields default_ws_def approved_facts t
        attempt_of_call_def receipt_of_call_def grant_of_call_def jm_values_def jm_has_def
        approved_store_receipts)
qed

lemma sample_published:
  "publishApprovedExternalAuthorizationAtomically tagging_env sample_publication approved_store
    = (Inr \<lparr>pr_result_approval = Some twice_decided, pr_result_attempt = Some external_attempt,
         pr_result_grant = Some external_grant, pr_result_outcome = Pb_Created,
         pr_result_receipt = Some external_receipt, pr_result_toolCall = Some external_tool_call\<rparr>, published_store)"
proof -
  have f: "pu_approvalId sample_publication = ''appr_1''" "pu_attempt sample_publication = external_attempt"
    "pu_grant sample_publication = external_grant" "pu_receipt sample_publication = external_receipt"
    "pu_toolCall sample_publication = external_tool_call" by (simp_all add: sample_publication_def)
  show ?thesis
    using sample_publishable unfolding publishable_def publish_unfold sample_candidate Let_def
    by (simp add: f published_store_def)
qed

theorem publication_all_or_nothing_witness:
  "getExecutionAttemptByToolCallId published_store ''default'' ''tc_1'' = Some external_attempt
    \<and> getActionReceipt published_store ''receipt_1'' = Some external_receipt"
proof -
  have f: "pu_attempt sample_publication = external_attempt" "pu_receipt sample_publication = external_receipt"
    "pu_toolCall sample_publication = external_tool_call" by (simp_all add: sample_publication_def)
  from publication_all_or_nothing [OF sample_published] show ?thesis
    by (auto simp: f external_attempt_fields external_receipt_fields external_fields)
qed

section \<open>Recording an outcome\<close>

lemma recorded_once:
  assumes "reachable E s" and "recordKnownExternalExecutionOutcomeAtomically E i s = (Inr r, t)"
    and "or_outcome r = Ow_Recorded"
  obtains a g rc tc where "recordable_outcome E i s a g rc tc" "t = recorded_outcome i a rc s" "at_id a = rn_attemptId i"
    "getExecutionAttempt t (rn_attemptId i) = Some (completed_attempt a (rn_attemptOutcome i))"
  using assms(2)
proof (cases rule: record_outcome_cases)
  case (stored a g rc tc)
  have "attempts_ok s" using reachable_store_good [OF assms(1)] by (simp add: store_good_def)
  moreover have "jm_get (st_executionAttempts s) (rn_attemptId i) = Some a"
    using stored(1) by (simp add: recordable_outcome_def)
  ultimately have "at_id a = rn_attemptId i" by (auto dest: attempts_okD)
  with stored show thesis by (intro that) (simp_all add: getExecutionAttempt_def recorded_outcome_def)
qed (use assms(3) in blast)

text \<open>C14: the outcome of an external execution is recorded once and only on a dispatched attempt whose grant was
  consumed: recording it completes the attempt with that outcome, ends the tool call as executed or failed
  accordingly and puts the outcome on the receipt; a later recording for the same attempt, whatever it
  reports and whatever happened in between, changes nothing.\<close>

theorem outcome_recorded_once:
  assumes "reachable E s" and "recordKnownExternalExecutionOutcomeAtomically E i s = (Inr r, t)"
    and "or_outcome r = Ow_Recorded" and "steps E t u" and "rn_attemptId j = rn_attemptId i"
    and "recordKnownExternalExecutionOutcomeAtomically E j u = (res, u')"
  shows "u' = u \<and> (\<exists>a g k. getExecutionAttempt s (rn_attemptId i) = Some a \<and> at_state a = Dispatched
    \<and> at_grantId a = Some k \<and> getExecutionGrant s k = Some g \<and> gr_consumedAt g \<noteq> None
    \<and> getExecutionAttempt u (rn_attemptId i) = Some (completed_attempt a (rn_attemptOutcome i))
    \<and> isExecutionAttemptTerminal (at_state (completed_attempt a (rn_attemptOutcome i)))
    \<and> getToolCall t (tc_id (rn_toolCall i)) = Some (rn_toolCall i)
    \<and> tc_status (rn_toolCall i) = (if ao_status (rn_attemptOutcome i) = Succeeded then Executed else Failed)
    \<and> (\<exists>rc. ab_receiptId (at_binding a) = Some (rc_id rc)
         \<and> getActionReceipt t (rc_id rc) = Some rc \<and> rc_outcome rc = Some (rn_receiptOutcome i)))"
proof -
  obtain a g rc tc where rec: "recordable_outcome E i s a g rc tc" and t: "t = recorded_outcome i a rc s"
    and completed: "getExecutionAttempt t (rn_attemptId i) = Some (completed_attempt a (rn_attemptOutcome i))"
    using assms(1-3) by (rule recorded_once)
  have match: "knownExternalOutcomeRecordingBindingsMatch E i a g rc tc" "at_state a = Dispatched"
    and cand: "assertKnownExternalExecutionOutcomeRecordingCandidate E i = Inr ()"
    using rec by (simp_all add: recordable_outcome_def knownExternalOutcomeRecordingMatchesCurrent_def)
  have ended: "isExecutionAttemptTerminal (at_state (completed_attempt a (rn_attemptOutcome i)))"
    using recording_candidate(1) [OF cand] by (auto simp: completed_attempt_def)
  have "reachable E t" using assms(1) outcome_recorded [OF assms(2)] by (rule rtranclp.rtrancl_into_rtrancl)
  from machine.reachable_steps_rel [OF this assms(4)] have "attempts_advance t u" by (simp add: store_progress_def)
  with completed ended have kept: "getExecutionAttempt u (rn_attemptId i) = Some (completed_attempt a (rn_attemptOutcome i))"
    unfolding attempts_advance_def attempt_advances_def getExecutionAttempt_def by blast
  have "u' = u"
    using assms(6)
  proof (cases rule: record_outcome_cases)
    case (stored b h rc' tc')
    with kept assms(5) ended show ?thesis
      by (simp add: recordable_outcome_def getExecutionAttempt_def)
  qed simp
  moreover have "\<exists>k. at_grantId a = Some k \<and> getExecutionGrant s k = Some g" "gr_consumedAt g \<noteq> None"
    using rec match(1) by (auto simp: recordable_outcome_def getExecutionGrant_def
        knownExternalOutcomeRecordingBindingsMatch_def Let_def)
  moreover have "ab_receiptId (at_binding a) = Some (rc_id rc)"
    using match(1) by (simp add: knownExternalOutcomeRecordingBindingsMatch_def Let_def)
  then have "\<exists>rc. ab_receiptId (at_binding a) = Some (rc_id rc)
         \<and> getActionReceipt t (rc_id rc) = Some rc \<and> rc_outcome rc = Some (rn_receiptOutcome i)"
    by (intro exI [of _ "rc\<lparr>rc_outcome := Some (rn_receiptOutcome i)\<rparr>"])
      (simp add: t recorded_outcome_def getActionReceipt_def)
  moreover have "getToolCall t (tc_id (rn_toolCall i)) = Some (rn_toolCall i)"
    by (simp add: t recorded_outcome_def getToolCall_def)
  ultimately show ?thesis
    using kept ended match(2) recording_candidate(3) [OF cand] rec
    by (auto simp: recordable_outcome_def getExecutionAttempt_def)
qed

definition executed_store :: store where
  "executed_store = put_attempt (dispatched_attempt external_attempt ''t'')
     (put_grant (external_grant\<lparr>gr_consumedAt := Some ''t''\<rparr>) published_store)"

definition failed_tool_call :: tool_call where
  "failed_tool_call = external_tool_call\<lparr>tc_status := Failed, tc_error := Some ''refused''\<rparr>"

definition sample_recording :: recording_input where
  "sample_recording = \<lparr>rn_attemptId = ''exec_1'',
     rn_attemptOutcome = executionAttemptOutcome tagging_env FailedAfterDispatch
       \<lparr>oi_errorClass = None, oi_errorCode = None, oi_errorMessage = Some ''refused'', oi_remediation = JUndef,
        oi_recordedAt = ''t'', oi_result = JUndef, oi_resultDelivery = JUndef\<rparr>,
     rn_receiptOutcome = \<lparr>ro_auth = None, ro_error = Some ''refused'', ro_recordedAt = ''t'', ro_recordedBy = ''runner'',
       ro_remediation = JUndef, ro_result = JUndef, ro_resultDelivery = JUndef, ro_status = Outcome_Failed\<rparr>,
     rn_reservationOwner = ''owner'', rn_toolCall = failed_tool_call, rn_workspaceId = ''default''\<rparr>"

lemma published_facts:
  "jm_get (st_executionAttempts published_store) ''exec_1'' = Some external_attempt"
  "jm_get (st_executionGrants published_store) ''grant_1'' = Some external_grant"
  "jm_get (st_actionReceipts published_store) ''receipt_1'' = Some external_receipt"
  "jm_get (st_toolCalls published_store) ''tc_1'' = Some external_tool_call"
  by (simp_all add: published_store_def published_def sample_publication_def external_fields external_grant_fields
      external_receipt_fields external_attempt_fields)

lemma executed_run:
  "snd (consumeExecutionGrantAndDispatchAttemptAtomically (sample_dispatch None) published_store) = executed_store"
  by (simp add: consumeExecutionGrantAndDispatchAttemptAtomically_def sample_dispatch_def published_facts
      external_attempt_fields external_grant_fields contentExposureRevisionMatches_def Let_def executed_store_def
      put_attempt_def put_grant_def dispatched_attempt_def)

lemma executed_reachable: "reachable tagging_env executed_store"
proof -
  have "at_id (pu_attempt sample_publication) \<noteq> []" by (simp add: sample_publication_def external_attempt_fields)
  with authorization_published [OF sample_published] have "reachable tagging_env published_store"
    using approved_reachable by (meson rtranclp.rtrancl_into_rtrancl)
  moreover have "store_step tagging_env published_store executed_store"
    unfolding executed_run [symmetric] by (rule attempt_dispatched [OF surjective_pairing])
  ultimately show ?thesis by (rule rtranclp.rtrancl_into_rtrancl)
qed

lemma sample_semantics_after:
  "toolCallImmutableOutcomeSemantics external_tool_call = toolCallImmutableOutcomeSemantics failed_tool_call"
  by (simp add: toolCallImmutableOutcomeSemantics_def tool_call_members_def without_def failed_tool_call_def)

lemma failed_fields:
  "tc_id failed_tool_call = ''tc_1''" "tc_workspaceId failed_tool_call = None" "tc_status failed_tool_call = Failed"
  "tc_error failed_tool_call = Some ''refused''" "tc_toolName failed_tool_call = ''mail.send''"
  "tc_inputHash failed_tool_call = Some ''#{}''" "tc_input failed_tool_call = JObj []"
  "tc_actionEnvelope failed_tool_call = tc_actionEnvelope external_tool_call"
  "tc_updatedAt failed_tool_call = ''t''" "tc_resultDelivery failed_tool_call = JUndef"
  by (simp_all add: failed_tool_call_def external_fields) (simp_all add: external_tool_call_def sample_tool_call_def)

lemma prepared_ids:
  "jget (jget (tc_actionEnvelope external_tool_call) ''preparedAction'') ''intentId'' = JStr ''i''"
  "jget (jget (tc_actionEnvelope external_tool_call) ''preparedAction'') ''intentHash'' = JStr ''h''"
  by (simp_all add: external_fields)

lemma sample_outcome_candidate:
  "assertKnownExternalExecutionOutcomeRecordingCandidate tagging_env sample_recording = Inr ()"
  unfolding assertKnownExternalExecutionOutcomeRecordingCandidate_def Let_def mismatch_labels_Nil sample_recording_def
  by (simp add: executionAttemptOutcome_def failed_fields empty_hash prepared_ids default_ws_def hashOptional_def
      jtruthy_def sameHash_def null_coalesce_def Let_def mismatch_labels_def)

lemma sample_outcome_recorded:
  "\<exists>r. fst (recordKnownExternalExecutionOutcomeAtomically tagging_env sample_recording executed_store) = Inr r
     \<and> or_outcome r = Ow_Recorded"
proof -
  let ?a = "dispatched_attempt external_attempt ''t''" and ?g = "external_grant\<lparr>gr_consumedAt := Some ''t''\<rparr>"
  have a: "at_id ?a = ''exec_1''" "at_toolCallId ?a = ''tc_1''" "at_workspaceId ?a = ''default''"
    "at_reservationOwner ?a = ''owner''" "at_state ?a = Dispatched" "at_grantId ?a = Some ''grant_1''"
    "at_inputHash ?a = ''#{}''" "at_executionMode ?a = ExternalGrant" "at_outcome ?a = None"
    "at_executorId ?a = ''actionproxy.external-runner''" "at_providerIdempotency ?a = ''none''"
    "at_retryPolicy ?a = ''never_automatic''" "at_binding ?a = at_binding external_attempt"
    by (simp_all add: dispatched_attempt_def external_attempt_fields)
  have f: "rn_attemptId sample_recording = ''exec_1''" "rn_workspaceId sample_recording = ''default''"
    "rn_reservationOwner sample_recording = ''owner''" "rn_toolCall sample_recording = failed_tool_call"
    "ao_status (rn_attemptOutcome sample_recording) = FailedAfterDispatch"
    by (simp_all add: sample_recording_def executionAttemptOutcome_def)
  have get: "jm_get (st_executionAttempts executed_store) ''exec_1'' = Some ?a"
    "jm_get (st_executionGrants executed_store) ''grant_1'' = Some ?g"
    "jm_get (st_actionReceipts executed_store) ''receipt_1'' = Some external_receipt"
    "jm_get (st_toolCalls executed_store) ''tc_1'' = Some external_tool_call"
    by (simp_all add: executed_store_def put_attempt_def put_grant_def published_facts a external_grant_fields)
  have t: "tc_toolName external_tool_call = ''mail.send''" by (rule external_fields)
  have "knownExternalOutcomeRecordingBindingsMatch tagging_env sample_recording ?a ?g external_receipt external_tool_call"
    unfolding knownExternalOutcomeRecordingBindingsMatch_def Let_def
    by (simp add: a f external_attempt_fields external_grant_fields external_receipt_fields external_fields failed_fields
        default_ws_def same_present_def sameHash_def sample_semantics_after)
  then show ?thesis
    by (simp add: recordKnownExternalExecutionOutcomeAtomically_def sample_outcome_candidate f get a
        external_attempt_fields external_receipt_fields external_fields Let_def
        sameRecordedKnownExternalOutcomeProjection_def knownExternalOutcomeRecordingMatchesCurrent_def)
qed

theorem outcome_recorded_once_witness:
  "getToolCall (snd (recordKnownExternalExecutionOutcomeAtomically tagging_env sample_recording executed_store)) ''tc_1''
     = Some failed_tool_call"
proof -
  let ?run = "recordKnownExternalExecutionOutcomeAtomically tagging_env sample_recording executed_store"
  obtain r where r: "fst ?run = Inr r" "or_outcome r = Ow_Recorded" using sample_outcome_recorded by blast
  then have "?run = (Inr r, snd ?run)" by (metis prod.collapse)
  from outcome_recorded_once [OF executed_reachable this r(2) rtranclp.rtrancl_refl refl surjective_pairing]
  show ?thesis by (auto simp: sample_recording_def failed_fields)
qed

end
