(* ===== verification/AuditChain.thy ===== *)
theory AuditChain
  imports StoreState
begin

text \<open>
  The audit log: \<open>JsonlAuditStore\<close> (\<open>storage/jsonl-audit-store.ts\<close>), an append-only file of one JSON text per
  line, and \<open>ChainedAuditStore\<close> with its verifier (\<open>security/audit-chain.ts\<close>), which links each event to the
  hash of the one before it. Appends are queued one after the other, so an append is one step.
\<close>

section \<open>Events\<close>

record audit_event =
  ev_id :: string
  ev_type :: string
  ev_workspaceId :: "string option"
  ev_toolCallId :: "string option"
  ev_approvalId :: "string option"
  ev_actor :: "string option"
  ev_auth :: "auth_context option"
  ev_inputHash :: "string option"
  ev_policyVersionId :: "string option"
  ev_policyVersionHash :: "string option"
  ev_previousEventHash :: "string option"
  ev_eventHash :: "string option"
  ev_timestamp :: string
  ev_data :: json

fun json_reparse :: "json \<Rightarrow> json" where
  \<comment> \<open>\<open>JSON.parse(JSON.stringify(value))\<close>\<close>
  "json_reparse (JArr vs) = JArr (map (\<lambda>v. if v = JUndef then JNull else json_reparse v) vs)"
| "json_reparse (JObj kvs) = JObj (map (\<lambda>p. (fst p, json_reparse (snd p))) (filter (\<lambda>p. snd p \<noteq> JUndef) kvs))"
| "json_reparse (JNum n) = (if num_isFinite n then JNum n else JNull)"
| "json_reparse v = v"

definition audit_row :: "audit_event \<Rightarrow> audit_event" where
  \<comment> \<open>the event that is read back from its line; the other members are strings or absent\<close>
  "audit_row e = e\<lparr>ev_data := json_reparse (ev_data e)\<rparr>"

section \<open>The file\<close>

record audit_log =
  al_rows :: "audit_event list"
  al_eventIds :: "string list"

datatype list_limit = LimitAll | LimitNumber jsnum

record audit_filters =
  af_from :: "string option"
  af_to :: "string option"
  af_toolCallId :: "string option"
  af_workspaceId :: "string option"

definition no_filters :: audit_filters where
  "no_filters = \<lparr>af_from = None, af_to = None, af_toolCallId = None, af_workspaceId = None\<rparr>"

definition openAuditLog :: "audit_event list \<Rightarrow> audit_log" where
  \<comment> \<open>the constructor on an existing file\<close>
  "openAuditLog rows = \<lparr>al_rows = rows, al_eventIds = filter (\<lambda>i. i \<noteq> []) (map ev_id rows)\<rparr>"

definition appendAuditEvent :: "audit_event \<Rightarrow> audit_log \<Rightarrow> audit_log" where
  "appendAuditEvent e l =
     (if ev_id e \<in> set (al_eventIds l) then l
      else \<lparr>al_rows = al_rows l @ [audit_row e], al_eventIds = ev_id e # al_eventIds l\<rparr>)"

definition auditEventInRange :: "audit_event \<Rightarrow> audit_filters \<Rightarrow> bool" where
  "auditEventInRange e f =
     (\<not> (truthy (af_from f) \<and> ev_timestamp e < the (af_from f))
      \<and> \<not> (truthy (af_to f) \<and> the (af_to f) < ev_timestamp e)
      \<and> \<not> (truthy (af_toolCallId f) \<and> ev_toolCallId e \<noteq> af_toolCallId f)
      \<and> \<not> (truthy (af_workspaceId f) \<and> ev_workspaceId e \<noteq> af_workspaceId f))"

definition safeLimit :: "list_limit \<Rightarrow> nat option" where
  "safeLimit limit =
     (case limit of
        LimitAll \<Rightarrow> None
      | LimitNumber n \<Rightarrow> Some (if num_isFinite n then nat (max 1 (num_trunc n)) else 100))"

definition listAuditEvents :: "list_limit \<Rightarrow> audit_filters \<Rightarrow> audit_log \<Rightarrow> audit_event list" where
  \<comment> \<open>newest first\<close>
  "listAuditEvents limit f l =
     (let events = filter (\<lambda>e. auditEventInRange e f) (al_rows l)
      in rev (case safeLimit limit of None \<Rightarrow> events | Some n \<Rightarrow> drop (length events - n) events))"

section \<open>The chain\<close>

fun stripUndefined :: "json \<Rightarrow> json" where
  "stripUndefined (JArr vs) = JArr (map stripUndefined vs)"
| "stripUndefined (JObj kvs) =
     JObj (map (\<lambda>p. (fst p, stripUndefined (snd p))) (filter (\<lambda>p. snd p \<noteq> JUndef) kvs))"
| "stripUndefined v = v"

definition audit_hash_input :: "audit_event \<Rightarrow> (string \<times> json) list" where
  "audit_hash_input e =
     [(''actor'', jopt JStr (ev_actor e)), (''approvalId'', jopt JStr (ev_approvalId e)),
      (''auth'', jopt encode_auth (ev_auth e)), (''data'', ev_data e), (''id'', JStr (ev_id e)),
      (''inputHash'', jopt JStr (ev_inputHash e)),
      (''policyVersionHash'', jopt JStr (ev_policyVersionHash e)),
      (''policyVersionId'', jopt JStr (ev_policyVersionId e)),
      (''previousEventHash'', jopt JStr (ev_previousEventHash e)),
      (''timestamp'', JStr (ev_timestamp e)), (''toolCallId'', jopt JStr (ev_toolCallId e)),
      (''type'', JStr (ev_type e)), (''workspaceId'', jopt JStr (ev_workspaceId e))]"

definition auditEventHash :: "env \<Rightarrow> audit_event \<Rightarrow> string" where
  "auditEventHash E e = sha256Hex E (stableStringify E (stripUndefined (JObj (audit_hash_input e))))"

definition nextAuditTimestamp :: "env \<Rightarrow> string \<Rightarrow> string option \<Rightarrow> string" where
  "nextAuditTimestamp E candidate previous =
     (if \<not> truthy previous then candidate
      else (case dateParse E (the previous) of
              None \<Rightarrow> candidate
            | Some p \<Rightarrow>
                (case dateParse E candidate of
                   Some c \<Rightarrow> if p < c then candidate else isoString E (p + 1)
                 | None \<Rightarrow> isoString E (p + 1))))"

definition appendChained :: "env \<Rightarrow> audit_event \<Rightarrow> audit_log \<Rightarrow> audit_log" where
  "appendChained E event l =
     (let newest = listAuditEvents (LimitNumber (Dec 1 0)) no_filters l;
          previous = (if newest = [] then None else Some (hd newest));
          chained = event\<lparr>ev_previousEventHash := Option.bind previous ev_eventHash,
            ev_timestamp := nextAuditTimestamp E (ev_timestamp event) (map_option ev_timestamp previous)\<rparr>
      in appendAuditEvent (chained\<lparr>ev_eventHash := Some (auditEventHash E chained)\<rparr>) l)"

section \<open>Verification\<close>

datatype audit_reason = PreviousEventHashMismatch | MissingEventHash | EventHashMismatch

record audit_error =
  ae_eventId :: string
  ae_index :: nat
  ae_reason :: audit_reason

record audit_verification =
  av_checked :: nat
  av_firstEventHash :: "string option"
  av_lastEventHash :: "string option"
  av_valid :: bool
  av_errors :: "audit_error list"

definition event_errors :: "env \<Rightarrow> string option \<Rightarrow> nat \<Rightarrow> audit_event \<Rightarrow> audit_error list" where
  \<comment> \<open>the body of the loop\<close>
  "event_errors E previousEventHash i e =
     (if ev_previousEventHash e \<noteq> previousEventHash
      then [\<lparr>ae_eventId = ev_id e, ae_index = i, ae_reason = PreviousEventHashMismatch\<rparr>] else [])
     @ (if \<not> truthy (ev_eventHash e)
        then [\<lparr>ae_eventId = ev_id e, ae_index = i, ae_reason = MissingEventHash\<rparr>]
        else if ev_eventHash e \<noteq> Some (auditEventHash E (e\<lparr>ev_eventHash := None\<rparr>))
        then [\<lparr>ae_eventId = ev_id e, ae_index = i, ae_reason = EventHashMismatch\<rparr>] else [])"

fun chain_errors :: "env \<Rightarrow> string option \<Rightarrow> nat \<Rightarrow> audit_event list \<Rightarrow> audit_error list" where
  "chain_errors E previousEventHash i [] = []"
| "chain_errors E previousEventHash i (e # es) =
     event_errors E previousEventHash i e @ chain_errors E (ev_eventHash e) (i + 1) es"

definition verifyAuditEvents :: "env \<Rightarrow> audit_event list \<Rightarrow> audit_verification" where
  "verifyAuditEvents E events =
     (let errors = chain_errors E None 0 events
      in \<lparr>av_checked = length events,
          av_firstEventHash = (if events = [] then None else ev_eventHash (hd events)),
          av_lastEventHash = (if events = [] then None else ev_eventHash (last events)),
          av_valid = (errors = []), av_errors = errors\<rparr>)"

definition verifyAuditStore :: "env \<Rightarrow> list_limit \<Rightarrow> audit_log \<Rightarrow> audit_verification" where
  "verifyAuditStore E limit l = verifyAuditEvents E (rev (listAuditEvents limit no_filters l))"

end
