(* ===== verification/Capabilities.thy ===== *)
theory Capabilities
  imports HashFacts
begin

text \<open>
  Capabilities that live in the memory of one process and can be spent once: the contract they share, and
  the authority of \<open>contracts/native-execution-authorization.ts\<close>. A capability is the identity of
  an object, a number here; the weak collections keyed by it are maps that never give a number out twice.
\<close>

section \<open>The contract\<close>

text \<open>
  An authority issues tokens and lets a token be consumed against an expected binding at some time. \<open>spent\<close> and
  \<open>usable\<close> are what its state says of a token, \<open>admits\<close> relates the call that issued a token to the calls that may
  consume it. Whatever the sequence of calls, a token is consumed successfully at most once, and only by a call
  that its issue admits.
\<close>

datatype ('t, 'b, 'c) authority_call = IssueToken 'b 'c | ConsumeToken 't 'b 'c

definition run_call :: "('b \<Rightarrow> 'c \<Rightarrow> 's \<Rightarrow> ('e + 't) \<times> 's) \<Rightarrow> ('t \<Rightarrow> 'b \<Rightarrow> 'c \<Rightarrow> 's \<Rightarrow> ('e + 'p) \<times> 's)
    \<Rightarrow> ('t, 'b, 'c) authority_call \<Rightarrow> 's \<Rightarrow> 's" where
  "run_call issue consume call s =
     (case call of IssueToken b c \<Rightarrow> snd (issue b c s) | ConsumeToken t b c \<Rightarrow> snd (consume t b c s))"

fun run_calls :: "('b \<Rightarrow> 'c \<Rightarrow> 's \<Rightarrow> ('e + 't) \<times> 's) \<Rightarrow> ('t \<Rightarrow> 'b \<Rightarrow> 'c \<Rightarrow> 's \<Rightarrow> ('e + 'p) \<times> 's)
    \<Rightarrow> ('t, 'b, 'c) authority_call list \<Rightarrow> 's \<Rightarrow> 's" where
  "run_calls issue consume [] s = s"
| "run_calls issue consume (call # calls) s = run_calls issue consume calls (run_call issue consume call s)"

fun accepted :: "('b \<Rightarrow> 'c \<Rightarrow> 's \<Rightarrow> ('e + 't) \<times> 's) \<Rightarrow> ('t \<Rightarrow> 'b \<Rightarrow> 'c \<Rightarrow> 's \<Rightarrow> ('e + 'p) \<times> 's)
    \<Rightarrow> ('t \<Rightarrow> bool) \<Rightarrow> ('t, 'b, 'c) authority_call list \<Rightarrow> 's \<Rightarrow> nat" where
  \<comment> \<open>how many calls consumed a token of this kind\<close>
  "accepted issue consume kind [] s = 0"
| "accepted issue consume kind (call # calls) s =
     (case call of
        ConsumeToken t b c \<Rightarrow>
          (if kind t then (case fst (consume t b c s) of Inl _ \<Rightarrow> 0 | Inr _ \<Rightarrow> 1) else 0)
      | _ \<Rightarrow> 0) + accepted issue consume kind calls (run_call issue consume call s)"

locale single_use_authority =
  fixes issue :: "'b \<Rightarrow> 'c \<Rightarrow> 's \<Rightarrow> ('e + 't) \<times> 's"
    and consume :: "'t \<Rightarrow> 'b \<Rightarrow> 'c \<Rightarrow> 's \<Rightarrow> ('e + 'p) \<times> 's"
    and token_of :: "'t \<Rightarrow> nat"
    and good :: "'s \<Rightarrow> bool"
    and spent :: "'s \<Rightarrow> nat \<Rightarrow> bool"
    and usable :: "'s \<Rightarrow> nat \<Rightarrow> 'b \<Rightarrow> 'c \<Rightarrow> bool"
    and admits :: "'b \<Rightarrow> 'c \<Rightarrow> 'b \<Rightarrow> 'c \<Rightarrow> bool"
  assumes consume_spends: "fst (consume t b c s) = Inr p \<Longrightarrow>
      \<not> spent s (token_of t) \<and> spent (snd (consume t b c s)) (token_of t) \<and> usable s (token_of t) b c"
    and consume_refused: "fst (consume t b c s) = Inl e \<Longrightarrow> snd (consume t b c s) = s"
    and spent_stays: "spent s n \<Longrightarrow> spent (snd (consume t b c s)) n"
    and spent_stays_issue: "good s \<Longrightarrow> spent s n \<Longrightarrow> spent (snd (issue b c s)) n"
    and good_stays: "good s \<Longrightarrow> good (snd (consume t b c s))"
    and good_stays_issue: "good s \<Longrightarrow> good (snd (issue b c s))"
    and usable_origin: "usable (snd (consume t b c s)) n b' c' \<Longrightarrow> usable s n b' c'"
    and usable_origin_issue: "good s \<Longrightarrow> usable (snd (issue b c s)) n b' c' \<Longrightarrow> usable s n b' c'
      \<or> admits b c b' c' \<and> (\<exists>t. fst (issue b c s) = Inr t \<and> token_of t = n)"
begin

abbreviation step where
  "step \<equiv> run_call issue consume"

abbreviation run where
  "run \<equiv> run_calls issue consume"

abbreviation uses where
  "uses n \<equiv> accepted issue consume (\<lambda>t. token_of t = n)"

lemma step_good: "good s \<Longrightarrow> good (step call s)"
  by (cases call) (simp_all add: run_call_def good_stays good_stays_issue)

lemma run_good: "good s \<Longrightarrow> good (run calls s)"
  by (induction calls arbitrary: s) (simp_all add: step_good)

lemma step_spent: "good s \<Longrightarrow> spent s n \<Longrightarrow> spent (step call s) n"
  by (cases call) (simp_all add: run_call_def spent_stays spent_stays_issue)

lemma spent_never_accepted: "good s \<Longrightarrow> spent s n \<Longrightarrow> uses n calls s = 0"
proof (induction calls arbitrary: s)
  case (Cons call calls)
  have "case call of ConsumeToken t b c \<Rightarrow> token_of t = n \<longrightarrow> (\<exists>e. fst (consume t b c s) = Inl e) | _ \<Rightarrow> True"
    using consume_spends Cons.prems by (cases call) (auto, metis sum.exhaust)
  with Cons.IH [OF step_good [OF Cons.prems(1)] step_spent [OF Cons.prems]] show ?case by (cases call) auto
qed simp

lemma accepted_at_most_once: "good s \<Longrightarrow> uses n calls s \<le> 1"
proof (induction calls arbitrary: s)
  case (Cons call calls)
  show ?case
  proof (cases "\<exists>t b c p. call = ConsumeToken t b c \<and> token_of t = n \<and> fst (consume t b c s) = Inr p")
    case True
    then obtain t b c p where call: "call = ConsumeToken t b c" "token_of t = n" "fst (consume t b c s) = Inr p" by blast
    then have "spent (step call s) n" using consume_spends [OF call(3)] by (simp add: run_call_def)
    then have "uses n calls (step call s) = 0" using step_good [OF Cons.prems] by (intro spent_never_accepted)
    with call show ?thesis by simp
  next
    case False
    then have "(case call of
        ConsumeToken t b c \<Rightarrow>
          (if token_of t = n then (case fst (consume t b c s) of Inl _ \<Rightarrow> 0 | Inr _ \<Rightarrow> 1) else 0)
      | _ \<Rightarrow> 0) = (0::nat)"
      by (auto split: authority_call.split sum.split)
    with Cons.IH [OF step_good [OF Cons.prems]] show ?thesis by simp
  qed
qed simp

lemma usable_issued:
  assumes "good s" "usable (run calls s) n b' c'"
  shows "usable s n b' c' \<or> (\<exists>pre b c post t. calls = pre @ IssueToken b c # post \<and> admits b c b' c'
      \<and> fst (issue b c (run pre s)) = Inr t \<and> token_of t = n)"
  using assms
proof (induction calls arbitrary: s)
  case (Cons call calls)
  have "good (step call s)" using Cons.prems(1) by (rule step_good)
  with Cons consider "usable (step call s) n b' c'"
    | pre b c post t where "calls = pre @ IssueToken b c # post" "admits b c b' c'"
        "fst (issue b c (run pre (step call s))) = Inr t" "token_of t = n"
    by auto blast
  then show ?case
  proof cases
    case 1
    show ?thesis
    proof (cases call)
      case (IssueToken b c)
      with 1 have "usable (snd (issue b c s)) n b' c'" by (simp add: run_call_def)
      then consider "usable s n b' c'" | t where "admits b c b' c'" "fst (issue b c s) = Inr t" "token_of t = n"
        using usable_origin_issue [OF Cons.prems(1)] by blast
      then show ?thesis
      proof cases
        case 2
        with IssueToken have "call # calls = [] @ IssueToken b c # calls \<and> admits b c b' c'
            \<and> fst (issue b c (run [] s)) = Inr t \<and> token_of t = n" by simp
        then show ?thesis by blast
      qed simp
    next
      case (ConsumeToken t b c)
      with 1 show ?thesis using usable_origin by (simp add: run_call_def)
    qed
  next
    case 2
    then have "call # calls = (call # pre) @ IssueToken b c # post \<and> admits b c b' c'
        \<and> fst (issue b c (run (call # pre) s)) = Inr t \<and> token_of t = n" by simp
    then show ?thesis by blast
  qed
qed simp

lemma accepted_was_issued:
  assumes "fst (consume t b' c' (run calls s)) = Inr p" and "good s" "\<And>n. \<not> usable s n b' c'"
  shows "\<exists>pre b c post t'. calls = pre @ IssueToken b c # post \<and> admits b c b' c'
    \<and> fst (issue b c (run pre s)) = Inr t' \<and> token_of t' = token_of t"
  using usable_issued [OF assms(2), of calls "token_of t" b' c'] consume_spends [OF assms(1)] assms(3) by blast

end

section \<open>Native execution authorizations\<close>

datatype authorization_phase = DispatchPhase | OutcomePhase

definition phase_name :: "authorization_phase \<Rightarrow> string" where
  "phase_name p = (case p of DispatchPhase \<Rightarrow> ''dispatch'' | OutcomePhase \<Rightarrow> ''outcome'')"

record native_binding =
  nb_attemptId :: string
  nb_grantId :: string
  nb_intentHash :: string
  nb_phase :: authorization_phase
  nb_toolCallId :: string
  nb_workspaceId :: string

definition encode_native_binding :: "native_binding \<Rightarrow> json" where
  "encode_native_binding b = JObj
     [(''attemptId'', JStr (nb_attemptId b)), (''grantId'', JStr (nb_grantId b)),
      (''intentHash'', JStr (nb_intentHash b)), (''phase'', JStr (phase_name (nb_phase b))),
      (''toolCallId'', JStr (nb_toolCallId b)), (''version'', JStr ''actionproxy.native-execution-binding.v1''),
      (''workspaceId'', JStr (nb_workspaceId b))]"

definition NATIVE_AUTHORIZATION_VERSION :: string where
  "NATIVE_AUTHORIZATION_VERSION = ''actionproxy.native-execution-authorization.v1''"

record native_authorization =
  na_bindingHash :: string
  na_capability :: "nat option" \<comment> \<open>\<open>None\<close>: not an object\<close>
  na_version :: string

datatype native_error = InvalidCapability | AlreadyConsumed | BindingMismatch

record native_authority =
  nt_next :: nat \<comment> \<open>the next object to be created\<close>
  nt_active :: "(nat, string) jsmap"
  nt_consumed :: "nat list"

definition createNativeExecutionAuthorizationAuthority :: native_authority where
  "createNativeExecutionAuthorizationAuthority = \<lparr>nt_next = 0, nt_active = [], nt_consumed = []\<rparr>"

definition issueNative :: "env \<Rightarrow> native_binding \<Rightarrow> native_authority \<Rightarrow> native_authorization \<times> native_authority" where
  "issueNative E binding s =
     (let capability = nt_next s;
          bindingHash = hashJson E (encode_native_binding binding)
      in (\<lparr>na_bindingHash = bindingHash, na_capability = Some capability, na_version = NATIVE_AUTHORIZATION_VERSION\<rparr>,
          s\<lparr>nt_next := capability + 1, nt_active := jm_set capability bindingHash (nt_active s)\<rparr>))"

definition consumeNative ::
  "env \<Rightarrow> native_authorization \<Rightarrow> native_binding \<Rightarrow> native_authority \<Rightarrow> (native_error + string) \<times> native_authority" where
  \<comment> \<open>the projection is the binding hash; its version is constant\<close>
  "consumeNative E authorization binding s =
     (case na_capability authorization of
        None \<Rightarrow> (Inl InvalidCapability, s)
      | Some capability \<Rightarrow>
          if na_version authorization \<noteq> NATIVE_AUTHORIZATION_VERSION then (Inl InvalidCapability, s)
          else if capability \<in> set (nt_consumed s) then (Inl AlreadyConsumed, s)
          else
            let expected = hashJson E (encode_native_binding binding)
            in if na_bindingHash authorization \<noteq> expected \<or> jm_get (nt_active s) capability \<noteq> Some expected
               then (Inl BindingMismatch, s)
               else (Inr expected, s\<lparr>nt_active := jm_delete capability (nt_active s),
                                     nt_consumed := capability # nt_consumed s\<rparr>))"

definition native_token :: "native_authorization \<Rightarrow> nat" where
  "native_token a = (case na_capability a of None \<Rightarrow> 0 | Some n \<Rightarrow> n)"

abbreviation native_issue :: "env \<Rightarrow> native_binding \<Rightarrow> unit \<Rightarrow> native_authority
    \<Rightarrow> (native_error + native_authorization) \<times> native_authority" where
  "native_issue E \<equiv> \<lambda>b c s. map_prod Inr id (issueNative E b s)"

abbreviation native_consume :: "env \<Rightarrow> native_authorization \<Rightarrow> native_binding \<Rightarrow> unit \<Rightarrow> native_authority
    \<Rightarrow> (native_error + string) \<times> native_authority" where
  "native_consume E \<equiv> \<lambda>t b c s. consumeNative E t b s"

interpretation native: single_use_authority "native_issue E" "native_consume E"
  native_token "\<lambda>s. True" "\<lambda>s n. n \<in> set (nt_consumed s)"
  "\<lambda>s n b c. jm_get (nt_active s) n = Some (hashJson E (encode_native_binding b))"
  "\<lambda>b c b' c'. hashJson E (encode_native_binding b) = hashJson E (encode_native_binding b')"
  for E
  by unfold_locales
    (auto simp: consumeNative_def issueNative_def native_token_def Let_def split: option.splits if_splits)

section \<open>Properties\<close>

lemma phase_name_inj [simp]: "phase_name p = phase_name q \<longleftrightarrow> p = q"
  by (cases p; cases q) (simp_all add: phase_name_def)

lemma native_binding_plain: "plain (encode_native_binding b)" "distinct_keys (encode_native_binding b)"
  by (simp_all add: encode_native_binding_def)

lemma native_binding_inj: "canon (encode_native_binding b) = canon (encode_native_binding b') \<Longrightarrow> b = b'"
  by (rule native_binding.equality) (simp_all add: encode_native_binding_def canon_obj_iff)


lemma native_hash_inj:
  assumes "hashJson E (encode_native_binding b) = hashJson E (encode_native_binding b')"
    and "inj_on (sha256Hex E) T"
    and "stableStringify E (encode_native_binding b) \<in> T" "stableStringify E (encode_native_binding b') \<in> T"
  shows "b = b'"
proof -
  have "stableStringify E (encode_native_binding b) = stableStringify E (encode_native_binding b')"
    using assms by (simp add: hashJson_def inj_on_eq_iff)
  then show ?thesis
    using native_binding_plain by (intro native_binding_inj stable_equal_canon)
qed

definition issued_texts :: "env \<Rightarrow> (native_authorization, native_binding, unit) authority_call list \<Rightarrow> string set" where
  "issued_texts E calls = {stableStringify E (encode_native_binding b) | b. IssueToken b () \<in> set calls}"

text \<open>A native execution authorization is good for one use: whatever sequence of calls an authority sees, at most one
  of them consumes a given capability; and a capability is only consumed for the very binding it was issued
  for (attempt, grant, intent, phase, tool call and workspace), up to a digest collision.\<close>

lemma native_authorization_single_use:
  assumes "fst (consumeNative E a b (run_calls (native_issue E) (native_consume E) calls
             createNativeExecutionAuthorizationAuthority)) = Inr h"
    and "inj_on (sha256Hex E) (insert (stableStringify E (encode_native_binding b)) (issued_texts E calls))"
  shows "accepted (native_issue E) (native_consume E) (\<lambda>t. native_token t = n) (calls @ later)
           createNativeExecutionAuthorizationAuthority \<le> 1
    \<and> (\<exists>pre post. calls = pre @ IssueToken b () # post
         \<and> na_capability (fst (issueNative E b (run_calls (native_issue E) (native_consume E) pre
              createNativeExecutionAuthorizationAuthority))) = na_capability a)"
proof
  let ?s = "createNativeExecutionAuthorizationAuthority"
  show "accepted (native_issue E) (native_consume E) (\<lambda>t. native_token t = n) (calls @ later) ?s \<le> 1"
    by (rule native.accepted_at_most_once) simp
  have "\<And>n. jm_get (nt_active ?s) n \<noteq> Some (hashJson E (encode_native_binding b))" by (simp add: createNativeExecutionAuthorizationAuthority_def)
  then obtain pre b' post t where t: "calls = pre @ IssueToken b' () # post"
      "hashJson E (encode_native_binding b') = hashJson E (encode_native_binding b)"
      "fst (native_issue E b' () (run_calls (native_issue E) (native_consume E) pre ?s)) = Inr t"
      "native_token t = native_token a"
    using native.accepted_was_issued [OF assms(1) TrueI] by fastforce
  have "stableStringify E (encode_native_binding b') \<in> issued_texts E calls"
    unfolding issued_texts_def using t(1) by auto
  then have "b' = b" by (intro native_hash_inj [OF t(2) assms(2)]) auto
  moreover have "na_capability a \<noteq> None" using assms(1) by (auto simp: consumeNative_def split: option.splits)
  moreover have "na_capability t \<noteq> None" using t(3) by (auto simp: issueNative_def Let_def)
  ultimately show "\<exists>pre post. calls = pre @ IssueToken b () # post
      \<and> na_capability (fst (issueNative E b (run_calls (native_issue E) (native_consume E) pre ?s))) = na_capability a"
    using t by (intro exI [of _ pre] exI [of _ post]) (auto simp: native_token_def)
qed

definition sample_native_binding :: native_binding where
  "sample_native_binding = \<lparr>nb_attemptId = ''a'', nb_grantId = ''g'', nb_intentHash = ''i'', nb_phase = DispatchPhase,
     nb_toolCallId = ''t'', nb_workspaceId = ''w''\<rparr>"

lemma native_authorization_single_use_example:
  "accepted (native_issue text_env) (native_consume text_env) (\<lambda>t. native_token t = 0)
     ([IssueToken sample_native_binding ()] @ [ConsumeToken
        (fst (issueNative text_env sample_native_binding createNativeExecutionAuthorizationAuthority)) sample_native_binding ()])
     createNativeExecutionAuthorizationAuthority \<le> 1"
  by (rule conjunct1, rule native_authorization_single_use
      [where a = "fst (issueNative text_env sample_native_binding createNativeExecutionAuthorizationAuthority)"
        and b = sample_native_binding and h = "hashJson text_env (encode_native_binding sample_native_binding)"])
    (simp_all add: issueNative_def consumeNative_def run_call_def createNativeExecutionAuthorizationAuthority_def
      Let_def jm_get_def text_env_def inj_on_def del: stableStringify.simps)

end
