(* ===== verification/ExecutionAuth.thy ===== *)
theory ExecutionAuth
  imports StoreState Capabilities
begin

text \<open>
  \<open>contracts/execution-authorization.ts\<close>: what an execution is authorized for (\<open>ExecutionAuthorizationBindingV1\<close>, built
  from the tool call, its attempt and its approval after checking that they agree) and the process-local
  authority that issues an authorization for a binding and lets it be consumed once, before it expires.
\<close>

section \<open>The binding\<close>

record exec_binding =
  \<comment> \<open>the groups of \<open>ExecutionAuthorizationBindingV1\<close> flattened; \<open>None\<close> is null\<close>
  eb_actionEnvelopeHash :: string
  eb_inputHash :: string
  eb_toolName :: string
  eb_approvalId :: "string option"
  eb_authorizationHash :: "string option"
  eb_authorizationNonce :: "string option"
  eb_receiptHash :: "string option"
  eb_receiptId :: "string option"
  eb_contentBindingHash :: "string option"
  eb_influenceScopeId :: "string option"
  eb_resultSourceHash :: string
  eb_decisionId :: "string option"
  eb_decisionInputHash :: "string option"
  eb_outcome :: policy_decision
  eb_decisionVersion :: "string option"
  eb_attemptId :: string
  eb_attemptNumber :: int
  eb_grantId :: "string option"
  eb_mode :: execution_mode
  eb_executorId :: string
  eb_digest :: "string option"
  eb_evaluatorVersion :: "string option"
  eb_providerId :: "string option"
  eb_providerVersion :: "string option"
  eb_policyVersion :: "string option"
  eb_versionHash :: string
  eb_canonicalActionRequestHash :: "string option"
  eb_canonicalActionRequestVersion :: "string option"
  eb_toolCallId :: string
  eb_workspaceId :: string

definition encode_exec_binding :: "exec_binding \<Rightarrow> json" where
  "encode_exec_binding b = JObj
     [(''action'', JObj [(''actionEnvelopeHash'', JStr (eb_actionEnvelopeHash b)),
        (''inputHash'', JStr (eb_inputHash b)), (''toolName'', JStr (eb_toolName b))]),
      (''approval'', JObj [(''approvalId'', jnullable (eb_approvalId b)),
        (''authorizationHash'', jnullable (eb_authorizationHash b)),
        (''authorizationNonce'', jnullable (eb_authorizationNonce b)),
        (''receiptHash'', jnullable (eb_receiptHash b)), (''receiptId'', jnullable (eb_receiptId b))]),
      (''contentInfluence'', JObj [(''bindingHash'', jnullable (eb_contentBindingHash b)),
        (''influenceScopeId'', jnullable (eb_influenceScopeId b)),
        (''resultSourceHash'', JStr (eb_resultSourceHash b))]),
      (''decision'', JObj [(''decisionId'', jnullable (eb_decisionId b)),
        (''decisionInputHash'', jnullable (eb_decisionInputHash b)),
        (''outcome'', JStr (decision_name (eb_outcome b))), (''version'', jnullable (eb_decisionVersion b))]),
      (''execution'', JObj [(''attemptId'', JStr (eb_attemptId b)), (''attemptNumber'', jint (eb_attemptNumber b)),
        (''grantId'', jnullable (eb_grantId b)), (''mode'', JStr (execution_mode_name (eb_mode b)))]),
      (''executor'', JObj [(''id'', JStr (eb_executorId b))]),
      (''policy'', JObj [(''digest'', jnullable (eb_digest b)),
        (''evaluatorVersion'', jnullable (eb_evaluatorVersion b)), (''providerId'', jnullable (eb_providerId b)),
        (''providerVersion'', jnullable (eb_providerVersion b)), (''version'', jnullable (eb_policyVersion b)),
        (''versionHash'', JStr (eb_versionHash b))]),
      (''request'', JObj [(''canonicalActionRequestHash'', jnullable (eb_canonicalActionRequestHash b)),
        (''canonicalActionRequestVersion'', jnullable (eb_canonicalActionRequestVersion b)),
        (''toolCallId'', JStr (eb_toolCallId b))]),
      (''tenant'', JObj [(''workspaceId'', JStr (eb_workspaceId b))])]"

section \<open>Building the binding\<close>

datatype exec_auth_error =
    ExecBindingMismatch string
  | ExecExpired
  | ExecInvalid
  | ExecReplayed
  | ExecPlainError string \<comment> \<open>an \<open>Error\<close> that is no \<open>ExecutionAuthorizationError\<close>\<close>

record exec_decision =
  ed_decisionId :: "string option"
  ed_evaluatorVersion :: "string option"
  ed_policyDigest :: "string option"
  ed_policyVersion :: "string option"
  ed_providerId :: "string option"
  ed_providerVersion :: "string option"
  ed_version :: "string option"

definition stringOrNull :: "json \<Rightarrow> string option" where
  "stringOrNull v = (case v of JStr s \<Rightarrow> if s \<noteq> [] then Some s else None | _ \<Rightarrow> None)"

definition decisionIdentity_exec :: "tool_call \<Rightarrow> exec_decision" where
  "decisionIdentity_exec t =
     (let candidate = jget (tc_decisionTrace t) ''decisionV1''
      in if \<not> isJsonObject candidate \<or> jget candidate ''version'' \<noteq> JStr ''actionproxy.decision.v1''
         then \<lparr>ed_decisionId = None, ed_evaluatorVersion = None, ed_policyDigest = None, ed_policyVersion = None,
               ed_providerId = None, ed_providerVersion = None, ed_version = None\<rparr>
         else
           let policy = (if isJsonObject (jget candidate ''policy'') then jget candidate ''policy'' else JUndef);
               provider = (if isJsonObject (jget policy ''provider'') then jget policy ''provider'' else JUndef)
           in \<lparr>ed_decisionId = stringOrNull (jget candidate ''decisionId''),
               ed_evaluatorVersion = stringOrNull (jget candidate ''evaluatorVersion''),
               ed_policyDigest = stringOrNull (jget policy ''digest''),
               ed_policyVersion = stringOrNull (jget policy ''version''),
               ed_providerId = stringOrNull (jget provider ''id''),
               ed_providerVersion = stringOrNull (jget provider ''version''),
               ed_version = Some ''actionproxy.decision.v1''\<rparr>)"

definition original_tool_call :: "approval \<Rightarrow> tool_call \<Rightarrow> tool_call" where
  \<comment> \<open>the tool call as it was when the approval was issued\<close>
  "original_tool_call ap t = t\<lparr>tc_actionEnvelopeHash := ap_originalEnvelopeHash ap, tc_input := ap_originalInput ap,
     tc_inputHash := ap_originalInputHash ap, tc_status := PendingApproval\<rparr>"

definition stored_input_hash :: "env \<Rightarrow> tool_call \<Rightarrow> string" where
  "stored_input_hash E t = coalesce (tc_inputHash t) (hashJson E (tc_input t))"

definition assertApprovalBinding ::
  "env \<Rightarrow> int \<Rightarrow> approval option \<Rightarrow> attempt \<Rightarrow> tool_call \<Rightarrow> string \<Rightarrow> string option" where
  \<comment> \<open>the message of the error that is thrown; \<open>now\<close> is the clock of the expiry check\<close>
  "assertApprovalBinding E now approval att t inputHash =
     (let b = at_binding att
      in if \<not> truthy (ab_approvalId b)
         then first_of
           [(approval \<noteq> None, ''Unexpected approval supplied for an unapproved execution.''),
            (truthy (ab_approvalAuthorizationHash b) \<or> truthy (ab_approvalAuthorizationNonce b),
             ''Unapproved execution carries approval authorization state.'')]
         else (case approval of
             None \<Rightarrow> Some ''Approval-bound execution requires the current approval record.''
           | Some ap \<Rightarrow>
               if Some (ap_id ap) \<noteq> ab_approvalId b \<or> ap_toolCallId ap \<noteq> tc_id t
               then Some ''Approval does not match the execution attempt.''
               else if default_ws (ap_workspaceId ap) \<noteq> at_workspaceId att
               then Some ''Approval tenant does not match the execution attempt.''
               else if ap_status ap \<noteq> Approval_Approved \<or> ap_authorizationConsumedReason ap \<noteq> Some ReasonApproved
               then Some ''Approval is not in an executable terminal state.''
               else if \<not> truthy (ap_authorizationConsumedAt ap) \<or> ap_authorization ap = None
               then Some ''Approval authorization has not been consumed.''
               else
                 let a = the (ap_authorization ap);
                     mismatch = approvalAuthorizationMismatch E a ap (original_tool_call ap t)
                 in first_of
                   [(\<not> isValidApprovalAuthorization E (encode_authorization a), ''Approval authorization integrity is invalid.''),
                    (approvalAuthorizationExpired E a now, ''Approval authorization has expired.''),
                    (Some (az_authorizationHash a) \<noteq> ab_approvalAuthorizationHash b,
                     ''Approval authorization hash does not match the execution attempt.''),
                    (Some (az_nonce a) \<noteq> ab_approvalAuthorizationNonce b,
                     ''Approval authorization nonce does not match the execution attempt.''),
                    (or_else (ap_approvedInputHash ap) (ap_originalInputHash ap) \<noteq> Some inputHash,
                     ''Approved input does not match the execution attempt.''),
                    (mismatch \<noteq> None, ''Approval authorization is no longer current: '' @ coalesce mismatch [] @ ''.'')]))"

definition binding_failure :: "env \<Rightarrow> int \<Rightarrow> approval option \<Rightarrow> attempt \<Rightarrow> tool_call \<Rightarrow> string option" where
  \<comment> \<open>the run of checks of \<open>buildExecutionAuthorizationBinding\<close>: the message of the first that throws\<close>
  "binding_failure E now approval att t =
     (let b = at_binding att; inputHash = stored_input_hash E t;
          contentHash = validContentInfluenceBindingHash E (tc_contentInfluence t);
          approvalFailure = assertApprovalBinding E now approval att t inputHash;
          decision = decisionIdentity_exec t
      in first_of
       [(at_state att \<noteq> Reserved \<and> at_state att \<noteq> Dispatched,
         ''Execution attempt must be reserved or dispatched for authorization.''),
        (at_workspaceId att \<noteq> default_ws (tc_workspaceId t), ''Execution attempt tenant does not match the tool call.''),
        (at_toolCallId att \<noteq> tc_id t, ''Execution attempt does not match the tool call.''),
        (at_inputHash att \<noteq> inputHash, ''Execution attempt input does not match the tool call.''),
        (\<not> truthy (tc_actionEnvelopeHash t) \<or> ab_actionEnvelopeHash b \<noteq> tc_actionEnvelopeHash t,
         ''Execution attempt action envelope does not match the tool call.''),
        (\<not> truthy (tc_policyVersionHash t) \<or> ab_policyVersionHash b \<noteq> tc_policyVersionHash t,
         ''Execution attempt policy does not match the tool call.''),
        (tc_decision t = None, ''Execution authorization requires a deterministic decision outcome.''),
        (ab_canonicalActionRequestHash b \<noteq> tc_canonicalActionRequestHash t,
         ''Execution attempt canonical request does not match the tool call.''),
        (ab_canonicalActionRequestVersion b \<noteq> tc_canonicalActionRequestVersion t,
         ''Execution attempt canonical request version does not match the tool call.''),
        (ab_canonicalDecisionInputHash b \<noteq> tc_canonicalDecisionInputHash t,
         ''Execution attempt decision input does not match the tool call.''),
        (tc_contentInfluence t \<noteq> None \<and> \<not> truthy contentHash, ''Tool-call content-influence evidence is invalid.''),
        (Option.bind (ab_contentInfluenceBindingHash b) id \<noteq> contentHash,
         ''Execution attempt content-influence evidence does not match the tool call.''),
        (Option.bind (ab_influenceScopeId b) id \<noteq> tc_influenceScopeId t,
         ''Execution attempt influence scope does not match the tool call.''),
        (ab_resultSourceHash b \<noteq> Some (hashJson E (result_source_json t)),
         ''Execution attempt result-source classification does not match the tool call.''),
        (at_providerIdempotency att \<noteq> ''none'' \<or> at_retryPolicy att \<noteq> ''never_automatic'',
         ''Execution attempt declares unsupported retry or provider-idempotency behavior.''),
        (at_executionMode att = LocalMock \<and> at_executorId att \<noteq> ''actionproxy.local-tool-registry''
           \<or> at_executionMode att = ExternalGrant \<and> at_executorId att \<noteq> ''actionproxy.external-runner'',
         ''Execution attempt executor does not match its execution mode.''),
        (at_executionMode att = ExternalGrant \<and> \<not> truthy (at_grantId att),
         ''External execution authorization requires a bound grant.''),
        (at_executionMode att = LocalMock \<and> at_grantId att \<noteq> None,
         ''Local execution authorization cannot bind an external grant.''),
        (approvalFailure \<noteq> None, coalesce approvalFailure []),
        (ab_decisionId b \<noteq> ed_decisionId decision,
         ''Execution attempt decision identity does not match the tool call.''),
        (ab_decisionVersion b \<noteq> ed_version decision,
         ''Execution attempt decision version does not match the tool call.'')])"

definition buildExecutionAuthorizationBinding ::
  "env \<Rightarrow> int \<Rightarrow> approval option \<Rightarrow> attempt \<Rightarrow> tool_call \<Rightarrow> exec_auth_error + exec_binding" where
  "buildExecutionAuthorizationBinding E now approval att t =
     (case binding_failure E now approval att t of
        Some m \<Rightarrow> Inl (ExecBindingMismatch m)
      | None \<Rightarrow>
          let b = at_binding att; decision = decisionIdentity_exec t
          in Inr \<lparr>eb_actionEnvelopeHash = the (tc_actionEnvelopeHash t), eb_inputHash = stored_input_hash E t,
            eb_toolName = tc_toolName t, eb_approvalId = ab_approvalId b,
            eb_authorizationHash = ab_approvalAuthorizationHash b,
            eb_authorizationNonce = ab_approvalAuthorizationNonce b,
            eb_receiptHash = ab_receiptHash b, eb_receiptId = ab_receiptId b,
            eb_contentBindingHash = validContentInfluenceBindingHash E (tc_contentInfluence t),
            eb_influenceScopeId = tc_influenceScopeId t,
            eb_resultSourceHash = hashJson E (result_source_json t),
            eb_decisionId = ed_decisionId decision, eb_decisionInputHash = ab_canonicalDecisionInputHash b,
            eb_outcome = the (tc_decision t), eb_decisionVersion = ed_version decision,
            eb_attemptId = at_id att, eb_attemptNumber = at_attemptNumber att, eb_grantId = at_grantId att,
            eb_mode = at_executionMode att, eb_executorId = at_executorId att,
            eb_digest = ed_policyDigest decision, eb_evaluatorVersion = ed_evaluatorVersion decision,
            eb_providerId = ed_providerId decision, eb_providerVersion = ed_providerVersion decision,
            eb_policyVersion = ed_policyVersion decision, eb_versionHash = the (tc_policyVersionHash t),
            eb_canonicalActionRequestHash = tc_canonicalActionRequestHash t,
            eb_canonicalActionRequestVersion = tc_canonicalActionRequestVersion t,
            eb_toolCallId = tc_id t, eb_workspaceId = default_ws (tc_workspaceId t)\<rparr>)"

section \<open>The authority\<close>

definition EXECUTION_AUTHORIZATION_VERSION :: string where
  "EXECUTION_AUTHORIZATION_VERSION = ''actionproxy.execution-authorization.v1''"

definition DEFAULT_EXECUTION_AUTHORIZATION_TTL_MS :: jsnum where
  "DEFAULT_EXECUTION_AUTHORIZATION_TTL_MS = Dec 6 4"

definition CONSERVATIVE_EXECUTOR_CAPABILITIES_V1 :: json where
  "CONSERVATIVE_EXECUTOR_CAPABILITIES_V1 = JObj
     [(''automaticRetry'', JObj [(''supported'', JBool False)]),
      (''cancellation'', JObj [(''supported'', JBool False)]),
      (''credentialCustody'', JObj [(''acceptsRawCredentials'', JBool False), (''mode'', JStr ''executor_boundary_only'')]),
      (''providerIdempotency'', JObj [(''supported'', JBool False)]),
      (''reconciliation'', JObj [(''supported'', JBool False)]),
      (''timeout'', JObj [(''enforced'', JBool False), (''timeoutMs'', JNull)]),
      (''version'', JStr ''actionproxy.executor-capabilities.v1'')]"

record projection =
  pj_authorizationId :: string
  pj_binding :: exec_binding
  pj_capabilities :: json
  pj_expiresAt :: string
  pj_issuedAt :: string
  pj_version :: string

record exec_authority =
  xa_next :: nat \<comment> \<open>the next object to be created\<close>
  xa_issued :: "(nat, bool \<times> projection) jsmap" \<comment> \<open>consumed, and the projection\<close>
  xa_defaultTtl :: jsnum

record authority_inputs =
  \<comment> \<open>what a call reads besides its binding: the clock (\<open>None\<close> for NaN), the identifier the factory makes, the
    optional arguments of \<open>issue\<close>\<close>
  ak_now :: "int option"
  ak_id :: string
  ak_ttl :: "jsnum option"
  ak_capabilities :: json

definition ttl_ok :: "jsnum \<Rightarrow> bool" where
  \<comment> \<open>\<open>assertTtl\<close>\<close>
  "ttl_ok n = (num_isFinite n \<and> num_isInteger n \<and> num_lt (Dec 0 0) n)"

definition valid_time :: "int \<Rightarrow> bool" where
  \<comment> \<open>the time values of \<open>Date\<close>; \<open>toISOString\<close> throws outside\<close>
  "valid_time n = (\<bar>n\<bar> \<le> 8640000000000000)"

definition canonicalClone :: "json \<Rightarrow> json option" where
  "canonicalClone v = (case canonicalJsonStringify v of Inl _ \<Rightarrow> None | Inr _ \<Rightarrow> Some (canon v))"

definition createExecutionAuthorizationAuthority :: "jsnum option \<Rightarrow> exec_auth_error + exec_authority" where
  "createExecutionAuthorizationAuthority defaultTtl =
     (let ttl = coalesce defaultTtl DEFAULT_EXECUTION_AUTHORIZATION_TTL_MS
      in if \<not> ttl_ok ttl then Inl (ExecPlainError ''TTL'')
         else Inr \<lparr>xa_next = 0, xa_issued = [], xa_defaultTtl = ttl\<rparr>)"

definition issueExecution ::
  "env \<Rightarrow> exec_binding \<Rightarrow> authority_inputs \<Rightarrow> exec_authority \<Rightarrow> (exec_auth_error + nat) \<times> exec_authority" where
  "issueExecution E binding k s =
     (let ttl = coalesce (ak_ttl k) (xa_defaultTtl s);
          capabilities = canonicalClone (jcoalesce (ak_capabilities k) CONSERVATIVE_EXECUTOR_CAPABILITIES_V1);
          fail = (\<lambda>m. (Inl (ExecPlainError m), s))
      in if \<not> ttl_ok ttl then fail ''TTL''
         else (case ak_now k of
             None \<Rightarrow> fail ''clock''
           | Some now \<Rightarrow>
               if js_trim (ak_id k) = [] then fail ''ID''
               else if canonicalClone (encode_exec_binding binding) = None \<or> capabilities = None then fail ''canonical''
               else if \<not> valid_time (now + num_trunc ttl) \<or> \<not> valid_time now then fail ''RangeError''
               else (Inr (xa_next s),
                 s\<lparr>xa_next := xa_next s + 1,
                   xa_issued := jm_set (xa_next s) (False,
                     \<lparr>pj_authorizationId = ak_id k, pj_binding = binding, pj_capabilities = the capabilities,
                      pj_expiresAt = isoString E (now + num_trunc ttl), pj_issuedAt = isoString E now,
                      pj_version = EXECUTION_AUTHORIZATION_VERSION\<rparr>) (xa_issued s)\<rparr>)))"

definition inspectExecution :: "nat \<Rightarrow> exec_authority \<Rightarrow> exec_auth_error + projection" where
  "inspectExecution token s = (case jm_get (xa_issued s) token of None \<Rightarrow> Inl ExecInvalid | Some r \<Rightarrow> Inr (snd r))"

definition sameCanonicalValue :: "json \<Rightarrow> json \<Rightarrow> bool" where
  "sameCanonicalValue l r =
     (case (canonicalJsonStringify l, canonicalJsonStringify r) of (Inr a, Inr b) \<Rightarrow> a = b | _ \<Rightarrow> False)"

definition reached :: "int option \<Rightarrow> int option \<Rightarrow> bool" where
  \<comment> \<open>\<open>now >= deadline\<close> where either may be NaN\<close>
  "reached now deadline = (case (now, deadline) of (Some n, Some d) \<Rightarrow> d \<le> n | _ \<Rightarrow> False)"

definition consumeExecution ::
  "env \<Rightarrow> nat \<Rightarrow> exec_binding \<Rightarrow> authority_inputs \<Rightarrow> exec_authority \<Rightarrow> (exec_auth_error + projection) \<times> exec_authority" where
  "consumeExecution E token expected k s =
     (case jm_get (xa_issued s) token of
        None \<Rightarrow> (Inl ExecInvalid, s)
      | Some (consumed, p) \<Rightarrow>
          if consumed then (Inl ExecReplayed, s)
          else if reached (ak_now k) (dateParse E (pj_expiresAt p)) then (Inl ExecExpired, s)
          else if \<not> sameCanonicalValue (encode_exec_binding (pj_binding p)) (encode_exec_binding expected)
          then (Inl (ExecBindingMismatch ''Execution authorization does not match the current execution binding.''), s)
          else (Inr p, s\<lparr>xa_issued := jm_set token (True, p) (xa_issued s)\<rparr>))"

end
