(* ===== verification/ExecutionAuthFacts.thy ===== *)
theory ExecutionAuthFacts
  imports ExecutionAuth ApprovalAuthFacts
begin

text \<open>
  What an execution authorization guarantees: a token is consumed at most once, before it expires and for the
  binding it was issued for, and a binding that was built pins down the tool call, the attempt and the approval.
\<close>

section \<open>The text of a binding\<close>

lemma exec_binding_clean: "clean (encode_exec_binding b)" "distinct_keys (encode_exec_binding b)"
  using num_of_int_Dec [of "eb_attemptNumber b"] by (auto simp: encode_exec_binding_def jint_def)

lemma exec_binding_plain: "plain (encode_exec_binding b)"
  by (simp add: encode_exec_binding_def)

lemma mode_name_inj [simp]: "execution_mode_name m = execution_mode_name m' \<longleftrightarrow> m = m'"
  by (cases m; cases m') (simp_all add: execution_mode_name_def)

lemma exec_binding_inj: "canon (encode_exec_binding b) = canon (encode_exec_binding b') \<Longrightarrow> b = b'"
  by (rule exec_binding.equality) (simp_all add: encode_exec_binding_def canon_obj_iff)

lemma same_exec_binding:
  "sameCanonicalValue (encode_exec_binding b) (encode_exec_binding b') \<longleftrightarrow> b = b'"
proof -
  have "sameCanonicalValue (encode_exec_binding b) (encode_exec_binding b')
      \<longleftrightarrow> canonicalJsonStringify (encode_exec_binding b) = canonicalJsonStringify (encode_exec_binding b')"
    by (simp add: sameCanonicalValue_def canonicalJsonStringify_clean exec_binding_clean)
  also have "\<dots> \<longleftrightarrow> canon (encode_exec_binding b) = canon (encode_exec_binding b')"
    using exec_binding_plain by (intro canonical_equal_iff)
  finally show ?thesis using exec_binding_inj by blast
qed

section \<open>The authority keeps the contract\<close>

definition tokens_good :: "jsnum \<Rightarrow> exec_authority \<Rightarrow> bool" where
  "tokens_good d s \<longleftrightarrow> xa_defaultTtl s = d \<and> (\<forall>n. jm_get (xa_issued s) n \<noteq> None \<longrightarrow> n < xa_next s)"

definition token_spent :: "exec_authority \<Rightarrow> nat \<Rightarrow> bool" where
  "token_spent s n \<longleftrightarrow> (\<exists>p. jm_get (xa_issued s) n = Some (True, p))"

definition projection_admits :: "env \<Rightarrow> projection \<Rightarrow> exec_binding \<Rightarrow> authority_inputs \<Rightarrow> bool" where
  "projection_admits E p b k \<longleftrightarrow> \<not> reached (ak_now k) (dateParse E (pj_expiresAt p))
     \<and> sameCanonicalValue (encode_exec_binding (pj_binding p)) (encode_exec_binding b)"

definition token_usable :: "env \<Rightarrow> exec_authority \<Rightarrow> nat \<Rightarrow> exec_binding \<Rightarrow> authority_inputs \<Rightarrow> bool" where
  "token_usable E s n b k \<longleftrightarrow> (\<exists>c p. jm_get (xa_issued s) n = Some (c, p) \<and> projection_admits E p b k)"

definition issue_admits :: "env \<Rightarrow> jsnum \<Rightarrow> exec_binding \<Rightarrow> authority_inputs \<Rightarrow> exec_binding \<Rightarrow> authority_inputs \<Rightarrow> bool" where
  "issue_admits E d b k b' k' \<longleftrightarrow>
     sameCanonicalValue (encode_exec_binding b) (encode_exec_binding b')
     \<and> (\<exists>issued. ak_now k = Some issued \<and> valid_time (issued + num_trunc (coalesce (ak_ttl k) d))
          \<and> \<not> reached (ak_now k') (dateParse E (isoString E (issued + num_trunc (coalesce (ak_ttl k) d)))))"

interpretation exec: single_use_authority "issueExecution E" "consumeExecution E" "\<lambda>n. n"
  "tokens_good d" token_spent "token_usable E" "issue_admits E d"
  for E d
proof (unfold_locales, goal_cases)
  case (1 t b c s p)
  then show ?case
    by (auto simp: consumeExecution_def token_spent_def token_usable_def projection_admits_def split: option.splits if_splits)
next
  case (8 s b c n b' c')
  then show ?case
    by (auto simp: issueExecution_def token_usable_def projection_admits_def issue_admits_def tokens_good_def Let_def
        split: option.splits if_splits)
qed (force simp: consumeExecution_def issueExecution_def token_spent_def token_usable_def tokens_good_def Let_def
      split: option.splits if_splits)+

definition issued_bindings :: "(nat, exec_binding, authority_inputs) authority_call list \<Rightarrow> exec_binding set" where
  "issued_bindings calls = {b. \<exists>k. IssueToken b k \<in> set calls}"

text \<open>C28: an execution authorization is good for one use, in time, for its binding: whatever sequence of calls an authority
  sees, at most one of them consumes a given token; and a consumed token was issued for exactly the binding that is
  expected, less than its time to live ago.\<close>

theorem execution_authorization_single_use:
  assumes "createExecutionAuthorizationAuthority ttl = Inr s"
    and "fst (consumeExecution E t b k (run_calls (issueExecution E) (consumeExecution E) calls s)) = Inr p"
    and "ak_now k = Some now"
    and "\<And>n. valid_time n \<Longrightarrow> dateParse E (isoString E n) = Some n"
  shows "accepted (issueExecution E) (consumeExecution E) (\<lambda>u. u = t) (calls @ later) s \<le> 1
    \<and> (\<exists>pre k0 post issued. calls = pre @ IssueToken b k0 # post
         \<and> fst (issueExecution E b k0 (run_calls (issueExecution E) (consumeExecution E) pre s)) = Inr t
         \<and> ak_now k0 = Some issued
         \<and> now < issued + num_trunc (coalesce (ak_ttl k0) (xa_defaultTtl s)))"
proof
  have s: "xa_issued s = []" using assms(1) by (auto simp: createExecutionAuthorizationAuthority_def Let_def split: if_splits)
  then have good: "tokens_good (xa_defaultTtl s) s" by (simp add: tokens_good_def)
  then show "accepted (issueExecution E) (consumeExecution E) (\<lambda>u. u = t) (calls @ later) s \<le> 1"
    by (rule exec.accepted_at_most_once)
  have "\<not> token_usable E s n b k" for n by (simp add: token_usable_def s)
  then obtain pre b0 k0 post where origin: "calls = pre @ IssueToken b0 k0 # post"
      "issue_admits E (xa_defaultTtl s) b0 k0 b k"
      "fst (issueExecution E b0 k0 (run_calls (issueExecution E) (consumeExecution E) pre s)) = Inr t"
    using exec.accepted_was_issued [OF assms(2) good] by blast
  then have "b0 \<in> issued_bindings calls" by (auto simp: issued_bindings_def)
  then have "b0 = b" using origin(2) same_exec_binding by (auto simp: issue_admits_def)
  with origin show "\<exists>pre k0 post issued. calls = pre @ IssueToken b k0 # post
         \<and> fst (issueExecution E b k0 (run_calls (issueExecution E) (consumeExecution E) pre s)) = Inr t
         \<and> ak_now k0 = Some issued
         \<and> now < issued + num_trunc (coalesce (ak_ttl k0) (xa_defaultTtl s))"
    using assms(3,4) by (fastforce simp: issue_admits_def reached_def)
qed

definition exec_env :: env where
  \<comment> \<open>times are tallies, one mark a millisecond\<close>
  "exec_env = text_env\<lparr>dateParse := (\<lambda>s. case s of [] \<Rightarrow> None | c # cs \<Rightarrow>
       if c = CHR ''-'' then Some (- int (length cs)) else Some (int (length cs))),
     isoString := (\<lambda>n. (if n < 0 then CHR ''-'' else CHR ''+'') # replicate (nat \<bar>n\<bar>) CHR ''t'')\<rparr>"

lemma exec_env_times: "dateParse exec_env (isoString exec_env n) = Some n"
  by (simp add: exec_env_def)

definition sample_exec_binding :: exec_binding where
  "sample_exec_binding = \<lparr>eb_actionEnvelopeHash = ''e'', eb_inputHash = ''i'', eb_toolName = ''mail'',
     eb_approvalId = None, eb_authorizationHash = None, eb_authorizationNonce = None, eb_receiptHash = Some ''h'',
     eb_receiptId = Some ''r'', eb_contentBindingHash = None, eb_influenceScopeId = None, eb_resultSourceHash = ''s'',
     eb_decisionId = Some ''d'', eb_decisionInputHash = Some ''dh'', eb_outcome = Allow,
     eb_decisionVersion = Some ''actionproxy.decision.v1'', eb_attemptId = ''at'', eb_attemptNumber = 1,
     eb_grantId = Some ''g'', eb_mode = ExternalGrant, eb_executorId = ''actionproxy.external-runner'',
     eb_digest = Some ''pd'', eb_evaluatorVersion = Some ''1'', eb_providerId = Some ''p'', eb_providerVersion = Some ''1'',
     eb_policyVersion = Some ''v'', eb_versionHash = ''pd'', eb_canonicalActionRequestHash = None,
     eb_canonicalActionRequestVersion = None, eb_toolCallId = ''t'', eb_workspaceId = ''w''\<rparr>"

definition at_time :: "int \<Rightarrow> authority_inputs" where
  "at_time n = \<lparr>ak_now = Some n, ak_id = ''execauth'', ak_ttl = None, ak_capabilities = JUndef\<rparr>"

definition fresh_authority :: exec_authority where
  "fresh_authority = \<lparr>xa_next = 0, xa_issued = [], xa_defaultTtl = Dec 6 4\<rparr>"

lemma fresh_created: "createExecutionAuthorizationAuthority None = Inr fresh_authority"
  by (simp add: createExecutionAuthorizationAuthority_def fresh_authority_def DEFAULT_EXECUTION_AUTHORIZATION_TTL_MS_def
      ttl_ok_def num_isInteger_def scaled_def)

lemma capabilities_clean: "clean CONSERVATIVE_EXECUTOR_CAPABILITIES_V1"
  by (simp add: CONSERVATIVE_EXECUTOR_CAPABILITIES_V1_def)

lemma clone_clean: "clean v \<Longrightarrow> canonicalClone v = Some (canon v)"
  by (simp add: canonicalClone_def canonicalJsonStringify_clean)

lemma sample_issue:
  "fst (issueExecution exec_env sample_exec_binding (at_time 5) fresh_authority) = Inr 0"
  "fst (consumeExecution exec_env 0 sample_exec_binding (at_time 7)
     (snd (issueExecution exec_env sample_exec_binding (at_time 5) fresh_authority))) \<in> range Inr"
  using exec_env_times [of "60005"]
  by (simp_all add: issueExecution_def consumeExecution_def at_time_def fresh_authority_def clone_clean exec_binding_clean
      capabilities_clean jcoalesce_def nullish_def ttl_ok_def num_isInteger_def scaled_def num_trunc_def valid_time_def
      js_trim_def is_ws_def reached_def sameCanonicalValue_def canonicalJsonStringify_clean jm_get_def)

theorem execution_authorization_single_use_witness:
  "accepted (issueExecution exec_env) (consumeExecution exec_env) (\<lambda>u. u = 0)
     ([IssueToken sample_exec_binding (at_time 5)] @ [ConsumeToken 0 sample_exec_binding (at_time 7)]) fresh_authority \<le> 1"
proof -
  obtain p where p: "fst (consumeExecution exec_env 0 sample_exec_binding (at_time 7)
      (run_calls (issueExecution exec_env) (consumeExecution exec_env) [IssueToken sample_exec_binding (at_time 5)]
        fresh_authority)) = Inr p"
    using sample_issue(2) by (auto simp: run_call_def)
  show ?thesis
    by (rule conjunct1, rule execution_authorization_single_use [OF fresh_created p, where now = 7])
      (auto simp: at_time_def exec_env_times issued_bindings_def sample_exec_binding_def)
qed

end
