(* ===== verification/Receipts.thy ===== *)
theory Receipts
  imports Encoders ExecutionAuthFacts
begin

text \<open>
  Signed records: action receipts (\<open>security/action-receipts.ts\<close>), the constant-time comparison they rely on
  (\<open>safeEqual\<close> of \<open>security/crypto.ts\<close>), the signature of an execution grant (\<open>signGrant\<close> of
  \<open>security/execution-grants.ts\<close>), and when a result is kept from the model (\<open>security/result-visibility.ts\<close>).
\<close>

section \<open>Comparing digests\<close>

definition utf8_unit :: "char \<Rightarrow> nat list" where
  "utf8_unit c =
     (let n = (of_char c :: nat) in if n < 128 then [n] else [192 + n div 64, 128 + n mod 64])"

definition utf8_bytes :: "string \<Rightarrow> nat list" where
  \<comment> \<open>\<open>Buffer.from(s)\<close>\<close>
  "utf8_bytes s = concat (map utf8_unit s)"

definition safeEqual :: "string \<Rightarrow> string \<Rightarrow> bool" where
  "safeEqual left right =
     (if length (utf8_bytes left) \<noteq> length (utf8_bytes right) then False
      else list_all (\<lambda>(l, r). l = r) (zip (utf8_bytes left) (utf8_bytes right)))"

section \<open>Receipts\<close>

definition receiptMaterial :: "receipt \<Rightarrow> (string \<times> json) list" where
  "receiptMaterial r =
     [(''approvalId'', jopt JStr (rc_approvalId r)), (''approvedEnvelopeHash'', JStr (rc_approvedEnvelopeHash r)),
      (''approvedInputHash'', JStr (rc_approvedInputHash r)), (''createdAt'', JStr (rc_createdAt r)),
      (''decisionActor'', JStr (rc_decisionActor r)), (''decisionAuth'', jopt encode_auth (rc_decisionAuth r)),
      (''decisionKind'', JStr (decision_kind_name (rc_decisionKind r))),
      (''executionMode'', JStr (execution_mode_name (rc_executionMode r))),
      (''expiresAt'', jopt JStr (rc_expiresAt r)), (''id'', JStr (rc_id r)), (''issuedAt'', JStr (rc_issuedAt r)),
      (''keyId'', JStr (rc_keyId r)), (''operation'', rc_operation r),
      (''originalEnvelopeHash'', JStr (rc_originalEnvelopeHash r)),
      (''originalInputHash'', JStr (rc_originalInputHash r)),
      (''policyDecision'', jopt (JStr \<circ> decision_name) (rc_policyDecision r)),
      (''policyReason'', jopt JStr (rc_policyReason r)), (''policyRisk'', jopt JStr (rc_policyRisk r)),
      (''policyVersionHash'', jopt JStr (rc_policyVersionHash r)),
      (''policyVersionId'', jopt JStr (rc_policyVersionId r)), (''protocol'', JStr (rc_protocol r)),
      (''reviewHash'', jopt JStr (rc_reviewHash r)), (''signatureAlg'', JStr (rc_signatureAlg r)),
      (''source'', rc_source r), (''toolCallId'', JStr (rc_toolCallId r)), (''toolName'', JStr (rc_toolName r)),
      (''version'', JStr (rc_version r)), (''workspaceId'', JStr (rc_workspaceId r))]"

definition receipt_signature :: "env \<Rightarrow> string \<Rightarrow> receipt \<Rightarrow> string \<Rightarrow> string" where
  \<comment> \<open>the signature over the material and the receipt hash\<close>
  "receipt_signature E secret r receiptHash =
     hmacSha256Hex E secret (stableStringify E (JObj (receiptMaterial r @ [(''receiptHash'', JStr receiptHash)])))"

definition signReceipt :: "env \<Rightarrow> string \<Rightarrow> receipt \<Rightarrow> receipt" where
  "signReceipt E secret r =
     (let receiptHash = hashJson E (JObj (receiptMaterial r))
      in r\<lparr>rc_receiptHash := receiptHash, rc_signature := receipt_signature E secret r receiptHash\<rparr>)"

definition verifyReceipt :: "env \<Rightarrow> string \<Rightarrow> receipt \<Rightarrow> bool" where
  "verifyReceipt E secret r =
     (let expectedHash = hashJson E (JObj (receiptMaterial r))
      in if \<not> safeEqual (rc_receiptHash r) expectedHash then False
         else safeEqual (rc_signature r) (receipt_signature E secret r (rc_receiptHash r)))"

section \<open>Grants\<close>

definition grantMaterial :: "grant \<Rightarrow> (string \<times> json) list" where
  "grantMaterial g =
     [(''actor'', JStr (gr_actor g)), (''expiresAt'', JStr (gr_expiresAt g)), (''id'', JStr (gr_id g)),
      (''inputHash'', JStr (gr_inputHash g)), (''nonce'', JStr (gr_nonce g)),
      (''approvedEnvelopeHash'', jopt JStr (gr_approvedEnvelopeHash g)),
      (''approvedInputHash'', jopt JStr (gr_approvedInputHash g)),
      (''policyVersionHash'', jopt JStr (gr_policyVersionHash g)),
      (''receiptHash'', jopt JStr (gr_receiptHash g)), (''receiptId'', jopt JStr (gr_receiptId g)),
      (''toolCallId'', JStr (gr_toolCallId g)), (''toolName'', JStr (gr_toolName g)),
      (''workspaceId'', JStr (gr_workspaceId g))]"

definition signGrant :: "env \<Rightarrow> string \<Rightarrow> grant \<Rightarrow> string" where
  "signGrant E secret g = hmacSha256Hex E secret (stableStringify E (JObj (grantMaterial g)))"

section \<open>Result visibility\<close>

definition isModelVisibleResultWithheld :: "bool option \<Rightarrow> tool_call_status \<Rightarrow> json \<Rightarrow> bool" where
  "isModelVisibleResultWithheld resultWithheld status resultDelivery =
     (resultWithheld = Some True \<and> (status = Executed \<or> jget resultDelivery ''modelVisible'' = JBool True))"

section \<open>Facts\<close>

lemma utf8_unit_split: "utf8_unit c @ xs = utf8_unit d @ ys \<Longrightarrow> c = d \<and> xs = ys"
proof -
  assume eq: "utf8_unit c @ xs = utf8_unit d @ ys"
  have bound: "(of_char c :: nat) < 256" "(of_char d :: nat) < 256" by simp_all
  have "(of_char c :: nat) = of_char d \<and> xs = ys"
  proof (cases "(of_char c :: nat) < 128"; cases "(of_char d :: nat) < 128")
    assume "\<not> (of_char c :: nat) < 128" "\<not> (of_char d :: nat) < 128"
    with eq have "(of_char c :: nat) div 64 = of_char d div 64" "(of_char c :: nat) mod 64 = of_char d mod 64" "xs = ys"
      by (simp_all add: utf8_unit_def Let_def)
    then show ?thesis by (metis div_mult_mod_eq)
  qed (use eq bound in \<open>auto simp: utf8_unit_def Let_def\<close>)
  then show ?thesis by simp
qed

lemma utf8_unit_Nil [simp]: "utf8_unit c \<noteq> []"
  by (simp add: utf8_unit_def Let_def)

lemma utf8_bytes_inj: "utf8_bytes s = utf8_bytes t \<Longrightarrow> s = t"
proof (induction s arbitrary: t)
  case Nil
  then show ?case by (cases t) (auto simp: utf8_bytes_def)
next
  case (Cons c s)
  then obtain d t' where t: "t = d # t'" by (cases t) (auto simp: utf8_bytes_def)
  with Cons.prems have "utf8_unit c @ utf8_bytes s = utf8_unit d @ utf8_bytes t'" by (simp add: utf8_bytes_def)
  with Cons.IH t show ?case by (auto dest: utf8_unit_split)
qed

lemma safeEqual_iff [simp]: "safeEqual s t \<longleftrightarrow> s = t"
proof -
  have "list_all (\<lambda>(l, r). l = r) (zip xs ys) \<longleftrightarrow> xs = ys" if "length xs = length ys" for xs ys :: "nat list"
    using that by (induction xs ys rule: list_induct2) auto
  then show ?thesis using utf8_bytes_inj [of s t] by (auto simp: safeEqual_def)
qed

lemma material_unsigned [simp]:
  "receiptMaterial (r\<lparr>rc_receiptHash := h\<rparr>) = receiptMaterial r"
  "receiptMaterial (r\<lparr>rc_signature := s\<rparr>) = receiptMaterial r"
  "receiptMaterial (r\<lparr>rc_outcome := x\<rparr>) = receiptMaterial r"
  by (simp_all add: receiptMaterial_def)

lemma signature_unsigned [simp]:
  "receipt_signature E secret (r\<lparr>rc_receiptHash := h\<rparr>) = receipt_signature E secret r"
  "receipt_signature E secret (r\<lparr>rc_signature := s\<rparr>) = receipt_signature E secret r"
  "receipt_signature E secret (r\<lparr>rc_outcome := x\<rparr>) = receipt_signature E secret r"
  by (simp_all add: receipt_signature_def fun_eq_iff)

lemma verify_iff:
  "verifyReceipt E secret r \<longleftrightarrow> rc_receiptHash r = hashJson E (JObj (receiptMaterial r))
     \<and> rc_signature r = receipt_signature E secret r (rc_receiptHash r)"
  by (auto simp: verifyReceipt_def Let_def)

lemma signed_verifies: "verifyReceipt E secret (signReceipt E secret r)"
  by (simp add: verify_iff signReceipt_def Let_def)

lemma verify_outcome: "verifyReceipt E secret (r\<lparr>rc_outcome := x\<rparr>) = verifyReceipt E secret r"
  by (simp add: verify_iff)

definition ordinary_receipt :: "receipt \<Rightarrow> bool" where
  "ordinary_receipt r \<longleftrightarrow> (rc_operation r = JUndef \<or> plain (rc_operation r)) \<and> distinct_keys (rc_operation r)
     \<and> (rc_source r = JUndef \<or> plain (rc_source r)) \<and> distinct_keys (rc_source r)"

lemma encode_auth_plain: "plain (encode_auth a)" "distinct_keys (encode_auth a)"
  by (auto simp: encode_auth_def jstrings_def list_all_iff jopt_def split: option.split)

lemma ordinary_material:
  assumes "ordinary_receipt r"
  shows "plain (JObj (receiptMaterial r))" "distinct_keys (JObj (receiptMaterial r))"
  using assms encode_auth_plain
  by (auto simp: ordinary_receipt_def receiptMaterial_def jopt_def split: option.split)

lemma kind_name_inj [simp]: "decision_kind_name k = decision_kind_name k' \<longleftrightarrow> k = k'"
  by (cases k; cases k') (simp_all add: decision_kind_name_def)

lemma canon_opt_decision [simp]:
  "canon (jopt (JStr \<circ> decision_name) a) = canon (jopt (JStr \<circ> decision_name) b) \<longleftrightarrow> a = b"
  by (cases a; cases b) auto

lemma canon_encode_auth_inj [simp]: "canon (encode_auth a) = canon (encode_auth b) \<longleftrightarrow> a = b"
proof
  assume "canon (encode_auth a) = canon (encode_auth b)"
  then show "a = b"
    unfolding encode_auth_def by (subst (asm) canon_obj_iff) simp_all
qed simp

lemma canon_opt_encode_auth_inj [simp]: "canon (jopt encode_auth a) = canon (jopt encode_auth b) \<longleftrightarrow> a = b"
proof -
  have "canon (encode_auth x) \<noteq> JUndef" for x by (simp add: encode_auth_def)
  then show ?thesis by (cases a; cases b) (auto dest: sym)
qed

definition same_receipt :: "receipt \<Rightarrow> receipt \<Rightarrow> bool" where
  \<comment> \<open>equal but for the outcome, the signature and the order of members of the two JSON values\<close>
  "same_receipt r r' \<longleftrightarrow>
     r' = r\<lparr>rc_operation := rc_operation r', rc_source := rc_source r', rc_outcome := rc_outcome r',
            rc_signature := rc_signature r'\<rparr>
     \<and> canon (rc_operation r) = canon (rc_operation r') \<and> canon (rc_source r) = canon (rc_source r')"

lemma canon_material:
  assumes "canon (JObj (receiptMaterial r)) = canon (JObj (receiptMaterial r'))" "rc_receiptHash r = rc_receiptHash r'"
  shows "same_receipt r r'"
proof -
  have "map (canon \<circ> snd) (receiptMaterial r) = map (canon \<circ> snd) (receiptMaterial r')"
    using assms(1) by (subst (asm) canon_obj_iff) (simp_all add: receiptMaterial_def)
  then show ?thesis using assms(2) by (simp add: receiptMaterial_def same_receipt_def)
qed


definition sample_unsigned :: receipt where
  "sample_unsigned = \<lparr>rc_approvalId = None, rc_approvedEnvelopeHash = ''e'', rc_approvedInputHash = ''i'',
     rc_createdAt = ''t'', rc_decisionActor = ''policy'', rc_decisionAuth = None, rc_decisionKind = PolicyAllow,
     rc_executionMode = ExternalGrant, rc_expiresAt = None, rc_id = ''r'', rc_issuedAt = ''t'', rc_keyId = ''k'',
     rc_operation = JObj [(''name'', JStr ''send'')], rc_originalEnvelopeHash = ''e'', rc_originalInputHash = ''i'',
     rc_outcome = None, rc_policyDecision = Some Allow, rc_policyReason = None, rc_policyRisk = None,
     rc_policyVersionHash = None, rc_policyVersionId = None, rc_protocol = ''mcp'', rc_receiptHash = [],
     rc_reviewHash = None, rc_signature = [], rc_signatureAlg = ''HMAC-SHA256'', rc_source = JObj [(''type'', JStr ''mcp'')],
     rc_toolCallId = ''t'', rc_toolName = ''mail'', rc_version = ''v1'', rc_workspaceId = ''w''\<rparr>"


section \<open>Signed grants\<close>

lemma grant_material_plain: "plain (JObj (grantMaterial g))" "distinct_keys (JObj (grantMaterial g))"
  by (auto simp: grantMaterial_def jopt_def split: option.split)

definition same_grant :: "grant \<Rightarrow> grant \<Rightarrow> bool" where
  \<comment> \<open>equal in everything a grant is signed for\<close>
  "same_grant g g' \<longleftrightarrow> g' = g\<lparr>gr_auth := gr_auth g', gr_createdAt := gr_createdAt g', gr_consumedAt := gr_consumedAt g',
     gr_signature := gr_signature g'\<rparr>"

lemma same_signature_same_grant:
  assumes "signGrant E secret g = signGrant E secret g'"
    and "inj_on (hmacSha256Hex E secret) {stableStringify E (JObj (grantMaterial g)), stableStringify E (JObj (grantMaterial g'))}"
  shows "same_grant g g'"
proof -
  have "stableStringify E (JObj (grantMaterial g)) = stableStringify E (JObj (grantMaterial g'))"
    using assms(1) unfolding signGrant_def by (rule inj_onD [OF assms(2)]) simp_all
  then have "canon (JObj (grantMaterial g)) = canon (JObj (grantMaterial g'))"
    by (intro stable_equal_canon grant_material_plain)
  then have "map (canon \<circ> snd) (grantMaterial g) = map (canon \<circ> snd) (grantMaterial g')"
    by (subst (asm) canon_obj_iff) (simp_all add: grantMaterial_def)
  then show ?thesis by (simp add: grantMaterial_def same_grant_def)
qed

lemma sign_ignores [simp]:
  "signGrant E secret (g\<lparr>gr_signature := s\<rparr>) = signGrant E secret g"
  "signGrant E secret (g\<lparr>gr_consumedAt := c\<rparr>) = signGrant E secret g"
  by (simp_all add: signGrant_def grantMaterial_def)

end
