(* ===== verification/AuditChainFacts.thy ===== *)
theory AuditChainFacts
  imports AuditChain Receipts
begin

text \<open>
  Correctness of the audit chain: a log that was only appended to verifies, the recorded times increase,
  the last hash fixes the whole log, and what the verifier says about a part of the log.
\<close>

section \<open>Writing and reading back a row\<close>

lemma json_reparse_undef [simp]: "json_reparse v = JUndef \<longleftrightarrow> v = JUndef"
  by (cases v) auto

lemma strip_reparse: "clean v \<Longrightarrow> stripUndefined (json_reparse v) = stripUndefined v"
proof (induction v rule: json_reparse.induct)
  case (1 vs)
  then have "v \<noteq> JUndef \<and> stripUndefined (json_reparse v) = stripUndefined v" if "v \<in> set vs" for v
    using that by (cases "v = JUndef") (auto simp: list_all_iff)
  then show ?case by auto
next
  case (2 kvs)
  then have "stripUndefined (json_reparse (snd p)) = stripUndefined (snd p)" if "p \<in> set kvs" "snd p \<noteq> JUndef" for p
    using that by (cases p) (auto simp: list_all_iff)
  then show ?case by (auto simp: filter_map comp_def)
qed auto

lemma hash_row:
  assumes "clean (ev_data e)"
  shows "auditEventHash E (audit_row e) = auditEventHash E e"
proof -
  have "stripUndefined (JObj (audit_hash_input (audit_row e))) = stripUndefined (JObj (audit_hash_input e))"
    using strip_reparse [OF assms] by (simp add: audit_hash_input_def audit_row_def)
  then show ?thesis by (simp add: auditEventHash_def)
qed

lemma hash_ignores_own: "auditEventHash E (e\<lparr>ev_eventHash := h\<rparr>) = auditEventHash E e"
proof -
  have "audit_hash_input (e\<lparr>ev_eventHash := h\<rparr>) = audit_hash_input e" by (simp add: audit_hash_input_def)
  then show ?thesis by (simp only: auditEventHash_def)
qed

lemma row_fields [simp]:
  "ev_id (audit_row e) = ev_id e" "ev_eventHash (audit_row e) = ev_eventHash e"
  "ev_previousEventHash (audit_row e) = ev_previousEventHash e" "ev_timestamp (audit_row e) = ev_timestamp e"
  by (simp_all add: audit_row_def)

declare stripUndefined.simps [simp del] stableStringify.simps [simp del]

section \<open>Linked events\<close>

definition last_hash :: "string option \<Rightarrow> audit_event list \<Rightarrow> string option" where
  "last_hash p es = (if es = [] then p else ev_eventHash (last es))"

lemma chain_errors_append:
  "chain_errors E p i (es @ fs) = chain_errors E p i es @ chain_errors E (last_hash p es) (i + length es) fs"
  by (induction es arbitrary: p i) (auto simp: last_hash_def)

lemma event_errors_Nil:
  "event_errors E p i e = [] \<longleftrightarrow> ev_previousEventHash e = p \<and> truthy (ev_eventHash e)
     \<and> ev_eventHash e = Some (auditEventHash E e)"
  by (auto simp: event_errors_def hash_ignores_own)

lemma chain_index: "chain_errors E p i es = [] \<longleftrightarrow> chain_errors E p j es = []"
  by (induction es arbitrary: p i j) (auto simp: event_errors_Nil)

definition linked :: "env \<Rightarrow> audit_event list \<Rightarrow> bool" where
  "linked E es \<longleftrightarrow> chain_errors E None 0 es = []"

lemma linked_snoc:
  "linked E (es @ [e]) \<longleftrightarrow> linked E es \<and> ev_previousEventHash e = last_hash None es
     \<and> truthy (ev_eventHash e) \<and> ev_eventHash e = Some (auditEventHash E e)"
  by (auto simp: linked_def chain_errors_append event_errors_Nil)

lemma linked_last:
  assumes "linked E es" "es \<noteq> []"
  shows "truthy (ev_eventHash (last es))"
  using assms by (cases es rule: rev_cases) (auto simp: linked_snoc)

lemma linked_takeD: "linked E es \<Longrightarrow> linked E (take k es)"
  using chain_errors_append [of E None 0 "take k es" "drop k es"] by (simp add: linked_def)

lemma linked_dropD:
  assumes "linked E es" and "k < length es" "k \<noteq> 0"
  shows "chain_errors E None 0 (drop k es)
    = [\<lparr>ae_eventId = ev_id (es ! k), ae_index = 0, ae_reason = PreviousEventHashMismatch\<rparr>]"
proof -
  have split: "drop k es = es ! k # drop (Suc k) es" by (rule Cons_nth_drop_Suc [symmetric]) (rule assms(2))
  have k: "take k es \<noteq> []" using assms(2,3) by auto
  have "chain_errors E (last_hash None (take k es)) (0 + length (take k es)) (drop k es) = []"
    using assms(1) chain_errors_append [of E None 0 "take k es" "drop k es"] by (simp add: linked_def)
  then have parts: "event_errors E (ev_eventHash (last (take k es))) (0 + length (take k es)) (es ! k) = []"
      "chain_errors E (ev_eventHash (es ! k)) (0 + length (take k es) + 1) (drop (Suc k) es) = []"
    using k unfolding split by (simp_all add: last_hash_def)
  have "truthy (ev_eventHash (last (take k es)))" by (rule linked_last [OF linked_takeD [OF assms(1)] k])
  then have "event_errors E None 0 (es ! k)
      = [\<lparr>ae_eventId = ev_id (es ! k), ae_index = 0, ae_reason = PreviousEventHashMismatch\<rparr>]"
    using parts(1) unfolding event_errors_Nil by (cases "ev_eventHash (last (take k es))") (auto simp: event_errors_def hash_ignores_own)
  moreover have "chain_errors E (ev_eventHash (es ! k)) 1 (drop (Suc k) es) = []"
    using parts(2) chain_index by blast
  ultimately show ?thesis unfolding split by simp
qed

section \<open>Appending\<close>

lemma no_filters_in [simp]: "auditEventInRange e no_filters"
  by (simp add: auditEventInRange_def no_filters_def)

lemma list_all_events: "listAuditEvents LimitAll no_filters l = rev (al_rows l)"
  by (simp add: listAuditEvents_def safeLimit_def)

lemma list_limited: "safeLimit limit = Some n \<Longrightarrow>
    rev (listAuditEvents limit no_filters l) = drop (length (al_rows l) - n) (al_rows l)"
  by (simp add: listAuditEvents_def Let_def)

lemma safe_one: "safeLimit (LimitNumber (Dec 1 0)) = Some 1"
  by (simp add: safeLimit_def num_trunc_def)

lemma safe_limit_positive: "safeLimit limit = Some n \<Longrightarrow> 0 < n"
  by (auto simp: safeLimit_def split: list_limit.splits if_splits)

lemma drop_last: "es \<noteq> [] \<Longrightarrow> drop (length es - Suc 0) es = [last es]"
  by (cases es rule: rev_cases) auto

lemma newest_event:
  "listAuditEvents (LimitNumber (Dec 1 0)) no_filters l = (if al_rows l = [] then [] else [last (al_rows l)])"
  using list_limited [OF safe_one, of l] drop_last [of "al_rows l"]
  by (auto simp: rev_swap)

definition chained_event :: "env \<Rightarrow> audit_event list \<Rightarrow> audit_event \<Rightarrow> audit_event" where
  "chained_event E es e =
     (let c = e\<lparr>ev_previousEventHash := last_hash None es,
            ev_timestamp := nextAuditTimestamp E (ev_timestamp e) (if es = [] then None else Some (ev_timestamp (last es)))\<rparr>
      in c\<lparr>ev_eventHash := Some (auditEventHash E c)\<rparr>)"

lemma append_unfold: "appendChained E e l = appendAuditEvent (chained_event E (al_rows l) e) l"
  by (simp add: appendChained_def newest_event chained_event_def last_hash_def Let_def)

lemma chained_fields:
  "ev_id (chained_event E es e) = ev_id e" "ev_data (chained_event E es e) = ev_data e"
  "ev_previousEventHash (chained_event E es e) = last_hash None es"
  "ev_eventHash (chained_event E es e) = Some (auditEventHash E (chained_event E es e))"
  "ev_timestamp (chained_event E es e)
     = nextAuditTimestamp E (ev_timestamp e) (if es = [] then None else Some (ev_timestamp (last es)))"
  by (simp_all add: chained_event_def Let_def hash_ignores_own)

lemma append_linked:
  assumes "linked E (al_rows l)" "clean (ev_data e)" "\<And>s. sha256Hex E s \<noteq> []"
  shows "linked E (al_rows (appendChained E e l))"
proof -
  let ?e = "chained_event E (al_rows l) e"
  have "auditEventHash E (audit_row ?e) = auditEventHash E ?e"
    using assms(2) by (intro hash_row) (simp add: chained_fields)
  moreover have "auditEventHash E ?e \<noteq> []" by (simp only: auditEventHash_def assms(3) not_False_eq_True)
  moreover have "ev_eventHash ?e = Some (auditEventHash E ?e)" by (rule chained_fields)
  ultimately show ?thesis
    using assms(1) by (simp add: append_unfold appendAuditEvent_def linked_snoc chained_fields(3))
qed

section \<open>Histories of a log\<close>

datatype audit_op = AuditAppend audit_event | AuditReopen

fun run_audit_op :: "env \<Rightarrow> audit_op \<Rightarrow> audit_log \<Rightarrow> audit_log" where
  "run_audit_op E (AuditAppend e) l = appendChained E e l"
| "run_audit_op E AuditReopen l = openAuditLog (al_rows l)"

definition run_audit :: "env \<Rightarrow> audit_op list \<Rightarrow> audit_log" where
  \<comment> \<open>what a log file holds after appends and restarts of the server\<close>
  "run_audit E ops = foldl (\<lambda>l op. run_audit_op E op l) (openAuditLog []) ops"

lemma run_audit_snoc: "run_audit E (ops @ [op]) = run_audit_op E op (run_audit E ops)"
  by (simp add: run_audit_def)

definition clean_ops :: "audit_op list \<Rightarrow> bool" where
  "clean_ops ops = (\<forall>e. AuditAppend e \<in> set ops \<longrightarrow> clean (ev_data e))"

lemma run_linked:
  assumes "clean_ops ops" "\<And>s. sha256Hex E s \<noteq> []"
  shows "linked E (al_rows (run_audit E ops))"
  using assms(1)
proof (induction ops rule: rev_induct)
  case Nil
  show ?case by (simp add: run_audit_def openAuditLog_def linked_def)
next
  case (snoc op ops)
  then have "linked E (al_rows (run_audit E ops))" by (simp add: clean_ops_def)
  then show ?case
    using snoc.prems append_linked [OF _ _ assms(2)] by (cases op) (auto simp: run_audit_snoc openAuditLog_def clean_ops_def)
qed

lemma verify_linked: "av_valid (verifyAuditEvents E es) \<longleftrightarrow> linked E es"
  by (simp add: verifyAuditEvents_def linked_def Let_def)


definition audit_env :: env where
  \<comment> \<open>an instance with digests that are not empty and a clock whose readings are tallies\<close>
  "audit_env = text_env\<lparr>sha256Hex := (\<lambda>s. CHR ''#'' # s),
     dateParse := (\<lambda>s. if s = [] then None else Some (int (length s))),
     isoString := (\<lambda>n. replicate (nat n) CHR ''t'')\<rparr>"

definition sample_event :: "string \<Rightarrow> string \<Rightarrow> audit_event" where
  "sample_event i at = \<lparr>ev_id = i, ev_type = ''receipt.created'', ev_workspaceId = None, ev_toolCallId = None,
     ev_approvalId = None, ev_actor = None, ev_auth = None, ev_inputHash = None, ev_policyVersionId = None,
     ev_policyVersionHash = None, ev_previousEventHash = None, ev_eventHash = None, ev_timestamp = at,
     ev_data = JObj []\<rparr>"

definition sample_ops :: "audit_op list" where
  "sample_ops = [AuditAppend (sample_event ''a'' ''tt''), AuditAppend (sample_event ''a'' ''t''), AuditReopen,
     AuditAppend (sample_event ''b'' ''t'')]"

lemma sample_ops_rows: "map ev_id (al_rows (run_audit audit_env sample_ops)) = [''a'', ''b'']"
  by (simp add: run_audit_def sample_ops_def openAuditLog_def append_unfold appendAuditEvent_def chained_fields
      sample_event_def)

lemma sample_ops_clean: "clean_ops sample_ops"
  by (auto simp: clean_ops_def sample_ops_def sample_event_def)

lemma audit_env_digest: "sha256Hex audit_env s \<noteq> []"
  by (simp add: audit_env_def)


text \<open>C32: verifying less than the whole log: the verifier takes the first event it is given for the first of the log. On
  an intact log with more events than the limit it therefore reports exactly one error, on the first event of the
  window, and calls the log invalid.\<close>

theorem window_of_log_rejected:
  assumes "clean_ops ops" and "\<And>s. sha256Hex E s \<noteq> []"
    and "safeLimit limit = Some n" and "n < length (al_rows (run_audit E ops))"
  shows "\<not> av_valid (verifyAuditStore E limit (run_audit E ops))
    \<and> av_errors (verifyAuditStore E limit (run_audit E ops))
      = [\<lparr>ae_eventId = ev_id (al_rows (run_audit E ops) ! (length (al_rows (run_audit E ops)) - n)),
         ae_index = 0, ae_reason = PreviousEventHashMismatch\<rparr>]"
proof -
  let ?rows = "al_rows (run_audit E ops)"
  let ?k = "length ?rows - n"
  have "?k < length ?rows" "?k \<noteq> 0" using safe_limit_positive [OF assms(3)] assms(4) by linarith+
  then have "chain_errors E None 0 (drop ?k ?rows)
      = [\<lparr>ae_eventId = ev_id (?rows ! ?k), ae_index = 0, ae_reason = PreviousEventHashMismatch\<rparr>]"
    by (rule linked_dropD [OF run_linked [OF assms(1,2)]])
  then show ?thesis
    unfolding verifyAuditStore_def list_limited [OF assms(3)] by (simp add: verifyAuditEvents_def Let_def)
qed

theorem window_of_log_rejected_witness:
  "\<not> av_valid (verifyAuditStore audit_env (LimitNumber (Dec 1 0)) (run_audit audit_env sample_ops))"
proof -
  have "Suc 0 < length (al_rows (run_audit audit_env sample_ops))" using arg_cong [OF sample_ops_rows, of length] by simp
  with window_of_log_rejected [OF sample_ops_clean audit_env_digest safe_one] show ?thesis by simp
qed

section \<open>The order of the log\<close>

definition later :: "env \<Rightarrow> audit_event \<Rightarrow> audit_event \<Rightarrow> bool" where
  "later E e f = (\<forall>p. dateParse E (ev_timestamp e) = Some p
     \<longrightarrow> (\<exists>q. dateParse E (ev_timestamp f) = Some q \<and> p < q))"

lemma later_trans: "later E e f \<Longrightarrow> later E f g \<Longrightarrow> later E e g"
  unfolding later_def by (meson less_trans)

lemma next_later:
  assumes "\<And>p s. dateParse E s = Some p \<Longrightarrow> dateParse E (isoString E (p + 1)) = Some (p + 1)"
    and "dateParse E [] = None" "es \<noteq> []"
  shows "later E (last es) (audit_row (chained_event E es e))"
  using assms
  by (cases "dateParse E (ev_timestamp (last es))"; cases "dateParse E (ev_timestamp e)")
    (auto simp: later_def chained_fields nextAuditTimestamp_def)

text \<open>The order of the log is the order of its times: whatever times the events claim, once a row has a readable time
  every later row has a strictly later one, so reading the log back by time gives the chain.\<close>

lemma log_times_increase:
  assumes "\<And>p s. dateParse E s = Some p \<Longrightarrow> dateParse E (isoString E (p + 1)) = Some (p + 1)"
    and "dateParse E [] = None"
  shows "sorted_wrt (\<lambda>e f. \<forall>p. dateParse E (ev_timestamp e) = Some p
     \<longrightarrow> (\<exists>q. dateParse E (ev_timestamp f) = Some q \<and> p < q)) (al_rows (run_audit E ops))"
  unfolding later_def [symmetric]
proof (induction ops rule: rev_induct)
  case Nil
  show ?case by (simp add: run_audit_def openAuditLog_def)
next
  case (snoc op ops)
  let ?rows = "al_rows (run_audit E ops)"
  show ?case
  proof (cases op)
    case (AuditAppend e)
    have "later E f (audit_row (chained_event E ?rows e))" if f: "f \<in> set ?rows" for f
    proof -
      from f obtain fs g where fs: "?rows = fs @ [g]" by (cases ?rows rule: rev_cases) auto
      have "later E g (audit_row (chained_event E ?rows e))"
        using next_later [where es = ?rows and e = e, OF assms] fs by simp
      with f snoc.IH fs show ?thesis by (auto simp: sorted_wrt_append intro: later_trans)
    qed
    with snoc.IH AuditAppend show ?thesis
      by (simp add: run_audit_snoc append_unfold appendAuditEvent_def sorted_wrt_append)
  qed (use snoc.IH in \<open>simp add: run_audit_snoc openAuditLog_def\<close>)
qed

lemma log_times_increase_example:
  "sorted_wrt (\<lambda>e f. \<forall>p. dateParse audit_env (ev_timestamp e) = Some p
     \<longrightarrow> (\<exists>q. dateParse audit_env (ev_timestamp f) = Some q \<and> p < q)) (al_rows (run_audit audit_env sample_ops))"
  by (rule log_times_increase) (auto simp: audit_env_def split: if_splits)

section \<open>Tamper evidence\<close>

lemma event_plain_clean: "plain v \<Longrightarrow> clean v"
proof (induction v rule: clean.induct)
  case (2 n)
  then show ?case by (cases n) simp_all
qed (auto simp: list_all_iff)

lemma strip_arrange: "clean v \<Longrightarrow> arrange cmp (stripUndefined v) = arrange cmp v"
proof (induction v rule: stripUndefined.induct)
  case (1 vs)
  then show ?case by (simp add: stripUndefined.simps list_all_iff)
next
  case (2 kvs)
  then have "arrange cmp (stripUndefined (snd p)) = arrange cmp (snd p)" if "p \<in> set kvs" "snd p \<noteq> JUndef" for p
    using that by (cases p) (auto simp: list_all_iff)
  moreover have "stripUndefined w \<noteq> JUndef \<longleftrightarrow> w \<noteq> JUndef" for w
    by (cases w) (simp_all add: stripUndefined.simps)
  ultimately have "map (\<lambda>p. (fst p, arrange cmp (snd p))) (filter (\<lambda>p. snd p \<noteq> JUndef)
        (map (\<lambda>p. (fst p, stripUndefined (snd p))) (filter (\<lambda>p. snd p \<noteq> JUndef) kvs)))
      = map (\<lambda>p. (fst p, arrange cmp (snd p))) (filter (\<lambda>p. snd p \<noteq> JUndef) kvs)"
    by (auto simp: filter_map comp_def)
  then show ?case by (simp only: stripUndefined.simps arrange.simps)
qed (simp_all add: stripUndefined.simps)

lemma audit_hash_text: "clean (JObj (audit_hash_input e)) \<Longrightarrow>
    auditEventHash E e = sha256Hex E (stableStringify E (JObj (audit_hash_input e)))"
  by (simp add: auditEventHash_def stableStringify_print strip_arrange)

definition same_event :: "audit_event \<Rightarrow> audit_event \<Rightarrow> bool" where
  \<comment> \<open>the same record, up to the order of the members of the data\<close>
  "same_event e f \<longleftrightarrow> f = e\<lparr>ev_data := ev_data f\<rparr> \<and> canon (ev_data e) = canon (ev_data f)"

definition ordinary_event :: "audit_event \<Rightarrow> bool" where
  "ordinary_event e \<longleftrightarrow> plain (ev_data e) \<and> distinct_keys (ev_data e)"

lemma ordinary_input:
  assumes "ordinary_event e"
  shows "plain (JObj (audit_hash_input e))" "distinct_keys (JObj (audit_hash_input e))"
  using assms encode_auth_plain
  by (auto simp: ordinary_event_def audit_hash_input_def jopt_def split: option.split)

lemma same_input_same_event:
  assumes "canon (JObj (audit_hash_input e)) = canon (JObj (audit_hash_input f))" "ev_eventHash e = ev_eventHash f"
  shows "same_event e f"
proof -
  have "map (canon \<circ> snd) (audit_hash_input e) = map (canon \<circ> snd) (audit_hash_input f)"
    using assms(1) by (subst (asm) canon_obj_iff) (simp_all add: audit_hash_input_def)
  then show ?thesis using assms(2) by (simp add: audit_hash_input_def same_event_def)
qed

abbreviation hashed_text :: "env \<Rightarrow> audit_event \<Rightarrow> string" where
  "hashed_text E e \<equiv> stableStringify E (JObj (audit_hash_input e))"

lemma same_hash_same_event:
  assumes "ordinary_event e" "ordinary_event f" "inj_on (sha256Hex E) {hashed_text E e, hashed_text E f}"
    and "ev_eventHash e = Some (auditEventHash E e)" "ev_eventHash f = Some (auditEventHash E f)"
    and "ev_eventHash e = ev_eventHash f"
  shows "same_event e f"
proof -
  note input = ordinary_input [OF assms(1)] ordinary_input [OF assms(2)]
  have "auditEventHash E e = auditEventHash E f" using assms(4-6) by simp
  then have "sha256Hex E (hashed_text E e) = sha256Hex E (hashed_text E f)"
    by (simp only: audit_hash_text [OF event_plain_clean [OF input(1)]] audit_hash_text [OF event_plain_clean [OF input(3)]])
  then have "hashed_text E e = hashed_text E f"
    by (rule inj_onD [OF assms(3)]) (rule insertI1, rule insertI2, rule singletonI)
  then have "canon (JObj (audit_hash_input e)) = canon (JObj (audit_hash_input f))"
    by (rule stable_equal_canon [OF input(1,3,2,4)])
  then show ?thesis using assms(6) by (rule same_input_same_event)
qed

lemma same_event_previous:
  assumes "same_event e f"
  shows "ev_previousEventHash e = ev_previousEventHash f"
proof -
  have "ev_previousEventHash f = ev_previousEventHash (e\<lparr>ev_data := ev_data f\<rparr>)"
    using assms unfolding same_event_def by (rule arg_cong [OF conjunct1])
  then show ?thesis by simp
qed

lemma linked_same:
  assumes "linked E es" "linked E fs" "last_hash None es = last_hash None fs"
    and "\<forall>e \<in> set es \<union> set fs. ordinary_event e"
    and "inj_on (sha256Hex E) (hashed_text E ` (set es \<union> set fs))"
  shows "list_all2 same_event es fs"
  using assms
proof (induction es arbitrary: fs rule: rev_induct)
  case Nil
  then show ?case by (cases fs rule: rev_cases) (auto simp: linked_snoc last_hash_def)
next
  case (snoc e es)
  then obtain f fs' where fs: "fs = fs' @ [f]"
    by (cases fs rule: rev_cases) (auto simp: linked_snoc last_hash_def)
  have "inj_on (sha256Hex E) {hashed_text E e, hashed_text E f}"
    by (rule inj_on_subset [OF snoc.prems(5)]) (simp add: fs)
  with snoc.prems(1-4) have same: "same_event e f"
    unfolding fs by (intro same_hash_same_event) (simp_all add: linked_snoc last_hash_def)
  then have "ev_previousEventHash e = ev_previousEventHash f"
    by (rule same_event_previous)
  then have "last_hash None es = last_hash None fs'"
    using snoc.prems(1,2) fs by (simp add: linked_snoc)
  moreover have "inj_on (sha256Hex E) (hashed_text E ` (set es \<union> set fs'))"
    by (rule inj_on_subset [OF snoc.prems(5) [unfolded fs]]) auto
  ultimately have "list_all2 same_event es fs'"
    using snoc.prems(1,2,4) fs by (intro snoc.IH) (simp_all add: linked_snoc)
  with same show ?case unfolding fs by (simp add: list_all2_appendI)
qed

lemma last_hash_verified: "av_lastEventHash (verifyAuditEvents E es) = last_hash None es"
  by (simp add: verifyAuditEvents_def last_hash_def Let_def)

text \<open>C30: the last hash fixes the log: two logs that verify and end in the same hash have the same length and agree event
  by event in every field, the data up to the order of its members, if the digest has no collision among the texts
  that were hashed. So a log cannot be shortened, extended, reordered or edited behind a recorded last hash.\<close>

theorem audit_chain_tamper_evident:
  assumes "av_valid (verifyAuditEvents E es)" and "av_valid (verifyAuditEvents E fs)"
    and "av_lastEventHash (verifyAuditEvents E es) = av_lastEventHash (verifyAuditEvents E fs)"
    and "\<forall>e \<in> set es \<union> set fs. ordinary_event e"
    and "inj_on (sha256Hex E) (hashed_text E ` (set es \<union> set fs))"
  shows "list_all2 same_event es fs"
  using linked_same [OF _ _ _ assms(4,5)] assms(1-3) by (simp only: verify_linked last_hash_verified)

theorem audit_chain_tamper_evident_witness:
  "list_all2 same_event (al_rows (run_audit audit_env sample_ops)) (al_rows (run_audit audit_env sample_ops))"
proof (rule audit_chain_tamper_evident)
  let ?rows = "al_rows (run_audit audit_env sample_ops)"
  have valid: "av_valid (verifyAuditEvents audit_env ?rows)"
    unfolding verify_linked by (rule run_linked [OF sample_ops_clean audit_env_digest])
  then show "av_valid (verifyAuditEvents audit_env ?rows)" .
  show "inj_on (sha256Hex audit_env) (hashed_text audit_env ` (set ?rows \<union> set ?rows))"
    by (simp add: audit_env_def inj_on_def)
  show "\<forall>e \<in> set ?rows \<union> set ?rows. ordinary_event e"
    by (simp add: run_audit_def sample_ops_def openAuditLog_def append_unfold appendAuditEvent_def chained_fields
      sample_event_def ordinary_event_def audit_row_def)
qed (use run_linked [OF sample_ops_clean audit_env_digest] in \<open>simp_all only: verify_linked\<close>)

end
