(* ===== verification/GrantChecks.thy ===== *)
theory GrantChecks
  imports AuditChain Receipts StoreOutcome
begin

text \<open>
  The checks of \<open>security/execution-grants.ts\<close>: whether a grant, its attempt, its tool call, its receipt and its approval
  still belong together, and whether the caller is the MCP adapter the call came from
  (\<open>security/influence-scope.ts\<close>). Each check gives the label of the first disagreement.
\<close>

section \<open>Influence scopes\<close>

definition INFLUENCE_SCOPE_VERSION :: string where
  "INFLUENCE_SCOPE_VERSION = ''actionproxy.influence-scope.v1''"

record scope_binding =
  sb_adapterId :: string
  sb_principalId :: string
  sb_transport :: string
  sb_transportSessionId :: string
  sb_workspaceId :: string

definition bounded_text :: "string \<Rightarrow> bool" where
  \<comment> \<open>\<open>bounded\<close> does not throw\<close>
  "bounded_text v = (v \<noteq> [] \<and> js_trim v = v \<and> length (utf8_bytes v) \<le> 1024)"

definition scope_material :: "scope_binding \<Rightarrow> json" where
  "scope_material b = JObj
     [(''adapterId'', JStr (sb_adapterId b)), (''principalId'', JStr (sb_principalId b)), (''protocol'', JStr ''mcp''),
      (''transport'', JStr (sb_transport b)), (''transportSessionId'', JStr (sb_transportSessionId b)),
      (''version'', JStr INFLUENCE_SCOPE_VERSION), (''workspaceId'', JStr (sb_workspaceId b))]"

definition deriveInfluenceScopeId :: "env \<Rightarrow> scope_binding \<Rightarrow> string option" where
  \<comment> \<open>\<open>None\<close>: an \<open>Error\<close> is thrown\<close>
  "deriveInfluenceScopeId E b =
     (if bounded_text (sb_adapterId b) \<and> bounded_text (sb_principalId b) \<and> bounded_text (sb_transportSessionId b)
         \<and> bounded_text (sb_workspaceId b)
      then (case hashCanonicalJson E (scope_material b) of Inl _ \<Rightarrow> None | Inr h \<Rightarrow> Some (''influence_'' @ h))
      else None)"

definition uuid_shape :: "string \<Rightarrow> bool" where
  \<comment> \<open>\<open>/^[0-9a-f]{8}-[0-9a-f]{4}-[1-8][0-9a-f]{3}-[89ab][0-9a-f]{3}-[0-9a-f]{12}$/\<close>\<close>
  "uuid_shape v =
     (length v = 36
      \<and> list_all (\<lambda>i. if i \<in> {8, 13, 18, 23} then v ! i = CHR ''-'' else lower_hex (v ! i)) [0..<36]
      \<and> v ! 14 \<in> set ''12345678'' \<and> v ! 19 \<in> set ''89ab'')"

definition parseMcpWrapperSessionId :: "string option \<Rightarrow> string option" where
  "parseMcpWrapperSessionId value =
     (case value of
        None \<Rightarrow> None
      | Some v \<Rightarrow> if v = [] \<or> length (utf8_bytes v) \<noteq> 36 then None
                  else if \<not> uuid_shape v then None else Some v)"

section \<open>The source of a tool call\<close>

definition canonicalMcpSource :: "json \<Rightarrow> (string option \<times> string option) option" where
  \<comment> \<open>\<open>adapterId\<close> and \<open>type\<close>\<close>
  "canonicalMcpSource trace =
     (let evidence = jget trace ''canonicalRequestEvidence''; sourceField = jget evidence ''source'';
          value = jget sourceField ''value''
      in if \<not> isJsonObject trace \<or> \<not> isJsonObject evidence then None
         else if \<not> isJsonObject sourceField \<or> \<not> isJsonObject value then None
         else Some (jstring (jget value ''adapterId''), jstring (jget value ''type'')))"

definition object_or_undef :: "json \<Rightarrow> json" where
  \<comment> \<open>\<open>isJsonObject(v) ? v : undefined\<close>\<close>
  "object_or_undef v = (if isJsonObject v then v else JUndef)"

fun js_String :: "json \<Rightarrow> string" where
  \<comment> \<open>\<open>String(value)\<close>\<close>
  "js_String JUndef = ''undefined''"
| "js_String JNull = ''null''"
| "js_String (JBool b) = (if b then ''true'' else ''false'')"
| "js_String (JNum n) = (case n of Dec m e \<Rightarrow> number_to_string m e | NaN \<Rightarrow> ''NaN'' | PosInf \<Rightarrow> ''Infinity'' | NegInf \<Rightarrow> ''-Infinity'')"
| "js_String (JStr s) = s"
| "js_String (JArr vs) = join_with '','' (map (\<lambda>v. if nullish v then [] else js_String v) vs)"
| "js_String (JObj kvs) = ''[object Object]''"

definition authoritativeInfluenceScopeId :: "tool_call \<Rightarrow> string option" where
  "authoritativeInfluenceScopeId t =
     (let trace = tc_decisionTrace t; evidence = jget trace ''canonicalRequestEvidence''
      in if \<not> isJsonObject trace \<or> \<not> isJsonObject evidence then None
         else
           let source = object_or_undef (jget (object_or_undef (jget evidence ''source'')) ''value'');
               protocol = jget (object_or_undef (jget evidence ''sourceProtocol'')) ''value'';
               tenant = object_or_undef (jget (object_or_undef (jget evidence ''tenant'')) ''value'');
               session = object_or_undef (jget evidence ''session'');
               provenance = object_or_undef (jget session ''provenance'');
               sessionValue = object_or_undef (jget session ''value'');
               envelope = tc_actionEnvelope t
           in if jget source ''type'' \<noteq> JStr ''mcp''
                \<or> jstring (jget source ''adapterId'') = None
                \<or> protocol \<noteq> JStr ''mcp''
                \<or> jget tenant ''id'' \<noteq> JStr (default_ws (tc_workspaceId t))
                \<or> jget session ''present'' \<noteq> JBool True
                \<or> jget provenance ''source'' \<noteq> JStr ''actionproxy.verified-mcp-influence-scope''
                \<or> js_String (jget provenance ''trust'') \<notin> {''derived'', ''externally_verified'', ''trusted''}
                \<or> jget sessionValue ''sessionId'' \<noteq> jopt JStr (tc_influenceScopeId t)
                \<or> tc_influenceScopeId t = None
                \<or> \<not> is_influence_scope_id (the (tc_influenceScopeId t))
                \<or> jget envelope ''protocol'' \<noteq> JStr ''mcp''
                \<or> jget (jget envelope ''source'') ''type'' \<noteq> JStr ''mcp''
                \<or> jget (jget envelope ''source'') ''id'' \<noteq> jget source ''adapterId''
              then None else tc_influenceScopeId t)"

definition mcp_stdio :: "string option \<Rightarrow> bool" where
  "mcp_stdio adapterId = (case adapterId of None \<Rightarrow> False | Some a \<Rightarrow> startsWith a ''mcp-stdio:'')"

datatype service_error =
    NotFoundError string
  | ForbiddenError string
  | ConflictError string
  | OtherError string

definition assertMcpAdapterAuthorization ::
  "env \<Rightarrow> tool_call \<Rightarrow> auth_context \<Rightarrow> string option \<Rightarrow> service_error option" where
  "assertMcpAdapterAuthorization E t auth wrapperSessionId =
     (let source = canonicalMcpSource (tc_decisionTrace t);
          hasVerifiedScope = (case tc_influenceScopeId t of None \<Rightarrow> False | Some i \<Rightarrow> is_influence_scope_id i);
          authoritative = authoritativeInfluenceScopeId t
      in if Option.bind source snd \<noteq> Some ''mcp''
         then (if hasVerifiedScope
               then Some (ForbiddenError ''MCP execution grant has inconsistent authoritative source evidence.'') else None)
         else if \<not> hasVerifiedScope \<or> \<not> truthy authoritative
         then Some (ForbiddenError ''MCP execution grant lacks consistent verified influence-scope evidence.'')
         else if \<not> mcp_stdio (Option.bind source fst)
         then Some (ForbiddenError ''External MCP execution grants require the authenticated stdio wrapper adapter.'')
         else
           let adapterId = the (Option.bind source fst);
               originating = tc_requestedByAuth t;
               originClient = Option.bind originating au_clientId;
               sameClient = (\<not> truthy originClient \<or> (truthy (au_clientId auth) \<and> au_clientId auth = originClient));
               samePrincipal = (map_option au_principalId originating = Some (au_principalId auth))
           in if originating = None \<or> \<not> sameClient \<or> \<not> samePrincipal
                \<or> au_workspaceId (the originating) \<noteq> au_workspaceId auth
              then Some (ForbiddenError ''MCP execution grant belongs to another authenticated adapter.'')
              else if \<not> truthy wrapperSessionId
              then Some (ForbiddenError ''MCP execution grant requires its originating wrapper session.'')
              else (case deriveInfluenceScopeId E
                       \<lparr>sb_adapterId = adapterId, sb_principalId = au_principalId auth, sb_transport = ''stdio'',
                        sb_transportSessionId = the wrapperSessionId, sb_workspaceId = au_workspaceId auth\<rparr> of
                  None \<Rightarrow> Some (OtherError ''Influence scope must be a non-empty bounded string.'')
                | Some expected \<Rightarrow>
                    if authoritative \<noteq> Some expected
                    then Some (ForbiddenError ''MCP execution grant belongs to another verified influence scope.'')
                    else None))"

definition has_result_source :: "tool_call \<Rightarrow> bool" where
  \<comment> \<open>\<open>Boolean(toolCall.resultSource && toolCall.resultSource !== 'none')\<close>\<close>
  "has_result_source t = (case tc_resultSource t of Some (ResultFrom _) \<Rightarrow> True | _ \<Rightarrow> False)"

definition requiresMcpResultDelivery :: "tool_call \<Rightarrow> bool" where
  "requiresMcpResultDelivery t =
     (Option.bind (canonicalMcpSource (tc_decisionTrace t)) snd = Some ''mcp'' \<and> has_result_source t)"

definition contentExposureRevisionGuard :: "env \<Rightarrow> tool_call \<Rightarrow> revision_guard option" where
  "contentExposureRevisionGuard E t =
     (case validatedContentExposureRevisionGuard E (tc_contentInfluence t) (authoritativeInfluenceScopeId t) of
        None \<Rightarrow> None
      | Some (scope, revision) \<Rightarrow> Some \<lparr>rg_influenceScopeId = scope, rg_revision = num_trunc revision\<rparr>)"

section \<open>The decision a tool call carries\<close>

definition decision_material :: "json \<Rightarrow> json" where
  \<comment> \<open>\<open>identityMaterial\<close>\<close>
  "decision_material candidate =
     (let policy = jget candidate ''policy''; provider = jget policy ''provider''
      in JObj
        [(''approvalRequirements'', jget candidate ''approvalRequirements''),
         (''decisionInputHash'', jget candidate ''decisionInputHash''),
         (''matchedPolicies'', jget candidate ''matchedPolicies''),
         (''obligations'', jget candidate ''obligations''), (''outcome'', jget candidate ''outcome''),
         (''policy'', JObj
            [(''digest'', jget policy ''digest''), (''digestAlgorithm'', jget policy ''digestAlgorithm''),
             (''providerId'', jget provider ''id''), (''providerVersion'', jget provider ''version''),
             (''schemaVersion'', jget policy ''schemaVersion''), (''status'', jget provider ''status''),
             (''version'', jget policy ''version'')]),
         (''reasonCodes'', jget candidate ''reasonCodes''), (''requestId'', jget candidate ''requestId''),
         (''tenantId'', jget candidate ''tenantId''), (''version'', jget candidate ''version'')])"

record grant_decision =
  gd_decisionId :: string
  gd_decisionInputHash :: string
  gd_outcome :: "policy_decision option"

definition decisionIdentity_grant :: "env \<Rightarrow> tool_call \<Rightarrow> grant_decision option" where
  "decisionIdentity_grant E t =
     (let candidate = jget (tc_decisionTrace t) ''decisionV1'';
          policy = jget candidate ''policy''; provider = jget policy ''provider''
      in if \<not> isJsonObject candidate \<or> jget candidate ''version'' \<noteq> JStr ''actionproxy.decision.v1'' then None
         else if jstring (jget candidate ''decisionId'') = None
           \<or> jstring (jget candidate ''decisionInputHash'') = None
           \<or> jstring (jget candidate ''requestId'') = None
           \<or> jstring (jget candidate ''tenantId'') = None
           \<or> \<not> isPolicyDecision (jget candidate ''outcome'') then None
         else if jget candidate ''requestId'' \<noteq> JStr (tc_id t)
           \<or> jget candidate ''tenantId'' \<noteq> JStr (default_ws (tc_workspaceId t))
           \<or> jget candidate ''decisionInputHash'' \<noteq> jopt JStr (tc_canonicalDecisionInputHash t)
           \<or> jget candidate ''outcome'' \<noteq> jopt (JStr \<circ> decision_name) (tc_decision t)
           \<or> \<not> isJsonObject policy \<or> \<not> isJsonObject provider
           \<or> jget policy ''digest'' \<noteq> jopt JStr (tc_policyVersionHash t)
           \<or> jget policy ''version'' \<noteq> jopt JStr (tc_policyVersionId t)
           \<or> jget provider ''status'' \<noteq> JStr ''ok'' then None
         else (case hashCanonicalJson E (decision_material candidate) of
                 Inl _ \<Rightarrow> None
               | Inr h \<Rightarrow>
                   if jget candidate ''decisionId'' \<noteq> JStr (''decision_'' @ h) then None
                   else Some \<lparr>gd_decisionId = ''decision_'' @ h,
                              gd_decisionInputHash = the (jstring (jget candidate ''decisionInputHash'')),
                              gd_outcome = tc_decision t\<rparr>))"

section \<open>The checks\<close>

definition attemptMatchesGrant :: "attempt \<Rightarrow> grant \<Rightarrow> bool \<Rightarrow> bool" where
  "attemptMatchesGrant att g requireGrantBinding =
     (at_executionMode att = ExternalGrant
      \<and> at_executorId att = ''actionproxy.external-runner''
      \<and> at_providerIdempotency att = ''none''
      \<and> at_retryPolicy att = ''never_automatic''
      \<and> at_workspaceId att = gr_workspaceId g
      \<and> at_toolCallId att = gr_toolCallId g
      \<and> at_inputHash att = gr_inputHash g
      \<and> ab_actionEnvelopeHash (at_binding att) = gr_approvedEnvelopeHash g
      \<and> ab_policyVersionHash (at_binding att) = gr_policyVersionHash g
      \<and> ab_receiptHash (at_binding att) = gr_receiptHash g
      \<and> ab_receiptId (at_binding att) = gr_receiptId g
      \<and> (\<not> requireGrantBinding \<or> at_grantId att = Some (gr_id g)))"

definition envelope_without_hash :: "json \<Rightarrow> json" where
  \<comment> \<open>\<open>{ ...envelope, envelopeHash: undefined }\<close>\<close>
  "envelope_without_hash v = (case v of JObj kvs \<Rightarrow> without [''envelopeHash''] kvs | _ \<Rightarrow> JObj [])"

definition currentToolCallMismatch ::
  "env \<Rightarrow> tool_call \<Rightarrow> attempt \<Rightarrow> grant \<Rightarrow> bool \<Rightarrow> string option" where
  \<comment> \<open>the last argument is \<open>options.allowAuthorizedTerminalRecovery\<close>\<close>
  "currentToolCallMismatch E t att g allowRecovery =
     (let decision = decisionIdentity_grant E t; b = at_binding att;
          storedInputHash = stored_input_hash E t; env = tc_actionEnvelope t;
          contentHash = validContentInfluenceBindingHash E (tc_contentInfluence t)
      in first_of
       [(default_ws (tc_workspaceId t) \<noteq> gr_workspaceId g, ''tenant_mismatch''),
        (tc_id t \<noteq> gr_toolCallId g \<or> tc_id t \<noteq> at_toolCallId att, ''tool_call_id_mismatch''),
        (tc_toolName t \<noteq> gr_toolName g, ''tool_name_mismatch''),
        (tc_status t \<noteq> Authorized \<and> \<not> (allowRecovery \<and> tc_status t \<in> {Executed, Failed}), ''tool_call_status_mismatch''),
        (requiresMcpResultDelivery t \<and> tc_status t = Authorized \<and> tc_resultWithheld t \<noteq> Some True,
         ''classified_result_not_prewithheld''),
        (tc_decision t \<noteq> Some Allow \<and> tc_decision t \<noteq> Some RequireApproval, ''decision_outcome_mismatch''),
        (storedInputHash \<noteq> hashJson E (tc_input t) \<or> storedInputHash \<noteq> gr_inputHash g, ''input_hash_mismatch''),
        (jtruthy env \<and> jget env ''executionMode'' \<noteq> JStr ''external_grant'', ''execution_mode_mismatch''),
        (jtruthy env \<and> jget env ''toolName'' \<noteq> JStr (tc_toolName t), ''action_envelope_tool_mismatch''),
        (jtruthy env \<and> jget env ''inputHash'' \<noteq> JStr storedInputHash, ''action_envelope_input_mismatch''),
        (jtruthy env \<and> jget env ''envelopeHash'' \<noteq> JStr (hashJson E (envelope_without_hash env)),
         ''action_envelope_integrity_mismatch''),
        (tc_actionEnvelopeHash t \<noteq> ab_actionEnvelopeHash b, ''action_envelope_hash_mismatch''),
        (tc_canonicalActionRequestHash t \<noteq> ab_canonicalActionRequestHash b, ''canonical_request_hash_mismatch''),
        (tc_canonicalActionRequestVersion t \<noteq> ab_canonicalActionRequestVersion b, ''canonical_request_version_mismatch''),
        (or_else (tc_canonicalDecisionInputHash t) (map_option gd_decisionInputHash decision)
           \<noteq> ab_canonicalDecisionInputHash b, ''decision_input_hash_mismatch''),
        (jget (tc_decisionTrace t) ''decisionV1'' \<noteq> JUndef \<and> decision = None, ''decision_trace_malformed''),
        (map_option gd_decisionId decision \<noteq> ab_decisionId b, ''decision_id_mismatch''),
        (map_option (\<lambda>d. ''actionproxy.decision.v1'') decision \<noteq> ab_decisionVersion b, ''decision_version_mismatch''),
        (decision \<noteq> None \<and> gd_outcome (the decision) \<noteq> tc_decision t, ''decision_trace_outcome_mismatch''),
        (tc_policyVersionHash t \<noteq> ab_policyVersionHash b, ''policy_hash_mismatch''),
        (tc_contentInfluence t \<noteq> None \<and> \<not> truthy contentHash, ''content_influence_binding_invalid''),
        (contentHash \<noteq> Option.bind (ab_contentInfluenceBindingHash b) id, ''content_influence_binding_mismatch''),
        (tc_influenceScopeId t \<noteq> Option.bind (ab_influenceScopeId b) id, ''influence_scope_mismatch''),
        (Some (hashJson E (result_source_json t)) \<noteq> ab_resultSourceHash b, ''result_source_mismatch'')])"

definition currentReceiptMismatch ::
  "env \<Rightarrow> int \<Rightarrow> receipt option \<Rightarrow> tool_call \<Rightarrow> attempt \<Rightarrow> grant \<Rightarrow> string option" where
  "currentReceiptMismatch E now receipt t att g =
     (let b = at_binding att
      in case receipt of
           None \<Rightarrow> (if truthy (gr_receiptId g) \<or> truthy (ab_receiptId b) then Some ''receipt_not_found'' else None)
         | Some r \<Rightarrow> first_of
            [(rc_workspaceId r \<noteq> at_workspaceId att, ''receipt_tenant_mismatch''),
             (rc_toolCallId r \<noteq> tc_id t \<or> Some (rc_id r) \<noteq> ab_receiptId b, ''receipt_identity_mismatch''),
             (rc_toolName r \<noteq> tc_toolName t, ''receipt_tool_mismatch''),
             (rc_executionMode r \<noteq> ExternalGrant, ''receipt_execution_mode_mismatch''),
             (truthy (rc_expiresAt r) \<and> reached (Some now) (dateParse E (the (rc_expiresAt r))), ''receipt_expired''),
             (Some (rc_receiptHash r) \<noteq> ab_receiptHash b \<or> Some (rc_receiptHash r) \<noteq> gr_receiptHash g,
              ''receipt_hash_mismatch''),
             (rc_approvedInputHash r \<noteq> at_inputHash att \<or> rc_approvedInputHash r \<noteq> gr_inputHash g,
              ''receipt_input_hash_mismatch''),
             (Some (rc_approvedEnvelopeHash r) \<noteq> ab_actionEnvelopeHash b
                \<or> Some (rc_approvedEnvelopeHash r) \<noteq> gr_approvedEnvelopeHash g, ''receipt_envelope_hash_mismatch''),
             (rc_policyDecision r \<noteq> tc_decision t, ''receipt_decision_mismatch''),
             (rc_policyVersionHash r \<noteq> tc_policyVersionHash t, ''receipt_policy_hash_mismatch''),
             (rc_policyVersionId r \<noteq> tc_policyVersionId t, ''receipt_policy_version_mismatch''),
             (rc_approvalId r \<noteq> ab_approvalId b, ''receipt_approval_mismatch'')])"

definition currentApprovalMismatch ::
  "env \<Rightarrow> int \<Rightarrow> approval option \<Rightarrow> tool_call \<Rightarrow> attempt \<Rightarrow> grant \<Rightarrow> string option" where
  "currentApprovalMismatch E now approval t att g =
     (let b = at_binding att
      in case approval of
           None \<Rightarrow> Some ''approval_not_found''
         | Some ap \<Rightarrow>
             if ap_status ap \<noteq> Approval_Approved then Some ''approval_status_mismatch''
             else if ap_authorizationConsumedReason ap \<noteq> Some ReasonApproved \<or> \<not> truthy (ap_authorizationConsumedAt ap)
             then Some ''approval_nonce_not_consumed''
             else (case ap_authorization ap of
                 None \<Rightarrow> Some ''approval_authorization_invalid''
               | Some a \<Rightarrow>
                   let stale = first_of
                     [(\<not> isValidApprovalAuthorization E (encode_authorization a), ''approval_authorization_invalid''),
                      (approvalAuthorizationExpired E a now, ''approval_authorization_expired''),
                      (Some (az_authorizationHash a) \<noteq> ab_approvalAuthorizationHash b, ''approval_authorization_hash_mismatch''),
                      (Some (az_nonce a) \<noteq> ab_approvalAuthorizationNonce b, ''approval_authorization_nonce_mismatch''),
                      (default_ws (ap_workspaceId ap) \<noteq> at_workspaceId att, ''approval_tenant_mismatch''),
                      (ap_toolCallId ap \<noteq> tc_id t \<or> Some (ap_id ap) \<noteq> ab_approvalId b, ''approval_identity_mismatch''),
                      (ap_approvedInputHash ap \<noteq> Some (gr_inputHash g) \<or> ap_approvedInputHash ap \<noteq> Some (at_inputHash att),
                       ''approved_input_hash_mismatch''),
                      (ap_approvedEnvelopeHash ap \<noteq> ab_actionEnvelopeHash b
                         \<or> ap_approvedEnvelopeHash ap \<noteq> gr_approvedEnvelopeHash g, ''approved_envelope_hash_mismatch'')]
                   in if stale \<noteq> None then stale
                      else approvalAuthorizationMismatch E a ap (original_tool_call ap t)))"

end
