(* ===== verification/Grants.thy ===== *)
theory Grants
  imports GrantChecks
begin

text \<open>
  The class \<open>ExecutionGrantService\<close> (\<open>security/execution-grants.ts\<close>): preparing, creating and consuming a grant. Its
  methods await the store between reads. \<open>rest i\<close> is what everybody else does to the world while the method waits
  for the \<open>i\<close>-th time, \<open>clock i\<close> the \<open>i\<close>-th reading of the clock, \<open>ids i\<close> the \<open>i\<close>-th random identifier.
\<close>

section \<open>The world of the service\<close>

record world =
  w_store :: store
  w_audit :: audit_log
  w_exec :: exec_authority
  w_native :: native_authority

type_synonym interference = "nat \<Rightarrow> world \<Rightarrow> world"

definition undisturbed :: interference where
  "undisturbed i w = w"

record grant_service =
  \<comment> \<open>the constructor's arguments and what was installed later\<close>
  sv_secret :: string
  sv_ttlSeconds :: int
  sv_currentPolicyVersionHash :: "string option"
  sv_beforeDispatch :: "(tool_call \<Rightarrow> json \<Rightarrow> auth_context \<Rightarrow> world \<Rightarrow> service_error option \<times> world) option"
  sv_nativeVerifier :: bool
  sv_preparedNativeWriteRequired :: "(string \<Rightarrow> bool) option"
  sv_coordinator :: "(dispatch_input \<Rightarrow> attempt \<Rightarrow> grant \<Rightarrow> tool_call \<Rightarrow> world \<Rightarrow> dispatch_result \<times> world) option"

definition append_audit :: "env \<Rightarrow> audit_event \<Rightarrow> world \<Rightarrow> world" where
  "append_audit E e w = w\<lparr>w_audit := appendChained E e (w_audit w)\<rparr>"

definition grant_event ::
  "string \<Rightarrow> string \<Rightarrow> string \<Rightarrow> auth_context option \<Rightarrow> string \<Rightarrow> string \<Rightarrow> string option \<Rightarrow> string option \<Rightarrow> string
    \<Rightarrow> (string \<times> json) list \<Rightarrow> audit_event" where
  "grant_event i ty actor auth workspaceId toolCallId inputHash policyVersionHash timestamp data =
     \<lparr>ev_id = i, ev_type = ty, ev_workspaceId = Some workspaceId, ev_toolCallId = Some toolCallId, ev_approvalId = None,
      ev_actor = Some actor, ev_auth = auth, ev_inputHash = inputHash, ev_policyVersionId = None,
      ev_policyVersionHash = policyVersionHash, ev_previousEventHash = None, ev_eventHash = None,
      ev_timestamp = timestamp, ev_data = JObj data\<rparr>"

definition on_store :: "(store \<Rightarrow> 'a \<times> store) \<Rightarrow> world \<Rightarrow> 'a \<times> world" where
  "on_store f w = (let (a, s) = f (w_store w) in (a, w\<lparr>w_store := s\<rparr>))"

section \<open>Preparing and creating a grant\<close>

record prepare_input =
  pg_actor :: string
  pg_auth :: "auth_context option"
  pg_deterministicSeed :: "string option"
  pg_issuedAt :: "string option"
  pg_receipt :: "receipt option"
  pg_toolCall :: tool_call
  pg_ttlSeconds :: "int option"

definition prepareGrant ::
  "env \<Rightarrow> grant_service \<Rightarrow> int \<Rightarrow> string \<Rightarrow> string \<Rightarrow> prepare_input \<Rightarrow> service_error + grant" where
  \<comment> \<open>\<open>now\<close>, \<open>uuid\<close> and \<open>token\<close> are \<open>Date.now()\<close>, \<open>randomUUID()\<close> and \<open>randomToken(18)\<close>\<close>
  "prepareGrant E sv now uuid token i =
     (case (case pg_issuedAt i of None \<Rightarrow> Some now | Some s \<Rightarrow> dateParse E s) of
        None \<Rightarrow> Inl (OtherError ''Execution grant issuedAt must be a valid timestamp.'')
      | Some issued \<Rightarrow>
          let expires = issued + coalesce (pg_ttlSeconds i) (sv_ttlSeconds sv) * 1000
          in if \<not> valid_time expires then Inl (OtherError ''Invalid time value'')
             else
               let deterministic = (if truthy (pg_deterministicSeed i)
                     then Some (hmacSha256Hex E (sv_secret sv) (''prepared-execution-grant:'' @ the (pg_deterministicSeed i)))
                     else None);
                   t = pg_toolCall i; r = pg_receipt i;
                   g = \<lparr>gr_id = ''grant_'' @ (case deterministic of None \<Rightarrow> uuid | Some d \<Rightarrow> take 32 d),
                     gr_workspaceId = coalesce (or_else (tc_workspaceId t) (map_option au_workspaceId (pg_auth i))) ''default'',
                     gr_toolCallId = tc_id t, gr_toolName = tc_toolName t, gr_inputHash = stored_input_hash E t,
                     gr_approvedEnvelopeHash = map_option rc_approvedEnvelopeHash r,
                     gr_approvedInputHash = map_option rc_approvedInputHash r,
                     gr_policyVersionHash = tc_policyVersionHash t,
                     gr_receiptHash = map_option rc_receiptHash r, gr_receiptId = map_option rc_id r,
                     gr_actor = pg_actor i, gr_auth = pg_auth i, gr_expiresAt = isoString E expires,
                     gr_nonce = (case deterministic of None \<Rightarrow> token | Some d \<Rightarrow> drop 32 d), gr_signature = [],
                     gr_consumedAt = None, gr_createdAt = isoString E issued\<rparr>
               in Inr (g\<lparr>gr_signature := signGrant E (sv_secret sv) g\<rparr>))"

definition recordPreparedGrantCreated ::
  "env \<Rightarrow> grant \<Rightarrow> string \<Rightarrow> auth_context option \<Rightarrow> string \<Rightarrow> world \<Rightarrow> world" where
  \<comment> \<open>\<open>auditId\<close> is the given identifier or a random one\<close>
  "recordPreparedGrantCreated E g actor auth auditId w =
     append_audit E (grant_event auditId ''execution_grant.created'' actor auth (gr_workspaceId g) (gr_toolCallId g)
       (Some (gr_inputHash g)) (gr_policyVersionHash g) (gr_createdAt g)
       [(''expiresAt'', JStr (gr_expiresAt g)), (''grantId'', JStr (gr_id g)),
        (''receiptHash'', jnullable (gr_receiptHash g)), (''receiptId'', jnullable (gr_receiptId g)),
        (''inputHash'', JStr (gr_inputHash g)), (''toolName'', JStr (gr_toolName g))]) w"

definition createGrant ::
  "env \<Rightarrow> grant_service \<Rightarrow> interference \<Rightarrow> (nat \<Rightarrow> int) \<Rightarrow> (nat \<Rightarrow> string) \<Rightarrow> prepare_input \<Rightarrow> world
    \<Rightarrow> (service_error + grant) \<times> world" where
  "createGrant E sv rest clock ids i w =
     (case prepareGrant E sv (clock 0) (ids 0) (ids 1) (i\<lparr>pg_deterministicSeed := None, pg_issuedAt := None\<rparr>) of
        Inl e \<Rightarrow> (Inl e, w)
      | Inr signed \<Rightarrow>
          let w1 = rest 0 (w\<lparr>w_store := createExecutionGrant signed (w_store w)\<rparr>);
              attempt = getExecutionAttemptByToolCallId (w_store w1) (gr_workspaceId signed) (gr_toolCallId signed)
          in case attempt of
               None \<Rightarrow> (Inl (ConflictError ''Execution grant is not bound to a current reserved execution attempt.''), w1)
             | Some a \<Rightarrow>
                 if at_state a \<noteq> Reserved \<or> \<not> attemptMatchesGrant a signed False
                 then (Inl (ConflictError ''Execution grant is not bound to a current reserved execution attempt.''), w1)
                 else
                   let (binding, w2) = on_store (bindExecutionAttemptGrantAtomically
                         \<lparr>gi_attemptId = at_id a, gi_grantId = gr_id signed, gi_reservationOwner = at_reservationOwner a,
                          gi_updatedAt = gr_createdAt signed, gi_workspaceId = gr_workspaceId signed\<rparr>) (rest 1 w1)
                   in if fst binding \<noteq> Gb_Bound
                        \<and> \<not> (fst binding = Gb_AlreadyBound \<and> Option.bind (snd binding) at_grantId = Some (gr_id signed))
                      then (Inl (ConflictError ''Execution grant could not bind its reserved execution attempt.''), w2)
                      else (Inr signed, recordPreparedGrantCreated E signed (pg_actor i) (pg_auth i)
                             (''audit_'' @ ids 2) (rest 2 w2)))"

section \<open>Consuming a grant\<close>

record consume_input =
  cg_input :: json
  cg_policyVersionHash :: "string option"
  cg_toolCallId :: string
  cg_toolName :: string

record continuation =
  co_native :: "native_authorization option"
  co_wrapperSessionId :: "string option"

definition grant_failure ::
  "env \<Rightarrow> grant_service \<Rightarrow> int \<Rightarrow> grant \<Rightarrow> consume_input \<Rightarrow> auth_context \<Rightarrow> service_error option" where
  \<comment> \<open>the checks on the grant itself\<close>
  "grant_failure E sv now g i auth =
     (let active = sv_currentPolicyVersionHash sv in first_of
       [(gr_workspaceId g \<noteq> au_workspaceId auth, ForbiddenError ''Execution grant is not in this workspace.''),
        (truthy (gr_consumedAt g), ConflictError ''Execution grant has already been consumed.''),
        (reached (Some now) (dateParse E (gr_expiresAt g)), ConflictError ''Execution grant has expired.''),
        (gr_toolCallId g \<noteq> cg_toolCallId i \<or> gr_toolName g \<noteq> cg_toolName i,
         ForbiddenError ''Execution grant does not match the requested tool call.''),
        (truthy (gr_policyVersionHash g) \<and> \<not> truthy active,
         ForbiddenError ''Execution grant cannot be dispatched because the active policy identity is unavailable.''),
        (truthy (gr_policyVersionHash g) \<and> truthy active \<and> gr_policyVersionHash g \<noteq> active,
         ForbiddenError ''Execution grant policy version is no longer active.''),
        (truthy (gr_policyVersionHash g) \<and> truthy (cg_policyVersionHash i) \<and> gr_policyVersionHash g \<noteq> cg_policyVersionHash i,
         ForbiddenError ''Execution grant policy version does not match.''),
        (gr_inputHash g \<noteq> hashJson E (cg_input i), ForbiddenError ''Execution grant input hash does not match.''),
        (\<not> safeEqual (gr_signature g) (signGrant E (sv_secret sv) g), ForbiddenError ''Execution grant signature is invalid.'')])"

definition grant_receipt_failure :: "env \<Rightarrow> string \<Rightarrow> grant \<Rightarrow> receipt option \<Rightarrow> service_error option" where
  "grant_receipt_failure E secret g receipt =
     (case receipt of
        None \<Rightarrow> Some (ForbiddenError ''Execution grant receipt was not found.'')
      | Some r \<Rightarrow> first_of
         [(\<not> verifyReceipt E secret r, ForbiddenError ''Execution grant receipt signature is invalid.''),
          (truthy (gr_receiptHash g) \<and> gr_receiptHash g \<noteq> Some (rc_receiptHash r),
           ForbiddenError ''Execution grant receipt hash does not match.''),
          (truthy (gr_approvedInputHash g) \<and> gr_approvedInputHash g \<noteq> Some (rc_approvedInputHash r),
           ForbiddenError ''Execution grant approved input hash does not match.''),
          (truthy (gr_approvedEnvelopeHash g) \<and> gr_approvedEnvelopeHash g \<noteq> Some (rc_approvedEnvelopeHash r),
           ForbiddenError ''Execution grant approved envelope hash does not match.'')])"

definition prepared_action :: "tool_call \<Rightarrow> bool" where
  \<comment> \<open>\<open>toolCall.actionEnvelope?.preparedAction\<close> in a boolean position\<close>
  "prepared_action t = jtruthy (jget (tc_actionEnvelope t) ''preparedAction'')"

definition intent_hash :: "tool_call \<Rightarrow> string option" where
  "intent_hash t = jstring (jget (jget (tc_actionEnvelope t) ''preparedAction'') ''intentHash'')"

definition native_error_code :: "native_error \<Rightarrow> string" where
  "native_error_code e = (case e of InvalidCapability \<Rightarrow> ''invalid_capability'' | AlreadyConsumed \<Rightarrow> ''already_consumed''
     | BindingMismatch \<Rightarrow> ''binding_mismatch'')"

definition native_check ::
  "env \<Rightarrow> grant_service \<Rightarrow> authorization_phase \<Rightarrow> tool_call \<Rightarrow> attempt \<Rightarrow> grant \<Rightarrow> auth_context \<Rightarrow> continuation \<Rightarrow> world
    \<Rightarrow> service_error option \<times> world" where
  \<comment> \<open>the caller is the native executor with its authorization, or the MCP adapter the call came from\<close>
  "native_check E sv phase t att g auth c w =
     (let suffix = (case phase of DispatchPhase \<Rightarrow> [] | OutcomePhase \<Rightarrow> '' outcome'')
      in case co_native c of
        Some a \<Rightarrow>
          if \<not> truthy (intent_hash t) \<or> \<not> sv_nativeVerifier sv
          then (Some (ForbiddenError (''Native execution'' @ suffix @ '' authorization is unavailable for this action.'')), w)
          else (case consumeNative E a
                  \<lparr>nb_attemptId = at_id att, nb_grantId = gr_id g, nb_intentHash = the (intent_hash t), nb_phase = phase,
                   nb_toolCallId = tc_id t, nb_workspaceId = gr_workspaceId g\<rparr> (w_native w) of
              (Inl e, n) \<Rightarrow> (Some (ForbiddenError (''Native execution'' @ suffix @ '' authorization was rejected: ''
                               @ native_error_code e @ ''.'')), w\<lparr>w_native := n\<rparr>)
            | (Inr _, n) \<Rightarrow> (None, w\<lparr>w_native := n\<rparr>))
      | None \<Rightarrow>
          if prepared_action t
          then (Some (ForbiddenError (case phase of
                 DispatchPhase \<Rightarrow> ''Prepared native actions require server-owned native execution authorization.''
               | OutcomePhase \<Rightarrow> ''Prepared native action outcomes require server-owned native execution authorization.'')), w)
          else (assertMcpAdapterAuthorization E t auth (co_wrapperSessionId c), w))"

definition exec_error :: "exec_auth_error \<Rightarrow> service_error" where
  "exec_error e = (case e of
       ExecBindingMismatch _ \<Rightarrow> ForbiddenError ''Execution grant authorization was rejected: execution_authorization_binding_mismatch.''
     | ExecExpired \<Rightarrow> ForbiddenError ''Execution grant authorization was rejected: execution_authorization_expired.''
     | ExecInvalid \<Rightarrow> ForbiddenError ''Execution grant authorization was rejected: execution_authorization_invalid.''
     | ExecReplayed \<Rightarrow> ForbiddenError ''Execution grant authorization was rejected: execution_authorization_replayed.''
     | ExecPlainError m \<Rightarrow> OtherError m)"

definition authorize_once ::
  "env \<Rightarrow> (nat \<Rightarrow> int) \<Rightarrow> string \<Rightarrow> approval option \<Rightarrow> attempt \<Rightarrow> tool_call \<Rightarrow> jsnum \<Rightarrow> exec_authority
    \<Rightarrow> (service_error + projection) \<times> exec_authority" where
  \<comment> \<open>build the binding, issue an authorization for it and consume it at once\<close>
  "authorize_once E clock freshId approval att t ttl x =
     (case buildExecutionAuthorizationBinding E (clock 4) approval att t of
        Inl e \<Rightarrow> (Inl (exec_error e), x)
      | Inr b \<Rightarrow>
          (case issueExecution E b \<lparr>ak_now = Some (clock 5), ak_id = ''execauth_'' @ freshId, ak_ttl = Some ttl,
                  ak_capabilities = JUndef\<rparr> x of
             (Inl e, x1) \<Rightarrow> (Inl (exec_error e), x1)
           | (Inr token, x1) \<Rightarrow>
               (case consumeExecution E token b \<lparr>ak_now = Some (clock 6), ak_id = [], ak_ttl = None,
                       ak_capabilities = JUndef\<rparr> x1 of
                  (Inl e, x2) \<Rightarrow> (Inl (exec_error e), x2)
                | (Inr p, x2) \<Rightarrow> (Inr p, x2))))"

definition grant_ttl :: "env \<Rightarrow> grant \<Rightarrow> int \<Rightarrow> int option" where
  \<comment> \<open>\<open>Date.parse(grant.expiresAt) - Date.now()\<close>\<close>
  "grant_ttl E g now = map_option (\<lambda>x. x - now) (dateParse E (gr_expiresAt g))"

definition authorization_ttl :: "int option \<Rightarrow> jsnum" where
  \<comment> \<open>\<open>Math.min(DEFAULT_EXECUTION_AUTHORIZATION_TTL_MS, grantTtlMs)\<close>\<close>
  "authorization_ttl ttl = (case ttl of None \<Rightarrow> NaN | Some n \<Rightarrow> num_of_int (min 60000 n))"

definition dispatch_grant ::
  "env \<Rightarrow> grant_service \<Rightarrow> (nat \<Rightarrow> int) \<Rightarrow> (nat \<Rightarrow> string) \<Rightarrow> string \<Rightarrow> auth_context \<Rightarrow> json \<Rightarrow>
    grant \<Rightarrow> attempt \<Rightarrow> tool_call \<Rightarrow> approval option \<Rightarrow> world \<Rightarrow> (service_error + (grant \<times> attempt \<times> projection)) \<times> world" where
  \<comment> \<open>from the time to live of the grant to the durable transition, without an await in between\<close>
  "dispatch_grant E sv clock ids grantId auth input g att t approval w =
     (let ttl = grant_ttl E g (clock 3)
      in if (case ttl of None \<Rightarrow> False | Some n \<Rightarrow> n \<le> 0) then (Inl (ConflictError ''Execution grant has expired.''), w)
         else (case authorize_once E clock (ids 0) approval att t (authorization_ttl ttl) (w_exec w) of
            (Inl e, x) \<Rightarrow> (Inl e, w\<lparr>w_exec := x\<rparr>)
          | (Inr p, x) \<Rightarrow>
              let w1 = w\<lparr>w_exec := x\<rparr>;
                  di = \<lparr>dp_attemptId = at_id att, dp_dispatchedAt = isoString E (clock 7), dp_grantId = gr_id g,
                        dp_reservationOwner = at_reservationOwner att, dp_toolCallId = gr_toolCallId g,
                        dp_workspaceId = gr_workspaceId g,
                        dp_contentExposureRevision = contentExposureRevisionGuard E t\<rparr>;
                  (d, w2) = (case sv_coordinator sv of
                      Some dispatch \<Rightarrow> dispatch di att g t w1
                    | None \<Rightarrow> on_store (consumeExecutionGrantAndDispatchAttemptAtomically di) w1)
              in if dr_outcome d = Dp_GrantNotFound
                 then (Inl (NotFoundError (''Execution grant not found: '' @ grantId)), w2)
                 else if dr_outcome d = Dp_GrantAlreadyConsumed
                 then (Inl (ConflictError ''Execution grant has already been consumed.''), w2)
                 else if dr_outcome d = Dp_ContentInfluenceMismatch
                 then (Inl (ForbiddenError ''Content-influence evidence changed at the dispatch boundary.''),
                       append_audit E (grant_event (''audit_'' @ ids 1) ''content.influence_binding_stale''
                         ''actionproxy:content-influence'' (Some auth) (gr_workspaceId g) (gr_toolCallId g)
                         (Some (hashJson E input)) (gr_policyVersionHash g) (isoString E (clock 8))
                         [(''expectedExposureRevision'', (case tc_contentInfluence t of None \<Rightarrow> JNull
                             | Some e \<Rightarrow> JNum (ci_exposureRevision e))),
                          (''influenceScopeId'', jnullable (Option.bind (tc_contentInfluence t) ci_scopeId)),
                          (''reason'', JStr ''atomic_dispatch_revision_mismatch''),
                          (''storedBindingHash'', jnullable (map_option ci_bindingHash (tc_contentInfluence t)))]) w2)
                 else (case (dr_outcome d, dr_grant d, dr_attempt d) of
                     (Dp_Dispatched, Some consumed, Some dispatched) \<Rightarrow> (Inr (consumed, dispatched, p), w2)
                   | _ \<Rightarrow> (Inl (ConflictError ''Execution grant could not reserve a current execution attempt.''), w2))))"

definition current_failure ::
  "env \<Rightarrow> (nat \<Rightarrow> int) \<Rightarrow> grant \<Rightarrow> receipt option \<Rightarrow> attempt \<Rightarrow> tool_call \<Rightarrow> service_error option" where
  \<comment> \<open>the tool call and the receipt are still the ones the grant was issued for\<close>
  "current_failure E clock g receipt att t =
     (let tm = currentToolCallMismatch E t att g False; rm = currentReceiptMismatch E (clock 1) receipt t att g
      in first_of
       [(tm \<noteq> None, ForbiddenError (''Execution grant tool-call authorization is no longer current: '' @ coalesce tm [] @ ''.'')),
        (rm \<noteq> None, ForbiddenError (''Execution grant receipt authorization is no longer current: '' @ coalesce rm [] @ ''.''))])"

definition tool_call_failure :: "grant_service \<Rightarrow> tool_call \<Rightarrow> service_error option" where
  "tool_call_failure sv t = first_of
     [((case sv_preparedNativeWriteRequired sv of None \<Rightarrow> False | Some f \<Rightarrow> f (tc_toolName t)) \<and> \<not> prepared_action t,
       ForbiddenError ''Legacy native-write grants cannot execute in prepared-action mode. Reject and resubmit the action.''),
      (prepared_action t \<and> sv_coordinator sv = None,
       ForbiddenError ''Prepared action dispatch is unavailable because its server dispatch coordinator is not installed.'')]"

definition before_dispatch ::
  "grant_service \<Rightarrow> tool_call \<Rightarrow> json \<Rightarrow> auth_context \<Rightarrow> world \<Rightarrow> service_error option \<times> world" where
  "before_dispatch sv t input auth w =
     (case sv_beforeDispatch sv of None \<Rightarrow> (None, w) | Some hook \<Rightarrow> hook t input auth w)"

definition consume_approved ::
  "env \<Rightarrow> grant_service \<Rightarrow> interference \<Rightarrow> (nat \<Rightarrow> int) \<Rightarrow> (nat \<Rightarrow> string) \<Rightarrow> string \<Rightarrow> consume_input \<Rightarrow> auth_context \<Rightarrow>
    grant \<Rightarrow> attempt \<Rightarrow> tool_call \<Rightarrow> world \<Rightarrow> (service_error + (grant \<times> attempt \<times> projection)) \<times> world" where
  \<comment> \<open>from the read of the approval on\<close>
  "consume_approved E sv rest clock ids grantId i auth g att t w =
     (let approvalId = ab_approvalId (at_binding att);
          w1 = (if truthy approvalId then rest 4 w else w);
          approval = (if truthy approvalId then getApproval (w_store w1) (the approvalId) else None);
          am = (if truthy approvalId then currentApprovalMismatch E (clock 2) approval t att g else None)
      in if am \<noteq> None
         then (Inl (ForbiddenError (''Execution grant approval authorization is no longer current: '' @ the am @ ''.'')), w1)
         else (case before_dispatch sv t (cg_input i) auth w1 of
             (Some e, w2) \<Rightarrow> (Inl e, w2)
           | (None, w2) \<Rightarrow> dispatch_grant E sv clock ids grantId auth (cg_input i) g att t approval (rest 5 w2)))"

definition consume_bound ::
  "env \<Rightarrow> grant_service \<Rightarrow> interference \<Rightarrow> (nat \<Rightarrow> int) \<Rightarrow> (nat \<Rightarrow> string) \<Rightarrow> string \<Rightarrow> consume_input \<Rightarrow> auth_context \<Rightarrow>
    continuation \<Rightarrow> grant \<Rightarrow> receipt option \<Rightarrow> world \<Rightarrow> (service_error + (grant \<times> attempt \<times> projection)) \<times> world" where
  \<comment> \<open>from the read of the attempt on\<close>
  "consume_bound E sv rest clock ids grantId i auth c g receipt w =
     (let w1 = rest 2 w
      in case getExecutionAttemptByToolCallId (w_store w1) (gr_workspaceId g) (gr_toolCallId g) of
           None \<Rightarrow> (Inl (ConflictError ''Execution grant is not bound to a current reserved execution attempt.''), w1)
         | Some att \<Rightarrow>
             if at_state att \<noteq> Reserved \<or> \<not> attemptMatchesGrant att g True
             then (Inl (ConflictError ''Execution grant is not bound to a current reserved execution attempt.''), w1)
             else
               let w2 = rest 3 w1
               in case getToolCall (w_store w2) (gr_toolCallId g) of
                    None \<Rightarrow> (Inl (ForbiddenError ''Execution grant tool call was not found.''), w2)
                  | Some t \<Rightarrow>
                      (case tool_call_failure sv t of
                         Some e \<Rightarrow> (Inl e, w2)
                       | None \<Rightarrow>
                           (case native_check E sv DispatchPhase t att g auth c w2 of
                              (Some e, w3) \<Rightarrow> (Inl e, w3)
                            | (None, w3) \<Rightarrow>
                                (case current_failure E clock g receipt att t of
                                   Some e \<Rightarrow> (Inl e, w3)
                                 | None \<Rightarrow> consume_approved E sv rest clock ids grantId i auth g att t w3))))"

definition consume_checked ::
  "env \<Rightarrow> grant_service \<Rightarrow> interference \<Rightarrow> (nat \<Rightarrow> int) \<Rightarrow> (nat \<Rightarrow> string) \<Rightarrow> string \<Rightarrow> consume_input \<Rightarrow> auth_context \<Rightarrow>
    continuation \<Rightarrow> world \<Rightarrow> (service_error + (grant \<times> attempt \<times> projection)) \<times> world" where
  \<comment> \<open>the body of the \<open>try\<close> of \<open>consumeGrant\<close>\<close>
  "consume_checked E sv rest clock ids grantId i auth c w =
     (let w1 = rest 0 w
      in case getExecutionGrant (w_store w1) grantId of
           None \<Rightarrow> (Inl (NotFoundError (''Execution grant not found: '' @ grantId)), w1)
         | Some g \<Rightarrow>
             (case grant_failure E sv (clock 0) g i auth of
                Some e \<Rightarrow> (Inl e, w1)
              | None \<Rightarrow>
                  if \<not> truthy (gr_receiptId g) then consume_bound E sv rest clock ids grantId i auth c g None w1
                  else
                    let w2 = rest 1 w1; receipt = getActionReceipt (w_store w2) (the (gr_receiptId g))
                    in case grant_receipt_failure E (sv_secret sv) g receipt of
                         Some e \<Rightarrow> (Inl e, w2)
                       | None \<Rightarrow> consume_bound E sv rest clock ids grantId i auth c g receipt w2))"

definition error_message :: "service_error \<Rightarrow> string" where
  "error_message e = (case e of NotFoundError m \<Rightarrow> m | ForbiddenError m \<Rightarrow> m | ConflictError m \<Rightarrow> m | OtherError m \<Rightarrow> m)"

definition consumeGrant ::
  "env \<Rightarrow> grant_service \<Rightarrow> interference \<Rightarrow> (nat \<Rightarrow> int) \<Rightarrow> (nat \<Rightarrow> string) \<Rightarrow> string \<Rightarrow> consume_input \<Rightarrow> auth_context \<Rightarrow>
    continuation \<Rightarrow> world \<Rightarrow> (service_error + grant) \<times> world" where
  "consumeGrant E sv rest clock ids grantId i auth c w =
     (case consume_checked E sv rest clock ids grantId i auth c w of
        (Inl e, w1) \<Rightarrow>
          (Inl e, append_audit E (grant_event (''audit_'' @ ids 2) ''execution_grant.rejected''
             (coalesce (au_email auth) (au_principalId auth)) (Some auth) (au_workspaceId auth) (cg_toolCallId i)
             (Some (hashJson E (cg_input i))) (cg_policyVersionHash i) (isoString E (clock 9))
             [(''error'', JStr (error_message e)), (''grantId'', JStr grantId), (''toolName'', JStr (cg_toolName i))])
             (rest 6 w1))
      | (Inr (g, att, p), w1) \<Rightarrow>
          let timestamp = coalesce (at_dispatchedAt att) (at_updatedAt att);
              w2 = append_audit E (grant_event (''audit_'' @ ids 2) ''execution_grant.consumed'' (au_principalId auth)
                (Some auth) (gr_workspaceId g) (gr_toolCallId g) (Some (hashJson E (cg_input i))) (gr_policyVersionHash g)
                timestamp
                [(''grantId'', JStr grantId), (''inputHash'', JStr (hashJson E (cg_input i))),
                 (''toolName'', JStr (gr_toolName g))]) (rest 6 w1);
              w3 = append_audit E (grant_event (''audit_'' @ ids 3) ''execution.attempt_dispatched'' (au_principalId auth)
                (Some auth) (at_workspaceId att) (at_toolCallId att) (Some (at_inputHash att))
                (ab_policyVersionHash (at_binding att)) timestamp
                [(''attemptId'', JStr (at_id att)), (''attemptNumber'', jint (at_attemptNumber att)),
                 (''executionAuthorization'', JObj
                    [(''authorizationId'', JStr (pj_authorizationId p)), (''capabilities'', pj_capabilities p),
                     (''executorId'', JStr (eb_executorId (pj_binding p))), (''expiresAt'', JStr (pj_expiresAt p)),
                     (''issuedAt'', JStr (pj_issuedAt p)), (''version'', JStr (pj_version p))]),
                 (''executorId'', JStr (at_executorId att)), (''grantId'', JStr grantId),
                 (''state'', JStr (attempt_state_name (at_state att)))]) (rest 7 w2)
          in (Inr g, w3))"

end
