(* ===== verification/GrantOutcome.thy ===== *)
theory GrantOutcome
  imports Grants
begin

text \<open>
  \<open>reportOutcome\<close> of the class \<open>ExecutionGrantService\<close> (\<open>security/execution-grants.ts\<close>): the runner that redeemed a grant
  reports how the execution ended. The outcome is recorded on the attempt, the receipt and the tool call, and a result
  the agent will see is released only after its source has been recorded as an exposure of the scope.
\<close>

section \<open>The report\<close>

datatype report_status = Rp_Cancelled | Rp_Failed | Rp_Succeeded | Rp_TimedOut | Rp_UnknownOutcome

record report_input =
  \<comment> \<open>\<open>ReportExecutionGrantOutcomeInput\<close>; \<open>JUndef\<close> is an absent object\<close>
  rp_error :: "string option"
  rp_remediation :: json
  rp_result :: json
  rp_resultDelivery :: json
  rp_status :: report_status

definition attemptStateForReport :: "report_status \<Rightarrow> attempt_state" where
  "attemptStateForReport st = (case st of Rp_Succeeded \<Rightarrow> Succeeded | Rp_Failed \<Rightarrow> FailedAfterDispatch
     | Rp_Cancelled \<Rightarrow> Cancelled | Rp_TimedOut \<Rightarrow> TimedOut | Rp_UnknownOutcome \<Rightarrow> UnknownOutcome)"

definition staticMcpTransportOutcomeError :: "report_status \<Rightarrow> string" where
  "staticMcpTransportOutcomeError st =
     (if st = Rp_TimedOut then ''Downstream MCP transport timed out after dispatch.''
      else if st = Rp_Cancelled then ''Downstream MCP execution was cancelled after dispatch.''
      else ''Downstream MCP transport failed after dispatch.'')"

record legacy_outcome =
  lo_error :: "string option"
  lo_errorCode :: "string option" \<comment> \<open>also \<open>errorClass\<close>\<close>
  lo_remediation :: json
  lo_result :: json
  lo_status :: receipt_outcome_status

definition reported_result :: "report_input \<Rightarrow> json" where
  \<comment> \<open>\<open>input.result ?? { ok: true }\<close>\<close>
  "reported_result i = jcoalesce (rp_result i) (JObj [(''ok'', JBool True)])"

definition report_defaults :: "report_status \<Rightarrow> string \<times> string" where
  "report_defaults st = (case st of
       Rp_Cancelled \<Rightarrow> (''execution_cancelled'', ''External execution was cancelled.'')
     | Rp_TimedOut \<Rightarrow> (''execution_timeout'', ''External execution timed out.'')
     | Rp_UnknownOutcome \<Rightarrow> (''unknown_execution_outcome'', ''External execution outcome is unknown.'')
     | _ \<Rightarrow> (''external_execution_error'', ''External execution failed.''))"

definition legacyOutcomeForReport :: "report_input \<Rightarrow> legacy_outcome" where
  "legacyOutcomeForReport i =
     (if rp_status i = Rp_Succeeded
      then \<lparr>lo_error = None, lo_errorCode = None, lo_remediation = rp_remediation i, lo_result = reported_result i,
            lo_status = Outcome_Succeeded\<rparr>
      else (let (code, message) = report_defaults (rp_status i)
            in \<lparr>lo_error = Some (coalesce (rp_error i) message), lo_errorCode = Some code, lo_remediation = JUndef,
                lo_result = JUndef, lo_status = Outcome_Failed\<rparr>))"

definition sameLegacyOutcome :: "env \<Rightarrow> receipt_outcome \<Rightarrow> legacy_outcome \<Rightarrow> bool" where
  "sameLegacyOutcome E existing i =
     (ro_status existing = lo_status i
      \<and> ro_error existing = (if lo_status i = Outcome_Failed then lo_error i else None)
      \<and> stableStringify E (null_coalesce (ro_remediation existing))
          = stableStringify E (if lo_status i = Outcome_Succeeded then null_coalesce (lo_remediation i) else JNull)
      \<and> stableStringify E (null_coalesce (ro_result existing))
          = stableStringify E (if lo_status i = Outcome_Succeeded then lo_result i else JNull))"

definition sameAttemptOutcome :: "attempt \<Rightarrow> attempt_outcome \<Rightarrow> bool" where
  "sameAttemptOutcome a c =
     (at_state a = ao_status c
      \<and> (case at_outcome a of
           None \<Rightarrow> False
         | Some oc \<Rightarrow> ao_status oc = ao_status c \<and> ao_certainty oc = ao_certainty c
             \<and> ao_errorClass oc = ao_errorClass c \<and> ao_errorCode oc = ao_errorCode c
             \<and> ao_errorMessage oc = ao_errorMessage c \<and> ao_remediationHash oc = ao_remediationHash c
             \<and> ao_resultDeliveryHash oc = ao_resultDeliveryHash c \<and> ao_resultHash oc = ao_resultHash c
             \<and> ao_retryDisposition oc = ao_retryDisposition c))"

definition model_visible :: "json \<Rightarrow> bool" where
  \<comment> \<open>\<open>delivery?.modelVisible === true\<close>\<close>
  "model_visible delivery = (jget delivery ''modelVisible'' = JBool True)"

definition requiresContentExposureBeforeDelivery :: "tool_call \<Rightarrow> json \<Rightarrow> bool" where
  "requiresContentExposureBeforeDelivery t delivery = (model_visible delivery \<and> has_result_source t)"

definition validateResultDelivery :: "env \<Rightarrow> report_input \<Rightarrow> service_error + json" where
  "validateResultDelivery E i =
     (let delivery = rp_resultDelivery i
      in if \<not> jtruthy delivery then Inr JUndef
         else if \<not> jtruthy (rp_result i)
         then Inl (ForbiddenError ''Result-delivery evidence requires the exact downstream result.'')
         else (case canonicalJsonStringify (rp_result i) of
             Inl _ \<Rightarrow> Inl (OtherError ''CanonicalizationError'')
           | Inr canonical \<Rightarrow>
               if jget delivery ''byteCount'' \<noteq> jint (int (length (utf8_bytes canonical)))
                  \<or> jget delivery ''canonicalResultHash'' \<noteq> JStr (sha256Hex E canonical)
               then Inl (ForbiddenError ''Result-delivery evidence does not match the exact downstream result.'')
               else Inr delivery))"

definition terminalAuditId :: "env \<Rightarrow> string \<Rightarrow> string \<Rightarrow> string" where
  "terminalAuditId E attemptId type =
     ''audit_terminal_'' @ hashJson E (JObj [(''attemptId'', JStr attemptId), (''type'', JStr type)])"

definition mcp_report :: "bool \<Rightarrow> report_input \<Rightarrow> service_error + report_input" where
  \<comment> \<open>a transport outcome of a classified MCP call carries no content of the child, and a fixed error text\<close>
  "mcp_report classified i =
     (if classified \<and> rp_status i \<in> {Rp_Cancelled, Rp_TimedOut, Rp_UnknownOutcome}
      then (if rp_result i \<noteq> JUndef \<or> rp_resultDelivery i \<noteq> JUndef
            then Inl (ForbiddenError ''MCP transport outcomes cannot include model-visible child content.'')
            else Inr (i\<lparr>rp_error := Some (staticMcpTransportOutcomeError (rp_status i))\<rparr>))
      else if classified \<and> rp_status i = Rp_Failed \<and> rp_result i = JUndef
      then Inl (ForbiddenError ''A classified MCP error result requires the exact child result and delivery evidence.'')
      else Inr i)"

definition report_delivery :: "env \<Rightarrow> bool \<Rightarrow> report_input \<Rightarrow> service_error + json" where
  "report_delivery E classified i =
     (case validateResultDelivery E i of
        Inl e \<Rightarrow> Inl e
      | Inr delivery \<Rightarrow>
          if classified \<and> (rp_status i = Rp_Succeeded \<or> rp_result i \<noteq> JUndef)
             \<and> (\<not> jtruthy delivery \<or> \<not> model_visible delivery)
          then Inl (ForbiddenError ''Classified MCP outcomes require model-visible bounded result-delivery evidence.'')
          else Inr delivery)"

section \<open>What is recorded\<close>

definition normalized_outcome :: "env \<Rightarrow> report_input \<Rightarrow> json \<Rightarrow> string \<Rightarrow> attempt_outcome" where
  "normalized_outcome E i delivery now =
     (let legacy = legacyOutcomeForReport i
      in executionAttemptOutcome E (attemptStateForReport (rp_status i))
        \<lparr>oi_errorClass = lo_errorCode legacy, oi_errorCode = lo_errorCode legacy, oi_errorMessage = lo_error legacy,
         oi_remediation = (if rp_status i = Rp_Succeeded then rp_remediation i else JUndef),
         oi_recordedAt = now,
         oi_result = (if rp_status i = Rp_Succeeded then reported_result i else rp_result i),
         oi_resultDelivery = delivery\<rparr>)"

definition receipt_outcome_of_report :: "report_input \<Rightarrow> json \<Rightarrow> string \<Rightarrow> auth_context \<Rightarrow> receipt_outcome" where
  "receipt_outcome_of_report i delivery now auth =
     (let legacy = legacyOutcomeForReport i
      in \<lparr>ro_auth = Some auth, ro_error = lo_error legacy, ro_recordedAt = now,
          ro_recordedBy = coalesce (au_email auth) (au_principalId auth),
          ro_remediation = (if rp_status i = Rp_Succeeded then rp_remediation i else JUndef),
          ro_result = (if rp_status i = Rp_Succeeded then reported_result i else JUndef),
          ro_resultDelivery = delivery, ro_status = lo_status legacy\<rparr>)"

definition with_external_outcome :: "json \<Rightarrow> json \<Rightarrow> json" where
  \<comment> \<open>\<open>{ ...(isJsonObject(result) ? result : {}), externalExecutionOutcome }\<close>\<close>
  "with_external_outcome result outcome =
     JObj (jm_set ''externalExecutionOutcome'' outcome (case result of JObj kvs \<Rightarrow> kvs | _ \<Rightarrow> []))"

definition terminal_tool_call :: "tool_call \<Rightarrow> report_input \<Rightarrow> json \<Rightarrow> string \<Rightarrow> tool_call" where
  "terminal_tool_call t i delivery now =
     t\<lparr>tc_error := lo_error (legacyOutcomeForReport i), tc_resultDelivery := delivery,
       tc_resultWithheld := Some (requiresContentExposureBeforeDelivery t delivery),
       tc_result := (if rp_status i = Rp_Succeeded then with_external_outcome (tc_result t) (reported_result i)
                     else tc_result t),
       tc_status := (if rp_status i = Rp_Succeeded then Executed else Failed),
       tc_updatedAt := now\<rparr>"

definition already_recorded :: "env \<Rightarrow> receipt option \<Rightarrow> report_input \<Rightarrow> json \<Rightarrow> bool" where
  \<comment> \<open>the receipt has another outcome\<close>
  "already_recorded E receipt i delivery =
     (case Option.bind receipt rc_outcome of
        None \<Rightarrow> False
      | Some oc \<Rightarrow> \<not> sameLegacyOutcome E oc (legacyOutcomeForReport i)
          \<or> stableStringify E (null_coalesce (ro_resultDelivery oc)) \<noteq> stableStringify E (null_coalesce delivery))"

abbreviation outcome_conflict :: service_error where
  "outcome_conflict \<equiv> ConflictError ''Execution outcome has already been recorded.''"

type_synonym recorded = "attempt \<times> receipt option \<times> tool_call"

definition record_prepared ::
  "env \<Rightarrow> grant_service \<Rightarrow> interference \<Rightarrow> report_input \<Rightarrow> json \<Rightarrow> string \<Rightarrow> auth_context \<Rightarrow> attempt \<Rightarrow> receipt option
    \<Rightarrow> tool_call \<Rightarrow> world \<Rightarrow> (service_error + recorded) \<times> world" where
  \<comment> \<open>a known outcome of a prepared action: attempt, receipt and tool call change in one write\<close>
  "record_prepared E sv rest i delivery now auth att receipt t w =
     (case receipt of
        None \<Rightarrow> (Inl (ForbiddenError ''Prepared native action receipt is unavailable.''), w)
      | Some r \<Rightarrow>
          let terminal = terminal_tool_call t i delivery now;
              ro = receipt_outcome_of_report i delivery now auth;
              (recording, w1) =
                (if at_state att = Dispatched
                 then on_store (recordKnownExternalExecutionOutcomeAtomically E
                   \<lparr>rn_attemptId = at_id att, rn_attemptOutcome = normalized_outcome E i delivery now,
                    rn_receiptOutcome = ro, rn_reservationOwner = at_reservationOwner att, rn_toolCall = terminal,
                    rn_workspaceId = at_workspaceId att\<rparr>) (rest 4 w)
                 else on_store (adoptKnownExternalExecutionOutcomeAtomically E
                   \<lparr>an_attemptId = at_id att, an_receipt = r\<lparr>rc_outcome := Some ro\<rparr>, an_toolCall = terminal,
                    an_workspaceId = at_workspaceId att\<rparr>) (rest 4 w))
          in case recording of
               Inl _ \<Rightarrow> (Inl (OtherError ''integrity check''), w1)
             | Inr res \<Rightarrow>
                 let out = or_outcome res
                 in if out = Ow_NotFound
                    then (Inl (NotFoundError (''Execution attempt not found: '' @ at_id att)), w1)
                    else if out = Ow_OwnerMismatch
                    then (Inl (ForbiddenError ''Execution attempt reservation owner does not match.''), w1)
                    else if out = Ow_BindingMismatch
                    then (Inl (ForbiddenError ''Prepared native outcome no longer matches its signed execution binding.''), w1)
                    else if out = Ow_ReconciliationRequired
                    then (Inl (ConflictError ''Execution outcome requires reconciliation and will not be retried automatically.''), w1)
                    else if out = Ow_StateMismatch
                    then (Inl (ConflictError ''Execution attempt has not been dispatched.''), w1)
                    else if out = Ow_Conflict then (Inl outcome_conflict, w1)
                    else (case (or_attempt res, or_receipt res, or_toolCall res) of
                        (Some a, Some rc, Some tc) \<Rightarrow> (Inr (a, Some rc, tc), w1)
                      | _ \<Rightarrow> (Inl (ConflictError ''Prepared native outcome could not be recorded atomically.''), w1)))"

definition transition_recorded ::
  "env \<Rightarrow> interference \<Rightarrow> attempt_outcome \<Rightarrow> string \<Rightarrow> attempt \<Rightarrow> world \<Rightarrow> (service_error + (attempt \<times> bool)) \<times> world" where
  \<comment> \<open>the attempt in its terminal state, and whether that was recorded before\<close>
  "transition_recorded E rest outcome now att w =
     (let ((out, current), w1) = on_store (transitionExecutionAttemptAtomically E
            \<lparr>ti_attemptId = at_id att, ti_expectedState = Dispatched, ti_nextState = ao_status outcome,
             ti_outcome = Some outcome, ti_reservationOwner = at_reservationOwner att, ti_transitionedAt = now,
             ti_workspaceId = at_workspaceId att, ti_contentExposureRevision = None\<rparr>) (rest 4 w)
      in if out = Tr_NotFound then (Inl (NotFoundError (''Execution attempt not found: '' @ at_id att)), w1)
         else if out = Tr_OwnerMismatch
         then (Inl (ForbiddenError ''Execution attempt reservation owner does not match.''), w1)
         else if out = Tr_StateMismatch
         then (Inl (ConflictError ''Execution attempt has not been dispatched.''), w1)
         else if out = Tr_AlreadyTerminal
         then (let w2 = rest 5 w1
               in case getExecutionAttempt (w_store w2) (at_id att) of
                    None \<Rightarrow> (Inl outcome_conflict, w2)
                  | Some a \<Rightarrow> if sameAttemptOutcome a outcome then (Inr (a, True), w2) else (Inl outcome_conflict, w2))
         else (case current of
                 Some a \<Rightarrow> if out = Tr_Transitioned \<or> out = Tr_Replay then (Inr (a, out = Tr_Replay), w1)
                           else (Inl (ConflictError ''Execution outcome could not be recorded.''), w1)
               | None \<Rightarrow> (Inl (ConflictError ''Execution outcome could not be recorded.''), w1)))"

definition record_legacy ::
  "env \<Rightarrow> grant_service \<Rightarrow> interference \<Rightarrow> report_input \<Rightarrow> json \<Rightarrow> string \<Rightarrow> auth_context \<Rightarrow> attempt \<Rightarrow> receipt option
    \<Rightarrow> tool_call \<Rightarrow> world \<Rightarrow> (service_error + recorded) \<times> world" where
  \<comment> \<open>any other outcome: the attempt first, then the receipt, then the tool call\<close>
  "record_legacy E sv rest i delivery now auth att receipt t w =
     (case transition_recorded E rest (normalized_outcome E i delivery now) now att w of
        (Inl e, w1) \<Rightarrow> (Inl e, w1)
      | (Inr (a, replay), w1) \<Rightarrow>
          let ro = receipt_outcome_of_report i delivery now auth;
              (written, w2) = (case receipt of
                  None \<Rightarrow> (None, w1)
                | Some r \<Rightarrow> (let (x, w') = on_store (recordActionReceiptOutcomeAtomically (rc_id r) ro) (rest 6 w1)
                            in (Some x, w')));
              updated = Option.bind written snd
          in if map_option fst written = Some Ro_NotFound
             then (Inl (ForbiddenError ''Execution grant receipt disappeared while recording its outcome.''), w2)
             else if already_recorded E updated i delivery then (Inl outcome_conflict, w2)
             else
               let persisted = (replay \<and> tc_status t \<noteq> Authorized);
                   delivered = (if persisted then t else terminal_tool_call t i delivery now)
               in (Inr (a, updated, delivered),
                   if persisted then w2
                   else (let w3 = rest 7 w2 in w3\<lparr>w_store := updateToolCall delivered (w_store w3)\<rparr>)))"

section \<open>Releasing the result\<close>

definition exposure_of_result :: "env \<Rightarrow> grant_service \<Rightarrow> tool_call \<Rightarrow> auth_context \<Rightarrow> int \<Rightarrow> policy_result_source \<Rightarrow> exposure" where
  "exposure_of_result E sv t auth observed src =
     \<lparr>ex_influenceScopeId = the (tc_influenceScopeId t), ex_integrity = prs_integrity src,
      ex_observedAt = isoString E observed,
      ex_policyVersionHash = coalesce (or_else (tc_policyVersionHash t) (sv_currentPolicyVersionHash sv)) ''unknown'',
      ex_sourceId = prs_sourceId src, ex_sourceToolCallId = tc_id t,
      ex_workspaceId = coalesce (tc_workspaceId t) (au_workspaceId auth)\<rparr>"

definition exposure_outcome_name :: "exposure_outcome \<Rightarrow> string" where
  "exposure_outcome_name x = (case x of Ex_Conflict \<Rightarrow> ''conflict'' | Ex_Created \<Rightarrow> ''created'' | Ex_Replay \<Rightarrow> ''replay'')"

definition recordContentExposureBeforeDelivery ::
  "env \<Rightarrow> grant_service \<Rightarrow> interference \<Rightarrow> (nat \<Rightarrow> bool) \<Rightarrow> (nat \<Rightarrow> int) \<Rightarrow> tool_call \<Rightarrow> json \<Rightarrow> auth_context \<Rightarrow> world
    \<Rightarrow> bool \<times> world" where
  \<comment> \<open>\<open>False\<close>: something was thrown; \<open>fails i\<close>: the \<open>i\<close>-th of the writes of the release throws\<close>
  "recordContentExposureBeforeDelivery E sv rest fails clock t delivery auth w =
     (case tc_resultSource t of
        Some (ResultFrom src) \<Rightarrow>
          if \<not> jtruthy (jget delivery ''modelVisible'') then (True, w)
          else if (case tc_influenceScopeId t of None \<Rightarrow> True | Some s \<Rightarrow> \<not> is_influence_scope_id s) then (False, w)
          else
            let w1 = rest 8 w; x = exposure_of_result E sv t auth (clock 1) src
            in if fails 0 then (False, w1)
               else
                 let (out, w2) = on_store (recordContentExposure E x) w1; w3 = rest 9 w2
                 in if out = Ex_Conflict \<or> fails 1 then (False, w3)
                    else (True, append_audit E
                      (grant_event (''audit_content_exposure_'' @ hashJson E (JObj
                            [(''influenceScopeId'', JStr (ex_influenceScopeId x)), (''sourceToolCallId'', JStr (tc_id t))]))
                         ''content.exposure_recorded'' (coalesce (au_email auth) (au_principalId auth)) (Some auth)
                         (ex_workspaceId x) (tc_id t) (tc_inputHash t) (tc_policyVersionHash t) (isoString E (clock 2))
                         [(''influenceScopeId'', JStr (ex_influenceScopeId x)), (''instructionAuthority'', JStr ''none''),
                          (''integrity'', JStr (integrity_name (ex_integrity x))),
                          (''recordOutcome'', JStr (exposure_outcome_name out)),
                          (''resultByteCount'', jget delivery ''byteCount''),
                          (''resultHash'', jget delivery ''canonicalResultHash''),
                          (''sourceId'', jnullable (ex_sourceId x)), (''sourceToolCallId'', JStr (tc_id t))]
                        \<lparr>ev_policyVersionId := tc_policyVersionId t\<rparr>) w3)
      | _ \<Rightarrow> (True, w))"

definition withheld_event ::
  "env \<Rightarrow> (nat \<Rightarrow> int) \<Rightarrow> (nat \<Rightarrow> string) \<Rightarrow> grant \<Rightarrow> tool_call \<Rightarrow> auth_context \<Rightarrow> string \<Rightarrow> audit_event" where
  "withheld_event E clock ids g t auth reason =
     grant_event (''audit_'' @ ids 0) ''content.result_withheld'' ''actionproxy:content-influence'' (Some auth)
       (gr_workspaceId g) (gr_toolCallId g) (Some (gr_inputHash g)) (gr_policyVersionHash g) (isoString E (clock 4))
       [(''influenceScopeId'', jnullable (tc_influenceScopeId t)), (''reason'', JStr reason),
        (''sourceToolCallId'', JStr (tc_id t))]"

abbreviation withheld_error :: service_error where
  "withheld_error \<equiv> ConflictError ''The downstream outcome is known, but ActionProxy withheld the result because content-exposure evidence could not be recorded.''"

definition release_result ::
  "env \<Rightarrow> grant_service \<Rightarrow> interference \<Rightarrow> (nat \<Rightarrow> bool) \<Rightarrow> (nat \<Rightarrow> int) \<Rightarrow> (nat \<Rightarrow> string) \<Rightarrow> grant \<Rightarrow> tool_call \<Rightarrow> json
    \<Rightarrow> auth_context \<Rightarrow> world \<Rightarrow> (service_error + tool_call) \<times> world" where
  "release_result E sv rest fails clock ids g t delivery auth w =
     (case recordContentExposureBeforeDelivery E sv rest fails clock t delivery auth w of
        (False, w1) \<Rightarrow>
          (Inl withheld_error,
           append_audit E (withheld_event E clock ids g t auth ''content_exposure_persistence_failed'') (rest 11 w1))
      | (True, w1) \<Rightarrow>
          let released = t\<lparr>tc_resultWithheld := Some False, tc_updatedAt := isoString E (clock 3)\<rparr>; w2 = rest 10 w1
          in if fails 2
             then (Inl withheld_error,
                   append_audit E (withheld_event E clock ids g released auth ''result_release_state_persistence_failed'') (rest 11 w2))
             else (Inr released, w2\<lparr>w_store := updateToolCall released (w_store w2)\<rparr>))"

section \<open>Reporting\<close>

definition outcome_events ::
  "env \<Rightarrow> grant \<Rightarrow> report_input \<Rightarrow> json \<Rightarrow> string \<Rightarrow> auth_context \<Rightarrow> attempt \<Rightarrow> receipt option \<Rightarrow> audit_event list" where
  \<comment> \<open>the terminal evidence, under identifiers that depend on the attempt only\<close>
  "outcome_events E g i delivery now auth att updated =
     (let legacy = legacyOutcomeForReport i;
          recorded = Option.bind updated rc_outcome;
          actor = (case recorded of Some oc \<Rightarrow> ro_recordedBy oc | None \<Rightarrow> coalesce (au_email auth) (au_principalId auth));
          by = (case Option.bind recorded ro_auth of Some a \<Rightarrow> Some a | None \<Rightarrow> Some auth);
          ok = (rp_status i = Rp_Succeeded);
          outcome = at_outcome att;
          kind = (if ok then ''tool_call.executed'' else ''tool_call.failed'')
      in [grant_event (terminalAuditId E (at_id att) ''receipt.outcome_recorded'') ''receipt.outcome_recorded'' actor by
            (gr_workspaceId g) (gr_toolCallId g) (Some (gr_inputHash g)) (gr_policyVersionHash g) now
            [(''error'', jnullable (lo_error legacy)), (''grantId'', JStr (gr_id g)),
             (''receiptHash'', jnullable (or_else (map_option rc_receiptHash updated) (gr_receiptHash g))),
             (''receiptId'', jnullable (or_else (map_option rc_id updated) (gr_receiptId g))),
             (''remediation'', if ok then null_coalesce (rp_remediation i) else JNull),
             (''result'', if ok then reported_result i else JNull), (''resultDelivery'', null_coalesce delivery),
             (''status'', JStr (outcome_status_name (lo_status legacy)))],
          grant_event (terminalAuditId E (at_id att) kind) kind actor by (gr_workspaceId g) (gr_toolCallId g)
            (Some (gr_inputHash g)) (gr_policyVersionHash g) now
            ((if ok then [] else [(''error'', jopt JStr (lo_error legacy))])
              @ [(''externalExecution'', JBool True), (''grantId'', JStr (gr_id g)), (''receiptId'', jnullable (gr_receiptId g))]
              @ (if ok then [(''result'', reported_result i)] else [])),
          grant_event (terminalAuditId E (at_id att) ''execution.attempt_completed'') ''execution.attempt_completed'' actor by
            (at_workspaceId att) (at_toolCallId att) (Some (at_inputHash att)) (ab_policyVersionHash (at_binding att))
            (coalesce (at_completedAt att) (at_updatedAt att))
            [(''attemptId'', JStr (at_id att)), (''attemptNumber'', jint (at_attemptNumber att)),
             (''certainty'', jnullable (map_option (certainty_name \<circ> ao_certainty) outcome)),
             (''errorClass'', jnullable (Option.bind outcome ao_errorClass)),
             (''errorCode'', jnullable (Option.bind outcome ao_errorCode)), (''grantId'', JStr (gr_id g)),
             (''remediationHash'', jnullable (Option.bind outcome ao_remediationHash)),
             (''resultDeliveryHash'', jnullable (Option.bind outcome ao_resultDeliveryHash)),
             (''resultHash'', jnullable (Option.bind outcome ao_resultHash)),
             (''retryDisposition'', jnullable (map_option (retry_name \<circ> ao_retryDisposition) outcome)),
             (''state'', JStr (attempt_state_name (at_state att)))]])"

fun append_events :: "env \<Rightarrow> interference \<Rightarrow> nat \<Rightarrow> audit_event list \<Rightarrow> world \<Rightarrow> world" where
  "append_events E rest k [] w = w"
| "append_events E rest k (e # es) w = append_events E rest (k + 1) es (append_audit E e (rest k w))"

type_synonym report_result = "attempt \<times> grant \<times> receipt option \<times> tool_call"

definition report_recorded ::
  "env \<Rightarrow> grant_service \<Rightarrow> interference \<Rightarrow> (nat \<Rightarrow> bool) \<Rightarrow> (nat \<Rightarrow> int) \<Rightarrow> (nat \<Rightarrow> string) \<Rightarrow> report_input \<Rightarrow> json \<Rightarrow> string
    \<Rightarrow> auth_context \<Rightarrow> grant \<Rightarrow> recorded \<Rightarrow> tool_call \<Rightarrow> world \<Rightarrow> (service_error + report_result) \<times> world" where
  \<comment> \<open>from the recorded outcome on: release the result if it was withheld, write the evidence, answer\<close>
  "report_recorded E sv rest fails clock ids i delivery now auth g rec t w =
     (let (att, updated, delivered) = rec;
          (released, w1) = (if requiresContentExposureBeforeDelivery t delivery \<and> tc_resultWithheld delivered \<noteq> Some False
             then release_result E sv rest fails clock ids g delivered delivery auth w else (Inr delivered, w))
      in case released of
           Inl e \<Rightarrow> (Inl e, w1)
         | Inr final \<Rightarrow> (Inr (att, g, updated, final),
                        append_events E rest 12 (outcome_events E g i delivery now auth att updated) w1))"

definition report_settled ::
  "env \<Rightarrow> grant_service \<Rightarrow> interference \<Rightarrow> (nat \<Rightarrow> bool) \<Rightarrow> (nat \<Rightarrow> int) \<Rightarrow> (nat \<Rightarrow> string) \<Rightarrow> report_input \<Rightarrow> json
    \<Rightarrow> auth_context \<Rightarrow> grant \<Rightarrow> receipt option \<Rightarrow> tool_call \<Rightarrow> attempt \<Rightarrow> world \<Rightarrow> (service_error + report_result) \<times> world" where
  \<comment> \<open>record the outcome, then answer\<close>
  "report_settled E sv rest fails clock ids i delivery auth g receipt t att w =
     (let now = (case at_outcome att of Some oc \<Rightarrow> ao_recordedAt oc | None \<Rightarrow> isoString E (clock 0));
          known = (prepared_action t \<and> rp_status i \<in> {Rp_Succeeded, Rp_Failed})
      in case (if known then record_prepared E sv rest i delivery now auth att receipt t w
               else record_legacy E sv rest i delivery now auth att receipt t w) of
           (Inl e, w1) \<Rightarrow> (Inl e, w1)
         | (Inr rec, w1) \<Rightarrow> report_recorded E sv rest fails clock ids i delivery now auth g rec t w1)"

definition report_bound ::
  "env \<Rightarrow> grant_service \<Rightarrow> interference \<Rightarrow> (nat \<Rightarrow> bool) \<Rightarrow> (nat \<Rightarrow> int) \<Rightarrow> (nat \<Rightarrow> string) \<Rightarrow> report_input \<Rightarrow> auth_context
    \<Rightarrow> bool \<Rightarrow> grant \<Rightarrow> tool_call \<Rightarrow> attempt \<Rightarrow> world \<Rightarrow> (service_error + report_result) \<times> world" where
  \<comment> \<open>from the report on, the caller and the bindings being checked\<close>
  "report_bound E sv rest fails clock ids i0 auth classified g t att w =
     (case mcp_report classified i0 of
        Inl e \<Rightarrow> (Inl e, w)
      | Inr i \<Rightarrow>
          (case report_delivery E classified i of
             Inl e \<Rightarrow> (Inl e, w)
           | Inr delivery \<Rightarrow>
               let w1 = (if truthy (gr_receiptId g) then rest 3 w else w);
                   receipt = (if truthy (gr_receiptId g) then getActionReceipt (w_store w1) (the (gr_receiptId g)) else None)
               in case (if truthy (gr_receiptId g) then grant_receipt_failure E (sv_secret sv) g receipt else None) of
                    Some e \<Rightarrow> (Inl e, w1)
                  | None \<Rightarrow>
                      if already_recorded E receipt i delivery then (Inl outcome_conflict, w1)
                      else report_settled E sv rest fails clock ids i delivery auth g receipt t att w1))"

definition outcome_grant_failure :: "env \<Rightarrow> grant_service \<Rightarrow> grant \<Rightarrow> auth_context \<Rightarrow> service_error option" where
  "outcome_grant_failure E sv g auth = first_of
     [(gr_workspaceId g \<noteq> au_workspaceId auth, ForbiddenError ''Execution grant is not in this workspace.''),
      (\<not> truthy (gr_consumedAt g), ConflictError ''Execution grant has not been consumed.''),
      (\<not> safeEqual (gr_signature g) (signGrant E (sv_secret sv) g), ForbiddenError ''Execution grant signature is invalid.'')]"

definition outcome_call_failure :: "grant_service \<Rightarrow> tool_call \<Rightarrow> auth_context \<Rightarrow> service_error option" where
  "outcome_call_failure sv t auth = first_of
     [(default_ws (tc_workspaceId t) \<noteq> au_workspaceId auth, ForbiddenError ''Tool call is not in this workspace.''),
      ((case sv_preparedNativeWriteRequired sv of None \<Rightarrow> False | Some f \<Rightarrow> f (tc_toolName t)) \<and> \<not> prepared_action t,
       ForbiddenError ''Legacy native-write grants cannot record an outcome in prepared-action mode. Reject and resubmit the action.'')]"

definition reportOutcome ::
  "env \<Rightarrow> grant_service \<Rightarrow> interference \<Rightarrow> (nat \<Rightarrow> bool) \<Rightarrow> (nat \<Rightarrow> int) \<Rightarrow> (nat \<Rightarrow> string) \<Rightarrow> string \<Rightarrow> report_input
    \<Rightarrow> auth_context \<Rightarrow> continuation \<Rightarrow> world \<Rightarrow> (service_error + report_result) \<times> world" where
  "reportOutcome E sv rest fails clock ids grantId i auth c w =
     (let w0 = rest 0 w
      in case getExecutionGrant (w_store w0) grantId of
           None \<Rightarrow> (Inl (NotFoundError (''Execution grant not found: '' @ grantId)), w0)
         | Some g \<Rightarrow>
             (case outcome_grant_failure E sv g auth of
                Some e \<Rightarrow> (Inl e, w0)
              | None \<Rightarrow>
                  let w1 = rest 1 w0
                  in case getToolCall (w_store w1) (gr_toolCallId g) of
                       None \<Rightarrow> (Inl (NotFoundError (''Tool call not found: '' @ gr_toolCallId g)), w1)
                     | Some t \<Rightarrow>
                         (case outcome_call_failure sv t auth of
                            Some e \<Rightarrow> (Inl e, w1)
                          | None \<Rightarrow>
                              let w2 = rest 2 w1
                              in case getExecutionAttemptByToolCallId (w_store w2) (gr_workspaceId g) (gr_toolCallId g) of
                                   None \<Rightarrow> (Inl (ConflictError ''Execution grant is not bound to its execution attempt.''), w2)
                                 | Some att \<Rightarrow>
                                     if \<not> attemptMatchesGrant att g True
                                     then (Inl (ConflictError ''Execution grant is not bound to its execution attempt.''), w2)
                                     else (case native_check E sv OutcomePhase t att g auth c w2 of
                                         (Some e, w3) \<Rightarrow> (Inl e, w3)
                                       | (None, w3) \<Rightarrow>
                                           (case currentToolCallMismatch E t att g (at_state att \<noteq> Dispatched) of
                                              Some m \<Rightarrow> (Inl (ForbiddenError (''Execution grant tool-call authorization is no longer current: '' @ m @ ''.'')), w3)
                                            | None \<Rightarrow>
                                                report_bound E sv rest fails clock ids i auth
                                                  (co_native c = None \<and> requiresMcpResultDelivery t) g t att w3)))))"

end
