(* ===== verification/GrantFacts.thy ===== *)
theory GrantFacts
  imports Grants StoreOutcomeFacts
begin

text \<open>
  What redeeming a grant guarantees while other requests change the store between its reads: the execution that
  starts is the one that was signed, decided and approved, and it starts once.
\<close>

section \<open>Other requests\<close>

definition others_step :: "env \<Rightarrow> interference \<Rightarrow> bool" where
  \<comment> \<open>while the service waits, the store changes by operations of the store\<close>
  "others_step E rest \<longleftrightarrow> (\<forall>i w. steps E (w_store w) (w_store (rest i w)))"

definition hook_steps :: "env \<Rightarrow> grant_service \<Rightarrow> bool" where
  "hook_steps E sv \<longleftrightarrow> (\<forall>t input auth w. steps E (w_store w) (w_store (snd (before_dispatch sv t input auth w))))"

lemma undisturbed_steps [simp]: "others_step E undisturbed"
  by (simp add: others_step_def undisturbed_def)

lemma rest_steps: "others_step E rest \<Longrightarrow> steps E (w_store w) (w_store (rest i w))"
  by (simp add: others_step_def)

lemma append_audit_store [simp]: "w_store (append_audit E e w) = w_store w"
  by (simp add: append_audit_def)

lemma native_check_store: "native_check E sv phase t att g auth c w = (r, w') \<Longrightarrow> w_store w' = w_store w"
  by (auto simp: native_check_def Let_def split: option.splits if_splits prod.splits sum.splits)

section \<open>The way to a dispatch\<close>

definition dispatch_request :: "env \<Rightarrow> (nat \<Rightarrow> int) \<Rightarrow> grant \<Rightarrow> attempt \<Rightarrow> tool_call \<Rightarrow> dispatch_input" where
  "dispatch_request E clock g att t =
     \<lparr>dp_attemptId = at_id att, dp_dispatchedAt = isoString E (clock 7), dp_grantId = gr_id g,
      dp_reservationOwner = at_reservationOwner att, dp_toolCallId = gr_toolCallId g,
      dp_workspaceId = gr_workspaceId g, dp_contentExposureRevision = contentExposureRevisionGuard E t\<rparr>"

lemma dispatch_grant_ok:
  assumes "dispatch_grant E sv clock ids grantId auth input g att t approval w = (Inr (g', att', p), w')"
    and "sv_coordinator sv = None"
  obtains b d where "buildExecutionAuthorizationBinding E (clock 4) approval att t = Inr b"
    "\<not> reached (Some (clock 3)) (dateParse E (gr_expiresAt g))"
    "consumeExecutionGrantAndDispatchAttemptAtomically (dispatch_request E clock g att t) (w_store w) = (d, w_store w')"
    "dr_outcome d = Dp_Dispatched" "dr_grant d = Some g'" "dr_attempt d = Some att'"
proof -
  let ?ttl = "grant_ttl E g (clock 3)"
  from assms(1) have ttl: "\<not> (case ?ttl of None \<Rightarrow> False | Some n \<Rightarrow> n \<le> 0)"
    by (auto simp: dispatch_grant_def Let_def split: if_splits)
  with assms(1) obtain x where x: "authorize_once E clock (ids 0) approval att t (authorization_ttl ?ttl) (w_exec w) = (Inr p, x)"
    by (auto simp: dispatch_grant_def Let_def split: prod.splits sum.splits if_splits dispatch_outcome.splits option.splits)
  then obtain b where b: "buildExecutionAuthorizationBinding E (clock 4) approval att t = Inr b"
    by (auto simp: authorize_once_def split: sum.splits)
  obtain d s' where d: "consumeExecutionGrantAndDispatchAttemptAtomically (dispatch_request E clock g att t) (w_store w) = (d, s')"
    by fastforce
  have "dr_outcome d = Dp_Dispatched \<and> dr_grant d = Some g' \<and> dr_attempt d = Some att' \<and> w_store w' = s'"
    using assms ttl x d
    by (auto simp: dispatch_grant_def Let_def on_store_def dispatch_request_def split: if_splits dispatch_outcome.splits option.splits)
  moreover have "\<not> reached (Some (clock 3)) (dateParse E (gr_expiresAt g))"
    using ttl by (auto simp: reached_def grant_ttl_def split: option.splits)
  ultimately show thesis using b d by (intro that [of b d]) auto
qed

definition dispatch_at ::
  "env \<Rightarrow> (nat \<Rightarrow> int) \<Rightarrow> grant \<Rightarrow> attempt \<Rightarrow> tool_call \<Rightarrow> approval option \<Rightarrow> store \<Rightarrow> store \<Rightarrow> grant \<Rightarrow> attempt \<Rightarrow> bool" where
  \<comment> \<open>the durable transition of a service call, from one store to the next\<close>
  "dispatch_at E clock g att t approval s s' g' att' \<longleftrightarrow>
     (\<exists>b d. buildExecutionAuthorizationBinding E (clock 4) approval att t = Inr b
        \<and> \<not> reached (Some (clock 3)) (dateParse E (gr_expiresAt g))
        \<and> consumeExecutionGrantAndDispatchAttemptAtomically (dispatch_request E clock g att t) s = (d, s')
        \<and> dr_outcome d = Dp_Dispatched \<and> dr_grant d = Some g' \<and> dr_attempt d = Some att')"

lemma consume_approved_ok:
  assumes "consume_approved E sv rest clock ids grantId i auth g att t w = (Inr (g', att', p), w')"
    and "sv_coordinator sv = None" "others_step E rest" "hook_steps E sv"
  obtains sp s approval where "steps E (w_store w) sp" "steps E sp s" "dispatch_at E clock g att t approval s (w_store w') g' att'"
    "truthy (ab_approvalId (at_binding att)) \<Longrightarrow> approval = getApproval sp (the (ab_approvalId (at_binding att)))
       \<and> currentApprovalMismatch E (clock 2) approval t att g = None"
proof -
  let ?k = "ab_approvalId (at_binding att)"
  define w1 where "w1 = (if truthy ?k then rest 4 w else w)"
  define approval where "approval = (if truthy ?k then getApproval (w_store w1) (the ?k) else None)"
  obtain e w2 where hook: "before_dispatch sv t (cg_input i) auth w1 = (e, w2)" by fastforce
  have "consume_approved E sv rest clock ids grantId i auth g att t w =
      (let am = (if truthy ?k then currentApprovalMismatch E (clock 2) approval t att g else None)
       in if am \<noteq> None
          then (Inl (ForbiddenError (''Execution grant approval authorization is no longer current: '' @ the am @ ''.'')), w1)
          else (case e of Some e \<Rightarrow> (Inl e, w2)
            | None \<Rightarrow> dispatch_grant E sv clock ids grantId auth (cg_input i) g att t approval (rest 5 w2)))"
    using hook by (cases e) (simp_all only: consume_approved_def Let_def w1_def approval_def prod.case option.case)
  with assms(1) have am: "truthy ?k \<Longrightarrow> currentApprovalMismatch E (clock 2) approval t att g = None"
    and "dispatch_grant E sv clock ids grantId auth (cg_input i) g att t approval (rest 5 w2) = (Inr (g', att', p), w')"
    by (auto simp: Let_def split: if_splits option.splits)
  then have "dispatch_at E clock g att t approval (w_store (rest 5 w2)) (w_store w') g' att'"
    using assms(2) by (elim dispatch_grant_ok) (auto simp: dispatch_at_def)
  moreover have "steps E (w_store w) (w_store w1)" using rest_steps [OF assms(3)] by (simp add: w1_def)
  moreover have "steps E (w_store w1) (w_store (rest 5 w2))"
  proof -
    have "steps E (w_store w1) (w_store w2)" using assms(4) hook unfolding hook_steps_def by (metis snd_conv)
    then show ?thesis using rest_steps [OF assms(3)] by (rule rtranclp_trans)
  qed
  moreover have "truthy ?k \<Longrightarrow> approval = getApproval (w_store w1) (the ?k)" by (simp add: approval_def)
  ultimately show thesis using am by (intro that [of "w_store w1" "w_store (rest 5 w2)" approval]) auto
qed

lemma consume_bound_ok:
  assumes "consume_bound E sv rest clock ids grantId i auth c g receipt w = (Inr (g', att', p), w')"
    and "sv_coordinator sv = None" "others_step E rest" "hook_steps E sv"
  obtains sa st sp s att t approval where
    "steps E (w_store w) sa" "getExecutionAttemptByToolCallId sa (gr_workspaceId g) (gr_toolCallId g) = Some att"
    "at_state att = Reserved" "attemptMatchesGrant att g True"
    "steps E sa st" "getToolCall st (gr_toolCallId g) = Some t" "current_failure E clock g receipt att t = None"
    "steps E st sp" "steps E sp s" "dispatch_at E clock g att t approval s (w_store w') g' att'"
    "truthy (ab_approvalId (at_binding att)) \<Longrightarrow> approval = getApproval sp (the (ab_approvalId (at_binding att)))
       \<and> currentApprovalMismatch E (clock 2) approval t att g = None"
proof -
  let ?w1 = "rest 2 w"
  let ?w2 = "rest 3 ?w1"
  obtain att where att: "getExecutionAttemptByToolCallId (w_store ?w1) (gr_workspaceId g) (gr_toolCallId g) = Some att"
    using assms(1) by (cases "getExecutionAttemptByToolCallId (w_store ?w1) (gr_workspaceId g) (gr_toolCallId g)")
      (simp_all add: consume_bound_def Let_def)
  with assms(1) have ready: "at_state att = Reserved" "attemptMatchesGrant att g True"
    by (auto simp: consume_bound_def Let_def split: if_splits)
  obtain t where t: "getToolCall (w_store ?w2) (gr_toolCallId g) = Some t"
    using assms(1) att ready by (cases "getToolCall (w_store ?w2) (gr_toolCallId g)") (simp_all add: consume_bound_def Let_def)
  obtain e w3 where n: "native_check E sv DispatchPhase t att g auth c ?w2 = (e, w3)" by fastforce
  have rest: "current_failure E clock g receipt att t = None"
    "consume_approved E sv rest clock ids grantId i auth g att t w3 = (Inr (g', att', p), w')"
    using assms(1) att ready t n by (auto simp: consume_bound_def Let_def split: option.splits)
  from rest(2) assms(2-4) obtain sp s approval where "steps E (w_store w3) sp" "steps E sp s"
    "dispatch_at E clock g att t approval s (w_store w') g' att'"
    "truthy (ab_approvalId (at_binding att)) \<Longrightarrow> approval = getApproval sp (the (ab_approvalId (at_binding att)))
       \<and> currentApprovalMismatch E (clock 2) approval t att g = None"
    by (rule consume_approved_ok) blast
  with att ready t rest(1) native_check_store [OF n] rest_steps [OF assms(3)] show thesis
    by (intro that [of "w_store ?w1" att "w_store ?w2" t sp s approval]) auto
qed

lemma consume_checked_ok:
  assumes "consume_checked E sv rest clock ids grantId i auth c w = (Inr (g', att', p), w')"
    and "sv_coordinator sv = None" "others_step E rest" "hook_steps E sv"
  obtains sg sa st sp s g receipt att t approval where
    "steps E (w_store w) sg" "getExecutionGrant sg grantId = Some g" "grant_failure E sv (clock 0) g i auth = None"
    "truthy (gr_receiptId g) \<Longrightarrow> grant_receipt_failure E (sv_secret sv) g receipt = None"
    "steps E sg sa" "getExecutionAttemptByToolCallId sa (gr_workspaceId g) (gr_toolCallId g) = Some att"
    "at_state att = Reserved" "attemptMatchesGrant att g True"
    "steps E sa st" "getToolCall st (gr_toolCallId g) = Some t" "current_failure E clock g receipt att t = None"
    "steps E st sp" "steps E sp s" "dispatch_at E clock g att t approval s (w_store w') g' att'"
    "truthy (ab_approvalId (at_binding att)) \<Longrightarrow> approval = getApproval sp (the (ab_approvalId (at_binding att)))
       \<and> currentApprovalMismatch E (clock 2) approval t att g = None"
proof -
  let ?w1 = "rest 0 w"
  obtain g where g: "getExecutionGrant (w_store ?w1) grantId = Some g"
    using assms(1) by (cases "getExecutionGrant (w_store ?w1) grantId") (simp_all add: consume_checked_def Let_def)
  with assms(1) have ok: "grant_failure E sv (clock 0) g i auth = None"
    by (auto simp: consume_checked_def Let_def split: option.splits)
  obtain w2 receipt where w2: "steps E (w_store ?w1) (w_store w2)"
    "truthy (gr_receiptId g) \<Longrightarrow> grant_receipt_failure E (sv_secret sv) g receipt = None"
    "consume_bound E sv rest clock ids grantId i auth c g receipt w2 = (Inr (g', att', p), w')"
  proof (cases "truthy (gr_receiptId g)")
    case True
    let ?r = "getActionReceipt (w_store (rest 1 ?w1)) (the (gr_receiptId g))"
    have "grant_receipt_failure E (sv_secret sv) g ?r = None"
      "consume_bound E sv rest clock ids grantId i auth c g ?r (rest 1 ?w1) = (Inr (g', att', p), w')"
      using assms(1) g ok True by (auto simp: consume_checked_def Let_def split: option.splits)
    then show thesis using rest_steps [OF assms(3)] by (intro that)
  next
    case False
    then have "consume_bound E sv rest clock ids grantId i auth c g None ?w1 = (Inr (g', att', p), w')"
      using assms(1) g ok by (simp add: consume_checked_def Let_def)
    with False show thesis by (intro that [of ?w1 None]) auto
  qed
  from w2(3) assms(2-4) show thesis
  proof (rule consume_bound_ok)
    fix sa st sp s att t approval
    assume "steps E (w_store w2) sa" "getExecutionAttemptByToolCallId sa (gr_workspaceId g) (gr_toolCallId g) = Some att"
      "at_state att = Reserved" "attemptMatchesGrant att g True" "steps E sa st" "getToolCall st (gr_toolCallId g) = Some t"
      "current_failure E clock g receipt att t = None" "steps E st sp" "steps E sp s"
      "dispatch_at E clock g att t approval s (w_store w') g' att'"
      "truthy (ab_approvalId (at_binding att)) \<Longrightarrow> approval = getApproval sp (the (ab_approvalId (at_binding att)))
         \<and> currentApprovalMismatch E (clock 2) approval t att g = None"
    with w2(1,2) g ok rest_steps [OF assms(3)] show thesis
      by (intro that [of "w_store ?w1" g receipt sa att st t sp s approval]) (auto intro: rtranclp_trans)
  qed
qed

section \<open>What a consumed grant stands for\<close>

lemma reachable_trans: "reachable E s \<Longrightarrow> steps E s t \<Longrightarrow> reachable E t"
  by (rule rtranclp_trans)

lemma reachable_parts:
  assumes "reachable E s"
  shows "attempts_ok s" "grants_keyed s"
  using reachable_store_good [OF assms] by (simp_all add: store_good_def)

lemma progress_parts:
  assumes "reachable E s" "steps E s t"
  shows "attempts_advance s t" "grants_advance s t" "keeps_final s t"
  using machine.reachable_steps_rel [OF assms] by (simp_all add: store_progress_def)

lemma by_tool_call_get:
  assumes "attempts_ok s" "getExecutionAttemptByToolCallId s ws tc = Some a"
  shows "jm_get (st_executionAttempts s) (at_id a) = Some a"
  using assms(2) attempts_okD [OF assms(1)]
  by (auto simp: getExecutionAttemptByToolCallId_def Let_def truthy_def split: option.splits if_splits)

lemma get_by_tool_call:
  assumes "attempts_ok s" "jm_get (st_executionAttempts s) k = Some a"
  shows "getExecutionAttemptByToolCallId s (at_workspaceId a) (at_toolCallId a) = Some a"
  using attempts_okD [OF assms] assms(2) by (auto simp: getExecutionAttemptByToolCallId_def attempt_key_def Let_def)

lemma grant_unchanged:
  assumes "grants_advance s t" "jm_get (st_executionGrants s) k = Some g" "jm_get (st_executionGrants t) k = Some h"
  shows "h = g\<lparr>gr_consumedAt := gr_consumedAt h\<rparr>"
  using assms unfolding grants_advance_def grant_advances_def by (metis (no_types, lifting) grant.surjective grant.update_convs(16) option.inject)

definition signed_grant :: "env \<Rightarrow> grant_service \<Rightarrow> grant \<Rightarrow> consume_input \<Rightarrow> auth_context \<Rightarrow> bool" where
  \<comment> \<open>the grant was signed by the server for exactly this call, and the policy it was issued under is the active one\<close>
  "signed_grant E sv g i auth \<longleftrightarrow>
     gr_signature g = signGrant E (sv_secret sv) g \<and> gr_workspaceId g = au_workspaceId auth
     \<and> gr_toolCallId g = cg_toolCallId i \<and> gr_toolName g = cg_toolName i \<and> gr_inputHash g = hashJson E (cg_input i)
     \<and> (truthy (gr_policyVersionHash g) \<longrightarrow> gr_policyVersionHash g = sv_currentPolicyVersionHash sv)"

lemma grant_failure_None:
  assumes "grant_failure E sv now g i auth = None"
  shows "signed_grant E sv g i auth" "\<not> truthy (gr_consumedAt g)" "\<not> reached (Some now) (dateParse E (gr_expiresAt g))"
  using assms unfolding grant_failure_def Let_def first_of_None signed_grant_def reached_def
  by (auto simp del: first_of.simps)

lemma signed_consumed [simp]: "signed_grant E sv (g\<lparr>gr_consumedAt := x\<rparr>) i auth = signed_grant E sv g i auth"
  by (simp add: signed_grant_def)

definition approved_by_quorum :: "store \<Rightarrow> attempt \<Rightarrow> string \<Rightarrow> bool" where
  \<comment> \<open>if the attempt names an approval, a quorum of different people approved the input with this hash\<close>
  "approved_by_quorum s a h \<longleftrightarrow>
     (\<forall>k. ab_approvalId (at_binding a) = Some k \<and> k \<noteq> [] \<longrightarrow>
        (\<exists>ap. getApproval s k = Some ap \<and> ap_status ap = Approval_Approved \<and> ap_toolCallId ap = at_toolCallId a
          \<and> quorum ap \<le> int (length (decisions_of ap)) \<and> distinct (map ad_actor (decisions_of ap))
          \<and> (\<forall>d \<in> set (decisions_of ap). ad_approvedInputHash d = Some h)))"

lemma reachable_quorum:
  assumes "reachable E s" "jm_get (st_executionAttempts s) k = Some a"
  shows "approved_by_quorum s a (at_inputHash a)"
proof (unfold approved_by_quorum_def, intro allI impI)
  fix i assume i: "ab_approvalId (at_binding a) = Some i \<and> i \<noteq> []"
  then have "ab_approvalId (at_binding a) = Some i" "i \<noteq> []" by auto
  from attempt_quorum [OF assms this] show "\<exists>ap. getApproval s i = Some ap \<and> ap_status ap = Approval_Approved
      \<and> ap_toolCallId ap = at_toolCallId a \<and> quorum ap \<le> int (length (decisions_of ap))
      \<and> distinct (map ad_actor (decisions_of ap)) \<and> (\<forall>d \<in> set (decisions_of ap). ad_approvedInputHash d = Some (at_inputHash a))"
    by metis
qed

lemma consumed_result:
  assumes "consumeGrant E sv rest clock ids grantId i auth c w = (Inr g', w')" "others_step E rest"
  obtains att p w1 where "consume_checked E sv rest clock ids grantId i auth c w = (Inr (g', att, p), w1)"
    "steps E (w_store w1) (w_store w')"
proof -
  obtain r w1 where r: "consume_checked E sv rest clock ids grantId i auth c w = (r, w1)" by fastforce
  with assms(1) obtain g att p where "r = Inr (g, att, p)" by (cases r) (auto simp: consumeGrant_def)
  with assms(1) r have "g = g'" "w_store w' = w_store (rest 7 (append_audit E
      (grant_event (''audit_'' @ ids 2) ''execution_grant.consumed'' (au_principalId auth)
                (Some auth) (gr_workspaceId g) (gr_toolCallId g) (Some (hashJson E (cg_input i))) (gr_policyVersionHash g)
                (coalesce (at_dispatchedAt att) (at_updatedAt att))
                [(''grantId'', JStr grantId), (''inputHash'', JStr (hashJson E (cg_input i))),
                 (''toolName'', JStr (gr_toolName g))]) (rest 6 w1)))"
    by (auto simp: consumeGrant_def Let_def)
  moreover have "steps E (w_store w1) (w_store (rest 7 (append_audit E x (rest 6 w1))))" for x
    using rest_steps [OF assms(2), of "w1" 6] rest_steps [OF assms(2), of "append_audit E x (rest 6 w1)" 7]
    by (auto intro: rtranclp_trans)
  ultimately show thesis using r \<open>r = Inr (g, att, p)\<close> by (intro that [of att p w1]) simp_all
qed

lemma grant_key: "reachable E s \<Longrightarrow> getExecutionGrant s k = Some g \<Longrightarrow> gr_id g = k"
  using reachable_parts(2) [of E s] by (auto simp: grants_keyed_def getExecutionGrant_def)

lemma grant_at_dispatch:
  assumes "reachable E sg" "steps E sg s" "getExecutionGrant sg k = Some g" "grant_failure E sv now g i auth = None"
    and "jm_get (st_executionGrants s) k = Some h"
  shows "signed_grant E sv h i auth" "gr_expiresAt h = gr_expiresAt g" "gr_workspaceId h = gr_workspaceId g"
    "gr_toolCallId h = gr_toolCallId g" "gr_inputHash h = gr_inputHash g" "gr_id h = gr_id g"
proof -
  have h: "h = g\<lparr>gr_consumedAt := gr_consumedAt h\<rparr>"
    using progress_parts(2) [OF assms(1,2)] assms(3,5) unfolding getExecutionGrant_def by (rule grant_unchanged)
  show "signed_grant E sv h i auth" by (subst h) (simp add: grant_failure_None(1) [OF assms(4)])
  show "gr_expiresAt h = gr_expiresAt g" "gr_workspaceId h = gr_workspaceId g"
    "gr_toolCallId h = gr_toolCallId g" "gr_inputHash h = gr_inputHash g" "gr_id h = gr_id g"
    by (subst h, simp)+
qed

lemma attempt_at_dispatch:
  assumes "reachable E sa" "steps E sa s" "getExecutionAttemptByToolCallId sa ws tc = Some att"
    and "attemptMatchesGrant att g True" "jm_get (st_executionAttempts s) (at_id att) = Some a"
  shows "at_inputHash a = gr_inputHash g" "at_id a = at_id att"
proof -
  show "at_id a = at_id att"
    using attempts_okD [OF reachable_parts(1) [OF reachable_trans [OF assms(1,2)]] assms(5)] by simp
  have "attempt_advances att a"
    using progress_parts(1) [OF assms(1,2)] by_tool_call_get [OF reachable_parts(1) [OF assms(1)] assms(3)] assms(5)
    unfolding attempts_advance_def by (metis option.inject)
  then show "at_inputHash a = gr_inputHash g" using assms(4) by (simp add: attempt_advances_def attemptMatchesGrant_def)
qed


end
