(* ===== verification/GrantOutcomeFacts.thy ===== *)
theory GrantOutcomeFacts
  imports GrantOutcome GrantFacts
begin

text \<open>
  What reporting an outcome guarantees: a result that came from content of others is never handed out before the store
  knows that the scope of the call has been exposed to it, and an answer means that the attempt has ended.
\<close>

section \<open>Exposed results\<close>

definition exposed :: "store \<Rightarrow> tool_call \<Rightarrow> policy_result_source \<Rightarrow> bool" where
  \<comment> \<open>the scope of the call has a record that it was exposed to this source by this call\<close>
  "exposed s t src =
     (case tc_influenceScopeId t of
        None \<Rightarrow> False
      | Some scope \<Rightarrow>
          (case jm_get (st_contentExposureScopes s) (contentExposureScopeKey (default_ws (tc_workspaceId t)) scope) of
             None \<Rightarrow> False
           | Some sc \<Rightarrow>
               (case jm_get (sc_records sc) (tc_id t) of
                  None \<Rightarrow> False
                | Some x \<Rightarrow> ex_integrity x = prs_integrity src \<and> ex_sourceId x = prs_sourceId src)))"

definition result_ok :: "store \<Rightarrow> tool_call \<Rightarrow> bool" where
  \<comment> \<open>a result the agent can see, and that has a source, is exposed\<close>
  "result_ok s t =
     (case tc_resultSource t of
        Some (ResultFrom src) \<Rightarrow>
          model_visible (tc_resultDelivery t) \<and> \<not> isModelVisibleResultWithheld (tc_resultWithheld t) (tc_status t) (tc_resultDelivery t)
            \<longrightarrow> exposed s t src
      | _ \<Rightarrow> True)"

definition results_ok :: "store \<Rightarrow> bool" where
  "results_ok s = (\<forall>k t. jm_get (st_toolCalls s) k = Some t \<longrightarrow> result_ok s t)"

definition same_call :: "tool_call \<Rightarrow> tool_call \<Rightarrow> bool" where
  \<comment> \<open>the same call: what it is and whom it belongs to\<close>
  "same_call t u \<longleftrightarrow> tc_id u = tc_id t \<and> default_ws (tc_workspaceId u) = default_ws (tc_workspaceId t)"

definition calls_stay :: "store \<Rightarrow> store \<Rightarrow> bool" where
  "calls_stay s s' = (\<forall>k t. jm_get (st_toolCalls s) k = Some t \<longrightarrow>
     (\<exists>u. jm_get (st_toolCalls s') k = Some u \<and> same_call t u))"

definition careful :: "env \<Rightarrow> store \<Rightarrow> store \<Rightarrow> bool" where
  \<comment> \<open>a change by operations of the store that keeps the identity of the calls and does not show an unexposed result\<close>
  "careful E s s' \<longleftrightarrow> steps E s s' \<and> calls_stay s s' \<and> (results_ok s \<longrightarrow> results_ok s')"

lemma same_call_refl [simp]: "same_call t t"
  by (simp add: same_call_def)

lemma same_call_sym: "same_call t u \<Longrightarrow> same_call u t"
  by (simp add: same_call_def)

lemma same_call_trans: "same_call t u \<Longrightarrow> same_call u v \<Longrightarrow> same_call t v"
  by (simp add: same_call_def)

lemma careful_refl [simp]: "careful E s s"
  by (auto simp: careful_def calls_stay_def)

lemma careful_trans: "careful E s t \<Longrightarrow> careful E t u \<Longrightarrow> careful E s u"
  unfolding careful_def calls_stay_def by (meson rtranclp_trans same_call_trans)

section \<open>Exposures stay\<close>

lemma exposed_same: "st_contentExposureScopes s' = st_contentExposureScopes s \<Longrightarrow> exposed s' t src = exposed s t src"
  by (simp add: exposed_def split: option.split)

lemma exposed_record:
  assumes "recordContentExposure E x s = (out, s')" "exposed s t src"
  shows "exposed s' t src"
  using assms
  by (auto simp: recordContentExposure_def exposed_def Let_def coalesce_def split: option.splits if_splits)

lemma exposed_step:
  assumes "store_step E s s'" "exposed s t src"
  shows "exposed s' t src"
proof -
  have same: "st_contentExposureScopes s' = st_contentExposureScopes s \<Longrightarrow> exposed s' t src"
    using assms(2) exposed_same by blast
  show ?thesis
    using assms(1)
  proof cases
    case (exposure_recorded x out)
    then show ?thesis using assms(2) by (rule exposed_record)
  qed (rule same; (drule kept)?; simp)+
qed

lemma exposed_steps: "steps E s s' \<Longrightarrow> exposed s t src \<Longrightarrow> exposed s' t src"
  by (induction rule: rtranclp_induct) (auto intro: exposed_step)

lemma result_ok_steps: "steps E s s' \<Longrightarrow> result_ok s t \<Longrightarrow> result_ok s' t"
  by (auto simp: result_ok_def intro: exposed_steps split: option.splits result_source.splits)

section \<open>Careful operations\<close>

lemma careful_same:
  assumes "store_step E s s'" "st_toolCalls s' = st_toolCalls s"
  shows "careful E s s'"
  using assms result_ok_steps [of E s s'] by (auto simp: careful_def calls_stay_def results_ok_def)

lemma careful_put:
  assumes "steps E s s'" "st_toolCalls s' = jm_set (tc_id t) t (st_toolCalls s)"
    and "jm_get (st_toolCalls s) (tc_id t) = Some u" "same_call u t" "result_ok s' t"
  shows "careful E s s'"
  using assms result_ok_steps [OF assms(1)] by (auto simp: careful_def calls_stay_def results_ok_def)


definition stored_as :: "store \<Rightarrow> tool_call \<Rightarrow> bool" where
  \<comment> \<open>the store has the call\<close>
  "stored_as s t = (\<exists>u. jm_get (st_toolCalls s) (tc_id t) = Some u \<and> same_call t u)"

lemma stored_careful: "stored_as s t \<Longrightarrow> careful E s s' \<Longrightarrow> stored_as s' t"
  unfolding stored_as_def careful_def calls_stay_def using same_call_trans by blast

lemma stored_same: "stored_as s t \<Longrightarrow> same_call t u \<Longrightarrow> stored_as s u"
  by (auto simp: stored_as_def same_call_def)

lemma careful_update:
  assumes "stored_as s t" "same_call t u" "result_ok s u"
  shows "careful E s (updateToolCall u s)"
proof -
  have step: "store_step E s (updateToolCall u s)" by (rule tool_call_updated)
  obtain v where v: "jm_get (st_toolCalls s) (tc_id u) = Some v" "same_call v u"
    using stored_same [OF assms(1,2)] same_call_sym unfolding stored_as_def by blast
  have "steps E s (updateToolCall u s)" using step by blast
  moreover from this have "result_ok (updateToolCall u s) u" using assms(3) by (rule result_ok_steps)
  ultimately show ?thesis
    by (intro careful_put [OF _ _ v]) (simp_all add: createToolCall_def)
qed

definition careful_rest :: "env \<Rightarrow> interference \<Rightarrow> bool" where
  "careful_rest E rest \<longleftrightarrow> (\<forall>i w. careful E (w_store w) (w_store (rest i w)))"

lemma careful_restD: "careful_rest E rest \<Longrightarrow> careful E (w_store w) (w_store (rest i w))"
  by (simp add: careful_rest_def)

lemma terminal_call [simp]:
  "same_call t (terminal_tool_call t i delivery now)" "result_ok s (terminal_tool_call t i delivery now)"
  by (auto simp: same_call_def terminal_tool_call_def result_ok_def isModelVisibleResultWithheld_def
      requiresContentExposureBeforeDelivery_def has_result_source_def model_visible_def split: option.split result_source.split)

section \<open>Recording is careful\<close>

lemma transition_careful:
  assumes "on_store (transitionExecutionAttemptAtomically E ti) w = (r, w')"
  shows "careful E (w_store w) (w_store w')"
proof -
  obtain s' where s': "transitionExecutionAttemptAtomically E ti (w_store w) = (r, s')" "w_store w' = s'"
    using assms by (auto simp: on_store_def split: prod.splits)
  have "st_toolCalls s' = st_toolCalls (w_store w)" using s'(1) by (auto dest: kept)
  with s' show ?thesis by (auto intro: careful_same attempt_transitioned)
qed

lemma receipt_outcome_careful:
  assumes "on_store (recordActionReceiptOutcomeAtomically k ro) w = (r, w')"
  shows "careful E (w_store w) (w_store w')"
proof -
  obtain s' where s': "recordActionReceiptOutcomeAtomically k ro (w_store w) = (r, s')" "w_store w' = s'"
    using assms by (auto simp: on_store_def split: prod.splits)
  have "st_toolCalls s' = st_toolCalls (w_store w)" using s'(1) by (auto dest: kept)
  with s' show ?thesis by (auto intro: careful_same receipt_outcome)
qed

definition refused_write :: "outcome_write \<Rightarrow> bool" where
  "refused_write out = (out \<in> {Ow_NotFound, Ow_OwnerMismatch, Ow_BindingMismatch, Ow_ReconciliationRequired,
     Ow_StateMismatch, Ow_Conflict})"

lemma disposition_refused [simp]: "refused_write (knownExternalOutcomeRecordingConflictDisposition a)"
  by (simp add: knownExternalOutcomeRecordingConflictDisposition_def refused_write_def)

lemma recorded_call:
  assumes "recordKnownExternalExecutionOutcomeAtomically E rn s = (Inr res, s')" "or_toolCall res = Some u"
    and "\<not> refused_write (or_outcome res)"
  shows "u = rn_toolCall rn \<or> jm_get (st_toolCalls s) (tc_id (rn_toolCall rn)) = Some u"
  using assms
  by (auto simp: recordKnownExternalExecutionOutcomeAtomically_def Let_def refused_write_def [of Ow_NotFound]
      refused_write_def [of Ow_OwnerMismatch] refused_write_def [of Ow_BindingMismatch]
      knownExternalOutcomeRecordingBindingsMatch_def split: sum.splits option.splits if_splits)

lemma adopted_call:
  assumes "adoptKnownExternalExecutionOutcomeAtomically E an s = (Inr res, s')" "or_toolCall res = Some u"
  shows "u = an_toolCall an \<or> jm_get (st_toolCalls s) (tc_id (an_toolCall an)) = Some u"
  using assms
  by (auto simp: adoptKnownExternalExecutionOutcomeAtomically_def Let_def split: sum.splits option.splits if_splits bool.splits)

lemma record_outcome_careful:
  assumes "recordKnownExternalExecutionOutcomeAtomically E rn s = (res, s')"
    and "stored_as s t" "same_call t (rn_toolCall rn)" "result_ok s (rn_toolCall rn)"
  shows "careful E s s'"
  using assms(1)
proof (cases rule: record_outcome_cases)
  case kept
  then show ?thesis by simp
next
  case (stored a g r u)
  have step: "store_step E s s'" using assms(1) by (rule outcome_recorded)
  obtain v where v: "jm_get (st_toolCalls s) (tc_id (rn_toolCall rn)) = Some v" "same_call v (rn_toolCall rn)"
    using stored_same [OF assms(2,3)] same_call_sym unfolding stored_as_def by blast
  have "steps E s s'" using step by blast
  moreover from this have "result_ok s' (rn_toolCall rn)" using assms(4) by (rule result_ok_steps)
  ultimately show ?thesis
    by (intro careful_put [OF _ _ v]) (simp_all add: stored(2) recorded_outcome_def)
qed

lemma adopt_careful:
  assumes "adoptKnownExternalExecutionOutcomeAtomically E an s = (res, s')"
    and "stored_as s t" "same_call t (an_toolCall an)" "result_ok s (an_toolCall an)"
  shows "careful E s s'"
  using assms(1)
proof (cases rule: adopt_cases)
  case kept
  then show ?thesis by simp
next
  case (adopted a g r u)
  have step: "store_step E s s'" using assms(1) by (rule outcome_adopted)
  then have steps: "steps E s s'" by blast
  have u: "same_call u (an_toolCall an)"
    using stored_same [OF assms(2,3)] adopted(2) same_call_sym by (auto simp: stored_as_def)
  show ?thesis
  proof (cases "tc_status u = Authorized")
    case True
    have "result_ok s' (an_toolCall an)" using steps assms(4) by (rule result_ok_steps)
    with True show ?thesis
      by (intro careful_put [OF steps _ adopted(2) u]) (simp_all add: adopted(7))
  next
    case False
    have "tc_id u = tc_id (an_toolCall an)" using u by (simp add: same_call_def)
    with False have calls: "jm_get (st_toolCalls s') k = jm_get (st_toolCalls s) k" for k
      using adopted(2) by (simp add: adopted(7))
    then show ?thesis
      using steps result_ok_steps [OF steps] by (auto simp: careful_def calls_stay_def results_ok_def)
  qed
qed

section \<open>The stages of a report\<close>

definition delivered_ok :: "store \<Rightarrow> store \<Rightarrow> tool_call \<Rightarrow> tool_call \<Rightarrow> bool" where
  \<comment> \<open>the delivered version of a call, after the store went from \<open>s\<close> to \<open>s'\<close>\<close>
  "delivered_ok s s' t u \<longleftrightarrow> same_call t u \<and> (results_ok s \<longrightarrow> result_ok s' u)"

lemma delivered_terminal [simp]: "delivered_ok s s' t (terminal_tool_call t i delivery now)"
  by (simp add: delivered_ok_def)

lemma delivered_stored:
  assumes "stored_as s t" "jm_get (st_toolCalls s) (tc_id t) = Some u" "careful E s0 s" "careful E s s'"
  shows "delivered_ok s0 s' t u"
  using assms result_ok_steps [of E s s' u] by (auto simp: delivered_ok_def stored_as_def results_ok_def careful_def)

lemma terminal_id [simp]: "tc_id (terminal_tool_call t i delivery now) = tc_id t"
  using terminal_call(1) [of t i delivery now] by (simp add: same_call_def)

lemma record_prepared_careful:
  assumes "record_prepared E sv rest i delivery now auth att receipt t w = (res, w')"
    and "careful_rest E rest" "stored_as (w_store w) t"
  shows "careful E (w_store w) (w_store w') \<and> (\<forall>a rc u. res = Inr (a, rc, u) \<longrightarrow> delivered_ok (w_store w) (w_store w') t u)"
proof (cases receipt)
  case None
  with assms(1) show ?thesis by (auto simp: record_prepared_def)
next
  case (Some r)
  let ?w1 = "rest 4 w" and ?terminal = "terminal_tool_call t i delivery now"
  note rest = careful_restD [OF assms(2), of w 4]
  have t: "stored_as (w_store ?w1) t" using assms(3) rest by (rule stored_careful)
  define call where "call = (if at_state att = Dispatched
    then recordKnownExternalExecutionOutcomeAtomically E
       \<lparr>rn_attemptId = at_id att, rn_attemptOutcome = normalized_outcome E i delivery now,
        rn_receiptOutcome = receipt_outcome_of_report i delivery now auth, rn_reservationOwner = at_reservationOwner att,
        rn_toolCall = ?terminal, rn_workspaceId = at_workspaceId att\<rparr>
    else adoptKnownExternalExecutionOutcomeAtomically E
       \<lparr>an_attemptId = at_id att, an_receipt = r\<lparr>rc_outcome := Some (receipt_outcome_of_report i delivery now auth)\<rparr>,
        an_toolCall = ?terminal, an_workspaceId = at_workspaceId att\<rparr>)"
  obtain out s' where s': "call (w_store ?w1) = (out, s')" by fastforce
  have careful: "careful E (w_store ?w1) s'"
    using s' record_outcome_careful [OF _ t] adopt_careful [OF _ t] unfolding call_def by (cases "at_state att = Dispatched") auto
  have w': "w_store w' = s'"
    using assms(1) s' unfolding record_prepared_def Some call_def
    by (auto simp: on_store_def Let_def split: if_splits sum.splits option.splits prod.splits)
  have delivered: "delivered_ok (w_store w) s' t u" if res: "res = Inr (a, rc, u)" for a rc u
  proof -
    obtain o1 where o1: "out = Inr o1" "\<not> refused_write (or_outcome o1)" "or_toolCall o1 = Some u"
      using assms(1) s' res unfolding record_prepared_def Some call_def refused_write_def
      by (auto simp: on_store_def Let_def split: if_splits sum.splits option.splits prod.splits)
    have "u = ?terminal \<or> jm_get (st_toolCalls (w_store ?w1)) (tc_id t) = Some u"
      using s' o1(2,3) unfolding call_def o1(1)
      by (cases "at_state att = Dispatched") (auto dest: recorded_call adopted_call)
    then show ?thesis using delivered_stored [OF t _ rest careful] by auto
  qed
  show ?thesis using careful_trans [OF rest careful] delivered w' by simp
qed


lemma transition_recorded_careful:
  assumes "transition_recorded E rest outcome now att w = (res, w')" and "careful_rest E rest"
  shows "careful E (w_store w) (w_store w')"
proof -
  obtain r w1 where w1: "on_store (transitionExecutionAttemptAtomically E
       \<lparr>ti_attemptId = at_id att, ti_expectedState = Dispatched, ti_nextState = ao_status outcome,
        ti_outcome = Some outcome, ti_reservationOwner = at_reservationOwner att, ti_transitionedAt = now,
        ti_workspaceId = at_workspaceId att, ti_contentExposureRevision = None\<rparr>) (rest 4 w) = (r, w1)"
    by fastforce
  have "careful E (w_store w) (w_store w1)"
    using careful_trans [OF careful_restD [OF assms(2)] transition_careful [OF w1]] .
  moreover have "w' = w1 \<or> w' = rest 5 w1"
    using assms(1) w1 by (auto simp: transition_recorded_def Let_def split: prod.splits if_splits option.splits)
  ultimately show ?thesis using careful_trans careful_restD [OF assms(2), of w1 5] by blast
qed

lemma record_legacy_careful:
  assumes "record_legacy E sv rest i delivery now auth att receipt t w = (res, w')"
    and "careful_rest E rest" "stored_as (w_store w) t" "results_ok (w_store w) \<longrightarrow> result_ok (w_store w) t"
  shows "careful E (w_store w) (w_store w') \<and> (\<forall>a rc u. res = Inr (a, rc, u) \<longrightarrow> delivered_ok (w_store w) (w_store w') t u)"
proof -
  obtain tr w1 where w1: "transition_recorded E rest (normalized_outcome E i delivery now) now att w = (tr, w1)" by fastforce
  then have c1: "careful E (w_store w) (w_store w1)" using assms(2) by (rule transition_recorded_careful)
  show ?thesis
  proof (cases tr)
    case (Inl e)
    with assms(1) w1 c1 show ?thesis by (auto simp: record_legacy_def)
  next
    case (Inr p)
    obtain a replay where p: "p = (a, replay)" by (cases p)
    define ro where "ro = receipt_outcome_of_report i delivery now auth"
    obtain written w2 where w2: "(case receipt of None \<Rightarrow> (None, w1)
        | Some r \<Rightarrow> (let (x, w') = on_store (recordActionReceiptOutcomeAtomically (rc_id r) ro) (rest 6 w1)
                   in (Some x, w'))) = (written, w2)" by fastforce
    have c2: "careful E (w_store w) (w_store w2)"
    proof (cases receipt)
      case (Some r)
      with w2 obtain x where "on_store (recordActionReceiptOutcomeAtomically (rc_id r) ro) (rest 6 w1) = (x, w2)"
        by (auto split: prod.splits)
      from receipt_outcome_careful [OF this] show ?thesis
        using careful_trans [OF careful_trans [OF c1 careful_restD [OF assms(2)]]] by blast
    qed (use w2 c1 in auto)
    let ?terminal = "terminal_tool_call t i delivery now"
    have c3: "careful E (w_store (rest 7 w2)) (updateToolCall ?terminal (w_store (rest 7 w2)))"
      by (rule careful_update [of _ t])
        (use stored_careful [OF assms(3) careful_trans [OF c2 careful_restD [OF assms(2)]]] in simp_all)
    then have c4: "careful E (w_store w) (updateToolCall ?terminal (w_store (rest 7 w2)))"
      using careful_trans [OF careful_trans [OF c2 careful_restD [OF assms(2)]]] by blast
    have t: "delivered_ok (w_store w) s t t" if "careful E (w_store w) s" for s
      using that assms(4) result_ok_steps by (auto simp: delivered_ok_def careful_def)
    show ?thesis
      using assms(1) w1 w2 c2 c4 t [OF c2] unfolding record_legacy_def Inr p ro_def
      by (auto simp: Let_def split: if_splits)
  qed
qed

section \<open>Releasing is careful\<close>

lemma exposure_careful:
  assumes "recordContentExposure E x s = (out, s')"
  shows "careful E s s'"
  using assms by (intro careful_same exposure_recorded) (auto dest: kept)

lemma jm_get_singleton [simp]: "jm_get [(k, v)] k = Some v"
  by (simp add: jm_get_def)

lemma recorded_exposure:
  assumes "recordContentExposure E x s = (out, s')" "out \<noteq> Ex_Conflict"
    and "x = exposure_of_result E sv t auth k src" "default_ws (tc_workspaceId t) = au_workspaceId auth"
    and "tc_influenceScopeId t = Some scope"
  shows "exposed s' t src"
proof -
  have "ex_workspaceId x = default_ws (tc_workspaceId t)" "ex_influenceScopeId x = scope" "ex_sourceToolCallId x = tc_id t"
    "ex_integrity x = prs_integrity src" "ex_sourceId x = prs_sourceId src"
    using assms(3-5) by (cases "tc_workspaceId t"; simp add: exposure_of_result_def default_ws_def)+
  with assms(1,2,5) show ?thesis
    by (cases "jm_get (st_contentExposureScopes s) (contentExposureScopeKey (default_ws (tc_workspaceId t)) scope)")
      (auto simp: recordContentExposure_def exposed_def Let_def sameContentExposureEvidence_def coalesce_def empty_scope_def
        split: option.splits if_splits)
qed

lemma before_delivery_careful:
  assumes "recordContentExposureBeforeDelivery E sv rest fails clock t delivery auth w = (ok, w')"
    and "careful_rest E rest" "model_visible delivery" "default_ws (tc_workspaceId t) = au_workspaceId auth"
  shows "careful E (w_store w) (w_store w') \<and> (\<forall>src. ok \<and> tc_resultSource t = Some (ResultFrom src) \<longrightarrow> exposed (w_store w') t src)"
proof (cases "\<exists>src scope. tc_resultSource t = Some (ResultFrom src) \<and> tc_influenceScopeId t = Some scope
    \<and> is_influence_scope_id scope \<and> \<not> fails 0")
  case True
  then obtain src scope where src: "tc_resultSource t = Some (ResultFrom src)" "tc_influenceScopeId t = Some scope"
    "is_influence_scope_id scope" "\<not> fails 0" by blast
  define x where "x = exposure_of_result E sv t auth (clock 1) src"
  obtain out s1 where out: "recordContentExposure E x (w_store (rest 8 w)) = (out, s1)" by fastforce
  define w2 where "w2 = (rest 8 w)\<lparr>w_store := s1\<rparr>"
  have visible: "jtruthy (jget delivery ''modelVisible'')" using assms(3) by (simp add: model_visible_def jtruthy_def)
  have w': "w_store w' = w_store (rest 9 w2)" and ok: "ok \<Longrightarrow> out \<noteq> Ex_Conflict"
    using assms(1) src visible out [unfolded x_def]
    by (auto simp: recordContentExposureBeforeDelivery_def Let_def on_store_def w2_def split: if_splits)
  have c: "careful E (w_store w) (w_store w')"
    using careful_trans [OF careful_trans [OF careful_restD [OF assms(2)] exposure_careful [OF out]], of "w_store (rest 9 w2)"]
      careful_restD [OF assms(2), of w2 9] w' by (simp add: w2_def)
  have "exposed (w_store w') t src" if ok
  proof -
    have "exposed s1 t src" by (rule recorded_exposure [OF out ok [OF that] x_def assms(4) src(2)])
    then show ?thesis
      using careful_restD [OF assms(2), of w2 9] w' exposed_steps [of E s1] by (simp add: careful_def w2_def)
  qed
  with c src show ?thesis by simp
next
  case False
  have "w' = w \<or> w' = rest 8 w" "tc_resultSource t = Some (ResultFrom src) \<Longrightarrow> \<not> ok" for src
    using assms(1,3) False
    by (auto simp: recordContentExposureBeforeDelivery_def model_visible_def jtruthy_def Let_def
        split: option.splits result_source.splits if_splits)
  then show ?thesis using careful_restD [OF assms(2)] by auto
qed

lemma release_result_careful:
  assumes "release_result E sv rest fails clock ids g t delivery auth w = (res, w')"
    and "careful_rest E rest" "stored_as (w_store w) t" "model_visible delivery"
    and "default_ws (tc_workspaceId t) = au_workspaceId auth"
  shows "careful E (w_store w) (w_store w') \<and> (\<forall>u. res = Inr u \<longrightarrow> result_ok (w_store w') u)"
proof -
  obtain ok w1 where w1: "recordContentExposureBeforeDelivery E sv rest fails clock t delivery auth w = (ok, w1)" by fastforce
  have c1: "careful E (w_store w) (w_store w1)"
    and exposed: "ok \<Longrightarrow> tc_resultSource t = Some (ResultFrom src) \<Longrightarrow> exposed (w_store w1) t src" for src
    using before_delivery_careful [OF w1 assms(2,4,5)] by blast+
  have c2: "careful E (w_store w) (w_store (rest k w1))" for k
    using careful_trans [OF c1 careful_restD [OF assms(2)]] .
  have c3: "careful E (w_store w) (w_store (rest k (rest l w1)))" for k l
    using careful_trans [OF c2 careful_restD [OF assms(2)]] .
  let ?u = "t\<lparr>tc_resultWithheld := Some False, tc_updatedAt := isoString E (clock 3)\<rparr>"
  have u: "same_call t ?u" by (simp add: same_call_def)
  have ok_u: "result_ok s ?u" if "ok" "steps E (w_store w1) s" for s
  proof -
    have "exposed s ?u src" if "tc_resultSource t = Some (ResultFrom src)" for src
    proof -
      have "exposed s t src" using exposed [OF \<open>ok\<close> that] \<open>steps E (w_store w1) s\<close> by (rule exposed_steps [rotated])
      then show ?thesis by (simp add: exposed_def cong: option.case_cong)
    qed
    then show ?thesis by (auto simp: result_ok_def split: option.split result_source.split)
  qed
  have put: "careful E (w_store (rest 10 w1)) (updateToolCall ?u (w_store (rest 10 w1)))" if ok
  proof (rule careful_update [OF stored_careful [OF assms(3) c2] u])
    show "result_ok (w_store (rest 10 w1)) ?u"
      using ok_u [OF that] careful_restD [OF assms(2), of w1 10] by (simp add: careful_def)
  qed
  have released: "careful E (w_store w) (updateToolCall ?u (w_store (rest 10 w1)))
      \<and> result_ok (updateToolCall ?u (w_store (rest 10 w1))) ?u" if ok
    using careful_trans [OF c2 put [OF that]] ok_u [OF that]
      careful_trans [OF careful_restD [OF assms(2), of w1 10] put [OF that]]
    by (simp add: careful_def)
  show ?thesis
    using assms(1) w1 c2 c3 released
    by (cases ok) (auto simp: release_result_def Let_def split: if_splits)
qed

lemma append_events_careful: "careful_rest E rest \<Longrightarrow> careful E (w_store w) (w_store (append_events E rest k es w))"
proof (induction es arbitrary: k w)
  case (Cons e es)
  from Cons.IH [OF Cons.prems, of "append_audit E e (rest k w)" "k + 1"] careful_restD [OF Cons.prems]
  show ?case by (auto intro: careful_trans)
qed simp

section \<open>The whole report\<close>

lemma report_recorded_careful:
  assumes "report_recorded E sv rest fails clock ids i delivery now auth g (a0, rc0, d) t w = (res, w')"
    and "careful_rest E rest" "stored_as (w_store w) t" "same_call t d" "results_ok s \<longrightarrow> result_ok (w_store w) d"
    and "default_ws (tc_workspaceId t) = au_workspaceId auth"
  shows "careful E (w_store w) (w_store w')
    \<and> (\<forall>a g' rc u. res = Inr (a, g', rc, u) \<longrightarrow> results_ok s \<longrightarrow> result_ok (w_store w') u)"
proof -
  define need where "need \<longleftrightarrow> requiresContentExposureBeforeDelivery t delivery \<and> tc_resultWithheld d \<noteq> Some False"
  obtain r w1 where w1: "(if need then release_result E sv rest fails clock ids g d delivery auth w else (Inr d, w)) = (r, w1)"
    by fastforce
  have c1: "careful E (w_store w) (w_store w1) \<and> (\<forall>u. r = Inr u \<longrightarrow> results_ok s \<longrightarrow> result_ok (w_store w1) u)"
  proof (cases need)
    case True
    have "model_visible delivery" using True by (simp add: need_def requiresContentExposureBeforeDelivery_def)
    moreover have "default_ws (tc_workspaceId d) = au_workspaceId auth" using assms(4,6) by (simp add: same_call_def)
    ultimately show ?thesis
      using release_result_careful [OF _ assms(2) stored_same [OF assms(3,4)], of sv fails clock ids g delivery auth r w1]
        w1 True by simp
  qed (use w1 assms(5) in auto)
  define es where "es = outcome_events E g i delivery now auth a0 rc0"
  have step: "careful E (w_store w1) (w_store (append_events E rest 12 es w1))"
    by (rule append_events_careful [OF assms(2)])
  have "result_ok (w_store (append_events E rest 12 es w1)) u" if "result_ok (w_store w1) u" for u
    using step that result_ok_steps by (auto simp: careful_def)
  then show ?thesis
    using assms(1) w1 c1 careful_trans [OF conjunct1 [OF c1] step]
    unfolding report_recorded_def need_def [symmetric] es_def [symmetric]
    by (auto simp: es_def [symmetric] need_def [symmetric] split: sum.splits)
qed

lemma report_settled_careful:
  assumes "report_settled E sv rest fails clock ids i delivery auth g receipt t att w = (res, w')"
    and "careful_rest E rest" "stored_as (w_store w) t" "results_ok (w_store w) \<longrightarrow> result_ok (w_store w) t"
    and "default_ws (tc_workspaceId t) = au_workspaceId auth"
  shows "careful E (w_store w) (w_store w')
    \<and> (\<forall>a g' rc u. res = Inr (a, g', rc, u) \<longrightarrow> results_ok (w_store w) \<longrightarrow> result_ok (w_store w') u)"
proof -
  define now where "now = (case at_outcome att of Some oc \<Rightarrow> ao_recordedAt oc | None \<Rightarrow> isoString E (clock 0))"
  define known where "known \<longleftrightarrow> prepared_action t \<and> rp_status i \<in> {Rp_Succeeded, Rp_Failed}"
  obtain rec w1 where w1: "(if known then record_prepared E sv rest i delivery now auth att receipt t w
      else record_legacy E sv rest i delivery now auth att receipt t w) = (rec, w1)" by fastforce
  have run: "(case (rec, w1) of (Inl e, w1) \<Rightarrow> (Inl e, w1)
      | (Inr rec, w1) \<Rightarrow> report_recorded E sv rest fails clock ids i delivery now auth g rec t w1) = (res, w')"
    using assms(1) unfolding report_settled_def Let_def now_def [symmetric] known_def [symmetric] w1 .
  have c1: "careful E (w_store w) (w_store w1)
      \<and> (\<forall>a rc u. rec = Inr (a, rc, u) \<longrightarrow> delivered_ok (w_store w) (w_store w1) t u)"
    using w1 record_prepared_careful [OF _ assms(2,3)] record_legacy_careful [OF _ assms(2-4)] by (cases known) auto
  show ?thesis
  proof (cases rec)
    case (Inl e)
    then show ?thesis using run c1 by auto
  next
    case (Inr p)
    obtain a rc d where p: "p = (a, rc, d)" by (cases p)
    then have d: "same_call t d" "results_ok (w_store w) \<longrightarrow> result_ok (w_store w1) d"
      using c1 Inr by (auto simp: delivered_ok_def)
    have "report_recorded E sv rest fails clock ids i delivery now auth g (a, rc, d) t w1 = (res, w')"
      using run by (simp add: Inr p)
    from report_recorded_careful [OF this assms(2) stored_careful [OF assms(3) conjunct1 [OF c1]] d assms(5)]
    show ?thesis using careful_trans [OF conjunct1 [OF c1]] by blast
  qed
qed

lemma report_bound_careful:
  assumes "report_bound E sv rest fails clock ids i auth classified g t att w = (res, w')"
    and "careful_rest E rest" "stored_as (w_store w) t" "results_ok (w_store w)" "result_ok (w_store w) t"
    and "default_ws (tc_workspaceId t) = au_workspaceId auth"
  shows "careful E (w_store w) (w_store w')
    \<and> (\<forall>a g' rc u. res = Inr (a, g', rc, u) \<longrightarrow> result_ok (w_store w') u)"
proof -
  define w1 where "w1 = (if truthy (gr_receiptId g) then rest 3 w else w)"
  define receipt where "receipt = (if truthy (gr_receiptId g) then getActionReceipt (w_store w1) (the (gr_receiptId g)) else None)"
  have c1: "careful E (w_store w) (w_store w1)" using careful_restD [OF assms(2)] by (simp add: w1_def)
  have cases: "(\<exists>e. res = Inl e) \<and> (w' = w \<or> w' = w1)
      \<or> (\<exists>j delivery. report_settled E sv rest fails clock ids j delivery auth g receipt t att w1 = (res, w'))"
    using assms(1) unfolding report_bound_def Let_def w1_def [symmetric] receipt_def [symmetric]
    by (auto split: sum.splits option.splits if_splits)
  have t: "stored_as (w_store w1) t" "results_ok (w_store w1)" "result_ok (w_store w1) t"
    using stored_careful [OF assms(3) c1] assms(4,5) c1 result_ok_steps by (auto simp: careful_def)
  have settled: "careful E (w_store w1) (w_store w') \<and> (\<forall>a g' rc u. res = Inr (a, g', rc, u) \<longrightarrow> result_ok (w_store w') u)"
    if "report_settled E sv rest fails clock ids j delivery auth g receipt t att w1 = (res, w')" for j delivery
    using report_settled_careful [OF that assms(2) t(1) _ assms(6)] t by blast
  from cases show ?thesis
  proof
    assume "\<exists>j delivery. report_settled E sv rest fails clock ids j delivery auth g receipt t att w1 = (res, w')"
    then show ?thesis using settled careful_trans [OF c1] by blast
  qed (use c1 in auto)
qed

lemma outcome_checks:
  "outcome_call_failure sv t auth = None \<Longrightarrow> default_ws (tc_workspaceId t) = au_workspaceId auth"
  "currentToolCallMismatch E t att g r = None \<Longrightarrow> tc_id t = gr_toolCallId g"
  unfolding outcome_call_failure_def currentToolCallMismatch_def Let_def first_of_None by auto

lemma report_careful:
  assumes "reportOutcome E sv rest fails clock ids grantId i auth c w = (res, w')"
    and "careful_rest E rest" "results_ok (w_store w)"
  shows "careful E (w_store w) (w_store w') \<and> (\<forall>a g rc u. res = Inr (a, g, rc, u) \<longrightarrow> result_ok (w_store w') u)"
proof -
  define w0 where "w0 = rest 0 w"
  define w1 where "w1 = rest 1 w0"
  define w2 where "w2 = rest 2 w1"
  note r = careful_restD [OF assms(2)]
  have c: "careful E (w_store w) (w_store w0)" "careful E (w_store w) (w_store w1)" "careful E (w_store w1) (w_store w2)"
    using r careful_trans [OF r r] by (simp_all add: w0_def w1_def w2_def)
  then have c2: "careful E (w_store w) (w_store w2)" using careful_trans by blast
  have cases: "(\<exists>e. res = Inl e) \<and> (w_store w' = w_store w0 \<or> w_store w' = w_store w1 \<or> w_store w' = w_store w2)
    \<or> (\<exists>t g att w3 cl. getToolCall (w_store w1) (gr_toolCallId g) = Some t \<and> tc_id t = gr_toolCallId g
         \<and> default_ws (tc_workspaceId t) = au_workspaceId auth \<and> w_store w3 = w_store w2
         \<and> report_bound E sv rest fails clock ids i auth cl g t att w3 = (res, w'))"
    using assms(1) unfolding reportOutcome_def Let_def w0_def [symmetric] w1_def [symmetric] w2_def [symmetric]
    by (auto split: option.splits if_splits prod.splits dest: native_check_store)
      (blast dest: outcome_checks native_check_store)+
  from cases show ?thesis
  proof
    assume "\<exists>t g att w3 cl. getToolCall (w_store w1) (gr_toolCallId g) = Some t \<and> tc_id t = gr_toolCallId g
         \<and> default_ws (tc_workspaceId t) = au_workspaceId auth \<and> w_store w3 = w_store w2
         \<and> report_bound E sv rest fails clock ids i auth cl g t att w3 = (res, w')"
    then obtain t g att w3 cl where *: "getToolCall (w_store w1) (tc_id t) = Some t"
      "default_ws (tc_workspaceId t) = au_workspaceId auth" "w_store w3 = w_store w2"
      "report_bound E sv rest fails clock ids i auth cl g t att w3 = (res, w')" by metis
    have "stored_as (w_store w1) t" using *(1) by (auto simp: stored_as_def getToolCall_def)
    moreover have "result_ok (w_store w1) t" "results_ok (w_store w3)"
      using *(1,3) assms(3) c(2) c2 by (auto simp: results_ok_def careful_def getToolCall_def)
    ultimately have "stored_as (w_store w3) t" "result_ok (w_store w3) t"
      using stored_careful [OF _ c(3)] result_ok_steps [of E "w_store w1" "w_store w2"] c(3) by (auto simp: *(3) careful_def)
    from report_bound_careful [OF *(4) assms(2) this(1) \<open>results_ok (w_store w3)\<close> this(2) *(2)] show ?thesis
      using careful_trans [OF c2] by (simp add: *(3))
  qed (use c c2 in auto)
qed

section \<open>The attempt has ended\<close>

definition ended :: "store \<Rightarrow> string \<Rightarrow> attempt \<Rightarrow> bool" where
  "ended s k a \<longleftrightarrow> jm_get (st_executionAttempts s) k = Some a \<and> isExecutionAttemptTerminal (at_state a)"

lemma ended_steps: "reachable E s \<Longrightarrow> steps E s s' \<Longrightarrow> ended s k a \<Longrightarrow> ended s' k a"
  using progress_parts(1) unfolding ended_def attempts_advance_def attempt_advances_def by metis

lemma careful_reachable: "careful E s s' \<Longrightarrow> reachable E s \<Longrightarrow> reachable E s'"
  unfolding careful_def by (blast intro: reachable_trans)

lemma ended_careful: "reachable E s \<Longrightarrow> careful E s s' \<Longrightarrow> ended s k a \<Longrightarrow> ended s' k a"
  unfolding careful_def by (blast intro: ended_steps)

lemma report_states [simp]: "isExecutionAttemptTerminal (attemptStateForReport st)"
  "ao_status (normalized_outcome E i delivery now) = attemptStateForReport (rp_status i)"
  by (cases st; simp add: attemptStateForReport_def)
    (simp add: normalized_outcome_def executionAttemptOutcome_def Let_def)

lemma transition_ends:
  assumes "transitionExecutionAttemptAtomically E ti s = ((out, current), s')"
    and "isExecutionAttemptTerminal (ti_nextState ti)" "out = Tr_Transitioned \<or> out = Tr_Replay" "current = Some a"
    and "attempts_ok s"
  shows "ended s' (ti_attemptId ti) a"
  using assms(1)
proof (cases rule: transition_cases)
  case kept
  with assms(3) have "out = Tr_Replay" by simp
  with assms(1,2,4) kept show ?thesis
    by (auto simp: transitionExecutionAttemptAtomically_def executionAttemptTransitionIsReplay_def ended_def Let_def
        split: option.splits if_splits)
next
  case (moved b)
  have "at_id b = ti_attemptId ti" using attempts_okD [OF assms(5) moved(1)] by simp
  with moved(8,9) assms(2,4) show ?thesis
    by (auto simp: ended_def put_attempt_def transitionedExecutionAttempt_def)
qed

lemma transition_recorded_ends:
  assumes "transition_recorded E rest outcome now att w = (Inr (a, replay), w')"
    and "isExecutionAttemptTerminal (ao_status outcome)" "careful_rest E rest" "reachable E (w_store w)"
  shows "ended (w_store w') (at_id att) a"
proof -
  define ti where "ti = \<lparr>ti_attemptId = at_id att, ti_expectedState = Dispatched, ti_nextState = ao_status outcome,
      ti_outcome = Some outcome, ti_reservationOwner = at_reservationOwner att, ti_transitionedAt = now,
      ti_workspaceId = at_workspaceId att, ti_contentExposureRevision = None\<rparr>"
  obtain out current s' where s': "transitionExecutionAttemptAtomically E ti (w_store (rest 4 w)) = ((out, current), s')"
    by (metis surj_pair)
  have ok: "attempts_ok (w_store (rest 4 w))"
    using careful_reachable [OF careful_restD [OF assms(3)] assms(4)] by (rule reachable_parts(1))
  have run: "(out = Tr_AlreadyTerminal \<and> sameAttemptOutcome a outcome
        \<and> (\<exists>w1. getExecutionAttempt (w_store w1) (at_id att) = Some a \<and> w' = w1))
      \<or> ((out = Tr_Transitioned \<or> out = Tr_Replay) \<and> current = Some a \<and> w_store w' = s')"
    using assms(1) s' unfolding transition_recorded_def ti_def [symmetric]
    by (auto simp: Let_def on_store_def split: if_splits option.splits)
  then show ?thesis
  proof
    assume "out = Tr_AlreadyTerminal \<and> sameAttemptOutcome a outcome
        \<and> (\<exists>w1. getExecutionAttempt (w_store w1) (at_id att) = Some a \<and> w' = w1)"
    with assms(2) show ?thesis by (auto simp: ended_def getExecutionAttempt_def sameAttemptOutcome_def)
  next
    assume "(out = Tr_Transitioned \<or> out = Tr_Replay) \<and> current = Some a \<and> w_store w' = s'"
    with transition_ends [OF s' _ _ _ ok] assms(2) show ?thesis by (simp add: ti_def)
  qed
qed

lemma recorded_ends:
  assumes "recordKnownExternalExecutionOutcomeAtomically E rn s = (Inr res, s')" "or_attempt res = Some a"
    and "\<not> refused_write (or_outcome res)" "isExecutionAttemptTerminal (ao_status (rn_attemptOutcome rn))" "attempts_ok s"
  shows "ended s' (rn_attemptId rn) a"
proof -
  have ids: "jm_get (st_executionAttempts s) (rn_attemptId rn) = Some b \<Longrightarrow> at_id b = rn_attemptId rn" for b
    using attempts_okD [OF assms(5)] by blast
  show ?thesis
    using assms(1-4)
    by (auto simp: recordKnownExternalExecutionOutcomeAtomically_def Let_def refused_write_def [of Ow_NotFound]
        refused_write_def [of Ow_OwnerMismatch] refused_write_def [of Ow_BindingMismatch] ended_def completed_attempt_def ids
        sameRecordedKnownExternalOutcomeProjection_def split: sum.splits option.splits if_splits)
qed

lemma adopted_ends:
  assumes "adoptKnownExternalExecutionOutcomeAtomically E an s = (Inr res, s')" "or_attempt res = Some a"
    and "\<not> refused_write (or_outcome res)"
  shows "ended s' (an_attemptId an) a"
proof -
  have terminal: "isExecutionAttemptTerminal (at_state b)"
    if "externalOutcomeAdoptionState b \<noteq> ReconciliationRequired" "externalOutcomeAdoptionState b \<noteq> StateMismatch" for b
    using that by (auto simp: externalOutcomeAdoptionState_def isExecutionAttemptTerminal_def split: if_splits)
  show ?thesis
    using assms
    by (auto simp: adoptKnownExternalExecutionOutcomeAtomically_def Let_def refused_write_def [of Ow_NotFound]
        refused_write_def [of Ow_ReconciliationRequired] refused_write_def [of Ow_StateMismatch]
        refused_write_def [of Ow_BindingMismatch] refused_write_def [of Ow_Conflict] ended_def terminal
        split: sum.splits option.splits if_splits bool.splits)
qed

lemma record_prepared_ends:
  assumes "record_prepared E sv rest i delivery now auth att receipt t w = (Inr (a, rc, u), w')"
    and "careful_rest E rest" "reachable E (w_store w)"
  shows "ended (w_store w') (at_id att) a"
proof (cases receipt)
  case None
  with assms(1) show ?thesis by (simp add: record_prepared_def)
next
  case (Some r)
  let ?s = "w_store (rest 4 w)"
  have ok: "attempts_ok ?s"
    using careful_reachable [OF careful_restD [OF assms(2)] assms(3)] by (rule reachable_parts(1))
  define ro where "ro = receipt_outcome_of_report i delivery now auth"
  define rn where "rn = \<lparr>rn_attemptId = at_id att, rn_attemptOutcome = normalized_outcome E i delivery now,
      rn_receiptOutcome = ro, rn_reservationOwner = at_reservationOwner att,
      rn_toolCall = terminal_tool_call t i delivery now, rn_workspaceId = at_workspaceId att\<rparr>"
  define an where "an = \<lparr>an_attemptId = at_id att, an_receipt = r\<lparr>rc_outcome := Some ro\<rparr>,
      an_toolCall = terminal_tool_call t i delivery now, an_workspaceId = at_workspaceId att\<rparr>"
  obtain res where res: "(if at_state att = Dispatched then recordKnownExternalExecutionOutcomeAtomically E rn ?s
      else adoptKnownExternalExecutionOutcomeAtomically E an ?s) = (Inr res, w_store w')"
    "or_attempt res = Some a" "\<not> refused_write (or_outcome res)"
    using assms(1) unfolding record_prepared_def Some option.case Let_def ro_def [symmetric] rn_def [symmetric]
      an_def [symmetric] on_store_def refused_write_def
    by (auto split: if_splits sum.splits option.splits prod.splits)
  show ?thesis
  proof (cases "at_state att = Dispatched")
    case True
    with res recorded_ends [of E rn ?s res "w_store w'" a] ok show ?thesis by (simp add: rn_def)
  next
    case False
    with res adopted_ends [of E an ?s res "w_store w'" a] show ?thesis by (simp add: an_def)
  qed
qed

lemma record_legacy_ends:
  assumes "record_legacy E sv rest i delivery now auth att receipt t w = (Inr (a, rc, u), w')"
    and "careful_rest E rest" "reachable E (w_store w)"
  shows "ended (w_store w') (at_id att) a"
proof -
  obtain replay w1 where w1: "transition_recorded E rest (normalized_outcome E i delivery now) now att w = (Inr (a, replay), w1)"
    using assms(1) by (auto simp: record_legacy_def Let_def split: sum.splits prod.splits if_splits)
  have e: "ended (w_store w1) (at_id att) a" by (rule transition_recorded_ends [OF w1 _ assms(2,3)]) simp
  have r1: "reachable E (w_store w1)"
    using careful_reachable [OF transition_recorded_careful [OF w1 assms(2)] assms(3)] .
  obtain w2 where w2: "ended (w_store w2) (at_id att) a" "reachable E (w_store w2)"
    "w' = w2 \<or> (\<exists>v. w' = (rest 7 w2)\<lparr>w_store := updateToolCall v (w_store (rest 7 w2))\<rparr>)"
  proof (cases receipt)
    case None
    show ?thesis
      by (rule that [OF e r1]) (use assms(1) w1 None in \<open>auto simp: record_legacy_def Let_def split: if_splits\<close>)
  next
    case (Some r)
    obtain x w2 where x: "on_store (recordActionReceiptOutcomeAtomically (rc_id r)
        (receipt_outcome_of_report i delivery now auth)) (rest 6 w1) = (x, w2)" by fastforce
    have c: "careful E (w_store w1) (w_store w2)"
      using careful_trans [OF careful_restD [OF assms(2)] receipt_outcome_careful [OF x]] .
    show ?thesis
      by (rule that [OF ended_careful [OF r1 c e] careful_reachable [OF c r1]])
        (use assms(1) w1 Some x in \<open>auto simp: record_legacy_def Let_def split: if_splits\<close>)
  qed
  have "ended (updateToolCall v (w_store (rest 7 w2))) (at_id att) a" for v
    using ended_careful [OF w2(2) careful_restD [OF assms(2)] w2(1)] by (simp add: ended_def createToolCall_def)
  with w2(1,3) show ?thesis by auto
qed

section \<open>A report is final\<close>

lemma report_settled_ends:
  assumes "report_settled E sv rest fails clock ids i delivery auth g receipt t att w = (Inr (a, g', rc, u), w')"
    and "careful_rest E rest" "reachable E (w_store w)" "stored_as (w_store w) t" "results_ok (w_store w)" "result_ok (w_store w) t"
    and "default_ws (tc_workspaceId t) = au_workspaceId auth"
  shows "ended (w_store w') (at_id att) a \<and> g' = g"
proof -
  define now where "now = (case at_outcome att of Some oc \<Rightarrow> ao_recordedAt oc | None \<Rightarrow> isoString E (clock 0))"
  define known where "known \<longleftrightarrow> prepared_action t \<and> rp_status i \<in> {Rp_Succeeded, Rp_Failed}"
  obtain rec w1 where w1: "(if known then record_prepared E sv rest i delivery now auth att receipt t w
      else record_legacy E sv rest i delivery now auth att receipt t w) = (rec, w1)" by fastforce
  have run: "(case (rec, w1) of (Inl e, w1) \<Rightarrow> (Inl e, w1)
      | (Inr rec, w1) \<Rightarrow> report_recorded E sv rest fails clock ids i delivery now auth g rec t w1) = (Inr (a, g', rc, u), w')"
    using assms(1) unfolding report_settled_def Let_def now_def [symmetric] known_def [symmetric] w1 .
  then obtain a0 rc0 d where d: "rec = Inr (a0, rc0, d)" by (cases rec) auto
  have same: "a0 = a" "g' = g" using run d by (auto simp: report_recorded_def Let_def split: prod.splits sum.splits)
  have e1: "ended (w_store w1) (at_id att) a"
    using w1 d record_prepared_ends [OF _ assms(2,3)] record_legacy_ends [OF _ assms(2,3)] by (auto simp: same(1) split: if_splits)
  have c1: "careful E (w_store w) (w_store w1) \<and> delivered_ok (w_store w) (w_store w1) t d"
    using w1 d record_prepared_careful [OF _ assms(2,4)] record_legacy_careful [OF _ assms(2,4)] assms(6) by (cases known) auto
  then have d1: "same_call t d" "results_ok (w_store w) \<longrightarrow> result_ok (w_store w1) d" by (simp_all add: delivered_ok_def)
  have "report_recorded E sv rest fails clock ids i delivery now auth g (a0, rc0, d) t w1 = (Inr (a, g', rc, u), w')"
    using run by (simp add: d)
  from report_recorded_careful [OF this assms(2) stored_careful [OF assms(4) conjunct1 [OF c1]] d1 assms(7)]
  show ?thesis
    using ended_careful [OF careful_reachable [OF conjunct1 [OF c1] assms(3)] _ e1] same(2) by blast
qed

lemma report_bound_ends:
  assumes "report_bound E sv rest fails clock ids i auth classified g t att w = (Inr (a, g', rc, u), w')"
    and "careful_rest E rest" "reachable E (w_store w)" "stored_as (w_store w) t" "results_ok (w_store w)" "result_ok (w_store w) t"
    and "default_ws (tc_workspaceId t) = au_workspaceId auth"
  shows "ended (w_store w') (at_id att) a \<and> g' = g"
proof -
  define w1 where "w1 = (if truthy (gr_receiptId g) then rest 3 w else w)"
  define receipt where "receipt = (if truthy (gr_receiptId g) then getActionReceipt (w_store w1) (the (gr_receiptId g)) else None)"
  have c1: "careful E (w_store w) (w_store w1)" using careful_restD [OF assms(2)] by (simp add: w1_def)
  obtain j delivery where run: "report_settled E sv rest fails clock ids j delivery auth g receipt t att w1 = (Inr (a, g', rc, u), w')"
    using assms(1) unfolding report_bound_def Let_def w1_def [symmetric] receipt_def [symmetric]
    by (auto split: sum.splits option.splits if_splits)
  have t: "stored_as (w_store w1) t" "results_ok (w_store w1)" "result_ok (w_store w1) t"
    using stored_careful [OF assms(4) c1] assms(5,6) c1 result_ok_steps by (auto simp: careful_def)
  show ?thesis by (rule report_settled_ends [OF run assms(2) careful_reachable [OF c1 assms(3)] t assms(7)])
qed

definition reported_on :: "store \<Rightarrow> string \<Rightarrow> grant \<Rightarrow> attempt \<Rightarrow> bool" where
  \<comment> \<open>the grant, which is consumed, and the attempt of its call, which was dispatched for it\<close>
  "reported_on s k g att \<longleftrightarrow>
     getExecutionGrant s k = Some g \<and> truthy (gr_consumedAt g) \<and> attemptMatchesGrant att g True
     \<and> jm_get (st_executionAttempts s) (at_id att) = Some att"

lemma report_path:
  assumes "reportOutcome E sv rest fails clock ids k i auth c w = (Inr x, w')"
  obtains g t att w0 w1 w2 w3 cl where "w0 = rest 0 w" "w1 = rest 1 w0" "w2 = rest 2 w1" "w_store w3 = w_store w2"
    "getExecutionGrant (w_store w0) k = Some g" "outcome_grant_failure E sv g auth = None"
    "getToolCall (w_store w1) (tc_id t) = Some t" "default_ws (tc_workspaceId t) = au_workspaceId auth"
    "getExecutionAttemptByToolCallId (w_store w2) (gr_workspaceId g) (gr_toolCallId g) = Some att"
    "attemptMatchesGrant att g True" "report_bound E sv rest fails clock ids i auth cl g t att w3 = (Inr x, w')"
proof -
  define w0 where "w0 = rest 0 w"
  define w1 where "w1 = rest 1 w0"
  define w2 where "w2 = rest 2 w1"
  obtain g where g: "getExecutionGrant (w_store w0) k = Some g" "outcome_grant_failure E sv g auth = None"
    using assms unfolding reportOutcome_def Let_def w0_def [symmetric] by (auto split: option.splits)
  obtain t where t: "getToolCall (w_store w1) (gr_toolCallId g) = Some t" "outcome_call_failure sv t auth = None"
    using assms g unfolding reportOutcome_def Let_def w0_def [symmetric] w1_def [symmetric] by (auto split: option.splits)
  obtain att where att: "getExecutionAttemptByToolCallId (w_store w2) (gr_workspaceId g) (gr_toolCallId g) = Some att"
    "attemptMatchesGrant att g True"
    using assms g t unfolding reportOutcome_def Let_def w0_def [symmetric] w1_def [symmetric] w2_def [symmetric]
    by (auto split: option.splits if_splits)
  obtain w3 where w3: "native_check E sv OutcomePhase t att g auth c w2 = (None, w3)"
    "currentToolCallMismatch E t att g (at_state att \<noteq> Dispatched) = None"
    "report_bound E sv rest fails clock ids i auth (co_native c = None \<and> requiresMcpResultDelivery t) g t att w3 = (Inr x, w')"
    using assms g t att unfolding reportOutcome_def Let_def w0_def [symmetric] w1_def [symmetric] w2_def [symmetric]
    by (auto split: option.splits if_splits prod.splits)
  show thesis
    by (rule that [OF w0_def w1_def w2_def native_check_store [OF w3(1)] g _ outcome_checks(1) [OF t(2)] att w3(3)])
      (simp add: t(1) outcome_checks(2) [OF w3(2)])
qed

lemma report_ends:
  assumes "reportOutcome E sv rest fails clock ids k i auth c w = (Inr (a, g, rc, u), w')"
    and "careful_rest E rest" "reachable E (w_store w)" "results_ok (w_store w)"
  obtains s att where "steps E (w_store w) s" "reported_on s k g att" "steps E s (w_store w')" "ended (w_store w') (at_id att) a"
proof -
  obtain g0 t att w0 w1 w2 w3 cl where p: "w0 = rest 0 w" "w1 = rest 1 w0" "w2 = rest 2 w1" "w_store w3 = w_store w2"
    "getExecutionGrant (w_store w0) k = Some g0" "outcome_grant_failure E sv g0 auth = None"
    "getToolCall (w_store w1) (tc_id t) = Some t" "default_ws (tc_workspaceId t) = au_workspaceId auth"
    "getExecutionAttemptByToolCallId (w_store w2) (gr_workspaceId g0) (gr_toolCallId g0) = Some att"
    "attemptMatchesGrant att g0 True" "report_bound E sv rest fails clock ids i auth cl g0 t att w3 = (Inr (a, g, rc, u), w')"
    by (rule report_path [OF assms(1)]) blast
  note r = careful_restD [OF assms(2)]
  have c: "careful E (w_store w) (w_store w0)" "careful E (w_store w0) (w_store w1)" "careful E (w_store w1) (w_store w2)"
    using r by (simp_all add: p(1-3))
  have c1: "careful E (w_store w) (w_store w1)" and c02: "careful E (w_store w0) (w_store w2)"
    using careful_trans [OF c(1,2)] careful_trans [OF c(2,3)] .
  have c2: "careful E (w_store w) (w_store w2)" using careful_trans [OF c1 c(3)] .
  have reach: "reachable E (w_store w0)" "reachable E (w_store w2)"
    using careful_reachable [OF c(1) assms(3)] careful_reachable [OF c2 assms(3)] .
  have t: "stored_as (w_store w2) t" "results_ok (w_store w2)" "result_ok (w_store w2) t"
  proof -
    have "stored_as (w_store w1) t" "result_ok (w_store w1) t" "results_ok (w_store w2)"
      using p(7) assms(4) c1 c2 by (auto simp: stored_as_def results_ok_def careful_def getToolCall_def)
    then show "stored_as (w_store w2) t" "results_ok (w_store w2)" "result_ok (w_store w2) t"
      using stored_careful [OF _ c(3)] c(3) result_ok_steps unfolding careful_def by blast+
  qed
  have e: "ended (w_store w') (at_id att) a \<and> g = g0"
    by (rule report_bound_ends [OF p(11) assms(2) _ _ _ _ p(8)]) (simp_all add: p(4) reach(2) t)
  have consumed: "truthy (gr_consumedAt g0)" using p(6) unfolding outcome_grant_failure_def first_of_None by auto
  have "getExecutionGrant (w_store w2) k = Some g0"
    using progress_parts(2) [OF reach(1)] c02 consumed p(5)
    unfolding grants_advance_def grant_advances_def careful_def getExecutionGrant_def by metis
  then have on: "reported_on (w_store w2) k g att"
    using e p(10) consumed by_tool_call_get [OF reachable_parts(1) [OF reach(2)] p(9)] by (simp add: reported_on_def)
  have "careful E (w_store w2) (w_store w')"
    using report_bound_careful [OF p(11) assms(2) _ _ _ p(8)] t by (simp add: p(4))
  then show thesis using that [OF _ on] c2 e by (simp add: careful_def)
qed

lemma reported_attempt:
  assumes "reachable E s" "steps E s s'" "reported_on s k g a" "reported_on s' k h b"
  shows "h = g" "at_id b = at_id a"
proof -
  have ok: "attempts_ok s" "attempts_ok s'" using reachable_parts(1) reachable_trans [OF assms(1,2)] assms(1) by blast+
  show g: "h = g"
    using progress_parts(2) [OF assms(1,2)] assms(3,4)
    unfolding grants_advance_def grant_advances_def reported_on_def getExecutionGrant_def by (metis option.inject)
  obtain a' where a': "jm_get (st_executionAttempts s') (at_id a) = Some a'" "attempt_advances a a'"
    using progress_parts(1) [OF assms(1,2)] assms(3) unfolding attempts_advance_def reported_on_def by blast
  have "attempt_key a' = attempt_key b"
    using a'(2) assms(3,4) g by (simp add: attempt_advances_def reported_on_def attemptMatchesGrant_def attempt_key_def)
  then show "at_id b = at_id a"
    using attempts_okD [OF ok(2) a'(1)] attempts_okD [OF ok(2), of "at_id b" b] assms(4) by (simp add: reported_on_def)
qed



end
