(* ===== verification/GrantRedeem.thy ===== *)
theory GrantRedeem
  imports GrantFacts
begin

text \<open>
  That a grant can be redeemed: when nobody interferes and the checks of \<open>consumeGrant\<close> hold, the call succeeds, and
  a grant made by \<open>createGrant\<close> passes the checks on the grant itself. After that no call redeems it again.
\<close>

section \<open>Issuing and consuming the authorization\<close>

lemma authority_issue:
  assumes "valid_time now" "valid_time (now + num_trunc ttl)" "ttl_ok ttl" "js_trim i \<noteq> []"
  shows "issueExecution E b \<lparr>ak_now = Some now, ak_id = i, ak_ttl = Some ttl, ak_capabilities = JUndef\<rparr> s
    = (Inr (xa_next s),
       s\<lparr>xa_next := xa_next s + 1,
         xa_issued := jm_set (xa_next s) (False,
           \<lparr>pj_authorizationId = i, pj_binding = b, pj_capabilities = canon CONSERVATIVE_EXECUTOR_CAPABILITIES_V1,
            pj_expiresAt = isoString E (now + num_trunc ttl), pj_issuedAt = isoString E now,
            pj_version = EXECUTION_AUTHORIZATION_VERSION\<rparr>) (xa_issued s)\<rparr>)"
  using assms by (simp add: issueExecution_def clone_clean exec_binding_clean capabilities_clean jcoalesce_def nullish_def)

lemma authority_round:
  assumes "valid_time now" "valid_time (now + num_trunc ttl)" "ttl_ok ttl" "js_trim i \<noteq> []"
    and "\<not> reached (Some later) (dateParse E (isoString E (now + num_trunc ttl)))"
  shows "\<exists>x1 p x2.
      issueExecution E b \<lparr>ak_now = Some now, ak_id = i, ak_ttl = Some ttl, ak_capabilities = JUndef\<rparr> x = (Inr (xa_next x), x1)
    \<and> consumeExecution E (xa_next x) b \<lparr>ak_now = Some later, ak_id = [], ak_ttl = None, ak_capabilities = JUndef\<rparr> x1
        = (Inr p, x2)"
  unfolding authority_issue [OF assms(1-4)]
  using assms(5) by (auto simp: consumeExecution_def sameCanonicalValue_def canonicalJsonStringify_clean exec_binding_clean)

lemma trim_visible:
  assumes "c \<in> set s" "\<not> is_ws c"
  shows "js_trim s \<noteq> []"
proof -
  have "dropWhile is_ws s \<noteq> []" using assms by (auto simp: dropWhile_eq_Nil_conv)
  then have "\<not> is_ws (hd (dropWhile is_ws s))" "hd (dropWhile is_ws s) \<in> set (rev (dropWhile is_ws s))"
    by (rule hd_dropWhile, simp)
  then show ?thesis by (force simp: js_trim_def dropWhile_eq_Nil_conv)
qed

lemma num_of_positive:
  assumes "0 < n"
  shows "ttl_ok (num_of_int n)" "num_trunc (num_of_int n) = n"
proof -
  obtain m e where d: "num_of_int n = Dec m e" "0 \<le> e" "n = m * 10 ^ nat e"
    using num_of_int_Dec [of n] scaled_num_of_int [of n] by metis
  then have "0 < m" using assms by (simp add: zero_less_mult_iff)
  with d show "ttl_ok (num_of_int n)" "num_trunc (num_of_int n) = n"
    by (simp_all add: ttl_ok_def num_isInteger_def scaled_def num_trunc_def min_def)
qed

definition clock_ok :: "env \<Rightarrow> (nat \<Rightarrow> int) \<Rightarrow> int \<Rightarrow> bool" where
  \<comment> \<open>the clock shows times of \<open>Date\<close>, and not even a minute nor the rest of the time to live passes between making
    an authorization and consuming it\<close>
  "clock_ok E clock left \<longleftrightarrow> (\<forall>n. valid_time n \<longrightarrow> dateParse E (isoString E n) = Some n)
     \<and> valid_time (clock 5) \<and> valid_time (clock 5 + 60000) \<and> clock 6 < clock 5 + min 60000 left"

lemma authorize_once_ok:
  assumes "buildExecutionAuthorizationBinding E (clock 4) approval att t = Inr b"
    and "clock_ok E clock left" "0 < left"
  obtains p x' where "authorize_once E clock i approval att t (authorization_ttl (Some left)) x = (Inr p, x')"
proof -
  let ?ttl = "authorization_ttl (Some left)"
  have ttl: "ttl_ok ?ttl" "num_trunc ?ttl = min 60000 left"
    using num_of_positive [of "min 60000 left"] assms(3) by (simp_all add: authorization_ttl_def)
  have now: "valid_time (clock 5)" "valid_time (clock 5 + num_trunc ?ttl)"
    using assms(2,3) by (auto simp: clock_ok_def valid_time_def ttl min_def)
  have named: "js_trim (''execauth_'' @ i) \<noteq> []" by (rule trim_visible [of "CHR ''e''"]) (simp_all add: is_ws_def)
  have alive: "\<not> reached (Some (clock 6)) (dateParse E (isoString E (clock 5 + num_trunc ?ttl)))"
    using assms(2) now(2) by (simp add: clock_ok_def reached_def ttl)
  from authority_round [OF now ttl(1) named alive, of b x] assms(1) show thesis
    using that by (auto simp: authorize_once_def split: prod.splits sum.splits)
qed

section \<open>Consuming without interference\<close>

definition grant_receipt :: "store \<Rightarrow> grant \<Rightarrow> receipt option" where
  "grant_receipt s g = (if truthy (gr_receiptId g) then getActionReceipt s (the (gr_receiptId g)) else None)"

definition attempt_approval :: "store \<Rightarrow> attempt \<Rightarrow> approval option" where
  "attempt_approval s att =
     (if truthy (ab_approvalId (at_binding att)) then getApproval s (the (ab_approvalId (at_binding att))) else None)"

definition still_current ::
  "env \<Rightarrow> grant_service \<Rightarrow> (nat \<Rightarrow> int) \<Rightarrow> store \<Rightarrow> grant \<Rightarrow> attempt \<Rightarrow> tool_call \<Rightarrow> bool" where
  \<comment> \<open>receipt, tool call, approval, binding and content influence are as they were when the grant was issued\<close>
  "still_current E sv clock s g att t \<longleftrightarrow>
     (truthy (gr_receiptId g) \<longrightarrow> grant_receipt_failure E (sv_secret sv) g (grant_receipt s g) = None)
     \<and> current_failure E clock g (grant_receipt s g) att t = None
     \<and> (truthy (ab_approvalId (at_binding att)) \<longrightarrow> currentApprovalMismatch E (clock 2) (attempt_approval s att) t att g = None)
     \<and> (\<exists>b. buildExecutionAuthorizationBinding E (clock 4) (attempt_approval s att) att t = Inr b)
     \<and> contentExposureRevisionMatches s (gr_workspaceId g) (contentExposureRevisionGuard E t)"

definition may_execute :: "env \<Rightarrow> grant_service \<Rightarrow> auth_context \<Rightarrow> continuation \<Rightarrow> tool_call \<Rightarrow> bool" where
  \<comment> \<open>an action that is not prepared, redeemed by the client it came from\<close>
  "may_execute E sv auth c t \<longleftrightarrow> sv_coordinator sv = None \<and> sv_beforeDispatch sv = None \<and> tool_call_failure sv t = None
     \<and> co_native c = None \<and> \<not> prepared_action t \<and> assertMcpAdapterAuthorization E t auth (co_wrapperSessionId c) = None"

lemma dispatch_grant_succeeds:
  assumes "sv_coordinator sv = None" "dispatchable (dispatch_request E clock g att t) (w_store w) a h"
    and "buildExecutionAuthorizationBinding E (clock 4) approval att t = Inr b"
    and "grant_ttl E g (clock 3) = Some left" "0 < left" "clock_ok E clock left"
  obtains p w' where "dispatch_grant E sv clock ids k auth input g att t approval w
      = (Inr (h\<lparr>gr_consumedAt := Some (isoString E (clock 7))\<rparr>, dispatched_attempt a (isoString E (clock 7)), p), w')"
    "w_store w' = put_attempt (dispatched_attempt a (isoString E (clock 7)))
       (put_grant (h\<lparr>gr_consumedAt := Some (isoString E (clock 7))\<rparr>) (w_store w))"
proof -
  let ?di = "dispatch_request E clock g att t"
  have at: "dp_dispatchedAt ?di = isoString E (clock 7)" by (simp add: dispatch_request_def)
  have fire: "consumeExecutionGrantAndDispatchAttemptAtomically ?di (w_store w)
      = (\<lparr>dr_attempt = Some (dispatched_attempt a (isoString E (clock 7))),
          dr_grant = Some (h\<lparr>gr_consumedAt := Some (isoString E (clock 7))\<rparr>), dr_outcome = Dp_Dispatched\<rparr>,
         put_attempt (dispatched_attempt a (isoString E (clock 7)))
           (put_grant (h\<lparr>gr_consumedAt := Some (isoString E (clock 7))\<rparr>) (w_store w)))"
    using assms(2) by (auto simp: consumeExecutionGrantAndDispatchAttemptAtomically_def dispatchable_def Let_def
        dispatched_attempt_def put_grant_def at)
  obtain p x where x: "authorize_once E clock (ids 0) approval att t (authorization_ttl (Some left)) (w_exec w) = (Inr p, x)"
    using assms(3,6,5) by (rule authorize_once_ok)
  show thesis
    using assms(1,4,5) x fire
    by (intro that) (auto simp: dispatch_grant_def Let_def on_store_def dispatch_request_def)
qed

lemma consume_bound_succeeds:
  assumes "may_execute E sv auth c t" "still_current E sv clock (w_store w) g att t"
    and "getExecutionAttemptByToolCallId (w_store w) (gr_workspaceId g) (gr_toolCallId g) = Some att"
    and "at_state att = Reserved" "attemptMatchesGrant att g True" "getToolCall (w_store w) (gr_toolCallId g) = Some t"
    and "getExecutionGrant (w_store w) (gr_id g) = Some g" "\<not> truthy (gr_consumedAt g)" "attempts_ok (w_store w)"
    and "grant_ttl E g (clock 3) = Some left" "0 < left" "clock_ok E clock left"
  obtains p w' where "consume_bound E sv undisturbed clock ids k i auth c g (grant_receipt (w_store w) g) w
      = (Inr (g\<lparr>gr_consumedAt := Some (isoString E (clock 7))\<rparr>, dispatched_attempt att (isoString E (clock 7)), p), w')"
    "w_store w' = put_attempt (dispatched_attempt att (isoString E (clock 7)))
       (put_grant (g\<lparr>gr_consumedAt := Some (isoString E (clock 7))\<rparr>) (w_store w))"
proof -
  let ?ap = "attempt_approval (w_store w) att"
  obtain b where b: "buildExecutionAuthorizationBinding E (clock 4) ?ap att t = Inr b"
    using assms(2) by (auto simp: still_current_def)
  have "jm_get (st_executionAttempts (w_store w)) (at_id att) = Some att"
    using assms(9,3) by (rule by_tool_call_get)
  then have "dispatchable (dispatch_request E clock g att t) (w_store w) att g"
    using assms by (simp add: dispatchable_def dispatch_request_def still_current_def attemptMatchesGrant_def
        getExecutionGrant_def)
  moreover have "sv_coordinator sv = None" using assms(1) by (simp add: may_execute_def)
  ultimately obtain p w' where fire: "dispatch_grant E sv clock ids k auth (cg_input i) g att t ?ap w
      = (Inr (g\<lparr>gr_consumedAt := Some (isoString E (clock 7))\<rparr>, dispatched_attempt att (isoString E (clock 7)), p), w')"
    "w_store w' = put_attempt (dispatched_attempt att (isoString E (clock 7)))
       (put_grant (g\<lparr>gr_consumedAt := Some (isoString E (clock 7))\<rparr>) (w_store w))"
    using dispatch_grant_succeeds b assms(10-12) by blast
  have "consume_approved E sv undisturbed clock ids k i auth g att t w
      = dispatch_grant E sv clock ids k auth (cg_input i) g att t ?ap w"
    using assms(1,2) by (simp add: consume_approved_def Let_def undisturbed_def may_execute_def before_dispatch_def
        attempt_approval_def still_current_def)
  moreover have "native_check E sv DispatchPhase t att g auth c w = (None, w)"
    using assms(1) by (simp add: native_check_def may_execute_def Let_def)
  moreover have "tool_call_failure sv t = None" using assms(1) by (simp add: may_execute_def)
  moreover have "current_failure E clock g (grant_receipt (w_store w) g) att t = None"
    using assms(2) by (simp add: still_current_def)
  ultimately show thesis
    using assms(3-6) fire by (intro that) (simp_all add: consume_bound_def Let_def undisturbed_def)
qed

lemma consume_recorded:
  "consume_checked E sv undisturbed clock ids k i auth c w = (Inr (g, att, p), w1)
    \<Longrightarrow> \<exists>w'. consumeGrant E sv undisturbed clock ids k i auth c w = (Inr g, w') \<and> w_store w' = w_store w1"
  by (simp add: consumeGrant_def Let_def undisturbed_def)

lemma consume_succeeds:
  assumes "may_execute E sv auth c t" "still_current E sv clock (w_store w) g att t"
    and "getExecutionAttemptByToolCallId (w_store w) (gr_workspaceId g) (gr_toolCallId g) = Some att"
    and "at_state att = Reserved" "attemptMatchesGrant att g True" "getToolCall (w_store w) (gr_toolCallId g) = Some t"
    and "getExecutionGrant (w_store w) (gr_id g) = Some g" "attempts_ok (w_store w)"
    and "grant_failure E sv (clock 0) g i auth = None"
    and "grant_ttl E g (clock 3) = Some left" "0 < left" "clock_ok E clock left"
  obtains w' where "consumeGrant E sv undisturbed clock ids (gr_id g) i auth c w
      = (Inr (g\<lparr>gr_consumedAt := Some (isoString E (clock 7))\<rparr>), w')"
    "w_store w' = put_attempt (dispatched_attempt att (isoString E (clock 7)))
       (put_grant (g\<lparr>gr_consumedAt := Some (isoString E (clock 7))\<rparr>) (w_store w))"
proof -
  have "\<not> truthy (gr_consumedAt g)" using assms(9) by (rule grant_failure_None)
  then obtain p w1 where run: "consume_bound E sv undisturbed clock ids (gr_id g) i auth c g (grant_receipt (w_store w) g) w
      = (Inr (g\<lparr>gr_consumedAt := Some (isoString E (clock 7))\<rparr>, dispatched_attempt att (isoString E (clock 7)), p), w1)"
    "w_store w1 = put_attempt (dispatched_attempt att (isoString E (clock 7)))
       (put_grant (g\<lparr>gr_consumedAt := Some (isoString E (clock 7))\<rparr>) (w_store w))"
    using consume_bound_succeeds [OF assms(1-7) _ assms(8,10-12)] by blast
  have "consume_checked E sv undisturbed clock ids (gr_id g) i auth c w
      = consume_bound E sv undisturbed clock ids (gr_id g) i auth c g (grant_receipt (w_store w) g) w"
    using assms(2,7,9) by (simp add: consume_checked_def Let_def undisturbed_def grant_receipt_def still_current_def)
  with run(1) obtain w' where "consumeGrant E sv undisturbed clock ids (gr_id g) i auth c w
      = (Inr (g\<lparr>gr_consumedAt := Some (isoString E (clock 7))\<rparr>), w')" "w_store w' = w_store w1"
    using consume_recorded by metis
  with run(2) show thesis by (intro that [of w']) simp_all
qed

section \<open>Creating a grant\<close>

lemma prepared_grant:
  assumes "prepareGrant E sv now uuid token i = Inr g"
  shows "gr_toolCallId g = tc_id (pg_toolCall i)" "gr_toolName g = tc_toolName (pg_toolCall i)"
    "gr_inputHash g = stored_input_hash E (pg_toolCall i)" "gr_policyVersionHash g = tc_policyVersionHash (pg_toolCall i)"
    "gr_consumedAt g = None"
    "pg_issuedAt i = None \<Longrightarrow> gr_expiresAt g = isoString E (now + coalesce (pg_ttlSeconds i) (sv_ttlSeconds sv) * 1000)
       \<and> valid_time (now + coalesce (pg_ttlSeconds i) (sv_ttlSeconds sv) * 1000)"
  using assms by (auto simp: prepareGrant_def Let_def split: option.splits if_splits)

lemma prepared_signature:
  assumes "prepareGrant E sv now uuid token i = Inr g"
  shows "gr_signature g = signGrant E (sv_secret sv) g"
proof -
  have "gr_signature g = signGrant E (sv_secret sv) (g\<lparr>gr_signature := []\<rparr>)"
    using assms by (auto simp: prepareGrant_def Let_def simp del: sign_ignores split: option.splits if_splits)
  then show ?thesis by simp
qed

lemma bound_grant:
  assumes "bindExecutionAttemptGrantAtomically \<lparr>gi_attemptId = at_id a, gi_grantId = k, gi_reservationOwner = o',
      gi_updatedAt = u, gi_workspaceId = ws\<rparr> s = (res, s')"
    and "attempts_ok s" "jm_get (st_executionAttempts s) (at_id a) = Some a"
    and "fst res = Gb_Bound \<or> fst res = Gb_AlreadyBound \<and> Option.bind (snd res) at_grantId = Some k"
  obtains b where "b = a \<or> b = a\<lparr>at_grantId := Some k, at_updatedAt := u\<rparr>" "at_grantId b = Some k"
    "jm_get (st_executionAttempts s') (at_id a) = Some b" "attempts_ok s'" "st_executionGrants s' = st_executionGrants s"
proof -
  have ok: "attempts_ok s'" using bind_ok [OF assms(2,1)] by blast
  show thesis
  proof (cases "fst res = Gb_Bound")
    case True
    then have "s' = put_attempt (a\<lparr>at_grantId := Some k, at_updatedAt := u\<rparr>) s"
      using assms(1,3) by (auto simp: bindExecutionAttemptGrantAtomically_def Let_def split: if_splits)
    then show thesis using ok
      by (intro that [of "a\<lparr>at_grantId := Some k, at_updatedAt := u\<rparr>"]) (simp_all add: put_attempt_def)
  next
    case False
    then have "s' = s" "at_grantId a = Some k"
      using assms(1,3,4) by (auto simp: bindExecutionAttemptGrantAtomically_def Let_def split: if_splits)
    then show thesis using ok assms(3) by (intro that [of a]) simp_all
  qed
qed

lemma created_grant:
  assumes "attempts_ok (w_store w)" "createGrant E sv undisturbed clock ids i w = (Inr g, w1)"
  obtains b where "prepareGrant E sv (clock 0) (ids 0) (ids 1) (i\<lparr>pg_deterministicSeed := None, pg_issuedAt := None\<rparr>) = Inr g"
    "getExecutionGrant (w_store w1) (gr_id g) = Some g"
    "getExecutionAttemptByToolCallId (w_store w1) (gr_workspaceId g) (gr_toolCallId g) = Some b"
    "at_state b = Reserved" "attemptMatchesGrant b g True" "attempts_ok (w_store w1)"
proof -
  from assms(2) have prepared:
    "prepareGrant E sv (clock 0) (ids 0) (ids 1) (i\<lparr>pg_deterministicSeed := None, pg_issuedAt := None\<rparr>) = Inr g"
    by (auto simp: createGrant_def Let_def split: sum.splits option.splits if_splits prod.splits)
  let ?s = "createExecutionGrant g (w_store w)"
  have ok: "attempts_ok ?s" using assms(1) by (simp add: createExecutionGrant_def attempts_ok_def)
  from assms(2) prepared obtain a where a: "getExecutionAttemptByToolCallId ?s (gr_workspaceId g) (gr_toolCallId g) = Some a"
    by (cases "getExecutionAttemptByToolCallId ?s (gr_workspaceId g) (gr_toolCallId g)")
      (simp_all add: createGrant_def undisturbed_def Let_def)
  with assms(2) prepared have ready: "at_state a = Reserved" "attemptMatchesGrant a g False"
    by (auto simp: createGrant_def undisturbed_def Let_def split: if_splits)
  let ?gi = "\<lparr>gi_attemptId = at_id a, gi_grantId = gr_id g, gi_reservationOwner = at_reservationOwner a,
                gi_updatedAt = gr_createdAt g, gi_workspaceId = gr_workspaceId g\<rparr>"
  obtain res s' where bind: "bindExecutionAttemptGrantAtomically ?gi ?s = (res, s')" by fastforce
  from assms(2) prepared a ready bind have res:
    "fst res = Gb_Bound \<or> fst res = Gb_AlreadyBound \<and> Option.bind (snd res) at_grantId = Some (gr_id g)"
    and s': "w_store w1 = s'"
    by (auto simp: createGrant_def undisturbed_def Let_def on_store_def recordPreparedGrantCreated_def split: if_splits)
  have stored: "jm_get (st_executionAttempts ?s) (at_id a) = Some a" using ok a by (rule by_tool_call_get)
  obtain b where b: "b = a \<or> b = a\<lparr>at_grantId := Some (gr_id g), at_updatedAt := gr_createdAt g\<rparr>"
    "at_grantId b = Some (gr_id g)" "jm_get (st_executionAttempts s') (at_id a) = Some b" "attempts_ok s'"
    "st_executionGrants s' = st_executionGrants ?s"
    using bind ok stored res by (rule bound_grant)
  have keys: "at_workspaceId b = gr_workspaceId g" "at_toolCallId b = gr_toolCallId g" "at_state b = Reserved"
    "attemptMatchesGrant b g True"
    using b(1,2) ready by (auto simp: attemptMatchesGrant_def)
  show thesis
    using prepared b keys get_by_tool_call [OF b(4,3)]
    by (intro that [of b]) (simp_all add: s' getExecutionGrant_def createExecutionGrant_def)
qed

text \<open>C9: a grant can be redeemed: if a grant is created for a tool call and nobody interferes, then redeeming it with the
  stored input of the tool call, before it expires, by a caller of the same workspace and as long as everything it was
  issued for is still current, succeeds; it marks the grant as consumed and the attempt as dispatched.\<close>

theorem created_grant_is_redeemed:
  assumes "reachable E (w_store w)"
    and "createGrant E sv undisturbed issue_clock issue_ids i w = (Inr g, w1)" and "pg_toolCall i = t"
    and "getToolCall (w_store w1) (tc_id t) = Some t" and "may_execute E sv auth c t"
    and "au_workspaceId auth = gr_workspaceId g" and "sv_currentPolicyVersionHash sv = tc_policyVersionHash t"
    and "\<And>att. getExecutionAttemptByToolCallId (w_store w1) (gr_workspaceId g) (tc_id t) = Some att
           \<Longrightarrow> still_current E sv clock (w_store w1) g att t"
    and "expires = issue_clock 0 + coalesce (pg_ttlSeconds i) (sv_ttlSeconds sv) * 1000"
    and "clock 0 < expires" and "clock 3 < expires" and "clock_ok E clock (expires - clock 3)"
  shows "\<exists>att w2. consumeGrant E sv undisturbed clock ids (gr_id g)
         \<lparr>cg_input = tc_input t, cg_policyVersionHash = tc_policyVersionHash t, cg_toolCallId = tc_id t,
          cg_toolName = tc_toolName t\<rparr> auth c w1
       = (Inr (g\<lparr>gr_consumedAt := Some (isoString E (clock 7))\<rparr>), w2)
     \<and> getExecutionGrant (w_store w2) (gr_id g) = Some (g\<lparr>gr_consumedAt := Some (isoString E (clock 7))\<rparr>)
     \<and> getExecutionAttempt (w_store w2) (at_id att) = Some (dispatched_attempt att (isoString E (clock 7)))
     \<and> at_toolCallId att = tc_id t"
proof -
  let ?i = "\<lparr>cg_input = tc_input t, cg_policyVersionHash = tc_policyVersionHash t, cg_toolCallId = tc_id t,
      cg_toolName = tc_toolName t\<rparr>"
  obtain att where made:
    "prepareGrant E sv (issue_clock 0) (issue_ids 0) (issue_ids 1) (i\<lparr>pg_deterministicSeed := None, pg_issuedAt := None\<rparr>) = Inr g"
    "getExecutionGrant (w_store w1) (gr_id g) = Some g"
    "getExecutionAttemptByToolCallId (w_store w1) (gr_workspaceId g) (gr_toolCallId g) = Some att"
    "at_state att = Reserved" "attemptMatchesGrant att g True" "attempts_ok (w_store w1)"
    using reachable_parts(1) [OF assms(1)] assms(2) by (rule created_grant)
  have g: "gr_toolCallId g = tc_id t" "gr_toolName g = tc_toolName t" "gr_inputHash g = stored_input_hash E t"
    "gr_policyVersionHash g = tc_policyVersionHash t" "gr_consumedAt g = None" "gr_expiresAt g = isoString E expires"
    "valid_time expires"
    using prepared_grant [OF made(1)] by (simp_all add: assms(3,9))
  have current: "still_current E sv clock (w_store w1) g att t" using assms(8) made(3) by (simp add: g(1))
  have "currentToolCallMismatch E t att g False = None"
    using current by (auto simp: still_current_def current_failure_def Let_def split: if_splits)
  then have input: "stored_input_hash E t = hashJson E (tc_input t)"
    unfolding currentToolCallMismatch_def Let_def first_of_None by simp
  have time: "dateParse E (gr_expiresAt g) = Some expires" using assms(12) g by (simp add: clock_ok_def)
  have "grant_failure E sv (clock 0) g ?i auth = None"
    unfolding grant_failure_def Let_def first_of_None
    using assms(6,7,10) g prepared_signature [OF made(1)] time by (simp add: reached_def input)
  moreover have "grant_ttl E g (clock 3) = Some (expires - clock 3)" by (simp add: grant_ttl_def time)
  moreover have "0 < expires - clock 3" using assms(11) by simp
  ultimately obtain w2 where "consumeGrant E sv undisturbed clock ids (gr_id g) ?i auth c w1
      = (Inr (g\<lparr>gr_consumedAt := Some (isoString E (clock 7))\<rparr>), w2)"
    "w_store w2 = put_attempt (dispatched_attempt att (isoString E (clock 7)))
       (put_grant (g\<lparr>gr_consumedAt := Some (isoString E (clock 7))\<rparr>) (w_store w1))"
    using consume_succeeds [OF assms(5) current made(3-5) _ made(2,6)] assms(4,12) g(1) by metis
  then show ?thesis
    using made(5) g(1) by (intro exI [of _ att] exI [of _ w2])
      (simp add: getExecutionGrant_def getExecutionAttempt_def put_attempt_def put_grant_def dispatched_attempt_def
        attemptMatchesGrant_def)
qed

section \<open>An example\<close>

definition runner :: auth_context where
  "runner = \<lparr>au_principalId = ''runner'', au_principalType = ''service'', au_displayName = ''Runner'', au_email = None,
     au_groups = [], au_scopes = [], au_authProvider = ''local'', au_clientId = None, au_workspaceId = ''default''\<rparr>"

definition ready_call :: tool_call where
  "ready_call = sample_tool_call\<lparr>tc_inputHash := Some (hashJson exec_env (JObj [])), tc_status := Authorized,
     tc_decision := Some Allow\<rparr>"

definition ready_receipt :: receipt where
  "ready_receipt = signReceipt exec_env ''key''
     \<lparr>rc_approvalId = None, rc_approvedEnvelopeHash = ''envelope'', rc_approvedInputHash = hashJson exec_env (JObj []),
      rc_createdAt = ''+'', rc_decisionActor = ''policy'', rc_decisionAuth = None, rc_decisionKind = PolicyAllow,
      rc_executionMode = ExternalGrant, rc_expiresAt = None, rc_id = ''receipt_1'', rc_issuedAt = ''+'',
      rc_keyId = ''key_1'', rc_operation = JObj [], rc_originalEnvelopeHash = ''envelope'',
      rc_originalInputHash = hashJson exec_env (JObj []), rc_outcome = None, rc_policyDecision = Some Allow,
      rc_policyReason = None, rc_policyRisk = None, rc_policyVersionHash = Some ''policy'', rc_policyVersionId = None,
      rc_protocol = ''custom'', rc_receiptHash = [], rc_reviewHash = None, rc_signature = [],
      rc_signatureAlg = ''hmac-sha256'', rc_source = JObj [], rc_toolCallId = ''tc_1'', rc_toolName = ''mail.send'',
      rc_version = ''v1'', rc_workspaceId = ''default''\<rparr>"

definition ready_attempt :: attempt where
  "ready_attempt = buildExecutionAttempt exec_env ''exec_1'' ''owner''
     \<lparr>bt_approval = None, bt_executionMode = ExternalGrant, bt_id = None, bt_inputHash = hashJson exec_env (JObj []),
      bt_now = ''+'', bt_receipt = Some ready_receipt, bt_reservationOwner = None, bt_toolCall = ready_call\<rparr>"

definition ready_store :: store where
  "ready_store = snd (reserveExecutionAttemptAtomically exec_env 0 ready_attempt None
     (createActionReceipt ready_receipt (createToolCall ready_call empty_store)))"

lemma ready_receipt_fields:
  "rc_id ready_receipt = ''receipt_1''" "rc_toolCallId ready_receipt = ''tc_1''" "rc_workspaceId ready_receipt = ''default''"
  "rc_approvedEnvelopeHash ready_receipt = ''envelope''" "rc_approvedInputHash ready_receipt = hashJson exec_env (JObj [])"
  "rc_approvalId ready_receipt = None" "rc_toolName ready_receipt = ''mail.send''"
  "rc_executionMode ready_receipt = ExternalGrant" "rc_expiresAt ready_receipt = None"
  "rc_policyDecision ready_receipt = Some Allow" "rc_policyVersionHash ready_receipt = Some ''policy''"
  "rc_policyVersionId ready_receipt = None" "verifyReceipt exec_env ''key'' ready_receipt"
  unfolding ready_receipt_def by (simp_all add: signed_verifies) (simp_all add: signReceipt_def Let_def)


lemma ready_call_fields:
  "tc_id ready_call = ''tc_1''" "tc_workspaceId ready_call = None" "tc_toolName ready_call = ''mail.send''"
  "tc_input ready_call = JObj []" "tc_inputHash ready_call = Some (hashJson exec_env (JObj []))"
  "tc_status ready_call = Authorized" "tc_decision ready_call = Some Allow" "tc_policyVersionHash ready_call = Some ''policy''"
  "tc_policyVersionId ready_call = None" "tc_actionEnvelope ready_call = JUndef"
  "tc_actionEnvelopeHash ready_call = Some ''envelope''" "tc_decisionTrace ready_call = JUndef"
  "tc_contentInfluence ready_call = None" "tc_influenceScopeId ready_call = None"
  "tc_canonicalActionRequestHash ready_call = None" "tc_canonicalActionRequestVersion ready_call = None"
  "tc_canonicalDecisionInputHash ready_call = None" "tc_resultSource ready_call = None" "tc_resultWithheld ready_call = None"
  by (simp_all add: ready_call_def sample_tool_call_def)

lemma ready_call_evidence:
  "decisionIdentity_attempt ready_call = (None, None)" "influence_binding_of exec_env ready_call = None"
  by (simp_all add: decisionIdentity_attempt_def influence_binding_of_def validContentInfluenceBindingHash_def
      ready_call_fields isJsonObject_def jget_def Let_def)

lemma ready_attempt_fields:
  "at_id ready_attempt = ''exec_1''" "at_toolCallId ready_attempt = ''tc_1''" "at_workspaceId ready_attempt = ''default''"
  "at_reservationOwner ready_attempt = ''owner''" "at_state ready_attempt = Reserved" "at_grantId ready_attempt = None"
  "at_version ready_attempt = ''actionproxy.execution-attempt.v1''" "at_attemptNumber ready_attempt = 1"
  "at_outcome ready_attempt = None" "at_dispatchedAt ready_attempt = None" "at_completedAt ready_attempt = None"
  "at_providerIdempotency ready_attempt = ''none''" "at_retryPolicy ready_attempt = ''never_automatic''"
  "at_executionMode ready_attempt = ExternalGrant" "at_executorId ready_attempt = ''actionproxy.external-runner''"
  "at_inputHash ready_attempt = hashJson exec_env (JObj [])"
  "at_binding ready_attempt =
     \<lparr>ab_actionEnvelopeHash = Some ''envelope'', ab_approvalAuthorizationHash = None, ab_approvalAuthorizationNonce = None,
      ab_approvalId = None, ab_canonicalActionRequestHash = None, ab_canonicalActionRequestVersion = None,
      ab_canonicalDecisionInputHash = None, ab_contentInfluenceBindingHash = Some None,
      ab_decisionId = None, ab_decisionVersion = None, ab_influenceScopeId = Some None,
      ab_policyVersionHash = Some ''policy'', ab_receiptHash = Some (rc_receiptHash ready_receipt),
      ab_receiptId = Some ''receipt_1'', ab_resultSourceHash = Some (hashJson exec_env (result_source_json ready_call))\<rparr>"
  by (simp_all add: ready_attempt_def buildExecutionAttempt_def ready_call_fields ready_receipt_fields Let_def
      EXECUTION_ATTEMPT_VERSION_def ready_call_evidence)

lemma ready_reserved:
  "reserveExecutionAttemptAtomically exec_env 0 ready_attempt None
     (createActionReceipt ready_receipt (createToolCall ready_call empty_store))
   = (\<lparr>rr_attempt = Some ready_attempt, rr_outcome = Rs_Reserved\<rparr>, ready_store)"
  "getExecutionAttemptByToolCallId ready_store ''default'' ''tc_1'' = Some ready_attempt"
  "getToolCall ready_store ''tc_1'' = Some ready_call" "getActionReceipt ready_store ''receipt_1'' = Some ready_receipt"
  "st_executionGrants ready_store = []"
  "st_executionAttemptByToolCall ready_store = [(executionAttemptToolCallKey ''default'' ''tc_1'', ''exec_1'')]"
proof -
  let ?s = "createActionReceipt ready_receipt (createToolCall ready_call empty_store)"
  have res: "reserveExecutionAttemptAtomically exec_env 0 ready_attempt None ?s
   = (\<lparr>rr_attempt = Some ready_attempt, rr_outcome = Rs_Reserved\<rparr>,
      ?s\<lparr>st_executionAttempts := [(''exec_1'', ready_attempt)],
        st_executionAttemptByToolCall := [(executionAttemptToolCallKey ''default'' ''tc_1'', ''exec_1'')]\<rparr>)"
    by (simp add: reserveExecutionAttemptAtomically_def executionAttemptBindingMatches_def attempt_shape_ok_def
        attempt_request_ok_def attempt_approval_ok_def attempt_receipt_ok_def ready_attempt_fields
        ready_call_fields ready_receipt_fields createActionReceipt_def createToolCall_def empty_store_def Let_def
        executionAttemptGovernanceBindingMatches_def ready_call_evidence default_ws_def jm_get_def jm_has_def jm_values_def jm_set_def)
  have eq: "ready_store = ?s\<lparr>st_executionAttempts := [(''exec_1'', ready_attempt)],
        st_executionAttemptByToolCall := [(executionAttemptToolCallKey ''default'' ''tc_1'', ''exec_1'')]\<rparr>"
    unfolding ready_store_def by (simp only: res snd_conv)
  show "getExecutionAttemptByToolCallId ready_store ''default'' ''tc_1'' = Some ready_attempt"
    "getToolCall ready_store ''tc_1'' = Some ready_call" "getActionReceipt ready_store ''receipt_1'' = Some ready_receipt"
    "st_executionGrants ready_store = []"
    "st_executionAttemptByToolCall ready_store = [(executionAttemptToolCallKey ''default'' ''tc_1'', ''exec_1'')]"
    by (simp_all add: eq getExecutionAttemptByToolCallId_def getToolCall_def truthy_def getActionReceipt_def
        createActionReceipt_def createToolCall_def ready_receipt_fields ready_call_fields empty_store_def jm_get_def)
  show "reserveExecutionAttemptAtomically exec_env 0 ready_attempt None ?s
   = (\<lparr>rr_attempt = Some ready_attempt, rr_outcome = Rs_Reserved\<rparr>, ready_store)"
    unfolding ready_store_def by (simp only: res snd_conv)
qed


lemma ready_reachable: "reachable exec_env ready_store"
proof -
  have "reachable exec_env (createActionReceipt ready_receipt (createToolCall ready_call empty_store))"
    by (rule rtranclp.rtrancl_into_rtrancl) (rule r_into_rtranclp, rule tool_call_created, rule receipt_created)
  then show ?thesis using attempt_reserved [OF ready_reserved(1)] by (rule rtranclp.rtrancl_into_rtrancl)
qed

definition ready_world :: world where
  "ready_world = \<lparr>w_store = ready_store, w_audit = \<lparr>al_rows = [], al_eventIds = []\<rparr>, w_exec = fresh_authority,
     w_native = createNativeExecutionAuthorizationAuthority\<rparr>"

definition ready_service :: grant_service where
  "ready_service = \<lparr>sv_secret = ''key'', sv_ttlSeconds = 60, sv_currentPolicyVersionHash = Some ''policy'',
     sv_beforeDispatch = None, sv_nativeVerifier = False, sv_preparedNativeWriteRequired = None, sv_coordinator = None\<rparr>"

definition ready_request :: prepare_input where
  "ready_request = \<lparr>pg_actor = ''policy'', pg_auth = None, pg_deterministicSeed = None, pg_issuedAt = None,
     pg_receipt = Some ready_receipt, pg_toolCall = ready_call, pg_ttlSeconds = None\<rparr>"

definition ready_grant :: grant where
  "ready_grant = (case prepareGrant exec_env ready_service 0 ''id'' ''nonce'' ready_request of Inr g \<Rightarrow> g | Inl _ \<Rightarrow> sample_grant)"

lemma ready_prepared: "prepareGrant exec_env ready_service 0 ''id'' ''nonce'' ready_request = Inr ready_grant"
proof -
  have "prepareGrant exec_env ready_service 0 ''id'' ''nonce'' ready_request \<in> range Inr"
    by (simp add: prepareGrant_def ready_request_def ready_service_def valid_time_def Let_def)
  then show ?thesis by (auto simp: ready_grant_def)
qed

lemma ready_grant_fields:
  "gr_id ready_grant = ''grant_id''" "gr_workspaceId ready_grant = ''default''" "gr_toolCallId ready_grant = ''tc_1''"
  "gr_toolName ready_grant = ''mail.send''" "gr_inputHash ready_grant = hashJson exec_env (JObj [])"
  "gr_approvedEnvelopeHash ready_grant = Some ''envelope''" "gr_approvedInputHash ready_grant = Some (hashJson exec_env (JObj []))"
  "gr_policyVersionHash ready_grant = Some ''policy''" "gr_receiptHash ready_grant = Some (rc_receiptHash ready_receipt)"
  "gr_receiptId ready_grant = Some ''receipt_1''" "gr_consumedAt ready_grant = None"
  by (simp_all add: ready_grant_def prepareGrant_def ready_request_def ready_service_def ready_call_fields
      ready_receipt_fields stored_input_hash_def valid_time_def Let_def)

lemma ready_matches: "attemptMatchesGrant ready_attempt ready_grant False"
  by (simp add: attemptMatchesGrant_def ready_attempt_fields ready_grant_fields)


lemma ready_created:
  "\<exists>w1. createGrant exec_env ready_service undisturbed (\<lambda>i. 0) (\<lambda>i. if i = 0 then ''id'' else ''nonce'') ready_request ready_world
     = (Inr ready_grant, w1)
   \<and> w_store w1 = put_attempt (ready_attempt\<lparr>at_grantId := Some ''grant_id'', at_updatedAt := gr_createdAt ready_grant\<rparr>)
       (createExecutionGrant ready_grant ready_store)"
proof -
  have same: "ready_request\<lparr>pg_deterministicSeed := None, pg_issuedAt := None\<rparr> = ready_request"
    by (simp add: ready_request_def)
  have "getExecutionAttemptByToolCallId (createExecutionGrant ready_grant ready_store) ''default'' ''tc_1'' = Some ready_attempt"
    using ready_reserved(2) by (simp add: createExecutionGrant_def getExecutionAttemptByToolCallId_def Let_def split: if_splits)
  moreover have "jm_get (st_executionAttempts (createExecutionGrant ready_grant ready_store)) ''exec_1'' = Some ready_attempt"
    using by_tool_call_get [OF reachable_parts(1) [OF ready_reachable] ready_reserved(2)]
    by (simp add: createExecutionGrant_def ready_attempt_fields)
  ultimately show ?thesis
    by (simp add: createGrant_def same ready_prepared ready_world_def undisturbed_def ready_grant_fields ready_matches
        ready_attempt_fields on_store_def bindExecutionAttemptGrantAtomically_def recordPreparedGrantCreated_def Let_def)
qed


definition bound_attempt :: attempt where
  "bound_attempt = ready_attempt\<lparr>at_grantId := Some ''grant_id'', at_updatedAt := gr_createdAt ready_grant\<rparr>"

definition issued_store :: store where
  "issued_store = put_attempt bound_attempt (createExecutionGrant ready_grant ready_store)"

lemma bound_attempt_fields:
  "at_id bound_attempt = ''exec_1''" "at_toolCallId bound_attempt = ''tc_1''" "at_workspaceId bound_attempt = ''default''"
  "at_state bound_attempt = Reserved" "at_grantId bound_attempt = Some ''grant_id''"
  "at_providerIdempotency bound_attempt = ''none''" "at_retryPolicy bound_attempt = ''never_automatic''"
  "at_executionMode bound_attempt = ExternalGrant" "at_executorId bound_attempt = ''actionproxy.external-runner''"
  "at_inputHash bound_attempt = hashJson exec_env (JObj [])" "at_binding bound_attempt = at_binding ready_attempt"
  by (simp_all add: bound_attempt_def ready_attempt_fields)

lemma issued_facts:
  "getToolCall issued_store ''tc_1'' = Some ready_call" "getActionReceipt issued_store ''receipt_1'' = Some ready_receipt"
  "getExecutionAttemptByToolCallId issued_store ''default'' ''tc_1'' = Some bound_attempt"
proof -
  have "jm_get [(k, ''exec_1'')] k = Some ''exec_1''" for k :: string by (simp add: jm_get_def)
  with ready_reserved(2-4) show "getToolCall issued_store ''tc_1'' = Some ready_call"
    "getActionReceipt issued_store ''receipt_1'' = Some ready_receipt"
    "getExecutionAttemptByToolCallId issued_store ''default'' ''tc_1'' = Some bound_attempt"
    by (simp_all add: issued_store_def put_attempt_def createExecutionGrant_def getToolCall_def getActionReceipt_def
        getExecutionAttemptByToolCallId_def Let_def bound_attempt_fields(1) ready_reserved(6) truthy_def)
qed

lemma ready_no_source: "canonicalMcpSource JUndef = None"
  "decisionIdentity_grant exec_env ready_call = None"
  "contentExposureRevisionGuard exec_env ready_call = None"
  by (simp_all add: canonicalMcpSource_def decisionIdentity_grant_def contentExposureRevisionGuard_def
      validatedContentExposureRevisionGuard_def validContentInfluenceBindingHash_def ready_call_fields isJsonObject_def
      jget_def Let_def)

lemma ready_may_execute:
  "may_execute exec_env ready_service runner \<lparr>co_native = None, co_wrapperSessionId = None\<rparr> ready_call"
  by (simp add: may_execute_def ready_service_def tool_call_failure_def prepared_action_def ready_call_fields jget_def jtruthy_def
      assertMcpAdapterAuthorization_def ready_no_source)

lemma ready_current_failure:
  "current_failure exec_env clock ready_grant (Some ready_receipt) bound_attempt ready_call = None"
proof -
  have "currentToolCallMismatch exec_env ready_call bound_attempt ready_grant False = None"
    unfolding currentToolCallMismatch_def Let_def first_of_None
    by (simp add: ready_call_fields bound_attempt_fields ready_attempt_fields ready_grant_fields ready_no_source
        default_ws_def stored_input_hash_def requiresMcpResultDelivery_def jget_def jtruthy_def
        validContentInfluenceBindingHash_def)
  moreover have "currentReceiptMismatch exec_env (clock 1) (Some ready_receipt) ready_call bound_attempt ready_grant = None"
    by (simp add: currentReceiptMismatch_def ready_call_fields bound_attempt_fields ready_attempt_fields
        ready_grant_fields ready_receipt_fields Let_def)
  ultimately show ?thesis by (simp add: current_failure_def)
qed

lemma ready_binding: "\<exists>b. buildExecutionAuthorizationBinding exec_env now None bound_attempt ready_call = Inr b"
proof -
  have "binding_failure exec_env now None bound_attempt ready_call = None"
    unfolding binding_failure_def Let_def first_of_None
    by (simp add: ready_call_fields bound_attempt_fields ready_attempt_fields default_ws_def stored_input_hash_def
        validContentInfluenceBindingHash_def assertApprovalBinding_def decisionIdentity_exec_def isJsonObject_def jget_def)
  then show ?thesis by (simp add: buildExecutionAuthorizationBinding_def Let_def)
qed

lemma ready_still_current: "still_current exec_env ready_service clock issued_store ready_grant bound_attempt ready_call"
proof -
  have "grant_receipt issued_store ready_grant = Some ready_receipt"
    by (simp add: grant_receipt_def ready_grant_fields issued_facts)
  moreover have "attempt_approval issued_store bound_attempt = None"
    by (simp add: attempt_approval_def bound_attempt_fields ready_attempt_fields)
  moreover have "grant_receipt_failure exec_env ''key'' ready_grant (Some ready_receipt) = None"
    by (simp add: grant_receipt_failure_def ready_receipt_fields ready_grant_fields)
  ultimately show ?thesis
    by (simp add: still_current_def ready_current_failure ready_binding ready_no_source bound_attempt_fields
        ready_attempt_fields ready_service_def contentExposureRevisionMatches_def)
qed

lemma ready_clock: "clock_ok exec_env (\<lambda>i. 1) 59999"
  by (simp add: clock_ok_def exec_env_times valid_time_def)


lemma ready_policy: "sv_currentPolicyVersionHash ready_service = Some ''policy''"
  by (simp add: ready_service_def)

definition redeem_request :: consume_input where
  "redeem_request = \<lparr>cg_input = JObj [], cg_policyVersionHash = Some ''policy'', cg_toolCallId = ''tc_1'',
     cg_toolName = ''mail.send''\<rparr>"

theorem created_grant_is_redeemed_witness:
  "\<exists>w1 w2. createGrant exec_env ready_service undisturbed (\<lambda>i. 0) (\<lambda>i. if i = 0 then ''id'' else ''nonce'') ready_request ready_world
       = (Inr ready_grant, w1)
     \<and> consumeGrant exec_env ready_service undisturbed (\<lambda>i. 1) (\<lambda>i. []) ''grant_id'' redeem_request runner
         \<lparr>co_native = None, co_wrapperSessionId = None\<rparr> w1
       = (Inr (ready_grant\<lparr>gr_consumedAt := Some ''+t''\<rparr>), w2)"
proof -
  obtain w1 where w1: "createGrant exec_env ready_service undisturbed (\<lambda>i. 0) (\<lambda>i. if i = 0 then ''id'' else ''nonce'')
      ready_request ready_world = (Inr ready_grant, w1)" "w_store w1 = issued_store"
    using ready_created by (auto simp: issued_store_def bound_attempt_def)
  have start: "reachable exec_env (w_store ready_world)" by (simp add: ready_world_def ready_reachable)
  have t: "pg_toolCall ready_request = ready_call" by (simp add: ready_request_def)
  have time: "60000 = (\<lambda>i :: nat. 0 :: int) 0 + coalesce (pg_ttlSeconds ready_request) (sv_ttlSeconds ready_service) * 1000"
    by (simp add: ready_request_def ready_service_def)
  have "isoString exec_env 1 = ''+t''" by (simp add: exec_env_def)
  moreover have "redeem_request = \<lparr>cg_input = tc_input ready_call, cg_policyVersionHash = tc_policyVersionHash ready_call,
      cg_toolCallId = tc_id ready_call, cg_toolName = tc_toolName ready_call\<rparr>"
    by (simp add: redeem_request_def ready_call_fields)
  moreover have "\<exists>att w2. consumeGrant exec_env ready_service undisturbed (\<lambda>i. 1) (\<lambda>i. []) (gr_id ready_grant)
         \<lparr>cg_input = tc_input ready_call, cg_policyVersionHash = tc_policyVersionHash ready_call, cg_toolCallId = tc_id ready_call,
          cg_toolName = tc_toolName ready_call\<rparr> runner \<lparr>co_native = None, co_wrapperSessionId = None\<rparr> w1
       = (Inr (ready_grant\<lparr>gr_consumedAt := Some (isoString exec_env 1)\<rparr>), w2)
     \<and> getExecutionGrant (w_store w2) (gr_id ready_grant) = Some (ready_grant\<lparr>gr_consumedAt := Some (isoString exec_env 1)\<rparr>)
     \<and> getExecutionAttempt (w_store w2) (at_id att) = Some (dispatched_attempt att (isoString exec_env 1))
     \<and> at_toolCallId att = tc_id ready_call"
    by (rule created_grant_is_redeemed [OF start w1(1) t _ ready_may_execute _ _ _ time])
      (use ready_clock in \<open>simp_all add: w1(2) issued_facts ready_call_fields ready_grant_fields runner_def ready_policy
         ready_still_current\<close>)
  ultimately show ?thesis using w1(1) by (auto simp: ready_grant_fields)
qed

lemma issued_reachable: "reachable exec_env issued_store"
proof -
  have "store_step exec_env ready_store (createExecutionGrant ready_grant ready_store)"
    by (rule grant_created) (simp_all add: ready_reserved ready_grant_fields jm_get_def)
  moreover have "bindExecutionAttemptGrantAtomically
      \<lparr>gi_attemptId = ''exec_1'', gi_grantId = ''grant_id'', gi_reservationOwner = ''owner'',
       gi_updatedAt = gr_createdAt ready_grant, gi_workspaceId = ''default''\<rparr> (createExecutionGrant ready_grant ready_store)
    = ((Gb_Bound, Some bound_attempt), issued_store)"
    using by_tool_call_get [OF reachable_parts(1) [OF ready_reachable] ready_reserved(2)]
    by (simp add: bindExecutionAttemptGrantAtomically_def createExecutionGrant_def ready_attempt_fields
        issued_store_def bound_attempt_def Let_def)
  ultimately show ?thesis
    using ready_reachable by (meson grant_bound rtranclp.rtrancl_into_rtrancl)
qed

lemma ready_redeemed:
  assumes "w_store w = issued_store"
  obtains w2 where "consumeGrant exec_env ready_service undisturbed (\<lambda>i. 1) (\<lambda>i. []) ''grant_id'' redeem_request runner
         \<lparr>co_native = None, co_wrapperSessionId = None\<rparr> w = (Inr (ready_grant\<lparr>gr_consumedAt := Some ''+t''\<rparr>), w2)"
proof -
  have ok: "attempts_ok (w_store w)" by (simp add: assms reachable_parts(1) [OF issued_reachable])
  have failure: "grant_failure exec_env ready_service 1 ready_grant redeem_request runner = None"
    unfolding grant_failure_def Let_def first_of_None
    using prepared_signature [OF ready_prepared] exec_env_times
      prepared_grant(6) [OF ready_prepared]
    by (simp add: ready_grant_fields redeem_request_def runner_def ready_service_def ready_request_def reached_def)
  have ttl: "grant_ttl exec_env ready_grant 1 = Some 59999"
    using prepared_grant(6) [OF ready_prepared] exec_env_times
    by (simp add: grant_ttl_def ready_service_def ready_request_def)
  have "getExecutionGrant (w_store w) (gr_id ready_grant) = Some ready_grant"
    by (simp add: assms issued_store_def put_attempt_def createExecutionGrant_def getExecutionGrant_def)
  moreover have "attemptMatchesGrant bound_attempt ready_grant True"
    using ready_matches by (simp add: attemptMatchesGrant_def bound_attempt_fields ready_attempt_fields ready_grant_fields)
  ultimately show thesis
    using consume_succeeds [where E = exec_env and sv = ready_service and clock = "\<lambda>i. 1" and ids = "\<lambda>i. []"
        and g = ready_grant and i = redeem_request and w = w and att = bound_attempt and t = ready_call and left = 59999,
        OF ready_may_execute _ _ _ _ _ _ ok failure ttl _ ready_clock]
      that ready_still_current
    by (auto simp: assms ready_grant_fields issued_facts bound_attempt_fields exec_env_def)
qed


definition issued_world :: world where
  "issued_world = ready_world\<lparr>w_store := issued_store\<rparr>"


section \<open>Redeeming again\<close>

text \<open>C10: a consumed grant stays consumed: whatever the service is asked and whatever other requests and the dispatch
  hook do in between, a grant that is consumed in a reachable store is never redeemed again; the call ends in an error.\<close>

theorem consumed_grant_stays_consumed:
  assumes "reachable E (w_store w)" and "getExecutionGrant (w_store w) k = Some g" and "truthy (gr_consumedAt g)"
    and "others_step E rest" and "hook_steps E sv" and "sv_coordinator sv = None"
  shows "\<exists>e. fst (consumeGrant E sv rest clock ids k i auth c w) = Inl e"
proof (rule ccontr)
  assume "\<not> ?thesis"
  then obtain g' w' where "consumeGrant E sv rest clock ids k i auth c w = (Inr g', w')"
    by (metis prod.collapse sum.exhaust_sel sum.collapse)
  then obtain att p w1 where "consume_checked E sv rest clock ids k i auth c w = (Inr (g', att, p), w1)"
    using assms(4) by (rule consumed_result)
  then obtain sg h where h: "steps E (w_store w) sg" "getExecutionGrant sg k = Some h"
    "grant_failure E sv (clock 0) h i auth = None"
    using assms(4-6) by (elim consume_checked_ok) auto
  have "grants_advance (w_store w) sg" using progress_parts(2) [OF assms(1) h(1)] .
  then have "h = g" using assms(2,3) h(2) by (fastforce simp: grants_advance_def grant_advances_def getExecutionGrant_def)
  with grant_failure_None(2) [OF h(3)] assms(3) show False by simp
qed

theorem consumed_grant_stays_consumed_witness:
  "\<exists>e. fst (consumeGrant exec_env ready_service undisturbed (\<lambda>i. 1) (\<lambda>i. []) ''grant_id'' redeem_request runner
     \<lparr>co_native = None, co_wrapperSessionId = None\<rparr>
     (issued_world\<lparr>w_store := snd (consumeExecutionGrantAtomically ''grant_id'' ''t'' issued_store)\<rparr>)) = Inl e"
proof (rule consumed_grant_stays_consumed)
  let ?w = "issued_world\<lparr>w_store := snd (consumeExecutionGrantAtomically ''grant_id'' ''t'' issued_store)\<rparr>"
  have "jm_get (st_executionGrants issued_store) ''grant_id'' = Some ready_grant"
    by (simp add: issued_store_def put_attempt_def createExecutionGrant_def ready_grant_fields)
  then show "getExecutionGrant (w_store ?w) ''grant_id'' = Some (ready_grant\<lparr>gr_consumedAt := Some ''t''\<rparr>)"
    by (simp add: consumeExecutionGrantAtomically_def getExecutionGrant_def ready_grant_fields Let_def)
  show "reachable exec_env (w_store ?w)"
    using issued_reachable grant_consumed [OF surjective_pairing, of exec_env]
    by (simp add: rtranclp.rtrancl_into_rtrancl)
qed (simp_all add: hook_steps_def before_dispatch_def ready_service_def)

end
