(* ===== verification/GrantReport.thy ===== *)
theory GrantReport
  imports GrantOutcomeFacts GrantRedeem
begin

text \<open>
  A run of the grant service from a reserved attempt to a reported outcome: an MCP call whose result has an untrusted
  source is dispatched, its outcome is reported, and the same report is made once more.
\<close>

section \<open>The call and its grant\<close>

definition fixed_digest :: string where "fixed_digest = replicate 64 CHR ''a''"

definition flat_env :: env where
  \<comment> \<open>every fixed_digest is the same: an instance in which a run can be followed\<close>
  "flat_env = exec_env\<lparr>sha256Hex := (\<lambda>s. fixed_digest), hmacSha256Hex := (\<lambda>k s. fixed_digest)\<rparr>"

lemma flat_hash [simp]: "hashJson flat_env v = fixed_digest" "sha256Hex flat_env s = fixed_digest" "hmacSha256Hex flat_env k s = fixed_digest"
  by (simp_all add: hashJson_def flat_env_def)

definition mcp_scope_id :: string where "mcp_scope_id = ''influence_'' @ fixed_digest"

lemma scope_id_ok: "is_influence_scope_id mcp_scope_id" by code_simp
lemma scope_id_truthy [simp]: "truthy (Some mcp_scope_id)" "mcp_scope_id \<noteq> []" by (simp_all add: mcp_scope_id_def truthy_def)
lemma digest_truthy [simp]: "truthy (Some fixed_digest)" by (simp add: fixed_digest_def truthy_def)
lemma wrapper_truthy: "truthy (Some ''wrapper'')" "\<not> truthy None" by (simp_all add: truthy_def)
lemma safe_refl: "safeEqual s s"  by (simp add: safeEqual_def list_all_iff zip_same_conv_map)

definition mcp_user :: auth_context where
  "mcp_user = \<lparr>au_principalId = ''agent'', au_principalType = ''service'', au_displayName = ''Agent'', au_email = None,
     au_groups = [], au_scopes = [], au_authProvider = ''local'', au_clientId = None, au_workspaceId = ''default''\<rparr>"

lemma mcp_scope_derived: "deriveInfluenceScopeId flat_env
  \<lparr>sb_adapterId = ''mcp-stdio:mail'', sb_principalId = ''agent'', sb_transport = ''stdio'',
                        sb_transportSessionId = ''wrapper'', sb_workspaceId = ''default''\<rparr> = Some mcp_scope_id"
  by code_simp

definition mail_source :: policy_result_source where
  "mail_source = \<lparr>prs_integrity = PublicUntrusted, prs_sourceId = Some ''mail''\<rparr>"

definition mcp_envelope :: json where
  "mcp_envelope = JObj [(''protocol'', JStr ''mcp''),
       (''source'', JObj [(''type'', JStr ''mcp''), (''id'', JStr ''mcp-stdio:mail'')]),
       (''executionMode'', JStr ''external_grant''), (''toolName'', JStr ''mail.send''), (''inputHash'', JStr fixed_digest),
       (''envelopeHash'', JStr fixed_digest)]"
definition of_value :: "json \<Rightarrow> json" where "of_value v = JObj [(''value'', v)]"

definition mcp_trace :: json where
  "mcp_trace = JObj [(''canonicalRequestEvidence'', JObj
       [(''source'', of_value (JObj [(''adapterId'', JStr ''mcp-stdio:mail''), (''type'', JStr ''mcp'')])),
        (''sourceProtocol'', of_value (JStr ''mcp'')), (''tenant'', of_value (JObj [(''id'', JStr ''default'')])),
        (''session'', JObj [(''present'', JBool True),
           (''provenance'', JObj [(''source'', JStr ''actionproxy.verified-mcp-influence-scope''), (''trust'', JStr ''derived'')]),
           (''value'', JObj [(''sessionId'', JStr mcp_scope_id)])])])]"

definition mcp_call :: tool_call where
  "mcp_call = sample_tool_call\<lparr>tc_inputHash := Some fixed_digest, tc_status := Authorized, tc_decision := Some Allow,
     tc_requestedByAuth := Some mcp_user, tc_influenceScopeId := Some mcp_scope_id,  tc_actionEnvelopeHash := None,
     tc_resultSource := Some (ResultFrom mail_source),
     tc_resultWithheld := Some True, tc_actionEnvelope := mcp_envelope, tc_decisionTrace := mcp_trace\<rparr>"

lemma mcp_call_fields [simp]:
  "tc_id mcp_call = ''tc_1''" "tc_workspaceId mcp_call = None" "tc_toolName mcp_call = ''mail.send''"
  "tc_inputHash mcp_call = Some fixed_digest" "tc_status mcp_call = Authorized" "tc_decision mcp_call = Some Allow"
  "tc_requestedByAuth mcp_call = Some mcp_user" "tc_influenceScopeId mcp_call = Some mcp_scope_id" "tc_actionEnvelopeHash mcp_call = None"
  "tc_resultSource mcp_call = Some (ResultFrom mail_source)" "tc_resultWithheld mcp_call = Some True"
  "tc_actionEnvelope mcp_call = mcp_envelope" "tc_decisionTrace mcp_call = mcp_trace"
  "tc_contentInfluence mcp_call = None" "tc_policyVersionHash mcp_call = Some ''policy''" "tc_policyVersionId mcp_call = None"
  "tc_canonicalDecisionInputHash mcp_call = None" "tc_canonicalActionRequestHash mcp_call = None"
  "tc_canonicalActionRequestVersion mcp_call = None" "tc_resultDelivery mcp_call = JUndef" "tc_result mcp_call = JUndef" "tc_input mcp_call = JObj []"
  by (simp_all add: mcp_call_def sample_tool_call_def)

lemma mcp_envelope_get [simp]: "jget mcp_envelope ''preparedAction'' = JUndef" "jget mcp_envelope ''executionMode'' = JStr ''external_grant''"
  "jget mcp_envelope ''toolName'' = JStr ''mail.send''" "jget mcp_envelope ''inputHash'' = JStr fixed_digest"
  "jget mcp_envelope ''envelopeHash'' = JStr fixed_digest"
  by (simp_all add: mcp_envelope_def jget_def jm_get_def)

lemma mcp_trace_get: "canonicalMcpSource mcp_trace = Some (Some ''mcp-stdio:mail'', Some ''mcp'')"
  "authoritativeInfluenceScopeId mcp_call = Some mcp_scope_id" "jget mcp_trace ''decisionV1'' = JUndef"
  by (simp_all add: canonicalMcpSource_def authoritativeInfluenceScopeId_def mcp_trace_def of_value_def jget_def jm_get_def
    isJsonObject_def object_or_undef_def mcp_envelope_def scope_id_ok jstring_def default_ws_def jopt_def Let_def)

definition mcp_attempt :: attempt where
  "mcp_attempt = buildExecutionAttempt flat_env ''exec_1'' ''owner''
     \<lparr>bt_approval = None, bt_executionMode = ExternalGrant, bt_id = None, bt_inputHash = fixed_digest,
      bt_now = ''+'', bt_receipt = None, bt_reservationOwner = None, bt_toolCall = mcp_call\<rparr>"

definition mcp_binding :: attempt_binding where
  "mcp_binding = \<lparr>ab_actionEnvelopeHash = None, ab_approvalAuthorizationHash = None, ab_approvalAuthorizationNonce = None,
      ab_approvalId = None, ab_canonicalActionRequestHash = None, ab_canonicalActionRequestVersion = None,
      ab_canonicalDecisionInputHash = None, ab_contentInfluenceBindingHash = Some None,
      ab_decisionId = None, ab_decisionVersion = None, ab_influenceScopeId = Some (Some mcp_scope_id),
      ab_policyVersionHash = Some ''policy'', ab_receiptHash = None,
      ab_receiptId = None, ab_resultSourceHash = Some fixed_digest\<rparr>"

lemma mcp_attempt_eq: "mcp_attempt =
   \<lparr>at_attemptNumber = 1, at_binding =
     mcp_binding, at_completedAt = None,
     at_dispatchedAt = None, at_executionMode = ExternalGrant,
     at_executorId = ''actionproxy.external-runner'', at_grantId = None, at_id = ''exec_1'', at_inputHash = fixed_digest,
     at_outcome = None, at_providerIdempotency = ''none'', at_reservedAt = ''+'', at_reservationOwner = ''owner'',
     at_retryPolicy = ''never_automatic'', at_state = Reserved, at_toolCallId = ''tc_1'', at_updatedAt = ''+'',
     at_version = ''actionproxy.execution-attempt.v1'', at_workspaceId = ''default''\<rparr>"
  by (simp add: mcp_attempt_def buildExecutionAttempt_def Let_def 
      EXECUTION_ATTEMPT_VERSION_def decisionIdentity_attempt_def influence_binding_of_def validContentInfluenceBindingHash_def
      mcp_trace_get default_ws_def isJsonObject_def mcp_binding_def)

definition mcp_grant :: grant where
  "mcp_grant = \<lparr>gr_id = ''grant_id'', gr_workspaceId = ''default'', gr_toolCallId = ''tc_1'', gr_toolName = ''mail.send'',
     gr_inputHash = fixed_digest, gr_approvedEnvelopeHash = None, gr_approvedInputHash = None, gr_policyVersionHash = Some ''policy'',
     gr_receiptHash = None, gr_receiptId = None, gr_actor = ''policy'', gr_auth = None, gr_expiresAt = ''+'', gr_nonce = ''nonce'',
     gr_signature = fixed_digest, gr_consumedAt = None, gr_createdAt = ''+''\<rparr>"

section \<open>Up to the dispatch\<close>

definition mcp_reserved :: store where
  "mcp_reserved = snd (reserveExecutionAttemptAtomically flat_env 0 mcp_attempt None (createToolCall mcp_call empty_store))"

lemma mcp_reserved_eq: "mcp_reserved = empty_store\<lparr>st_toolCalls := [(''tc_1'', mcp_call)],
   st_executionAttempts := [(''exec_1'', mcp_attempt)],
        st_executionAttemptByToolCall := [(executionAttemptToolCallKey ''default'' ''tc_1'', ''exec_1'')]\<rparr>"
  by (simp add: mcp_reserved_def reserveExecutionAttemptAtomically_def executionAttemptBindingMatches_def attempt_shape_ok_def
        attempt_request_ok_def attempt_approval_ok_def attempt_receipt_ok_def mcp_attempt_eq
        createToolCall_def empty_store_def Let_def EXECUTION_ATTEMPT_VERSION_def mcp_trace_get
        executionAttemptGovernanceBindingMatches_def influence_binding_of_def mcp_binding_def validContentInfluenceBindingHash_def
         decisionIdentity_attempt_def isJsonObject_def default_ws_def jm_get_def jm_has_def jm_values_def jm_set_def)

definition mcp_bound :: store where
  "mcp_bound = snd (bindExecutionAttemptGrantAtomically
     \<lparr>gi_attemptId = ''exec_1'', gi_grantId = ''grant_id'', gi_reservationOwner = ''owner'', gi_updatedAt = ''+'',
      gi_workspaceId = ''default''\<rparr> (createExecutionGrant mcp_grant mcp_reserved))"

lemma mcp_bound_eq: "mcp_bound = mcp_reserved\<lparr>st_executionAttempts := [(''exec_1'', mcp_attempt\<lparr>at_grantId := Some ''grant_id''\<rparr>)],
    st_executionGrants := [(''grant_id'', mcp_grant)]\<rparr>"
  by (simp add: mcp_bound_def bindExecutionAttemptGrantAtomically_def createExecutionGrant_def Let_def mcp_reserved_eq
     mcp_grant_def mcp_attempt_eq jm_get_def jm_set_def put_attempt_def empty_store_def truthy_def)

definition mcp_dispatched :: store where
  "mcp_dispatched = snd (consumeExecutionGrantAndDispatchAttemptAtomically
     \<lparr>dp_attemptId = ''exec_1'', dp_dispatchedAt = ''+t'', dp_grantId = ''grant_id'', dp_reservationOwner = ''owner'',
      dp_toolCallId = ''tc_1'', dp_workspaceId = ''default'', dp_contentExposureRevision = None\<rparr> mcp_bound)"

lemma mcp_dispatched_eq: "mcp_dispatched = mcp_bound\<lparr>
   st_executionAttempts := [(''exec_1'', mcp_attempt\<lparr>at_grantId := Some ''grant_id'', at_state := Dispatched,
      at_dispatchedAt := Some ''+t'', at_updatedAt := ''+t''\<rparr>)],
    st_executionGrants := [(''grant_id'', mcp_grant\<lparr>gr_consumedAt := Some ''+t''\<rparr>)]\<rparr>"
  by (simp add: mcp_dispatched_def consumeExecutionGrantAndDispatchAttemptAtomically_def Let_def mcp_bound_eq mcp_reserved_eq
     mcp_grant_def mcp_attempt_eq jm_get_def jm_set_def put_attempt_def put_grant_def empty_store_def truthy_def dispatchable_def 
     dispatched_attempt_def contentExposureRevisionMatches_def)

definition mcp_world :: world where
  "mcp_world = ready_world\<lparr>w_store := mcp_dispatched\<rparr>"

section \<open>The report\<close>

definition mcp_outcome :: report_input where
  "mcp_outcome = \<lparr>rp_error = None, rp_remediation = JUndef, rp_result = JStr ''ok'',
     rp_resultDelivery = JObj [(''modelVisible'', JBool True), (''byteCount'', jint 4), (''canonicalResultHash'', JStr fixed_digest)],
     rp_status = Rp_Succeeded\<rparr>"

definition report_mcp :: "int \<Rightarrow> world \<Rightarrow> (service_error + report_result) \<times> world" where
  "report_mcp now = reportOutcome flat_env ready_service undisturbed (\<lambda>i. False) (\<lambda>i. now) (\<lambda>i. ''id'') ''grant_id'' mcp_outcome
     mcp_user \<lparr>co_native = None, co_wrapperSessionId = Some ''wrapper''\<rparr>"

abbreviation mcp_continuation :: continuation where
  "mcp_continuation \<equiv> \<lparr>co_native = None, co_wrapperSessionId = Some ''wrapper''\<rparr>"

definition mcp_consumed :: grant where "mcp_consumed = mcp_grant\<lparr>gr_consumedAt := Some ''+t''\<rparr>"

definition mcp_running :: attempt where
  "mcp_running = mcp_attempt\<lparr>at_grantId := Some ''grant_id'', at_state := Dispatched, at_dispatchedAt := Some ''+t'',
     at_updatedAt := ''+t''\<rparr>"

lemma mcp_objects:
  "getExecutionGrant mcp_dispatched ''grant_id'' = Some mcp_consumed" "getToolCall mcp_dispatched ''tc_1'' = Some mcp_call"
  "getExecutionAttemptByToolCallId mcp_dispatched ''default'' ''tc_1'' = Some mcp_running"
  by (simp_all add: mcp_dispatched_eq mcp_bound_eq mcp_reserved_eq getExecutionGrant_def getToolCall_def truthy_def
      getExecutionAttemptByToolCallId_def jm_get_def mcp_consumed_def mcp_running_def Let_def)

definition mcp_terminal :: tool_call where
  "mcp_terminal = (terminal_tool_call mcp_call mcp_outcome (rp_resultDelivery mcp_outcome) ''+tt'')\<lparr>
     tc_resultWithheld := Some False\<rparr>"

lemma mcp_terminal_fields [simp]:
  "tc_id mcp_terminal = ''tc_1''" "tc_workspaceId mcp_terminal = None" "tc_toolName mcp_terminal = ''mail.send''"
  "tc_inputHash mcp_terminal = Some fixed_digest" "tc_status mcp_terminal = Executed" "tc_decision mcp_terminal = Some Allow"
  "tc_requestedByAuth mcp_terminal = Some mcp_user" "tc_influenceScopeId mcp_terminal = Some mcp_scope_id" "tc_actionEnvelopeHash mcp_terminal = None"
  "tc_resultSource mcp_terminal = Some (ResultFrom mail_source)" "tc_resultWithheld mcp_terminal = Some False"
  "tc_actionEnvelope mcp_terminal = mcp_envelope" "tc_decisionTrace mcp_terminal = mcp_trace"
  "tc_contentInfluence mcp_terminal = None" "tc_policyVersionHash mcp_terminal = Some ''policy''" "tc_policyVersionId mcp_terminal = None"
  "tc_canonicalDecisionInputHash mcp_terminal = None" "tc_canonicalActionRequestHash mcp_terminal = None"
  "tc_canonicalActionRequestVersion mcp_terminal = None" "tc_resultDelivery mcp_terminal = rp_resultDelivery mcp_outcome"  "tc_input mcp_terminal = JObj []"
  by (simp_all add: mcp_terminal_def terminal_tool_call_def mcp_outcome_def)

lemma mcp_attempt_fields [simp]:
  "at_binding mcp_attempt = mcp_binding"
  "at_id mcp_attempt = ''exec_1''" "at_toolCallId mcp_attempt = ''tc_1''" "at_workspaceId mcp_attempt = ''default''"
  "at_reservationOwner mcp_attempt = ''owner''"
  "at_outcome mcp_attempt = None"
  by (simp_all add: mcp_attempt_eq)

lemma mcp_checks:
  assumes "t = mcp_call \<or> t = mcp_terminal" "r \<longleftrightarrow> t = mcp_terminal" "at_binding att = at_binding mcp_attempt" "at_toolCallId att = ''tc_1''"
  shows "outcome_grant_failure flat_env ready_service mcp_consumed mcp_user = None"
  "outcome_call_failure ready_service t mcp_user = None"
  "native_check flat_env ready_service OutcomePhase t att mcp_consumed mcp_user mcp_continuation w = (None, w)"
  "currentToolCallMismatch flat_env t att mcp_consumed r = None"
proof -
  show "outcome_grant_failure flat_env ready_service mcp_consumed mcp_user = None"
   unfolding outcome_grant_failure_def first_of_None
    by (simp add: mcp_consumed_def mcp_grant_def signGrant_def safe_refl mcp_user_def truthy_def)
  show "outcome_call_failure ready_service t mcp_user = None"
   unfolding outcome_call_failure_def first_of_None using assms(1)
    by (auto simp: ready_service_def default_ws_def mcp_user_def)
  have a: "authoritativeInfluenceScopeId mcp_terminal = authoritativeInfluenceScopeId mcp_call"
    by (simp add: authoritativeInfluenceScopeId_def Let_def)
  show "native_check flat_env ready_service OutcomePhase t att mcp_consumed mcp_user mcp_continuation w = (None, w)"
    using assms(1) 
    by (auto simp: native_check_def prepared_action_def jtruthy_def assertMcpAdapterAuthorization_def mcp_trace_get a
      scope_id_ok mcp_stdio_def startsWith_def mcp_user_def wrapper_truthy mcp_scope_derived Let_def)
  have d: "decisionIdentity_grant flat_env t = None" using assms(1)
    by (auto simp: decisionIdentity_grant_def mcp_trace_get isJsonObject_def)
  show "currentToolCallMismatch flat_env t att mcp_consumed r = None"
   unfolding currentToolCallMismatch_def Let_def first_of_None d
   using assms 
   by (auto simp: default_ws_def mcp_consumed_def mcp_grant_def stored_input_hash_def mcp_trace_get mcp_binding_def
        validContentInfluenceBindingHash_def)
qed

lemma mcp_delivery: "report_delivery flat_env True mcp_outcome = Inr (rp_resultDelivery mcp_outcome)"
   "mcp_report True mcp_outcome = Inr mcp_outcome"
proof -
  have c: "canonicalJsonStringify (JStr ''ok'') = Inr (CHR 34 # ''ok'' @ [CHR 34])" by code_simp
  have u: "length (utf8_bytes (CHR 34 # ''ok'' @ [CHR 34])) = 4" by code_simp
  show "report_delivery flat_env True mcp_outcome = Inr (rp_resultDelivery mcp_outcome)"
    using u by (simp add: report_delivery_def validateResultDelivery_def mcp_outcome_def c jget_def jm_get_def jtruthy_def
      model_visible_def)
  show "mcp_report True mcp_outcome = Inr mcp_outcome"
    by (simp add: mcp_report_def mcp_outcome_def)
qed

definition mcp_done :: attempt where
  "mcp_done = mcp_running\<lparr>at_completedAt := Some ''+tt'',
     at_outcome := Some (normalized_outcome flat_env mcp_outcome (rp_resultDelivery mcp_outcome) ''+tt''),
     at_state := Succeeded, at_updatedAt := ''+tt''\<rparr>"

definition mcp_settled :: store where
  "mcp_settled = put_attempt mcp_done mcp_dispatched\<lparr>st_toolCalls := [(''tc_1'', mcp_terminal\<lparr>tc_resultWithheld := Some True\<rparr>)]\<rparr>"

lemma mcp_requires: "requiresMcpResultDelivery mcp_call" "requiresMcpResultDelivery mcp_terminal"
  by (simp_all add: requiresMcpResultDelivery_def has_result_source_def mcp_trace_get)
lemma mcp_visible: "model_visible (rp_resultDelivery mcp_outcome)" "jtruthy (jget (rp_resultDelivery mcp_outcome) ''modelVisible'')"
  by (simp_all add: model_visible_def mcp_outcome_def jget_def jm_get_def jtruthy_def)
lemma mcp_exposure_req: "requiresContentExposureBeforeDelivery mcp_call (rp_resultDelivery mcp_outcome)"
   "requiresContentExposureBeforeDelivery mcp_terminal (rp_resultDelivery mcp_outcome)"
  by (simp_all add: requiresContentExposureBeforeDelivery_def mcp_visible has_result_source_def)

lemma mcp_running_fields [simp]:
  "at_state mcp_running = Dispatched" "at_id mcp_running = ''exec_1''" "at_reservationOwner mcp_running = ''owner''"
  "at_workspaceId mcp_running = ''default''" "at_outcome mcp_running = None"
   "at_binding mcp_running = at_binding mcp_attempt" "at_toolCallId mcp_running = ''tc_1''"
  "at_state mcp_done = Succeeded" "at_id mcp_done = ''exec_1''" "at_reservationOwner mcp_done = ''owner''"
  "at_workspaceId mcp_done = ''default''" "at_completedAt mcp_done = Some ''+tt''"
   "at_binding mcp_done = at_binding mcp_attempt" "at_toolCallId mcp_done = ''tc_1''"
  "at_outcome mcp_done = Some (normalized_outcome flat_env mcp_outcome (rp_resultDelivery mcp_outcome) ''+tt'')"
  by (simp_all add: mcp_running_def mcp_done_def)

lemma mcp_matches: "attemptMatchesGrant mcp_running mcp_consumed True" "attemptMatchesGrant mcp_done mcp_consumed True"
  by (simp_all add: attemptMatchesGrant_def mcp_running_def mcp_done_def mcp_attempt_eq mcp_binding_def mcp_consumed_def mcp_grant_def)

lemma mcp_status: "rp_status mcp_outcome = Rp_Succeeded" by (simp add: mcp_outcome_def)

lemma mcp_transition:
  "transition_recorded flat_env undisturbed (normalized_outcome flat_env mcp_outcome (rp_resultDelivery mcp_outcome) ''+tt'') ''+tt''
     mcp_running mcp_world = (Inr (mcp_done, False), mcp_world\<lparr>w_store := put_attempt mcp_done mcp_dispatched\<rparr>)"
  by (simp add: transition_recorded_def undisturbed_def on_store_def transitionExecutionAttemptAtomically_def mcp_world_def
     mcp_dispatched_eq jm_get_def mcp_running_def [symmetric] executionAttemptTransitionIsReplay_def mcp_status attemptStateForReport_def
     executionAttemptIsTerminal_def contentExposureRevisionMatches_def executionAttemptTransitionIsValid_def
     transitionedExecutionAttempt_def mcp_done_def Let_def)

lemma mcp_record:
  "record_legacy flat_env ready_service undisturbed mcp_outcome (rp_resultDelivery mcp_outcome) ''+tt'' mcp_user mcp_running None
     mcp_call mcp_world = (Inr (mcp_done, None, mcp_terminal\<lparr>tc_resultWithheld := Some True\<rparr>), mcp_world\<lparr>w_store := mcp_settled\<rparr>)"
proof -
  have t: "terminal_tool_call mcp_call mcp_outcome (rp_resultDelivery mcp_outcome) ''+tt'' = mcp_terminal\<lparr>tc_resultWithheld := Some True\<rparr>"
    by (simp add: mcp_terminal_def terminal_tool_call_def mcp_exposure_req)
  show ?thesis
    by (simp add: record_legacy_def mcp_transition t already_recorded_def undisturbed_def createToolCall_def mcp_settled_def
       put_attempt_def mcp_dispatched_eq mcp_bound_eq mcp_reserved_eq jm_set_def Let_def)
qed

lemma mcp_now: "isoString flat_env 2 = ''+tt''"
  by (simp add: flat_env_def exec_env_def numeral_2_eq_2)

definition mcp_visible_store :: "store \<Rightarrow> bool" where
  "mcp_visible_store s \<longleftrightarrow> st_executionAttempts s = [(''exec_1'', mcp_done)] \<and> st_toolCalls s = [(''tc_1'', mcp_terminal)]
   \<and> st_executionGrants s = [(''grant_id'', mcp_consumed)]
   \<and> st_executionAttemptByToolCall s = st_executionAttemptByToolCall mcp_dispatched"

lemma mcp_release: "\<exists>w. release_result flat_env ready_service undisturbed (\<lambda>i. False) (\<lambda>i. 2) (\<lambda>i. ''id'') mcp_consumed (mcp_terminal\<lparr>tc_resultWithheld := Some True\<rparr>)
   (rp_resultDelivery mcp_outcome) mcp_user (mcp_world\<lparr>w_store := mcp_settled\<rparr>) = (Inr mcp_terminal, w)
   \<and> mcp_visible_store (w_store w)"
proof -
  have t: "mcp_terminal\<lparr>tc_resultWithheld := Some False, tc_updatedAt := ''+tt''\<rparr> = mcp_terminal"
    by (simp add: mcp_terminal_def terminal_tool_call_def)
  show ?thesis
   by (simp add: release_result_def recordContentExposureBeforeDelivery_def mcp_visible scope_id_ok undisturbed_def on_store_def
     recordContentExposure_def exposure_of_result_def mcp_settled_def jm_get_def put_attempt_def mcp_dispatched_eq mcp_bound_eq mcp_reserved_eq
     empty_store_def coalesce_def empty_scope_def createToolCall_def jm_set_def mcp_now mcp_consumed_def mcp_visible_store_def t Let_def)
qed

lemma append_events_store: "w_store (append_events E undisturbed k es w) = w_store w"
  by (induction es arbitrary: k w) (simp_all add: undisturbed_def)

lemma mcp_grant_ids: "gr_toolCallId mcp_consumed = ''tc_1''" "gr_workspaceId mcp_consumed = ''default''" "\<not> truthy (gr_receiptId mcp_consumed)"
    by (simp_all add: mcp_consumed_def mcp_grant_def truthy_def)

lemma mcp_differ: "mcp_call \<noteq> mcp_terminal"
proof
  assume "mcp_call = mcp_terminal"
  then have "tc_status mcp_call = tc_status mcp_terminal" by (rule arg_cong)
  then show False by simp
qed

lemma mcp_bound_report:
  assumes "getExecutionGrant (w_store w) ''grant_id'' = Some mcp_consumed" "getToolCall (w_store w) ''tc_1'' = Some t"
    and "getExecutionAttemptByToolCallId (w_store w) ''default'' ''tc_1'' = Some a"
    and "t = mcp_call \<or> t = mcp_terminal" "(at_state a \<noteq> Dispatched) = (t = mcp_terminal)" "at_binding a = at_binding mcp_attempt"
    and "at_toolCallId a = ''tc_1''" "attemptMatchesGrant a mcp_consumed True" "requiresMcpResultDelivery t"
  shows "report_mcp now w = report_settled flat_env ready_service undisturbed (\<lambda>i. False) (\<lambda>i. now) (\<lambda>i. ''id'') mcp_outcome
      (rp_resultDelivery mcp_outcome) mcp_user mcp_consumed None t a w"
proof -
  note checks = mcp_checks [OF assms(4-7)]
  show ?thesis
    unfolding report_mcp_def reportOutcome_def Let_def undisturbed_def assms(1) option.case checks(1) mcp_grant_ids assms(2,3) checks(2-4) prod.case
     report_bound_def
    by (simp add: assms(8,9) mcp_delivery already_recorded_def mcp_grant_ids)
qed

lemma mcp_first: "\<exists>w. report_mcp 2 mcp_world = (Inr (mcp_done, mcp_consumed, None, mcp_terminal), w) \<and> mcp_visible_store (w_store w)"
proof -
  obtain w where w: "release_result flat_env ready_service undisturbed (\<lambda>i. False) (\<lambda>i. 2) (\<lambda>i. ''id'') mcp_consumed (mcp_terminal\<lparr>tc_resultWithheld := Some True\<rparr>)
   (rp_resultDelivery mcp_outcome) mcp_user (mcp_world\<lparr>w_store := mcp_settled\<rparr>) = (Inr mcp_terminal, w)" "mcp_visible_store (w_store w)"
    using mcp_release by blast
  have "report_mcp 2 mcp_world = report_settled flat_env ready_service undisturbed (\<lambda>i. False) (\<lambda>i. 2) (\<lambda>i. ''id'') mcp_outcome
      (rp_resultDelivery mcp_outcome) mcp_user mcp_consumed None mcp_call mcp_running mcp_world"
    by (rule mcp_bound_report) (simp_all add: mcp_world_def mcp_objects mcp_matches mcp_requires mcp_differ)
  also have "\<dots> = (Inr (mcp_done, mcp_consumed, None, mcp_terminal),
       append_events flat_env undisturbed 12 (outcome_events flat_env mcp_consumed mcp_outcome (rp_resultDelivery mcp_outcome) ''+tt'' mcp_user mcp_done None) w)"
    by (simp add: report_settled_def prepared_action_def jtruthy_def mcp_now mcp_record report_recorded_def mcp_exposure_req w(1))
  finally show ?thesis using w(2) by (simp add: append_events_store)
qed

lemma mcp_again:
  assumes "mcp_visible_store (w_store w)"
  shows "\<exists>w'. report_mcp 3 w = (Inr (mcp_done, mcp_consumed, None, mcp_terminal), w')"
proof -
  note s = assms [unfolded mcp_visible_store_def]
  have objects: "getExecutionGrant (w_store w) ''grant_id'' = Some mcp_consumed" "getToolCall (w_store w) ''tc_1'' = Some mcp_terminal"
    "getExecutionAttemptByToolCallId (w_store w) ''default'' ''tc_1'' = Some mcp_done" 
    by (simp_all add: s getExecutionGrant_def getToolCall_def getExecutionAttemptByToolCallId_def mcp_dispatched_eq
      mcp_bound_eq mcp_reserved_eq jm_get_def truthy_def Let_def)
  have recorded: "ao_recordedAt (normalized_outcome flat_env mcp_outcome (rp_resultDelivery mcp_outcome) ''+tt'') = ''+tt''"
    by (simp add: normalized_outcome_def executionAttemptOutcome_def Let_def)
  have "transition_recorded flat_env undisturbed (normalized_outcome flat_env mcp_outcome (rp_resultDelivery mcp_outcome) ''+tt'') ''+tt''
     mcp_done w = (Inr (mcp_done, True), w)"
    by (simp add: transition_recorded_def undisturbed_def on_store_def transitionExecutionAttemptAtomically_def s jm_get_def
     executionAttemptTransitionIsReplay_def mcp_status attemptStateForReport_def executionAttemptIsTerminal_def Let_def)
  then have "report_settled flat_env ready_service undisturbed (\<lambda>i. False) (\<lambda>i. 3) (\<lambda>i. ''id'') mcp_outcome
      (rp_resultDelivery mcp_outcome) mcp_user mcp_consumed None mcp_terminal mcp_done w = (Inr (mcp_done, mcp_consumed, None, mcp_terminal),
       append_events flat_env undisturbed 12 (outcome_events flat_env mcp_consumed mcp_outcome (rp_resultDelivery mcp_outcome) ''+tt'' mcp_user mcp_done None) w)"
    by (simp add: report_settled_def prepared_action_def jtruthy_def recorded record_legacy_def already_recorded_def report_recorded_def Let_def)
  with mcp_bound_report [OF objects] mcp_matches mcp_requires show ?thesis by simp
qed

lemma mcp_reachable: "reachable flat_env mcp_dispatched"
proof -
  have "reachable flat_env (createToolCall mcp_call empty_store)" by (rule r_into_rtranclp) (rule tool_call_created)
  then have "reachable flat_env mcp_reserved"
    using attempt_reserved [OF surjective_pairing] unfolding mcp_reserved_def by (rule rtranclp.rtrancl_into_rtrancl)
  moreover have "store_step flat_env mcp_reserved (createExecutionGrant mcp_grant mcp_reserved)"
    by (rule grant_created) (simp_all add: mcp_reserved_eq empty_store_def mcp_grant_def jm_get_def)
  ultimately have "reachable flat_env (createExecutionGrant mcp_grant mcp_reserved)" by (rule rtranclp.rtrancl_into_rtrancl)
  then have "reachable flat_env mcp_bound"
    using grant_bound [OF surjective_pairing] unfolding mcp_bound_def by (rule rtranclp.rtrancl_into_rtrancl)
  then show ?thesis
    using attempt_dispatched [OF surjective_pairing] unfolding mcp_dispatched_def by (rule rtranclp.rtrancl_into_rtrancl)
qed

lemma mcp_results_ok: "results_ok mcp_dispatched"
  by (auto simp: results_ok_def mcp_dispatched_eq mcp_bound_eq mcp_reserved_eq jm_get_def result_ok_def isModelVisibleResultWithheld_def model_visible_def
     jget_def split: if_splits)

lemma undisturbed_careful: "careful_rest E undisturbed" by (simp add: careful_rest_def undisturbed_def)

section \<open>Witnesses\<close>



end
