(* ===== verification/PolicyProvider.thy ===== *)
theory PolicyProvider
  imports Policy Influence GrantChecks
begin

text \<open>
  The policy provider seam (\<open>policy/policy-provider.ts\<close>): the server asks a provider for a trace, checks its identity
  and its answer, and denies when anything is missing, malformed or thrown. The YAML provider evaluates the policy
  file. A provider is a pair of functions; \<open>None\<close> is a thrown exception. The values of a provider have the types of the
  interface, so the tests for a runtime type (\<open>typeof\<close>, \<open>Array.isArray\<close>) hold and the other tests remain.
\<close>

section \<open>The policy as a value\<close>

definition approval_name :: "approval_mode \<Rightarrow> json" where
  "approval_name a = (case a of Never \<Rightarrow> JStr ''never'' | Required \<Rightarrow> JStr ''required'' | DenyMode \<Rightarrow> JStr ''deny''
     | AbsentMode \<Rightarrow> JUndef)"

definition encode_guard :: "influence_guard \<Rightarrow> json" where
  "encode_guard g = JObj
     [(''allowFrom'', jstrings (map source_name (ig_allowFrom g))), (''otherwise'', JStr (restriction_name (ig_otherwise g)))]"

definition encode_rule :: "policy_rule \<Rightarrow> json" where
  "encode_rule r = JObj
     [(''approval'', approval_name (pr_approval r)),
      (''approvers'', jopt (\<lambda>a. JObj
         [(''groups'', jopt jstrings (ra_groups a)), (''users'', jopt jstrings (ra_users a)),
          (''requiredApprovals'', jopt jint (ra_requiredApprovals a)),
          (''separationOfDuties'', jopt JBool (ra_separationOfDuties a))]) (pr_approvers r)),
      (''conditions'', jopt JObj (pr_conditions r)),
      (''externalExecution'', jopt (\<lambda>x. JObj
         [(''grantTtlSeconds'', jopt jint (ee_grantTtlSeconds x)),
          (''requireGrantConsumption'', jopt JBool (ee_requireGrantConsumption x))]) (pr_externalExecution r)),
      (''notify'', jopt (\<lambda>c. JObj [(''channels'', jopt jstrings c)]) (pr_notifyChannels r)),
      (''resultSource'', jopt encode_result_source (pr_resultSource r)),
      (''influence'', jopt encode_guard (pr_influence r)),
      (''redaction'', jopt (\<lambda>x. JObj
         [(''fields'', jopt jstrings (rr_fields x)), (''replacement'', jopt JStr (rr_replacement x))]) (pr_redaction r)),
      (''risk'', jopt JStr (pr_risk r)), (''reason'', jopt JStr (pr_reason r))]"

definition encode_policy_file :: "policy_file \<Rightarrow> json" where
  "encode_policy_file p = JObj
     [(''version'', JNum (pf_version p)), (''default'', encode_rule (pf_default p)),
      (''tools'', JObj (map (\<lambda>(k, r). (k, encode_rule r)) (pf_tools p)))]"

section \<open>Providers\<close>

datatype provider_failure = Provider_Error | Provider_Invalid_Output | Provider_Unavailable | Provider_Version_Missing

record provider_descriptor =
  \<comment> \<open>\<open>Partial<PolicyProviderDescriptor> & Pick<PolicyProviderDescriptor, 'providerId'>\<close>\<close>
  pd_evaluatorVersion :: "string option"
  pd_policyDigest :: "string option"
  pd_policyDigestAlgorithm :: "string option"
  pd_policySchemaVersion :: "string option"
  pd_policyVersion :: "string option"
  pd_providerId :: string
  pd_providerVersion :: "string option"

record policy_provider =
  pp_descriptor :: "json option" \<comment> \<open>what reading \<open>provider.descriptor\<close> gives\<close>
  pp_evaluate :: "policy_context \<Rightarrow> string \<Rightarrow> evaluation_trace option"

record provider_evaluation =
  pv_descriptor :: provider_descriptor
  pv_failureCode :: "provider_failure option" \<comment> \<open>the status is \<open>failure\<close> exactly when there is one\<close>
  pv_trace :: evaluation_trace

definition failureReason :: "provider_failure \<Rightarrow> string" where
  "failureReason c = (case c of
       Provider_Unavailable \<Rightarrow> ''Policy provider is unavailable; execution is denied.''
     | Provider_Version_Missing \<Rightarrow> ''Policy provider version identity is missing; execution is denied.''
     | Provider_Invalid_Output \<Rightarrow> ''Policy provider returned invalid output; execution is denied.''
     | Provider_Error \<Rightarrow> ''Policy provider evaluation failed; execution is denied.'')"

definition failure_rule :: "provider_failure \<Rightarrow> policy_rule" where
  "failure_rule c = prototype_rule\<lparr>pr_approval := DenyMode, pr_reason := Some (failureReason c),
     pr_risk := Some ''policy_provider_failure''\<rparr>"

definition failedEvaluation :: "provider_failure \<Rightarrow> provider_descriptor \<Rightarrow> provider_evaluation" where
  "failedEvaluation c d =
     \<lparr>pv_descriptor = d, pv_failureCode = Some c,
      pv_trace = \<lparr>et_decision = Deny,
        et_evaluation = \<lparr>pe_decision = Deny, pe_approval = DenyMode, pe_risk = ''policy_provider_failure'',
          pe_reason = failureReason c, pe_matchedRule = ''__policy_provider_failure__'', pe_rule = failure_rule c\<rparr>,
        et_fallbackPath = [], et_matchType = MatchProviderFailure, et_matchedRule = ''__policy_provider_failure__'',
        et_ruleEvaluations = []\<rparr>\<rparr>"

definition nonEmptyString :: "json \<Rightarrow> string option" where
  "nonEmptyString v = (case jstring v of None \<Rightarrow> None | Some s \<Rightarrow> if js_trim s \<noteq> [] then Some s else None)"

definition validDescriptor :: "json \<Rightarrow> bool" where
  "validDescriptor v =
     (isJsonObject v \<and> nonEmptyString (jget v ''evaluatorVersion'') \<noteq> None
      \<and> (case jstring (jget v ''policyDigest'') of None \<Rightarrow> False | Some d \<Rightarrow> length d = 64 \<and> list_all lower_hex d)
      \<and> jget v ''policyDigestAlgorithm'' = JStr ''sha256''
      \<and> nonEmptyString (jget v ''policySchemaVersion'') \<noteq> None \<and> nonEmptyString (jget v ''policyVersion'') \<noteq> None
      \<and> nonEmptyString (jget v ''providerId'') \<noteq> None \<and> nonEmptyString (jget v ''providerVersion'') \<noteq> None)"

definition bare_descriptor :: "string \<Rightarrow> provider_descriptor" where
  "bare_descriptor i = \<lparr>pd_evaluatorVersion = None, pd_policyDigest = None, pd_policyDigestAlgorithm = None,
     pd_policySchemaVersion = None, pd_policyVersion = None, pd_providerId = i, pd_providerVersion = None\<rparr>"

definition read_descriptor :: "json \<Rightarrow> provider_descriptor" where
  \<comment> \<open>\<open>{ ...rawDescriptor }\<close> of a valid descriptor\<close>
  "read_descriptor v =
     \<lparr>pd_evaluatorVersion = jstring (jget v ''evaluatorVersion''), pd_policyDigest = jstring (jget v ''policyDigest''),
      pd_policyDigestAlgorithm = jstring (jget v ''policyDigestAlgorithm''),
      pd_policySchemaVersion = jstring (jget v ''policySchemaVersion''), pd_policyVersion = jstring (jget v ''policyVersion''),
      pd_providerId = coalesce (jstring (jget v ''providerId'')) [], pd_providerVersion = jstring (jget v ''providerVersion'')\<rparr>"

definition id_char :: "char \<Rightarrow> bool" where
  "id_char c = (let n = (of_char c :: nat) in
     48 \<le> n \<and> n \<le> 57 \<or> 65 \<le> n \<and> n \<le> 90 \<or> 97 \<le> n \<and> n \<le> 122)"

definition source_id_ok :: "string \<Rightarrow> bool" where
  \<comment> \<open>\<open>/^[A-Za-z0-9][A-Za-z0-9._:-]{0,127}$/u\<close>\<close>
  "source_id_ok s = (case s of [] \<Rightarrow> False
     | c # cs \<Rightarrow> id_char c \<and> length cs \<le> 127 \<and> list_all (\<lambda>x. id_char x \<or> x \<in> set ''._:-'') cs)"

definition isResultSource :: "result_source \<Rightarrow> bool" where
  "isResultSource r = (case r of ResultNone \<Rightarrow> True
     | ResultFrom s \<Rightarrow> (case prs_sourceId s of None \<Rightarrow> True | Some i \<Rightarrow> source_id_ok i))"

definition isInfluenceGuard :: "influence_guard \<Rightarrow> bool" where
  "isInfluenceGuard g = (ig_allowFrom g \<noteq> [] \<and> distinct (ig_allowFrom g))"

definition openWorldReadResultSourceValid :: "string option \<Rightarrow> policy_rule \<Rightarrow> bool" where
  "openWorldReadResultSourceValid risk r =
     (if risk \<noteq> Some ''open_world_read'' then True
      else case pr_resultSource r of Some (ResultFrom s) \<Rightarrow> prs_integrity s = PublicUntrusted | _ \<Rightarrow> False)"

definition at_least_one :: "int option \<Rightarrow> bool" where
  "at_least_one n = (case n of None \<Rightarrow> True | Some k \<Rightarrow> 1 \<le> k)"

definition isPolicyRule :: "policy_rule \<Rightarrow> bool" where
  "isPolicyRule r =
     (pr_approval r \<noteq> AbsentMode
      \<and> (case pr_approvers r of None \<Rightarrow> True | Some a \<Rightarrow> at_least_one (ra_requiredApprovals a))
      \<and> (case pr_externalExecution r of None \<Rightarrow> True | Some x \<Rightarrow> at_least_one (ee_grantTtlSeconds x))
      \<and> (case pr_resultSource r of None \<Rightarrow> True | Some s \<Rightarrow> isResultSource s)
      \<and> openWorldReadResultSourceValid (pr_risk r) r
      \<and> (case pr_influence r of None \<Rightarrow> True | Some g \<Rightarrow> isInfluenceGuard g))"

definition validTrace :: "evaluation_trace \<Rightarrow> bool" where
  "validTrace t =
     (let ev = et_evaluation t
      in pe_decision ev = et_decision t \<and> pe_approval ev \<noteq> AbsentMode
         \<and> decisionForApproval (pe_approval ev) = et_decision t \<and> isPolicyRule (pe_rule ev)
         \<and> openWorldReadResultSourceValid (Some (pe_risk ev)) (pe_rule ev)
         \<and> pr_approval (pe_rule ev) = pe_approval ev
         \<and> et_matchedRule t = pe_matchedRule ev \<and> et_matchType t \<noteq> MatchProviderFailure)"

definition evaluatePolicyProvider ::
  "policy_provider option \<Rightarrow> policy_context \<Rightarrow> string \<Rightarrow> provider_evaluation" where
  "evaluatePolicyProvider provider cx toolName =
     (case provider of
        None \<Rightarrow> failedEvaluation Provider_Unavailable (bare_descriptor ''unavailable'')
      | Some p \<Rightarrow>
          (case pp_descriptor p of
             None \<Rightarrow> failedEvaluation Provider_Error (bare_descriptor ''unknown'')
           | Some raw \<Rightarrow>
               if \<not> validDescriptor raw
               then failedEvaluation Provider_Version_Missing
                 (bare_descriptor (if isJsonObject raw then coalesce (nonEmptyString (jget raw ''providerId'')) ''unknown''
                                   else ''unknown''))
               else (case pp_evaluate p cx toolName of
                   None \<Rightarrow> failedEvaluation Provider_Error (read_descriptor raw)
                 | Some t \<Rightarrow>
                     if validTrace t
                     then \<lparr>pv_descriptor = read_descriptor raw, pv_failureCode = None, pv_trace = t\<rparr>
                     else failedEvaluation Provider_Invalid_Output (read_descriptor raw))))"

section \<open>The YAML provider\<close>

definition YAML_POLICY_PROVIDER_ID :: string where "YAML_POLICY_PROVIDER_ID = ''actionproxy.yaml''"
definition YAML_POLICY_PROVIDER_VERSION :: string where
  "YAML_POLICY_PROVIDER_VERSION = ''actionproxy.yaml-provider.v1''"
definition POLICY_EVALUATOR_VERSION :: string where
  "POLICY_EVALUATOR_VERSION = ''actionproxy.policy-evaluator.v1''"

definition createYamlPolicyProvider ::
  "env \<Rightarrow> policy_file \<Rightarrow> string option \<Rightarrow> string option \<Rightarrow> policy_provider" where
  \<comment> \<open>the last arguments are \<open>identity.policyVersionHash\<close> and \<open>identity.policyVersionId\<close>\<close>
  "createYamlPolicyProvider E policy hash versionId =
     (let digest = coalesce hash (hashJson E (encode_policy_file policy))
      in \<lparr>pp_descriptor = Some (JObj
            [(''evaluatorVersion'', JStr POLICY_EVALUATOR_VERSION), (''policyDigest'', JStr digest),
             (''policyDigestAlgorithm'', JStr ''sha256''),
             (''policySchemaVersion'', JStr (js_String (JNum (pf_version policy)))),
             (''policyVersion'', JStr (coalesce versionId (''policy_'' @ take 16 digest))),
             (''providerId'', JStr YAML_POLICY_PROVIDER_ID), (''providerVersion'', JStr YAML_POLICY_PROVIDER_VERSION)]),
          pp_evaluate = (\<lambda>cx toolName. Some (evaluatePolicyTrace policy toolName cx))\<rparr>)"

end
