(* ===== verification/PolicyProviderFacts.thy ===== *)
theory PolicyProviderFacts
  imports PolicyProvider PolicyFacts NumberText
begin

text \<open>
  The provider seam fails closed, and the YAML provider of a valid policy decides as the policy engine does.
\<close>

section \<open>Failing closed\<close>

lemma failedEvaluation_fields [simp]:
  "pv_failureCode (failedEvaluation c d) = Some c" "pv_descriptor (failedEvaluation c d) = d"
  "et_decision (pv_trace (failedEvaluation c d)) = Deny"
  "et_matchType (pv_trace (failedEvaluation c d)) = MatchProviderFailure"
  by (simp_all add: failedEvaluation_def)

lemma evaluatePolicyProvider_cases:
  obtains (failed) c d where "evaluatePolicyProvider provider cx toolName = failedEvaluation c d"
  | (ok) p raw t where "provider = Some p" "pp_descriptor p = Some raw" "validDescriptor raw"
      "pp_evaluate p cx toolName = Some t" "validTrace t"
      "evaluatePolicyProvider provider cx toolName
         = \<lparr>pv_descriptor = read_descriptor raw, pv_failureCode = None, pv_trace = t\<rparr>"
proof -
  have "(\<exists>c d. evaluatePolicyProvider provider cx toolName = failedEvaluation c d)
    \<or> (\<exists>p raw t. provider = Some p \<and> pp_descriptor p = Some raw \<and> validDescriptor raw
        \<and> pp_evaluate p cx toolName = Some t \<and> validTrace t
        \<and> evaluatePolicyProvider provider cx toolName
            = \<lparr>pv_descriptor = read_descriptor raw, pv_failureCode = None, pv_trace = t\<rparr>)"
    by (simp add: evaluatePolicyProvider_def split: option.split) blast
  with that show thesis by blast
qed

lemma decisionForApproval_Allow: "decisionForApproval a = Allow \<longleftrightarrow> a = Never"
  by (cases a) (simp_all add: decisionForApproval_def)


section \<open>The evaluator's traces are well formed\<close>

lemma toEvaluation_fields [simp]:
  "pe_approval (toEvaluation r p) = pr_approval r" "pe_decision (toEvaluation r p) = decisionForApproval (pr_approval r)"
  "pe_risk (toEvaluation r p) = coalesce (pr_risk r) ''unknown''"
  by (cases "pr_approval r"; simp add: toEvaluation_def decisionForApproval_def)+

lemma evaluatePolicyTrace_of_rule:
  "\<exists>path mt revs. mt \<noteq> MatchProviderFailure \<and> evaluatePolicyTrace policy toolName cx
     = trace_of (evaluatePolicy policy toolName cx) path mt revs"
  by (auto simp: evaluatePolicy_def evaluatePolicyTrace_def fallbackTrace_def trace_of_def Let_def
      split: option.splits prod.splits)

lemma evaluatePolicyTrace_rule:
  obtains path mt revs where "evaluatePolicyTrace policy toolName cx
      = trace_of (toEvaluation (snd (selectRule policy toolName cx)) (fst (selectRule policy toolName cx))) path mt revs"
    "mt \<noteq> MatchProviderFailure"
  using evaluatePolicyTrace_of_rule [of policy toolName cx] by (auto simp: evaluatePolicy_selectRule split: prod.splits)

lemma validTrace_of:
  assumes "mt \<noteq> MatchProviderFailure"
  shows "validTrace (trace_of (toEvaluation r p) path mt revs) \<longleftrightarrow> isPolicyRule r"
  using assms by (cases "pr_risk r")
    (auto simp: validTrace_def trace_of_def Let_def isPolicyRule_def coalesce_def openWorldReadResultSourceValid_def)

lemma validTrace_evaluatePolicyTrace:
  "validTrace (evaluatePolicyTrace policy toolName cx) \<longleftrightarrow> isPolicyRule (snd (selectRule policy toolName cx))"
  by (rule evaluatePolicyTrace_rule [of policy toolName cx]) (simp add: validTrace_of)

definition inherited_name :: "policy_file \<Rightarrow> string \<Rightarrow> bool" where
  \<comment> \<open>a name \<open>policy.tools\<close> does not have but inherits\<close>
  "inherited_name policy toolName = (toolName \<in> set object_prototype_members \<and> map_of (pf_tools policy) toolName = None)"

definition valid_policy :: "policy_file \<Rightarrow> bool" where
  "valid_policy policy = (isPolicyRule (pf_default policy) \<and> list_all (\<lambda>(_, r). isPolicyRule r) (pf_tools policy))"

lemma findExactRule_valid:
  assumes "valid_policy policy" "findExactRule policy toolName = Some (p, r)" "\<not> inherited_name policy toolName"
  shows "isPolicyRule r"
  using assms by (auto simp: findExactRule_def valid_policy_def list_all_iff inherited_name_def
      split: option.splits if_splits dest!: map_of_SomeD)

lemma selectRule_valid:
  assumes "valid_policy policy" "\<not> inherited_name policy toolName"
  shows "isPolicyRule (snd (selectRule policy toolName cx))"
proof (cases "List.find (\<lambda>(_, rule). conditionsHold rule toolName cx) (ruleCandidates policy toolName)")
  case None
  with assms(1) show ?thesis by (simp add: selectRule_def valid_policy_def)
next
  case (Some pr)
  then have "pr \<in> set (ruleCandidates policy toolName)" by (metis find_Some_iff nth_mem)
  with assms have "isPolicyRule (snd pr)"
    by (cases pr) (auto simp: ruleCandidates_def valid_policy_def list_all_iff split: option.splits
        dest: findExactRule_valid [OF assms(1) sym assms(2)])
  with Some show ?thesis by (simp add: selectRule_def)
qed

lemma inherited_name_selects:
  assumes "inherited_name policy toolName"
  shows "selectRule policy toolName cx = (toolName, prototype_rule)"
  using assms by (simp add: selectRule_def ruleCandidates_def findExactRule_def inherited_name_def conditionsHold_iff)
     (simp add: prototype_rule_def coalesce_def)

section \<open>The YAML provider\<close>

lemma js_trim_nonblank:
  assumes "c \<in> set s" "\<not> is_ws c"
  shows "js_trim s \<noteq> []"
  using assms by (auto simp: js_trim_def dropWhile_eq_Nil_conv)
     (metis UnE dropWhile_eq_Nil_conv set_append set_takeWhileD takeWhile_dropWhile_id)

lemma number_char_not_ws: "number_char c \<Longrightarrow> \<not> is_ws c"
  by (auto simp: number_char_def is_ws_def)

lemma number_has_digit: "\<exists>c \<in> set (number_to_string m e). \<not> is_ws c"
proof -
  obtain d ds where ds: "nat_digits (nat \<bar>m\<bar>) = d # ds" by (cases "nat_digits (nat \<bar>m\<bar>)") auto
  moreover have "decimal (nat_digits (nat \<bar>m\<bar>))" by simp
  ultimately have "\<not> is_ws d" by (auto intro!: number_char_not_ws decimal_number_char [of "d # ds"])
  with ds show ?thesis by (auto simp: number_to_string_def Let_def is_ws_def)
qed

lemma version_text: "js_trim (js_String (JNum n)) \<noteq> []"
proof (cases n)
  case (Dec m e)
  with number_has_digit [of m e] show ?thesis by (auto dest: js_trim_nonblank)
qed (simp_all add: js_trim_def is_ws_def)

lemma yaml_descriptor_valid:
  assumes "length digest = 64" "list_all lower_hex digest" "js_trim versionId \<noteq> []"
  shows "validDescriptor (the (pp_descriptor (createYamlPolicyProvider E policy (Some digest) (Some versionId))))"
  using assms version_text [of "pf_version policy"]
  by (simp add: createYamlPolicyProvider_def Let_def validDescriptor_def isJsonObject_def jget_def jm_get_def
      nonEmptyString_def jstring_def coalesce_def POLICY_EVALUATOR_VERSION_def YAML_POLICY_PROVIDER_ID_def
      YAML_POLICY_PROVIDER_VERSION_def js_trim_def is_ws_def)

lemma yaml_evaluate [simp]:
  "pp_evaluate (createYamlPolicyProvider E policy h i) cx toolName = Some (evaluatePolicyTrace policy toolName cx)"
  "pp_descriptor (createYamlPolicyProvider E policy h i) \<noteq> None"
  by (simp_all add: createYamlPolicyProvider_def Let_def)

lemma yaml_provider_engine:
  fixes E cx toolName
  assumes "valid_policy policy" "length digest = 64" "list_all lower_hex digest" "js_trim versionId \<noteq> []"
  defines "e \<equiv> evaluatePolicyProvider (Some (createYamlPolicyProvider E policy (Some digest) (Some versionId))) cx toolName"
  shows "if inherited_name policy toolName then pv_failureCode e = Some Provider_Invalid_Output
         else pv_failureCode e = None \<and> pv_trace e = evaluatePolicyTrace policy toolName cx"
    and "et_decision (pv_trace e) = pe_decision (evaluatePolicy policy toolName cx)"
proof -
  let ?p = "createYamlPolicyProvider E policy (Some digest) (Some versionId)"
  obtain raw where raw: "pp_descriptor ?p = Some raw" using yaml_evaluate(2) by blast
  with yaml_descriptor_valid [OF assms(2-4), of E policy] have "validDescriptor raw" by simp
  with raw have e: "e = (if validTrace (evaluatePolicyTrace policy toolName cx)
      then \<lparr>pv_descriptor = read_descriptor raw, pv_failureCode = None, pv_trace = evaluatePolicyTrace policy toolName cx\<rparr>
      else failedEvaluation Provider_Invalid_Output (read_descriptor raw))"
    by (simp add: e_def evaluatePolicyProvider_def)
  have bad: "\<not> isPolicyRule prototype_rule" by (simp add: isPolicyRule_def prototype_rule_def)
  show "if inherited_name policy toolName then pv_failureCode e = Some Provider_Invalid_Output
         else pv_failureCode e = None \<and> pv_trace e = evaluatePolicyTrace policy toolName cx"
    using selectRule_valid [OF assms(1)] bad by (simp add: e validTrace_evaluatePolicyTrace inherited_name_selects)
  show "et_decision (pv_trace e) = pe_decision (evaluatePolicy policy toolName cx)"
    using evaluatePolicyTrace_of_rule [of policy toolName cx] selectRule_valid [OF assms(1), of toolName cx]
    by (cases "inherited_name policy toolName")
       (auto simp: e validTrace_evaluatePolicyTrace trace_of_def evaluatePolicy_selectRule inherited_name_selects bad
         prototype_rule_def decisionForApproval_def)
qed

text \<open>C36: for a valid policy under a stored version, the YAML provider answers with exactly the trace of the policy
  engine, except for a tool named after an inherited member, where the engine's answer is malformed and the provider
  reports a failure; the decision is the engine's in both cases.\<close>

theorem yaml_provider_implements_engine:
  assumes "valid_policy policy" "length digest = 64" "list_all lower_hex digest" "js_trim versionId \<noteq> []"
  shows "let e = evaluatePolicyProvider (Some (createYamlPolicyProvider E policy (Some digest) (Some versionId))) cx toolName
    in et_decision (pv_trace e) = pe_decision (evaluatePolicy policy toolName cx)
       \<and> (if inherited_name policy toolName then pv_failureCode e = Some Provider_Invalid_Output
          else pv_failureCode e = None \<and> pv_trace e = evaluatePolicyTrace policy toolName cx)"
  unfolding Let_def using yaml_provider_engine [OF assms] by blast

theorem yaml_provider_implements_engine_witness:
  "pv_trace (evaluatePolicyProvider (Some (createYamlPolicyProvider text_env example_policy (Some (replicate 64 CHR ''a''))
     (Some ''v1''))) example_context ''payments.refund'') = evaluatePolicyTrace example_policy ''payments.refund'' example_context"
proof -
  have "valid_policy example_policy" "\<not> inherited_name example_policy ''payments.refund''" by code_simp+
  moreover have "list_all lower_hex (replicate 64 CHR ''a'')" by code_simp
  ultimately show ?thesis
    using yaml_provider_implements_engine [of example_policy "replicate 64 CHR ''a''" "''v1''" text_env example_context
      "''payments.refund''"] by (simp add: js_trim_def is_ws_def Let_def)
qed

end
