(* ===== verification/Decision.thy ===== *)
theory Decision
  imports PolicyProvider HashFacts ApprovalAuthFacts
begin

text \<open>
  The decision of a policy evaluation (\<open>contracts/decision.ts\<close>): an object with an identifier that is a digest of what
  was decided on which grounds, written into the tool call's trace and validated again before anything is executed.
\<close>

section \<open>Building\<close>

definition failure_name :: "provider_failure \<Rightarrow> string" where
  "failure_name c = (case c of Provider_Error \<Rightarrow> ''policy_provider_error''
     | Provider_Invalid_Output \<Rightarrow> ''policy_provider_invalid_output'' | Provider_Unavailable \<Rightarrow> ''policy_provider_unavailable''
     | Provider_Version_Missing \<Rightarrow> ''policy_provider_version_missing'')"

definition match_name :: "match_type \<Rightarrow> string" where
  "match_name m = (case m of MatchDefault \<Rightarrow> ''default'' | MatchExact \<Rightarrow> ''exact''
     | MatchProviderFailure \<Rightarrow> ''provider_failure'' | MatchWildcard \<Rightarrow> ''wildcard'')"

definition outcome_code :: "policy_decision \<Rightarrow> string" where
  "outcome_code d = ''policy_outcome_'' @ decision_name d"

definition decisionReasonCodes :: "provider_evaluation \<Rightarrow> string list" where
  "decisionReasonCodes e =
     (case pv_failureCode e of
        Some c \<Rightarrow> [''policy_outcome_deny'', failure_name c]
      | None \<Rightarrow>
          (let t = pv_trace e in
            [outcome_code (et_decision t)]
            @ (if et_matchType t = MatchExact then [''policy_match_exact''] else [])
            @ (if et_matchType t = MatchWildcard then [''policy_match_wildcard''] else [])
            @ (if et_matchType t = MatchDefault then [''policy_match_default''] else [])
            @ (if 1 < length (et_fallbackPath t) then [''policy_conditional_fallback''] else [])))"

definition decisionObligations :: "policy_decision \<Rightarrow> string list" where
  "decisionObligations d =
     (if d = Deny then [''record_decision_evidence'', ''do_not_execute'']
      else if d = RequireApproval
      then [''record_decision_evidence'', ''require_human_approval'', ''revalidate_policy_before_execution'']
      else [''record_decision_evidence'', ''revalidate_policy_before_execution''])"

definition buildApprovalRequirements :: "policy_rule \<Rightarrow> policy_decision \<Rightarrow> json" where
  "buildApprovalRequirements rule d =
     (let required = (d = RequireApproval); a = pr_approvers rule
      in JObj
        [(''eligibleGroups'', jstrings (if required then js_sort codeUnitCompare (coalesce (Option.bind a ra_groups) []) else [])),
         (''eligibleUsers'', jstrings (if required then js_sort codeUnitCompare (coalesce (Option.bind a ra_users) []) else [])),
         (''expirationRequired'', JBool False), (''expiresAt'', JNull),
         (''modificationBehavior'', JStr ''revalidate_and_rebind''), (''rejectionBehavior'', JStr ''terminal''),
         (''required'', JBool required),
         (''requiredApprovals'', jint (if required then max 1 (coalesce (Option.bind a ra_requiredApprovals) 1) else 0)),
         (''separationOfDuties'', JBool (required \<and> coalesce (Option.bind a ra_separationOfDuties) False))])"

definition matched_policies :: "provider_evaluation \<Rightarrow> json" where
  "matched_policies e =
     (let d = pv_descriptor e; t = pv_trace e
      in JArr (if pv_failureCode e = None \<and> truthy (pd_policyDigest d) \<and> truthy (pd_policyVersion d)
         then [JObj [(''matchType'', JStr (match_name (et_matchType t))),
                     (''digestAlgorithm'', jopt JStr (pd_policyDigestAlgorithm d)),
                     (''policyDigest'', jopt JStr (pd_policyDigest d)), (''policyVersion'', jopt JStr (pd_policyVersion d)),
                     (''providerId'', JStr (pd_providerId d)), (''ruleId'', JStr (et_matchedRule t))]]
         else []))"

definition decision_policy :: "provider_evaluation \<Rightarrow> json" where
  "decision_policy e =
     (let d = pv_descriptor e in JObj
       [(''digest'', jnullable (pd_policyDigest d)), (''digestAlgorithm'', jnullable (pd_policyDigestAlgorithm d)),
        (''provider'', JObj
           [(''id'', JStr (pd_providerId d)),
            (''status'', JStr (if pv_failureCode e = None then ''ok'' else ''failure'')),
            (''version'', jnullable (pd_providerVersion d))]),
        (''schemaVersion'', jnullable (pd_policySchemaVersion d)), (''version'', jnullable (pd_policyVersion d))])"

definition decision_object ::
  "string \<Rightarrow> string \<Rightarrow> string \<Rightarrow> provider_evaluation \<Rightarrow> string \<Rightarrow> string \<Rightarrow> json" where
  \<comment> \<open>the decision with the identifier \<open>i\<close>\<close>
  "decision_object i decidedAt inputHash e requestId tenantId =
     (let t = pv_trace e in JObj
       [(''approvalRequirements'', buildApprovalRequirements (pe_rule (et_evaluation t)) (et_decision t)),
        (''decidedAt'', JStr decidedAt), (''decisionId'', JStr i), (''decisionInputHash'', JStr inputHash),
        (''evaluatorVersion'', jnullable (pd_evaluatorVersion (pv_descriptor e))),
        (''matchedPolicies'', matched_policies e), (''obligations'', jstrings (decisionObligations (et_decision t))),
        (''outcome'', JStr (decision_name (et_decision t))), (''policy'', decision_policy e),
        (''reasonCodes'', jstrings (decisionReasonCodes e)), (''requestId'', JStr requestId), (''tenantId'', JStr tenantId),
        (''version'', JStr ''actionproxy.decision.v1'')])"

definition buildActionProxyDecision ::
  "env \<Rightarrow> string \<Rightarrow> string \<Rightarrow> provider_evaluation \<Rightarrow> string \<Rightarrow> string \<Rightarrow> canonicalization_error + json" where
  \<comment> \<open>\<open>decision_material\<close> takes from the object the parts \<open>decisionIdentityMaterial\<close> is given\<close>
  "buildActionProxyDecision E decidedAt inputHash e requestId tenantId =
     map_result (\<lambda>h. decision_object (''decision_'' @ h) decidedAt inputHash e requestId tenantId)
       (hashCanonicalJson E (decision_material (decision_object [] decidedAt inputHash e requestId tenantId)))"

section \<open>Validating\<close>

definition isNonBlank :: "json \<Rightarrow> bool" where
  \<comment> \<open>\<open>typeof value === 'string' && value.trim().length > 0\<close>\<close>
  "isNonBlank v = (nonEmptyString v \<noteq> None)"

definition isArray :: "json \<Rightarrow> bool" where
  "isArray v = (case v of JArr _ \<Rightarrow> True | _ \<Rightarrow> False)"

definition jitems :: "json \<Rightarrow> json list" where
  "jitems v = (case v of JArr vs \<Rightarrow> vs | _ \<Rightarrow> [])"

definition isDecisionObligation :: "json \<Rightarrow> bool" where
  "isDecisionObligation v = (v \<in> JStr ` {''do_not_execute'', ''record_decision_evidence'', ''require_human_approval'',
     ''revalidate_policy_before_execution''})"

definition isPolicyTraceMatchType :: "json \<Rightarrow> bool" where
  "isPolicyTraceMatchType v = (v \<in> JStr ` {''default'', ''exact'', ''provider_failure'', ''wildcard''})"

definition outcome_of :: "json \<Rightarrow> policy_decision" where
  \<comment> \<open>the outcome a name stands for\<close>
  "outcome_of v = (if v = JStr ''allow'' then Allow else if v = JStr ''deny'' then Deny else RequireApproval)"

definition decision_shape :: "env \<Rightarrow> json \<Rightarrow> bool" where
  "decision_shape E c =
     (isNonBlank (jget c ''decisionId'') \<and> isNonBlank (jget c ''decisionInputHash'')
      \<and> isNonBlank (jget c ''evaluatorVersion'') \<and> isNonBlank (jget c ''requestId'') \<and> isNonBlank (jget c ''tenantId'')
      \<and> finite_date E (jget c ''decidedAt'') \<and> isPolicyDecision (jget c ''outcome'')
      \<and> isArray (jget c ''matchedPolicies'') \<and> isArray (jget c ''obligations'')
      \<and> list_all isDecisionObligation (jitems (jget c ''obligations''))
      \<and> isStringArray (jget c ''reasonCodes'') \<and> isJsonObject (jget c ''approvalRequirements'')
      \<and> isJsonObject (jget c ''policy'') \<and> isJsonObject (jget (jget c ''policy'') ''provider''))"

definition decision_projection :: "tool_call \<Rightarrow> json \<Rightarrow> bool" where
  \<comment> \<open>the decision agrees with the authoritative tool call\<close>
  "decision_projection t c =
     (let policy = jget c ''policy''; provider = jget policy ''provider''
      in jget c ''requestId'' = JStr (tc_id t) \<and> jget c ''tenantId'' = JStr (default_ws (tc_workspaceId t))
         \<and> jget c ''decisionInputHash'' = jopt JStr (tc_canonicalDecisionInputHash t)
         \<and> jget c ''outcome'' = jopt (JStr \<circ> decision_name) (tc_decision t)
         \<and> jget provider ''status'' = JStr ''ok''
         \<and> jget policy ''digest'' = jopt JStr (tc_policyVersionHash t)
         \<and> jget policy ''version'' = jopt JStr (tc_policyVersionId t)
         \<and> jget policy ''digestAlgorithm'' = JStr ''sha256'' \<and> isNonBlank (jget provider ''id'')
         \<and> isNonBlank (jget provider ''version'') \<and> isNonBlank (jget policy ''schemaVersion''))"

definition requirements_valid :: "bool \<Rightarrow> json \<Rightarrow> bool" where
  "requirements_valid required r =
     (jget r ''required'' = JBool required \<and> jget r ''expirationRequired'' = JBool False \<and> jget r ''expiresAt'' = JNull
      \<and> jget r ''modificationBehavior'' = JStr ''revalidate_and_rebind'' \<and> jget r ''rejectionBehavior'' = JStr ''terminal''
      \<and> isStringArray (jget r ''eligibleGroups'') \<and> isStringArray (jget r ''eligibleUsers'')
      \<and> (case jget r ''requiredApprovals'' of
           JNum n \<Rightarrow> num_isInteger n
             \<and> (if required then \<not> num_lt n (Dec 1 0) else num_eq n (Dec 0 0))
         | _ \<Rightarrow> False)
      \<and> jget r ''separationOfDuties'' \<in> {JBool True, JBool False})"

definition matched_valid :: "json \<Rightarrow> json \<Rightarrow> bool" where
  "matched_valid policy m =
     (isJsonObject m \<and> jget m ''digestAlgorithm'' = JStr ''sha256'' \<and> jget m ''policyDigest'' = jget policy ''digest''
      \<and> jget m ''policyVersion'' = jget policy ''version'' \<and> jget m ''providerId'' = jget (jget policy ''provider'') ''id''
      \<and> isNonBlank (jget m ''ruleId'') \<and> isPolicyTraceMatchType (jget m ''matchType''))"

definition validatedActionProxyDecisionForToolCall :: "env \<Rightarrow> tool_call \<Rightarrow> json option" where
  "validatedActionProxyDecisionForToolCall E t =
     (let c = jget (tc_decisionTrace t) ''decisionV1''
      in if \<not> isJsonObject c \<or> jget c ''version'' \<noteq> JStr ''actionproxy.decision.v1'' then None
         else if \<not> decision_shape E c then None
         else if \<not> decision_projection t c then None
         else if jitems (jget c ''obligations'') \<noteq> map JStr (decisionObligations (outcome_of (jget c ''outcome''))) then None
         else if JStr (outcome_code (outcome_of (jget c ''outcome''))) \<notin> set (jitems (jget c ''reasonCodes'')) then None
         else if \<not> requirements_valid (jget c ''outcome'' = JStr ''require_approval'') (jget c ''approvalRequirements'') then None
         else if \<not> list_all (matched_valid (jget c ''policy'')) (jitems (jget c ''matchedPolicies'')) then None
         else (case hashCanonicalJson E (decision_material c) of
                 Inl _ \<Rightarrow> None
               | Inr h \<Rightarrow> if jget c ''decisionId'' = JStr (''decision_'' @ h) then Some c else None))"

end
