(* ===== verification/DecisionFacts.thy ===== *)
theory DecisionFacts
  imports Decision PolicyProviderFacts
begin

text \<open>
  A decision the server builds validates for its tool call, and its identifier cannot be carried to another one.
\<close>

section \<open>Reading a built decision\<close>

lemma nonEmptyString_JStr [simp]: "nonEmptyString (JStr s) = (if js_trim s \<noteq> [] then Some s else None)"
  by (simp add: nonEmptyString_def jstring_def)

lemma isNonBlank_simps [simp]: "isNonBlank (JStr s) \<longleftrightarrow> js_trim s \<noteq> []" "\<not> isNonBlank JNull" "\<not> isNonBlank JUndef"
  by (simp_all add: isNonBlank_def nonEmptyString_def jstring_def)

lemma isNonBlank_jnullable [simp]: "isNonBlank (jnullable x) \<longleftrightarrow> (\<exists>s. x = Some s \<and> js_trim s \<noteq> [])"
  by (cases x) simp_all

lemma isNonBlank_string: "isNonBlank v \<Longrightarrow> \<exists>s. v = JStr s \<and> js_trim s \<noteq> []"
  by (cases v) (auto simp: isNonBlank_def nonEmptyString_def jstring_def split: if_splits)

lemma jitems_jstrings [simp]: "jitems (jstrings xs) = map JStr xs" "isArray (jstrings xs)"
  by (simp_all add: jitems_def jstrings_def isArray_def)

lemma outcome_of_name [simp]: "outcome_of (JStr (decision_name d)) = d"
  by (cases d) (simp_all add: outcome_of_def decision_name_def)

lemma obligations_known: "list_all isDecisionObligation (map JStr (decisionObligations d))"
  by (cases d) (simp_all add: decisionObligations_def isDecisionObligation_def)

lemma match_name_known [simp]: "isPolicyTraceMatchType (JStr (match_name m))"
  by (cases m) (simp_all add: match_name_def isPolicyTraceMatchType_def)

lemma outcome_coded: "pv_failureCode e = None \<Longrightarrow> outcome_code (et_decision (pv_trace e)) \<in> set (decisionReasonCodes e)"
  by (simp add: decisionReasonCodes_def Let_def)

lemma num_of_int_zero: "num_eq (num_of_int 0) (Dec 0 0)" "num_isInteger (num_of_int 0)"
  using num_of_int_ge1(1) [of 0] by (simp_all add: num_of_int.simps)

lemma requirements_of_build:
  "requirements_valid (d = RequireApproval) (buildApprovalRequirements rule d)"
  by (cases "d = RequireApproval")
     (simp_all add: requirements_valid_def buildApprovalRequirements_def Let_def num_of_int_ge1 num_of_int_zero jint_def)

lemma requirements_object: "isJsonObject (buildApprovalRequirements rule d)"
  by (simp add: buildApprovalRequirements_def Let_def)

lemma decision_id_nonblank: "js_trim (''decision_'' @ h) \<noteq> []"
  by (rule js_trim_nonblank [of "CHR ''d''"]) (simp_all add: is_ws_def)

lemma clean_material: "clean (decision_material (decision_object i at h e r w))"
  by (simp add: decision_material_def decision_object_def Let_def buildApprovalRequirements_def matched_policies_def
      decision_policy_def)

lemma material_of_object:
  "decision_material (decision_object i at h e r w) = decision_material (decision_object [] at h e r w)"
  by (simp add: decision_material_def decision_object_def Let_def)

definition built_hash :: "env \<Rightarrow> string \<Rightarrow> string \<Rightarrow> provider_evaluation \<Rightarrow> string \<Rightarrow> string \<Rightarrow> string" where
  "built_hash E at h e r w = sha256Hex E (print_json (canon (decision_material (decision_object [] at h e r w))))"

lemma hash_material:
  "hashCanonicalJson E (decision_material (decision_object i at h e r w)) = Inr (built_hash E at h e r w)"
  unfolding built_hash_def
  by (subst material_of_object) (simp add: hashCanonicalJson_def canonicalJsonStringify_clean clean_material map_result_def)

lemma build_Inr_iff:
  "buildActionProxyDecision E at h e r w = Inr d \<longleftrightarrow> d = decision_object (''decision_'' @ built_hash E at h e r w) at h e r w"
  by (auto simp: buildActionProxyDecision_def hash_material map_result_def)

lemma object_get:
  "isJsonObject (decision_object i at h e r w)"
  "jget (decision_object i at h e r w) ''decisionId'' = JStr i" "jget (decision_object i at h e r w) ''decidedAt'' = JStr at"
  "jget (decision_object i at h e r w) ''decisionInputHash'' = JStr h"
  "jget (decision_object i at h e r w) ''evaluatorVersion'' = jnullable (pd_evaluatorVersion (pv_descriptor e))"
  "jget (decision_object i at h e r w) ''matchedPolicies'' = matched_policies e"
  "jget (decision_object i at h e r w) ''obligations'' = jstrings (decisionObligations (et_decision (pv_trace e)))"
  "jget (decision_object i at h e r w) ''outcome'' = JStr (decision_name (et_decision (pv_trace e)))"
  "jget (decision_object i at h e r w) ''policy'' = decision_policy e"
  "jget (decision_object i at h e r w) ''reasonCodes'' = jstrings (decisionReasonCodes e)"
  "jget (decision_object i at h e r w) ''requestId'' = JStr r" "jget (decision_object i at h e r w) ''tenantId'' = JStr w"
  "jget (decision_object i at h e r w) ''version'' = JStr ''actionproxy.decision.v1''"
  "jget (decision_object i at h e r w) ''approvalRequirements''
     = buildApprovalRequirements (pe_rule (et_evaluation (pv_trace e))) (et_decision (pv_trace e))"
  by (simp_all add: decision_object_def Let_def)

lemma policy_get:
  "isJsonObject (decision_policy e)" "isJsonObject (jget (decision_policy e) ''provider'')"
  "jget (decision_policy e) ''digest'' = jnullable (pd_policyDigest (pv_descriptor e))"
  "jget (decision_policy e) ''digestAlgorithm'' = jnullable (pd_policyDigestAlgorithm (pv_descriptor e))"
  "jget (decision_policy e) ''schemaVersion'' = jnullable (pd_policySchemaVersion (pv_descriptor e))"
  "jget (decision_policy e) ''version'' = jnullable (pd_policyVersion (pv_descriptor e))"
  "jget (jget (decision_policy e) ''provider'') ''id'' = JStr (pd_providerId (pv_descriptor e))"
  "jget (jget (decision_policy e) ''provider'') ''version'' = jnullable (pd_providerVersion (pv_descriptor e))"
  "jget (jget (decision_policy e) ''provider'') ''status'' = JStr (if pv_failureCode e = None then ''ok'' else ''failure'')"
  by (simp_all add: decision_policy_def Let_def)

section \<open>A built decision validates\<close>

definition complete_identity :: "provider_descriptor \<Rightarrow> bool" where
  "complete_identity d =
     ((\<exists>s. pd_evaluatorVersion d = Some s \<and> js_trim s \<noteq> []) \<and> (\<exists>s. pd_policyDigest d = Some s \<and> s \<noteq> [])
      \<and> pd_policyDigestAlgorithm d = Some ''sha256'' \<and> (\<exists>s. pd_policySchemaVersion d = Some s \<and> js_trim s \<noteq> [])
      \<and> (\<exists>s. pd_policyVersion d = Some s \<and> js_trim s \<noteq> []) \<and> js_trim (pd_providerId d) \<noteq> []
      \<and> (\<exists>s. pd_providerVersion d = Some s \<and> js_trim s \<noteq> []))"

lemma nonEmptyString_Some: "nonEmptyString v = Some s \<longleftrightarrow> v = JStr s \<and> js_trim s \<noteq> []"
  by (cases v) (auto simp: nonEmptyString_def jstring_def)

lemma jstring_simps: "jstring (JStr s) = Some s" "coalesce (Some s) d = s" "jstring v = Some s \<longleftrightarrow> v = JStr s"
  by (cases v; simp add: jstring_def)+

lemma valid_descriptor_complete: "validDescriptor raw \<Longrightarrow> complete_identity (read_descriptor raw)"
  by (auto simp: validDescriptor_def complete_identity_def read_descriptor_def nonEmptyString_Some jstring_simps
      split: option.splits)

lemma ok_evaluation:
  assumes "pv_failureCode (evaluatePolicyProvider provider cx tn) = None"
  shows "complete_identity (pv_descriptor (evaluatePolicyProvider provider cx tn))"
  by (cases rule: evaluatePolicyProvider_cases [of provider cx tn]) (use assms in \<open>auto intro: valid_descriptor_complete\<close>)

lemma matched_of_ok:
  assumes "pv_failureCode e = None" "complete_identity (pv_descriptor e)" "js_trim (et_matchedRule (pv_trace e)) \<noteq> []"
  shows "isArray (matched_policies e)" "list_all (matched_valid (decision_policy e)) (jitems (matched_policies e))"
  using assms by (auto simp: matched_policies_def isArray_def jitems_def matched_valid_def policy_get complete_identity_def
      truthy_def Let_def)

lemma built_validates:
  assumes "pv_failureCode (evaluatePolicyProvider provider cx toolName) = None"
    and "buildActionProxyDecision E decidedAt inputHash (evaluatePolicyProvider provider cx toolName) (tc_id t)
           (default_ws (tc_workspaceId t)) = Inr d"
    and "jget (tc_decisionTrace t) ''decisionV1'' = d" and "tc_canonicalDecisionInputHash t = Some inputHash"
    and "tc_decision t = Some (et_decision (pv_trace (evaluatePolicyProvider provider cx toolName)))"
    and "tc_policyVersionHash t = pd_policyDigest (pv_descriptor (evaluatePolicyProvider provider cx toolName))"
    and "tc_policyVersionId t = pd_policyVersion (pv_descriptor (evaluatePolicyProvider provider cx toolName))"
    and "dateParse E decidedAt \<noteq> None" "js_trim inputHash \<noteq> []" "js_trim (tc_id t) \<noteq> []"
    and "js_trim (default_ws (tc_workspaceId t)) \<noteq> []"
    and "js_trim (et_matchedRule (pv_trace (evaluatePolicyProvider provider cx toolName))) \<noteq> []"
  shows "validatedActionProxyDecisionForToolCall E t = Some d"
proof -
  define e where "e = evaluatePolicyProvider provider cx toolName"
  note assms = assms [folded e_def]
  let ?h = "built_hash E decidedAt inputHash e (tc_id t) (default_ws (tc_workspaceId t))"
  have d: "d = decision_object (''decision_'' @ ?h) decidedAt inputHash e (tc_id t) (default_ws (tc_workspaceId t))"
    using assms(2) by (simp add: build_Inr_iff)
  have complete: "complete_identity (pv_descriptor e)" unfolding e_def by (rule ok_evaluation) (use assms(1) e_def in simp)
  have shape: "decision_shape E d"
    using assms complete decision_id_nonblank [of ?h] by (auto simp: d decision_shape_def object_get policy_get obligations_known matched_of_ok
        complete_identity_def requirements_object simp del: append.simps)
  have proj: "decision_projection t d"
    using assms complete by (auto simp: d decision_projection_def object_get policy_get Let_def complete_identity_def)
  have req: "requirements_valid (jget d ''outcome'' = JStr ''require_approval'') (jget d ''approvalRequirements'')"
    using requirements_of_build [of "et_decision (pv_trace e)"]
    by (cases "et_decision (pv_trace e)") (simp_all add: d object_get decision_name_def)
  show ?thesis
    unfolding validatedActionProxyDecisionForToolCall_def assms(3) Let_def
    using shape proj req matched_of_ok [OF assms(1) complete assms(12)] outcome_coded [OF assms(1)]
    by (simp add: hash_material object_get d image_iff)
qed

text \<open>C33: a decision that is built from an answer of a policy provider for a tool call, and stored in its trace, validates
  for that tool call, provided its identifiers are not blank and the matched rule has a name.\<close>

theorem built_decision_validates:
  assumes "pv_failureCode (evaluatePolicyProvider provider cx toolName) = None"
    and "buildActionProxyDecision E decidedAt inputHash (evaluatePolicyProvider provider cx toolName) (tc_id t)
           (default_ws (tc_workspaceId t)) = Inr d"
    and "jget (tc_decisionTrace t) ''decisionV1'' = d" and "tc_canonicalDecisionInputHash t = Some inputHash"
    and "tc_decision t = Some (et_decision (pv_trace (evaluatePolicyProvider provider cx toolName)))"
    and "tc_policyVersionHash t = pd_policyDigest (pv_descriptor (evaluatePolicyProvider provider cx toolName))"
    and "tc_policyVersionId t = pd_policyVersion (pv_descriptor (evaluatePolicyProvider provider cx toolName))"
    and "dateParse E decidedAt \<noteq> None" "js_trim inputHash \<noteq> []" "js_trim (tc_id t) \<noteq> []"
    and "js_trim (default_ws (tc_workspaceId t)) \<noteq> []"
    and "js_trim (et_matchedRule (pv_trace (evaluatePolicyProvider provider cx toolName))) \<noteq> []"
  shows "validatedActionProxyDecisionForToolCall E t = Some d"
  using assms by (rule built_validates)

definition sample_evaluation :: provider_evaluation where
  "sample_evaluation = evaluatePolicyProvider (Some (createYamlPolicyProvider text_env example_policy
     (Some (replicate 64 CHR ''a'')) (Some ''v1''))) example_context ''payments.refund''"

lemma sample_evaluation_fields:
  "pv_failureCode sample_evaluation = None" "et_matchedRule (pv_trace sample_evaluation) = ''payments.*''"
proof -
  have "valid_policy example_policy" "\<not> inherited_name example_policy ''payments.refund''" by code_simp+
  moreover have "list_all lower_hex (replicate 64 CHR ''a'')" by code_simp
  ultimately have e: "pv_failureCode sample_evaluation = None \<and>
      pv_trace sample_evaluation = evaluatePolicyTrace example_policy ''payments.refund'' example_context"
    using yaml_provider_engine(1) [of example_policy "replicate 64 CHR ''a''" "''v1''" "''payments.refund''" text_env
      example_context] by (simp add: sample_evaluation_def js_trim_def is_ws_def)
  then show "pv_failureCode sample_evaluation = None" by blast
  have "et_matchedRule (evaluatePolicyTrace example_policy ''payments.refund'' example_context) = ''payments.*''"
    by code_simp
  with e show "et_matchedRule (pv_trace sample_evaluation) = ''payments.*''" by simp
qed

lemma text_env_date: "dateParse text_env s = Some (int (length s))"
  by (simp add: text_env_def)

definition decided_call :: tool_call where
  "decided_call =
     (let e = sample_evaluation;
          d = decision_object (''decision_'' @ built_hash text_env ''now'' ''hash'' e (tc_id sample_tool_call)
                (default_ws (tc_workspaceId sample_tool_call))) ''now'' ''hash'' e (tc_id sample_tool_call)
                (default_ws (tc_workspaceId sample_tool_call))
      in sample_tool_call\<lparr>tc_decisionTrace := JObj [(''decisionV1'', d)], tc_canonicalDecisionInputHash := Some ''hash'',
        tc_decision := Some (et_decision (pv_trace e)), tc_policyVersionHash := pd_policyDigest (pv_descriptor e),
        tc_policyVersionId := pd_policyVersion (pv_descriptor e)\<rparr>)"

theorem built_decision_validates_witness:
  "validatedActionProxyDecisionForToolCall text_env decided_call = Some (jget (tc_decisionTrace decided_call) ''decisionV1'')"
  by (rule built_decision_validates [of "Some (createYamlPolicyProvider text_env example_policy
        (Some (replicate 64 CHR ''a'')) (Some ''v1''))" example_context "''payments.refund''" text_env "''now''" "''hash''"])
     (simp_all add: sample_evaluation_fields decided_call_def build_Inr_iff Let_def sample_tool_call_def text_env_date
       default_ws_def js_trim_def is_ws_def jget_def flip: sample_evaluation_def)

section \<open>The identifier of a decision\<close>

lemma validated_fields:
  assumes "validatedActionProxyDecisionForToolCall E t = Some c"
  shows "decision_projection t c" "decision_shape E c"
    "\<exists>h. hashCanonicalJson E (decision_material c) = Inr h \<and> jget c ''decisionId'' = JStr (''decision_'' @ h)"
  using assms by (auto simp: validatedActionProxyDecisionForToolCall_def Let_def split: if_splits sum.splits)

lemma jopt_name_inj: "jopt (JStr \<circ> decision_name) x = jopt (JStr \<circ> decision_name) y \<longleftrightarrow> x = y"
  by (cases x; cases y) simp_all

lemma canon_jopt_name: "canon (jopt (JStr \<circ> decision_name) x) = jopt (JStr \<circ> decision_name) x"
  by (cases x) simp_all

lemma canon_decision_material:
  assumes "canon (decision_material c) = canon (decision_material d)"
    and "k \<in> {''approvalRequirements'', ''decisionInputHash'', ''matchedPolicies'', ''obligations'', ''outcome'',
              ''reasonCodes'', ''requestId'', ''tenantId''}"
  shows "canon (jget c k) = canon (jget d k)"
  using assms by (auto simp: decision_material_def Let_def canon_obj_iff)

lemma canon_decision_policy:
  assumes "canon (decision_material c) = canon (decision_material d)" and "k \<in> {''digest'', ''version'', ''schemaVersion''}"
  shows "canon (jget (jget c ''policy'') k) = canon (jget (jget d ''policy'') k)"
  using assms by (auto simp: decision_material_def Let_def canon_obj_iff)

text \<open>C34: the identifier of a decision cannot be carried to another tool call: two stored decisions that validate and
  have the same identifier are of the same tool call, workspace, input, outcome and policy version and ask for the same
  approvals, unless their texts are a collision of the digest.\<close>

theorem decision_id_commits:
  assumes "validatedActionProxyDecisionForToolCall E t = Some c" "validatedActionProxyDecisionForToolCall E u = Some d"
    and "jget c ''decisionId'' = jget d ''decisionId''"
    and "plain (decision_material c)" "plain (decision_material d)"
    and "inj_on (sha256Hex E) {print_json (canon (decision_material c)), print_json (canon (decision_material d))}"
  shows "tc_id t = tc_id u \<and> default_ws (tc_workspaceId t) = default_ws (tc_workspaceId u)
    \<and> tc_canonicalDecisionInputHash t = tc_canonicalDecisionInputHash u \<and> tc_decision t = tc_decision u
    \<and> tc_policyVersionHash t = tc_policyVersionHash u \<and> tc_policyVersionId t = tc_policyVersionId u
    \<and> canon (jget c ''approvalRequirements'') = canon (jget d ''approvalRequirements'')"
proof -
  have "hashCanonicalJson E (decision_material c) = hashCanonicalJson E (decision_material d)"
    using validated_fields(3) [OF assms(1)] validated_fields(3) [OF assms(2)] assms(3) by auto
  then have "canon (decision_material c) = canon (decision_material d)"
    using assms(4-6) hashCanonicalJson_equal_canon by blast
  note same = canon_decision_material [OF this] and policy = canon_decision_policy [OF this]
  have p: "decision_projection t c" "decision_projection u d" using validated_fields(1) assms(1,2) by blast+
  show ?thesis
    using p same [of "''requestId''"] same [of "''tenantId''"] same [of "''decisionInputHash''"]
      same [of "''outcome''"] policy [of "''digest''"] policy [of "''version''"] same [of "''approvalRequirements''"]
    by (auto simp: decision_projection_def Let_def jopt_name_inj canon_jopt_name)
qed

lemma decided_call_validates:
  "validatedActionProxyDecisionForToolCall text_env (decided_call\<lparr>tc_status := st\<rparr>)
     = Some (jget (tc_decisionTrace decided_call) ''decisionV1'')"
  by (rule built_validates [of "Some (createYamlPolicyProvider text_env example_policy
        (Some (replicate 64 CHR ''a'')) (Some ''v1''))" example_context "''payments.refund''" text_env "''now''" "''hash''"])
     (simp_all add: sample_evaluation_fields decided_call_def build_Inr_iff Let_def sample_tool_call_def text_env_date
       default_ws_def js_trim_def is_ws_def jget_def flip: sample_evaluation_def)

lemma plain_jopt: "jopt JStr x = JUndef \<or> plain (jopt JStr x)"
  by (cases x) simp_all

lemma plain_material: "plain (decision_material (decision_object i at h e r w))"
  by (simp add: plain_jopt decision_material_def decision_object_def Let_def buildApprovalRequirements_def matched_policies_def
      decision_policy_def)

theorem decision_id_commits_witness:
  "tc_policyVersionHash decided_call = tc_policyVersionHash (decided_call\<lparr>tc_status := Executed\<rparr>)"
proof -
  have eta: "decided_call\<lparr>tc_status := tc_status decided_call\<rparr> = decided_call" by simp
  have plain: "plain (decision_material (jget (tc_decisionTrace decided_call) ''decisionV1''))"
    by (simp add: decided_call_def Let_def plain_material)
  show ?thesis
    using decision_id_commits [OF decided_call_validates [of "tc_status decided_call", unfolded eta]
        decided_call_validates [of Executed] refl plain plain] by (simp add: text_env_def)
qed

end
