(* ===== verification/ActionEnvelope.thy ===== *)
theory ActionEnvelope
  imports ActionRequest
begin

text \<open>
  The action envelope (\<open>security/action-envelope.ts\<close>): what a submitted tool call would do, as one hashed object that
  approvals, receipts and attempts refer to, and the scope checks of \<open>security/scopes.ts\<close>. An envelope is a JSON value:
  it is only built, read and hashed.
\<close>

section \<open>Objects\<close>

definition jmembers :: "json \<Rightarrow> (string \<times> json) list" where
  \<comment> \<open>what \<open>...value\<close> spreads into an object\<close>
  "jmembers v = (case v of JObj kvs \<Rightarrow> kvs | _ \<Rightarrow> [])"

definition jwith :: "json \<Rightarrow> (string \<times> json) list \<Rightarrow> json" where
  \<comment> \<open>\<open>{ ...value, key: member, ... }\<close>\<close>
  "jwith v kvs = JObj (fold (\<lambda>(k, x). jm_set k x) kvs (jmembers v))"

lemma jget_JObj: "jget (JObj m) k = (case jm_get m k of None \<Rightarrow> JUndef | Some x \<Rightarrow> x)"
  by (simp add: jget_def jm_get_def)

lemma jget_jwith_Nil [simp]: "jget (jwith v []) k = jget v k"
  by (cases v) (simp_all add: jwith_def jmembers_def jget_def)

lemma jget_jwith_last [simp]:
  "jget (jwith v (kvs @ [(k', x)])) k = (if k = k' then x else jget (jwith v kvs) k)"
  by (simp add: jwith_def jget_JObj)

lemma jwith_object [simp]: "isJsonObject (jwith v kvs)" "jtruthy (jwith v kvs)" "jwith v kvs \<noteq> JUndef"
  by (simp_all add: jwith_def isJsonObject_def jtruthy_def)

section \<open>The envelope of a request\<close>

definition actionActor :: "string \<Rightarrow> auth_context option \<Rightarrow> json" where
  "actionActor actor auth =
     (case auth of
        None \<Rightarrow> JObj [(''id'', JStr actor), (''type'', JStr ''local'')]
      | Some a \<Rightarrow>
          if au_authProvider a = ''none'' then JObj [(''id'', JStr actor), (''type'', JStr ''local'')]
          else JObj [(''authProvider'', JStr (au_authProvider a)), (''displayName'', JStr (au_displayName a)),
                     (''email'', jopt JStr (au_email a)), (''id'', JStr (au_principalId a)),
                     (''type'', JStr (au_principalType a))])"

definition protocolFromMetadata :: "json \<Rightarrow> string" where
  "protocolFromMetadata metadata =
     (if jget metadata ''source'' = JStr ''mcp-wrapper'' \<or> jstring (jget metadata ''mcpServer'') \<noteq> None
         \<or> jstring (jget metadata ''mcpTool'') \<noteq> None then ''mcp''
      else if jget metadata ''source'' = JStr ''cli'' then ''cli''
      else if jget metadata ''source'' = JStr ''webhook'' then ''webhook''
      else ''actionproxy_http'')"

definition sourceTypeFromMetadata :: "json \<Rightarrow> string \<Rightarrow> string" where
  "sourceTypeFromMetadata metadata protocol =
     (case jstring (jget metadata ''source'') of Some s \<Rightarrow> s
      | None \<Rightarrow> if protocol = ''mcp'' then ''mcp-wrapper'' else ''http'')"

definition stringFromMetadata :: "json \<Rightarrow> string \<Rightarrow> string option" where
  "stringFromMetadata metadata key =
     (case jstring (jget metadata key) of
        None \<Rightarrow> None
      | Some s \<Rightarrow> if js_trim s \<noteq> [] then Some s else None)"

definition hint :: "action_hints option \<Rightarrow> (action_hints \<Rightarrow> json) \<Rightarrow> string \<Rightarrow> json" where
  \<comment> \<open>\<open>action?.part?.key\<close>\<close>
  "hint action part key = (case action of None \<Rightarrow> JUndef | Some a \<Rightarrow> jget (part a) key)"

definition envelope_source :: "action_hints option \<Rightarrow> json \<Rightarrow> string \<Rightarrow> json" where
  "envelope_source action metadata protocol = JObj
     [(''type'', jcoalesce (hint action ah_source ''type'') (JStr (sourceTypeFromMetadata metadata protocol))),
      (''id'', jcoalesce (hint action ah_source ''id'')
         (jopt JStr (or_else (stringFromMetadata metadata ''sourceId'') (stringFromMetadata metadata ''mcpServer'')))),
      (''name'', jcoalesce (hint action ah_source ''name'')
         (jopt JStr (or_else (stringFromMetadata metadata ''source'') (stringFromMetadata metadata ''mcpServer'')))),
      (''metadata'', hint action ah_source ''metadata'')]"

definition envelope_context :: "action_hints option \<Rightarrow> string \<Rightarrow> json" where
  "envelope_context action reason =
     (let m = hint action ah_context ''metadata'' in JObj
       [(''dataClassification'', hint action ah_context ''dataClassification''),
        (''metadata'', if isJsonObject m then m else JUndef),
        (''reason'', jcoalesce (hint action ah_context ''reason'') (JStr reason)),
        (''reversibility'', hint action ah_context ''reversibility''),
        (''risk'', hint action ah_context ''risk''),
        (''sideEffects'', hint action ah_context ''sideEffects'')])"

definition envelope_material :: "env \<Rightarrow> string \<Rightarrow> auth_context option \<Rightarrow> submit_request \<Rightarrow> (string \<times> json) list" where
  \<comment> \<open>\<open>envelopeWithoutHash\<close>\<close>
  "envelope_material E actor auth request =
     (let action = sr_action request; metadata = request_metadata request;
          protocol = coalesce (Option.bind action ah_protocol) (protocolFromMetadata metadata)
      in [(''actor'', actionActor actor auth),
          (''agent'', JObj [(''id'', JStr (sr_agentId request)),
                            (''name'', jopt JStr (stringFromMetadata metadata ''agentName''))]),
          (''context'', envelope_context action (sr_reason request)),
          (''executionMode'', JStr (execution_mode_name (coalesce (hint_mode request) (executionModeFromMetadata metadata)))),
          (''input'', sr_input request),
          (''inputHash'', JStr (hashJson E (sr_input request))),
          (''operation'', JObj
             [(''kind'', hint action ah_operation ''kind''),
              (''name'', jcoalesce (hint action ah_operation ''name'')
                 (JStr (coalesce (stringFromMetadata metadata ''operation'') (sr_toolName request))))]),
          (''protocol'', JStr protocol),
          (''resources'', if request_resources request \<noteq> [] then JArr (request_resources request) else JUndef),
          (''source'', envelope_source action metadata protocol),
          (''toolName'', JStr (sr_toolName request)),
          (''version'', JStr ''actionproxy.action.v1'')])"

definition normalizeActionEnvelope :: "env \<Rightarrow> string \<Rightarrow> auth_context option \<Rightarrow> submit_request \<Rightarrow> json" where
  "normalizeActionEnvelope E actor auth request =
     (let m = envelope_material E actor auth request
      in JObj (m @ [(''envelopeHash'', JStr (hashJson E (JObj m)))]))"

definition reviewHashFor :: "env \<Rightarrow> string \<Rightarrow> string \<Rightarrow> string option \<Rightarrow> string \<Rightarrow> string" where
  "reviewHashFor E actionEnvelopeHash approvalId policyVersionHash toolCallId = hashJson E (JObj
     [(''actionEnvelopeHash'', JStr actionEnvelopeHash), (''approvalId'', JStr approvalId),
      (''policyVersionHash'', jopt JStr policyVersionHash), (''toolCallId'', JStr toolCallId),
      (''version'', JStr ''actionproxy.review.v1'')])"

definition actionEnvelopeForInput :: "env \<Rightarrow> json \<Rightarrow> json \<Rightarrow> json" where
  "actionEnvelopeForInput E envelope input =
     (let updated = jwith envelope [(''input'', input), (''inputHash'', JStr (hashJson E input))]
      in jwith updated [(''envelopeHash'', JStr (hashJson E (jwith updated [(''envelopeHash'', JUndef)])))])"

definition envelopeHash :: "json \<Rightarrow> string" where
  "envelopeHash envelope = coalesce (jstring (jget envelope ''envelopeHash'')) []"

definition envelopeInputHash :: "json \<Rightarrow> string" where
  "envelopeInputHash envelope = coalesce (jstring (jget envelope ''inputHash'')) []"

section \<open>Scopes and groups\<close>

definition hasScope :: "auth_context option \<Rightarrow> string \<Rightarrow> bool" where
  "hasScope auth scope = (case auth of None \<Rightarrow> False
     | Some a \<Rightarrow> ''*'' \<in> set (au_scopes a) \<or> scope \<in> set (au_scopes a))"

datatype scope_error = UnauthorizedError string | MissingScope string

definition requireAuth :: "auth_context option \<Rightarrow> scope_error + auth_context" where
  "requireAuth auth = (case auth of None \<Rightarrow> Inl (UnauthorizedError ''Authentication is required.'') | Some a \<Rightarrow> Inr a)"

definition requireScope :: "auth_context option \<Rightarrow> string \<Rightarrow> scope_error + auth_context" where
  "requireScope auth scope = (case requireAuth auth of
       Inl e \<Rightarrow> Inl e
     | Inr a \<Rightarrow> if hasScope (Some a) scope then Inr a else Inl (MissingScope (''Missing required scope: '' @ scope)))"

definition hasAnyGroup :: "auth_context \<Rightarrow> string list \<Rightarrow> bool" where
  "hasAnyGroup auth groups = (groups = [] \<or> list_ex (\<lambda>g. g \<in> set (au_groups auth)) groups)"

definition principalMatchesActor :: "auth_context \<Rightarrow> string option \<Rightarrow> bool" where
  "principalMatchesActor auth actor =
     (truthy actor \<and> (Some (au_principalId auth) = actor \<or> au_email auth = actor \<or> Some (au_displayName auth) = actor))"

section \<open>What an envelope for an input fixes\<close>

lemma envelope_for_input:
  "jget (actionEnvelopeForInput E v input) ''input'' = input"
  "jget (actionEnvelopeForInput E v input) ''inputHash'' = JStr (hashJson E input)"
  "envelopeInputHash (actionEnvelopeForInput E v input) = hashJson E input"
  "k \<notin> {''input'', ''inputHash'', ''envelopeHash''} \<Longrightarrow> jget (actionEnvelopeForInput E v input) k = jget v k"
  using jget_jwith_last [of v "[(''input'', input)]" "''inputHash''" "JStr (hashJson E input)"]
    jget_jwith_last [of v "[]" "''input''" input]
    jget_jwith_last [of "jwith v [(''input'', input), (''inputHash'', JStr (hashJson E input))]" "[]" "''envelopeHash''"]
  by (auto simp: actionEnvelopeForInput_def envelopeInputHash_def Let_def jstring_def coalesce_def)

end
