(* ===== verification/ApproverDirectory.thy ===== *)
theory ApproverDirectory
  imports StoreDirectory Policy ApprovalAuthFacts
begin

text \<open>
  The service over the approver directory (\<open>services/approver-directory.ts\<close>): users and groups, the identifiers it
  generates, the check of a policy against the directory, and who is asked for an approval. The methods await the
  store; \<open>rest i\<close> is what others do to the store during the \<open>i\<close>-th wait and \<open>now\<close> the text of the clock.
\<close>

section \<open>Records and names\<close>

record recipient =
  \<comment> \<open>\<open>ApprovalNotificationRecipient\<close>\<close>
  rp_displayName :: string
  rp_email :: "string option"
  rp_groups :: "string list"
  rp_principalId :: string
  rp_slackUserId :: "string option"
  rp_telegramChatId :: "string option"
  rp_telegramUsername :: "string option"
  rp_telegramUserId :: "string option"
  rp_userId :: string

record user_input =
  \<comment> \<open>\<open>UpsertApproverUserInput\<close>\<close>
  ui_defaultApprover :: "bool option"
  ui_displayName :: "string option"
  ui_email :: "string option"
  ui_enabled :: "bool option"
  ui_groups :: "string list option"
  ui_principalId :: "string option"
  ui_slackUserId :: "string option"
  ui_telegramChatId :: "string option"
  ui_telegramUsername :: "string option"
  ui_telegramUserId :: "string option"

record group_input =
  \<comment> \<open>\<open>UpsertApproverGroupInput\<close>\<close>
  gu_description :: "string option"
  gu_displayName :: "string option"
  gu_enabled :: "bool option"

datatype directory_error =
    DirectoryConflict string
  | DirectoryNotFound string
  | DirectoryPrincipalConflict \<comment> \<open>the error of the store, passed on\<close>
  | PolicyReference string

definition blankToUndefined :: "string option \<Rightarrow> string option" where
  "blankToUndefined v = (case v of None \<Rightarrow> None | Some s \<Rightarrow> if js_trim s \<noteq> [] then Some (js_trim s) else None)"

definition authorizationPrincipalId :: "approver_user \<Rightarrow> string" where
  "authorizationPrincipalId u = coalesce (blankToUndefined (us_principalId u)) (us_id u)"

definition uniqueStrings :: "string list \<Rightarrow> string list" where
  "uniqueStrings values = sortedUnique (filter (\<lambda>s. s \<noteq> []) (map js_trim values))"

fun replace_runs :: "(char \<Rightarrow> bool) \<Rightarrow> bool \<Rightarrow> string \<Rightarrow> string" where
  \<comment> \<open>\<open>replace(/[...]+/g, '_')\<close>; the flag says that the last character belonged to a run\<close>
  "replace_runs p inside [] = []"
| "replace_runs p inside (c # cs) =
     (if p c then (if inside then [] else ''_'') @ replace_runs p True cs else c # replace_runs p False cs)"

definition slug_char :: "char \<Rightarrow> bool" where
  "slug_char c = (let n = (of_char c :: nat) in 48 \<le> n \<and> n \<le> 57 \<or> 97 \<le> n \<and> n \<le> 122)"

definition strip_underscores :: "string \<Rightarrow> string" where
  \<comment> \<open>\<open>replace(/^_|_$/g, '')\<close>\<close>
  "strip_underscores s =
     (let t = (if s \<noteq> [] \<and> hd s = CHR ''_'' then tl s else s)
      in if t \<noteq> [] \<and> last t = CHR ''_'' then butlast t else t)"

definition slugForId :: "string option \<Rightarrow> string \<Rightarrow> string" where
  "slugForId v fallback =
     (case blankToUndefined v of
        None \<Rightarrow> fallback
      | Some s \<Rightarrow>
          let slug = strip_underscores (replace_runs (\<lambda>c. c = CHR ''_'') False
                       (replace_runs (\<lambda>c. \<not> slug_char c) False (toLowerCase s)))
          in if slug = [] then fallback else slug)"

definition normalizeTelegramUsername :: "string option \<Rightarrow> string option" where
  "normalizeTelegramUsername v =
     (case blankToUndefined v of
        None \<Rightarrow> None
      | Some s \<Rightarrow>
          let name = toLowerCase (js_trim (dropWhile (\<lambda>c. c = CHR ''@'') s))
          in if name = [] then None else Some name)"

definition userToRecipient :: "approver_user \<Rightarrow> recipient" where
  "userToRecipient u =
     \<lparr>rp_displayName = us_displayName u, rp_email = us_email u, rp_groups = us_groups u,
      rp_principalId = authorizationPrincipalId u, rp_slackUserId = us_slackUserId u,
      rp_telegramChatId = us_telegramChatId u, rp_telegramUsername = us_telegramUsername u,
      rp_telegramUserId = us_telegramUserId u, rp_userId = us_id u\<rparr>"

section \<open>Generated identifiers\<close>

function next_directory_id :: "string list \<Rightarrow> string \<Rightarrow> string \<Rightarrow> nat \<Rightarrow> string option" where
  \<comment> \<open>the loop with the current candidate; \<open>None\<close> is the error after it\<close>
  "next_directory_id existing base candidate suffix =
     (if 10000 < suffix then None
      else if candidate \<notin> set existing then Some candidate
      else next_directory_id existing base (base @ ''_'' @ nat_digits suffix) (suffix + 1))"
  by pat_completeness auto
termination
  by (relation "measure (\<lambda>(_, _, _, suffix). 10001 - suffix)") auto

declare next_directory_id.simps [simp del]

definition directory_ids :: "approver_user list \<Rightarrow> approver_group list \<Rightarrow> string list" where
  "directory_ids users groups =
     concat (map (\<lambda>u. [us_id u, authorizationPrincipalId u]) users) @ map gp_id groups"

definition nextGeneratedDirectoryId ::
  "env \<Rightarrow> string \<Rightarrow> string \<Rightarrow> string option \<Rightarrow> string \<Rightarrow> store \<Rightarrow> directory_error + string" where
  "nextGeneratedDirectoryId E ws prefix displayName fallback s =
     (let existing = directory_ids (listApproverUsers E ws s) (listApproverGroups E ws s);
          base = prefix @ ''_'' @ slugForId displayName fallback
      in case next_directory_id existing base base 2 of
           Some i \<Rightarrow> Inr i
         | None \<Rightarrow> Inl (DirectoryConflict (''Could not allocate a unique approver directory id for '' @ base @ ''.'')))"

section \<open>Users\<close>

definition assertUniqueAuthorizationIdentity ::
  "env \<Rightarrow> string \<Rightarrow> string \<Rightarrow> string option \<Rightarrow> store \<Rightarrow> directory_error option" where
  "assertUniqueAuthorizationIdentity E ws i principalId s =
     (let proposed = [i, coalesce principalId i]
      in case List.find (\<lambda>u. us_id u \<noteq> i \<and> list_ex (\<lambda>x. x \<in> set proposed) [us_id u, authorizationPrincipalId u])
           (listApproverUsers E ws s) of
           None \<Rightarrow> None
         | Some conflict \<Rightarrow> Some (DirectoryConflict
             (''Approver authorization identity conflicts with existing directory user: '' @ us_id conflict)))"

definition user_record :: "string \<Rightarrow> string \<Rightarrow> string \<Rightarrow> user_input \<Rightarrow> approver_user option \<Rightarrow> approver_user" where
  "user_record now ws i inp existing =
     \<lparr>us_id = i, us_workspaceId = ws,
      us_displayName = coalesce (or_else (blankToUndefined (ui_displayName inp)) (map_option us_displayName existing)) i,
      us_email = or_else (blankToUndefined (ui_email inp)) (Option.bind existing us_email),
      us_principalId = or_else (blankToUndefined (ui_principalId inp)) (Option.bind existing us_principalId),
      us_slackUserId = or_else (blankToUndefined (ui_slackUserId inp)) (Option.bind existing us_slackUserId),
      us_telegramChatId = or_else (blankToUndefined (ui_telegramChatId inp)) (Option.bind existing us_telegramChatId),
      us_telegramUsername = or_else (normalizeTelegramUsername (ui_telegramUsername inp)) (Option.bind existing us_telegramUsername),
      us_telegramUserId = or_else (blankToUndefined (ui_telegramUserId inp)) (Option.bind existing us_telegramUserId),
      us_groups = uniqueStrings (coalesce (or_else (ui_groups inp) (map_option us_groups existing)) []),
      us_defaultApprover = coalesce (or_else (ui_defaultApprover inp) (map_option us_defaultApprover existing)) False,
      us_enabled = coalesce (or_else (ui_enabled inp) (map_option us_enabled existing)) True,
      us_createdAt = coalesce (map_option us_createdAt existing) now, us_updatedAt = now\<rparr>"

type_synonym 'a directory_result = "(directory_error + 'a) \<times> store"

definition serviceUpsertUser ::
  "env \<Rightarrow> (nat \<Rightarrow> store \<Rightarrow> store) \<Rightarrow> string \<Rightarrow> string \<Rightarrow> string \<Rightarrow> user_input \<Rightarrow> store \<Rightarrow> approver_user directory_result" where
  "serviceUpsertUser E rest now ws i inp s =
     (let existing = getApproverUser s ws i; r = user_record now ws i inp existing; s1 = rest 0 s
      in case assertUniqueAuthorizationIdentity E ws i (us_principalId r) s1 of
           Some e \<Rightarrow> (Inl e, s1)
         | None \<Rightarrow>
             (case upsertApproverUser r (rest 1 s1) of
                (Inl _, s2) \<Rightarrow>
                  (Inl (DirectoryConflict ''Approver authorization identity conflicts with an existing directory user.''), s2)
              | (Inr u, s2) \<Rightarrow> (Inr u, s2)))"

definition createUser ::
  "env \<Rightarrow> (nat \<Rightarrow> store \<Rightarrow> store) \<Rightarrow> string \<Rightarrow> string \<Rightarrow> user_input \<Rightarrow> store \<Rightarrow> approver_user directory_result" where
  "createUser E rest now ws inp s =
     (case nextGeneratedDirectoryId E ws ''u'' (ui_displayName inp) ''approver'' s of
        Inl e \<Rightarrow> (Inl e, s)
      | Inr i \<Rightarrow> serviceUpsertUser E (\<lambda>n. rest (n + 1)) now ws i inp (rest 0 s))"

definition store_user :: "approver_user \<Rightarrow> store \<Rightarrow> approver_user directory_result" where
  \<comment> \<open>\<open>return this.store.upsertApproverUser(...)\<close>\<close>
  "store_user r s = (case upsertApproverUser r s of
     (Inl _, s') \<Rightarrow> (Inl DirectoryPrincipalConflict, s') | (Inr u, s') \<Rightarrow> (Inr u, s'))"

definition user_not_found :: "string \<Rightarrow> directory_error" where
  "user_not_found i = DirectoryNotFound (''Approver user not found: '' @ i)"

definition connectTelegramUser ::
  "(nat \<Rightarrow> store \<Rightarrow> store) \<Rightarrow> string \<Rightarrow> string \<Rightarrow> string \<Rightarrow> string \<Rightarrow> string option \<Rightarrow> string \<Rightarrow> store
    \<Rightarrow> approver_user directory_result" where
  \<comment> \<open>the chat, the user name and the user of Telegram\<close>
  "connectTelegramUser rest now ws i chat username userId s =
     (case getApproverUser s ws i of
        None \<Rightarrow> (Inl (user_not_found i), s)
      | Some u \<Rightarrow> store_user (u\<lparr>us_telegramChatId := Some chat,
          us_telegramUsername := or_else (normalizeTelegramUsername username) (us_telegramUsername u),
          us_telegramUserId := Some userId, us_updatedAt := now\<rparr>) (rest 0 s))"

definition disconnectTelegramUser ::
  "(nat \<Rightarrow> store \<Rightarrow> store) \<Rightarrow> string \<Rightarrow> string \<Rightarrow> string \<Rightarrow> store \<Rightarrow> approver_user directory_result" where
  "disconnectTelegramUser rest now ws i s =
     (case getApproverUser s ws i of
        None \<Rightarrow> (Inl (user_not_found i), s)
      | Some u \<Rightarrow> store_user (u\<lparr>us_telegramChatId := None, us_telegramUserId := None, us_updatedAt := now\<rparr>) (rest 0 s))"

definition no_input :: user_input where
  "no_input = \<lparr>ui_defaultApprover = None, ui_displayName = None, ui_email = None, ui_enabled = None, ui_groups = None,
     ui_principalId = None, ui_slackUserId = None, ui_telegramChatId = None, ui_telegramUsername = None,
     ui_telegramUserId = None\<rparr>"

definition disableUser ::
  "env \<Rightarrow> (nat \<Rightarrow> store \<Rightarrow> store) \<Rightarrow> string \<Rightarrow> string \<Rightarrow> string \<Rightarrow> store \<Rightarrow> approver_user directory_result" where
  "disableUser E rest now ws i s =
     (case getApproverUser s ws i of
        None \<Rightarrow> serviceUpsertUser E (\<lambda>n. rest (n + 1)) now ws i
          (no_input\<lparr>ui_displayName := Some i, ui_enabled := Some False\<rparr>) (rest 0 s)
      | Some u \<Rightarrow> store_user (u\<lparr>us_enabled := False, us_updatedAt := now\<rparr>) (rest 0 s))"

definition serviceDeleteUser ::
  "(nat \<Rightarrow> store \<Rightarrow> store) \<Rightarrow> string \<Rightarrow> string \<Rightarrow> store \<Rightarrow> approver_user directory_result" where
  "serviceDeleteUser rest ws i s =
     (case getApproverUser s ws i of
        None \<Rightarrow> (Inl (user_not_found i), s)
      | Some u \<Rightarrow> (Inr u, snd (deleteApproverUser ws i (rest 0 s))))"

section \<open>Groups\<close>

definition group_record :: "string \<Rightarrow> string \<Rightarrow> string \<Rightarrow> group_input \<Rightarrow> approver_group option \<Rightarrow> approver_group" where
  "group_record now ws i inp existing =
     \<lparr>gp_id = i, gp_workspaceId = ws,
      gp_displayName = coalesce (or_else (blankToUndefined (gu_displayName inp)) (map_option gp_displayName existing)) i,
      gp_description = or_else (blankToUndefined (gu_description inp)) (Option.bind existing gp_description),
      gp_enabled = coalesce (or_else (gu_enabled inp) (map_option gp_enabled existing)) True,
      gp_createdAt = coalesce (map_option gp_createdAt existing) now, gp_updatedAt = now\<rparr>"

definition upsertGroup ::
  "(nat \<Rightarrow> store \<Rightarrow> store) \<Rightarrow> string \<Rightarrow> string \<Rightarrow> string \<Rightarrow> group_input \<Rightarrow> store \<Rightarrow> approver_group \<times> store" where
  "upsertGroup rest now ws i inp s =
     (let r = group_record now ws i inp (getApproverGroup s ws i) in (r, upsertApproverGroup r (rest 0 s)))"

definition createGroup ::
  "env \<Rightarrow> (nat \<Rightarrow> store \<Rightarrow> store) \<Rightarrow> string \<Rightarrow> string \<Rightarrow> group_input \<Rightarrow> store \<Rightarrow> approver_group directory_result" where
  "createGroup E rest now ws inp s =
     (case nextGeneratedDirectoryId E ws ''g'' (gu_displayName inp) ''group'' s of
        Inl e \<Rightarrow> (Inl e, s)
      | Inr i \<Rightarrow> (let (r, s') = upsertGroup (\<lambda>n. rest (n + 1)) now ws i inp (rest 0 s) in (Inr r, s')))"

definition disableGroup ::
  "(nat \<Rightarrow> store \<Rightarrow> store) \<Rightarrow> string \<Rightarrow> string \<Rightarrow> string \<Rightarrow> store \<Rightarrow> approver_group \<times> store" where
  "disableGroup rest now ws i s =
     (case getApproverGroup s ws i of
        None \<Rightarrow> upsertGroup (\<lambda>n. rest (n + 1)) now ws i
          \<lparr>gu_description = None, gu_displayName = Some i, gu_enabled = Some False\<rparr> (rest 0 s)
      | Some g \<Rightarrow> (let r = g\<lparr>gp_enabled := False, gp_updatedAt := now\<rparr> in (r, upsertApproverGroup r (rest 0 s))))"

fun upsert_all :: "approver_user list \<Rightarrow> store \<Rightarrow> bool \<times> store" where
  \<comment> \<open>\<open>Promise.all\<close> of the upserts: all are made, and whether none was refused\<close>
  "upsert_all [] s = (True, s)"
| "upsert_all (u # us) s =
     (case upsertApproverUser u s of (r, s1) \<Rightarrow> (case upsert_all us s1 of (ok, s2) \<Rightarrow> (\<not> isl r \<and> ok, s2)))"

definition serviceDeleteGroup ::
  "env \<Rightarrow> (nat \<Rightarrow> store \<Rightarrow> store) \<Rightarrow> string \<Rightarrow> string \<Rightarrow> string \<Rightarrow> store \<Rightarrow> approver_group directory_result" where
  "serviceDeleteGroup E rest now ws i s =
     (case getApproverGroup s ws i of
        None \<Rightarrow> (Inl (DirectoryNotFound (''Approver group not found: '' @ i)), s)
      | Some g \<Rightarrow>
          let s1 = rest 0 s;
              changed = map (\<lambda>u. u\<lparr>us_groups := filter (\<lambda>x. x \<noteq> i) (us_groups u), us_updatedAt := now\<rparr>)
                          (filter (\<lambda>u. i \<in> set (us_groups u)) (listApproverUsers E ws s1))
          in case upsert_all changed (rest 1 s1) of
               (False, s2) \<Rightarrow> (Inl DirectoryPrincipalConflict, s2)
             | (True, s2) \<Rightarrow> (Inr g, snd (deleteApproverGroup ws i (rest 2 s2))))"

section \<open>Recipients and policies\<close>

definition enabled_groups :: "approver_group list \<Rightarrow> string list" where
  "enabled_groups groups = map gp_id (filter gp_enabled groups)"

definition is_recipient :: "policy_rule \<Rightarrow> string list \<Rightarrow> approver_user \<Rightarrow> bool" where
  "is_recipient rule enabledGroups u =
     (let users = coalesce (Option.bind (pr_approvers rule) ra_users) [];
          groups = coalesce (Option.bind (pr_approvers rule) ra_groups) []
      in if users = [] \<and> groups = [] then us_defaultApprover u
         else us_id u \<in> set users \<or> list_ex (\<lambda>g. g \<in> set groups \<and> g \<in> set enabledGroups) (us_groups u))"

definition resolveRecipients :: "env \<Rightarrow> policy_rule \<Rightarrow> string \<Rightarrow> store \<Rightarrow> recipient list" where
  "resolveRecipients E rule ws s =
     (let enabledUsers = filter us_enabled (listApproverUsers E ws s);
          enabledGroups = enabled_groups (listApproverGroups E ws s)
      in js_sort (\<lambda>l r. localeCompare E (rp_displayName l) (rp_displayName r))
           (map userToRecipient (filter (is_recipient rule enabledGroups) enabledUsers)))"

definition policyRules :: "policy_file \<Rightarrow> (string \<times> policy_rule) list" where
  "policyRules p = (''default'', pf_default p) # pf_tools p"

definition rule_references :: "string list \<Rightarrow> string list \<Rightarrow> string \<times> policy_rule \<Rightarrow> string option" where
  \<comment> \<open>the message for the first reference of a rule that is unknown or disabled\<close>
  "rule_references users groups pr =
     first_of
       (map (\<lambda>u. (u \<notin> set users, ''Policy rule '' @ fst pr @ '' references unknown or disabled approver user: '' @ u))
          (coalesce (Option.bind (pr_approvers (snd pr)) ra_users) [])
        @ map (\<lambda>g. (g \<notin> set groups, ''Policy rule '' @ fst pr @ '' references unknown or disabled approver group: '' @ g))
          (coalesce (Option.bind (pr_approvers (snd pr)) ra_groups) []))"

definition validatePolicy :: "env \<Rightarrow> policy_file \<Rightarrow> string \<Rightarrow> store \<Rightarrow> directory_error option" where
  "validatePolicy E policy ws s =
     (let users = map us_id (filter us_enabled (listApproverUsers E ws s));
          groups = enabled_groups (listApproverGroups E ws s)
      in map_option PolicyReference
           (Option.bind (List.find (\<lambda>pr. rule_references users groups pr \<noteq> None) (policyRules policy))
              (rule_references users groups)))"

definition findEnabledUserBySlackUserId :: "env \<Rightarrow> string \<Rightarrow> string \<Rightarrow> store \<Rightarrow> approver_user option" where
  "findEnabledUserBySlackUserId E ws i s =
     List.find (\<lambda>u. us_enabled u \<and> us_slackUserId u = Some i) (listApproverUsers E ws s)"

definition findEnabledUserByTelegramUserId :: "env \<Rightarrow> string \<Rightarrow> string \<Rightarrow> store \<Rightarrow> approver_user option" where
  "findEnabledUserByTelegramUserId E ws i s =
     List.find (\<lambda>u. us_enabled u \<and> us_telegramUserId u = Some i) (listApproverUsers E ws s)"

definition findEnabledUserByTelegramUsername :: "env \<Rightarrow> string \<Rightarrow> string \<Rightarrow> store \<Rightarrow> approver_user option" where
  "findEnabledUserByTelegramUsername E ws name s =
     (case normalizeTelegramUsername (Some name) of
        None \<Rightarrow> None
      | Some n \<Rightarrow> List.find (\<lambda>u. us_enabled u \<and> normalizeTelegramUsername (us_telegramUsername u) = Some n)
                   (listApproverUsers E ws s))"

definition channel_auth :: "string \<Rightarrow> approver_user \<Rightarrow> auth_context" where
  \<comment> \<open>\<open>slackAuthContext\<close> and \<open>telegramAuthContext\<close> with the provider's name\<close>
  "channel_auth provider u =
     \<lparr>au_principalId = authorizationPrincipalId u, au_principalType = provider, au_displayName = us_displayName u,
      au_email = us_email u, au_groups = us_groups u,
      au_scopes = [''approval:read'', ''approval:approve'', ''approval:reject''], au_authProvider = provider,
      au_clientId = None, au_workspaceId = us_workspaceId u\<rparr>"

definition slackAuthContext :: "approver_user \<Rightarrow> auth_context" where "slackAuthContext = channel_auth ''slack''"
definition telegramAuthContext :: "approver_user \<Rightarrow> auth_context" where "telegramAuthContext = channel_auth ''telegram''"

end
