(* ===== verification/PolicyTrace.thy ===== *)
theory PolicyTrace
  imports Decision ActionEnvelope ApproverDirectory
begin

text \<open>
  From requests and tool calls to policy contexts and decision traces (\<open>policy/policy-trace.ts\<close>). A canonical tool call
  is evaluated again from the policy context frozen when it was submitted, which is checked first. A trace is a JSON
  value, as the tool call stores it.
\<close>

section \<open>Contexts\<close>

definition stringMetadata :: "json \<Rightarrow> string option" where "stringMetadata v = stringContext v"
definition numberMetadata :: "json \<Rightarrow> jsnum option" where "numberMetadata v = numberContext v"
definition booleanMetadata :: "json \<Rightarrow> bool option" where "booleanMetadata v = booleanContext v"

definition policyContextFromSubmit :: "submit_request \<Rightarrow> policy_context" where
  "policyContextFromSubmit request =
     (let metadata = request_metadata request; input = sr_input request
      in \<lparr>cx_amount = or_else (or_else (numberMetadata (jget metadata ''amount'')) (numberMetadata (jget input ''amount'')))
            (numberMetadata (jget input ''amountCents'')),
          cx_approverGroup = stringMetadata (jget metadata ''approverGroup''),
          cx_currency = stringMetadata (jcoalesce (jget metadata ''currency'') (jget input ''currency'')),
          cx_customerVisible = booleanMetadata (jget metadata ''customerVisible''),
          cx_input = input, cx_metadata = metadata,
          cx_operationKind = or_else (jstring (hint (sr_action request) ah_operation ''kind''))
            (stringMetadata (jget metadata ''operationKind'')),
          cx_recipientDomain = stringMetadata (jget metadata ''recipientDomain''),
          cx_risk = or_else (jstring (hint (sr_action request) ah_context ''risk'')) (stringMetadata (jget metadata ''riskKind''))\<rparr>)"

definition canonicalValue :: "json \<Rightarrow> json" where
  "canonicalValue field = (if jget field ''present'' = JBool True then jget field ''value'' else JUndef)"

definition policyContextFromCanonicalFields :: "json \<Rightarrow> json \<Rightarrow> policy_context" where
  "policyContextFromCanonicalFields context input =
     \<lparr>cx_amount = numberMetadata (canonicalValue (jget context ''amount'')),
      cx_approverGroup = stringMetadata (canonicalValue (jget context ''approverGroup'')),
      cx_currency = stringMetadata (canonicalValue (jget context ''currency'')),
      cx_customerVisible = booleanMetadata (canonicalValue (jget context ''customerVisible'')),
      cx_input = input, cx_metadata = JUndef,
      cx_operationKind = stringMetadata (canonicalValue (jget context ''operationKind'')),
      cx_recipientDomain = stringMetadata (canonicalValue (jget context ''recipientDomain'')),
      cx_risk = stringMetadata (canonicalValue (jget context ''risk''))\<rparr>"

definition policyContextFromCanonicalActionRequest :: "canonical_request \<Rightarrow> policy_context" where
  "policyContextFromCanonicalActionRequest r =
     policyContextFromCanonicalFields (encode_policy (cr_policy r)) (coalesce (sf_value (cr_arguments r)) (JObj []))"

section \<open>The frozen context\<close>

definition canonicalPolicyFields :: "string list" where
  "canonicalPolicyFields = [''amount'', ''approverGroup'', ''currency'', ''customerVisible'', ''operationKind'',
     ''recipientDomain'', ''risk'']"

definition defined_keys :: "json \<Rightarrow> string list" where
  \<comment> \<open>the keys of an object, of the members that are defined\<close>
  "defined_keys v = map fst (filter (\<lambda>(_, x). x \<noteq> JUndef) (jmembers v))"

definition known_trust :: "json \<Rightarrow> bool" where
  "known_trust v = (js_String v \<in> {''asserted'', ''derived'', ''externally_verified'', ''trusted''})"

definition isCanonicalPolicyField :: "json \<Rightarrow> bool" where
  "isCanonicalPolicyField v =
     (let provenance = jget v ''provenance''
      in isJsonObject v \<and> jget v ''present'' \<in> {JBool True, JBool False} \<and> isJsonObject provenance
         \<and> isNonBlank (jget provenance ''source'') \<and> known_trust (jget provenance ''trust'')
         \<and> (jget v ''present'' = JBool True \<longleftrightarrow> jget v ''value'' \<noteq> JUndef)
         \<and> (case canonicalJsonStringify v of Inl _ \<Rightarrow> False | Inr _ \<Rightarrow> True))"

definition isCanonicalPolicyContext :: "json \<Rightarrow> bool" where
  "isCanonicalPolicyContext v =
     (isJsonObject v \<and> js_sort codeUnitCompare (defined_keys v) = canonicalPolicyFields
      \<and> list_all (\<lambda>k. isCanonicalPolicyField (jget v k)) canonicalPolicyFields)"

definition operation_kinds :: "string list" where
  "operation_kinds = [''custom'', ''delete'', ''external_send'', ''financial'', ''read'', ''write'']"

definition trusted_frozen :: "json \<Rightarrow> json \<Rightarrow> string \<Rightarrow> bool" where
  \<comment> \<open>the field is present, trusted and from the contract of the prepared action\<close>
  "trusted_frozen context source k =
     (let field = jget context k
      in jget field ''present'' = JBool True \<and> jget (jget field ''provenance'') ''trust'' = JStr ''trusted''
         \<and> jget (jget field ''provenance'') ''source'' = source)"

definition prepared_source :: "json \<Rightarrow> json" where
  "prepared_source binding = JStr (''action-contract:'' @ js_String (jget binding ''contractId'') @ ''@''
     @ js_String (jget binding ''contractVersion''))"

definition prepared_binding_failure :: "json \<Rightarrow> json \<Rightarrow> string option" where
  "prepared_binding_failure context binding =
     (let src = prepared_source binding
      in first_of
       [(\<not> trusted_frozen context src ''customerVisible'', ''Prepared action has no trusted frozen customerVisible policy binding.''),
        (\<not> trusted_frozen context src ''operationKind'', ''Prepared action has no trusted frozen operationKind policy binding.''),
        (\<not> trusted_frozen context src ''risk'', ''Prepared action has no trusted frozen risk policy binding.''),
        (jget (jget context ''customerVisible'') ''value'' \<notin> {JBool True, JBool False},
         ''Prepared action customerVisible policy binding is invalid.''),
        (jget (jget context ''operationKind'') ''value'' \<notin> JStr ` set operation_kinds,
         ''Prepared action operationKind policy binding is invalid.''),
        (\<not> isNonBlank (jget (jget context ''risk'') ''value''), ''Prepared action risk policy binding is invalid.'')])"

definition validatedFrozenCanonicalPolicyContext :: "env \<Rightarrow> tool_call \<Rightarrow> string + json" where
  "validatedFrozenCanonicalPolicyContext E t =
     (let context = tc_canonicalPolicyContext t; trace = tc_decisionTrace t;
          traced = jget trace ''canonicalPolicyContext''; binding = jget (tc_actionEnvelope t) ''preparedAction''
      in if \<not> isCanonicalPolicyContext context then Inl ''Canonical tool call has no valid frozen policy context.''
         else if jtruthy trace \<and> \<not> isCanonicalPolicyContext traced
         then Inl ''Canonical decision trace has no valid frozen policy context.''
         else if jtruthy traced \<and> hashJson E traced \<noteq> hashJson E context
         then Inl ''Canonical policy context no longer matches its decision trace.''
         else if jtruthy binding
         then (case prepared_binding_failure context binding of Some m \<Rightarrow> Inl m | None \<Rightarrow> Inr context)
         else Inr context)"

definition legacy_context :: "tool_call \<Rightarrow> policy_context" where
  \<comment> \<open>of a tool call that has no canonical request\<close>
  "legacy_context t =
     (let metadata = jcoalesce (tc_metadata t) (JObj []); input = tc_input t; v = tc_actionEnvelope t
      in \<lparr>cx_amount = or_else (or_else (numberMetadata (jget metadata ''amount'')) (numberMetadata (jget input ''amount'')))
            (numberMetadata (jget input ''amountCents'')),
          cx_approverGroup = stringMetadata (jget metadata ''approverGroup''),
          cx_currency = stringMetadata (jcoalesce (jget metadata ''currency'') (jget input ''currency'')),
          cx_customerVisible = booleanMetadata (jget metadata ''customerVisible''),
          cx_input = input, cx_metadata = metadata,
          cx_operationKind = or_else (jstring (jget (jget v ''operation'') ''kind'')) (stringMetadata (jget metadata ''operationKind'')),
          cx_recipientDomain = stringMetadata (jget metadata ''recipientDomain''),
          cx_risk = or_else (jstring (jget (jget v ''context'') ''risk'')) (stringMetadata (jget metadata ''riskKind''))\<rparr>)"

definition policyContextFromToolCall :: "env \<Rightarrow> tool_call \<Rightarrow> string + policy_context" where
  "policyContextFromToolCall E t =
     (if tc_canonicalActionRequestVersion t = Some CANONICAL_ACTION_REQUEST_VERSION
      then map_result (\<lambda>c. policyContextFromCanonicalFields c (tc_input t)) (validatedFrozenCanonicalPolicyContext E t)
      else Inr (legacy_context t))"

section \<open>Traces\<close>

definition approverResolution :: "env \<Rightarrow> policy_rule \<Rightarrow> policy_decision \<Rightarrow> string \<Rightarrow> store option \<Rightarrow> json" where
  \<comment> \<open>the store is that of the approver directory, if one is installed\<close>
  "approverResolution E rule d ws directory =
     (let a = pr_approvers rule;
          groups = coalesce (Option.bind a ra_groups) []; users = coalesce (Option.bind a ra_users) [];
          base = [(''configuredGroups'', jstrings groups), (''configuredUsers'', jstrings users),
                  (''defaultApproversUsed'', JBool (groups = [] \<and> users = [])),
                  (''notificationChannels'', jstrings (coalesce (coalesce (pr_notifyChannels rule) None) [])),
                  (''requiredApprovals'', jint (coalesce (Option.bind a ra_requiredApprovals) 1)),
                  (''separationOfDuties'', JBool (coalesce (Option.bind a ra_separationOfDuties) False))]
      in if d \<noteq> RequireApproval then JObj (base @ [(''status'', JStr ''not_required'')])
         else (case directory of
             None \<Rightarrow> JObj (base @ [(''status'', JStr ''not_resolved'')])
           | Some s \<Rightarrow>
               let recipients = resolveRecipients E rule ws s
               in JObj (base @ [(''resolvedRecipientCount'', jint (int (length recipients))),
                    (''resolvedUserIds'', jstrings (map rp_userId recipients)),
                    (''status'', JStr (if recipients \<noteq> [] then ''resolved'' else ''resolved_empty''))])))"

definition encode_condition :: "condition_evaluation \<Rightarrow> json" where
  "encode_condition c = JObj [(''actual'', ce_actual c), (''expected'', ce_expected c), (''key'', JStr (ce_key c)),
     (''matched'', JBool (ce_matched c))]"

definition encode_rule_evaluation :: "rule_evaluation \<Rightarrow> json" where
  "encode_rule_evaluation r = JObj
     [(''conditions'', JArr (map encode_condition (re_conditions r))), (''conditionsMatched'', JBool (re_conditionsMatched r)),
      (''exists'', JBool (re_exists r)), (''matchType'', JStr (match_name (re_matchType r))),
      (''pattern'', JStr (re_pattern r)), (''prefixMatched'', jopt JBool (re_prefixMatched r)),
      (''selected'', JBool (re_selected r))]"

definition trace_members :: "evaluation_trace \<Rightarrow> (string \<times> json) list" where
  "trace_members t =
     [(''decision'', JStr (decision_name (et_decision t))),
      (''fallbackPath'', JArr (map (JStr \<circ> match_name) (et_fallbackPath t))),
      (''matchType'', JStr (match_name (et_matchType t))), (''matchedRule'', JStr (et_matchedRule t)),
      (''policyReason'', JStr (pe_reason (et_evaluation t))), (''policyRisk'', JStr (pe_risk (et_evaluation t))),
      (''ruleEvaluations'', JArr (map encode_rule_evaluation (et_ruleEvaluations t)))]"

datatype trace_error = TraceContext string | TraceNormalize normalize_error | TraceCanonical canonicalization_error

definition yaml_provider_for ::
  "env \<Rightarrow> policy_provider option \<Rightarrow> policy_file \<Rightarrow> string option \<Rightarrow> string option \<Rightarrow> policy_provider" where
  \<comment> \<open>\<open>input.policyProvider ?? createYamlPolicyProvider(...)\<close>\<close>
  "yaml_provider_for E provider policy hash versionId =
     (case provider of Some p \<Rightarrow> p | None \<Rightarrow> createYamlPolicyProvider E policy hash versionId)"

record trace_input =
  ti_directory :: "store option"
  ti_policy :: policy_file
  ti_policyVersionHash :: "string option"
  ti_policyVersionId :: "string option"
  ti_policyProvider :: "policy_provider option"
  ti_providerEvaluation :: "provider_evaluation option"

definition decision_of_tool_call :: "env \<Rightarrow> provider_evaluation \<Rightarrow> tool_call \<Rightarrow> canonicalization_error + json" where
  "decision_of_tool_call E e t =
     (if tc_canonicalActionRequestVersion t = Some CANONICAL_ACTION_REQUEST_VERSION \<and> truthy (tc_canonicalDecisionInputHash t)
      then buildActionProxyDecision E (tc_createdAt t) (the (tc_canonicalDecisionInputHash t)) e (tc_id t)
             (default_ws (tc_workspaceId t))
      else Inr JUndef)"

definition tracePolicyForToolCall :: "env \<Rightarrow> trace_input \<Rightarrow> tool_call \<Rightarrow> trace_error + json" where
  "tracePolicyForToolCall E i t =
     (case policyContextFromToolCall E t of
        Inl m \<Rightarrow> Inl (TraceContext m)
      | Inr cx \<Rightarrow>
          let hash = or_else (tc_policyVersionHash t) (ti_policyVersionHash i);
              versionId = or_else (tc_policyVersionId t) (ti_policyVersionId i);
              e = (case ti_providerEvaluation i of
                     Some e \<Rightarrow> e
                   | None \<Rightarrow> evaluatePolicyProvider (Some (yaml_provider_for E (ti_policyProvider i) (ti_policy i) hash versionId))
                       cx (tc_toolName t));
              trace = pv_trace e
          in case decision_of_tool_call E e t of
               Inl err \<Rightarrow> Inl (TraceCanonical err)
             | Inr decisionV1 \<Rightarrow> Inr (JObj
                 ([(''actionEnvelopeHash'', jopt JStr (tc_actionEnvelopeHash t)),
                   (''canonicalActionRequestHash'', jopt JStr (tc_canonicalActionRequestHash t)),
                   (''canonicalActionRequestVersion'', jopt JStr (tc_canonicalActionRequestVersion t)),
                   (''canonicalDecisionInputHash'', jopt JStr (tc_canonicalDecisionInputHash t)),
                   (''canonicalPolicyContext'', tc_canonicalPolicyContext t), (''decisionV1'', decisionV1),
                   (''approverResolution'', approverResolution E (pe_rule (et_evaluation trace)) (et_decision trace)
                      (default_ws (tc_workspaceId t)) (ti_directory i))]
                  @ trace_members trace
                  @ [(''inputHash'', jopt JStr (tc_inputHash t)), (''policyVersionHash'', jopt JStr hash),
                     (''policyVersionId'', jopt JStr versionId),
                     (''storedDecision'', jopt (JStr \<circ> decision_name) (tc_decision t)), (''toolCallId'', JStr (tc_id t)),
                     (''toolName'', JStr (tc_toolName t))])))"

section \<open>Simulation of a submission\<close>

definition effectiveContentInfluenceEvaluation :: "policy_evaluation \<Rightarrow> influence_evaluation \<Rightarrow> policy_evaluation" where
  "effectiveContentInfluenceEvaluation base influence =
     (if ie_effectiveDecision influence = pe_decision base then base
      else base\<lparr>pe_approval := ie_effectiveApproval influence, pe_decision := ie_effectiveDecision influence,
        pe_reason := pe_reason base @ '' Content observed in this verified influence scope requires a stricter decision.'',
        pe_rule := (pe_rule base)\<lparr>pr_approval := ie_effectiveApproval influence\<rparr>\<rparr>)"

definition providerEvaluationWithEvaluation :: "provider_evaluation \<Rightarrow> policy_evaluation \<Rightarrow> provider_evaluation" where
  "providerEvaluationWithEvaluation e ev =
     (if pe_decision (et_evaluation (pv_trace e)) = pe_decision ev then e
      else e\<lparr>pv_trace := (pv_trace e)\<lparr>et_decision := pe_decision ev, et_evaluation := ev\<rparr>\<rparr>)"

definition actorForSubmit :: "submit_request \<Rightarrow> auth_context option \<Rightarrow> string" where
  "actorForSubmit request auth =
     (case auth of None \<Rightarrow> sr_requestedBy request
      | Some a \<Rightarrow> if au_authProvider a = ''none'' then sr_requestedBy request else coalesce (au_email a) (au_principalId a))"

record submit_trace_input = trace_input +
  ti_auth :: "auth_context option"
  ti_request :: submit_request
  ti_workspaceId :: string
  ti_ingress :: "ingress option"
  ti_contentInfluence :: "influence_input option"

definition simulated_request :: "env \<Rightarrow> string \<Rightarrow> submit_trace_input
    \<Rightarrow> normalize_error + (canonical_request \<times> request_integrity) option" where
  \<comment> \<open>\<open>now\<close> is the clock when the request is normalized\<close>
  "simulated_request E now i =
     (case ti_ingress i of
        None \<Rightarrow> Inr None
      | Some g \<Rightarrow> map_result Some (normalizeActionRequest E
          \<lparr>ni_auth = ti_auth i, ni_idempotencyKey = None, ni_ingress = g, ni_receivedAt = now, ni_request = ti_request i,
           ni_requestId = ''policy_simulation'', ni_trustedCredentialReference = None, ni_trustedExecutionMode = None,
           ni_trustedOperation = None, ni_trustedPolicy = None, ni_trustedResources = None,
           ni_workspaceId = ti_workspaceId i\<rparr>))"

definition simulated_influence :: "submit_trace_input \<Rightarrow> provider_evaluation
    \<Rightarrow> (influence_guard \<times> influence_evaluation) option" where
  "simulated_influence i base =
     (case (ti_contentInfluence i, pr_influence (pe_rule (et_evaluation (pv_trace base)))) of
        (Some c, Some g) \<Rightarrow> Some (g, evaluateContentInfluence (et_evaluation (pv_trace base)) c)
      | _ \<Rightarrow> None)"

definition simulated_evidence :: "env \<Rightarrow> string \<Rightarrow> string \<Rightarrow> submit_trace_input \<Rightarrow> provider_evaluation
    \<Rightarrow> (influence_guard \<times> influence_evaluation) option \<Rightarrow> canonicalization_error + json" where
  \<comment> \<open>\<open>at\<close> is the time of the evaluation\<close>
  "simulated_evidence E at fallback i e influence =
     (case influence of
        None \<Rightarrow> Inr JUndef
      | Some (g, ev) \<Rightarrow> map_result encode_influence (buildContentInfluenceEvidence E
          \<lparr>bi_evaluatedAt = at, bi_evaluation = ev, bi_exposureLookup = None, bi_influenceScopeId = None,
           bi_policyVersionHash = coalesce (or_else (ti_policyVersionHash i) (pd_policyDigest (pv_descriptor e))) fallback,
           bi_policyVersionId = ti_policyVersionId i, bi_selectedRule = g\<rparr>))"

definition simulated_decision :: "env \<Rightarrow> provider_evaluation \<Rightarrow> (canonical_request \<times> request_integrity) option
    \<Rightarrow> canonicalization_error + json" where
  "simulated_decision E e canonical =
     (case canonical of
        None \<Rightarrow> Inr JUndef
      | Some (r, h) \<Rightarrow> buildActionProxyDecision E (the (sf_value (cr_receivedAt r))) (in_decisionInputHash h) e
          (the (sf_value (cr_requestId r))) (the (sf_value (cr_tenant r))))"

definition tracePolicyForSubmit :: "env \<Rightarrow> string \<Rightarrow> submit_trace_input \<Rightarrow> trace_error + json" where
  "tracePolicyForSubmit E now i =
     (let request = ti_request i;
          envelope = normalizeActionEnvelope E (actorForSubmit request (ti_auth i)) (ti_auth i) request
      in case simulated_request E now i of
           Inl err \<Rightarrow> Inl (TraceNormalize err)
         | Inr canonical \<Rightarrow>
             let cx = (case canonical of Some (r, _) \<Rightarrow> policyContextFromCanonicalActionRequest r
                       | None \<Rightarrow> policyContextFromSubmit request);
                 base = (case ti_providerEvaluation i of
                     Some e \<Rightarrow> e
                   | None \<Rightarrow> evaluatePolicyProvider (Some (yaml_provider_for E (ti_policyProvider i) (ti_policy i)
                       (ti_policyVersionHash i) (ti_policyVersionId i))) cx (sr_toolName request));
                 influence = simulated_influence i base;
                 effective = (case influence of
                     None \<Rightarrow> et_evaluation (pv_trace base)
                   | Some (_, ev) \<Rightarrow> effectiveContentInfluenceEvaluation (et_evaluation (pv_trace base)) ev);
                 e = providerEvaluationWithEvaluation base effective; trace = pv_trace e;
                 at = (case canonical of Some (r, _) \<Rightarrow> coalesce (sf_value (cr_receivedAt r)) now | None \<Rightarrow> now)
             in case (simulated_evidence E at (hashJson E (encode_policy_file (ti_policy i))) i e influence,
                      simulated_decision E e canonical) of
                  (Inl err, _) \<Rightarrow> Inl (TraceCanonical err)
                | (Inr _, Inl err) \<Rightarrow> Inl (TraceCanonical err)
                | (Inr contentInfluence, Inr decisionV1) \<Rightarrow> Inr (JObj
                    ([(''actionEnvelopeHash'', jget envelope ''envelopeHash''),
                      (''canonicalActionRequestHash'', jopt (JStr \<circ> in_requestHash \<circ> snd) canonical),
                      (''canonicalActionRequestVersion'', jopt (\<lambda>_. JStr CANONICAL_ACTION_REQUEST_VERSION) canonical),
                      (''canonicalDecisionInputHash'', jopt (JStr \<circ> in_decisionInputHash \<circ> snd) canonical),
                      (''canonicalPolicyContext'', jopt (encode_policy \<circ> cr_policy \<circ> fst) canonical),
                      (''canonicalRequestEvidence'', jopt (canonicalActionRequestEvidence \<circ> fst) canonical),
                      (''contentInfluence'', contentInfluence), (''decisionV1'', decisionV1),
                      (''approverResolution'', approverResolution E (pe_rule (et_evaluation trace)) (et_decision trace)
                         (ti_workspaceId i) (ti_directory i))]
                     @ trace_members trace
                     @ [(''inputHash'', jget envelope ''inputHash''),
                        (''policyVersionHash'', jopt JStr (ti_policyVersionHash i)),
                        (''policyVersionId'', jopt JStr (ti_policyVersionId i)), (''toolName'', JStr (sr_toolName request))])))"

end
