(* ===== verification/PolicyTraceFacts.thy ===== *)
theory PolicyTraceFacts
  imports PolicyTrace DecisionFacts ActionRequestFacts
begin

text \<open>
  The context a stored canonical tool call is evaluated in again is the one it was decided in.
\<close>

section \<open>The frozen context of a request\<close>

definition honest_field :: "('a \<Rightarrow> json) \<Rightarrow> 'a sourced_field \<Rightarrow> bool" where
  \<comment> \<open>present exactly with a value, with a named source, and printable\<close>
  "honest_field f x =
     ((sf_present x \<longleftrightarrow> sf_value x \<noteq> None) \<and> js_trim (pv_source (sf_provenance x)) \<noteq> []
      \<and> (\<forall>v. f v \<noteq> JUndef) \<and> clean (encode_sourced f x))"

lemma honest_field_valid: "honest_field f x \<Longrightarrow> isCanonicalPolicyField (encode_sourced f x)"
  by (cases "sf_value x"; cases "pv_trust (sf_provenance x)")
     (auto simp: honest_field_def isCanonicalPolicyField_def encode_sourced_def Let_def known_trust_def trust_name_def
       canonicalJsonStringify_clean)

lemma honest_absent: "js_trim s \<noteq> [] \<Longrightarrow> (\<And>v. f v \<noteq> JUndef) \<Longrightarrow> honest_field f (absent t s)"
  by (simp add: honest_field_def absent_def encode_sourced_def)

lemma honest_sourced: "js_trim s \<noteq> [] \<Longrightarrow> (\<And>v. f v \<noteq> JUndef) \<Longrightarrow> clean (f x) \<Longrightarrow> honest_field f (sourced x t s)"
  by (simp add: honest_field_def sourced_def encode_sourced_def)

lemma honest_or_absent:
  "js_trim s \<noteq> [] \<Longrightarrow> (\<And>v. f v \<noteq> JUndef) \<Longrightarrow> (\<And>v. x = Some v \<Longrightarrow> clean (f v)) \<Longrightarrow> honest_field f (or_absent x t s)"
  by (cases x) (simp_all add: or_absent_def honest_absent honest_sourced)

definition trusted_source_named :: "normalize_input \<Rightarrow> bool" where
  "trusted_source_named i = (case ni_trustedPolicy i of None \<Rightarrow> True | Some p \<Rightarrow> js_trim (tp_source p) \<noteq> [])"

lemma derived_fields:
  fixes input auth
  defines "c \<equiv> deriveCanonicalPolicyContext input auth"
  shows "honest_field JNum (cp_amount c)" "honest_field JStr (cp_approverGroup c)" "honest_field JStr (cp_currency c)"
    "honest_field JBool (cp_customerVisible c)" "honest_field JStr (cp_operationKind c)"
    "honest_field JStr (cp_recipientDomain c)" "honest_field JStr (cp_risk c)"
proof -
  have "num_isFinite n" if "or_else (finiteNumber v) (finiteNumber u) = Some n" for v u n
    using that by (cases "finiteNumber v") (auto simp: or_else_def finiteNumber_def split: json.splits if_splits)
  then show "honest_field JNum (cp_amount c)"
    by (auto simp: c_def deriveCanonicalPolicyContext_def js_trim_def is_ws_def intro!: honest_or_absent)
  show "honest_field JStr (cp_approverGroup c)"
    by (auto simp: c_def deriveCanonicalPolicyContext_def js_trim_def is_ws_def intro!: honest_absent)
  show "honest_field JStr (cp_currency c)" "honest_field JStr (cp_recipientDomain c)"
    by (auto simp: c_def deriveCanonicalPolicyContext_def js_trim_def is_ws_def intro!: honest_or_absent)
  show "honest_field JBool (cp_customerVisible c)" "honest_field JStr (cp_operationKind c)" "honest_field JStr (cp_risk c)"
    by (simp_all add: c_def deriveCanonicalPolicyContext_def js_trim_def is_ws_def honest_absent)
qed

lemma policy_fields_honest:
  fixes i
  defines "c \<equiv> policy_fields i"
  assumes "trusted_source_named i"
  shows "honest_field JNum (cp_amount c)" "honest_field JStr (cp_approverGroup c)" "honest_field JStr (cp_currency c)"
    "honest_field JBool (cp_customerVisible c)" "honest_field JStr (cp_operationKind c)"
    "honest_field JStr (cp_recipientDomain c)" "honest_field JStr (cp_risk c)"
  using assms(2) derived_fields [of "sr_input (ni_request i)" "ni_auth i"]
  by (auto simp: c_def policy_fields_def Let_def trusted_source_named_def honest_sourced split: option.splits)

lemma canonical_keys_sorted: "js_sort codeUnitCompare canonicalPolicyFields = canonicalPolicyFields"
  by code_simp

lemma encoded_policy_valid:
  assumes "honest_field JNum (cp_amount c)" "honest_field JStr (cp_approverGroup c)" "honest_field JStr (cp_currency c)"
    "honest_field JBool (cp_customerVisible c)" "honest_field JStr (cp_operationKind c)"
    "honest_field JStr (cp_recipientDomain c)" "honest_field JStr (cp_risk c)"
  shows "isCanonicalPolicyContext (encode_policy c)"
proof -
  have keys: "defined_keys (encode_policy c) = canonicalPolicyFields"
    by (simp add: defined_keys_def jmembers_def encode_policy_def canonicalPolicyFields_def encode_sourced_def)
  note fields = assms [THEN honest_field_valid]
  show ?thesis unfolding isCanonicalPolicyContext_def keys canonical_keys_sorted
    by (simp add: canonicalPolicyFields_def encode_policy_def fields)
qed

definition prepared_as :: "trusted_policy option \<Rightarrow> json \<Rightarrow> bool" where
  \<comment> \<open>what the contract of a prepared action supplied for the policy\<close>
  "prepared_as p binding =
     (case p of None \<Rightarrow> False
      | Some p \<Rightarrow> JStr (tp_source p) = prepared_source binding \<and> tp_operationKind p \<in> set operation_kinds
          \<and> js_trim (tp_risk p) \<noteq> [])"

lemma prepared_binding_ok:
  assumes "prepared_as (ni_trustedPolicy i) binding"
  shows "prepared_binding_failure (encode_policy (policy_fields i)) binding = None"
  using assms by (auto simp: prepared_as_def prepared_binding_failure_def Let_def trusted_frozen_def policy_fields_def
      encode_policy_def encode_sourced_def sourced_def trust_name_def first_of_None split: option.splits)

definition stored_from :: "normalize_input \<Rightarrow> canonical_request \<Rightarrow> tool_call \<Rightarrow> bool" where
  \<comment> \<open>the tool call stores the request: its version, its frozen policy context, in the trace too, and its arguments\<close>
  "stored_from i r t =
     (tc_canonicalActionRequestVersion t = Some CANONICAL_ACTION_REQUEST_VERSION
      \<and> tc_canonicalPolicyContext t = encode_policy (cr_policy r)
      \<and> jget (tc_decisionTrace t) ''canonicalPolicyContext'' = encode_policy (cr_policy r)
      \<and> tc_input t = sr_input (ni_request i)
      \<and> (jtruthy (jget (tc_actionEnvelope t) ''preparedAction'')
          \<longrightarrow> prepared_as (ni_trustedPolicy i) (jget (tc_actionEnvelope t) ''preparedAction'')))"

lemma canonical_base_policy [simp]:
  "cr_policy (canonical_base i) = policy_fields i" "sf_value (cr_arguments (canonical_base i)) = Some (sr_input (ni_request i))"
  by (simp_all add: canonical_base_def Let_def sourced_def)

text \<open>C37: a tool call stored from a canonical request is evaluated again in exactly the policy context it was decided
  in: reading the frozen context back never fails and gives the context of the request.\<close>

theorem frozen_context_roundtrip:
  assumes "normalizeActionRequest E i = Inr (r, h)" "trusted_source_named i" "stored_from i r t"
  shows "policyContextFromToolCall E t = Inr (policyContextFromCanonicalActionRequest r)"
proof -
  have r: "r = canonical_base i" using assms(1) by (rule normalize_Inr)
  have ok: "isCanonicalPolicyContext (encode_policy (policy_fields i))"
    using policy_fields_honest [OF assms(2)] by (intro encoded_policy_valid)
  have "validatedFrozenCanonicalPolicyContext E t = Inr (encode_policy (policy_fields i))"
    using assms(3) ok prepared_binding_ok
    by (simp add: validatedFrozenCanonicalPolicyContext_def stored_from_def r Let_def)
  then show ?thesis using assms(3)
    by (simp add: policyContextFromToolCall_def stored_from_def r map_result_def policyContextFromCanonicalActionRequest_def)
qed

definition refund_call :: tool_call where
  "refund_call = sample_tool_call\<lparr>tc_canonicalActionRequestVersion := Some CANONICAL_ACTION_REQUEST_VERSION,
     tc_canonicalPolicyContext := encode_policy (policy_fields first_refund),
     tc_decisionTrace := JObj [(''canonicalPolicyContext'', encode_policy (policy_fields first_refund))],
     tc_input := sr_input (ni_request first_refund)\<rparr>"

theorem frozen_context_roundtrip_witness:
  "policyContextFromToolCall text_env refund_call
     = Inr (policyContextFromCanonicalActionRequest (canonical_base first_refund))"
proof -
  obtain h where "normalizeActionRequest text_env first_refund = Inr (canonical_base first_refund, h)"
    using normalize_succeeds sample_refunds by blast
  moreover have "trusted_source_named first_refund"
    by (simp add: trusted_source_named_def first_refund_def sample_input_def)
  moreover have "stored_from first_refund (canonical_base first_refund) refund_call"
    by (simp add: stored_from_def refund_call_def sample_tool_call_def jget_def jtruthy_def)
  ultimately show ?thesis by (rule frozen_context_roundtrip)
qed

end
