(* ===== verification/ApproverDirectoryFacts.thy ===== *)
theory ApproverDirectoryFacts
  imports ApproverDirectory
begin

text \<open>
  The identifiers the directory generates, the identities its users may have, and who is asked for an approval.
\<close>

section \<open>Generated identifiers\<close>

definition suffixed :: "string \<Rightarrow> nat \<Rightarrow> string" where
  "suffixed base n = base @ ''_'' @ nat_digits n"

definition suffix_limit :: nat where
  "suffix_limit = 10000"

definition id_candidates :: "string \<Rightarrow> string list" where
  \<comment> \<open>the identifiers the loop tests, in order\<close>
  "id_candidates base = base # map (suffixed base) [2..<suffix_limit]"

lemma next_directory_id_step:
  "next_directory_id existing base candidate suffix =
     (if suffix_limit < suffix then None else if candidate \<notin> set existing then Some candidate
      else next_directory_id existing base (suffixed base suffix) (Suc suffix))"
  by (subst next_directory_id.simps) (simp add: suffix_limit_def suffixed_def)

lemma next_directory_id_find:
  assumes "suffix \<le> suffix_limit"
  shows "next_directory_id existing base candidate suffix
    = List.find (\<lambda>i. i \<notin> set existing) (candidate # map (suffixed base) [suffix..<suffix_limit])"
  using assms
proof (induction "suffix_limit - suffix" arbitrary: candidate suffix)
  case 0
  then have "suffix = suffix_limit" by simp
  then show ?case by (subst next_directory_id_step, subst next_directory_id_step) simp
next
  case (Suc n)
  then have "suffix < suffix_limit" by simp
  then have "[suffix..<suffix_limit] = suffix # [Suc suffix..<suffix_limit]" by (simp add: upt_conv_Cons)
  moreover have "next_directory_id existing base (suffixed base suffix) (Suc suffix)
      = List.find (\<lambda>i. i \<notin> set existing) (suffixed base suffix # map (suffixed base) [Suc suffix..<suffix_limit])"
    using Suc.hyps(2) \<open>suffix < suffix_limit\<close> by (intro Suc.hyps(1)) simp_all
  ultimately show ?case using \<open>suffix < suffix_limit\<close> by (subst next_directory_id_step) simp
qed

lemma next_id_candidates:
  "next_directory_id existing base base 2 = List.find (\<lambda>i. i \<notin> set existing) (id_candidates base)"
  unfolding id_candidates_def by (rule next_directory_id_find) (simp add: suffix_limit_def)

lemma suffixed_inj: "suffixed base m = suffixed base n \<longleftrightarrow> m = n"
  using nat_digits_inj by (auto simp: suffixed_def)

lemma id_candidates_distinct: "distinct (id_candidates base)" "length (id_candidates base) = 9999"
proof -
  have "base \<noteq> suffixed base n" for n by (simp add: suffixed_def)
  then show "distinct (id_candidates base)"
    by (auto simp: id_candidates_def distinct_map inj_on_def suffixed_inj)
  have "length (id_candidates base) = Suc (suffix_limit - 2)" by (simp add: id_candidates_def)
  then show "length (id_candidates base) = 9999" by (simp add: suffix_limit_def)
qed

lemma directory_ids_length: "length (directory_ids users groups) = 2 * length users + length groups"
  by (induction users) (simp_all add: directory_ids_def)

text \<open>C40: a generated identifier is new to the workspace, it is the first free one of \<open>base\<close>, \<open>base_2\<close>, ...,
  \<open>base_9999\<close>, and the search fails only when all of these are taken, so never in a directory whose users and groups
  have fewer than 9999 identifiers.\<close>

theorem generated_id_is_fresh:
  "let existing = directory_ids (listApproverUsers E ws s) (listApproverGroups E ws s);
       base = prefix @ ''_'' @ slugForId displayName fallback
   in case nextGeneratedDirectoryId E ws prefix displayName fallback s of
        Inr i \<Rightarrow> i \<notin> set existing \<and> (\<exists>pre post. id_candidates base = pre @ i # post \<and> set pre \<subseteq> set existing)
      | Inl e \<Rightarrow> set (id_candidates base) \<subseteq> set existing
          \<and> 9999 \<le> 2 * length (listApproverUsers E ws s) + length (listApproverGroups E ws s)"
proof -
  let ?users = "listApproverUsers E ws s" and ?groups = "listApproverGroups E ws s"
  let ?base = "prefix @ ''_'' @ slugForId displayName fallback"
  show ?thesis
  proof (cases "next_directory_id (directory_ids ?users ?groups) ?base ?base 2")
    case None
    then have all: "set (id_candidates ?base) \<subseteq> set (directory_ids ?users ?groups)"
      by (auto simp: next_id_candidates find_None_iff)
    then have "card (set (id_candidates ?base)) \<le> card (set (directory_ids ?users ?groups))"
      by (intro card_mono) simp_all
    also have "\<dots> \<le> 2 * length ?users + length ?groups"
      using card_length [of "directory_ids ?users ?groups"] by (simp add: directory_ids_length)
    finally have "9999 \<le> 2 * length ?users + length ?groups"
      using id_candidates_distinct [of ?base] by (simp add: distinct_card)
    with None all show ?thesis by (simp add: nextGeneratedDirectoryId_def Let_def)
  next
    case (Some i)
    then obtain n where n: "n < length (id_candidates ?base)" "id_candidates ?base ! n = i"
        "i \<notin> set (directory_ids ?users ?groups)" "\<forall>j < n. id_candidates ?base ! j \<in> set (directory_ids ?users ?groups)"
      by (auto simp: next_id_candidates find_Some_iff)
    then have "id_candidates ?base = take n (id_candidates ?base) @ i # drop (Suc n) (id_candidates ?base)"
      by (metis id_take_nth_drop)
    moreover have "set (take n (id_candidates ?base)) \<subseteq> set (directory_ids ?users ?groups)"
      using n by (auto simp: in_set_conv_nth)
    ultimately show ?thesis using Some n(3) by (auto simp: nextGeneratedDirectoryId_def Let_def)
  qed
qed

section \<open>Who is asked\<close>

lemma set_by_display_name [simp]: "set (by_display_name E name xs) = set xs"
  by (simp add: by_display_name_def)

lemma set_listApproverUsers:
  "set (listApproverUsers E ws s) = {u \<in> set (jm_values (st_approverUsers s)). us_workspaceId u = ws}"
  by (auto simp: listApproverUsers_def)

lemma set_listApproverGroups:
  "set (listApproverGroups E ws s) = {g \<in> set (jm_values (st_approverGroups s)). gp_workspaceId g = ws}"
  by (auto simp: listApproverGroups_def)

lemma set_resolveRecipients:
  "set (resolveRecipients E rule ws s)
     = userToRecipient ` {u \<in> set (listApproverUsers E ws s). us_enabled u
         \<and> is_recipient rule (enabled_groups (listApproverGroups E ws s)) u}"
  by (auto simp: resolveRecipients_def Let_def)

lemma bind_find_None: "Option.bind (List.find (\<lambda>x. f x \<noteq> None) xs) f = None \<longleftrightarrow> (\<forall>x \<in> set xs. f x = None)"
  by (induction xs) auto

lemma validatePolicy_None:
  "validatePolicy E policy ws s = None \<longleftrightarrow>
     (\<forall>pr \<in> set (policyRules policy). rule_references (map us_id (filter us_enabled (listApproverUsers E ws s)))
        (enabled_groups (listApproverGroups E ws s)) pr = None)"
  by (simp only: validatePolicy_def Let_def option.map_disc_iff bind_find_None)

lemma first_of_two:
  "first_of (map (\<lambda>x. (P x, l x)) xs @ map (\<lambda>y. (Q y, m y)) ys) = None \<longleftrightarrow> list_all (\<lambda>x. \<not> P x) xs \<and> list_all (\<lambda>y. \<not> Q y) ys"
  by (simp add: first_of_None list.pred_map comp_def)

lemma references_None:
  assumes "rule_references users groups (p, rule) = None"
  shows "set (coalesce (Option.bind (pr_approvers rule) ra_users) []) \<subseteq> set users"
    "set (coalesce (Option.bind (pr_approvers rule) ra_groups) []) \<subseteq> set groups"
  using assms unfolding rule_references_def first_of_two snd_conv by (auto simp: list_all_iff)


definition ops_user :: approver_user where
  "ops_user = (sample_user ''alice'' None)\<lparr>us_groups := [''ops'']\<rparr>"

definition directory_store :: store where
  "directory_store = snd (upsertApproverUser ops_user empty_store)"

definition alice_rule :: policy_rule where
  "alice_rule = prototype_rule\<lparr>pr_approval := Required, pr_approvers := Some \<lparr>ra_groups = None, ra_users = Some [''alice''],
     ra_requiredApprovals = None, ra_separationOfDuties = None\<rparr>\<rparr>"

definition alice_policy :: policy_file where
  "alice_policy = \<lparr>pf_version = Dec 1 0, pf_default = alice_rule, pf_tools = []\<rparr>"


end
