(* ===== verification/Redaction.thy ===== *)
theory Redaction
  imports Policy
begin

text \<open>
  \<open>security/redaction.ts\<close>: what is shown of inputs, results and receipts. Members with a sensitive key and members at a
  listed path are replaced; the paths of items of an array have the index as a component. The copy is built by assignment,
  so a member \<open>__proto__\<close> sets the prototype of the copy and is no member of it.
\<close>

section \<open>The code\<close>

definition DEFAULT_SENSITIVE_KEYS :: "string list" where
  "DEFAULT_SENSITIVE_KEYS =
     [''accesstoken'', ''apikey'', ''apitoken'', ''authorization'', ''bottoken'', ''clientsecret'', ''credential'',
      ''credentials'', ''password'', ''privatekey'', ''refreshtoken'', ''secret'', ''sessiontoken'', ''signingsecret'',
      ''token'', ''webhooksecret'']"

definition TOOL_CALL_RESULT_AUTHORIZATION_PATHS :: "string list" where
  "TOOL_CALL_RESULT_AUTHORIZATION_PATHS = [''grant.nonce'', ''grant.signature'', ''receipt.signature'']"

record redaction_options =
  rd_fields :: "string list option"
  rd_replacement :: "string option"

definition redactionOptionsFromPolicy :: "policy_file \<Rightarrow> redaction_options" where
  "redactionOptionsFromPolicy policy =
     \<lparr>rd_fields = Some (remdups (concat (map
        (\<lambda>rule. coalesce (Option.bind (pr_redaction rule) rr_fields) []) (pf_default policy # map snd (pf_tools policy))))),
      rd_replacement = Some ''[REDACTED]''\<rparr>"

definition pathSet :: "string list \<Rightarrow> string list" where
  "pathSet paths = filter (\<lambda>f. f \<noteq> []) (map js_trim paths)"

definition normalized_key :: "string \<Rightarrow> string" where
  \<comment> \<open>\<open>key.replaceAll(/[-_\s]/g, '').toLowerCase()\<close>\<close>
  "normalized_key key = toLowerCase (filter (\<lambda>c. c \<noteq> CHR ''-'' \<and> c \<noteq> CHR ''_'' \<and> \<not> is_ws c) key)"

definition shouldRedact :: "string list \<Rightarrow> string list \<Rightarrow> string \<Rightarrow> bool" where
  \<comment> \<open>\<open>path\<close> is that of the member, it ends in \<open>key\<close>\<close>
  "shouldRedact redactedPaths path key =
     (normalized_key key \<in> set DEFAULT_SENSITIVE_KEYS \<or> toLowerCase key \<in> set DEFAULT_SENSITIVE_KEYS
      \<or> join_with ''.'' path \<in> set redactedPaths)"

fun redactValue :: "string list \<Rightarrow> string \<Rightarrow> string list \<Rightarrow> json \<Rightarrow> json"
  and redact_items :: "string list \<Rightarrow> string \<Rightarrow> string list \<Rightarrow> nat \<Rightarrow> json list \<Rightarrow> json list"
  and redact_members :: "string list \<Rightarrow> string \<Rightarrow> string list \<Rightarrow> (string \<times> json) list \<Rightarrow> (string \<times> json) list" where
  "redactValue ps r path (JArr vs) = JArr (redact_items ps r path 0 vs)"
| "redactValue ps r path (JObj kvs) = JObj (redact_members ps r path kvs)"
| "redactValue ps r path v = v"
| "redact_items ps r path n [] = []"
| "redact_items ps r path n (v # vs) = redactValue ps r (path @ [nat_digits n]) v # redact_items ps r path (n + 1) vs"
| "redact_members ps r path [] = []"
| "redact_members ps r path ((k, v) # kvs) =
     (if k = ''__proto__'' then redact_members ps r path kvs
      else (k, if shouldRedact ps (path @ [k]) k then JStr r else redactValue ps r (path @ [k]) v) # redact_members ps r path kvs)"

definition redactJsonObjectAtPath :: "json \<Rightarrow> string \<Rightarrow> redaction_options \<Rightarrow> json" where
  "redactJsonObjectAtPath v rootPath o' =
     redactValue (pathSet (coalesce (rd_fields o') [])) (coalesce (rd_replacement o') ''[REDACTED]'')
       (filter (\<lambda>p. p \<noteq> []) (map js_trim (split_on CHR ''.'' rootPath))) v"

definition redactJsonObject :: "json \<Rightarrow> redaction_options \<Rightarrow> json" where
  "redactJsonObject v o' =
     redactValue (pathSet (coalesce (rd_fields o') [])) (coalesce (rd_replacement o') ''[REDACTED]'') [] v"

definition redactToolCallResult :: "json \<Rightarrow> redaction_options \<Rightarrow> json" where
  "redactToolCallResult v o' = redactJsonObject v
     (o'\<lparr>rd_fields := Some (remdups (coalesce (rd_fields o') [] @ TOOL_CALL_RESULT_AUTHORIZATION_PATHS))\<rparr>)"

definition redactReceiptSignature :: "(string \<times> json) list \<Rightarrow> redaction_options \<Rightarrow> (string \<times> json) list" where
  "redactReceiptSignature receipt o' = jm_set ''signature'' (JStr (coalesce (rd_replacement o') ''[REDACTED]'')) receipt"

end
