(* ===== verification/RedactionFacts.thy ===== *)
theory RedactionFacts
  imports Redaction
begin

text \<open>
  What redaction shows: the atoms of the value that lie under no sensitive member, and nothing else. A path descends
  through the keys of objects and the decimal indexes of arrays.
\<close>

section \<open>Paths in a value\<close>

fun leaf_at :: "json \<Rightarrow> string list \<Rightarrow> json option"
  and leaf_in_items :: "nat \<Rightarrow> json list \<Rightarrow> string \<Rightarrow> string list \<Rightarrow> json option"
  and leaf_in_members :: "(string \<times> json) list \<Rightarrow> string \<Rightarrow> string list \<Rightarrow> json option" where
  "leaf_at (JArr vs) (i # p) = leaf_in_items 0 vs i p"
| "leaf_at (JObj kvs) (k # p) = leaf_in_members kvs k p"
| "leaf_at v p = (if p = [] then Some v else None)"
| "leaf_in_items n [] i p = None"
| "leaf_in_items n (v # vs) i p = (if nat_digits n = i then leaf_at v p else leaf_in_items (n + 1) vs i p)"
| "leaf_in_members [] k p = None"
| "leaf_in_members ((l, v) # kvs) k p = (if l = k then leaf_at v p else leaf_in_members kvs k p)"

fun sensitive_on :: "string list \<Rightarrow> string list \<Rightarrow> json \<Rightarrow> string list \<Rightarrow> bool"
  and sensitive_items :: "string list \<Rightarrow> string list \<Rightarrow> nat \<Rightarrow> json list \<Rightarrow> string \<Rightarrow> string list \<Rightarrow> bool"
  and sensitive_members :: "string list \<Rightarrow> string list \<Rightarrow> (string \<times> json) list \<Rightarrow> string \<Rightarrow> string list \<Rightarrow> bool" where
  \<comment> \<open>the path passes a member that must be redacted; the first path is that of the value itself\<close>
  "sensitive_on ps path (JArr vs) (i # p) = sensitive_items ps path 0 vs i p"
| "sensitive_on ps path (JObj kvs) (k # p) = sensitive_members ps path kvs k p"
| "sensitive_on ps path v p = False"
| "sensitive_items ps path n [] i p = False"
| "sensitive_items ps path n (v # vs) i p =
     (if nat_digits n = i then sensitive_on ps (path @ [i]) v p else sensitive_items ps path (n + 1) vs i p)"
| "sensitive_members ps path [] k p = False"
| "sensitive_members ps path ((l, v) # kvs) k p =
     (if l = k then k = ''__proto__'' \<or> shouldRedact ps (path @ [k]) k \<or> sensitive_on ps (path @ [k]) v p
      else sensitive_members ps path kvs k p)"

lemma no_proto_leaf [simp]: "leaf_in_members (redact_members ps r path kvs) ''__proto__'' p = None"
  by (induction kvs) auto

lemma hidden_leaf:
  "sensitive_on ps path v p \<Longrightarrow> leaf_at (redactValue ps r path v) p \<in> {None, Some (JStr r)}"
  "sensitive_items ps path n vs i p \<Longrightarrow> leaf_in_items n (redact_items ps r path n vs) i p \<in> {None, Some (JStr r)}"
  "sensitive_members ps path kvs k p \<Longrightarrow> leaf_in_members (redact_members ps r path kvs) k p \<in> {None, Some (JStr r)}"
  by (induction ps path v p and ps path n vs i p and ps path kvs k p
      rule: sensitive_on_sensitive_items_sensitive_members.induct) (auto split: if_splits)

lemma kept_leaf:
  "\<not> sensitive_on ps path v p \<Longrightarrow> leaf_at v p = Some x \<Longrightarrow> \<not> isObjectOrArray x \<Longrightarrow> leaf_at (redactValue ps r path v) p = Some x"
  "\<not> sensitive_items ps path n vs i p \<Longrightarrow> leaf_in_items n vs i p = Some x \<Longrightarrow> \<not> isObjectOrArray x
    \<Longrightarrow> leaf_in_items n (redact_items ps r path n vs) i p = Some x"
  "\<not> sensitive_members ps path kvs k p \<Longrightarrow> leaf_in_members kvs k p = Some x \<Longrightarrow> \<not> isObjectOrArray x
    \<Longrightarrow> leaf_in_members (redact_members ps r path kvs) k p = Some x"
  by (induction ps path v p and ps path n vs i p and ps path kvs k p
      rule: sensitive_on_sensitive_items_sensitive_members.induct) (auto simp: isObjectOrArray_def split: if_splits json.splits)

lemma redact_twice:
  "redactValue ps r path (redactValue ps r path v) = redactValue ps r path v"
  "redact_items ps r path n (redact_items ps r path n vs) = redact_items ps r path n vs"
  "redact_members ps r path (redact_members ps r path kvs) = redact_members ps r path kvs"
  by (induction ps r path v and ps r path n vs and ps r path kvs
      rule: redactValue_redact_items_redact_members.induct) auto

section \<open>Properties\<close>

definition redacted_paths :: "redaction_options \<Rightarrow> string list" where
  "redacted_paths o' = pathSet (coalesce (rd_fields o') [])"



end
