(* ===== verification/GateRun.thy ===== *)
theory GateRun
  imports StoreMachine GrantOutcome PolicyTrace
begin

text \<open>
  Runs of the methods of \<open>ActionProxyService\<close> (\<open>services/action-gate.ts\<close>). A method awaits the store, the audit log and
  the grant service, and other requests run meanwhile: a computation is a function of a run, which carries the world and
  counts the waits, the readings of the clock and the random identifiers. At every wait the world first changes by
  \<open>ga_rest\<close>, and the awaited operation may fail (\<open>ga_fails\<close>). Errors are values; \<open>recover\<close> is \<open>catch\<close>.
\<close>

section \<open>The service\<close>

datatype gate_error =
    GateConflict string
  | GateSynchronizedConflict string \<comment> \<open>\<open>ApprovalPresentationSynchronizedConflictError\<close>\<close>
  | GateForbidden string
  | GateNotFound string
  | GateContractUnavailable string
  | GateEditConflict string \<comment> \<open>\<open>PreparedActionEditConflict\<close> with its disposition\<close>
  | GateAuthorization exec_auth_error
  | GateContext string \<comment> \<open>\<open>CanonicalizationError\<close>\<close>
  | GateService service_error
  | GateOther string string \<comment> \<open>any other error, with its name and message\<close>

record lifecycle =
  \<comment> \<open>\<open>PreparedActionLifecycle\<close>, which other editions provide, as far as it decides approvals and dispatches: whether it
     claims a tool, the edit mode of a prepared action and the failure of the two currentness checks\<close>
  lc_isPreparedAction :: "string \<Rightarrow> bool"
  lc_editMode :: "tool_call \<Rightarrow> gate_error + string"
  lc_assertApprovalCurrent :: "tool_call \<Rightarrow> json \<Rightarrow> gate_error option"
  lc_assertDispatchCurrent :: "tool_call \<Rightarrow> json \<Rightarrow> gate_error option"

datatype tool_outcome =
    ToolThrows string string \<comment> \<open>name and message of an error thrown when it is called\<close>
  | ToolRejects string string
  | ToolResolves json

datatype fate = Happens | Lost | Unheard
  \<comment> \<open>what becomes of an awaited operation: it happens, it fails, or it happens and its answer is an error\<close>

record gate =
  \<comment> \<open>\<open>ActionProxyServiceDeps\<close>, the installed lifecycle, and the platform the run sees\<close>
  ga_env :: env
  ga_rest :: interference
  ga_fate :: "nat \<Rightarrow> fate"
  ga_clock :: "nat \<Rightarrow> int"
  ga_ids :: "nat \<Rightarrow> string"
  ga_policy :: policy_file
  ga_policyProvider :: "policy_provider option"
  ga_tools :: "(string, json \<Rightarrow> tool_outcome) jsmap"
  ga_directory :: bool \<comment> \<open>whether an approver directory is installed\<close>
  ga_grants :: "grant_service option"
  ga_localDisabled :: bool
  ga_receiptSecret :: "string option"
  ga_authorizationTtlMs :: "int option"
  ga_workspaceId :: "string option"
  ga_lifecycle :: "lifecycle option"
  ga_remediation :: "json \<Rightarrow> json option" \<comment> \<open>\<open>remediationDescriptorSchema.safeParse\<close>\<close>

record invocation =
  \<comment> \<open>a call of a tool, and the attempt, tool call and approval it was made for\<close>
  iv_attempt :: attempt
  iv_toolCall :: tool_call
  iv_approval :: "approval option"
  iv_input :: json

record run =
  \<comment> \<open>the world and what was consumed of the platform; for the statements also the worlds the awaited operations saw,
     the calls of tools, and whether an identifier that was to be new was in use already\<close>
  ru_world :: world
  ru_waits :: nat
  ru_clock :: nat
  ru_ids :: nat
  ru_seen :: "world list"
  ru_clash :: bool
  ru_calls :: "invocation list"

type_synonym 'a act = "run \<Rightarrow> (gate_error + 'a) \<times> run"

definition exec_message :: "exec_auth_error \<Rightarrow> string" where
  "exec_message e = (case e of
       ExecBindingMismatch m \<Rightarrow> m | ExecExpired \<Rightarrow> ''Execution authorization has expired.''
     | ExecInvalid \<Rightarrow> ''Execution authorization was not issued by this authority.''
     | ExecReplayed \<Rightarrow> ''Execution authorization has already been consumed.'' | ExecPlainError m \<Rightarrow> m)"

definition exec_code :: "exec_auth_error \<Rightarrow> string option" where
  \<comment> \<open>\<open>error.code\<close> of an \<open>ExecutionAuthorizationError\<close>\<close>
  "exec_code e = (case e of
       ExecBindingMismatch _ \<Rightarrow> Some ''execution_authorization_binding_mismatch''
     | ExecExpired \<Rightarrow> Some ''execution_authorization_expired'' | ExecInvalid \<Rightarrow> Some ''execution_authorization_invalid''
     | ExecReplayed \<Rightarrow> Some ''execution_authorization_replayed'' | ExecPlainError _ \<Rightarrow> None)"

definition gate_message :: "gate_error \<Rightarrow> string" where
  "gate_message e = (case e of
       GateConflict m \<Rightarrow> m | GateSynchronizedConflict m \<Rightarrow> m | GateForbidden m \<Rightarrow> m | GateNotFound m \<Rightarrow> m
     | GateContractUnavailable m \<Rightarrow> m
     | GateEditConflict _ \<Rightarrow> ''Inline editing is not permitted for this server-prepared action.''
     | GateAuthorization x \<Rightarrow> exec_message x | GateContext m \<Rightarrow> m
     | GateService s \<Rightarrow> (case s of NotFoundError m \<Rightarrow> m | ForbiddenError m \<Rightarrow> m | ConflictError m \<Rightarrow> m | OtherError m \<Rightarrow> m)
     | GateOther _ m \<Rightarrow> m)"

definition error_name :: "gate_error \<Rightarrow> string" where
  "error_name e = (case e of
       GateConflict _ \<Rightarrow> ''ConflictError'' | GateSynchronizedConflict _ \<Rightarrow> ''ApprovalPresentationSynchronizedConflictError''
     | GateForbidden _ \<Rightarrow> ''ForbiddenError'' | GateNotFound _ \<Rightarrow> ''NotFoundError''
     | GateContractUnavailable _ \<Rightarrow> ''ActionContractUnavailableError'' | GateEditConflict _ \<Rightarrow> ''Error''
     | GateAuthorization x \<Rightarrow> (if exec_code x = None then ''Error'' else ''ExecutionAuthorizationError'') | GateContext _ \<Rightarrow> ''CanonicalizationError''
     | GateService s \<Rightarrow> (case s of NotFoundError _ \<Rightarrow> ''NotFoundError'' | ForbiddenError _ \<Rightarrow> ''ForbiddenError''
         | ConflictError _ \<Rightarrow> ''ConflictError'' | OtherError _ \<Rightarrow> ''Error'')
     | GateOther n _ \<Rightarrow> n)"

section \<open>Computations\<close>

definition give :: "'a \<Rightarrow> 'a act" where
  "give x r = (Inr x, r)"

definition raise :: "gate_error \<Rightarrow> 'a act" where
  "raise e r = (Inl e, r)"

definition bind_act :: "'a act \<Rightarrow> ('a \<Rightarrow> 'b act) \<Rightarrow> 'b act" where
  "bind_act m f r = (case m r of (Inl e, r') \<Rightarrow> (Inl e, r') | (Inr x, r') \<Rightarrow> f x r')"

definition recover :: "'a act \<Rightarrow> (gate_error \<Rightarrow> 'a act) \<Rightarrow> 'a act" where
  "recover m h r = (case m r of (Inl e, r') \<Rightarrow> h e r' | (Inr x, r') \<Rightarrow> (Inr x, r'))"

definition check :: "gate_error option \<Rightarrow> unit act" where
  "check c = (case c of None \<Rightarrow> give () | Some e \<Rightarrow> raise e)"

definition of_result :: "gate_error + 'a \<Rightarrow> 'a act" where
  "of_result x r = (x, r)"

definition attempted :: "'a act \<Rightarrow> (gate_error + 'a) act" where
  \<comment> \<open>\<open>try\<close>, with what was caught as the result\<close>
  "attempted m r = (case m r of (x, r') \<Rightarrow> (Inr x, r'))"

definition at_last :: "'a act \<Rightarrow> unit act \<Rightarrow> 'a act" where
  \<comment> \<open>\<open>try { m } finally { n }\<close>\<close>
  "at_last m n r = (case m r of (x, r') \<Rightarrow> (case n r' of (Inl e, r'') \<Rightarrow> (Inl e, r'') | (Inr _, r'') \<Rightarrow> (x, r'')))"

definition silently :: "unit act \<Rightarrow> unit act" where
  \<comment> \<open>\<open>try { ... } catch { }\<close>\<close>
  "silently m = recover m (\<lambda>_. give ())"

definition interfered :: "gate \<Rightarrow> run \<Rightarrow> run" where
  \<comment> \<open>after the others ran\<close>
  "interfered G r =
     (let w = ga_rest G (ru_waits r) (ru_world r)
      in r\<lparr>ru_waits := ru_waits r + 1, ru_world := w, ru_seen := ru_seen r @ [w]\<rparr>)"

definition at_once :: "gate \<Rightarrow> (world \<Rightarrow> 'a \<times> world) \<Rightarrow> 'a act" where
  \<comment> \<open>what the code does between two waits with state it shares with other requests\<close>
  "at_once G f r = (let r1 = interfered G r; (x, w) = f (ru_world r1) in (Inr x, r1\<lparr>ru_world := w\<rparr>))"

definition wait :: "gate \<Rightarrow> (world \<Rightarrow> 'a \<times> world) \<Rightarrow> 'a act" where
  "wait G f r =
     (if ga_fate G (ru_waits r) = Lost then (Inl (GateOther ''Error'' ''unavailable''), interfered G r)
      else if ga_fate G (ru_waits r) = Unheard
      then (Inl (GateOther ''Error'' ''unavailable''), snd (at_once G f r))
      else at_once G f r)"

definition read_store :: "gate \<Rightarrow> (store \<Rightarrow> 'a) \<Rightarrow> 'a act" where
  "read_store G f = wait G (\<lambda>w. (f (w_store w), w))"

definition update_store :: "gate \<Rightarrow> (store \<Rightarrow> 'a \<times> store) \<Rightarrow> 'a act" where
  "update_store G f = wait G (on_store f)"

definition write_store :: "gate \<Rightarrow> (store \<Rightarrow> store) \<Rightarrow> unit act" where
  "write_store G f = update_store G (\<lambda>s. ((), f s))"

definition note_clash :: "gate \<Rightarrow> (store \<Rightarrow> bool) \<Rightarrow> unit act" where
  \<comment> \<open>no step of the code: notes whether what the next wait creates is there already\<close>
  "note_clash G used r =
     (Inr (), r\<lparr>ru_clash := ru_clash r \<or> used (w_store (ga_rest G (ru_waits r) (ru_world r)))\<rparr>)"

definition now_ms :: "gate \<Rightarrow> int act" where
  "now_ms G r = (Inr (ga_clock G (ru_clock r)), r\<lparr>ru_clock := ru_clock r + 1\<rparr>)"

definition now_iso :: "gate \<Rightarrow> string act" where
  "now_iso G = bind_act (now_ms G) (\<lambda>t. give (isoString (ga_env G) t))"

definition fresh_id :: "gate \<Rightarrow> string act" where
  "fresh_id G r = (Inr (ga_ids G (ru_ids r)), r\<lparr>ru_ids := ru_ids r + 1\<rparr>)"

definition record_call :: "invocation \<Rightarrow> unit act" where
  "record_call i r = (Inr (), r\<lparr>ru_calls := ru_calls r @ [i]\<rparr>)"

lemmas act_simps = give_def raise_def bind_act_def recover_def check_def of_result_def

lemma bind_give [simp]: "bind_act (give x) f = f x"
  by (simp add: fun_eq_iff bind_act_def give_def)

lemma bind_raise [simp]: "bind_act (raise e) f = raise e"
  by (simp add: fun_eq_iff bind_act_def raise_def)

lemma bind_act_assoc: "bind_act (bind_act m f) g = bind_act m (\<lambda>x. bind_act (f x) g)"
  by (auto simp: fun_eq_iff bind_act_def split: prod.splits sum.splits)

section \<open>What a computation may do to a run\<close>

locale evolution =
  \<comment> \<open>\<open>R\<close> is what may become of a run\<close>
  fixes G :: gate and R :: "run \<Rightarrow> run \<Rightarrow> bool" and good :: "run \<Rightarrow> invocation \<Rightarrow> bool"
  assumes R_refl: "R r r"
    and R_trans: "R r r' \<Longrightarrow> R r' r'' \<Longrightarrow> R r r''"
    and R_counters: "R r (r\<lparr>ru_clock := n\<rparr>)" "R r (r\<lparr>ru_ids := n\<rparr>)"
    and R_interfered: "R r (interfered G r)"
    and R_same: "w_store w = w_store (ru_world r) \<Longrightarrow> R r (r\<lparr>ru_world := w\<rparr>)"
    and R_step: "store_step (ga_env G) (w_store (ru_world r)) (w_store w) \<Longrightarrow> R r (r\<lparr>ru_world := w\<rparr>)"
    and R_clash: "R r (r\<lparr>ru_clash := ru_clash r \<or> b\<rparr>)"
    and R_clashed: "ru_clash r \<Longrightarrow> R r (r\<lparr>ru_world := w\<rparr>)"
    and R_call: "good r i \<Longrightarrow> R r (r\<lparr>ru_calls := ru_calls r @ [i]\<rparr>)"
begin

definition moves :: "'a act \<Rightarrow> bool" where
  "moves m \<longleftrightarrow> (\<forall>r x r'. m r = (x, r') \<longrightarrow> R r r')"

named_theorems moving

lemma movesI: "(\<And>r x r'. m r = (x, r') \<Longrightarrow> R r r') \<Longrightarrow> moves m"
  unfolding moves_def by blast

lemma movesD: "moves m \<Longrightarrow> m r = (x, r') \<Longrightarrow> R r r'"
  unfolding moves_def by blast

lemma moves_give [moving]: "moves (give x)"
  by (rule movesI) (simp add: give_def R_refl)

lemma moves_raise [moving]: "moves (raise e)"
  by (rule movesI) (simp add: raise_def R_refl)

lemma moves_of_result [moving]: "moves (of_result x)"
  by (rule movesI) (simp add: of_result_def R_refl)

lemma moves_check [moving]: "moves (check c)"
  by (simp add: check_def moving split: option.split)

lemma moves_bind [moving]: "moves m \<Longrightarrow> (\<And>x. moves (f x)) \<Longrightarrow> moves (bind_act m f)"
  by (rule movesI) (auto simp: bind_act_def dest: movesD intro: R_trans split: prod.splits sum.splits)

lemma moves_recover [moving]: "moves m \<Longrightarrow> (\<And>e. moves (h e)) \<Longrightarrow> moves (recover m h)"
  by (rule movesI) (auto simp: recover_def dest: movesD intro: R_trans split: prod.splits sum.splits)

lemma moves_silently [moving]: "moves m \<Longrightarrow> moves (silently m)"
  by (simp add: silently_def moving)

lemma moves_attempted [moving]: "moves m \<Longrightarrow> moves (attempted m)"
  by (rule movesI) (auto simp: attempted_def dest: movesD split: prod.splits)

lemma moves_at_last [moving]: "moves m \<Longrightarrow> moves n \<Longrightarrow> moves (at_last m n)"
  by (rule movesI) (auto simp: at_last_def dest: movesD intro: R_trans split: prod.splits sum.splits)

lemma moves_if [moving]: "moves m \<Longrightarrow> moves n \<Longrightarrow> moves (if b then m else n)"
  by simp

lemma moves_option [moving]: "moves m \<Longrightarrow> (\<And>x. moves (f x)) \<Longrightarrow> moves (case v of None \<Rightarrow> m | Some x \<Rightarrow> f x)"
  by (simp split: option.split)

lemma moves_sum [moving]: "(\<And>x. moves (f x)) \<Longrightarrow> (\<And>y. moves (g y)) \<Longrightarrow> moves (case v of Inl x \<Rightarrow> f x | Inr y \<Rightarrow> g y)"
  by (simp split: sum.split)

lemma moves_pair [moving]: "(\<And>x y. moves (f x y)) \<Longrightarrow> moves (case v of (x, y) \<Rightarrow> f x y)"
  by (simp split: prod.split)

lemma moves_let [moving]: "(\<And>x. moves (f x)) \<Longrightarrow> moves (let x = v in f x)"
  by (simp add: Let_def)

lemma moves_at_once:
  assumes "\<And>r x w. f (ru_world r) = (x, w) \<Longrightarrow> R r (r\<lparr>ru_world := w\<rparr>)"
  shows "moves (at_once G f)"
  by (rule movesI)
    (auto simp: at_once_def Let_def intro: R_trans [OF R_interfered assms] split: prod.splits)

lemma moves_wait:
  assumes "\<And>r x w. f (ru_world r) = (x, w) \<Longrightarrow> R r (r\<lparr>ru_world := w\<rparr>)"
  shows "moves (wait G f)"
proof (rule movesI)
  fix r x r' assume run: "wait G f r = (x, r')"
  obtain y r1 where once: "at_once G f r = (y, r1)" by (cases "at_once G f r")
  have "moves (at_once G f)" by (rule moves_at_once) (rule assms)
  then have "R r r1" using once by (rule movesD)
  with run once R_interfered show "R r r'" by (auto simp: wait_def split: if_splits)
qed

lemma moves_read [moving]: "moves (read_store G f)"
  unfolding read_store_def by (rule moves_wait) (auto simp: R_refl)

lemma moves_idle [moving]: "moves (at_once G (\<lambda>w. (x, w)))"
  by (rule moves_at_once) (auto simp: R_same)

lemma moves_unstored:
  \<comment> \<open>an operation on another part of the world\<close>
  assumes "\<And>w x w'. f w = (x, w') \<Longrightarrow> w_store w' = w_store w"
  shows "moves (wait G f)" "moves (at_once G f)"
  by (rule moves_wait moves_at_once, rule R_same, erule assms)+

lemma moves_update:
  assumes "\<And>s x s'. f s = (x, s') \<Longrightarrow> store_step (ga_env G) s s'"
  shows "moves (update_store G f)"
  unfolding update_store_def
  by (rule moves_wait) (auto simp: on_store_def assms intro: R_step split: prod.splits)

lemma moves_write:
  assumes "\<And>s. store_step (ga_env G) s (f s)"
  shows "moves (write_store G f)"
  unfolding write_store_def by (rule moves_update) (auto simp: assms)

lemma moves_create:
  \<comment> \<open>a write that needs an identifier that is new\<close>
  assumes "\<And>s. \<not> used s \<Longrightarrow> store_step (ga_env G) s (f s)"
  shows "moves (bind_act (note_clash G used) (\<lambda>_. write_store G f))"
proof (rule movesI)
  fix r x r' assume run: "bind_act (note_clash G used) (\<lambda>_. write_store G f) r = (x, r')"
  define r1 where "r1 = r\<lparr>ru_clash := ru_clash r \<or> used (w_store (ga_rest G (ru_waits r) (ru_world r)))\<rparr>"
  define r2 where "r2 = interfered G r1"
  define r3 where "r3 = r2\<lparr>ru_world := (ru_world r2)\<lparr>w_store := f (w_store (ru_world r2))\<rparr>\<rparr>"
  have before: "R r r2" unfolding r1_def r2_def by (rule R_trans [OF R_clash R_interfered])
  have "R r2 r3"
  proof (cases "ru_clash r2")
    case True
    then show ?thesis unfolding r3_def by (rule R_clashed)
  next
    case False
    then have "\<not> used (w_store (ru_world r2))" by (simp add: r2_def r1_def interfered_def Let_def)
    then show ?thesis unfolding r3_def by (intro R_step) (simp add: assms)
  qed
  with before have after: "R r r3" by (rule R_trans)
  have "r' = r2 \<or> r' = r3"
    using run by (auto simp: bind_act_def note_clash_def write_store_def update_store_def wait_def at_once_def on_store_def
        r1_def r2_def r3_def interfered_def Let_def split: if_splits)
  with before after show "R r r'" by blast
qed

lemma moves_now [moving]: "moves (now_ms G)" "moves (now_iso G)"
proof -
  show "moves (now_ms G)" by (rule movesI) (auto simp: now_ms_def R_counters)
  then show "moves (now_iso G)" by (simp add: now_iso_def moving)
qed

lemma moves_fresh [moving]: "moves (fresh_id G)"
  by (rule movesI) (auto simp: fresh_id_def R_counters)

end

end
