(* ===== verification/GateChecks.thy ===== *)
theory GateChecks
  imports GateRun
begin

text \<open>
  The checks and small functions of \<open>services/action-gate.ts\<close>: who may decide an approval, what a decision is about,
  the verified influence scope of a tool call, the decision after content influence, and the authorization of an approval.
\<close>

section \<open>Who may decide\<close>

definition local_auth :: "auth_context option \<Rightarrow> bool" where
  \<comment> \<open>\<open>!auth || auth.authProvider === 'none'\<close>\<close>
  "local_auth auth = (case auth of None \<Rightarrow> True | Some a \<Rightarrow> au_authProvider a = ''none'')"

definition assertWorkspace :: "string option \<Rightarrow> auth_context option \<Rightarrow> gate_error option" where
  "assertWorkspace workspaceId auth =
     (if local_auth auth then None
      else if default_ws workspaceId \<noteq> au_workspaceId (the auth)
      then Some (GateForbidden ''Requested object is not in this workspace.'') else None)"

definition assertCanDecideApproval :: "approval \<Rightarrow> auth_context option \<Rightarrow> gate_error option" where
  "assertCanDecideApproval ap auth =
     (if local_auth auth then None
      else let a = the auth in
        if assertWorkspace (ap_workspaceId ap) auth \<noteq> None then assertWorkspace (ap_workspaceId ap) auth
        else if (case ap_approverUsers ap of None \<Rightarrow> False | Some us \<Rightarrow> au_principalId a \<notin> set us)
        then Some (GateForbidden ''Principal is not an allowed approver for this approval.'')
        else if ap_approverUsers ap = None \<and> \<not> hasAnyGroup a (coalesce (ap_approverGroups ap) [])
        then Some (GateForbidden ''Principal is not in an allowed approver group for this approval.'')
        else if ap_separationOfDuties ap = Some True \<and> principalMatchesActor a (Some (ap_requestedBy ap))
        then Some (GateForbidden ''The submitter cannot approve or reject this request.'')
        else if ap_separationOfDuties ap = Some True
          \<and> map_option au_principalId (ap_requestedByAuth ap) = Some (au_principalId a)
        then Some (GateForbidden ''The submitter cannot approve or reject this request.'') else None)"

datatype input_choice = ChooseOriginal | ChooseEdited json

definition approvalInputDecision :: "env \<Rightarrow> json option \<Rightarrow> input_choice option \<Rightarrow> gate_error + input_choice" where
  \<comment> \<open>\<open>editedInput\<close> (\<open>None\<close> if undefined, \<open>Some JNull\<close> if null) and \<open>inputDecision\<close>\<close>
  "approvalInputDecision E editedInput inputDecision =
     (case inputDecision of
        Some d \<Rightarrow>
          (case editedInput of
             None \<Rightarrow> Inr d
           | Some v \<Rightarrow>
               if (case d of ChooseOriginal \<Rightarrow> v \<noteq> JNull | ChooseEdited x \<Rightarrow> v = JNull \<or> hashJson E x \<noteq> hashJson E v)
               then Inl (GateConflict ''Approval input decision representations conflict.'') else Inr d)
      | None \<Rightarrow>
          (case editedInput of
             None \<Rightarrow> Inr ChooseOriginal
           | Some v \<Rightarrow> if v = JNull then Inr ChooseOriginal else Inr (ChooseEdited v)))"

definition actorForDecision :: "string option \<Rightarrow> auth_context option \<Rightarrow> string" where
  "actorForDecision bodyActor auth =
     (if local_auth auth then coalesce bodyActor ''local-admin''
      else coalesce (au_email (the auth)) (au_principalId (the auth)))"

definition approvalDecisionSource :: "string option \<Rightarrow> auth_context option \<Rightarrow> string" where
  "approvalDecisionSource supplied auth =
     (case supplied of Some s \<Rightarrow> s
      | None \<Rightarrow> (let p = map_option au_authProvider auth in
          if p = Some ''slack'' then ''slack'' else if p = Some ''telegram'' then ''telegram'' else ''actionproxy''))"

section \<open>The influence scope\<close>

definition trusted_provenance :: "json \<Rightarrow> bool" where
  \<comment> \<open>source and trust of a verified session\<close>
  "trusted_provenance p =
     (jget p ''source'' = JStr ''actionproxy.verified-mcp-influence-scope''
      \<and> js_String (jget p ''trust'') \<in> {''derived'', ''externally_verified'', ''trusted''})"

definition verifiedInfluenceScopeId :: "canonical_request option \<Rightarrow> string option" where
  "verifiedInfluenceScopeId request =
     (case request of
        None \<Rightarrow> None
      | Some r \<Rightarrow>
          let s = cr_session r; p = sf_provenance s; v = Option.bind (sf_value s) snd
          in if map_option snd (sf_value (cr_source r)) \<noteq> Some ''mcp'' \<or> \<not> sf_present s
               \<or> pv_source p \<noteq> ''actionproxy.verified-mcp-influence-scope'' \<or> pv_trust p = Asserted then None
             else (case v of Some i \<Rightarrow> if is_influence_scope_id i then Some i else None | None \<Rightarrow> None))"

definition verifiedStoredInfluenceScopeId :: "tool_call \<Rightarrow> string option" where
  "verifiedStoredInfluenceScopeId t =
     (let canonical = jget (tc_decisionTrace t) ''canonicalRequestEvidence'';
          source = jget canonical ''source''; session = jget canonical ''session''; envelope = tc_actionEnvelope t
      in case tc_influenceScopeId t of
           None \<Rightarrow> None
         | Some i \<Rightarrow>
             if \<not> is_influence_scope_id i \<or> \<not> isJsonObject canonical \<or> \<not> isJsonObject source
               \<or> \<not> isJsonObject (jget source ''value'') \<or> jget (jget source ''value'') ''type'' \<noteq> JStr ''mcp''
               \<or> jstring (jget (jget source ''value'') ''adapterId'') = None
               \<or> \<not> isJsonObject (jget canonical ''sourceProtocol'')
               \<or> jget (jget canonical ''sourceProtocol'') ''value'' \<noteq> JStr ''mcp''
               \<or> \<not> isJsonObject (jget canonical ''tenant'') \<or> \<not> isJsonObject (jget (jget canonical ''tenant'') ''value'')
               \<or> jget (jget (jget canonical ''tenant'') ''value'') ''id'' \<noteq> JStr (default_ws (tc_workspaceId t))
               \<or> \<not> isJsonObject session \<or> jget session ''present'' \<noteq> JBool True
               \<or> \<not> isJsonObject (jget session ''provenance'') \<or> \<not> trusted_provenance (jget session ''provenance'')
               \<or> \<not> isJsonObject (jget session ''value'') \<or> jget (jget session ''value'') ''sessionId'' \<noteq> JStr i
               \<or> jget envelope ''protocol'' \<noteq> JStr ''mcp'' \<or> jget (jget envelope ''source'') ''type'' \<noteq> JStr ''mcp''
               \<or> jget (jget envelope ''source'') ''id'' \<noteq> jget (jget source ''value'') ''adapterId''
             then None else Some i)"

definition gate_revision_guard :: "env \<Rightarrow> tool_call \<Rightarrow> revision_guard option" where
  \<comment> \<open>\<open>contentExposureRevisionGuard\<close>\<close>
  "gate_revision_guard E t =
     map_option (\<lambda>(scope, revision). \<lparr>rg_influenceScopeId = scope, rg_revision = num_trunc revision\<rparr>)
       (validatedContentExposureRevisionGuard E (tc_contentInfluence t) (verifiedStoredInfluenceScopeId t))"

definition authoritativeMcpToolCall :: "tool_call \<Rightarrow> bool" where
  "authoritativeMcpToolCall t =
     (let evidence = jget (tc_decisionTrace t) ''canonicalRequestEvidence''; source = jget evidence ''source''
      in isJsonObject evidence \<and> isJsonObject source \<and> isJsonObject (jget source ''value'')
         \<and> jget (jget source ''value'') ''type'' = JStr ''mcp'')"

definition requiresContentExposureBeforeRelease :: "tool_call \<Rightarrow> bool" where
  "requiresContentExposureBeforeRelease t =
     (has_result_source t \<and> (truthy (verifiedStoredInfluenceScopeId t) \<or> authoritativeMcpToolCall t))"

section \<open>The decision after content influence\<close>

definition frozenResultSource :: "policy_rule \<Rightarrow> policy_file \<Rightarrow> result_source option" where
  "frozenResultSource rule policy =
     (case pr_resultSource rule of
        Some s \<Rightarrow> Some s
      | None \<Rightarrow>
          if pr_influence (pf_default policy) \<noteq> None \<or> list_ex (\<lambda>(_, r). pr_influence r \<noteq> None) (pf_tools policy)
          then map_option ResultFrom (resultSourceForPolicyRule rule) else None)"

definition result_source_hash :: "env \<Rightarrow> result_source option \<Rightarrow> string" where
  \<comment> \<open>\<open>hashJson(source ?? null)\<close>\<close>
  "result_source_hash E s = hashJson E (case s of None \<Rightarrow> JNull | Some x \<Rightarrow> encode_result_source x)"

definition approval_of_decision :: "policy_decision \<Rightarrow> approval_mode" where
  "approval_of_decision d = (if d = Allow then Never else if d = RequireApproval then Required else DenyMode)"

definition effectivePolicyEvaluation :: "policy_evaluation \<Rightarrow> influence_evidence option \<Rightarrow> policy_evaluation" where
  "effectivePolicyEvaluation base influence =
     (case influence of
        None \<Rightarrow> base
      | Some e \<Rightarrow>
          let approval = approval_of_decision (ci_effectiveDecision e)
          in base\<lparr>pe_approval := approval, pe_decision := ci_effectiveDecision e,
               pe_reason := (if ci_effectiveDecision e \<noteq> ci_baseDecision e
                 then pe_reason base @ '' Content observed in this verified influence scope requires a stricter decision.''
                 else pe_reason base),
               pe_rule := (pe_rule base)\<lparr>pr_approval := approval\<rparr>\<rparr>)"

definition providerEvaluationWithEffectiveDecision :: "provider_evaluation \<Rightarrow> policy_evaluation \<Rightarrow> provider_evaluation" where
  "providerEvaluationWithEffectiveDecision e ev =
     (if pe_decision (et_evaluation (pv_trace e)) = pe_decision ev then e
      else e\<lparr>pv_trace := (pv_trace e)\<lparr>et_decision := pe_decision ev, et_evaluation := ev\<rparr>\<rparr>)"

section \<open>Approvers\<close>

definition approvalApproverUsersFor :: "policy_rule \<Rightarrow> recipient list option \<Rightarrow> string list option" where
  "approvalApproverUsersFor rule resolved =
     (let users = Option.bind (pr_approvers rule) ra_users; groups = Option.bind (pr_approvers rule) ra_groups
      in case resolved of
           None \<Rightarrow> users
         | Some rs \<Rightarrow>
             let ids = map rp_principalId rs; explicitUsers = coalesce users []; explicitGroups = coalesce groups []
             in if ids \<noteq> [] \<or> explicitUsers \<noteq> [] \<or> (explicitUsers = [] \<and> explicitGroups = []) then Some ids else None)"

definition approvalNotificationRecipientsFor :: "approval \<Rightarrow> recipient list \<Rightarrow> recipient list" where
  "approvalNotificationRecipientsFor ap resolved =
     (case ap_approverUsers ap of None \<Rightarrow> [] | Some us \<Rightarrow> filter (\<lambda>r. rp_principalId r \<in> set us) resolved)"

section \<open>Envelope and authorization of an approval\<close>

definition currentPolicyVersionHash :: "gate \<Rightarrow> string" where
  "currentPolicyVersionHash G = hashJson (ga_env G) (encode_policy_file (ga_policy G))"

definition currentPolicyVersionId :: "gate \<Rightarrow> string \<Rightarrow> string" where
  "currentPolicyVersionId G policyVersionHash = ''policy_'' @ take 16 policyVersionHash"

definition actionEnvelopeForToolCall :: "env \<Rightarrow> tool_call \<Rightarrow> json" where
  "actionEnvelopeForToolCall E t =
     (if jtruthy (tc_actionEnvelope t) then tc_actionEnvelope t
      else normalizeActionEnvelope E (tc_requestedBy t) (tc_requestedByAuth t)
        \<lparr>sr_toolName = tc_toolName t, sr_input = tc_input t, sr_requestedBy = tc_requestedBy t, sr_agentId = tc_agentId t,
         sr_reason = tc_reason t, sr_action = None, sr_metadata = tc_metadata t\<rparr>)"

definition assertApprovalBindingIsCurrent :: "env \<Rightarrow> approval \<Rightarrow> json \<Rightarrow> string \<Rightarrow> gate_error option" where
  "assertApprovalBindingIsCurrent E ap envelope expectedReviewHash = first_of
     [(truthy (ap_originalInputHash ap) \<and> ap_originalInputHash ap \<noteq> Some (hashJson E (ap_originalInput ap)),
       GateConflict ''Approval original input no longer matches its stored hash. Resubmit the action.''),
      (truthy (ap_originalEnvelopeHash ap) \<and> ap_originalEnvelopeHash ap \<noteq> Some (envelopeHash envelope),
       GateConflict ''Approval action envelope no longer matches the submitted action. Resubmit the action.''),
      (truthy (ap_reviewHash ap) \<and> ap_reviewHash ap \<noteq> Some expectedReviewHash,
       GateConflict ''Approval review binding is stale. Resubmit the action.'')]"

definition approvalAuthorizationGuard :: "gate \<Rightarrow> approval \<Rightarrow> tool_call \<Rightarrow> gate_error + authorization_guard" where
  "approvalAuthorizationGuard G ap t =
     (let E = ga_env G; active = currentPolicyVersionHash G in
      case ap_authorization ap of
        None \<Rightarrow> Inl (GateConflict ''Approval lacks actionproxy.approval-authorization.v1 state. Resubmit the action.'')
      | Some a \<Rightarrow>
          if \<not> isValidApprovalAuthorization E (encode_authorization a)
          then Inl (GateConflict ''Approval lacks actionproxy.approval-authorization.v1 state. Resubmit the action.'')
          else (case approvalAuthorizationMismatch E a ap t of
              Some m \<Rightarrow> Inl (GateConflict (''Approval authorization binding is invalid ('' @ m @ ''). Resubmit the action.''))
            | None \<Rightarrow>
                if az_legacyVersionHash a \<noteq> active
                then Inl (GateConflict ''The active policy changed after approval creation. Resubmit the action.'')
                else Inr \<lparr>gd_activePolicyVersionHash = active, gd_authorization = a, gd_originalInput = ap_originalInput ap\<rparr>))"

definition safeTerminalAuthorizationGuard :: "env \<Rightarrow> approval \<Rightarrow> tool_call \<Rightarrow> authorization_guard option" where
  "safeTerminalAuthorizationGuard E ap t =
     (case ap_authorization ap of
        None \<Rightarrow> None
      | Some a \<Rightarrow>
          if \<not> isValidApprovalAuthorization E (encode_authorization a) \<or> approvalAuthorizationMismatch E a ap t \<noteq> None then None
          else Some \<lparr>gd_activePolicyVersionHash = az_legacyVersionHash a, gd_authorization = a,
                 gd_originalInput = ap_originalInput ap\<rparr>)"

definition assertClientApprovalNonce :: "approval \<Rightarrow> string option \<Rightarrow> gate_error option" where
  "assertClientApprovalNonce ap supplied =
     (if supplied = None then None
      else if ap_authorization ap = None \<or> supplied \<noteq> map_option az_nonce (ap_authorization ap)
      then Some (GateConflict ''Approval authorization nonce is stale or does not match this approval.'') else None)"

section \<open>Audit\<close>

definition tool_event :: "string \<Rightarrow> string \<Rightarrow> auth_context option \<Rightarrow> string option \<Rightarrow> tool_call \<Rightarrow> (string \<times> json) list \<Rightarrow> audit_event" where
  \<comment> \<open>an event about a tool call: its type, actor, principal, approval and data; the identifier and the time come later\<close>
  "tool_event ty actor auth approvalId t data =
     \<lparr>ev_id = [], ev_type = ty, ev_workspaceId = tc_workspaceId t, ev_toolCallId = Some (tc_id t),
      ev_approvalId = approvalId, ev_actor = Some actor, ev_auth = auth, ev_inputHash = tc_inputHash t,
      ev_policyVersionId = tc_policyVersionId t, ev_policyVersionHash = tc_policyVersionHash t,
      ev_previousEventHash = None, ev_eventHash = None, ev_timestamp = [], ev_data = JObj data\<rparr>"

definition audit_with :: "gate \<Rightarrow> string option \<Rightarrow> audit_event \<Rightarrow> unit act" where
  \<comment> \<open>with the given identifier or a random one\<close>
  "audit_with G given e =
     bind_act (case given of Some i \<Rightarrow> give i | None \<Rightarrow> bind_act (fresh_id G) (\<lambda>i. give (''audit_'' @ i))) (\<lambda>i.
     bind_act (now_iso G) (\<lambda>now.
       wait G (\<lambda>w. ((), append_audit (ga_env G)
         (e\<lparr>ev_id := i, ev_timestamp := now,
            ev_workspaceId := or_else (ev_workspaceId e) (or_else (map_option au_workspaceId (ev_auth e)) (ga_workspaceId G))\<rparr>) w))))"

definition audit :: "gate \<Rightarrow> audit_event \<Rightarrow> unit act" where
  "audit G e = audit_with G None e"

context evolution
begin

lemma moves_audit_with [moving]: "moves (audit_with G i e)"
  unfolding audit_with_def by (intro moving moves_unstored(1)) (auto simp: append_audit_def)

lemma moves_audit [moving]: "moves (audit G e)"
  unfolding audit_def by (rule moving)

end

end
