(* ===== verification/GatePolicy.thy ===== *)
theory GatePolicy
  imports GateChecks
begin

text \<open>
  The policy side of \<open>services/action-gate.ts\<close>: evaluating the active policy, the content influence of a verified scope,
  the checks of the active policy when an approval is decided and before an execution, and the record of a content
  exposure before a result is released. Evaluations are values; what reads or writes the store is a computation.
\<close>

section \<open>The active policy\<close>

definition gate_provider :: "gate \<Rightarrow> policy_provider" where
  "gate_provider G =
     (let h = currentPolicyVersionHash G
      in yaml_provider_for (ga_env G) (ga_policyProvider G) (ga_policy G) (Some h) (Some (currentPolicyVersionId G h)))"

definition gateEvaluatePolicyProvider :: "gate \<Rightarrow> string \<Rightarrow> policy_context \<Rightarrow> provider_evaluation" where
  "gateEvaluatePolicyProvider G toolName cx = evaluatePolicyProvider (Some (gate_provider G)) cx toolName"

definition gateEvaluatePolicy :: "gate \<Rightarrow> string \<Rightarrow> policy_context \<Rightarrow> policy_evaluation" where
  "gateEvaluatePolicy G toolName cx = et_evaluation (pv_trace (gateEvaluatePolicyProvider G toolName cx))"

definition call_context :: "gate \<Rightarrow> tool_call \<Rightarrow> gate_error + policy_context" where
  \<comment> \<open>\<open>policyContextFromToolCall\<close>, whose failure is thrown\<close>
  "call_context G t = (case policyContextFromToolCall (ga_env G) t of Inl m \<Rightarrow> Inl (GateContext m) | Inr cx \<Rightarrow> Inr cx)"

definition call_with_input :: "tool_call \<Rightarrow> json \<Rightarrow> json \<Rightarrow> tool_call" where
  \<comment> \<open>a tool call with another input and its envelope\<close>
  "call_with_input t envelope input = t\<lparr>tc_actionEnvelope := envelope,
     tc_actionEnvelopeHash := Some (envelopeHash envelope), tc_input := input, tc_inputHash := Some (envelopeInputHash envelope)\<rparr>"

section \<open>Content influence\<close>

definition MAX_INFLUENCE_EXPOSURES :: jsnum where
  "MAX_INFLUENCE_EXPOSURES = Dec 256 0"

definition lookup_exposures :: "gate \<Rightarrow> string option \<Rightarrow> string \<Rightarrow> list_exposures_result option act" where
  \<comment> \<open>unavailable evidence is never interpreted as a clean scope\<close>
  "lookup_exposures G influenceScopeId workspaceId =
     (if \<not> truthy influenceScopeId then give None
      else recover
        (bind_act (read_store G (listContentExposures
            \<lparr>le_influenceScopeId = the influenceScopeId, le_limit = MAX_INFLUENCE_EXPOSURES, le_workspaceId = workspaceId\<rparr>))
          (\<lambda>l. give (Some l)))
        (\<lambda>_. give (Some \<lparr>lr_overflow = True, lr_records = [], lr_revision = -1\<rparr>)))"

definition influence_of :: "policy_evaluation \<Rightarrow> string option \<Rightarrow> list_exposures_result option \<Rightarrow> influence_evaluation" where
  "influence_of base influenceScopeId lookup = evaluateContentInfluence base
     \<lparr>ii_observedIntegrities = map_option
        (\<lambda>l. if lr_overflow l then [UnknownIntegrity] else map ex_integrity (lr_records l)) lookup,
      ii_scopeVerified = truthy influenceScopeId\<rparr>"

definition evaluateInfluence ::
  "gate \<Rightarrow> policy_evaluation \<Rightarrow> string \<Rightarrow> string option \<Rightarrow> string \<Rightarrow> string option \<Rightarrow> string \<Rightarrow> influence_evidence option act" where
  "evaluateInfluence G base evaluatedAt influenceScopeId policyVersionHash policyVersionId workspaceId =
     (case pr_influence (pe_rule base) of
        None \<Rightarrow> give None
      | Some selectedRule \<Rightarrow>
          bind_act (lookup_exposures G influenceScopeId workspaceId) (\<lambda>lookup.
            case buildContentInfluenceEvidence (ga_env G)
              \<lparr>bi_evaluatedAt = evaluatedAt, bi_evaluation = influence_of base influenceScopeId lookup,
               bi_exposureLookup = lookup, bi_influenceScopeId = influenceScopeId, bi_policyVersionHash = policyVersionHash,
               bi_policyVersionId = policyVersionId, bi_selectedRule = selectedRule\<rparr> of
              Inl _ \<Rightarrow> raise (GateContext ''canonicalization'')
            | Inr e \<Rightarrow> give (Some e)))"

definition integrities_of :: "influence_source list \<Rightarrow> content_integrity list" where
  \<comment> \<open>\<open>observedSources.filter((source) => source !== 'none')\<close>\<close>
  "integrities_of sources = List.map_filter (\<lambda>s. case s of NoSource \<Rightarrow> None | FromIntegrity i \<Rightarrow> Some i) sources"

definition revalidatedInfluence :: "gate \<Rightarrow> tool_call \<Rightarrow> policy_evaluation \<Rightarrow> influence_evidence option" where
  "revalidatedInfluence G t base =
     (let E = ga_env G; hash = currentPolicyVersionHash G in
      case (pr_influence (pe_rule base), tc_contentInfluence t) of
        (Some selectedRule, Some stored) \<Rightarrow>
          if \<not> truthy (validContentInfluenceBindingHash E (Some stored)) then None
          else
            let scope = verifiedStoredInfluenceScopeId t;
                ev = evaluateContentInfluence base
                  \<lparr>ii_observedIntegrities = Some (integrities_of (ci_observedSources stored)), ii_scopeVerified = truthy scope\<rparr>
            in if ci_scopeId stored \<noteq> scope \<or> ci_scopeVerified stored \<noteq> truthy scope
                 \<or> ci_policyVersionHash stored \<noteq> hash
                 \<or> ci_policyVersionId stored \<noteq> Some (currentPolicyVersionId G hash)
                 \<or> hashJson E (encode_guard (ci_selectedRule stored)) \<noteq> hashJson E (encode_guard selectedRule)
                 \<or> ci_baseDecision stored \<noteq> ie_baseDecision ev \<or> ci_effectiveDecision stored \<noteq> ie_effectiveDecision ev
                 \<or> hashJson E (JArr (map (JStr \<circ> source_name) (ci_observedSources stored)))
                     \<noteq> hashJson E (JArr (map (JStr \<circ> source_name) (ie_observedSources ev)))
               then None else Some stored
      | _ \<Rightarrow> None)"

definition influence_stale_event :: "tool_call \<Rightarrow> influence_evidence option \<Rightarrow> audit_event" where
  "influence_stale_event t current =
     tool_event ''content.influence_binding_stale'' ''actionproxy:content-influence'' (tc_requestedByAuth t) None t
       [(''currentBindingHash'', jnullable (map_option ci_bindingHash current)),
        (''storedBindingHash'', jnullable (map_option ci_bindingHash (tc_contentInfluence t)))]"

definition influence_binding_ok :: "gate \<Rightarrow> tool_call \<Rightarrow> influence_evidence option \<Rightarrow> bool \<Rightarrow> bool" where
  "influence_binding_ok G t current influenceExpected =
     (let stored = tc_contentInfluence t in
      (stored = None \<and> current = None \<and> \<not> influenceExpected)
      \<or> (stored \<noteq> None \<and> (case current of None \<Rightarrow> False | Some c \<Rightarrow> sameContentInfluenceBinding (ga_env G) stored c)))"

definition contentInfluenceBindingFailure ::
  "gate \<Rightarrow> tool_call \<Rightarrow> influence_evidence option \<Rightarrow> bool \<Rightarrow> string option act" where
  "contentInfluenceBindingFailure G t current influenceExpected =
     (if influence_binding_ok G t current influenceExpected then give None
      else bind_act (silently (audit G (influence_stale_event t current))) (\<lambda>_.
        give (Some ''Content-influence evidence changed after authorization. Resubmit the action for a new decision.'')))"

definition dispatch_mismatch_event :: "tool_call \<Rightarrow> auth_context option \<Rightarrow> audit_event" where
  "dispatch_mismatch_event t auth =
     tool_event ''content.influence_binding_stale'' ''actionproxy:content-influence'' auth None t
       [(''expectedExposureRevision'', (case tc_contentInfluence t of None \<Rightarrow> JNull | Some e \<Rightarrow> JNum (ci_exposureRevision e))),
        (''influenceScopeId'', jnullable (Option.bind (tc_contentInfluence t) ci_scopeId)),
        (''reason'', JStr ''atomic_dispatch_revision_mismatch''),
        (''storedBindingHash'', jnullable (map_option ci_bindingHash (tc_contentInfluence t)))]"

definition auditInfluenceDispatchMismatchBestEffort :: "gate \<Rightarrow> tool_call \<Rightarrow> auth_context option \<Rightarrow> unit act" where
  "auditInfluenceDispatchMismatchBestEffort G t auth = silently (audit G (dispatch_mismatch_event t auth))"

section \<open>Exposure before release\<close>

definition gate_workspace :: "gate \<Rightarrow> tool_call \<Rightarrow> auth_context option \<Rightarrow> string" where
  \<comment> \<open>\<open>toolCall.workspaceId ?? auth?.workspaceId ?? this.deps.workspaceId ?? 'default'\<close>\<close>
  "gate_workspace G t auth =
     coalesce (or_else (tc_workspaceId t) (or_else (map_option au_workspaceId auth) (ga_workspaceId G))) ''default''"

definition exposure_of_call :: "gate \<Rightarrow> tool_call \<Rightarrow> auth_context option \<Rightarrow> policy_result_source \<Rightarrow> string \<Rightarrow> string \<Rightarrow> exposure" where
  "exposure_of_call G t auth source influenceScopeId now =
     \<lparr>ex_influenceScopeId = influenceScopeId, ex_integrity = prs_integrity source, ex_observedAt = now,
      ex_policyVersionHash = coalesce (tc_policyVersionHash t) (currentPolicyVersionHash G),
      ex_sourceId = prs_sourceId source, ex_sourceToolCallId = tc_id t, ex_workspaceId = gate_workspace G t auth\<rparr>"

definition record_exposure :: "gate \<Rightarrow> tool_call \<Rightarrow> string \<Rightarrow> auth_context option \<Rightarrow> policy_result_source \<Rightarrow> bool act" where
  \<comment> \<open>the body of the \<open>try\<close>\<close>
  "record_exposure G t actor auth source =
     (case verifiedStoredInfluenceScopeId t of
        None \<Rightarrow> raise (GateOther ''Error'' ''Verified influence-scope evidence is unavailable for this classified MCP result.'')
      | Some scope \<Rightarrow>
          bind_act (now_iso G) (\<lambda>now.
          bind_act (update_store G (recordContentExposure (ga_env G) (exposure_of_call G t auth source scope now))) (\<lambda>outcome.
          if outcome = Ex_Conflict
          then raise (GateOther ''Error'' ''Existing content-exposure evidence conflicts with the frozen result source.'')
          else bind_act (audit G (tool_event ''content.exposure_recorded'' actor auth None t
              [(''influenceScopeId'', JStr scope), (''instructionAuthority'', JStr ''none''),
               (''integrity'', JStr (integrity_name (prs_integrity source))),
               (''recordOutcome'', JStr (exposure_outcome_name outcome)), (''sourceId'', jnullable (prs_sourceId source)),
               (''sourceToolCallId'', JStr (tc_id t))])) (\<lambda>_. give True))))"

definition recordContentExposureBeforeRelease :: "gate \<Rightarrow> tool_call \<Rightarrow> string \<Rightarrow> auth_context option \<Rightarrow> bool act" where
  "recordContentExposureBeforeRelease G t actor auth =
     (case tc_resultSource t of
        Some (ResultFrom source) \<Rightarrow>
          recover (record_exposure G t actor auth source)
            (\<lambda>_. bind_act (silently (audit G (tool_event ''content.result_withheld'' ''actionproxy:content-influence'' auth None t
                [(''influenceScopeId'', jopt JStr (verifiedStoredInfluenceScopeId t)),
                 (''integrity'', JStr (integrity_name (prs_integrity source))),
                 (''reason'', JStr ''content_exposure_persistence_failed''),
                 (''sourceId'', jnullable (prs_sourceId source))])))
              (\<lambda>_. give False))
      | _ \<Rightarrow> give True)"

definition auditResultWithheldBestEffort :: "gate \<Rightarrow> tool_call \<Rightarrow> auth_context option \<Rightarrow> string \<Rightarrow> unit act" where
  "auditResultWithheldBestEffort G t auth reason =
     silently (audit G (tool_event ''content.result_withheld'' ''actionproxy:content-influence'' auth None t
       [(''influenceScopeId'', jnullable (tc_influenceScopeId t)), (''reason'', JStr reason),
        (''sourceToolCallId'', JStr (tc_id t))]))"

section \<open>Before an execution\<close>

definition provider_identity_differs :: "provider_descriptor \<Rightarrow> json \<Rightarrow> bool" where
  \<comment> \<open>from the provider a validated decision names\<close>
  "provider_identity_differs d decision =
     (let policy = jget decision ''policy''; provider = jget policy ''provider'' in
      jopt JStr (pd_evaluatorVersion d) \<noteq> jget decision ''evaluatorVersion''
      \<or> jopt JStr (pd_policyDigest d) \<noteq> jget policy ''digest''
      \<or> jopt JStr (pd_policySchemaVersion d) \<noteq> jget policy ''schemaVersion''
      \<or> jopt JStr (pd_policyVersion d) \<noteq> jget policy ''version''
      \<or> JStr (pd_providerId d) \<noteq> jget provider ''id''
      \<or> jopt JStr (pd_providerVersion d) \<noteq> jget provider ''version'')"

definition policy_unchanged :: "gate \<Rightarrow> tool_call \<Rightarrow> bool" where
  "policy_unchanged G t \<longleftrightarrow> \<not> truthy (tc_policyVersionHash t) \<or> tc_policyVersionHash t = Some (currentPolicyVersionHash G)"

definition result_source_current :: "gate \<Rightarrow> tool_call \<Rightarrow> policy_evaluation \<Rightarrow> bool" where
  "result_source_current G t e \<longleftrightarrow>
     result_source_hash (ga_env G) (tc_resultSource t) = result_source_hash (ga_env G) (frozenResultSource (pe_rule e) (ga_policy G))"

definition revalidated_evaluation :: "gate \<Rightarrow> tool_call \<Rightarrow> json \<Rightarrow> gate_error + provider_evaluation" where
  \<comment> \<open>the active policy on the tool call with this input\<close>
  "revalidated_evaluation G t input =
     (let envelope = actionEnvelopeForInput (ga_env G) (actionEnvelopeForToolCall (ga_env G) t) input
      in case call_context G (call_with_input t envelope input) of
           Inl e \<Rightarrow> Inl e
         | Inr cx \<Rightarrow> Inr (gateEvaluatePolicyProvider G (tc_toolName t) cx))"

definition revalidation_failure :: "gate \<Rightarrow> tool_call \<Rightarrow> provider_evaluation \<Rightarrow> string option" where
  "revalidation_failure G t e =
     (let decision = validatedActionProxyDecisionForToolCall (ga_env G) t in first_of
       [(pv_failureCode e \<noteq> None \<or> (\<exists>d \<in> set_option decision. provider_identity_differs (pv_descriptor e) d),
         ''Final policy revalidation failed because the policy provider identity changed or became unavailable.''),
        (authoritativeMcpToolCall t \<and> \<not> truthy (verifiedStoredInfluenceScopeId t),
         ''Final policy revalidation failed because authoritative MCP scope or source evidence changed.''),
        (\<not> result_source_current G t (et_evaluation (pv_trace e)),
         ''Final policy revalidation failed because the frozen result-source classification changed.'')])"

definition revalidation_verdict :: "tool_call \<Rightarrow> policy_evaluation \<Rightarrow> string option" where
  "revalidation_verdict t ev =
     (if pe_decision ev = Deny then Some (''Final policy revalidation denied execution: '' @ pe_reason ev)
      else if tc_decision t = Some Allow \<and> pe_decision ev \<noteq> Allow
      then Some (''Final policy revalidation now requires approval: '' @ pe_reason ev)
      else if tc_decision t \<noteq> Some Allow \<and> tc_decision t \<noteq> Some RequireApproval
      then Some ''Final policy revalidation failed because the stored decision does not authorize execution.'' else None)"

definition finalPolicyRevalidationFailure :: "gate \<Rightarrow> tool_call \<Rightarrow> json \<Rightarrow> string option act" where
  "finalPolicyRevalidationFailure G t input =
     (if jget (tc_decisionTrace t) ''decisionV1'' \<noteq> JUndef \<and> validatedActionProxyDecisionForToolCall (ga_env G) t = None
      then give (Some ''Final policy revalidation failed because the stored decision-v1 projection is invalid or inconsistent.'')
      else if \<not> policy_unchanged G t
      then give (Some ''Final policy revalidation failed because the active policy changed after authorization.'')
      else bind_act (of_result (revalidated_evaluation G t input)) (\<lambda>e.
        let base = et_evaluation (pv_trace e); influence = revalidatedInfluence G t base in
        case revalidation_failure G t e of
          Some m \<Rightarrow> give (Some m)
        | None \<Rightarrow>
            bind_act (contentInfluenceBindingFailure G t influence (pr_influence (pe_rule base) \<noteq> None)) (\<lambda>f.
              give (case f of Some m \<Rightarrow> Some m | None \<Rightarrow> revalidation_verdict t (effectivePolicyEvaluation base influence)))))"

section \<open>When an approval is decided\<close>

definition current_evaluation :: "gate \<Rightarrow> tool_call \<Rightarrow> tool_call \<Rightarrow> string \<Rightarrow> policy_evaluation act" where
  \<comment> \<open>the evaluation of a call (with the original or the approved input) that still has the frozen result source and
     content influence of the stored one\<close>
  "current_evaluation G t variant message =
     bind_act (of_result (call_context G variant)) (\<lambda>cx.
       let base = gateEvaluatePolicy G (tc_toolName t) cx; influence = revalidatedInfluence G t base in
       if \<not> result_source_current G t base then raise (GateConflict message)
       else bind_act (contentInfluenceBindingFailure G t influence (pr_influence (pe_rule base) \<noteq> None)) (\<lambda>f.
         case f of Some m \<Rightarrow> raise (GateConflict m) | None \<Rightarrow> give (effectivePolicyEvaluation base influence)))"

definition approval_route_failure :: "policy_evaluation \<Rightarrow> policy_evaluation \<Rightarrow> gate_error option" where
  "approval_route_failure original approved = first_of
     [(pe_decision original \<noteq> RequireApproval,
       GateConflict ''The submitted action no longer follows an approval-required policy path. Resubmit it.''),
      (pe_decision approved = Deny,
       GateConflict ''The approved input is denied by final policy revalidation. Resubmit a permitted action.''),
      (pe_decision approved = RequireApproval \<and> pe_matchedRule approved \<noteq> pe_matchedRule original,
       GateConflict ''The approved input requires a different approval policy route. Resubmit the action.'')]"

definition assertApprovalPolicyIsCurrent :: "gate \<Rightarrow> tool_call \<Rightarrow> json \<Rightarrow> json \<Rightarrow> unit act" where
  "assertApprovalPolicyIsCurrent G t approvedInput approvedEnvelope =
     (if \<not> policy_unchanged G t
      then raise (GateConflict ''The active policy changed after submission. Resubmit the action for a new decision.'')
      else
        bind_act (current_evaluation G t t
          ''The frozen result-source classification changed before approval. Resubmit the action.'') (\<lambda>original.
        bind_act (current_evaluation G t (call_with_input t approvedEnvelope approvedInput)
          ''The approved input selects a different result-source classification. Resubmit the action.'') (\<lambda>approved.
          check (approval_route_failure original approved))))"

end
