(* ===== verification/GateExecute.thy ===== *)
theory GateExecute
  imports GatePolicy Redaction
begin

text \<open>
  Receipts, execution attempts and the two ways to execute in \<open>services/action-gate.ts\<close>: a registered tool of
  \<open>services/tool-registry.ts\<close> (\<open>executeToolCall\<close>) and an execution grant (\<open>authorizeExternalExecution\<close>).
\<close>

section \<open>Receipts\<close>

definition envelope_mode :: "json \<Rightarrow> execution_mode" where
  "envelope_mode envelope = (if jget envelope ''executionMode'' = JStr ''external_grant'' then ExternalGrant else LocalMock)"

record receipt_input =
  ri_actor :: string
  ri_approval :: "approval option"
  ri_auth :: "auth_context option"
  ri_decisionKind :: receipt_decision_kind
  ri_input :: json
  ri_reviewHash :: "string option"
  ri_toolCall :: tool_call

definition prepareActionReceipt :: "gate \<Rightarrow> receipt_input \<Rightarrow> string \<Rightarrow> string \<Rightarrow> receipt" where
  \<comment> \<open>\<open>now\<close> is the given or the current time, \<open>i\<close> the random or the deterministic identifier\<close>
  "prepareActionReceipt G p now i =
     (let E = ga_env G; t = ri_toolCall p; original = actionEnvelopeForToolCall E t;
          approved = actionEnvelopeForInput E original (ri_input p); ap = ri_approval p
      in signReceipt E (coalesce (ga_receiptSecret G) ''local-dev-execution-grant-secret'')
        \<lparr>rc_approvalId = map_option ap_id ap, rc_approvedEnvelopeHash = envelopeHash approved,
         rc_approvedInputHash = envelopeInputHash approved, rc_createdAt = now, rc_decisionActor = ri_actor p,
         rc_decisionAuth = ri_auth p, rc_decisionKind = ri_decisionKind p, rc_executionMode = envelope_mode approved,
         rc_expiresAt = None, rc_id = i, rc_issuedAt = now, rc_keyId = ''actionproxy-local-hmac-v1'',
         rc_operation = jget approved ''operation'',
         rc_originalEnvelopeHash = coalesce (Option.bind ap ap_originalEnvelopeHash) (envelopeHash original),
         rc_originalInputHash = coalesce (Option.bind ap ap_originalInputHash) (envelopeInputHash original),
         rc_outcome = None, rc_policyDecision = tc_decision t, rc_policyReason = tc_policyReason t,
         rc_policyRisk = tc_risk t, rc_policyVersionHash = tc_policyVersionHash t,
         rc_policyVersionId = tc_policyVersionId t, rc_protocol = coalesce (jstring (jget approved ''protocol'')) [],
         rc_receiptHash = [], rc_reviewHash = ri_reviewHash p, rc_signature = [], rc_signatureAlg = ''HMAC-SHA256'',
         rc_source = jget approved ''source'', rc_toolCallId = tc_id t, rc_toolName = tc_toolName t,
         rc_version = ''actionproxy.receipt.v1'', rc_workspaceId = gate_workspace G t (ri_auth p)\<rparr>)"

definition receipt_created_event :: "receipt \<Rightarrow> receipt_input \<Rightarrow> audit_event" where
  "receipt_created_event rc p =
     (tool_event ''receipt.created'' (ri_actor p) (ri_auth p) (map_option ap_id (ri_approval p)) (ri_toolCall p)
       [(''approvedEnvelopeHash'', JStr (rc_approvedEnvelopeHash rc)), (''approvedInputHash'', JStr (rc_approvedInputHash rc)),
        (''decisionKind'', JStr (decision_kind_name (rc_decisionKind rc))),
        (''originalEnvelopeHash'', JStr (rc_originalEnvelopeHash rc)),
        (''originalInputHash'', JStr (rc_originalInputHash rc)), (''receiptHash'', JStr (rc_receiptHash rc)),
        (''receiptId'', JStr (rc_id rc)), (''reviewHash'', jnullable (rc_reviewHash rc))])
     \<lparr>ev_inputHash := Some (rc_approvedInputHash rc), ev_workspaceId := Some (rc_workspaceId rc)\<rparr>"

definition createActionReceipt_gate :: "gate \<Rightarrow> receipt_input \<Rightarrow> receipt act" where
  "createActionReceipt_gate G p =
     bind_act (now_iso G) (\<lambda>now. bind_act (fresh_id G) (\<lambda>i.
       let rc = prepareActionReceipt G p now (''receipt_'' @ i) in
       bind_act (write_store G (createActionReceipt rc)) (\<lambda>_.
       bind_act (audit G (receipt_created_event rc p)) (\<lambda>_. give rc))))"

definition receipt_outcome_event :: "receipt \<Rightarrow> receipt_outcome \<Rightarrow> tool_call \<Rightarrow> audit_event" where
  "receipt_outcome_event rc ro t =
     (tool_event ''receipt.outcome_recorded'' (ro_recordedBy ro) (ro_auth ro) (rc_approvalId rc) t
       [(''error'', jnullable (ro_error ro)), (''receiptHash'', JStr (rc_receiptHash rc)), (''receiptId'', JStr (rc_id rc)),
        (''remediation'', null_coalesce (ro_remediation ro)), (''result'', null_coalesce (ro_result ro)),
        (''status'', JStr (outcome_status_name (ro_status ro)))])
     \<lparr>ev_toolCallId := Some (rc_toolCallId rc), ev_policyVersionHash := rc_policyVersionHash rc,
      ev_policyVersionId := rc_policyVersionId rc, ev_workspaceId := Some (rc_workspaceId rc)\<rparr>"

definition recordReceiptOutcome :: "gate \<Rightarrow> receipt \<Rightarrow> receipt_outcome \<Rightarrow> tool_call \<Rightarrow> unit act" where
  \<comment> \<open>the outcome without its time\<close>
  "recordReceiptOutcome G rc ro t =
     bind_act (now_iso G) (\<lambda>now.
     bind_act (write_store G (updateActionReceipt (rc\<lparr>rc_outcome := Some (ro\<lparr>ro_recordedAt := now\<rparr>)\<rparr>))) (\<lambda>_.
       audit G (receipt_outcome_event rc ro t)))"

definition receipt_outcome_if :: "gate \<Rightarrow> receipt option \<Rightarrow> receipt_outcome \<Rightarrow> tool_call \<Rightarrow> unit act" where
  "receipt_outcome_if G receipt ro t = (case receipt of None \<Rightarrow> give () | Some rc \<Rightarrow> recordReceiptOutcome G rc ro t)"

definition failed_call :: "tool_call \<Rightarrow> json \<Rightarrow> json \<Rightarrow> string \<Rightarrow> string \<Rightarrow> tool_call" where
  "failed_call t envelope input message now =
     (call_with_input t envelope input)\<lparr>tc_status := Failed, tc_error := Some message, tc_updatedAt := now\<rparr>"

definition failToolCall ::
  "gate \<Rightarrow> tool_call \<Rightarrow> json \<Rightarrow> string \<Rightarrow> string \<Rightarrow> auth_context option \<Rightarrow> receipt option \<Rightarrow> tool_call act" where
  "failToolCall G t input actor message auth receipt =
     bind_act (now_iso G) (\<lambda>now.
       let envelope = actionEnvelopeForInput (ga_env G) (actionEnvelopeForToolCall (ga_env G) t) input;
           updated = failed_call t envelope input message now in
       bind_act (write_store G (updateToolCall updated)) (\<lambda>_.
       bind_act (receipt_outcome_if G receipt
         \<lparr>ro_auth = auth, ro_error = Some message, ro_recordedAt = [], ro_recordedBy = actor, ro_remediation = JUndef,
          ro_result = JUndef, ro_resultDelivery = JUndef, ro_status = Outcome_Failed\<rparr> updated) (\<lambda>_.
       bind_act (audit G (tool_event ''tool_call.failed'' actor auth None t
         [(''toolName'', JStr (tc_toolName t)), (''input'', input), (''error'', JStr message)])) (\<lambda>_. give updated))))"

section \<open>Attempts\<close>

definition attempt_event :: "string \<Rightarrow> attempt \<Rightarrow> string \<Rightarrow> auth_context option \<Rightarrow> projection option \<Rightarrow> audit_event" where
  "attempt_event ty a actor auth authorization =
     \<lparr>ev_id = [], ev_type = ty, ev_workspaceId = Some (at_workspaceId a), ev_toolCallId = Some (at_toolCallId a),
      ev_approvalId = ab_approvalId (at_binding a), ev_actor = Some actor, ev_auth = auth,
      ev_inputHash = Some (at_inputHash a), ev_policyVersionId = None,
      ev_policyVersionHash = ab_policyVersionHash (at_binding a),
      ev_previousEventHash = None, ev_eventHash = None, ev_timestamp = [],
      ev_data = JObj
        ([(''attemptId'', JStr (at_id a)), (''attemptNumber'', jint (at_attemptNumber a)),
          (''binding'', encode_binding (at_binding a)), (''completedAt'', jnullable (at_completedAt a)),
          (''dispatchedAt'', jnullable (at_dispatchedAt a)), (''executionMode'', JStr (execution_mode_name (at_executionMode a)))]
         @ (case authorization of None \<Rightarrow> []
            | Some p \<Rightarrow> [(''executionAuthorization'', JObj
                [(''authorizationId'', JStr (pj_authorizationId p)), (''capabilities'', pj_capabilities p),
                 (''executorId'', JStr (eb_executorId (pj_binding p))), (''expiresAt'', JStr (pj_expiresAt p)),
                 (''version'', JStr (pj_version p))])])
         @ [(''executorId'', JStr (at_executorId a)), (''grantId'', jnullable (at_grantId a)),
            (''outcome'', null_coalesce (jopt encode_attempt_outcome (at_outcome a))),
            (''providerIdempotency'', JStr (at_providerIdempotency a)), (''reservedAt'', JStr (at_reservedAt a)),
            (''retryPolicy'', JStr (at_retryPolicy a)), (''state'', JStr (attempt_state_name (at_state a)))])\<rparr>"

definition auditExecutionAttempt ::
  "gate \<Rightarrow> string \<Rightarrow> attempt \<Rightarrow> string \<Rightarrow> auth_context option \<Rightarrow> projection option \<Rightarrow> string option \<Rightarrow> unit act" where
  "auditExecutionAttempt G ty a actor auth authorization auditId =
     audit_with G auditId (attempt_event ty a actor auth authorization)"

definition reservation_name :: "reservation_outcome \<Rightarrow> string" where
  "reservation_name x = (case x of Rs_BindingMismatch \<Rightarrow> ''binding_mismatch'' | Rs_Existing \<Rightarrow> ''existing''
     | Rs_NotFound \<Rightarrow> ''not_found'' | Rs_Reserved \<Rightarrow> ''reserved'')"

definition reserveExecutionAttempt ::
  "gate \<Rightarrow> tool_call \<Rightarrow> execution_mode \<Rightarrow> string \<Rightarrow> auth_context option \<Rightarrow> receipt option \<Rightarrow> approval option \<Rightarrow> attempt act" where
  "reserveExecutionAttempt G t mode actor auth receipt approval =
     bind_act (now_iso G) (\<lambda>now. bind_act (fresh_id G) (\<lambda>i. bind_act (fresh_id G) (\<lambda>owner. bind_act (now_ms G) (\<lambda>ms.
       let a = buildExecutionAttempt (ga_env G) (''attempt_'' @ i) (''reservation_'' @ owner)
             \<lparr>bt_approval = approval, bt_executionMode = mode, bt_id = None, bt_inputHash = stored_input_hash (ga_env G) t,
              bt_now = now, bt_receipt = receipt, bt_reservationOwner = None, bt_toolCall = t\<rparr> in
       bind_act (update_store G (reserveExecutionAttemptAtomically (ga_env G) ms a (Option.bind approval ap_authorization))) (\<lambda>res.
       case rr_attempt res of
         Some stored \<Rightarrow>
           if rr_outcome res \<noteq> Rs_Reserved
           then raise (GateConflict (''Execution attempt could not be reserved: '' @ reservation_name (rr_outcome res)))
           else bind_act (auditExecutionAttempt G ''execution.attempt_reserved'' stored actor auth None None) (\<lambda>_. give stored)
       | None \<Rightarrow> raise (GateConflict (''Execution attempt could not be reserved: '' @ reservation_name (rr_outcome res))))))))"

definition transition_name :: "transition_outcome \<Rightarrow> string" where
  "transition_name x = (case x of Tr_AlreadyTerminal \<Rightarrow> ''already_terminal''
     | Tr_ContentInfluenceMismatch \<Rightarrow> ''content_influence_mismatch'' | Tr_NotFound \<Rightarrow> ''not_found''
     | Tr_OwnerMismatch \<Rightarrow> ''owner_mismatch'' | Tr_Replay \<Rightarrow> ''replay'' | Tr_StateMismatch \<Rightarrow> ''state_mismatch''
     | Tr_Transitioned \<Rightarrow> ''transitioned'')"

definition transitionExecutionAttempt ::
  "gate \<Rightarrow> attempt \<Rightarrow> attempt_state \<Rightarrow> attempt_state \<Rightarrow> attempt_outcome option \<Rightarrow> revision_guard option \<Rightarrow> attempt act" where
  "transitionExecutionAttempt G a expectedState nextState outcome guard =
     bind_act (case outcome of Some ao \<Rightarrow> give (ao_recordedAt ao) | None \<Rightarrow> now_iso G) (\<lambda>now.
     bind_act (update_store G (transitionExecutionAttemptAtomically (ga_env G)
       \<lparr>ti_attemptId = at_id a, ti_expectedState = expectedState, ti_nextState = nextState, ti_outcome = outcome,
        ti_reservationOwner = at_reservationOwner a, ti_transitionedAt = now, ti_workspaceId = at_workspaceId a,
        ti_contentExposureRevision = guard\<rparr>)) (\<lambda>res.
       case res of
         (Tr_Transitioned, Some updated) \<Rightarrow> give updated
       | (out, _) \<Rightarrow> raise (GateConflict (''Execution attempt transition was rejected: '' @ transition_name out))))"

definition no_outcome :: attempt_outcome_input where
  "no_outcome = \<lparr>oi_errorClass = None, oi_errorCode = None, oi_errorMessage = None, oi_remediation = JUndef,
     oi_recordedAt = [], oi_result = JUndef, oi_resultDelivery = JUndef\<rparr>"

definition completeExecutionAttempt ::
  "gate \<Rightarrow> attempt \<Rightarrow> attempt_state \<Rightarrow> string \<Rightarrow> auth_context option \<Rightarrow> attempt_outcome_input \<Rightarrow> attempt act" where
  "completeExecutionAttempt G a status actor auth i =
     bind_act (now_iso G) (\<lambda>now.
     bind_act (transitionExecutionAttempt G a (if at_state a = Reserved then Reserved else Dispatched) status
         (Some (executionAttemptOutcome (ga_env G) status (i\<lparr>oi_recordedAt := now\<rparr>))) None) (\<lambda>completed.
     bind_act (auditExecutionAttempt G ''execution.attempt_completed'' completed actor auth None None) (\<lambda>_. give completed)))"

definition abort_execution ::
  "gate \<Rightarrow> attempt \<Rightarrow> attempt_state \<Rightarrow> tool_call \<Rightarrow> json \<Rightarrow> string \<Rightarrow> auth_context option \<Rightarrow> receipt option
    \<Rightarrow> string \<Rightarrow> string \<Rightarrow> string \<Rightarrow> tool_call act" where
  \<comment> \<open>what every failing branch of an execution does: end the attempt with this status, then fail the tool call\<close>
  "abort_execution G a status t input actor auth receipt errorClass errorCode message =
     bind_act (completeExecutionAttempt G a status actor auth
         (no_outcome\<lparr>oi_errorClass := Some errorClass, oi_errorCode := Some errorCode, oi_errorMessage := Some message\<rparr>)) (\<lambda>_.
       failToolCall G t input actor message auth receipt)"

end
