(* ===== verification/GateDispatch.thy ===== *)
theory GateDispatch
  imports GateExecute
begin

text \<open>
  Executing an authorized tool call: \<open>executeToolCall\<close> with the local registry (\<open>services/tool-registry.ts\<close>) and
  \<open>authorizeExternalExecution\<close> with an execution grant. The steps are the awaits of the code in their order; each failing
  branch ends the attempt and fails the tool call. Two requests that run at the same time each have their own run, the
  other is part of what the rest of the world does.
\<close>

section \<open>The binding just before a dispatch\<close>

definition mismatch :: "string \<Rightarrow> 'a act" where
  "mismatch m = raise (GateAuthorization (ExecBindingMismatch m))"

definition state_word :: "attempt_state \<Rightarrow> string" where
  "state_word s = attempt_state_name s"

definition local_binding ::
  "gate \<Rightarrow> tool_call \<Rightarrow> attempt \<Rightarrow> tool_call \<Rightarrow> approval option \<Rightarrow> (exec_binding \<times> attempt \<times> tool_call \<times> approval option) act" where
  \<comment> \<open>from the stored attempt, tool call and approval; the result is the binding and what it was built from\<close>
  "local_binding G t storedAttempt storedToolCall storedApproval =
     (let current = storedToolCall\<lparr>tc_actionEnvelope := tc_actionEnvelope t, tc_actionEnvelopeHash := tc_actionEnvelopeHash t,
            tc_input := tc_input t, tc_inputHash := tc_inputHash t\<rparr>
      in bind_act (finalPolicyRevalidationFailure G current (tc_input current)) (\<lambda>f.
         case f of
           Some m \<Rightarrow> mismatch m
         | None \<Rightarrow>
             bind_act (now_ms G) (\<lambda>now.
             case buildExecutionAuthorizationBinding (ga_env G) now storedApproval storedAttempt current of
               Inl e \<Rightarrow> raise (GateAuthorization e)
             | Inr b \<Rightarrow> give (b, storedAttempt, current, storedApproval))))"

definition currentLocalExecutionAuthorizationBinding ::
  "gate \<Rightarrow> attempt \<Rightarrow> tool_call \<Rightarrow> approval option \<Rightarrow> attempt_state
    \<Rightarrow> (exec_binding \<times> attempt \<times> tool_call \<times> approval option) act" where
  "currentLocalExecutionAuthorizationBinding G a t approval expectedState =
     bind_act (read_store G (\<lambda>s. getExecutionAttempt s (at_id a))) (\<lambda>storedAttempt.
     bind_act (read_store G (\<lambda>s. getToolCall s (tc_id t))) (\<lambda>storedToolCall.
     bind_act (case approval of None \<Rightarrow> give None | Some ap \<Rightarrow> read_store G (\<lambda>s. getApproval s (ap_id ap))) (\<lambda>storedApproval.
     case storedAttempt of
       None \<Rightarrow> mismatch (''Execution authorization requires the current '' @ state_word expectedState @ '' attempt.'')
     | Some sa \<Rightarrow>
         if at_state sa \<noteq> expectedState
         then mismatch (''Execution authorization requires the current '' @ state_word expectedState @ '' attempt.'')
         else (case storedToolCall of
             None \<Rightarrow> mismatch ''Execution authorization requires the current tool call.''
           | Some st \<Rightarrow>
               if approval \<noteq> None \<and> storedApproval = None
               then mismatch ''Execution authorization requires the current approval.''
               else if approval = None
                 \<and> (tc_inputHash st \<noteq> tc_inputHash t \<or> tc_actionEnvelopeHash st \<noteq> tc_actionEnvelopeHash t)
               then mismatch ''The stored action changed after execution authorization.''
               else local_binding G t sa st storedApproval))))"

section \<open>The tool registry\<close>

definition LOCAL_EXECUTOR_ID :: string where
  "LOCAL_EXECUTOR_ID = ''actionproxy.local-tool-registry''"

definition issue_local ::
  "gate \<Rightarrow> exec_binding \<Rightarrow> string \<Rightarrow> int \<Rightarrow> world \<Rightarrow> (exec_auth_error + nat \<times> projection) \<times> world" where
  \<comment> \<open>\<open>issue\<close> and \<open>inspect\<close>\<close>
  "issue_local G b i now w =
     (case issueExecution (ga_env G) b
        \<lparr>ak_now = Some now, ak_id = i, ak_ttl = None, ak_capabilities = CONSERVATIVE_EXECUTOR_CAPABILITIES_V1\<rparr> (w_exec w) of
        (Inl e, x) \<Rightarrow> (Inl e, w\<lparr>w_exec := x\<rparr>)
      | (Inr token, x) \<Rightarrow>
          (case inspectExecution token x of
             Inl e \<Rightarrow> (Inl e, w\<lparr>w_exec := x\<rparr>)
           | Inr p \<Rightarrow> (Inr (token, p), w\<lparr>w_exec := x\<rparr>)))"

definition issue_authorization :: "gate \<Rightarrow> attempt \<Rightarrow> tool_call \<Rightarrow> approval option \<Rightarrow> (nat \<times> projection) act" where
  "issue_authorization G a t approval =
     bind_act (now_ms G) (\<lambda>now.
     case buildExecutionAuthorizationBinding (ga_env G) now approval a t of
       Inl e \<Rightarrow> raise (GateAuthorization e)
     | Inr b \<Rightarrow>
         bind_act (fresh_id G) (\<lambda>i. bind_act (now_ms G) (\<lambda>issued.
         bind_act (at_once G (issue_local G b (''execauth_'' @ i) issued)) (\<lambda>r.
           case r of Inl e \<Rightarrow> raise (GateAuthorization e) | Inr x \<Rightarrow> give x))))"

definition registry_dispatch ::
  "gate \<Rightarrow> nat \<Rightarrow> exec_binding \<Rightarrow> json \<Rightarrow> string \<Rightarrow> int \<Rightarrow> world \<Rightarrow> (gate_error + (json \<Rightarrow> tool_outcome)) \<times> world" where
  \<comment> \<open>\<open>ToolRegistry.execute\<close> up to the call of the executor\<close>
  "registry_dispatch G token b input toolName now w =
     (let E = ga_env G;
          expected = b\<lparr>eb_inputHash := hashJson E input, eb_toolName := toolName, eb_executorId := LOCAL_EXECUTOR_ID\<rparr>
      in case inspectExecution token (w_exec w) of
           Inl e \<Rightarrow> (Inl (GateAuthorization e), w)
         | Inr p \<Rightarrow>
             if \<not> sameCanonicalValue (pj_capabilities p) CONSERVATIVE_EXECUTOR_CAPABILITIES_V1
             then (Inl (GateAuthorization (ExecBindingMismatch
               ''Execution authorization capabilities do not match the local executor.'')), w)
             else (case consumeExecution E token expected
                 \<lparr>ak_now = Some now, ak_id = [], ak_ttl = None, ak_capabilities = JUndef\<rparr> (w_exec w) of
                 (Inl e, x) \<Rightarrow> (Inl (GateAuthorization e), w\<lparr>w_exec := x\<rparr>)
               | (Inr _, x) \<Rightarrow>
                   (case jm_get (ga_tools G) toolName of
                      None \<Rightarrow> (Inl (GateOther ''Error'' (''No tool registered for '' @ toolName)), w\<lparr>w_exec := x\<rparr>)
                    | Some executor \<Rightarrow> (Inr executor, w\<lparr>w_exec := x\<rparr>))))"

definition call_tool :: "(json \<Rightarrow> tool_outcome) \<Rightarrow> invocation \<Rightarrow> tool_outcome act" where
  "call_tool executor iv =
     bind_act (record_call iv) (\<lambda>_.
       case executor (iv_input iv) of ToolThrows n m \<Rightarrow> raise (GateOther n m) | promise \<Rightarrow> give promise)"

definition execute_registered ::
  "gate \<Rightarrow> nat \<Rightarrow> exec_binding \<Rightarrow> attempt \<Rightarrow> tool_call \<Rightarrow> approval option \<Rightarrow> json \<Rightarrow> string \<Rightarrow> tool_outcome act" where
  "execute_registered G token b a t approval input toolName =
     bind_act (now_ms G) (\<lambda>now.
     bind_act (at_once G (registry_dispatch G token b input toolName now)) (\<lambda>r.
       case r of Inl e \<Rightarrow> raise e
       | Inr executor \<Rightarrow> call_tool executor \<lparr>iv_attempt = a, iv_toolCall = t, iv_approval = approval, iv_input = input\<rparr>))"

section \<open>Local execution\<close>

definition productMetadataFrom :: "json \<Rightarrow> json" where
  "productMetadataFrom v = (if isJsonObject v \<and> isJsonObject (jget v ''actionproxy'') then jget v ''actionproxy'' else JUndef)"

definition remediationFromToolResult :: "gate \<Rightarrow> json \<Rightarrow> json" where
  "remediationFromToolResult G result =
     (let m = jget (productMetadataFrom result) ''remediation''
      in if m = JUndef then JUndef else (case ga_remediation G m of None \<Rightarrow> JUndef | Some d \<Rightarrow> d))"

definition release_after_exposure :: "gate \<Rightarrow> tool_call \<Rightarrow> string \<Rightarrow> auth_context option \<Rightarrow> tool_call act" where
  "release_after_exposure G updated actor auth =
     bind_act (recordContentExposureBeforeRelease G updated actor auth) (\<lambda>recorded.
       if \<not> recorded then give updated
       else bind_act (now_iso G) (\<lambda>now.
         let releasable = updated\<lparr>tc_resultWithheld := Some False, tc_updatedAt := now\<rparr> in
         recover (bind_act (write_store G (updateToolCall releasable)) (\<lambda>_. give releasable))
           (\<lambda>_. bind_act (auditResultWithheldBestEffort G updated auth ''result_release_state_persistence_failed'')
              (\<lambda>_. give updated))))"

definition executed_call :: "tool_call \<Rightarrow> json \<Rightarrow> string \<Rightarrow> tool_call" where
  "executed_call base result now =
     (let u = base\<lparr>tc_status := Executed, tc_result := result, tc_updatedAt := now\<rparr>
      in if requiresContentExposureBeforeRelease base then u\<lparr>tc_resultWithheld := Some True\<rparr> else u)"

definition finish_execution ::
  "gate \<Rightarrow> attempt \<Rightarrow> tool_call \<Rightarrow> json \<Rightarrow> json \<Rightarrow> string \<Rightarrow> auth_context option \<Rightarrow> receipt option \<Rightarrow> tool_call act" where
  \<comment> \<open>after the tool has answered\<close>
  "finish_execution G dispatched base input result actor auth receipt =
     (let normalized = (if isJsonObject result then result else JObj [(''value'', result)]) in
      bind_act (completeExecutionAttempt G dispatched Succeeded actor auth (no_outcome\<lparr>oi_result := normalized\<rparr>)) (\<lambda>_.
      bind_act (now_iso G) (\<lambda>now.
      let updated = executed_call base result now in
      bind_act (write_store G (updateToolCall updated)) (\<lambda>_.
      bind_act (receipt_outcome_if G receipt
        \<lparr>ro_auth = auth, ro_error = None, ro_recordedAt = [], ro_recordedBy = actor,
         ro_remediation = remediationFromToolResult G result, ro_result = normalized, ro_resultDelivery = JUndef,
         ro_status = Outcome_Succeeded\<rparr> updated) (\<lambda>_.
      bind_act (if requiresContentExposureBeforeRelease base then release_after_exposure G updated actor auth else give updated) (\<lambda>final.
      bind_act (audit G (tool_event ''tool_call.executed'' actor auth None final
        [(''toolName'', JStr (tc_toolName final)), (''input'', input), (''result'', result),
         (''resultWithheld'', JBool (tc_resultWithheld final = Some True))])) (\<lambda>_. give final)))))))"

definition perform_execution ::
  "gate \<Rightarrow> attempt \<Rightarrow> nat \<Rightarrow> projection \<Rightarrow> tool_call \<Rightarrow> json \<Rightarrow> string \<Rightarrow> auth_context option \<Rightarrow> receipt option
    \<Rightarrow> approval option \<Rightarrow> tool_call act" where
  \<comment> \<open>from the dispatched attempt on\<close>
  "perform_execution G dispatched token p base input actor auth receipt approval =
     bind_act (attempted (currentLocalExecutionAuthorizationBinding G dispatched base approval Dispatched)) (\<lambda>r.
     case r of
       Inl e \<Rightarrow> abort_execution G dispatched UnknownOutcome base input actor auth receipt
                 (error_name e) ''execution_authorization_binding_mismatch'' (gate_message e)
     | Inr (b, storedAttempt, current, storedApproval) \<Rightarrow>
         bind_act (attempted (execute_registered G token b storedAttempt current storedApproval input (tc_toolName base))) (\<lambda>started.
         case started of
           Inl e \<Rightarrow> abort_execution G dispatched UnknownOutcome base input actor auth receipt (error_name e)
                     (case e of GateAuthorization x \<Rightarrow> coalesce (exec_code x) ''executor_threw_after_dispatch''
                      | _ \<Rightarrow> ''executor_threw_after_dispatch'') (gate_message e)
         | Inr promise \<Rightarrow>
             bind_act (auditExecutionAttempt G ''execution.attempt_dispatched'' dispatched actor auth (Some p) None) (\<lambda>_.
             bind_act (at_once G (\<lambda>w. ((), w))) (\<lambda>_.
             case promise of
               ToolResolves result \<Rightarrow> finish_execution G dispatched base input result actor auth receipt
             | ToolRejects n m \<Rightarrow>
                 abort_execution G dispatched UnknownOutcome base input actor auth receipt n ''executor_threw_after_dispatch'' m
             | ToolThrows n m \<Rightarrow>
                 abort_execution G dispatched UnknownOutcome base input actor auth receipt n ''executor_threw_after_dispatch'' m))))"

definition is_influence_conflict :: "gate_error \<Rightarrow> bool" where
  \<comment> \<open>\<open>error instanceof ConflictError && error.message.includes('content_influence_mismatch')\<close>\<close>
  "is_influence_conflict e = (case e of
       GateConflict m \<Rightarrow> list_ex (\<lambda>k. startsWith (drop k m) ''content_influence_mismatch'') [0..<length m]
     | _ \<Rightarrow> False)"

definition dispatch_local ::
  "gate \<Rightarrow> attempt \<Rightarrow> nat \<Rightarrow> projection \<Rightarrow> tool_call \<Rightarrow> json \<Rightarrow> string \<Rightarrow> auth_context option \<Rightarrow> receipt option
    \<Rightarrow> approval option \<Rightarrow> tool_call act" where
  \<comment> \<open>from the issued authorization on\<close>
  "dispatch_local G a token p base input actor auth receipt approval =
     bind_act (attempted (currentLocalExecutionAuthorizationBinding G a base approval Reserved)) (\<lambda>r.
     case r of
       Inl e \<Rightarrow> abort_execution G a FailedBeforeDispatch base input actor auth receipt
                 (error_name e) ''execution_authorization_binding_mismatch'' (gate_message e)
     | Inr _ \<Rightarrow>
         bind_act (attempted (transitionExecutionAttempt G a Reserved Dispatched None (gate_revision_guard (ga_env G) base))) (\<lambda>d.
         case d of
           Inr dispatched \<Rightarrow> perform_execution G dispatched token p base input actor auth receipt approval
         | Inl e \<Rightarrow>
             if \<not> is_influence_conflict e then raise e
             else bind_act (auditInfluenceDispatchMismatchBestEffort G base auth) (\<lambda>_.
               abort_execution G a FailedBeforeDispatch base input actor auth receipt
                 (error_name e) ''content_influence_binding_stale'' (gate_message e))))"

definition local_disabled_message :: string where
  "local_disabled_message = ''Local tool execution is disabled. Use metadata.actionproxyExecution = '' @ [CHR 34] @ ''external''
     @ [CHR 34] @ '' for proxy execution, or set ACTIONPROXY_LOCAL_EXECUTION=mock for local demo tools.''"

definition executeToolCall ::
  "gate \<Rightarrow> tool_call \<Rightarrow> json \<Rightarrow> string \<Rightarrow> auth_context option \<Rightarrow> receipt option \<Rightarrow> approval option \<Rightarrow> tool_call act" where
  "executeToolCall G t input actor auth receipt approval =
     bind_act (finalPolicyRevalidationFailure G t input) (\<lambda>f.
     case f of
       Some m \<Rightarrow> failToolCall G t input actor m auth receipt
     | None \<Rightarrow>
         let E = ga_env G; base = call_with_input t (actionEnvelopeForInput E (actionEnvelopeForToolCall E t) input) input in
         bind_act (reserveExecutionAttempt G base LocalMock actor auth receipt approval) (\<lambda>a.
         if ga_localDisabled G
         then abort_execution G a FailedBeforeDispatch base input actor auth receipt
                ''execution_preflight'' ''local_execution_disabled'' local_disabled_message
         else if \<not> jm_has (ga_tools G) (tc_toolName t)
         then abort_execution G a FailedBeforeDispatch base input actor auth receipt
                ''execution_preflight'' ''tool_not_registered'' (''No tool registered for '' @ tc_toolName t)
         else bind_act (finalPolicyRevalidationFailure G base input) (\<lambda>f'.
         case f' of
           Some m \<Rightarrow> abort_execution G a FailedBeforeDispatch base input actor auth receipt
                      ''execution_authorization'' ''execution_authorization_policy_revalidation_failed'' m
         | None \<Rightarrow>
             bind_act (attempted (issue_authorization G a base approval)) (\<lambda>issued.
             case issued of
               Inl e \<Rightarrow> abort_execution G a FailedBeforeDispatch base input actor auth receipt (error_name e)
                         (case e of GateAuthorization x \<Rightarrow> coalesce (exec_code x) ''execution_authorization_issue_failed''
                          | _ \<Rightarrow> ''execution_authorization_issue_failed'') (gate_message e)
             | Inr (token, p) \<Rightarrow> dispatch_local G a token p base input actor auth receipt approval))))"

section \<open>External execution\<close>

definition service_act :: "service_error + 'a \<Rightarrow> 'a act" where
  "service_act r = (case r of Inl e \<Rightarrow> raise (GateService e) | Inr x \<Rightarrow> give x)"

definition issueGrant :: "gate \<Rightarrow> grant_service \<Rightarrow> prepare_input \<Rightarrow> grant act" where
  \<comment> \<open>\<open>ExecutionGrantService.createGrant\<close> as a computation of the gate\<close>
  "issueGrant G sv i =
     (let E = ga_env G; lost = ConflictError ''Execution grant is not bound to a current reserved execution attempt.'' in
      bind_act (now_ms G) (\<lambda>now. bind_act (fresh_id G) (\<lambda>uuid. bind_act (fresh_id G) (\<lambda>token.
      bind_act (service_act (prepareGrant E sv now uuid token (i\<lparr>pg_deterministicSeed := None, pg_issuedAt := None\<rparr>))) (\<lambda>signed.
      bind_act (bind_act (note_clash G (\<lambda>s. jm_has (st_executionGrants s) (gr_id signed)))
        (\<lambda>_. write_store G (createExecutionGrant signed))) (\<lambda>_.
      bind_act (read_store G (\<lambda>s. getExecutionAttemptByToolCallId s (gr_workspaceId signed) (gr_toolCallId signed))) (\<lambda>found.
      case found of
        None \<Rightarrow> raise (GateService lost)
      | Some a \<Rightarrow>
          if at_state a \<noteq> Reserved \<or> \<not> attemptMatchesGrant a signed False then raise (GateService lost)
          else
            bind_act (update_store G (bindExecutionAttemptGrantAtomically
              \<lparr>gi_attemptId = at_id a, gi_grantId = gr_id signed, gi_reservationOwner = at_reservationOwner a,
               gi_updatedAt = gr_createdAt signed, gi_workspaceId = gr_workspaceId signed\<rparr>)) (\<lambda>binding.
            if fst binding \<noteq> Gb_Bound
              \<and> \<not> (fst binding = Gb_AlreadyBound \<and> Option.bind (snd binding) at_grantId = Some (gr_id signed))
            then raise (GateService (ConflictError ''Execution grant could not bind its reserved execution attempt.''))
            else bind_act (fresh_id G) (\<lambda>k.
              bind_act (wait G (\<lambda>w. ((), recordPreparedGrantCreated E signed (pg_actor i) (pg_auth i) (''audit_'' @ k) w)))
                (\<lambda>_. give signed))))))))))"

definition grant_binding_name :: "grant_binding_outcome \<Rightarrow> string" where
  "grant_binding_name x = (case x of Gb_AlreadyBound \<Rightarrow> ''already_bound'' | Gb_Bound \<Rightarrow> ''bound''
     | Gb_NotFound \<Rightarrow> ''not_found'' | Gb_OwnerMismatch \<Rightarrow> ''owner_mismatch'' | Gb_StateMismatch \<Rightarrow> ''state_mismatch'')"

definition authorization_result :: "receipt option \<Rightarrow> grant \<Rightarrow> json" where
  "authorization_result receipt g =
     redactToolCallResult (JObj
       ([(''ok'', JBool True), (''externalExecution'', JBool True),
         (''note'', JStr ''Execution authorized for an external tool runner.'')]
        @ (case receipt of None \<Rightarrow> [] | Some rc \<Rightarrow> [(''receipt'', encode_receipt rc)])
        @ [(''grant'', encode_grant g)])) \<lparr>rd_fields = None, rd_replacement = None\<rparr>"

definition authorized_event ::
  "tool_call \<Rightarrow> attempt \<Rightarrow> grant \<Rightarrow> receipt option \<Rightarrow> string \<Rightarrow> auth_context option \<Rightarrow> audit_event" where
  "authorized_event t a g receipt actor auth =
     tool_event ''tool_call.authorized'' actor auth None t
       [(''actionEnvelopeHash'', jopt JStr (tc_actionEnvelopeHash t)), (''executionAttemptId'', JStr (at_id a)),
        (''grantId'', JStr (gr_id g)), (''input'', tc_input t), (''receiptId'', jnullable (map_option rc_id receipt)),
        (''receiptHash'', jnullable (map_option rc_receiptHash receipt)), (''result'', tc_result t),
        (''toolName'', JStr (tc_toolName t))]"

definition bind_grant ::
  "gate \<Rightarrow> tool_call \<Rightarrow> attempt \<Rightarrow> grant \<Rightarrow> json \<Rightarrow> string \<Rightarrow> auth_context option \<Rightarrow> receipt option \<Rightarrow> tool_call act" where
  \<comment> \<open>from the issued grant on\<close>
  "bind_grant G base a g input actor auth receipt =
     bind_act (now_iso G) (\<lambda>now.
     bind_act (update_store G (bindExecutionAttemptGrantAtomically
       \<lparr>gi_attemptId = at_id a, gi_grantId = gr_id g, gi_reservationOwner = at_reservationOwner a, gi_updatedAt = now,
        gi_workspaceId = at_workspaceId a\<rparr>)) (\<lambda>(outcome, bound).
     if (outcome \<noteq> Gb_Bound \<and> outcome \<noteq> Gb_AlreadyBound) \<or> Option.bind bound at_grantId \<noteq> Some (gr_id g)
     then abort_execution G a FailedBeforeDispatch base input actor auth receipt ''execution_preflight''
            ''execution_grant_binding_failed'' (''Execution attempt could not be bound to its grant: '' @ grant_binding_name outcome)
     else bind_act (now_iso G) (\<lambda>now'.
       let updated = base\<lparr>tc_input := input, tc_status := Authorized, tc_result := authorization_result receipt g,
             tc_updatedAt := now'\<rparr> in
       bind_act (write_store G (updateToolCall updated)) (\<lambda>_.
       bind_act (audit G (authorized_event updated (the bound) g receipt actor auth)) (\<lambda>_. give updated)))))"

definition authorizeExternalExecution ::
  "gate \<Rightarrow> tool_call \<Rightarrow> json \<Rightarrow> string \<Rightarrow> auth_context option \<Rightarrow> int option \<Rightarrow> receipt option \<Rightarrow> approval option \<Rightarrow> tool_call act" where
  "authorizeExternalExecution G t input actor auth ttlSeconds receipt approval =
     bind_act (finalPolicyRevalidationFailure G t input) (\<lambda>f.
     case f of
       Some m \<Rightarrow> failToolCall G t input actor m auth receipt
     | None \<Rightarrow>
         let E = ga_env G; base = call_with_input t (actionEnvelopeForInput E (actionEnvelopeForToolCall E t) input) input in
         bind_act (reserveExecutionAttempt G base ExternalGrant actor auth receipt approval) (\<lambda>a.
         case ga_grants G of
           None \<Rightarrow> abort_execution G a FailedBeforeDispatch base input actor auth receipt ''execution_preflight''
                    ''execution_grant_missing'' ''External execution authorization failed because no execution grant was issued.''
         | Some sv \<Rightarrow>
             bind_act (attempted (issueGrant G sv
               \<lparr>pg_actor = actor, pg_auth = auth, pg_deterministicSeed = None, pg_issuedAt = None, pg_receipt = receipt,
                pg_toolCall = base, pg_ttlSeconds = ttlSeconds\<rparr>)) (\<lambda>issued.
             case issued of
               Inl e \<Rightarrow> abort_execution G a FailedBeforeDispatch base input actor auth receipt
                         (error_name e) ''execution_grant_creation_failed'' (gate_message e)
             | Inr g \<Rightarrow> bind_grant G base a g input actor auth receipt)))"

end
