(* ===== verification/GateDecide.thy ===== *)
theory GateDecide
  imports GateDispatch
begin

text \<open>
  Deciding an approval (\<open>services/action-gate.ts\<close>): \<open>approveApproval\<close>, \<open>rejectApproval\<close>, \<open>cancelApproval\<close>, the expiry
  every one of them looks for first, and the publication of the authorization of a prepared action. The presentation of
  an approval to its recipients after a decision is part of what the others do.
\<close>

section \<open>Loading and expiring\<close>

definition loadApprovalState :: "gate \<Rightarrow> string \<Rightarrow> auth_context option \<Rightarrow> (approval \<times> tool_call) act" where
  "loadApprovalState G approvalId auth =
     bind_act (read_store G (\<lambda>s. getApproval s approvalId)) (\<lambda>found.
     case found of
       None \<Rightarrow> raise (GateNotFound (''Approval not found: '' @ approvalId))
     | Some ap \<Rightarrow>
         bind_act (check (assertWorkspace (ap_workspaceId ap) auth)) (\<lambda>_.
         bind_act (read_store G (\<lambda>s. getToolCall s (ap_toolCallId ap))) (\<lambda>call.
         case call of
           None \<Rightarrow> raise (GateNotFound (''Tool call not found: '' @ ap_toolCallId ap))
         | Some t \<Rightarrow> bind_act (check (assertWorkspace (tc_workspaceId t) auth)) (\<lambda>_. give (ap, t)))))"

definition terminalizeToolCall :: "gate \<Rightarrow> tool_call \<Rightarrow> string \<Rightarrow> tool_call act" where
  "terminalizeToolCall G t updatedAt =
     (if tc_status t \<noteq> PendingApproval then give t
      else let updated = t\<lparr>tc_status := Rejected, tc_updatedAt := updatedAt\<rparr>
           in bind_act (write_store G (updateToolCall updated)) (\<lambda>_. give updated))"

definition presentation_sync :: "gate \<Rightarrow> unit act" where
  \<comment> \<open>\<open>syncApprovalPresentationBestEffort\<close>, which never fails\<close>
  "presentation_sync G = at_once G (\<lambda>w. ((), w))"

definition expired_event :: "approval \<Rightarrow> tool_call \<Rightarrow> auth_context option \<Rightarrow> audit_event" where
  "expired_event ap t auth =
     tool_event ''approval.expired'' ''actionproxy:approval-expiry'' auth (Some (ap_id ap)) t
       [(''approvalAuthorizationHash'', jnullable (map_option az_authorizationHash (ap_authorization ap))),
        (''expiredAt'', JStr (coalesce (ap_expiredAt ap) (ap_updatedAt ap))), (''source'', JStr ''system'')]"

definition recordExpiredApproval :: "gate \<Rightarrow> approval option \<Rightarrow> tool_call \<Rightarrow> auth_context option \<Rightarrow> unit act" where
  "recordExpiredApproval G approval t auth =
     (case approval of
        None \<Rightarrow> give ()
      | Some ap \<Rightarrow>
          at_last
            (bind_act (terminalizeToolCall G t (coalesce (ap_expiredAt ap) (ap_updatedAt ap))) (\<lambda>_.
               audit G (expired_event ap t auth)))
            (presentation_sync G))"

definition expireApprovalIfNeeded :: "gate \<Rightarrow> approval \<Rightarrow> tool_call \<Rightarrow> auth_context option \<Rightarrow> approval act" where
  \<comment> \<open>the third reading of the clock is the store's own\<close>
  "expireApprovalIfNeeded G ap t auth =
     (case ap_authorization ap of
        None \<Rightarrow> give ap
      | Some a \<Rightarrow>
          if ap_status ap \<noteq> Approval_Pending \<or> \<not> isValidApprovalAuthorization (ga_env G) (encode_authorization a) then give ap
          else
            bind_act (now_ms G) (\<lambda>now.
            if \<not> approvalAuthorizationExpired (ga_env G) a now then give ap
            else
              bind_act (now_iso G) (\<lambda>expiredAt. bind_act (now_ms G) (\<lambda>ms.
              bind_act (update_store G (expireApprovalAtomically (ga_env G) ms (ap_id ap) a expiredAt)) (\<lambda>res.
              if ar_outcome res = Ap_Expired \<and> ar_approval res \<noteq> None
              then bind_act (recordExpiredApproval G (ar_approval res) t auth) (\<lambda>_. give (the (ar_approval res)))
              else give (coalesce (ar_approval res) ap))))))"

definition approval_status_name :: "approval_status \<Rightarrow> string" where
  "approval_status_name s = (case s of Approval_Pending \<Rightarrow> ''pending'' | Approval_Approved \<Rightarrow> ''approved''
     | Approval_Rejected \<Rightarrow> ''rejected'' | Approval_Cancelled \<Rightarrow> ''cancelled'' | Approval_Expired \<Rightarrow> ''expired''
     | Approval_Superseded \<Rightarrow> ''superseded'')"

definition already :: "approval_status \<Rightarrow> string" where
  "already s = ''Approval is already '' @ approval_status_name s"

definition still_pending :: "approval \<Rightarrow> approval \<Rightarrow> gate_error option" where
  \<comment> \<open>the approval that was loaded and the one after looking for its expiry\<close>
  "still_pending loaded ap =
     (if ap_status ap = Approval_Pending then None
      else if ap_status loaded = Approval_Pending \<and> ap_status ap = Approval_Expired
      then Some (GateSynchronizedConflict ''Approval is already expired'')
      else Some (GateConflict (already (ap_status ap))))"

definition finalized_message :: "approval_result \<Rightarrow> string" where
  "finalized_message res = ''Approval is already ''
     @ (case ar_approval res of None \<Rightarrow> ''finalized'' | Some ap \<Rightarrow> approval_status_name (ap_status ap))"

section \<open>Prepared actions\<close>

definition prepared_tool :: "json \<Rightarrow> bool" where
  "prepared_tool envelope = jtruthy (jget envelope ''preparedAction'')"

definition lifecycle_check :: "gate \<Rightarrow> (lifecycle \<Rightarrow> gate_error option) \<Rightarrow> unit act" where
  \<comment> \<open>an awaited check of the installed lifecycle\<close>
  "lifecycle_check G f =
     (case ga_lifecycle G of
        None \<Rightarrow> give ()
      | Some lc \<Rightarrow> bind_act (at_once G (\<lambda>w. ((), w))) (\<lambda>_. check (f lc)))"

definition resolvePreparedInlineEditDisposition :: "gate \<Rightarrow> tool_call \<Rightarrow> bool \<Rightarrow> string option act" where
  "resolvePreparedInlineEditDisposition G t edited =
     (if \<not> edited \<or> \<not> prepared_tool (tc_actionEnvelope t) then give None
      else (case ga_lifecycle G of
          None \<Rightarrow> raise (GateContractUnavailable ''The prepared-action registry is unavailable for this approval.'')
        | Some lc \<Rightarrow>
            bind_act (at_once G (\<lambda>w. ((), w))) (\<lambda>_.
              bind_act (of_result (lc_editMode lc t)) (\<lambda>m. give (Some m)))))"

definition assertExternalDispatchCurrent :: "gate \<Rightarrow> tool_call \<Rightarrow> json \<Rightarrow> unit act" where
  "assertExternalDispatchCurrent G t input =
     bind_act
       (if \<not> prepared_tool (tc_actionEnvelope t) then give ()
        else if ga_lifecycle G = None
        then raise (GateContractUnavailable ''The prepared-action lifecycle is unavailable for this authorized action.'')
        else lifecycle_check G (\<lambda>lc. lc_assertDispatchCurrent lc t input)) (\<lambda>_.
     bind_act (finalPolicyRevalidationFailure G t input) (\<lambda>f.
       case f of Some m \<Rightarrow> raise (GateForbidden m) | None \<Rightarrow> give ()))"

definition publication_event_id :: "gate \<Rightarrow> string \<Rightarrow> tool_call \<Rightarrow> string \<Rightarrow> string" where
  "publication_event_id G approvalId t ty = ''audit_prepared_authorization_'' @ hashJson (ga_env G) (JObj
     [(''approvalId'', JStr approvalId), (''type'', JStr ty), (''workspaceId'', JStr (default_ws (tc_workspaceId t)))])"

definition recordApprovedExternalAuthorizationPublishedBestEffort ::
  "gate \<Rightarrow> string \<Rightarrow> approval \<Rightarrow> attempt \<Rightarrow> auth_context option \<Rightarrow> grant \<Rightarrow> receipt \<Rightarrow> tool_call \<Rightarrow> unit act" where
  \<comment> \<open>each event has its own \<open>try\<close> and an identifier of its own, so that a replay fills in the missing ones\<close>
  "recordApprovedExternalAuthorizationPublishedBestEffort G actor ap a auth g rc t =
     (let event_id = publication_event_id G (ap_id ap) t;
          p = \<lparr>ri_actor = actor, ri_approval = Some ap, ri_auth = auth, ri_decisionKind = HumanApproval,
               ri_input = tc_input t, ri_reviewHash = None, ri_toolCall = t\<rparr>
      in bind_act (silently (audit_with G (Some (event_id ''receipt.created'')) (receipt_created_event rc p))) (\<lambda>_.
         bind_act (silently (auditExecutionAttempt G ''execution.attempt_reserved'' a actor auth None
           (Some (event_id ''execution.attempt_reserved'')))) (\<lambda>_.
         bind_act (silently (wait G (\<lambda>w. ((), recordPreparedGrantCreated (ga_env G) g actor auth
           (event_id ''execution_grant.created'') w)))) (\<lambda>_.
         silently (audit_with G (Some (event_id ''tool_call.authorized''))
           (tool_event ''tool_call.authorized'' actor auth (Some (ap_id ap)) t
             [(''actionEnvelopeHash'', jopt JStr (tc_actionEnvelopeHash t)), (''executionAttemptId'', JStr (at_id a)),
              (''grantId'', JStr (gr_id g)), (''input'', tc_input t), (''receiptHash'', JStr (rc_receiptHash rc)),
              (''receiptId'', JStr (rc_id rc)), (''result'', null_coalesce (tc_result t)),
              (''toolName'', JStr (tc_toolName t))]))))))"

definition final_decision :: "env \<Rightarrow> approval \<Rightarrow> approval_decision option" where
  "final_decision E ap =
     (let ds = js_sort (\<lambda>l r. localeCompare E (ad_decidedAt l) (ad_decidedAt r)) (coalesce (ap_decisions ap) [])
      in if ds = [] then None else Some (last ds))"

definition publication_seed :: "gate \<Rightarrow> approval \<Rightarrow> string \<Rightarrow> tool_call \<Rightarrow> string" where
  "publication_seed G ap issuedAt t = hashJson (ga_env G) (JObj
     [(''approvalAuthorizationHash'', jnullable (map_option az_authorizationHash (ap_authorization ap))),
      (''approvalId'', JStr (ap_id ap)), (''approvedEnvelopeHash'', jopt JStr (ap_approvedEnvelopeHash ap)),
      (''approvedInputHash'', jopt JStr (ap_approvedInputHash ap)), (''finalizedAt'', JStr issuedAt),
      (''toolCallId'', JStr (tc_id t))])"

definition published_result :: "grant \<Rightarrow> receipt \<Rightarrow> json" where
  "published_result g rc = redactToolCallResult (JObj
     [(''externalExecution'', JBool True), (''grant'', encode_grant g),
      (''note'', JStr ''Execution authorized for the server-owned prepared-action executor.''), (''ok'', JBool True),
      (''receipt'', encode_receipt rc)]) \<lparr>rd_fields = None, rd_replacement = None\<rparr>"

definition publication_of ::
  "gate \<Rightarrow> grant_service \<Rightarrow> approval \<Rightarrow> tool_call \<Rightarrow> json \<Rightarrow> string \<Rightarrow> auth_context option \<Rightarrow> string
    \<Rightarrow> service_error + publication_input" where
  \<comment> \<open>the records of the publication, whose identifiers are derived from the finalized approval\<close>
  "publication_of G sv ap base input actor auth issuedAt =
     (let E = ga_env G; seed = publication_seed G ap issuedAt base;
          receipt = prepareActionReceipt G
            \<lparr>ri_actor = actor, ri_approval = Some ap, ri_auth = auth, ri_decisionKind = HumanApproval, ri_input = input,
             ri_reviewHash = ap_reviewHash ap, ri_toolCall = base\<rparr> issuedAt
            (''receipt_'' @ take 32 (hashJson E (JObj [(''kind'', JStr ''prepared-external-receipt''), (''seed'', JStr seed)])))
      in case prepareGrant E sv 0 [] []
          \<lparr>pg_actor = actor, pg_auth = auth, pg_deterministicSeed = Some seed, pg_issuedAt = Some issuedAt,
           pg_receipt = Some receipt, pg_toolCall = base, pg_ttlSeconds = None\<rparr> of
           Inl e \<Rightarrow> Inl e
         | Inr g \<Rightarrow>
             let attemptSeed = hashJson E (JObj [(''grantId'', JStr (gr_id g)),
                   (''kind'', JStr ''prepared-external-attempt''), (''seed'', JStr seed)]);
                 a = (buildExecutionAttempt E [] []
                   \<lparr>bt_approval = Some ap, bt_executionMode = ExternalGrant, bt_id = Some (''attempt_'' @ take 32 attemptSeed),
                    bt_inputHash = coalesce (tc_inputHash base) [], bt_now = issuedAt, bt_receipt = Some receipt,
                    bt_reservationOwner = Some (''reservation_'' @ drop 32 attemptSeed), bt_toolCall = base\<rparr>)
                   \<lparr>at_grantId := Some (gr_id g)\<rparr>
             in Inr \<lparr>pu_approvalId = ap_id ap, pu_attempt = a, pu_grant = g, pu_receipt = receipt,
                  pu_toolCall = base\<lparr>tc_result := published_result g receipt, tc_status := Authorized, tc_updatedAt := issuedAt\<rparr>\<rparr>)"

definition publication_name :: "publication_outcome \<Rightarrow> string" where
  "publication_name x = (case x of Pb_BindingMismatch \<Rightarrow> ''binding_mismatch'' | Pb_Conflict \<Rightarrow> ''conflict''
     | Pb_Created \<Rightarrow> ''created'' | Pb_NotFound \<Rightarrow> ''not_found'' | Pb_Replay \<Rightarrow> ''replay'' | Pb_StateMismatch \<Rightarrow> ''state_mismatch'')"

definition store_failure :: "store_error \<Rightarrow> gate_error" where
  \<comment> \<open>what the failed assertions of the store throw\<close>
  "store_failure e = GateOther ''Error'' (case e of
       IntegrityCheckFailed ms \<Rightarrow> ''Approved external authorization publication failed its integrity check: ''
         @ join_with '', '' ms @ ''.''
     | IdempotencyCandidateMismatch \<Rightarrow> ''Idempotency reservation does not match the candidate tool call.''
     | IdempotencyDanglingToolCall i \<Rightarrow> ''Idempotency record references missing tool call: '' @ i
     | ToolCallExistsWithoutReservation i \<Rightarrow> ''Tool call already exists without this idempotency reservation: '' @ i
     | _ \<Rightarrow> ''Error'')"

definition publish_authorization ::
  "gate \<Rightarrow> publication_input \<Rightarrow> string \<Rightarrow> approval \<Rightarrow> auth_context option \<Rightarrow> tool_call act" where
  "publish_authorization G pu actor ap auth =
     bind_act (update_store G (publishApprovedExternalAuthorizationAtomically (ga_env G) pu)) (\<lambda>res.
     case res of
       Inl e \<Rightarrow> raise (store_failure e)
     | Inr p \<Rightarrow>
         (case (pr_result_toolCall p, pr_result_grant p, pr_result_receipt p, pr_result_attempt p) of
            (Some t, Some g, Some rc, Some a) \<Rightarrow>
              if pr_result_outcome p \<noteq> Pb_Created \<and> pr_result_outcome p \<noteq> Pb_Replay
              then raise (GateConflict (''Prepared-action authorization publication was rejected: ''
                @ publication_name (pr_result_outcome p) @ ''.''))
              else bind_act (recordApprovedExternalAuthorizationPublishedBestEffort G actor ap a auth g rc t) (\<lambda>_. give t)
          | _ \<Rightarrow> raise (GateConflict (''Prepared-action authorization publication was rejected: ''
              @ publication_name (pr_result_outcome p) @ ''.''))))"

definition publishApprovedPreparedExternalAuthorization ::
  "gate \<Rightarrow> approval \<Rightarrow> tool_call \<Rightarrow> auth_context option \<Rightarrow> tool_call act" where
  "publishApprovedPreparedExternalAuthorization G ap t requestAuth =
     (let E = ga_env G; input = jcoalesce (ap_editedInput ap) (ap_originalInput ap) in
      case ga_grants G of
        None \<Rightarrow> raise (GateContractUnavailable
          ''Prepared-action authorization publication is unavailable in this server composition.'')
      | Some sv \<Rightarrow>
          if ap_approvedInputHash ap \<noteq> Some (hashJson E input) \<or> ap_approvedEnvelopeHash ap = None
          then raise (GateConflict ''Approved prepared action does not match its finalized input binding.'')
          else
            bind_act (lifecycle_check G (\<lambda>lc. lc_assertApprovalCurrent lc t input)) (\<lambda>_.
            bind_act (finalPolicyRevalidationFailure G t input) (\<lambda>f.
            case f of
              Some m \<Rightarrow> failToolCall G t input (coalesce (ap_approvedBy ap) ''actionproxy:approval'') m requestAuth None
            | None \<Rightarrow>
                let decision = final_decision E ap;
                    actor = coalesce (or_else (ap_approvedBy ap) (map_option ad_actor decision)) ''actionproxy:approval'';
                    issuedAt = coalesce (or_else (ap_finalizedAt ap) (ap_authorizationConsumedAt ap)) (ap_updatedAt ap);
                    envelope = actionEnvelopeForInput E (actionEnvelopeForToolCall E t) input;
                    decisionAuth = Option.bind decision ad_auth
                in if Some (envelopeHash envelope) \<noteq> ap_approvedEnvelopeHash ap
                   then raise (GateConflict ''Approved prepared action envelope no longer matches the finalized approval.'')
                   else bind_act (service_act (publication_of G sv ap (call_with_input t envelope input) input actor
                       decisionAuth issuedAt)) (\<lambda>pu. publish_authorization G pu actor ap decisionAuth))))"

definition recoverApprovedPreparedExternalAuthorization ::
  "gate \<Rightarrow> approval \<Rightarrow> tool_call \<Rightarrow> auth_context option \<Rightarrow> (approval \<times> tool_call) option act" where
  "recoverApprovedPreparedExternalAuthorization G ap t auth =
     (if ap_status ap \<noteq> Approval_Approved \<or> \<not> prepared_tool (tc_actionEnvelope t)
         \<or> jget (actionEnvelopeForToolCall (ga_env G) t) ''executionMode'' \<noteq> JStr ''external_grant''
         \<or> tc_status t \<notin> {Authorized, PendingApproval}
      then give None
      else at_last
        (bind_act (publishApprovedPreparedExternalAuthorization G ap t auth) (\<lambda>r. give (Some (ap, r))))
        (presentation_sync G))"

section \<open>Approving\<close>

record decide_input =
  \<comment> \<open>the body of the request; \<open>di_editedInput\<close> is \<open>None\<close> if undefined\<close>
  di_approvalNonce :: "string option"
  di_approvedBy :: "string option"
  di_inputDecision :: "input_choice option"
  di_note :: "string option"
  di_editedInput :: "json option"
  di_reviewHash :: "string option"
  di_source :: "string option"

record approval_plan =
  \<comment> \<open>what \<open>approveApproval\<close> has worked out when it records the decision\<close>
  pl_approval :: approval
  pl_toolCall :: tool_call
  pl_choice :: input_choice
  pl_now :: string
  pl_actor :: string
  pl_source :: string
  pl_envelope :: json \<comment> \<open>\<open>actionEnvelope\<close>\<close>
  pl_reviewHash :: string
  pl_approvedInput :: json
  pl_approvedEnvelope :: json

definition edited_json :: "input_choice \<Rightarrow> json" where
  "edited_json c = (case c of ChooseOriginal \<Rightarrow> JUndef | ChooseEdited v \<Rightarrow> v)"

definition approval_plan_of :: "gate \<Rightarrow> approval \<Rightarrow> tool_call \<Rightarrow> input_choice \<Rightarrow> decide_input \<Rightarrow> auth_context option \<Rightarrow> string \<Rightarrow> approval_plan" where
  "approval_plan_of G ap t choice i auth now =
     (let E = ga_env G; envelope = actionEnvelopeForToolCall E t;
          input = (case choice of ChooseOriginal \<Rightarrow> ap_originalInput ap | ChooseEdited v \<Rightarrow> v)
      in \<lparr>pl_approval = ap, pl_toolCall = t, pl_choice = choice, pl_now = now,
          pl_actor = actorForDecision (di_approvedBy i) auth, pl_source = approvalDecisionSource (di_source i) auth,
          pl_envelope = envelope,
          pl_reviewHash = reviewHashFor E (envelopeHash envelope) (ap_id ap) (tc_policyVersionHash t) (tc_id t),
          pl_approvedInput = input, pl_approvedEnvelope = actionEnvelopeForInput E envelope input\<rparr>)"

definition plan_failure :: "approval_plan \<Rightarrow> decide_input \<Rightarrow> gate_error option" where
  "plan_failure p i =
     (let ap = pl_approval p; edited = (pl_choice p \<noteq> ChooseOriginal) in first_of
       [(di_reviewHash i \<noteq> None \<and> di_reviewHash i \<noteq> Some (pl_reviewHash p),
         GateConflict ''Approval review hash is stale or does not match this approval.''),
        (edited \<and> jget (tc_metadata (pl_toolCall p)) ''approvalInputMode'' = JStr ''original_only'',
         GateConflict ''This approval only permits the original input. Reject it and submit a new proposal to make changes.''),
        (edited \<and> max 1 (coalesce (ap_requiredApprovals ap) 1) > 1,
         GateConflict ''Edited input is not supported when requiredApprovals is greater than 1.'')])"

definition plan_decision :: "approval_plan \<Rightarrow> authorization_guard \<Rightarrow> decide_input \<Rightarrow> auth_context option \<Rightarrow> approval_decision" where
  "plan_decision p g i auth =
     (let z = gd_authorization g in
      \<lparr>ad_actor = pl_actor p, ad_auth = auth, ad_authorizationHash = Some (az_authorizationHash z),
       ad_authorizationNonce = Some (az_nonce z), ad_authorizationVersion = Some (az_version z),
       ad_approvedEnvelopeHash = Some (envelopeHash (pl_approvedEnvelope p)),
       ad_approvedInputHash = Some (envelopeInputHash (pl_approvedEnvelope p)), ad_decisionId = az_decisionId z,
       ad_decidedAt = pl_now p, ad_editedInput = edited_json (pl_choice p),
       ad_inputDecision = Some (case pl_choice p of ChooseOriginal \<Rightarrow> Original | ChooseEdited _ \<Rightarrow> Edited),
       ad_note = di_note i, ad_reviewHash = Some (pl_reviewHash p), ad_source = Some (pl_source p)\<rparr>)"

definition plan_input :: "gate \<Rightarrow> approval_plan \<Rightarrow> authorization_guard \<Rightarrow> decide_input \<Rightarrow> auth_context option \<Rightarrow> approval_decision_input" where
  "plan_input G p g i auth =
     \<lparr>dn_approvalId = ap_id (pl_approval p), dn_authorization = g,
      dn_approvedEnvelopeHash = envelopeHash (pl_approvedEnvelope p),
      dn_approvedInputHash = envelopeInputHash (pl_approvedEnvelope p), dn_decision = plan_decision p g i auth,
      dn_editedInput = edited_json (pl_choice p), dn_note = di_note i, dn_reviewHash = pl_reviewHash p,
      dn_updatedAt = pl_now p, dn_contentExposureRevision = gate_revision_guard (ga_env G) (pl_toolCall p)\<rparr>"

definition approved_event ::
  "approval_plan \<Rightarrow> authorization_guard \<Rightarrow> approval \<Rightarrow> bool \<Rightarrow> decide_input \<Rightarrow> auth_context option \<Rightarrow> audit_event" where
  "approved_event p g updated final i auth =
     (let ap = pl_approval p; z = gd_authorization g in
      tool_event (if final then ''approval.approved'' else ''approval.approval_recorded'') (pl_actor p) auth (Some (ap_id ap))
        (pl_toolCall p)
        [(''approvalsRecorded'', jint (int (length (coalesce (ap_decisions updated) [])))),
         (''requiredApprovals'', jint (max 1 (coalesce (ap_requiredApprovals ap) 1))), (''note'', jnullable (di_note i)),
         (''originalInput'', ap_originalInput ap),
         (''editedInput'', (case pl_choice p of ChooseOriginal \<Rightarrow> JNull | ChooseEdited v \<Rightarrow> v)),
         (''inputDecision'', JStr (case pl_choice p of ChooseOriginal \<Rightarrow> ''original'' | ChooseEdited _ \<Rightarrow> ''edited'')),
         (''originalInputHash'', JStr (coalesce (ap_originalInputHash ap) (envelopeInputHash (pl_envelope p)))),
         (''originalEnvelopeHash'', JStr (coalesce (ap_originalEnvelopeHash ap) (envelopeHash (pl_envelope p)))),
         (''approvedInputHash'', JStr (envelopeInputHash (pl_approvedEnvelope p))),
         (''approvedEnvelopeHash'', JStr (envelopeHash (pl_approvedEnvelope p))),
         (''approvalAuthorizationHash'', JStr (az_authorizationHash z)),
         (''approvalAuthorizationVersion'', JStr (az_version z)), (''reviewHash'', JStr (pl_reviewHash p)),
         (''source'', JStr (pl_source p))])"

definition approve_refusal :: "gate \<Rightarrow> string \<Rightarrow> approval_plan \<Rightarrow> approval_result \<Rightarrow> auth_context option \<Rightarrow> unit act" where
  \<comment> \<open>what the outcomes of \<open>recordApprovalDecisionAtomically\<close> other than recorded and finalized do\<close>
  "approve_refusal G approvalId p res auth =
     (case ar_outcome res of
        Ap_NotFound \<Rightarrow> raise (GateNotFound (''Approval not found: '' @ approvalId))
      | Ap_Duplicate \<Rightarrow> raise (GateConflict ''This principal has already approved this request.'')
      | Ap_AuthorizationMismatch \<Rightarrow> raise (GateConflict ''Approval authorization binding changed. Resubmit the action.'')
      | Ap_ContentInfluenceMismatch \<Rightarrow>
          bind_act (auditInfluenceDispatchMismatchBestEffort G (pl_toolCall p) auth) (\<lambda>_.
            raise (GateConflict ''Content-influence evidence changed at approval finalization. Resubmit the action.''))
      | Ap_Expired \<Rightarrow>
          bind_act (recordExpiredApproval G (ar_approval res) (pl_toolCall p) auth) (\<lambda>_.
            raise (GateSynchronizedConflict ''Approval authorization has expired. Resubmit the action.''))
      | Ap_Replayed \<Rightarrow> raise (GateConflict ''Approval authorization nonce has already been consumed.'')
      | Ap_AlreadyFinal \<Rightarrow> raise (GateConflict (finalized_message res))
      | _ \<Rightarrow> give ())"

definition execute_approved ::
  "gate \<Rightarrow> approval_plan \<Rightarrow> authorization_guard \<Rightarrow> approval \<Rightarrow> decide_input \<Rightarrow> auth_context option \<Rightarrow> (approval \<times> tool_call) act" where
  \<comment> \<open>the body of the \<open>try\<close> once the approval is final\<close>
  "execute_approved G p g updated i auth =
     (let t = pl_toolCall p; external = jget (pl_approvedEnvelope p) ''executionMode'' = JStr ''external_grant'' in
      bind_act (audit G (approved_event p g updated True i auth)) (\<lambda>_.
      if prepared_tool (tc_actionEnvelope t) \<and> external
      then bind_act (publishApprovedPreparedExternalAuthorization G updated t auth) (\<lambda>r. give (updated, r))
      else
        bind_act (createActionReceipt_gate G
          \<lparr>ri_actor = pl_actor p, ri_approval = Some updated, ri_auth = auth, ri_decisionKind = HumanApproval,
           ri_input = pl_approvedInput p, ri_reviewHash = Some (pl_reviewHash p), ri_toolCall = t\<rparr>) (\<lambda>rc.
        bind_act (if external
            then authorizeExternalExecution G t (pl_approvedInput p) (pl_actor p) auth None (Some rc) (Some updated)
            else executeToolCall G t (pl_approvedInput p) (pl_actor p) auth (Some rc) (Some updated)) (\<lambda>r.
          give (updated, r)))))"

definition record_approval ::
  "gate \<Rightarrow> string \<Rightarrow> approval_plan \<Rightarrow> decide_input \<Rightarrow> auth_context option \<Rightarrow> (approval \<times> tool_call) act" where
  \<comment> \<open>from \<open>approvalAuthorizationGuard\<close> on\<close>
  "record_approval G approvalId p i auth =
     bind_act (of_result (approvalAuthorizationGuard G (pl_approval p) (pl_toolCall p))) (\<lambda>g.
     bind_act (now_ms G) (\<lambda>ms.
     bind_act (update_store G (recordApprovalDecisionAtomically (ga_env G) ms (plan_input G p g i auth))) (\<lambda>res.
     bind_act (approve_refusal G approvalId p res auth) (\<lambda>_.
       let updated = the (ar_approval res) in
       if ar_outcome res \<noteq> Ap_Finalized
       then bind_act (audit G (approved_event p g updated False i auth)) (\<lambda>_. give (updated, pl_toolCall p))
       else at_last (execute_approved G p g updated i auth) (presentation_sync G)))))"

definition decide_approval ::
  "gate \<Rightarrow> string \<Rightarrow> approval \<Rightarrow> tool_call \<Rightarrow> input_choice \<Rightarrow> decide_input \<Rightarrow> auth_context option \<Rightarrow> (approval \<times> tool_call) act" where
  \<comment> \<open>once the approval is known to be pending, also after looking for its expiry\<close>
  "decide_approval G approvalId ap t choice i auth =
     bind_act (check (if tc_status t \<noteq> PendingApproval
         then Some (GateConflict (''Tool call is not pending approval: '' @ tool_call_status_name (tc_status t))) else None)) (\<lambda>_.
     bind_act (check (assertCanDecideApproval ap auth)) (\<lambda>_.
     bind_act (check (assertClientApprovalNonce ap (di_approvalNonce i))) (\<lambda>_.
     bind_act (now_iso G) (\<lambda>now.
       let p = approval_plan_of G ap t choice i auth now in
       bind_act (check (plan_failure p i)) (\<lambda>_.
       bind_act
         (if \<not> prepared_tool (pl_envelope p) then give ()
          else if ga_lifecycle G = None
          then raise (GateContractUnavailable ''The prepared-action registry is unavailable for this approval.'')
          else lifecycle_check G (\<lambda>lc. lc_assertApprovalCurrent lc t (pl_approvedInput p))) (\<lambda>_.
       bind_act (check (assertApprovalBindingIsCurrent (ga_env G) ap (pl_envelope p) (pl_reviewHash p))) (\<lambda>_.
       bind_act (assertApprovalPolicyIsCurrent G t (pl_approvedInput p) (pl_approvedEnvelope p)) (\<lambda>_.
         record_approval G approvalId p i auth))))))))"

definition approveApproval ::
  "gate \<Rightarrow> string \<Rightarrow> decide_input \<Rightarrow> auth_context option \<Rightarrow> (approval \<times> tool_call) act" where
  "approveApproval G approvalId i auth =
     bind_act (loadApprovalState G approvalId auth) (\<lambda>(ap0, t0).
     bind_act (check (assertCanDecideApproval ap0 auth)) (\<lambda>_.
     bind_act (of_result (approvalInputDecision (ga_env G) (di_editedInput i) (di_inputDecision i))) (\<lambda>choice.
     bind_act (resolvePreparedInlineEditDisposition G t0 (choice \<noteq> ChooseOriginal)) (\<lambda>edit0.
     if ap_status ap0 \<noteq> Approval_Pending
     then (case edit0 of
         Some m \<Rightarrow> raise (GateEditConflict m)
       | None \<Rightarrow>
           bind_act (recoverApprovedPreparedExternalAuthorization G ap0 t0 auth) (\<lambda>recovered.
             case recovered of Some r \<Rightarrow> give r | None \<Rightarrow> raise (GateConflict (already (ap_status ap0)))))
     else
       bind_act (loadApprovalState G approvalId auth) (\<lambda>(ap1, t).
       bind_act (check (assertCanDecideApproval ap1 auth)) (\<lambda>_.
       bind_act (resolvePreparedInlineEditDisposition G t (choice \<noteq> ChooseOriginal)) (\<lambda>edit1.
       case or_else edit1 edit0 of
         Some m \<Rightarrow> raise (GateEditConflict m)
       | None \<Rightarrow>
           bind_act (expireApprovalIfNeeded G ap1 t auth) (\<lambda>ap.
           bind_act (check (still_pending ap1 ap)) (\<lambda>_. decide_approval G approvalId ap t choice i auth)))))))))"

section \<open>Rejecting and cancelling\<close>

record refuse_input =
  \<comment> \<open>the body of a rejection or a cancellation; \<open>fi_by\<close> is \<open>rejectedBy\<close> or \<open>cancelledBy\<close>\<close>
  fi_approvalNonce :: "string option"
  fi_by :: "string option"
  fi_reason :: "string option"
  fi_source :: "string option"

definition load_pending ::
  "gate \<Rightarrow> string \<Rightarrow> auth_context option \<Rightarrow> (approval \<Rightarrow> gate_error option) \<Rightarrow> (approval \<times> tool_call) act" where
  \<comment> \<open>load, check and look for the expiry\<close>
  "load_pending G approvalId auth allowed =
     bind_act (loadApprovalState G approvalId auth) (\<lambda>(loaded, t).
     bind_act (check (allowed loaded)) (\<lambda>_.
     bind_act (expireApprovalIfNeeded G loaded t auth) (\<lambda>ap.
     bind_act (check (still_pending loaded ap)) (\<lambda>_. give (ap, t)))))"

definition refusal_outcome ::
  "gate \<Rightarrow> string \<Rightarrow> string \<Rightarrow> approval_result \<Rightarrow> tool_call \<Rightarrow> auth_context option \<Rightarrow> unit act" where
  \<comment> \<open>the failures of \<open>rejectApprovalAtomically\<close> and \<open>cancelApprovalAtomically\<close>, which differ in one message\<close>
  "refusal_outcome G approvalId mismatch_message res t auth =
     (case ar_outcome res of
        Ap_NotFound \<Rightarrow> raise (GateNotFound (''Approval not found: '' @ approvalId))
      | Ap_AuthorizationMismatch \<Rightarrow> raise (GateConflict mismatch_message)
      | Ap_Expired \<Rightarrow>
          bind_act (recordExpiredApproval G (ar_approval res) t auth) (\<lambda>_.
            raise (GateSynchronizedConflict ''Approval authorization has expired.''))
      | Ap_Replayed \<Rightarrow> raise (GateConflict ''Approval authorization nonce has already been consumed.'')
      | Ap_AlreadyFinal \<Rightarrow> raise (GateConflict (finalized_message res))
      | _ \<Rightarrow> give ())"

definition load_to_refuse :: "gate \<Rightarrow> string \<Rightarrow> refuse_input \<Rightarrow> auth_context option \<Rightarrow> (approval \<times> tool_call) act" where
  \<comment> \<open>the two loads both methods begin with\<close>
  "load_to_refuse G approvalId i auth =
     bind_act (load_pending G approvalId auth (\<lambda>ap. assertCanDecideApproval ap auth)) (\<lambda>(ap0, _).
     bind_act (check (assertClientApprovalNonce ap0 (fi_approvalNonce i))) (\<lambda>_.
       load_pending G approvalId auth (\<lambda>_. None)))"

definition rejectApproval :: "gate \<Rightarrow> string \<Rightarrow> refuse_input \<Rightarrow> auth_context option \<Rightarrow> (approval \<times> tool_call) act" where
  "rejectApproval G approvalId i auth =
     bind_act (load_to_refuse G approvalId i auth) (\<lambda>(ap, t).
     bind_act (now_iso G) (\<lambda>now.
     let actor = actorForDecision (fi_by i) auth; source = approvalDecisionSource (fi_source i) auth in
     bind_act (check (assertCanDecideApproval ap auth)) (\<lambda>_.
     bind_act (check (assertClientApprovalNonce ap (fi_approvalNonce i))) (\<lambda>_.
     bind_act (now_ms G) (\<lambda>ms.
     bind_act (update_store G (rejectApprovalAtomically (ga_env G) ms (ap_id ap)
       (safeTerminalAuthorizationGuard (ga_env G) ap t) (fi_reason i) actor now)) (\<lambda>res.
     bind_act (refusal_outcome G approvalId ''Approval authorization binding changed. Cancel or resubmit the action.'' res t auth) (\<lambda>_.
       let updated = the (ar_approval res); t' = t\<lparr>tc_status := Rejected, tc_updatedAt := now\<rparr> in
       at_last
         (bind_act (write_store G (updateToolCall t')) (\<lambda>_.
          bind_act (audit G (tool_event ''approval.rejected'' actor auth (Some (ap_id ap)) t
            [(''reason'', jnullable (fi_reason i)), (''source'', JStr source)])) (\<lambda>_. give (updated, t'))))
         (presentation_sync G))))))))"

definition cancelApproval :: "gate \<Rightarrow> string \<Rightarrow> refuse_input \<Rightarrow> auth_context option \<Rightarrow> (approval \<times> tool_call) act" where
  "cancelApproval G approvalId i auth =
     bind_act (load_to_refuse G approvalId i auth) (\<lambda>(ap, t).
     bind_act (check (assertCanDecideApproval ap auth)) (\<lambda>_.
     bind_act (check (assertClientApprovalNonce ap (fi_approvalNonce i))) (\<lambda>_.
     bind_act (now_iso G) (\<lambda>now.
     let actor = actorForDecision (fi_by i) auth; source = approvalDecisionSource (fi_source i) auth in
     bind_act (now_ms G) (\<lambda>ms.
     bind_act (update_store G (cancelApprovalAtomically (ga_env G) ms (ap_id ap)
       (safeTerminalAuthorizationGuard (ga_env G) ap t) (fi_reason i) actor now)) (\<lambda>res.
     bind_act (refusal_outcome G approvalId ''Approval authorization binding changed. Resubmit the action.'' res t auth) (\<lambda>_.
       let updated = the (ar_approval res) in
       at_last
         (bind_act (terminalizeToolCall G t now) (\<lambda>t'.
          bind_act (audit G (tool_event ''approval.cancelled'' actor auth (Some (ap_id ap)) t
            [(''approvalAuthorizationHash'', jnullable (map_option az_authorizationHash (ap_authorization ap))),
             (''reason'', jnullable (fi_reason i)), (''source'', JStr source)])) (\<lambda>_. give (updated, t'))))
         (presentation_sync G))))))))"

end
