(* ===== verification/GateSubmit.thy ===== *)
theory GateSubmit
  imports GateDecide
begin

text \<open>
  Submitting a tool call and reading the records of the gate (\<open>services/action-gate.ts\<close>). A submission is normalized,
  evaluated and stored, and then denied, queued for approval or executed. A lifecycle that itself prepares and stores a
  submission belongs to other editions: here the installed one, if any, prepares nothing for the tool. Notifications and
  the observation of the policy detector write records of their own, they are part of what the others do and may fail.
\<close>

section \<open>The request\<close>

record submit_options =
  so_actionContractId :: "string option"
  so_auth :: "auth_context option"
  so_connectionId :: "string option"
  so_forceApproval :: "bool option"
  so_idempotencyKey :: "string option"
  so_ingress :: "ingress option"
  so_supersedesIntentId :: "string option"
  so_toolCallId :: "string option"

definition submit_route :: string where "submit_route = ''POST /v1/tool-calls''"

definition encode_hints :: "action_hints \<Rightarrow> json" where
  "encode_hints h = JObj
     [(''context'', ah_context h), (''executionMode'', jopt (JStr \<circ> execution_mode_name) (ah_executionMode h)),
      (''operation'', ah_operation h), (''protocol'', jopt JStr (ah_protocol h)), (''resources'', jopt JArr (ah_resources h)),
      (''source'', ah_source h)]"

definition encode_submit_request :: "submit_request \<Rightarrow> json" where
  "encode_submit_request q = JObj
     [(''action'', jopt encode_hints (sr_action q)), (''agentId'', JStr (sr_agentId q)), (''input'', sr_input q),
      (''metadata'', sr_metadata q), (''reason'', JStr (sr_reason q)), (''requestedBy'', JStr (sr_requestedBy q)),
      (''toolName'', JStr (sr_toolName q))]"

definition submit_request_hash :: "env \<Rightarrow> submit_request \<Rightarrow> submit_options \<Rightarrow> string" where
  "submit_request_hash E q o' = hashJson E (JObj
     [(''actionContractId'', jnullable (so_actionContractId o')), (''connectionId'', jnullable (so_connectionId o')),
      (''forceApproval'', JBool (coalesce (so_forceApproval o') False)), (''proposalRequest'', encode_submit_request q),
      (''route'', JStr submit_route), (''supersedesIntentId'', jnullable (so_supersedesIntentId o')),
      (''toolCallId'', jnullable (so_toolCallId o')), (''revision'', JNull)])"

definition getToolCall_gate :: "gate \<Rightarrow> string \<Rightarrow> auth_context option \<Rightarrow> tool_call act" where
  "getToolCall_gate G i auth =
     bind_act (read_store G (\<lambda>s. getToolCall s i)) (\<lambda>found.
     case found of
       None \<Rightarrow> raise (GateNotFound (''Tool call not found: '' @ i))
     | Some t \<Rightarrow> bind_act (check (assertWorkspace (tc_workspaceId t) auth)) (\<lambda>_. give t))"

section \<open>A prepared submission that is replayed\<close>

definition minimizedInfluenceAudit :: "influence_evidence \<Rightarrow> json" where
  "minimizedInfluenceAudit e = JObj
     [(''baseDecision'', JStr (decision_name (ci_baseDecision e))), (''bindingHash'', JStr (ci_bindingHash e)),
      (''effectiveDecision'', JStr (decision_name (ci_effectiveDecision e))),
      (''exposureSnapshotHash'', JStr (ci_exposureSnapshotHash e)), (''influenceScopeId'', jnullable (ci_scopeId e)),
      (''observedSources'', JArr (map (JStr \<circ> source_name) (ci_observedSources e))),
      (''sourceReferences'', JArr (map (\<lambda>r. JObj
         ([(''integrity'', JStr (integrity_name (sr_integrity r)))]
          @ (if truthy (sr_sourceId r) then [(''sourceId'', JStr (the (sr_sourceId r)))] else [])
          @ [(''sourceToolCallId'', JStr (sr_sourceToolCallId r))])) (ci_sourceReferences e)))]"

definition prepared_members :: "json \<Rightarrow> string list \<Rightarrow> (string \<times> json) list" where
  "prepared_members binding keys = map (\<lambda>k. (k, jget binding k)) keys"

definition audit_at :: "gate \<Rightarrow> string \<Rightarrow> string \<Rightarrow> audit_event \<Rightarrow> unit act" where
  \<comment> \<open>with the given identifier and time\<close>
  "audit_at G i at e = wait G (\<lambda>w. ((), append_audit (ga_env G)
     (e\<lparr>ev_id := i, ev_timestamp := at,
        ev_workspaceId := or_else (ev_workspaceId e) (or_else (map_option au_workspaceId (ev_auth e)) (ga_workspaceId G))\<rparr>) w))"

definition envelope_event_data :: "tool_call \<Rightarrow> json \<Rightarrow> (string \<times> json) list" where
  "envelope_event_data t envelope =
     [(''actionEnvelope'', envelope), (''actionEnvelopeHash'', jopt JStr (tc_actionEnvelopeHash t)),
      (''canonicalActionRequestHash'', jopt JStr (tc_canonicalActionRequestHash t)),
      (''canonicalActionRequestVersion'', jopt JStr (tc_canonicalActionRequestVersion t)),
      (''canonicalDecisionInputHash'', jopt JStr (tc_canonicalDecisionInputHash t)),
      (''canonicalPolicyContext'', tc_canonicalPolicyContext t)]"

definition prepared_submission_events :: "string \<Rightarrow> approval option \<Rightarrow> auth_context option \<Rightarrow> tool_call \<Rightarrow> audit_event list" where
  "prepared_submission_events actor approval auth t =
     (let envelope = tc_actionEnvelope t; binding = jget envelope ''preparedAction''; influence = tc_contentInfluence t;
          ev = (\<lambda>ty approvalId data. tool_event ty actor auth approvalId t data);
          minimized = (\<lambda>e. jmembers (minimizedInfluenceAudit e)) in
      [ev ''prepared_action.created'' None (prepared_members binding
         [''adapterId'', ''adapterVersion'', ''contractId'', ''contractVersion'', ''intentHash'', ''intentId'',
          ''operationHash'', ''serializerVersion'']),
       ev ''tool_call.submitted'' None
         [(''agentId'', JStr (tc_agentId t)), (''decisionV1'', jget (tc_decisionTrace t) ''decisionV1''), (''input'', tc_input t),
          (''preparedIntentHash'', jget binding ''intentHash''), (''reason'', JStr (tc_reason t)),
          (''toolName'', JStr (tc_toolName t))],
       ev ''action.envelope_created'' None (envelope_event_data t envelope
         @ [(''executionMode'', jget envelope ''executionMode''), (''protocol'', jget envelope ''protocol''),
            (''source'', jget envelope ''source'')])]
      @ (case influence of None \<Rightarrow> [] | Some e \<Rightarrow> [ev ''content.influence_evaluated'' None (jmembers (encode_influence e))])
      @ [ev (if tc_decision t = Some Deny then ''policy.deny'' else if tc_decision t = Some Allow then ''policy.allow''
             else ''policy.require_approval'') None
           [(''reason'', jopt JStr (tc_policyReason t)), (''risk'', jopt JStr (tc_risk t))]]
      @ (case influence of None \<Rightarrow> []
         | Some e \<Rightarrow> if ci_baseDecision e \<noteq> ci_effectiveDecision e \<and> ci_effectiveDecision e = Deny
             then [ev ''content.influence_denied'' None (minimized e)] else [])
      @ (case (approval, influence) of
           (Some ap, Some e) \<Rightarrow> if ci_baseDecision e = Allow \<and> ci_effectiveDecision e = RequireApproval
             then [ev ''content.influence_approval_required'' (Some (ap_id ap)) (minimized e)] else []
         | _ \<Rightarrow> [])
      @ (case approval of None \<Rightarrow> []
         | Some ap \<Rightarrow> [ev ''approval.created'' (Some (ap_id ap))
             [(''approvalAuthorizationHash'', jnullable (map_option az_authorizationHash (ap_authorization ap))),
              (''approvalAuthorizationVersion'', jnullable (map_option az_version (ap_authorization ap))),
              (''approverGroups'', jstrings (coalesce (ap_approverGroups ap) [])),
              (''approverUsers'', jstrings (coalesce (ap_approverUsers ap) [])),
              (''expiresAt'', jnullable (map_option az_expiresAt (ap_authorization ap))),
              (''originalEnvelopeHash'', jnullable (ap_originalEnvelopeHash ap)), (''originalInput'', ap_originalInput ap),
              (''originalInputHash'', jnullable (ap_originalInputHash ap)),
              (''requiredApprovals'', jint (coalesce (ap_requiredApprovals ap) 1)), (''reviewHash'', jnullable (ap_reviewHash ap)),
              (''separationOfDuties'', JBool (coalesce (ap_separationOfDuties ap) False))]]))"

definition prepared_submission_id :: "env \<Rightarrow> audit_event \<Rightarrow> string" where
  "prepared_submission_id E e = ''audit_prepared_submission_'' @ hashJson E (JObj
     [(''approvalId'', jnullable (ev_approvalId e)), (''toolCallId'', jopt JStr (ev_toolCallId e)), (''type'', JStr (ev_type e)),
      (''workspaceId'', JStr (default_ws (ev_workspaceId e)))])"

primrec each_in_turn :: "('a \<Rightarrow> unit act) \<Rightarrow> 'a list \<Rightarrow> unit act" where
  "each_in_turn f [] = give ()"
| "each_in_turn f (x # xs) = bind_act (f x) (\<lambda>_. each_in_turn f xs)"

definition recordPreparedSubmissionPublishedBestEffort ::
  "gate \<Rightarrow> string \<Rightarrow> approval option \<Rightarrow> auth_context option \<Rightarrow> tool_call \<Rightarrow> unit act" where
  "recordPreparedSubmissionPublishedBestEffort G actor approval auth t =
     (if \<not> prepared_tool (tc_actionEnvelope t) then give ()
      else each_in_turn
        (\<lambda>e. silently (audit_at G (prepared_submission_id (ga_env G) e)
           (coalesce (map_option ap_createdAt approval) (tc_createdAt t)) e))
        (prepared_submission_events actor approval auth t))"

definition replayed_submission ::
  "gate \<Rightarrow> submit_request \<Rightarrow> submit_options \<Rightarrow> string \<Rightarrow> (approval option \<times> tool_call) act" where
  \<comment> \<open>what an idempotency record of the same request answers\<close>
  "replayed_submission G q o' toolCallId =
     bind_act (getToolCall_gate G toolCallId (so_auth o')) (\<lambda>t.
     let prepared = prepared_tool (tc_actionEnvelope t) in
     bind_act (check (if (case ga_lifecycle G of None \<Rightarrow> False | Some lc \<Rightarrow> lc_isPreparedAction lc (sr_toolName q)) \<and> \<not> prepared
       then Some (GateConflict (''Idempotency record points to an unprepared action where a prepared intent is required. ''
         @ ''Reject and resubmit with a new key.''))
       else None)) (\<lambda>_.
     bind_act (read_store G (\<lambda>s. getApprovalByToolCallId s (tc_id t))) (\<lambda>approval.
     bind_act (check (if approval = None \<and> prepared \<and> tc_decision t = Some RequireApproval
       then Some (GateConflict ''Prepared-action approval publication is incomplete; reject and resubmit with a new key.'')
       else None)) (\<lambda>_.
     bind_act (recordPreparedSubmissionPublishedBestEffort G (actorForSubmit q (so_auth o')) approval (so_auth o') t) (\<lambda>_.
       give (approval, t))))))"

section \<open>Evaluating a submission\<close>

definition normalize_failure :: "normalize_error \<Rightarrow> gate_error" where
  "normalize_failure e = GateContext (case e of
       TenantMismatch \<Rightarrow> ''Authenticated tenant does not match the server-resolved workspace.''
     | NotCanonical _ \<Rightarrow> ''canonicalization'')"

definition canonical_of ::
  "env \<Rightarrow> submit_request \<Rightarrow> submit_options \<Rightarrow> string \<Rightarrow> string \<Rightarrow> string
    \<Rightarrow> gate_error + (canonical_request \<times> request_integrity) option" where
  "canonical_of E q o' now i ws =
     (case so_ingress o' of
        None \<Rightarrow> Inr None
      | Some g \<Rightarrow>
          (case normalizeActionRequest E
              \<lparr>ni_auth = so_auth o', ni_idempotencyKey = so_idempotencyKey o', ni_ingress = g, ni_receivedAt = now,
               ni_request = q, ni_requestId = i, ni_trustedCredentialReference = None, ni_trustedExecutionMode = None,
               ni_trustedOperation = None, ni_trustedPolicy = None, ni_trustedResources = None, ni_workspaceId = ws\<rparr> of
             Inl e \<Rightarrow> Inl (normalize_failure e) | Inr c \<Rightarrow> Inr (Some c)))"

definition forced_evaluation :: "bool \<Rightarrow> policy_evaluation \<Rightarrow> policy_evaluation" where
  "forced_evaluation force ev =
     (if force \<and> pe_decision ev = Allow
      then ev\<lparr>pe_decision := RequireApproval,
        pe_reason := pe_reason ev @ '' This server-owned action contract requires human approval.''\<rparr>
      else ev)"

definition submitted_call ::
  "gate \<Rightarrow> submit_request \<Rightarrow> submit_options \<Rightarrow> (canonical_request \<times> request_integrity) option \<Rightarrow> influence_evidence option
    \<Rightarrow> policy_evaluation \<Rightarrow> string \<Rightarrow> string \<Rightarrow> string \<Rightarrow> tool_call" where
  "submitted_call G q o' canonical influence ev i now ws =
     (let E = ga_env G; actor = actorForSubmit q (so_auth o'); h = currentPolicyVersionHash G;
          envelope = normalizeActionEnvelope E actor (so_auth o') q
      in \<lparr>tc_id = i, tc_workspaceId = Some ws, tc_toolName = sr_toolName q, tc_input = sr_input q,
          tc_inputHash = Some (envelopeInputHash envelope), tc_actionEnvelope = envelope,
          tc_actionEnvelopeHash = Some (envelopeHash envelope),
          tc_canonicalActionRequestHash = map_option (in_requestHash \<circ> snd) canonical,
          tc_canonicalActionRequestVersion = map_option (\<lambda>_. CANONICAL_ACTION_REQUEST_VERSION) canonical,
          tc_canonicalDecisionInputHash = map_option (in_decisionInputHash \<circ> snd) canonical,
          tc_canonicalPolicyContext = jopt (encode_policy \<circ> cr_policy \<circ> fst) canonical,
          tc_contentInfluence = influence, tc_influenceScopeId = verifiedInfluenceScopeId (map_option fst canonical),
          tc_requestedBy = actor, tc_requestedByAuth = so_auth o', tc_agentId = sr_agentId q, tc_reason = sr_reason q,
          tc_metadata = request_metadata q, tc_status = Submitted, tc_decision = Some (pe_decision ev),
          tc_authorizationDecision = Some (pe_decision ev), tc_authorizationReason = Some (pe_reason ev),
          tc_decisionTrace = JUndef, tc_policyReason = Some (pe_reason ev),
          tc_policyVersionId = Some (currentPolicyVersionId G h), tc_policyVersionHash = Some h, tc_resultDelivery = JUndef,
          tc_resultSource = frozenResultSource (pe_rule ev) (ga_policy G), tc_resultWithheld = None,
          tc_risk = Some (pe_risk ev), tc_result = JUndef, tc_error = None, tc_createdAt = now, tc_updatedAt = now\<rparr>)"

definition trace_failure :: "trace_error \<Rightarrow> gate_error" where
  "trace_failure e = GateContext (case e of TraceContext m \<Rightarrow> m | _ \<Rightarrow> ''canonicalization'')"

definition traced_in :: "gate \<Rightarrow> provider_evaluation option \<Rightarrow> tool_call \<Rightarrow> store option \<Rightarrow> gate_error + json" where
  "traced_in G e t directory =
     (case tracePolicyForToolCall (ga_env G)
         \<lparr>ti_directory = directory, ti_policy = ga_policy G, ti_policyVersionHash = tc_policyVersionHash t,
          ti_policyVersionId = tc_policyVersionId t, ti_policyProvider = None, ti_providerEvaluation = e\<rparr> t of
        Inl err \<Rightarrow> Inl (trace_failure err) | Inr v \<Rightarrow> Inr v)"

definition decisionTraceForToolCall :: "gate \<Rightarrow> tool_call \<Rightarrow> provider_evaluation \<Rightarrow> json act" where
  \<comment> \<open>the directory is asked only when an approval is required\<close>
  "decisionTraceForToolCall G t e =
     bind_act
       (if ga_directory G \<and> et_decision (pv_trace e) = RequireApproval
        then read_store G (\<lambda>s. traced_in G (Some e) t (Some s))
        else give (traced_in G (Some e) t (if ga_directory G then Some empty_store else None))) of_result"

definition with_trace :: "tool_call \<Rightarrow> (canonical_request \<times> request_integrity) option \<Rightarrow> json \<Rightarrow> tool_call" where
  \<comment> \<open>the trace with the evidence of the request and of the influence; classified output starts withheld\<close>
  "with_trace t canonical trace =
     (let t' = t\<lparr>tc_decisionTrace := jwith trace
            ((case canonical of None \<Rightarrow> [] | Some (r, _) \<Rightarrow> [(''canonicalRequestEvidence'', canonicalActionRequestEvidence r)])
             @ (case tc_contentInfluence t of None \<Rightarrow> [] | Some e \<Rightarrow> [(''contentInfluence'', encode_influence e)]))\<rparr>
      in if requiresContentExposureBeforeRelease t' then t'\<lparr>tc_resultWithheld := Some True\<rparr> else t')"

record submission =
  \<comment> \<open>an evaluated submission\<close>
  sm_request :: submit_request
  sm_options :: submit_options
  sm_now :: string
  sm_workspaceId :: string
  sm_canonical :: "canonical_request option"
  sm_evaluation :: policy_evaluation
  sm_toolCall :: tool_call

definition sm_auth :: "submission \<Rightarrow> auth_context option" where
  "sm_auth m = so_auth (sm_options m)"

definition sm_actor :: "submission \<Rightarrow> string" where
  "sm_actor m = actorForSubmit (sm_request m) (sm_auth m)"

definition evaluate_submission ::
  "gate \<Rightarrow> submit_request \<Rightarrow> submit_options \<Rightarrow> string \<Rightarrow> string \<Rightarrow> string \<Rightarrow> submission act" where
  "evaluate_submission G q o' now ws i =
     bind_act (of_result (canonical_of (ga_env G) q o' now i ws)) (\<lambda>canonical.
     let request = map_option fst canonical; h = currentPolicyVersionHash G;
         cx = (case request of Some r \<Rightarrow> policyContextFromCanonicalActionRequest r | None \<Rightarrow> policyContextFromSubmit q);
         base = gateEvaluatePolicyProvider G (sr_toolName q) cx; ev0 = et_evaluation (pv_trace base) in
     bind_act (evaluateInfluence G ev0 now (verifiedInfluenceScopeId request) h (Some (currentPolicyVersionId G h)) ws) (\<lambda>influence.
     let ev = forced_evaluation (so_forceApproval o' = Some True) (effectivePolicyEvaluation ev0 influence);
         t = submitted_call G q o' canonical influence ev i now ws in
     bind_act (decisionTraceForToolCall G t (providerEvaluationWithEffectiveDecision base ev)) (\<lambda>trace.
       give \<lparr>sm_request = q, sm_options = o', sm_now = now, sm_workspaceId = ws, sm_canonical = request, sm_evaluation = ev,
         sm_toolCall = with_trace t canonical trace\<rparr>)))"

section \<open>The pending approval\<close>

definition DEFAULT_APPROVAL_AUTHORIZATION_TTL_MS :: int where
  "DEFAULT_APPROVAL_AUTHORIZATION_TTL_MS = 24 * 60 * 60 * 1000"

definition authorization_failure_error :: "authorization_error \<Rightarrow> gate_error" where
  "authorization_failure_error e = (case e of
       PolicyVersionHashMissing \<Rightarrow> GateOther ''Error'' ''Approval authorization requires an immutable policy version hash.''
     | NotIsoTimestamp field \<Rightarrow>
         GateOther ''Error'' (''Approval authorization '' @ field @ '' must be an ISO timestamp.'')
     | ExpiryNotAfterIssuance \<Rightarrow> GateOther ''Error'' ''Approval authorization expiry must be later than issuance.''
     | ApprovalAuth.NotCanonical _ \<Rightarrow> GateContext ''canonicalization'')"

definition approval_expiry :: "gate \<Rightarrow> string \<Rightarrow> gate_error + string" where
  "approval_expiry G now =
     (case dateParse (ga_env G) now of
        None \<Rightarrow> Inl (GateOther ''RangeError'' ''Invalid time value'')
      | Some ms \<Rightarrow>
          let at = ms + max 1 (coalesce (ga_authorizationTtlMs G) DEFAULT_APPROVAL_AUTHORIZATION_TTL_MS)
          in if valid_time at then Inr (isoString (ga_env G) at) else Inl (GateOther ''RangeError'' ''Invalid time value''))"

definition resolveApprovalRecipients :: "gate \<Rightarrow> policy_rule \<Rightarrow> string \<Rightarrow> recipient list option act" where
  "resolveApprovalRecipients G rule ws =
     (if ga_directory G then read_store G (\<lambda>s. Some (resolveRecipients (ga_env G) rule ws s)) else give None)"

definition pending_authorization ::
  "gate \<Rightarrow> submission \<Rightarrow> tool_call \<Rightarrow> string list option \<Rightarrow> string \<Rightarrow> string \<Rightarrow> string \<Rightarrow> gate_error + authorization" where
  \<comment> \<open>for the approval \<open>approvalId\<close> of the pending tool call\<close>
  "pending_authorization G m t approverUsers approvalId nonce expiresAt =
     (let a = pr_approvers (pe_rule (sm_evaluation m)); envelope = tc_actionEnvelope (sm_toolCall m) in
      case buildApprovalAuthorization (ga_env G) nonce
        \<lparr>ba_approvalId = approvalId, ba_approverGroups = Some (coalesce (Option.bind a ra_groups) []),
         ba_approverUsers = approverUsers, ba_expiresAt = expiresAt, ba_issuedAt = sm_now m, ba_nonce = None,
         ba_originalEnvelopeHash = envelopeHash envelope, ba_originalInputHash = envelopeInputHash envelope,
         ba_requestedBy = sm_actor m, ba_requestedByPrincipalId = map_option au_principalId (sm_auth m),
         ba_requiredApprovals = Some (coalesce (Option.bind a ra_requiredApprovals) 1),
         ba_reviewHash = reviewHashFor (ga_env G) (envelopeHash envelope) approvalId (tc_policyVersionHash t) (tc_id t),
         ba_separationOfDuties = Some (coalesce (Option.bind a ra_separationOfDuties) False), ba_toolCall = t\<rparr> of
        Inl e \<Rightarrow> Inl (authorization_failure_error e) | Inr z \<Rightarrow> Inr z)"

definition pending_approval :: "gate \<Rightarrow> submission \<Rightarrow> tool_call \<Rightarrow> string list option \<Rightarrow> string \<Rightarrow> authorization \<Rightarrow> approval" where
  "pending_approval G m t approverUsers approvalId z =
     (let a = pr_approvers (pe_rule (sm_evaluation m)); envelope = tc_actionEnvelope (sm_toolCall m)
      in \<lparr>ap_id = approvalId, ap_workspaceId = Some (sm_workspaceId m), ap_toolCallId = tc_id t, ap_status = Approval_Pending,
          ap_requestedBy = sm_actor m, ap_requestedByAuth = sm_auth m, ap_authorization = Some z,
          ap_authorizationConsumedAt = None, ap_authorizationConsumedReason = None, ap_approvedBy = None,
          ap_cancelledAt = None, ap_cancelledBy = None, ap_cancellationReason = None, ap_expiredAt = None,
          ap_finalizedAt = None, ap_rejectedBy = None, ap_note = None, ap_rejectionReason = None,
          ap_originalInput = sr_input (sm_request m), ap_originalEnvelopeHash = Some (envelopeHash envelope),
          ap_originalInputHash = Some (envelopeInputHash envelope), ap_editedInput = JUndef,
          ap_approvedEnvelopeHash = None, ap_approvedInputHash = None,
          ap_reviewHash = Some (reviewHashFor (ga_env G) (envelopeHash envelope) approvalId (tc_policyVersionHash t) (tc_id t)),
          ap_approverUsers = approverUsers, ap_approverGroups = Some (coalesce (Option.bind a ra_groups) []),
          ap_requiredApprovals = Some (coalesce (Option.bind a ra_requiredApprovals) 1),
          ap_separationOfDuties = Some (coalesce (Option.bind a ra_separationOfDuties) False),
          ap_supersededAt = None, ap_supersededByApprovalId = None, ap_decisions = Some [],
          ap_createdAt = sm_now m, ap_updatedAt = sm_now m\<rparr>)"

definition buildPendingApprovalCandidate :: "gate \<Rightarrow> submission \<Rightarrow> (approval \<times> tool_call) act" where
  \<comment> \<open>of a submission that is not prepared; the first random value is the approval's, the second the nonce\<close>
  "buildPendingApprovalCandidate G m =
     bind_act (resolveApprovalRecipients G (pe_rule (sm_evaluation m)) (sm_workspaceId m)) (\<lambda>resolved.
     let users = approvalApproverUsersFor (pe_rule (sm_evaluation m)) resolved;
         t = (sm_toolCall m)\<lparr>tc_status := PendingApproval, tc_updatedAt := sm_now m\<rparr> in
     bind_act (fresh_id G) (\<lambda>uuid.
     bind_act (of_result (approval_expiry G (sm_now m))) (\<lambda>expiresAt.
     bind_act (fresh_id G) (\<lambda>nonce.
     bind_act (of_result (pending_authorization G m t users (''approval_'' @ uuid) nonce expiresAt)) (\<lambda>z.
       give (pending_approval G m t users (''approval_'' @ uuid) z, t))))))"

section \<open>Submitting\<close>

definition audit_submission :: "gate \<Rightarrow> submission \<Rightarrow> tool_call \<Rightarrow> string \<Rightarrow> string option \<Rightarrow> (string \<times> json) list \<Rightarrow> unit act" where
  "audit_submission G m t ty approvalId data = audit G (tool_event ty (sm_actor m) (sm_auth m) approvalId t data)"

definition policy_data :: "submission \<Rightarrow> (string \<times> json) list" where
  "policy_data m = [(''reason'', JStr (pe_reason (sm_evaluation m))), (''risk'', JStr (pe_risk (sm_evaluation m))),
     (''matchedRule'', JStr (pe_matchedRule (sm_evaluation m)))]"

definition observed_elsewhere :: "gate \<Rightarrow> unit act" where
  \<comment> \<open>an awaited call of another service, which may fail\<close>
  "observed_elsewhere G = wait G (\<lambda>w. ((), w))"

definition record_submission :: "gate \<Rightarrow> submission \<Rightarrow> tool_call \<Rightarrow> unit act" where
  \<comment> \<open>the observation of the policy detector and the events of every submission\<close>
  "record_submission G m t =
     bind_act (observed_elsewhere G) (\<lambda>_.
     bind_act (audit_submission G m t ''tool_call.submitted'' None
       [(''agentId'', JStr (tc_agentId t)), (''decisionV1'', jget (tc_decisionTrace t) ''decisionV1''),
        (''input'', sr_input (sm_request m)), (''reason'', JStr (tc_reason t)), (''toolName'', JStr (tc_toolName t))]) (\<lambda>_.
     bind_act (audit_submission G m t ''action.envelope_created'' None
       (envelope_event_data t (tc_actionEnvelope t)
        @ [(''canonicalRequestEvidence'', jopt canonicalActionRequestEvidence (sm_canonical m)),
           (''executionMode'', jget (tc_actionEnvelope t) ''executionMode''),
           (''protocol'', jget (tc_actionEnvelope t) ''protocol''), (''source'', jget (tc_actionEnvelope t) ''source'')])) (\<lambda>_.
     case tc_contentInfluence t of
       None \<Rightarrow> give ()
     | Some e \<Rightarrow>
         bind_act (audit_submission G m t ''content.influence_evaluated'' None (jmembers (encode_influence e))) (\<lambda>_.
         if ci_baseDecision e \<noteq> Deny \<and> ci_effectiveDecision e = Deny
         then audit_submission G m t ''content.influence_denied'' None (jmembers (minimizedInfluenceAudit e)) else give ()))))"

definition deny_submission :: "gate \<Rightarrow> submission \<Rightarrow> tool_call \<Rightarrow> (approval option \<times> tool_call) act" where
  "deny_submission G m t =
     bind_act (if tc_status t \<noteq> Blocked
       then bind_act (now_iso G) (\<lambda>now.
         let t' = t\<lparr>tc_status := Blocked, tc_updatedAt := now\<rparr> in
         bind_act (write_store G (updateToolCall t')) (\<lambda>_. give t'))
       else give t) (\<lambda>t'.
     bind_act (audit_submission G m t' ''policy.deny'' None (policy_data m)) (\<lambda>_. give (None, t')))"

definition approval_created_data :: "submission \<Rightarrow> approval \<Rightarrow> authorization \<Rightarrow> tool_call \<Rightarrow> (string \<times> json) list" where
  "approval_created_data m ap z t =
     [(''approverGroups'', jstrings (coalesce (ap_approverGroups ap) [])),
      (''approverUsers'', jstrings (coalesce (ap_approverUsers ap) [])),
      (''approvalAuthorizationHash'', JStr (az_authorizationHash z)), (''approvalAuthorizationVersion'', JStr (az_version z)),
      (''expiresAt'', JStr (az_expiresAt z)),
      (''notificationChannels'', (case Option.bind (pr_notifyChannels (pe_rule (sm_evaluation m))) id of
          None \<Rightarrow> JNull | Some cs \<Rightarrow> jstrings cs)),
      (''originalInput'', sr_input (sm_request m)),
      (''originalInputHash'', JStr (envelopeInputHash (tc_actionEnvelope t))),
      (''originalEnvelopeHash'', JStr (envelopeHash (tc_actionEnvelope t))), (''reviewHash'', jnullable (ap_reviewHash ap)),
      (''contentInfluence'', (case tc_contentInfluence t of None \<Rightarrow> JNull | Some e \<Rightarrow> encode_influence e)),
      (''requiredApprovals'', jint (coalesce (ap_requiredApprovals ap) 1)),
      (''separationOfDuties'', JBool (coalesce (ap_separationOfDuties ap) False))]"

definition queue_submission :: "gate \<Rightarrow> submission \<Rightarrow> (approval option \<times> tool_call) act" where
  \<comment> \<open>the approval is created before its events; what it lacks would be an error of its construction\<close>
  "queue_submission G m =
     bind_act (buildPendingApprovalCandidate G m) (\<lambda>(ap, t).
     bind_act (write_store G (updateToolCall t)) (\<lambda>_.
     bind_act (bind_act (note_clash G (\<lambda>s. jm_has (st_approvals s) (ap_id ap))) (\<lambda>_. write_store G (createApproval ap))) (\<lambda>_.
     case ap_authorization ap of
       None \<Rightarrow> raise (GateConflict ''Approval authorization is missing from the authoritative pending approval.'')
     | Some z \<Rightarrow>
         if \<not> truthy (ap_reviewHash ap)
         then raise (GateConflict ''Approval authorization is missing from the authoritative pending approval.'')
         else
           bind_act (audit_submission G m t ''policy.require_approval'' None (policy_data m)) (\<lambda>_.
           bind_act (case tc_contentInfluence t of
               Some e \<Rightarrow> if ci_baseDecision e = Allow
                 then audit_submission G m t ''content.influence_approval_required'' (Some (ap_id ap))
                   (jmembers (minimizedInfluenceAudit e)) else give ()
             | None \<Rightarrow> give ()) (\<lambda>_.
           bind_act (audit_submission G m t ''approval.created'' (Some (ap_id ap)) (approval_created_data m ap z t)) (\<lambda>_.
           bind_act (observed_elsewhere G) (\<lambda>_. give (Some ap, t))))))))"

definition allow_submission :: "gate \<Rightarrow> submission \<Rightarrow> tool_call \<Rightarrow> (approval option \<times> tool_call) act" where
  "allow_submission G m t =
     bind_act (audit_submission G m t ''policy.allow'' None (policy_data m)) (\<lambda>_.
     bind_act (createActionReceipt_gate G
       \<lparr>ri_actor = sm_actor m, ri_approval = None, ri_auth = sm_auth m, ri_decisionKind = PolicyAllow,
        ri_input = sr_input (sm_request m), ri_reviewHash = None, ri_toolCall = t\<rparr>) (\<lambda>rc.
     bind_act (if jget (tc_actionEnvelope t) ''executionMode'' = JStr ''external_grant''
       then authorizeExternalExecution G t (sr_input (sm_request m)) (sm_actor m) (sm_auth m)
         (Option.bind (pr_externalExecution (pe_rule (sm_evaluation m))) ee_grantTtlSeconds) (Some rc) None
       else executeToolCall G t (sr_input (sm_request m)) (sm_actor m) (sm_auth m) (Some rc) None) (\<lambda>t'. give (None, t'))))"

definition continue_submission :: "gate \<Rightarrow> submission \<Rightarrow> (approval option \<times> tool_call) act" where
  \<comment> \<open>once the tool call is stored\<close>
  "continue_submission G m =
     bind_act (record_submission G m (sm_toolCall m)) (\<lambda>_.
       case pe_decision (sm_evaluation m) of
         Deny \<Rightarrow> deny_submission G m (sm_toolCall m)
       | RequireApproval \<Rightarrow> queue_submission G m
       | Allow \<Rightarrow> allow_submission G m (sm_toolCall m))"

definition store_submission :: "gate \<Rightarrow> submission \<Rightarrow> string \<Rightarrow> (approval option \<times> tool_call) act" where
  \<comment> \<open>with the hash of the request\<close>
  "store_submission G m requestHash =
     (let o' = sm_options m; t = sm_toolCall m in
      if \<not> truthy (so_idempotencyKey o')
      then bind_act (write_store G (createToolCall t)) (\<lambda>_. continue_submission G m)
      else
        bind_act (update_store G (createToolCallIdempotentlyAtomically
          \<lparr>id_key = the (so_idempotencyKey o'), id_workspaceId = sm_workspaceId m, id_route = submit_route,
           id_requestHash = requestHash, id_toolCallId = tc_id t, id_createdAt = sm_now m\<rparr> t)) (\<lambda>res.
        case res of
          Inl e \<Rightarrow> raise (store_failure e)
        | Inr r \<Rightarrow>
            (case ir_outcome r of
               Id_Conflict \<Rightarrow> raise (GateConflict ''Idempotency key was already used for a different request.'')
             | Id_Replay \<Rightarrow>
                 bind_act (getToolCall_gate G (tc_id (ir_toolCall r)) (so_auth o')) (\<lambda>t'.
                 bind_act (read_store G (\<lambda>s. getApprovalByToolCallId s (tc_id t'))) (\<lambda>approval. give (approval, t')))
             | Id_Created \<Rightarrow> continue_submission G (m\<lparr>sm_toolCall := ir_toolCall r\<rparr>))))"

definition submitToolCall :: "gate \<Rightarrow> submit_request \<Rightarrow> submit_options \<Rightarrow> (approval option \<times> tool_call) act" where
  "submitToolCall G q o' =
     bind_act (now_iso G) (\<lambda>now.
     let ws = coalesce (or_else (map_option au_workspaceId (so_auth o')) (ga_workspaceId G)) ''default'';
         requestHash = submit_request_hash (ga_env G) q o' in
     bind_act (if truthy (so_idempotencyKey o')
       then read_store G (\<lambda>s. getIdempotencyRecord s ws submit_route (the (so_idempotencyKey o'))) else give None) (\<lambda>existing.
     case existing of
       Some i \<Rightarrow>
         if id_requestHash i \<noteq> requestHash
         then raise (GateConflict ''Idempotency key was already used for a different request.'')
         else replayed_submission G q o' (id_toolCallId i)
     | None \<Rightarrow>
         bind_act (case so_toolCallId o' of Some i \<Rightarrow> give i | None \<Rightarrow> bind_act (fresh_id G) (\<lambda>u. give (''toolcall_'' @ u))) (\<lambda>i.
         bind_act (lifecycle_check G (\<lambda>lc. if lc_isPreparedAction lc (sr_toolName q)
           then Some (GateContractUnavailable (''No enabled prepared-action contract is registered for '' @ sr_toolName q @ ''.''))
           else None)) (\<lambda>_.
         bind_act (evaluate_submission G q o' now ws i) (\<lambda>m. store_submission G m requestHash)))))"

end
