(* ===== verification/GateReads.thy ===== *)
theory GateReads
  imports GateSubmit
begin

text \<open>
  What the gate shows (\<open>services/action-gate.ts\<close>): tool calls, attempts, approvals, the review of an approval with its
  freshness, decision traces, and the remediation of an executed call (with \<open>services/remediation.ts\<close>).
\<close>

section \<open>Records\<close>

definition listToolCalls_gate :: "gate \<Rightarrow> list_tool_calls_filters \<Rightarrow> auth_context option \<Rightarrow> tool_call list act" where
  "listToolCalls_gate G filters auth = read_store G (listToolCalls (ga_env G)
     (filters\<lparr>lf_workspaceId := or_else (map_option au_workspaceId auth) (lf_workspaceId filters)\<rparr>))"

definition listExecutionAttemptsForToolCall :: "gate \<Rightarrow> string \<Rightarrow> auth_context option \<Rightarrow> attempt list act" where
  "listExecutionAttemptsForToolCall G i auth =
     bind_act (getToolCall_gate G i auth) (\<lambda>t.
       read_store G (listExecutionAttempts (ga_env G) (gate_workspace G t auth) None (Some i)))"

definition getApproval_gate :: "gate \<Rightarrow> string \<Rightarrow> auth_context option \<Rightarrow> approval act" where
  "getApproval_gate G i auth =
     bind_act (read_store G (\<lambda>s. getApproval s i)) (\<lambda>found.
     case found of
       None \<Rightarrow> raise (GateNotFound (''Approval not found: '' @ i))
     | Some ap \<Rightarrow>
         bind_act (check (assertWorkspace (ap_workspaceId ap) auth)) (\<lambda>_.
         bind_act (read_store G (\<lambda>s. getToolCall s (ap_toolCallId ap))) (\<lambda>call.
         case call of Some t \<Rightarrow> expireApprovalIfNeeded G ap t auth | None \<Rightarrow> give ap)))"

definition may_see_approval :: "approval \<Rightarrow> auth_context \<Rightarrow> bool" where
  \<comment> \<open>the requester, a named approver or, without named ones, a member of an approver group\<close>
  "may_see_approval ap a \<longleftrightarrow>
     map_option au_principalId (ap_requestedByAuth ap) = Some (au_principalId a)
     \<or> (case ap_approverUsers ap of
          Some us \<Rightarrow> au_principalId a \<in> set us
        | None \<Rightarrow> (let gs = coalesce (ap_approverGroups ap) [] in gs \<noteq> [] \<and> hasAnyGroup a gs))"

definition getApprovalForPrincipal :: "gate \<Rightarrow> string \<Rightarrow> auth_context \<Rightarrow> approval act" where
  "getApprovalForPrincipal G i a =
     bind_act (getApproval_gate G i (Some a)) (\<lambda>ap.
       if may_see_approval ap a then give ap else raise (GateNotFound (''Approval not found: '' @ i)))"

definition listApprovalDeliveries_gate :: "gate \<Rightarrow> string \<Rightarrow> auth_context option \<Rightarrow> delivery list act" where
  "listApprovalDeliveries_gate G i auth =
     bind_act (read_store G (\<lambda>s. getApproval s i)) (\<lambda>found.
     case found of
       None \<Rightarrow> raise (GateNotFound (''Approval not found: '' @ i))
     | Some ap \<Rightarrow>
         bind_act (check (assertWorkspace (ap_workspaceId ap) auth)) (\<lambda>_.
           read_store G (listApprovalDeliveries (ga_env G) i)))"

definition isPolicyDecisionTrace :: "json \<Rightarrow> bool" where
  "isPolicyDecisionTrace v =
     (isJsonObject v \<and> list_all (\<lambda>k. jstring (jget v k) \<noteq> None)
        [''toolName'', ''decision'', ''matchedRule'', ''policyReason'', ''policyRisk'']
      \<and> (case jget v ''ruleEvaluations'' of JArr _ \<Rightarrow> True | _ \<Rightarrow> False) \<and> isJsonObject (jget v ''approverResolution''))"

definition getDecisionTrace :: "gate \<Rightarrow> string \<Rightarrow> auth_context option \<Rightarrow> json act" where
  \<comment> \<open>the stored trace, or that of the active policy\<close>
  "getDecisionTrace G i auth =
     bind_act (getToolCall_gate G i auth) (\<lambda>t.
       if isPolicyDecisionTrace (tc_decisionTrace t) then give (tc_decisionTrace t)
       else let h = currentPolicyVersionHash G;
           trace = (\<lambda>directory. tracePolicyForToolCall (ga_env G)
           \<lparr>ti_directory = directory, ti_policy = ga_policy G, ti_policyVersionHash = Some h,
            ti_policyVersionId = Some (currentPolicyVersionId G h), ti_policyProvider = None, ti_providerEvaluation = None\<rparr> t) in
         bind_act (if ga_directory G then read_store G (\<lambda>s. trace (Some s)) else give (trace None))
          (\<lambda>r. case r of Inl e \<Rightarrow> raise (trace_failure e) | Inr v \<Rightarrow> give v))"

section \<open>The review of an approval\<close>

datatype severity = Severity_Warning | Severity_Stale
datatype freshness_state = Fresh | Fresh_Warning | Stale

record review_freshness =
  fr_expiresAt :: string
  fr_renderedAt :: string
  fr_state :: freshness_state
  fr_warnings :: "(string \<times> severity) list" \<comment> \<open>the code of each warning\<close>

definition review_warnings :: "gate \<Rightarrow> json \<Rightarrow> approval \<Rightarrow> string \<Rightarrow> tool_call \<Rightarrow> int \<Rightarrow> (string \<times> severity) list" where
  "review_warnings G envelope ap reviewHash t now = map snd (filter fst
     [(truthy (tc_policyVersionHash t) \<and> tc_policyVersionHash t \<noteq> Some (currentPolicyVersionHash G),
       ''policy_changed'', Severity_Warning),
      (\<exists>z \<in> set_option (ap_authorization ap). approvalAuthorizationExpired (ga_env G) z now,
       ''authorization_expired'', Severity_Stale),
      (truthy (ap_originalInputHash ap) \<and> ap_originalInputHash ap \<noteq> Some (hashJson (ga_env G) (ap_originalInput ap)),
       ''original_input_hash_mismatch'', Severity_Stale),
      (truthy (ap_originalEnvelopeHash ap) \<and> ap_originalEnvelopeHash ap \<noteq> Some (envelopeHash envelope),
       ''envelope_hash_mismatch'', Severity_Stale),
      (truthy (ap_reviewHash ap) \<and> ap_reviewHash ap \<noteq> Some reviewHash, ''review_hash_mismatch'', Severity_Stale)])"

definition approvalReviewFreshness :: "gate \<Rightarrow> json \<Rightarrow> approval \<Rightarrow> string \<Rightarrow> tool_call \<Rightarrow> int \<Rightarrow> review_freshness" where
  "approvalReviewFreshness G envelope ap reviewHash t now =
     (let warnings = review_warnings G envelope ap reviewHash t now
      in \<lparr>fr_expiresAt = isoString (ga_env G) (now + 5 * 60 * 1000), fr_renderedAt = isoString (ga_env G) now,
          fr_state = (if list_ex (\<lambda>(_, v). v = Severity_Stale) warnings then Stale
                      else if warnings \<noteq> [] then Fresh_Warning else Fresh),
          fr_warnings = warnings\<rparr>)"

record approval_review =
  \<comment> \<open>\<open>ApprovalReview\<close>; policy and influence are read off the tool call\<close>
  rv_actionEnvelope :: json
  rv_approval :: approval
  rv_freshness :: review_freshness
  rv_reviewHash :: string
  rv_toolCall :: tool_call

definition getApprovalReview :: "gate \<Rightarrow> string \<Rightarrow> auth_context option \<Rightarrow> approval_review act" where
  \<comment> \<open>without the projection of an installed lifecycle\<close>
  "getApprovalReview G i auth =
     bind_act (getApproval_gate G i auth) (\<lambda>ap.
     bind_act (getToolCall_gate G (ap_toolCallId ap) auth) (\<lambda>t.
     let E = ga_env G; envelope = actionEnvelopeForToolCall E t;
         reviewHash = reviewHashFor E (envelopeHash envelope) (ap_id ap) (tc_policyVersionHash t) (tc_id t) in
     bind_act (lifecycle_check G (\<lambda>_. None)) (\<lambda>_.
     bind_act (audit G ((tool_event ''approval.review_rendered'' (actorForDecision None auth) auth (Some (ap_id ap)) t
         [(''actionEnvelopeHash'', JStr (envelopeHash envelope)), (''reviewHash'', JStr reviewHash)])
         \<lparr>ev_inputHash := Some (envelopeInputHash envelope)\<rparr>)) (\<lambda>_.
     bind_act (now_ms G) (\<lambda>now.
       give \<lparr>rv_actionEnvelope = envelope, rv_approval = ap,
         rv_freshness = approvalReviewFreshness G envelope ap reviewHash t now, rv_reviewHash = reviewHash,
         rv_toolCall = t\<rparr>)))))"

section \<open>Remediation\<close>

definition unavailableRemediation :: "string \<Rightarrow> json" where
  "unavailableRemediation reason = JObj
     [(''kind'', JStr ''not_reversible''), (''reason'', JStr reason), (''status'', JStr ''unavailable'')]"

definition isRemediationForToolCall :: "tool_call \<Rightarrow> string \<Rightarrow> bool" where
  "isRemediationForToolCall t i =
     (let r = jget (productMetadataFrom (tc_metadata t)) ''remediation''
      in isJsonObject r \<and> jget r ''originalToolCallId'' = JStr i)"

definition metadataWithRemediationLink :: "json \<Rightarrow> json \<Rightarrow> string option \<Rightarrow> string option \<Rightarrow> string \<Rightarrow> json" where
  "metadataWithRemediationLink baseMetadata kind receiptHash receiptId toolCallId =
     (let existing = (if isJsonObject (jget baseMetadata ''actionproxy'') then jget baseMetadata ''actionproxy'' else JObj [])
      in jwith baseMetadata [(''actionproxy'', jwith existing [(''remediation'', JObj
           [(''kind'', kind), (''originalReceiptHash'', jopt JStr receiptHash), (''originalReceiptId'', jopt JStr receiptId),
            (''originalToolCallId'', JStr toolCallId)])])])"

record remediation_plan =
  rm_originalToolCall :: tool_call
  rm_receipt :: "receipt option"
  rm_relatedToolCalls :: "tool_call list"
  rm_remediation :: json

definition remediation_of :: "tool_call \<Rightarrow> receipt option \<Rightarrow> json" where
  "remediation_of t receipt =
     (if tc_status t \<noteq> Executed
      then unavailableRemediation (''Only executed tool calls can be remediated. Current status: ''
        @ tool_call_status_name (tc_status t) @ ''.'')
      else (case receipt of
          None \<Rightarrow> unavailableRemediation ''No signed receipt is available for this tool call.''
        | Some rc \<Rightarrow>
            (case rc_outcome rc of
               None \<Rightarrow> unavailableRemediation ''No execution outcome is available for this receipt.''
             | Some ro \<Rightarrow>
                 if ro_status ro \<noteq> Outcome_Succeeded
                 then unavailableRemediation ''Only successful execution outcomes can provide remediation.''
                 else jcoalesce (ro_remediation ro)
                   (unavailableRemediation ''The execution outcome did not include remediation instructions.''))))"

definition all_calls :: list_tool_calls_filters where
  "all_calls = \<lparr>lf_decision = None, lf_limit = Some 1000, lf_runId = None, lf_sessionId = None, lf_status = None,
     lf_toolName = None, lf_workspaceId = None\<rparr>"

definition getRemediationPlan :: "gate \<Rightarrow> string \<Rightarrow> auth_context option \<Rightarrow> remediation_plan act" where
  "getRemediationPlan G toolCallId auth =
     bind_act (getToolCall_gate G toolCallId auth) (\<lambda>t.
     bind_act (read_store G (\<lambda>s. getActionReceiptByToolCallId s (tc_id t))) (\<lambda>receipt.
     bind_act (check (case receipt of None \<Rightarrow> None | Some rc \<Rightarrow> assertWorkspace (Some (rc_workspaceId rc)) auth)) (\<lambda>_.
     bind_act (listToolCalls_gate G all_calls auth) (\<lambda>calls.
     let related = filter (\<lambda>c. isRemediationForToolCall c (tc_id t)) calls; remediation = remediation_of t receipt in
     bind_act (audit G (tool_event ''remediation.plan_rendered'' (actorForDecision None auth) auth None t
       [(''kind'', jget remediation ''kind''), (''reason'', jget remediation ''reason''),
        (''receiptHash'', jnullable (map_option rc_receiptHash receipt)), (''receiptId'', jnullable (map_option rc_id receipt)),
        (''relatedToolCallIds'', jstrings (map tc_id related)), (''status'', jget remediation ''status''),
        (''toolName'', null_coalesce (jget remediation ''toolName''))])) (\<lambda>_.
       give \<lparr>rm_originalToolCall = t, rm_receipt = receipt, rm_relatedToolCalls = related, rm_remediation = remediation\<rparr>)))))"

definition hints_of :: "json \<Rightarrow> action_hints option" where
  \<comment> \<open>the \<open>action\<close> of a remediation, which its schema has checked\<close>
  "hints_of v =
     (if \<not> isJsonObject v then None
      else Some \<lparr>ah_context = jget v ''context'',
        ah_executionMode = (if jget v ''executionMode'' = JStr ''external_grant'' then Some ExternalGrant
          else if jget v ''executionMode'' = JStr ''local_mock'' then Some LocalMock else None),
        ah_operation = jget v ''operation'', ah_protocol = jstring (jget v ''protocol''),
        ah_resources = (case jget v ''resources'' of JArr vs \<Rightarrow> Some vs | _ \<Rightarrow> None), ah_source = jget v ''source''\<rparr>)"

record remediate_input =
  re_agentId :: "string option"
  re_input :: json
  re_metadata :: json
  re_reason :: "string option"
  re_requestedBy :: "string option"

definition remediation_request :: "remediation_plan \<Rightarrow> remediate_input \<Rightarrow> auth_context option \<Rightarrow> submit_request" where
  "remediation_request plan i auth =
     (let r = rm_remediation plan; t = rm_originalToolCall plan
      in \<lparr>sr_toolName = coalesce (jstring (jget r ''toolName'')) [], sr_input = jcoalesce (re_input i) (jget r ''input''),
          sr_requestedBy = coalesce (re_requestedBy i) (actorForDecision None auth),
          sr_agentId = coalesce (re_agentId i) (tc_agentId t @ '':remediation''),
          sr_reason = coalesce (re_reason i) (''Remediate '' @ tc_toolName t @ '': '' @ js_String (jget r ''reason'')),
          sr_action = hints_of (jget r ''action''),
          sr_metadata = metadataWithRemediationLink
            (jwith (JObj []) (jmembers (jget r ''metadata'') @ jmembers (re_metadata i))) (jget r ''kind'')
            (map_option rc_receiptHash (rm_receipt plan)) (map_option rc_id (rm_receipt plan)) (tc_id t)\<rparr>)"

definition submitRemediation ::
  "gate \<Rightarrow> string \<Rightarrow> remediate_input \<Rightarrow> auth_context option \<Rightarrow> string option
    \<Rightarrow> (approval option \<times> remediation_plan \<times> tool_call) act" where
  "submitRemediation G toolCallId i auth key =
     bind_act (getRemediationPlan G toolCallId auth) (\<lambda>plan.
     let r = rm_remediation plan; receipt = rm_receipt plan in
     if jget r ''status'' \<noteq> JStr ''available'' \<or> \<not> jtruthy (jget r ''toolName'') \<or> jget r ''input'' = JUndef
     then raise (GateConflict ''Remediation is not available for this tool call.'')
     else
       bind_act (submitToolCall G (remediation_request plan i auth)
         \<lparr>so_actionContractId = None, so_auth = auth, so_connectionId = None, so_forceApproval = None,
          so_idempotencyKey = (if truthy key then Some (''remediation:'' @ toolCallId @ '':'' @ the key) else None),
          so_ingress = None, so_supersedesIntentId = None, so_toolCallId = None\<rparr>) (\<lambda>(approval, t).
       bind_act (audit G (tool_event ''remediation.submitted'' (actorForDecision (re_requestedBy i) auth) auth None t
         [(''kind'', jget r ''kind''), (''originalReceiptHash'', jnullable (map_option rc_receiptHash receipt)),
          (''originalReceiptId'', jnullable (map_option rc_id receipt)),
          (''originalToolCallId'', JStr (tc_id (rm_originalToolCall plan))),
          (''remediationToolCallId'', JStr (tc_id t)), (''status'', JStr (tool_call_status_name (tc_status t))),
          (''toolName'', jget r ''toolName'')])) (\<lambda>_. give (approval, plan, t))))"

end
