(* ===== verification/GateFacts.thy ===== *)
theory GateFacts
  imports GateReads GrantFacts
begin

text \<open>
  What runs of the gate may do. In the locale \<open>evolution\<close> every operation of the gate is shown to relate the run it
  starts from to the run it ends in, whatever fails on the way. Two interpretations on the model give the properties: a
  run evolves the store by steps of the store machine and calls tools only for authorized attempts, and all operations
  but an execution call no tool at all.
\<close>

section \<open>The operations move a run\<close>

context evolution
begin

lemma moves_prod_sum [moving]: "(\<And>e. moves (f e)) \<Longrightarrow> (\<And>a b c d. moves (g a b c d))
    \<Longrightarrow> moves (case v of Inl e \<Rightarrow> f e | Inr (a, b, c, d) \<Rightarrow> g a b c d)"
  by (simp split: sum.split prod.split)

lemma moves_lookup [moving]: "moves (lookup_exposures G i ws)"
  unfolding lookup_exposures_def by (intro moving)

lemma moves_influence [moving]: "moves (evaluateInfluence G b at i h v ws)"
  unfolding evaluateInfluence_def by (intro moving)

lemma moves_binding_failure [moving]: "moves (contentInfluenceBindingFailure G t c x)"
  unfolding contentInfluenceBindingFailure_def by (intro moving)

lemma moves_mismatch [moving]: "moves (auditInfluenceDispatchMismatchBestEffort G t auth)"
  unfolding auditInfluenceDispatchMismatchBestEffort_def by (intro moving)

lemma moves_exposure [moving]: "moves (record_exposure G t actor auth src)"
  unfolding record_exposure_def by (intro moving moves_update) (rule exposure_recorded)

lemma moves_before_release [moving]: "moves (recordContentExposureBeforeRelease G t actor auth)"
  unfolding recordContentExposureBeforeRelease_def
  by (auto split: option.split result_source.split intro!: moving)

lemma moves_withheld [moving]: "moves (auditResultWithheldBestEffort G t auth reason)"
  unfolding auditResultWithheldBestEffort_def by (intro moving)

lemma moves_revalidation [moving]: "moves (finalPolicyRevalidationFailure G t input)"
  unfolding finalPolicyRevalidationFailure_def by (intro moving)

lemma moves_current_evaluation [moving]: "moves (current_evaluation G t v m)"
  unfolding current_evaluation_def by (intro moving)

lemma moves_policy_current [moving]: "moves (assertApprovalPolicyIsCurrent G t i e)"
  unfolding assertApprovalPolicyIsCurrent_def by (intro moving)

lemma moves_receipt [moving]: "moves (createActionReceipt_gate G p)"
  unfolding createActionReceipt_gate_def by (intro moving moves_write) (rule receipt_created)

lemma moves_receipt_outcome [moving]: "moves (receipt_outcome_if G rc ro t)"
  unfolding receipt_outcome_if_def recordReceiptOutcome_def by (intro moving moves_write) (rule receipt_updated)

lemma moves_update_call [moving]: "moves (write_store G (updateToolCall t))"
  by (intro moves_write) (rule tool_call_updated)

lemma moves_fail [moving]: "moves (failToolCall G t input actor m auth rc)"
  unfolding failToolCall_def by (intro moving)

lemma moves_audit_attempt [moving]: "moves (auditExecutionAttempt G ty a actor auth p i)"
  unfolding auditExecutionAttempt_def by (intro moving)

lemma moves_reserve [moving]: "moves (reserveExecutionAttempt G t mode actor auth rc ap)"
  unfolding reserveExecutionAttempt_def by (intro moving moves_update) (rule attempt_reserved)

lemma moves_transition_result [moving]:
  "(\<And>a. moves (f a)) \<Longrightarrow> (\<And>out. moves (g out)) \<Longrightarrow> moves (case res of (Tr_Transitioned, Some u) \<Rightarrow> f u | (out, _) \<Rightarrow> g out)"
  by (simp split: prod.split transition_outcome.split option.split)

lemma moves_transition [moving]: "moves (transitionExecutionAttempt G a s s' ao g)"
  unfolding transitionExecutionAttempt_def by (intro moving moves_update) (rule attempt_transitioned)

lemma moves_complete [moving]: "moves (completeExecutionAttempt G a s actor auth i)"
  unfolding completeExecutionAttempt_def by (intro moving)

lemma moves_abort [moving]: "moves (abort_execution G a s t input actor auth rc c d m)"
  unfolding abort_execution_def by (intro moving)

lemma moves_local_binding [moving]: "moves (local_binding G t a c ap)"
  unfolding local_binding_def mismatch_def by (intro moving)

lemma moves_stored_approval [moving]: "moves (case ap of None \<Rightarrow> give None | Some a \<Rightarrow> read_store G (f a))"
  by (intro moving)

lemma moves_current_binding [moving]: "moves (currentLocalExecutionAuthorizationBinding G a t ap s)"
  unfolding currentLocalExecutionAuthorizationBinding_def mismatch_def by (intro moving)

lemma issue_local_store: "issue_local G b i now w = (x, w') \<Longrightarrow> w_store w' = w_store w"
  by (auto simp: issue_local_def split: prod.splits sum.splits)

lemma registry_dispatch_store: "registry_dispatch G token b input name now w = (x, w') \<Longrightarrow> w_store w' = w_store w"
  by (auto simp: registry_dispatch_def Let_def split: prod.splits sum.splits option.splits if_splits)

lemma moves_issue [moving]: "moves (issue_authorization G a t ap)"
  unfolding issue_authorization_def by (intro moving moves_unstored(2)) (erule issue_local_store)

lemma moves_release [moving]: "moves (release_after_exposure G t actor auth)"
  unfolding release_after_exposure_def by (intro moving)

lemma moves_finish [moving]: "moves (finish_execution G a t input result actor auth rc)"
  unfolding finish_execution_def by (intro moving)

lemma moves_grant_created [moving]: "moves (wait G (\<lambda>w. ((), recordPreparedGrantCreated E g actor auth i w)))"
  by (intro moves_unstored(1)) (auto simp: recordPreparedGrantCreated_def append_audit_def)

lemma prepared_unconsumed: "prepareGrant E sv now u k i = Inr g \<Longrightarrow> gr_consumedAt g = None"
  by (auto simp: prepareGrant_def Let_def split: option.splits if_splits)

lemma moves_service_bind:
  assumes "\<And>x. r = Inr x \<Longrightarrow> moves (f x)"
  shows "moves (bind_act (service_act r) f)"
  by (cases r) (simp_all add: service_act_def assms moving)

lemma moves_grant_write:
  "gr_consumedAt g = None \<Longrightarrow>
    moves (bind_act (note_clash G (\<lambda>s. jm_has (st_executionGrants s) (gr_id g))) (\<lambda>_. write_store G (createExecutionGrant g)))"
  by (intro moves_create grant_created) (auto simp: jm_has_def)

lemma moves_issue_grant [moving]: "moves (issueGrant G sv i)"
  unfolding issueGrant_def
  by (intro moving moves_service_bind moves_update moves_grant_write) (erule prepared_unconsumed, rule grant_bound)

lemma moves_bind_grant [moving]: "moves (bind_grant G t a g input actor auth rc)"
  unfolding bind_grant_def by (intro moving moves_update) (rule grant_bound)

lemma moves_authorize [moving]: "moves (authorizeExternalExecution G t input actor auth ttl rc ap)"
  unfolding authorizeExternalExecution_def by (intro moving)

subsection \<open>Deciding, without an execution\<close>

lemma moves_load [moving]: "moves (loadApprovalState G i auth)"
  unfolding loadApprovalState_def by (intro moving)

lemma moves_terminalize [moving]: "moves (terminalizeToolCall G t at)"
  unfolding terminalizeToolCall_def by (intro moving)

lemma moves_sync [moving]: "moves (presentation_sync G)"
  unfolding presentation_sync_def by (intro moving)

lemma moves_expired [moving]: "moves (recordExpiredApproval G ap t auth)"
  unfolding recordExpiredApproval_def by (intro moving)

lemma moves_expire [moving]: "moves (expireApprovalIfNeeded G ap t auth)"
  unfolding expireApprovalIfNeeded_def by (intro moving moves_update) (rule approval_expired)

lemma moves_lifecycle [moving]: "moves (lifecycle_check G f)"
  unfolding lifecycle_check_def by (intro moving)

lemma moves_disposition [moving]: "moves (resolvePreparedInlineEditDisposition G t e)"
  unfolding resolvePreparedInlineEditDisposition_def by (intro moving)

lemma moves_dispatch_current [moving]: "moves (assertExternalDispatchCurrent G t input)"
  unfolding assertExternalDispatchCurrent_def by (intro moving)

lemma moves_published_events [moving]: "moves (recordApprovedExternalAuthorizationPublishedBestEffort G actor ap a auth g rc t)"
  unfolding recordApprovedExternalAuthorizationPublishedBestEffort_def by (intro moving)

lemma published_attempt: "publication_of G sv ap base input actor auth at = Inr pu \<Longrightarrow> at_id (pu_attempt pu) \<noteq> []"
  by (auto simp: publication_of_def Let_def buildExecutionAttempt_def split: sum.splits)

lemma moves_publish:
  "at_id (pu_attempt pu) \<noteq> [] \<Longrightarrow> moves (publish_authorization G pu actor ap auth)"
  unfolding publish_authorization_def
  by (intro moving moves_update authorization_published) (auto split: option.split intro!: moving)

lemma moves_publish_prepared [moving]: "moves (publishApprovedPreparedExternalAuthorization G ap t auth)"
  unfolding publishApprovedPreparedExternalAuthorization_def
  by (intro moving moves_service_bind moves_publish) (erule published_attempt)

lemma moves_recover_prepared [moving]: "moves (recoverApprovedPreparedExternalAuthorization G ap t auth)"
  unfolding recoverApprovedPreparedExternalAuthorization_def by (intro moving)

lemma moves_approve_refusal [moving]: "moves (approve_refusal G i p res auth)"
  unfolding approve_refusal_def by (auto split: approval_outcome.split intro!: moving)

lemma moves_refusal_outcome [moving]: "moves (refusal_outcome G i m res t auth)"
  unfolding refusal_outcome_def by (auto split: approval_outcome.split intro!: moving)

lemma moves_load_to_refuse [moving]: "moves (load_to_refuse G i f auth)"
  unfolding load_to_refuse_def load_pending_def by (intro moving)

lemma moves_reject [moving]: "moves (rejectApproval G i f auth)"
  unfolding rejectApproval_def by (intro moving moves_update) (rule approval_rejected)

lemma moves_cancel [moving]: "moves (cancelApproval G i f auth)"
  unfolding cancelApproval_def by (intro moving moves_update) (rule approval_cancelled)

subsection \<open>Submitting, without an execution\<close>

lemma moves_bind_known:
  assumes m: "moves m" and f: "\<And>r x r'. m r = (Inr x, r') \<Longrightarrow> moves (f x)"
  shows "moves (bind_act m f)"
proof (rule movesI)
  fix r x r' assume "bind_act m f r = (x, r')"
  then show "R r r'"
    by (auto simp: bind_act_def split: prod.splits sum.splits dest: movesD [OF m] intro: R_trans [OF movesD [OF m] movesD [OF f]])
qed

lemma moves_get_call [moving]: "moves (getToolCall_gate G i auth)"
  unfolding getToolCall_gate_def by (intro moving)

lemma moves_audit_at [moving]: "moves (audit_at G i at e)"
  unfolding audit_at_def by (intro moves_unstored(1)) (auto simp: append_audit_def)

lemma moves_each [moving]: "(\<And>x. moves (f x)) \<Longrightarrow> moves (each_in_turn f xs)"
  by (induction xs) (auto intro!: moving)

lemma moves_prepared_events [moving]: "moves (recordPreparedSubmissionPublishedBestEffort G actor ap auth t)"
  unfolding recordPreparedSubmissionPublishedBestEffort_def by (intro moving)

lemma moves_replayed [moving]: "moves (replayed_submission G q o' i)"
  unfolding replayed_submission_def by (intro moving)

lemma moves_trace [moving]: "moves (decisionTraceForToolCall G t e)"
  unfolding decisionTraceForToolCall_def by (intro moving)

lemma moves_evaluate [moving]: "moves (evaluate_submission G q o' now ws i)"
  unfolding evaluate_submission_def by (intro moving)

lemma moves_recipients [moving]: "moves (resolveApprovalRecipients G rule ws)"
  unfolding resolveApprovalRecipients_def by (intro moving)

lemma moves_candidate [moving]: "moves (buildPendingApprovalCandidate G m)"
  unfolding buildPendingApprovalCandidate_def by (intro moving)

lemma candidate_pending:
  assumes "buildPendingApprovalCandidate G m r = (Inr (ap, t), r')"
  shows "ap_status ap = Approval_Pending \<and> decisions_of ap = [] \<and> tc_status t = PendingApproval"
  using assms
  by (auto simp: buildPendingApprovalCandidate_def pending_approval_def decisions_of_def coalesce_def act_simps fresh_id_def
      Let_def split: prod.splits sum.splits)

lemma moves_new_approval:
  "ap_status ap = Approval_Pending \<Longrightarrow> decisions_of ap = [] \<Longrightarrow>
    moves (bind_act (note_clash G (\<lambda>s. jm_has (st_approvals s) (ap_id ap))) (\<lambda>_. write_store G (createApproval ap)))"
  by (intro moves_create approval_created) (auto simp: jm_has_def)

lemma moves_elsewhere [moving]: "moves (observed_elsewhere G)"
  unfolding observed_elsewhere_def by (intro moves_unstored(1)) auto

lemma moves_audit_submission [moving]: "moves (audit_submission G m t ty i data)"
  unfolding audit_submission_def by (intro moving)

lemma moves_record_submission [moving]: "moves (record_submission G m t)"
  unfolding record_submission_def by (intro moving)

lemma moves_deny [moving]: "moves (deny_submission G m t)"
  unfolding deny_submission_def by (intro moving)

lemma moves_queue [moving]: "moves (queue_submission G m)"
  unfolding queue_submission_def
  by (rule moves_bind_known [OF moves_candidate]) (auto dest!: candidate_pending intro!: moving moves_new_approval)

subsection \<open>Reading\<close>

lemma moves_get_approval [moving]: "moves (getApproval_gate G i auth)"
  unfolding getApproval_gate_def by (intro moving)

lemma moves_reads [moving]:
  "moves (listToolCalls_gate G f auth)" "moves (listExecutionAttemptsForToolCall G i auth)"
  "moves (getApprovalForPrincipal G i a)" "moves (listApprovalDeliveries_gate G i auth)" "moves (getDecisionTrace G i auth)"
  "moves (getApprovalReview G i auth)"
  unfolding listToolCalls_gate_def listExecutionAttemptsForToolCall_def getApprovalForPrincipal_def
    listApprovalDeliveries_gate_def getDecisionTrace_def getApprovalReview_def
  by (intro moving)+

lemma moves_plan [moving]: "moves (getRemediationPlan G i auth)"
  unfolding getRemediationPlan_def by (intro moving)

end

section \<open>Executions\<close>

definition input_fixed :: "env \<Rightarrow> tool_call \<Rightarrow> json \<Rightarrow> bool" where
  \<comment> \<open>the tool call carries this input and its hash\<close>
  "input_fixed E t input \<longleftrightarrow> tc_input t = input \<and> tc_inputHash t = Some (hashJson E input)"

lemma call_with_input_fixed:
  "input_fixed E (call_with_input t (actionEnvelopeForInput E envelope input) input) input"
  by (simp add: input_fixed_def call_with_input_def envelope_for_input)

definition policy_permits :: "gate \<Rightarrow> tool_call \<Rightarrow> json \<Rightarrow> bool" where
  \<comment> \<open>the active policy is the one of the tool call and still lets its decision stand for this input\<close>
  "policy_permits G t input \<longleftrightarrow> policy_unchanged G t
     \<and> (\<exists>e. revalidated_evaluation G t input = Inr e \<and> pv_failureCode e = None
        \<and> (let d = pe_decision (effectivePolicyEvaluation (et_evaluation (pv_trace e))
                 (revalidatedInfluence G t (et_evaluation (pv_trace e))))
           in d \<noteq> Deny \<and> (tc_decision t = Some Allow \<and> d = Allow \<or> tc_decision t = Some RequireApproval)))"

lemma revalidated:
  assumes "finalPolicyRevalidationFailure G t input r = (Inr None, r')"
  shows "policy_permits G t input"
proof -
  have unchanged: "policy_unchanged G t"
    using assms by (auto simp: finalPolicyRevalidationFailure_def give_def split: if_splits)
  obtain e where e: "revalidated_evaluation G t input = Inr e" "revalidation_failure G t e = None"
    "revalidation_verdict t (effectivePolicyEvaluation (et_evaluation (pv_trace e))
       (revalidatedInfluence G t (et_evaluation (pv_trace e)))) = None"
    using assms
    by (auto simp: finalPolicyRevalidationFailure_def act_simps Let_def split: if_splits prod.splits sum.splits option.splits)
  from e(2) have "pv_failureCode e = None"
    by (auto simp: revalidation_failure_def Let_def split: if_splits)
  then show ?thesis
    using unchanged e by (auto simp: policy_permits_def revalidation_verdict_def Let_def split: if_splits)
qed

definition decided_as_evaluated :: "submission \<Rightarrow> bool" where
  "decided_as_evaluated m \<longleftrightarrow> tc_decision (sm_toolCall m) = Some (pe_decision (sm_evaluation m))"

lemma evaluated_decision:
  "evaluate_submission G q o' now ws i r = (Inr m, r') \<Longrightarrow> decided_as_evaluated m"
  by (auto simp: evaluate_submission_def act_simps Let_def decided_as_evaluated_def with_trace_def submitted_call_def
      split: prod.splits sum.splits if_splits)

lemma update_result: "update_store G f r = (Inr x, r') \<Longrightarrow> \<exists>s. x = fst (f s)"
  by (auto simp: update_store_def on_store_def wait_def at_once_def Let_def split: if_splits prod.splits) (metis fst_conv)

lemma idempotent_created:
  "fst (createToolCallIdempotentlyAtomically i t s) = Inr r \<Longrightarrow> ir_outcome r = Id_Created \<Longrightarrow> ir_toolCall r = t"
  by (auto simp: createToolCallIdempotentlyAtomically_def Let_def split: sum.splits option.splits if_splits)

definition allowed_call :: "gate \<Rightarrow> tool_call \<Rightarrow> json \<Rightarrow> bool" where
  \<comment> \<open>the tool call was decided allow, which the active policy confirms\<close>
  "allowed_call G t input \<longleftrightarrow> tc_decision t = Some Allow \<and> policy_permits G t input"

locale dispatching = evolution +
  \<comment> \<open>the call of a tool is good once the binding of the dispatched attempt has been rebuilt, for an approval or for a tool
     call the policy allows\<close>
  assumes good_call: "currentLocalExecutionAuthorizationBinding G a t ap Dispatched r0 = (Inr (b, sa, c, sap), r1)
    \<Longrightarrow> input_fixed (ga_env G) t input \<Longrightarrow> (ap = None \<Longrightarrow> allowed_call G t input) \<Longrightarrow> ru_seen r2 = ru_seen r1 @ ws
    \<Longrightarrow> good r2 \<lparr>iv_attempt = sa, iv_toolCall = c, iv_approval = sap, iv_input = input\<rparr>"
begin

lemma registered_moves:
  assumes "currentLocalExecutionAuthorizationBinding G a t ap Dispatched r0 = (Inr (b, sa, c, sap), r1)"
    and "input_fixed (ga_env G) t input" "ap = None \<Longrightarrow> allowed_call G t input"
    and "execute_registered G token b sa c sap input name r1 = (x, r')"
  shows "R r1 r'"
proof -
  let ?iv = "\<lparr>iv_attempt = sa, iv_toolCall = c, iv_approval = sap, iv_input = input\<rparr>"
  obtain now r2 where now: "now_ms G r1 = (Inr now, r2)" "ru_seen r2 = ru_seen r1" by (simp add: now_ms_def)
  obtain y r3 where y: "at_once G (registry_dispatch G token b input name now) r2 = (Inr y, r3)" "\<exists>ws. ru_seen r3 = ru_seen r1 @ ws"
    using now(2) by (cases "registry_dispatch G token b input name now (ru_world (interfered G r2))")
      (auto simp: at_once_def interfered_def Let_def)
  have "moves (now_ms G)" by (rule moving)
  moreover have "moves (at_once G (registry_dispatch G token b input name now))"
    by (intro moves_unstored(2)) (erule registry_dispatch_store)
  ultimately have before: "R r1 r3" using now(1) y(1) by (blast intro: R_trans dest: movesD)
  have "r' = r3 \<or> r' = r3\<lparr>ru_calls := ru_calls r3 @ [?iv]\<rparr>"
    using assms(4) now(1) y(1)
    by (auto simp: execute_registered_def call_tool_def record_call_def act_simps split: sum.splits tool_outcome.splits)
  moreover obtain ws where "ru_seen r3 = ru_seen r1 @ ws" using y(2) by blast
  then have "R r3 (r3\<lparr>ru_calls := ru_calls r3 @ [?iv]\<rparr>)" by (intro R_call good_call [OF assms(1,2)] assms(3))
  ultimately show ?thesis using before by (auto intro: R_trans)
qed

lemma moves_bind_attempted:
  \<comment> \<open>the handled result is known to come from \<open>m\<close>\<close>
  assumes "moves m" and "\<And>e. moves (f (Inl e))"
    and "\<And>r v r1 x r'. m r = (Inr v, r1) \<Longrightarrow> f (Inr v) r1 = (x, r') \<Longrightarrow> R r1 r'"
  shows "moves (bind_act (attempted m) f)"
proof (rule movesI)
  fix r x r' assume run: "bind_act (attempted m) f r = (x, r')"
  obtain y r1 where y: "m r = (y, r1)" by (cases "m r")
  with run have rest: "f y r1 = (x, r')" by (simp add: bind_act_def attempted_def)
  have "R r r1" using assms(1) y by (rule movesD)
  moreover have "R r1 r'"
  proof (cases y)
    case (Inl e)
    with rest show ?thesis by (auto intro: movesD [OF assms(2)])
  next
    case (Inr v)
    with rest y show ?thesis by (auto intro: assms(3))
  qed
  ultimately show "R r r'" by (rule R_trans)
qed

lemma moves_outcome:
  "moves (case promise of ToolResolves v \<Rightarrow> finish_execution G d t input v actor auth rc
     | ToolRejects n m \<Rightarrow> abort_execution G d s t input actor auth rc n c m
     | ToolThrows n m \<Rightarrow> abort_execution G d s t input actor auth rc n c m)"
  by (simp split: tool_outcome.split add: moving)

lemma performed_moves:
  assumes "currentLocalExecutionAuthorizationBinding G a t ap Dispatched r0 = (Inr (b, sa, c, sap), r1)"
    and "input_fixed (ga_env G) t input" "ap = None \<Longrightarrow> allowed_call G t input" and rest: "\<And>v. moves (f v)"
    and run: "bind_act (attempted (execute_registered G token b sa c sap input name)) f r1 = (x, r')"
  shows "R r1 r'"
proof -
  obtain y r2 where y: "execute_registered G token b sa c sap input name r1 = (y, r2)"
    by (cases "execute_registered G token b sa c sap input name r1")
  have "R r1 r2" by (rule registered_moves [OF assms(1-3) y])
  moreover from run y have "f y r2 = (x, r')" by (simp add: bind_act_def attempted_def)
  with rest have "R r2 r'" by (rule movesD)
  ultimately show ?thesis by (rule R_trans)
qed

lemma moves_perform:
  assumes "input_fixed (ga_env G) t input" "ap = None \<Longrightarrow> allowed_call G t input"
  shows "moves (perform_execution G a token p t input actor auth rc ap)"
  unfolding perform_execution_def
proof (rule moves_bind_attempted)
  fix r v r1 x r'
  assume bound: "currentLocalExecutionAuthorizationBinding G a t ap Dispatched r = (Inr v, r1)"
  obtain b sa c sap where v: "v = (b, sa, c, sap)" by (cases v)
  assume "(case Inr v of Inl e \<Rightarrow> abort_execution G a UnknownOutcome t input actor auth rc (error_name e)
      ''execution_authorization_binding_mismatch'' (gate_message e)
    | Inr (b, storedAttempt, current, storedApproval) \<Rightarrow>
        bind_act (attempted (execute_registered G token b storedAttempt current storedApproval input (tc_toolName t)))
          (\<lambda>started. case started of
             Inl e \<Rightarrow> abort_execution G a UnknownOutcome t input actor auth rc (error_name e)
               (case e of GateAuthorization x \<Rightarrow> coalesce (exec_code x) ''executor_threw_after_dispatch''
                | _ \<Rightarrow> ''executor_threw_after_dispatch'') (gate_message e)
           | Inr promise \<Rightarrow> bind_act (auditExecutionAttempt G ''execution.attempt_dispatched'' a actor auth (Some p) None)
               (\<lambda>_. bind_act (at_once G (\<lambda>w. ((), w))) (\<lambda>_. case promise of
                  ToolThrows n m \<Rightarrow> abort_execution G a UnknownOutcome t input actor auth rc n ''executor_threw_after_dispatch'' m
                | ToolRejects n m \<Rightarrow> abort_execution G a UnknownOutcome t input actor auth rc n ''executor_threw_after_dispatch'' m
                | ToolResolves result \<Rightarrow> finish_execution G a t input result actor auth rc)))) r1 = (x, r')"
  note run = this [unfolded v sum.case prod.case]
  show "R r1 r'"
    by (rule performed_moves [OF bound [unfolded v] assms(1) _ _ run]) (erule assms(2), intro moving moves_outcome)
qed (intro moving, simp add: moving)

lemma moves_dispatch_local:
  assumes "input_fixed (ga_env G) t input" "ap = None \<Longrightarrow> allowed_call G t input"
  shows "moves (dispatch_local G a token p t input actor auth rc ap)"
  unfolding dispatch_local_def by (intro moving moves_perform [OF assms])

lemma moves_revalidated:
  assumes "\<And>m. moves (f m)" and "policy_permits G t input \<Longrightarrow> moves n"
  shows "moves (bind_act (finalPolicyRevalidationFailure G t input) (\<lambda>x. case x of None \<Rightarrow> n | Some m \<Rightarrow> f m))"
  by (rule moves_bind_known [OF moves_revalidation]) (auto intro: assms dest: revalidated split: option.split)

lemma moves_execute:
  assumes "ap = None \<Longrightarrow> tc_decision t = Some Allow"
  shows "moves (executeToolCall G t input actor auth rc ap)"
  unfolding executeToolCall_def Let_def
  by (intro moves_revalidated moving moves_dispatch_local call_with_input_fixed)
    (simp add: allowed_call_def call_with_input_def assms)

lemma moves_execute_approved [moving]: "moves (execute_approved G p g u i auth)"
  unfolding execute_approved_def by (intro moving moves_execute) simp

lemma moves_record_approval [moving]: "moves (record_approval G k p i auth)"
  unfolding record_approval_def by (intro moving moves_update) (rule approval_decided)

lemma moves_approve [moving]: "moves (approveApproval G k i auth)"
  unfolding approveApproval_def decide_approval_def by (intro moving)

lemma moves_allow: "tc_decision t = Some Allow \<Longrightarrow> moves (allow_submission G m t)"
  unfolding allow_submission_def by (intro moving moves_execute)

lemma moves_continue: "decided_as_evaluated m \<Longrightarrow> moves (continue_submission G m)"
  unfolding continue_submission_def decided_as_evaluated_def
  by (cases "pe_decision (sm_evaluation m)") (auto intro!: moving moves_allow)

lemma moves_reserved_key:
  assumes "decided_as_evaluated m"
    and created: "\<And>r. idem = Inr r \<Longrightarrow> ir_outcome r = Id_Created \<Longrightarrow> ir_toolCall r = sm_toolCall m"
  shows "moves (case idem of Inl e \<Rightarrow> raise (g e) | Inr r \<Rightarrow> (case ir_outcome r of
       Id_Conflict \<Rightarrow> raise c | Id_Replay \<Rightarrow> bind_act (getToolCall_gate G (h r) auth) (\<lambda>t'.
         bind_act (read_store G (k t')) (\<lambda>approval. give (approval, t')))
     | Id_Created \<Rightarrow> continue_submission G (m\<lparr>sm_toolCall := ir_toolCall r\<rparr>)))"
proof (cases idem)
  case (Inr r)
  show ?thesis
  proof (cases "ir_outcome r")
    case Id_Created
    with Inr created have "ir_toolCall r = sm_toolCall m" by simp
    then show ?thesis using Inr Id_Created moves_continue [OF assms(1)] by simp
  qed (simp_all add: Inr moving)
qed (simp add: moving)

lemma moves_store_submission:
  assumes "decided_as_evaluated m"
  shows "moves (store_submission G m h)"
proof -
  have "moves (bind_act (write_store G (createToolCall (sm_toolCall m))) (\<lambda>_. continue_submission G m))"
    by (intro moving moves_write moves_continue assms tool_call_created)
  moreover have "moves (update_store G (createToolCallIdempotentlyAtomically i t))" for i t
    by (intro moves_update) (rule tool_call_idempotent)
  ultimately show ?thesis
    unfolding store_submission_def Let_def
    by (intro moves_if moves_bind_known [where m = "update_store G _"] moves_reserved_key assms)
      (auto dest!: update_result simp: idempotent_created)
qed

lemma moves_submit [moving]: "moves (submitToolCall G q o')"
  unfolding submitToolCall_def Let_def
  by (intro moves_bind_known [OF moves_evaluate] moving moves_store_submission) (erule evaluated_decision)

lemma moves_remediation [moving]: "moves (submitRemediation G i f auth key)"
  unfolding submitRemediation_def by (intro moving)

end

end
