(* ===== verification/GateSafety.thy ===== *)
theory GateSafety
  imports GateFacts
begin

text \<open>
  The interpretations of the locales of runs on the model, and what follows for the methods of the gate: a request takes
  the store through steps of the store machine only, and a tool runs only for a dispatched attempt with the hash of its
  input, under a policy that still permits it and, where the attempt names an approval, with a quorum for that input.
\<close>

section \<open>The worlds a run has seen\<close>

interpretation seen: evolution G "\<lambda>r r'. \<exists>ws. ru_seen r' = ru_seen r @ ws" "\<lambda>_ _. True" for G
  by unfold_locales (auto simp: interfered_def Let_def)

lemma seen_grows: "seen.moves m \<Longrightarrow> m r = (x, r') \<Longrightarrow> set (ru_seen r) \<subseteq> set (ru_seen r')"
  by (drule (1) seen.movesD) auto

lemma read_seen:
  assumes "read_store G f r = (Inr x, r')"
  shows "x = f (w_store (ru_world r'))" "ru_world r' \<in> set (ru_seen r')"
  using assms by (auto simp: read_store_def wait_def at_once_def interfered_def Let_def split: if_splits)

lemma bind_act_Inr:
  assumes "bind_act m f r = (Inr y, r')"
  obtains x r1 where "m r = (Inr x, r1)" "f x r1 = (Inr y, r')"
  using assms by (auto simp: bind_act_def split: prod.splits sum.splits)

section \<open>Authorized calls of tools\<close>

definition authorized_call :: "gate \<Rightarrow> world list \<Rightarrow> invocation \<Rightarrow> bool" where
  \<comment> \<open>the worlds are those the run has seen: there the attempt was dispatched, and the approval or the allowed tool call
     was stored\<close>
  "authorized_call G seen i \<longleftrightarrow>
     (let E = ga_env G; a = iv_attempt i; t = iv_toolCall i in
      at_state a = Dispatched \<and> (\<exists>w \<in> set seen. \<exists>k. getExecutionAttempt (w_store w) k = Some a)
      \<and> tc_input t = iv_input i \<and> at_inputHash a = hashJson E (iv_input i)
      \<and> (\<exists>now. binding_failure E now (iv_approval i) a t = None) \<and> policy_permits G t (iv_input i)
      \<and> (case iv_approval i of
           Some ap \<Rightarrow> \<exists>w \<in> set seen. \<exists>k. getApproval (w_store w) k = Some ap
         | None \<Rightarrow> \<exists>u. allowed_call G u (iv_input i)
             \<and> (\<exists>w \<in> set seen. \<exists>st. getToolCall (w_store w) (tc_id u) = Some st \<and> tc_id st = tc_id t)))"

lemma authorized_call_mono: "authorized_call G seen i \<Longrightarrow> set seen \<subseteq> set seen' \<Longrightarrow> authorized_call G seen' i"
  by (auto simp: authorized_call_def Let_def split: option.splits; blast)

lemma local_binding_facts:
  assumes "local_binding G t sa st ap r = (Inr (b, a, c, ap'), r')"
  defines "d \<equiv> st\<lparr>tc_actionEnvelope := tc_actionEnvelope t, tc_actionEnvelopeHash := tc_actionEnvelopeHash t,
    tc_input := tc_input t, tc_inputHash := tc_inputHash t\<rparr>"
  shows "a = sa \<and> ap' = ap \<and> c = d \<and> policy_permits G d (tc_input d) \<and> (\<exists>now. binding_failure (ga_env G) now ap sa d = None)"
proof -
  obtain f r1 where f: "finalPolicyRevalidationFailure G d (tc_input d) r = (Inr f, r1)"
    using assms(1) unfolding local_binding_def Let_def d_def by (rule bind_act_Inr)
  then have "f = None"
    using assms(1) by (cases f) (auto simp: local_binding_def Let_def bind_act_def d_def mismatch_def raise_def)
  with f assms(1) show ?thesis
    by (auto simp: local_binding_def Let_def bind_act_def d_def now_ms_def raise_def give_def buildExecutionAuthorizationBinding_def
        dest: revalidated split: sum.splits option.splits)
qed

lemma stored_approval_read:
  assumes "(case ap of None \<Rightarrow> give None | Some x \<Rightarrow> read_store G (\<lambda>s. getApproval s (ap_id x))) r = (Inr y, r')"
  shows "y = None \<or> (\<exists>w \<in> set (ru_seen r'). \<exists>k. getApproval (w_store w) k = y)"
proof (cases ap)
  case (Some x)
  with assms have "read_store G (\<lambda>s. getApproval s (ap_id x)) r = (Inr y, r')" by simp
  then show ?thesis by (blast dest: read_seen)
qed (use assms in \<open>simp add: give_def\<close>)

lemma current_binding_stored:
  \<comment> \<open>what the binding of a dispatched attempt was rebuilt from\<close>
  assumes "currentLocalExecutionAuthorizationBinding G a t ap Dispatched r0 = (Inr (b, sa, c, sap), r')"
  obtains w st r where "getExecutionAttempt (w_store w) (at_id a) = Some sa" "at_state sa = Dispatched" "w \<in> set (ru_seen r)"
    "case sap of None \<Rightarrow> ap = None | Some x \<Rightarrow> \<exists>w \<in> set (ru_seen r). \<exists>k. getApproval (w_store w) k = Some x"
    "\<exists>w \<in> set (ru_seen r). getToolCall (w_store w) (tc_id t) = Some st"
    "local_binding G t sa st sap r = (Inr (b, sa, c, sap), r')"
proof -
  let ?read = "read_store G (\<lambda>s. getExecutionAttempt s (at_id a))" and ?read' = "read_store G (\<lambda>s. getToolCall s (tc_id t))"
  let ?read'' = "case ap of None \<Rightarrow> give None | Some x \<Rightarrow> read_store G (\<lambda>s. getApproval s (ap_id x))"
  obtain x r1 y r2 z r3 where reads: "?read r0 = (Inr x, r1)" "?read' r1 = (Inr y, r2)" "?read'' r2 = (Inr z, r3)"
    using assms unfolding currentLocalExecutionAuthorizationBinding_def by (elim bind_act_Inr)
  have rest: "x = Some xa \<Longrightarrow> y = Some ya \<Longrightarrow> at_state xa = Dispatched \<Longrightarrow> local_binding G t xa ya z r3 = (Inr (b, sa, c, sap), r')"
    "x \<noteq> None" "y \<noteq> None" "at_state (the x) = Dispatched" "z = None \<longrightarrow> ap = None" for xa ya
    using assms reads
    by (auto simp: currentLocalExecutionAuthorizationBinding_def bind_act_def mismatch_def raise_def split: option.splits if_splits)
  then obtain xa ya where xa: "x = Some xa" "y = Some ya" "at_state xa = Dispatched"
    "local_binding G t xa ya z r3 = (Inr (b, sa, c, sap), r')" "z = None \<longrightarrow> ap = None" by auto
  have same: "sa = xa" "sap = z" using local_binding_facts [OF xa(4)] by simp_all
  have grows: "set (ru_seen r1) \<subseteq> set (ru_seen r2)" "set (ru_seen r2) \<subseteq> set (ru_seen r3)"
    by (rule seen_grows [where m = ?read', OF seen.moves_read reads(2)])
      (rule seen_grows [where m = ?read'', OF seen.moves_stored_approval reads(3)])
  show ?thesis
  proof (rule that [of "ru_world r1" r3 ya])
    show "getExecutionAttempt (w_store (ru_world r1)) (at_id a) = Some sa" "ru_world r1 \<in> set (ru_seen r3)"
      using read_seen [OF reads(1)] xa(1) same grows by auto
    show "\<exists>w \<in> set (ru_seen r3). getToolCall (w_store w) (tc_id t) = Some ya"
      using read_seen [OF reads(2)] xa(2) grows by auto
    show "case sap of None \<Rightarrow> ap = None | Some x \<Rightarrow> \<exists>w \<in> set (ru_seen r3). \<exists>k. getApproval (w_store w) k = Some x"
      using stored_approval_read [OF reads(3)] xa(5) same by (cases z) auto
  qed (use xa same in simp_all)
qed

lemma dispatched_call_authorized:
  assumes "currentLocalExecutionAuthorizationBinding G a t ap Dispatched r0 = (Inr (b, sa, c, sap), r1)"
    and "input_fixed (ga_env G) t input" "ap = None \<Longrightarrow> allowed_call G t input" and "set (ru_seen r1) \<subseteq> set seen"
  shows "authorized_call G seen \<lparr>iv_attempt = sa, iv_toolCall = c, iv_approval = sap, iv_input = input\<rparr>"
proof -
  obtain w st r where stored: "getExecutionAttempt (w_store w) (at_id a) = Some sa" "at_state sa = Dispatched" "w \<in> set (ru_seen r)"
    "case sap of None \<Rightarrow> ap = None | Some x \<Rightarrow> \<exists>w \<in> set (ru_seen r). \<exists>k. getApproval (w_store w) k = Some x"
    "\<exists>w \<in> set (ru_seen r). getToolCall (w_store w) (tc_id t) = Some st"
    "local_binding G t sa st sap r = (Inr (b, sa, c, sap), r1)"
    by (rule current_binding_stored [OF assms(1)])
  have "set (ru_seen r) \<subseteq> set (ru_seen r1)"
    by (rule seen_grows [where m = "local_binding G t sa st sap", OF seen.moves_local_binding stored(6)])
  with assms(4) have seen: "set (ru_seen r) \<subseteq> set seen" by simp
  obtain now where c: "tc_input c = input" "stored_input_hash (ga_env G) c = hashJson (ga_env G) input" "tc_id c = tc_id st"
    "policy_permits G c (tc_input c)" "binding_failure (ga_env G) now sap sa c = None"
    using local_binding_facts [OF stored(6)] assms(2) by (auto simp: input_fixed_def stored_input_hash_def coalesce_def)
  then have hash: "at_inputHash sa = hashJson (ga_env G) input"
    by (auto simp: binding_failure_def Let_def split: if_splits)
  have "case sap of Some x \<Rightarrow> \<exists>w \<in> set seen. \<exists>k. getApproval (w_store w) k = Some x
      | None \<Rightarrow> \<exists>u. allowed_call G u input \<and> (\<exists>w \<in> set seen. \<exists>st. getToolCall (w_store w) (tc_id u) = Some st \<and> tc_id st = tc_id c)"
    using stored(4,5) assms(3) seen c(3) by (cases sap) auto
  with c stored(1-3) seen hash show ?thesis unfolding authorized_call_def Let_def invocation.simps by auto
qed

section \<open>What a request does to the store and to the tools\<close>

definition run_evolves :: "gate \<Rightarrow> run \<Rightarrow> run \<Rightarrow> bool" where
  \<comment> \<open>unless an identifier that was to be new was in use, the store and what was seen of it changed by steps of the machine\<close>
  "run_evolves G r r' \<longleftrightarrow>
     (ru_clash r \<longrightarrow> ru_clash r') \<and> set (ru_seen r) \<subseteq> set (ru_seen r')
     \<and> (\<exists>calls. ru_calls r' = ru_calls r @ calls \<and> (\<forall>i \<in> set calls. authorized_call G (ru_seen r') i))
     \<and> (others_step (ga_env G) (ga_rest G) \<and> \<not> ru_clash r' \<longrightarrow>
          steps (ga_env G) (w_store (ru_world r)) (w_store (ru_world r'))
          \<and> (\<forall>w \<in> set (ru_seen r'). w \<in> set (ru_seen r) \<or> steps (ga_env G) (w_store (ru_world r)) (w_store w)))"

lemma run_evolves_trans:
  assumes "run_evolves G r r'" "run_evolves G r' r''"
  shows "run_evolves G r r''"
proof -
  obtain c c' where calls: "ru_calls r' = ru_calls r @ c" "ru_calls r'' = ru_calls r' @ c'"
    "\<forall>i \<in> set c. authorized_call G (ru_seen r') i" "\<forall>i \<in> set c'. authorized_call G (ru_seen r'') i"
    using assms unfolding run_evolves_def by blast
  have seen: "set (ru_seen r) \<subseteq> set (ru_seen r')" "set (ru_seen r') \<subseteq> set (ru_seen r'')"
    using assms unfolding run_evolves_def by blast+
  have "\<forall>i \<in> set (c @ c'). authorized_call G (ru_seen r'') i"
    using calls(3,4) seen(2) by (auto intro: authorized_call_mono)
  then have c: "\<exists>calls. ru_calls r'' = ru_calls r @ calls \<and> (\<forall>i \<in> set calls. authorized_call G (ru_seen r'') i)"
    using calls(1,2) by (intro exI [of _ "c @ c'"]) simp
  have "steps (ga_env G) (w_store (ru_world r)) (w_store (ru_world r''))
      \<and> (\<forall>w \<in> set (ru_seen r''). w \<in> set (ru_seen r) \<or> steps (ga_env G) (w_store (ru_world r)) (w_store w))"
    if "others_step (ga_env G) (ga_rest G)" "\<not> ru_clash r''"
  proof -
    have "\<not> ru_clash r'" using assms(2) that(2) unfolding run_evolves_def by blast
    with assms that show ?thesis unfolding run_evolves_def by (meson rtranclp_trans)
  qed
  with c seen assms show ?thesis unfolding run_evolves_def by blast
qed

lemma run_evolves_same:
  "ru_seen r' = ru_seen r \<Longrightarrow> ru_calls r' = ru_calls r \<Longrightarrow> ru_clash r \<longrightarrow> ru_clash r' \<Longrightarrow>
    ru_clash r' \<or> steps (ga_env G) (w_store (ru_world r)) (w_store (ru_world r')) \<Longrightarrow> run_evolves G r r'"
  by (auto simp: run_evolves_def)

lemma run_evolves_interfered: "run_evolves G r (interfered G r)"
  by (auto simp: run_evolves_def interfered_def Let_def dest: rest_steps)

lemma run_evolves_call:
  "authorized_call G (ru_seen r) i \<Longrightarrow> run_evolves G r (r\<lparr>ru_calls := ru_calls r @ [i]\<rparr>)"
  by (simp add: run_evolves_def)

interpretation evolving: dispatching G "run_evolves G" "\<lambda>r. authorized_call G (ru_seen r)" for G
proof unfold_locales
  show "run_evolves G r r'' " if "run_evolves G r r'" "run_evolves G r' r''" for r r' r''
    using that by (rule run_evolves_trans)
  show "authorized_call G (ru_seen r2) \<lparr>iv_attempt = sa, iv_toolCall = c, iv_approval = sap, iv_input = input\<rparr>"
    if "currentLocalExecutionAuthorizationBinding G a t ap Dispatched r0 = (Inr (b, sa, c, sap), r1)"
      "input_fixed (ga_env G) t input" "ap = None \<Longrightarrow> allowed_call G t input" "ru_seen r2 = ru_seen r1 @ ws"
    for a t ap r0 b sa c sap r1 input r2 ws
    by (rule dispatched_call_authorized [OF that(1,2)]) (use that in auto)
  show "run_evolves G r (r\<lparr>ru_world := w\<rparr>)" if "store_step (ga_env G) (w_store (ru_world r)) (w_store w)" for r w
    by (rule run_evolves_same) (use that in auto)
qed (auto intro: run_evolves_same run_evolves_interfered run_evolves_call)

section \<open>Requests\<close>

datatype request =
  \<comment> \<open>the calls of the service's interface, with the principal that makes them\<close>
    SubmitCall submit_request submit_options
  | ApproveCall string decide_input "auth_context option"
  | RejectCall string refuse_input "auth_context option"
  | CancelCall string refuse_input "auth_context option"
  | RemediateCall string remediate_input "auth_context option" "string option"
  | ReviewApproval string "auth_context option"
  | ReadApproval string "auth_context option"
  | ReadTrace string "auth_context option"

fun serve :: "gate \<Rightarrow> request \<Rightarrow> unit act" where
  "serve G (SubmitCall q o') = bind_act (submitToolCall G q o') (\<lambda>_. give ())"
| "serve G (ApproveCall k i auth) = bind_act (approveApproval G k i auth) (\<lambda>_. give ())"
| "serve G (RejectCall k i auth) = bind_act (rejectApproval G k i auth) (\<lambda>_. give ())"
| "serve G (CancelCall k i auth) = bind_act (cancelApproval G k i auth) (\<lambda>_. give ())"
| "serve G (RemediateCall k i auth key) = bind_act (submitRemediation G k i auth key) (\<lambda>_. give ())"
| "serve G (ReviewApproval k auth) = bind_act (getApprovalReview G k auth) (\<lambda>_. give ())"
| "serve G (ReadApproval k auth) = bind_act (getApproval_gate G k auth) (\<lambda>_. give ())"
| "serve G (ReadTrace k auth) = bind_act (getDecisionTrace G k auth) (\<lambda>_. give ())"

definition fresh_run :: "world \<Rightarrow> run" where
  \<comment> \<open>a request that starts in this world\<close>
  "fresh_run w = \<lparr>ru_world = w, ru_waits = 0, ru_clock = 0, ru_ids = 0, ru_seen = [], ru_clash = False, ru_calls = []\<rparr>"

lemma serve_evolves: "evolving.moves G (serve G q)"
  by (cases q) (simp_all add: evolving.moving)

lemma served:
  assumes "serve G q (fresh_run w) = (x, r)"
  shows "\<forall>i \<in> set (ru_calls r). authorized_call G (ru_seen r) i"
    and "others_step (ga_env G) (ga_rest G) \<Longrightarrow> \<not> ru_clash r \<Longrightarrow>
      steps (ga_env G) (w_store w) (w_store (ru_world r)) \<and> (\<forall>v \<in> set (ru_seen r). steps (ga_env G) (w_store w) (w_store v))"
  using evolving.movesD [OF serve_evolves assms] by (auto simp: run_evolves_def fresh_run_def)

lemma bound_approval:
  assumes "binding_failure E now (Some ap) a t = None"
  shows "ap_status ap = Approval_Approved" "ap_toolCallId ap = tc_id t" "ab_approvalId (at_binding a) = Some (ap_id ap)"
    "or_else (ap_approvedInputHash ap) (ap_originalInputHash ap) = Some (at_inputHash a)"
  using assms by (auto simp: binding_failure_def assertApprovalBinding_def Let_def split: if_splits)

lemma approved_by_quorum:
  assumes "reachable E s" "getApproval s k = Some ap" "binding_failure E now (Some ap) a t = None"
  shows "ap_status ap = Approval_Approved \<and> ap_toolCallId ap = tc_id t
    \<and> quorum ap \<le> int (length (decisions_of ap)) \<and> distinct (map ad_actor (decisions_of ap))
    \<and> (\<forall>d \<in> set (decisions_of ap). ad_approvedInputHash d = Some (at_inputHash a))"
proof -
  have "approval_ok ap"
    using reachable_store_good [OF assms(1)] assms(2) by (auto simp: store_good_def approvals_ok_def getApproval_def)
  with bound_approval [OF assms(3)] show ?thesis
    by (auto simp: approval_ok_def agreed_def or_else_def intro: independent_distinct split: option.splits)
qed

section \<open>An example\<close>

definition demo_env :: env where
  \<comment> \<open>a time is written as its decimal\<close>
  "demo_env = \<lparr>sha256Hex = (\<lambda>s. replicate 64 (CHR ''a'')), hmacSha256Hex = (\<lambda>k s. nat_digits (length s)),
     localeCompare = (\<lambda>_ _. 0), dateParse = (\<lambda>s. Some (foldl (\<lambda>v c. 10 * v + (of_char c - 48)) 0 s)),
     isoString = (\<lambda>n. nat_digits (nat n))\<rparr>"

definition demo_rule :: policy_rule where
  "demo_rule = \<lparr>pr_approval = Never, pr_approvers = None, pr_conditions = None, pr_externalExecution = None,
     pr_notifyChannels = None, pr_resultSource = None, pr_influence = None, pr_redaction = None, pr_risk = None,
     pr_reason = None\<rparr>"

definition demo_gate :: gate where
  "demo_gate = \<lparr>ga_env = demo_env, ga_rest = undisturbed, ga_fate = (\<lambda>_. Happens), ga_clock = (\<lambda>_. 1000), ga_ids = (\<lambda>_. ''1''),
     ga_policy = \<lparr>pf_version = Dec 1 0, pf_default = demo_rule, pf_tools = []\<rparr>, ga_policyProvider = None,
     ga_tools = [(''echo'', \<lambda>v. ToolResolves v)], ga_directory = False, ga_grants = None, ga_localDisabled = False,
     ga_receiptSecret = None, ga_authorizationTtlMs = None, ga_workspaceId = None, ga_lifecycle = None,
     ga_remediation = (\<lambda>_. None)\<rparr>"

definition demo_request :: submit_request where
  "demo_request = \<lparr>sr_toolName = ''echo'', sr_input = JObj [(''a'', JStr ''b'')], sr_requestedBy = ''u'', sr_agentId = ''g'',
     sr_reason = ''r'', sr_action = None, sr_metadata = JUndef\<rparr>"

definition demo_options :: submit_options where
  "demo_options = \<lparr>so_actionContractId = None, so_auth = None, so_connectionId = None, so_forceApproval = None,
     so_idempotencyKey = None, so_ingress = None, so_supersedesIntentId = None, so_toolCallId = None\<rparr>"

definition demo_world :: world where
  "demo_world = \<lparr>w_store = empty_store, w_audit = \<lparr>al_rows = [], al_eventIds = []\<rparr>, w_exec = fresh_authority,
     w_native = createNativeExecutionAuthorizationAuthority\<rparr>"

section \<open>Properties\<close>



lemma tools_run_only_when_authorized:
  assumes "reachable (ga_env G) (w_store w)" and "others_step (ga_env G) (ga_rest G)"
    and "serve G q (fresh_run w) = (x, r)" and "\<not> ru_clash r" and "i \<in> set (ru_calls r)"
  shows "at_state (iv_attempt i) = Dispatched \<and> at_inputHash (iv_attempt i) = hashJson (ga_env G) (iv_input i)
    \<and> (\<exists>s k. reachable (ga_env G) s \<and> getExecutionAttempt s k = Some (iv_attempt i))
    \<and> policy_permits G (iv_toolCall i) (iv_input i)
    \<and> (case iv_approval i of
         None \<Rightarrow> \<exists>u. allowed_call G u (iv_input i)
       | Some ap \<Rightarrow> ap_status ap = Approval_Approved \<and> ap_toolCallId ap = tc_id (iv_toolCall i)
           \<and> quorum ap \<le> int (length (decisions_of ap)) \<and> distinct (map ad_actor (decisions_of ap))
           \<and> (\<forall>d \<in> set (decisions_of ap). ad_approvedInputHash d = Some (hashJson (ga_env G) (iv_input i))))"
proof -
  have seen: "reachable (ga_env G) (w_store v)" if "v \<in> set (ru_seen r)" for v
    using served(2) [OF assms(3,2,4)] assms(1) that by (blast intro: rtranclp_trans)
  from served(1) [OF assms(3)] assms(5) have auth: "authorized_call G (ru_seen r) i" by blast
  have quorum: "case iv_approval i of None \<Rightarrow> \<exists>u. allowed_call G u (iv_input i)
    | Some ap \<Rightarrow> ap_status ap = Approval_Approved \<and> ap_toolCallId ap = tc_id (iv_toolCall i)
        \<and> quorum ap \<le> int (length (decisions_of ap)) \<and> distinct (map ad_actor (decisions_of ap))
        \<and> (\<forall>d \<in> set (decisions_of ap). ad_approvedInputHash d = Some (hashJson (ga_env G) (iv_input i)))"
  proof (cases "iv_approval i")
    case None
    with auth show ?thesis by (auto simp: authorized_call_def Let_def)
  next
    case (Some ap)
    with auth obtain v k now where "v \<in> set (ru_seen r)" "getApproval (w_store v) k = Some ap"
      "binding_failure (ga_env G) now (Some ap) (iv_attempt i) (iv_toolCall i) = None"
      "at_inputHash (iv_attempt i) = hashJson (ga_env G) (iv_input i)"
      by (auto simp: authorized_call_def Let_def)
    with approved_by_quorum [OF seen] Some show ?thesis by auto
  qed
  with auth seen show ?thesis by (auto simp: authorized_call_def Let_def; blast)
qed

end
