(* ===== verification/Spec2Isabelle.thy ===== *)
theory Spec2Isabelle
  imports JsonText ActionRequestFacts PolicyFacts InfluenceEvidence StoreOutcomeFacts AuditChainFacts GrantReport
    PolicyProviderFacts DecisionFacts PolicyTraceFacts ApproverDirectoryFacts RedactionFacts GateSafety
begin

text \<open>
  ActionProxy puts a policy and human approval between an agent and the tools it calls. A tool call is
  submitted to the server (\<open>apps/server\<close>), the policy decides it (\<open>policy/\<close>), a decision that needs
  approval collects decisions of people (\<open>contracts/approval-authorization.ts\<close>), an approved call becomes one
  execution attempt (\<open>contracts/execution-attempt.ts\<close>), an external execution needs a grant, and everything is
  written by the operations of a store (\<open>storage/\<close>). Paths are under \<open>apps/server/src/\<close>.

  What is modelled, in the order of the calls.

  \<^item> \<open>Prelude\<close>: the parameters (\<open>env\<close>: SHA-256, HMAC, the collation and \<open>Date.parse\<close> are code of the
    platform), optional values, strings, insertion-ordered maps (\<open>Map\<close>) and the stable sort, with the
    contracts \<open>keyed_collection\<close> and \<open>comparator\<close>. \<open>Transitions\<close>: the contracts of step relations.
  \<^item> \<open>JsJson\<close>: JSON values, \<open>stableStringify\<close> and \<open>hashJson\<close> (\<open>security/crypto.ts\<close>), canonical JSON
    (\<open>contracts/action-request.ts\<close>). \<open>NumberText\<close> shows that the text of a number determines it, \<open>CanonicalJson\<close> that the
    canonical text determines the value, \<open>HashFacts\<close> what the two digests commit to, and where \<open>hashJson\<close> does not.
  \<^item> \<open>JsonScan\<close>: the check of a request body for repeated keys (\<open>assertNoDuplicateJsonKeys\<close>), a recursive descent over
    the text; \<open>JsonText\<close>: the grammar of JSON as trees with a printer, and that the check accepts exactly its texts
    without repeated keys.
  \<^item> \<open>ActionRequest\<close>: \<open>normalizeActionRequest\<close>, from a submitted call to a canonical request with provenance and
    digests; \<open>ActionRequestFacts\<close>: what the digests determine, which fields a client can influence, and when it fails.
  \<^item> \<open>Policy\<close>: \<open>policy/policy-types.ts\<close> and \<open>policy/evaluate-policy.ts\<close>. \<open>PolicyFacts\<close> gives the rule selection
    as a search over the candidate rules and shows that the evaluator implements it, that the trace
    agrees with the decision, and that missing context never satisfies a condition.
  \<^item> \<open>PolicyProvider\<close>, \<open>PolicyProviderFacts\<close>: \<open>policy/policy-provider.ts\<close>, the seam in front of the evaluator: it fails
    closed, and with the YAML provider it is the evaluator. What a provider returns is typed here, so the checks
    of types in \<open>isPolicyRule\<close> and \<open>isRuleEvaluation\<close> that no value of the type fails are left out.
  \<^item> \<open>ActionEnvelope\<close>: \<open>security/action-envelope.ts\<close> and \<open>security/scopes.ts\<close>. \<open>Decision\<close>, \<open>DecisionFacts\<close>:
    \<open>contracts/decision.ts\<close>: a decision as JSON, its identifier, and the validation of a stored one.
  \<^item> \<open>PolicyTrace\<close>, \<open>PolicyTraceFacts\<close>: \<open>policy/policy-trace.ts\<close>: the policy context of a submitted and of a stored
    call, the context frozen at ingress, and the traces.
  \<^item> \<open>Influence\<close>: \<open>policy/content-influence.ts\<close>: untrusted content only makes a decision stricter.
    \<open>InfluenceEvidence\<close>: \<open>contracts/content-influence.ts\<close>: the evidence built for a decision validates and
    its binding hash determines it.
  \<^item> \<open>Models\<close>, \<open>Encoders\<close>, \<open>Directory\<close>: the records of \<open>models.ts\<close>, \<open>storage/store.ts\<close> and the contracts, and
    their JSON forms where a digest is taken of them.
  \<^item> \<open>ApprovalAuth\<close>, \<open>ApprovalAuthFacts\<close>: \<open>contracts/approval-authorization.ts\<close>: building, validating and
    matching the authorization of an approval. \<open>Attempts\<close>: \<open>contracts/execution-attempt.ts\<close>.
  \<^item> \<open>StoreState\<close>, \<open>StoreDirectory\<close>, \<open>StoreExposure\<close>, \<open>StoreApprovals\<close>, \<open>StoreAttempts\<close>, \<open>StorePublication\<close>,
    \<open>StoreOutcome\<close>: the class \<open>MemoryStore\<close> (\<open>storage/memory-store.ts\<close>), all of its operations, and the
    integrity checks in \<open>storage/*-atomicity.ts\<close> and \<open>storage/approver-principal-constraint.ts\<close>. A method is a
    function of the store that returns the result and the next store; the bodies of the class never
    await, so each is one step. Records are values: the class hands out the objects it keeps, and callers that
    change a record in place are outside the model.
  \<^item> \<open>StoreApprovalFacts\<close>, \<open>StoreAttemptFacts\<close>, \<open>StoreWriteFacts\<close>, \<open>StoreFrames\<close>: what each operation does,
    preserves and leaves alone.
  \<^item> \<open>StoreMachine\<close>: the step relation \<open>store_step\<close> over all operations the services call, its invariant
    \<open>store_good\<close> and the order \<open>store_progress\<close> in which stores evolve, as an interpretation of
    \<open>progress_system\<close>. \<open>StoreHistory\<close>, \<open>StoreExternal\<close> and \<open>StoreOutcomeFacts\<close> state the properties of all
    histories: quorum, finality, one attempt per tool call, single use of grants, stale exposure guards,
    idempotency keys, publication and recorded outcomes.
  \<^item> \<open>ApproverDirectory\<close>, \<open>ApproverDirectoryFacts\<close>: \<open>services/approver-directory.ts\<close> over the store: generated
    identifiers and who is asked for an approval. Its methods await the store; each is modelled without interleaving.
  \<^item> \<open>AuditChain\<close>, \<open>AuditChainFacts\<close>: \<open>security/audit-chain.ts\<close> over \<open>storage/jsonl-audit-store.ts\<close>: a log that was
    only appended to verifies, its times increase, and its last hash fixes every event of it.

  \<^item> \<open>Capabilities\<close>: traces of an authority that issues opaque tokens (\<open>single_use_authority\<close>) and
    \<open>contracts/native-execution-authorization.ts\<close>; \<open>ExecutionAuth\<close>, \<open>ExecutionAuthFacts\<close>:
    \<open>contracts/execution-authorization.ts\<close>. A token is a number, the \<open>WeakMap\<close> that knows it a map.
  \<^item> \<open>Receipts\<close>: \<open>security/action-receipts.ts\<close>, \<open>signGrant\<close>, \<open>safeEqual\<close>, \<open>security/result-visibility.ts\<close>.
    \<open>GrantChecks\<close>: the checks of \<open>security/execution-grants.ts\<close> and \<open>security/influence-scope.ts\<close>.
  \<^item> \<open>Grants\<close>: the class \<open>ExecutionGrantService\<close>: \<open>prepareGrant\<close>, \<open>createGrant\<close>, \<open>consumeGrant\<close>. Its methods await the
    store; what others do meanwhile is the argument \<open>rest\<close>, an arbitrary change of the world, so statements for all
    \<open>rest\<close> whose changes are store steps cover every interleaving. The clock, random identifiers, the
    dispatch hook (\<open>assertExternalDispatchCurrent\<close> of the action gate) and the dispatch coordinator of other editions
    are arguments. The execution authorizations are always installed, as the type of the constructor requires.
    \<open>GrantFacts\<close>: what a redeemed grant stands for; \<open>GrantRedeem\<close>: a current grant can be redeemed, once.
    \<open>GrantOutcome\<close>: \<open>reportOutcome\<close>, where also any write that releases a result may fail; \<open>GrantOutcomeFacts\<close>: a result
    with a source is exposed before it is released, and a report is final; \<open>GrantReport\<close>: a run of the service.

  \<^item> \<open>Redaction\<close>, \<open>RedactionFacts\<close>: \<open>security/redaction.ts\<close>: what is shown of inputs, results and receipts.
  \<^item> The service in the middle, \<open>ActionProxyService\<close> (\<open>services/action-gate.ts\<close>). \<open>GateRun\<close>: its dependencies
    (\<open>gate\<close>), and computations with errors over a run: at every await the world first changes by \<open>ga_rest\<close>, then the
    awaited operation happens, is lost, or happens and is answered by an error (\<open>ga_fate\<close>). The locale \<open>evolution\<close>
    collects what a computation may do to a run. \<open>GateChecks\<close>: who may decide, the verified influence scope, the
    decision after influence. \<open>GatePolicy\<close>: content influence of a submission and the revalidation of the policy
    before an approval and before a dispatch. \<open>GateExecute\<close>: receipts and attempts. \<open>GateDispatch\<close>:
    \<open>executeToolCall\<close> with \<open>services/tool-registry.ts\<close>, and \<open>authorizeExternalExecution\<close>. \<open>GateDecide\<close>:
    approving, rejecting, cancelling and expiring an approval, and the publication of a prepared action.
    \<open>GateSubmit\<close>: \<open>submitToolCall\<close>. \<open>GateReads\<close>: the records shown, the review of an approval and
    \<open>services/remediation.ts\<close>.
  \<^item> \<open>GateFacts\<close>: every method takes a run only where \<open>evolution\<close> allows, and calls a tool only after the checks of
    a dispatch (locale \<open>dispatching\<close>). \<open>GateSafety\<close> interprets the locales: a request changes the store by steps of
    \<open>store_step\<close> only, and a tool runs only for a dispatched attempt, under a policy that permits its input, and with a
    quorum for that input where it needs one.

  Hypotheses. The collation is a comparator where an order is claimed (\<open>comparator (localeCompare E)\<close>), digests
  are not empty; nothing else is assumed of the platform. Freshness of identifiers and the shape of new records
  are premises of the rules of \<open>store_step\<close>, from the callers in \<open>services/action-gate.ts\<close> and
  \<open>security/execution-grants.ts\<close>. Recursion is structural or has a termination proof; no fuel is used.

  Of \<open>action-gate.ts\<close> these are not modelled: a lifecycle that itself prepares, stores or revises a submission
  (\<open>prepareSubmission\<close>, \<open>persistSubmission\<close>, \<open>persistRevision\<close>, \<open>reviseApproval\<close>: code of other editions), the delivery
  of notifications and the synchronisation of their presentation (I/O with Slack, Telegram and email, which write records of
  their own and are part of what the others do), the list of pending approvals with its concurrent expiry, and telemetry.

  Not modelled: the HTTP routes, the integrations, the web interface, the SDK and the MCP wrapper, the SQL
  stores (\<open>sqlite-store.ts\<close>, \<open>postgres-store.ts\<close>) and configuration loading; the manifest lists them with
  the reasons. Numbers are decimal (\<open>Dec m e\<close>) and exact: rounding to doubles is outside the model. Strings are
  sequences of 8-bit characters, compared by code; surrogate pairs do not occur.
\<close>

end
